(* ===== verification/NM_Prelude.thy ===== *)
theory NM_Prelude
  imports Complex_Main
begin

text \<open>
  Prelude of the development: the program monad in which every handler is written, the
  calculus of preserved properties over it, and the generic lemmas on lists, options and
  Rust casts that the components share.

  A handler of the services is a program over a state \<open>'s\<close>: it runs statement after
  statement, and an early return (\<open>?\<close>, \<open>return Err(..)\<close>) stops it and keeps the effects
  of the statements that have already run. None of the handlers opens a database
  transaction, so nothing is rolled back.
\<close>

section \<open>Programs with early return and persistent effects\<close>

type_synonym ('s, 'e, 'a) prog = "'s \<Rightarrow> ('e + 'a) \<times> 's"

definition retE :: "'a \<Rightarrow> ('s, 'e, 'a) prog" where
  "retE x = (\<lambda>s. (Inr x, s))"

definition failE :: "'e \<Rightarrow> ('s, 'e, 'a) prog" where
  "failE e = (\<lambda>s. (Inl e, s))"

definition bindE :: "('s, 'e, 'a) prog \<Rightarrow> ('a \<Rightarrow> ('s, 'e, 'b) prog) \<Rightarrow> ('s, 'e, 'b) prog" where
  "bindE m f = (\<lambda>s. case m s of (Inl e, s') \<Rightarrow> (Inl e, s') | (Inr x, s') \<Rightarrow> f x s')"

definition seqE :: "('s, 'e, 'a) prog \<Rightarrow> ('s, 'e, 'b) prog \<Rightarrow> ('s, 'e, 'b) prog" where
  "seqE m k = bindE m (\<lambda>_. k)"

text \<open>\<open>.map_err(g)\<close>: the error of a call is translated.\<close>

definition map_errE :: "('e \<Rightarrow> 'f) \<Rightarrow> ('s, 'e, 'a) prog \<Rightarrow> ('s, 'f, 'a) prog" where
  "map_errE g m = (\<lambda>s. case m s of (Inl e, s') \<Rightarrow> (Inl (g e), s') | (Inr x, s') \<Rightarrow> (Inr x, s'))"

text \<open>\<open>let _ = call.await\<close> and \<open>.ok()\<close>: the call runs, its error is dropped.\<close>

definition okE :: "('s, 'e, 'a) prog \<Rightarrow> ('s, 'f, 'a option) prog" where
  "okE m = (\<lambda>s. case m s of (Inl e, s') \<Rightarrow> (Inr None, s') | (Inr x, s') \<Rightarrow> (Inr (Some x), s'))"

text \<open>\<open>match call.await { Ok(x) => .., Err(e) => .. }\<close>\<close>

definition matchE ::
  "('s, 'e, 'a) prog \<Rightarrow> ('a \<Rightarrow> ('s, 'f, 'b) prog) \<Rightarrow> ('e \<Rightarrow> ('s, 'f, 'b) prog) \<Rightarrow> ('s, 'f, 'b) prog" where
  "matchE m f g = (\<lambda>s. case m s of (Inl e, s') \<Rightarrow> g e s' | (Inr x, s') \<Rightarrow> f x s')"

text \<open>\<open>.ok_or(e)?\<close>\<close>

definition someE :: "'e \<Rightarrow> 'a option \<Rightarrow> ('s, 'e, 'a) prog" where
  "someE e x = (case x of None \<Rightarrow> failE e | Some y \<Rightarrow> retE y)"

text \<open>\<open>for x in xs { body }\<close>: the body's \<open>?\<close> leaves the loop and the function.\<close>

fun forE :: "'a list \<Rightarrow> ('a \<Rightarrow> ('s, 'e, unit) prog) \<Rightarrow> ('s, 'e, unit) prog" where
  "forE [] body = retE ()"
| "forE (x # xs) body = seqE (body x) (forE xs body)"

named_theorems prog_simps \<open>one-step unfolding of the program operators\<close>

lemma retE_run [prog_simps]: "retE x s = (Inr x, s)"
  by (simp add: retE_def)

lemma failE_run [prog_simps]: "failE e s = (Inl e, s)"
  by (simp add: failE_def)

lemma bindE_run [prog_simps]:
  "bindE m f s = (case m s of (Inl e, s') \<Rightarrow> (Inl e, s') | (Inr x, s') \<Rightarrow> f x s')"
  by (simp add: bindE_def)

lemma seqE_run [prog_simps]:
  "seqE m k s = (case m s of (Inl e, s') \<Rightarrow> (Inl e, s') | (Inr x, s') \<Rightarrow> k s')"
  by (simp add: seqE_def bindE_def)

lemma map_errE_run [prog_simps]:
  "map_errE g m s = (case m s of (Inl e, s') \<Rightarrow> (Inl (g e), s') | (Inr x, s') \<Rightarrow> (Inr x, s'))"
  by (simp add: map_errE_def)

lemma okE_run [prog_simps]:
  "okE m s = (case m s of (Inl e, s') \<Rightarrow> (Inr None, s') | (Inr x, s') \<Rightarrow> (Inr (Some x), s'))"
  by (simp add: okE_def)

lemma matchE_run [prog_simps]:
  "matchE m f g s = (case m s of (Inl e, s') \<Rightarrow> g e s' | (Inr x, s') \<Rightarrow> f x s')"
  by (simp add: matchE_def)

lemma someE_run [prog_simps]:
  "someE e x s = (case x of None \<Rightarrow> (Inl e, s) | Some y \<Rightarrow> (Inr y, s))"
  by (simp add: someE_def failE_def retE_def split: option.split)

text \<open>The monad laws: a handler's meaning does not depend on how its statements are grouped.\<close>

lemma retE_bindE [simp]: "bindE (retE x) f = f x"
  by (simp add: bindE_def retE_def)

lemma failE_bindE [simp]: "bindE (failE e) f = failE e"
  by (simp add: bindE_def failE_def)

lemma bindE_retE [simp]: "bindE m retE = m"
  by (rule ext) (simp add: bindE_def retE_def split: prod.split sum.split)

lemma bindE_assoc: "bindE (bindE m f) g = bindE m (\<lambda>x. bindE (f x) g)"
  by (rule ext) (simp add: bindE_def split: prod.split sum.split)

text \<open>A program that returns normally, taken apart.\<close>

lemma bindE_ok: "bindE m f s = (Inr y, s') \<longleftrightarrow> (\<exists>x t. m s = (Inr x, t) \<and> f x t = (Inr y, s'))"
  by (auto simp: bindE_def split: prod.splits sum.splits)

lemma seqE_ok: "seqE m k s = (Inr y, s') \<longleftrightarrow> (\<exists>x t. m s = (Inr x, t) \<and> k t = (Inr y, s'))"
  by (auto simp: seqE_def bindE_ok)

lemma retE_ok: "retE x s = (Inr y, s') \<longleftrightarrow> x = y \<and> s = s'"
  by (auto simp: retE_def)

lemma failE_ok: "failE e s = (Inr y, s') \<longleftrightarrow> False"
  by (simp add: failE_def)

lemma okE_ok: "okE m s = (Inr y, s') \<longleftrightarrow> (\<exists>r. m s = (r, s') \<and> y = (case r of Inr x \<Rightarrow> Some x | Inl _ \<Rightarrow> None))"
  by (auto simp: okE_def split: prod.splits sum.splits)

lemma map_errE_ok: "map_errE g m s = (Inr y, s') \<longleftrightarrow> m s = (Inr y, s')"
  by (auto simp: map_errE_def split: prod.splits sum.splits)

lemma matchE_ok: "matchE m f g s = (Inr y, s') \<longleftrightarrow>
    (\<exists>x t. m s = (Inr x, t) \<and> f x t = (Inr y, s')) \<or> (\<exists>e t. m s = (Inl e, t) \<and> g e t = (Inr y, s'))"
  by (auto simp: matchE_def split: prod.splits sum.splits)

lemma if_ok: "(if c then m else k) s = (Inr y, s') \<longleftrightarrow> (if c then m s = (Inr y, s') else k s = (Inr y, s'))"
  by simp

subsection \<open>Properties that every prefix of a program keeps\<close>

text \<open>
  \<open>keeps P m\<close>: whenever \<open>P\<close> holds of the state, it holds of the state \<open>m\<close> leaves behind,
  whether \<open>m\<close> returned normally or stopped at an error half way through.
\<close>

definition keeps :: "('s \<Rightarrow> bool) \<Rightarrow> ('s, 'e, 'a) prog \<Rightarrow> bool" where
  "keeps P m \<longleftrightarrow> (\<forall>s. P s \<longrightarrow> P (snd (m s)))"

named_theorems keeps_intro \<open>introduction rules for preserved properties\<close>

lemma keepsD: "keeps P m \<Longrightarrow> P s \<Longrightarrow> P (snd (m s))"
  by (simp add: keeps_def)

lemma keeps_stepD: "keeps P m \<Longrightarrow> m s = (r, s') \<Longrightarrow> P s \<Longrightarrow> P s'"
  by (metis keepsD snd_conv)

lemma keepsI: "(\<And>s. P s \<Longrightarrow> P (snd (m s))) \<Longrightarrow> keeps P m"
  by (simp add: keeps_def)

lemma keeps_retE [keeps_intro]: "keeps P (retE x)"
  by (simp add: keeps_def retE_def)

lemma keeps_failE [keeps_intro]: "keeps P (failE e)"
  by (simp add: keeps_def failE_def)

lemma keeps_bindE [keeps_intro]: "keeps P m \<Longrightarrow> (\<And>x. keeps P (f x)) \<Longrightarrow> keeps P (bindE m f)"
  by (fastforce simp: keeps_def bindE_def split: prod.split sum.split)

lemma keeps_seqE [keeps_intro]: "keeps P m \<Longrightarrow> keeps P k \<Longrightarrow> keeps P (seqE m k)"
  by (simp add: seqE_def keeps_bindE)

lemma keeps_map_errE [keeps_intro]: "keeps P m \<Longrightarrow> keeps P (map_errE g m)"
  by (fastforce simp: keeps_def map_errE_def split: prod.split sum.split)

lemma keeps_okE [keeps_intro]: "keeps P m \<Longrightarrow> keeps P (okE m)"
  by (fastforce simp: keeps_def okE_def split: prod.split sum.split)

lemma keeps_matchE [keeps_intro]:
  "keeps P m \<Longrightarrow> (\<And>x. keeps P (f x)) \<Longrightarrow> (\<And>e. keeps P (g e)) \<Longrightarrow> keeps P (matchE m f g)"
  by (fastforce simp: keeps_def matchE_def split: prod.split sum.split)

lemma keeps_someE [keeps_intro]: "keeps P (someE e x)"
  by (simp add: someE_def keeps_retE keeps_failE split: option.split)

lemma keeps_forE [keeps_intro]: "(\<And>x. keeps P (body x)) \<Longrightarrow> keeps P (forE xs body)"
  by (induction xs) (auto intro: keeps_retE keeps_seqE)

lemma keeps_if [keeps_intro]:
  "(b \<Longrightarrow> keeps P m) \<Longrightarrow> (\<not> b \<Longrightarrow> keeps P k) \<Longrightarrow> keeps P (if b then m else k)"
  by simp

lemma keeps_case_option [keeps_intro]:
  "keeps P n \<Longrightarrow> (\<And>x. keeps P (f x)) \<Longrightarrow> keeps P (case x of None \<Rightarrow> n | Some y \<Rightarrow> f y)"
  by (simp split: option.split)

lemma keeps_case_prod [keeps_intro]:
  "(\<And>a b. keeps P (f a b)) \<Longrightarrow> keeps P (case x of (a, b) \<Rightarrow> f a b)"
  by (simp split: prod.split)

lemma keeps_Let [keeps_intro]: "(\<And>x. keeps P (f x)) \<Longrightarrow> keeps P (Let t f)"
  by simp

section \<open>Results\<close>

lemma map_sum_eq_Inr: "map_sum f g x = Inr y \<longleftrightarrow> (\<exists>z. x = Inr z \<and> y = g z)"
  by (cases x) auto

lemma map_sum_eq_Inl: "map_sum f g x = Inl e \<longleftrightarrow> (\<exists>z. x = Inl z \<and> e = f z)"
  by (cases x) auto

definition and_then :: "'e + 'a \<Rightarrow> ('a \<Rightarrow> 'e + 'b) \<Rightarrow> 'e + 'b" where
  "and_then m f = (case m of Inl e \<Rightarrow> Inl e | Inr x \<Rightarrow> f x)"

lemma and_then_simps [simp]: "and_then (Inl e) f = Inl e" "and_then (Inr x) f = f x"
  by (simp_all add: and_then_def)

lemma and_then_eq_Inr: "and_then m f = Inr y \<longleftrightarrow> (\<exists>x. m = Inr x \<and> f x = Inr y)"
  by (cases m) auto

lemma and_then_eq_Inl: "and_then m f = Inl e \<longleftrightarrow> m = Inl e \<or> (\<exists>x. m = Inr x \<and> f x = Inl e)"
  by (cases m) auto

section \<open>Fallible traversal of a list\<close>

fun traverse :: "('a \<Rightarrow> 'e + 'b) \<Rightarrow> 'a list \<Rightarrow> 'e + 'b list" where
  "traverse f [] = Inr []"
| "traverse f (x # xs) =
     (case f x of Inl e \<Rightarrow> Inl e
      | Inr y \<Rightarrow> (case traverse f xs of Inl e \<Rightarrow> Inl e | Inr ys \<Rightarrow> Inr (y # ys)))"

lemma traverse_Inr_map:
  "(\<And>x. x \<in> set xs \<Longrightarrow> f x = Inr (g x)) \<Longrightarrow> traverse f xs = Inr (map g xs)"
  by (induction xs) auto

lemma traverse_Inr_list_all2:
  "traverse f xs = Inr ys \<Longrightarrow> list_all2 (\<lambda>x y. f x = Inr y) xs ys"
  by (induction xs arbitrary: ys) (auto split: sum.splits)

lemma traverse_Inr_in_set:
  "traverse f xs = Inr ys \<Longrightarrow> y \<in> set ys \<Longrightarrow> \<exists>x\<in>set xs. f x = Inr y"
  by (induction xs arbitrary: ys) (auto split: sum.splits)

section \<open>Rust integer casts and byte strings\<close>

text \<open>
  A Rust integer is an \<open>int\<close> in the range of its type; \<open>as\<close> between integer types wraps.
\<close>

definition as_i32 :: "int \<Rightarrow> int" where
  "as_i32 x = (x + 2147483648) mod 4294967296 - 2147483648"

definition as_u32 :: "int \<Rightarrow> int" where
  "as_u32 x = x mod 4294967296"

definition as_i64 :: "int \<Rightarrow> int" where
  "as_i64 x = (x + 9223372036854775808) mod 18446744073709551616 - 9223372036854775808"

definition as_u64 :: "int \<Rightarrow> int" where
  "as_u64 x = x mod 18446744073709551616"

definition i32_range :: "int \<Rightarrow> bool" where
  "i32_range x \<longleftrightarrow> - 2147483648 \<le> x \<and> x < 2147483648"

definition i64_range :: "int \<Rightarrow> bool" where
  "i64_range x \<longleftrightarrow> - 9223372036854775808 \<le> x \<and> x < 9223372036854775808"

lemma as_i32_id [simp]: "i32_range x \<Longrightarrow> as_i32 x = x"
  by (simp add: as_i32_def i32_range_def mod_pos_pos_trivial)

lemma as_i32_range [simp]: "i32_range (as_i32 x)"
proof -
  have "0 \<le> (x + 2147483648) mod 4294967296" "(x + 2147483648) mod 4294967296 < 4294967296"
    by simp_all
  then show ?thesis by (simp add: as_i32_def i32_range_def)
qed

lemma as_u32_id [simp]: "0 \<le> x \<Longrightarrow> x < 4294967296 \<Longrightarrow> as_u32 x = x"
  by (simp add: as_u32_def mod_pos_pos_trivial)

text \<open>\<open>min_ram_gb as u32 as i32\<close>, the cast the matching engine applies, is the identity.\<close>

lemma as_i32_as_u32 [simp]: "as_i32 (as_u32 x) = as_i32 x"
  by (simp add: as_i32_def as_u32_def mod_add_left_eq)

text \<open>
  A Rust \<open>String\<close> is its UTF-8 bytes: a \<^typ>\<open>string\<close> whose characters are the bytes, so
  \<open>len()\<close> is the length of the list. Slicing panics unless both ends fall on a character
  boundary, that is, the byte there is no continuation byte \<open>10xxxxxx\<close>.
\<close>

definition is_cont_byte :: "char \<Rightarrow> bool" where
  "is_cont_byte c \<longleftrightarrow> 128 \<le> (of_char c :: nat) \<and> (of_char c :: nat) < 192"

definition is_char_boundary :: "string \<Rightarrow> nat \<Rightarrow> bool" where
  "is_char_boundary s i \<longleftrightarrow>
     i = 0 \<or> i = length s \<or> (i < length s \<and> \<not> is_cont_byte (s ! i))"

text \<open>\<open>&s[i..]\<close> and \<open>&s[..i]\<close>; \<open>None\<close> is the panic.\<close>

definition slice_from :: "string \<Rightarrow> nat \<Rightarrow> string option" where
  "slice_from s i = (if is_char_boundary s i then Some (drop i s) else None)"

definition slice_to :: "string \<Rightarrow> nat \<Rightarrow> string option" where
  "slice_to s i = (if is_char_boundary s i then Some (take i s) else None)"

definition starts_with :: "string \<Rightarrow> string \<Rightarrow> bool" where
  "starts_with p s \<longleftrightarrow> take (length p) s = p"

text \<open>\<open>s.strip_prefix(p)\<close>\<close>

definition strip_prefix :: "string \<Rightarrow> string \<Rightarrow> string option" where
  "strip_prefix p s = (if starts_with p s then Some (drop (length p) s) else None)"

text \<open>\<open>s.trim_end_matches(c)\<close>\<close>

definition trim_end_matches :: "char \<Rightarrow> string \<Rightarrow> string" where
  "trim_end_matches c s = rev (dropWhile (\<lambda>x. x = c) (rev s))"

text \<open>\<open>c.is_ascii_hexdigit()\<close>\<close>

definition is_ascii_hexdigit :: "char \<Rightarrow> bool" where
  "is_ascii_hexdigit c \<longleftrightarrow>
     (let n = (of_char c :: nat)
      in (48 \<le> n \<and> n \<le> 57) \<or> (65 \<le> n \<and> n \<le> 70) \<or> (97 \<le> n \<and> n \<le> 102))"

lemma trim_end_matches_no_suffix:
  "trim_end_matches c s \<noteq> [] \<Longrightarrow> last (trim_end_matches c s) \<noteq> c"
  using hd_dropWhile [of "\<lambda>x. x = c" "rev s"]
  by (simp add: trim_end_matches_def last_rev)

end
