(* ===== verification/F64.thy ===== *)
theory F64
  imports Complex_Main NM_Prelude
begin

text \<open>
  IEEE 754 binary floating point, as Rust's \<open>f64\<close>/\<open>f32\<close> and PostgreSQL's \<open>double
  precision\<close> compute it. A finite value is the rational it denotes; an operation computes
  the exact rational result and rounds it to nearest, ties to even, on the grid of the
  format (53 bits down to \<open>2^-1074\<close> for \<open>f64\<close>, 24 bits down to \<open>2^-149\<close> for \<open>f32\<close>),
  and overflows to an infinity. The sign of zero is not kept: no code of the program
  observes it. The definitions compute; \<open>rounding\<close> collects the laws of rounding that the
  proofs about money use.
\<close>

section \<open>Rounding to a binary format\<close>

text \<open>The number of binary digits of a positive integer.\<close>

function blen :: "int \<Rightarrow> int" where
  "blen n = (if n \<le> 0 then 0 else 1 + blen (n div 2))"
  by pat_completeness auto
termination
  by (relation "measure nat") auto

declare blen.simps [simp del]

lemma blen_nonneg: "0 \<le> blen n"
  by (induction n rule: blen.induct) (subst blen.simps, simp)

lemma blen_pos: "0 < n \<Longrightarrow> 0 < blen n"
  using blen_nonneg [of "n div 2"] by (subst blen.simps) simp

lemma blen_bounds: "0 < n \<Longrightarrow> 2 ^ nat (blen n - 1) \<le> n \<and> n < 2 ^ nat (blen n)"
proof (induction n rule: blen.induct)
  case (1 n)
  show ?case
  proof (cases "n = 1")
    case True
    then show ?thesis by (simp add: blen.simps)
  next
    case False
    with "1.prems" have m: "0 < n div 2" by simp
    let ?m = "n div 2"
    have b: "0 < blen ?m" using m by (rule blen_pos)
    have bn: "blen n = 1 + blen ?m" using "1.prems" by (subst blen.simps) simp
    have IH: "2 ^ nat (blen ?m - 1) \<le> ?m" "?m < 2 ^ nat (blen ?m)"
      using "1.IH" "1.prems" m by auto
    have e1: "(2::int) ^ nat (blen n - 1) = 2 * 2 ^ nat (blen ?m - 1)"
      using b by (simp add: bn flip: power_Suc)
    have e2: "(2::int) ^ nat (blen n) = 2 * 2 ^ nat (blen ?m)"
      using b by (simp add: bn nat_add_distrib)
    show ?thesis using IH unfolding e1 e2 by linarith
  qed
qed

text \<open>\<open>\<lfloor>log2 q\<rfloor>\<close> of a positive rational, from the digits of its numerator and denominator.\<close>

definition ilog2 :: "rat \<Rightarrow> int" where
  "ilog2 q =
     (let (n, d) = quotient_of q; l = blen n - blen d
      in if 2 powi l \<le> q then l else l - 1)"

lemma powi_2_pos [simp]: "(0::rat) < 2 powi k"
  by (rule zero_less_power_int) simp

lemma powi_2_mono: "k \<le> l \<Longrightarrow> (2::rat) powi k \<le> 2 powi l"
  by (rule power_int_increasing) auto

lemma powi_2_less: "(2::rat) powi k < 2 powi l \<Longrightarrow> k < l"
  using powi_2_mono [of l k] by fastforce

lemma powi_2_succ: "(2::rat) powi (k + 1) = 2 * 2 powi k"
  by (simp add: power_int_add_1')

lemma ilog2_bounds:
  assumes "0 < q"
  shows "2 powi ilog2 q \<le> q \<and> q < 2 powi (ilog2 q + 1)"
proof -
  obtain n d where nd: "quotient_of q = (n, d)" by fastforce
  then have q: "q = of_int n / of_int d" and d: "0 < d"
    by (auto intro: quotient_of_div quotient_of_denom_pos)
  with assms have n: "0 < n" by (simp add: zero_less_divide_iff)
  have c: "(2::rat) powi k = of_int (2 ^ nat k)" if "0 \<le> k" for k
    using that by (simp add: power_int_def)
  have bn: "(2::rat) powi (blen n - 1) \<le> of_int n" "(of_int n :: rat) < 2 powi blen n"
    using blen_bounds [OF n] blen_pos [OF n] blen_nonneg [of n]
    by (simp_all only: c of_int_le_iff of_int_less_iff zle_diff1_eq [symmetric]
        diff_ge_0_iff_ge)
  have bd: "(2::rat) powi (blen d - 1) \<le> of_int d" "(of_int d :: rat) < 2 powi blen d"
    using blen_bounds [OF d] blen_pos [OF d] blen_nonneg [of d]
    by (simp_all only: c of_int_le_iff of_int_less_iff zle_diff1_eq [symmetric]
        diff_ge_0_iff_ge)
  let ?l = "blen n - blen d"
  have dr: "(0::rat) < of_int d" using d by simp
  have up: "q < 2 powi (?l + 1)"
  proof -
    have "(2::rat) powi (?l + 1) * of_int d \<ge> 2 powi (?l + 1) * 2 powi (blen d - 1)"
      using bd(1) by (intro mult_left_mono) auto
    also have "(2::rat) powi (?l + 1) * 2 powi (blen d - 1) = 2 powi blen n"
      by (simp flip: power_int_add)
    finally show ?thesis using bn(2) dr by (simp add: q pos_divide_less_eq)
  qed
  have lo: "2 powi (?l - 1) \<le> q"
  proof -
    have "(2::rat) powi (?l - 1) * of_int d \<le> 2 powi (?l - 1) * 2 powi blen d"
      using bd(2) by (intro mult_left_mono) auto
    also have "(2::rat) powi (?l - 1) * 2 powi blen d = 2 powi (blen n - 1)"
      by (simp add: algebra_simps flip: power_int_add)
    finally show ?thesis using bn(1) dr by (simp add: q pos_le_divide_eq)
  qed
  show ?thesis using up lo by (auto simp: ilog2_def nd Let_def)
qed

lemma ilog2_unique: "2 powi k \<le> q \<Longrightarrow> q < 2 powi (k + 1) \<Longrightarrow> ilog2 q = k"
proof -
  assume a: "2 powi k \<le> q" "q < 2 powi (k + 1)"
  then have "0 < q" by (meson powi_2_pos less_le_trans)
  note b = ilog2_bounds [OF this]
  have "k < ilog2 q + 1" using a b by (intro powi_2_less) linarith
  moreover have "ilog2 q < k + 1" using a b by (intro powi_2_less) linarith
  ultimately show ?thesis by simp
qed

lemma ilog2_mono: "0 < x \<Longrightarrow> x \<le> y \<Longrightarrow> ilog2 x \<le> ilog2 y"
proof -
  assume a: "0 < x" "x \<le> y"
  then have "2 powi ilog2 x < (2 powi (ilog2 y + 1) :: rat)"
    using ilog2_bounds [of x] ilog2_bounds [of y] by linarith
  then show ?thesis using powi_2_less by fastforce
qed

text \<open>Round to the nearest integer, ties to even.\<close>

definition rne :: "rat \<Rightarrow> int" where
  "rne x =
     (let f = \<lfloor>x\<rfloor>; r = x - of_int f
      in if r < 1 / 2 then f else if 1 / 2 < r then f + 1 else if even f then f else f + 1)"

lemma rne_of_int [simp]: "rne (of_int n) = n"
  by (simp add: rne_def)

lemma rne_0 [simp]: "rne 0 = 0"
  using rne_of_int [of 0] by (simp del: rne_of_int)

lemma rne_floor: "rne x = \<lfloor>x\<rfloor> \<or> rne x = \<lfloor>x\<rfloor> + 1"
  by (auto simp: rne_def Let_def)

lemma rne_mono: "x \<le> y \<Longrightarrow> rne x \<le> rne y"
proof -
  assume xy: "x \<le> y"
  then have f: "\<lfloor>x\<rfloor> \<le> \<lfloor>y\<rfloor>" by (rule floor_mono)
  show ?thesis
  proof (cases "\<lfloor>x\<rfloor> = \<lfloor>y\<rfloor>")
    case True
    with xy show ?thesis by (auto simp: rne_def Let_def)
  next
    case False
    with f have "\<lfloor>x\<rfloor> + 1 \<le> \<lfloor>y\<rfloor>" by simp
    then show ?thesis using rne_floor [of x] rne_floor [of y] by auto
  qed
qed

lemma rne_eqI:
  assumes "\<bar>x - of_int m\<bar> < 1 / 2"
  shows "rne x = m"
proof (cases "of_int m \<le> x")
  case True
  with assms have x: "x - of_int m < 1 / 2" by simp
  with True have "\<lfloor>x\<rfloor> = m" by (intro floor_unique) linarith+
  with x show ?thesis by (simp add: rne_def)
next
  case False
  with assms have x: "of_int m - x < 1 / 2" by simp
  with False have "\<lfloor>x\<rfloor> = m - 1" unfolding floor_eq_iff of_int_diff by auto
  with x show ?thesis by (simp add: rne_def Let_def)
qed

text \<open>The exponent of the grid a value is rounded to, and the rounding itself.\<close>

definition ulp_exp :: "int \<Rightarrow> int \<Rightarrow> rat \<Rightarrow> int" where
  "ulp_exp p emin q = max emin (ilog2 q - (p - 1))"

definition round_pos :: "int \<Rightarrow> int \<Rightarrow> rat \<Rightarrow> rat" where
  "round_pos p emin q = (let e = ulp_exp p emin q in of_int (rne (q / 2 powi e)) * 2 powi e)"

definition fround :: "int \<Rightarrow> int \<Rightarrow> rat \<Rightarrow> rat" where
  "fround p emin q =
     (if q = 0 then 0 else if 0 < q then round_pos p emin q else - round_pos p emin (- q))"

lemma round_pos_nonneg: "0 < q \<Longrightarrow> 0 \<le> round_pos p emin q"
proof -
  assume "0 < q"
  then have "rne 0 \<le> rne (q / 2 powi ulp_exp p emin q)" by (intro rne_mono) simp
  then show ?thesis by (simp add: round_pos_def Let_def)
qed

lemma ulp_exp_mono: "0 < x \<Longrightarrow> x \<le> y \<Longrightarrow> ulp_exp p emin x \<le> ulp_exp p emin y"
  using ilog2_mono [of x y] by (simp add: ulp_exp_def)

lemma round_pos_same_exp:
  "x \<le> y \<Longrightarrow> ulp_exp p emin x = ulp_exp p emin y \<Longrightarrow> round_pos p emin x \<le> round_pos p emin y"
  by (auto simp: round_pos_def Let_def intro!: mult_right_mono rne_mono divide_right_mono)

lemma powi_2_int: "0 \<le> k \<Longrightarrow> (2::rat) powi k = of_int (2 ^ nat k)"
  by (simp add: power_int_def)

text \<open>Below the next grid a result never passes \<open>2^(p+e)\<close>; on a coarse grid it is at least
  \<open>2^(p-1+e)\<close>.\<close>

lemma rne_grid_upper:
  assumes "0 < x" "0 < p"
  shows "rne (x / 2 powi ulp_exp p emin x) \<le> 2 ^ nat p"
proof -
  let ?e = "ulp_exp p emin x"
  have "x < 2 powi (ilog2 x + 1)" using ilog2_bounds assms(1) by blast
  also have "(2::rat) powi (ilog2 x + 1) \<le> 2 powi (p + ?e)"
    by (rule powi_2_mono) (simp add: ulp_exp_def)
  finally have "x / 2 powi ?e \<le> 2 powi p"
    by (simp add: pos_divide_le_eq flip: power_int_add)
  then have "rne (x / 2 powi ?e) \<le> rne (2 powi p)" by (rule rne_mono)
  also have "rne (2 powi p) = 2 ^ nat p" using assms(2) by (simp only: powi_2_int rne_of_int)
  finally show ?thesis .
qed

lemma round_pos_upper:
  assumes "0 < x" "0 < p" "ulp_exp p emin x \<le> e"
  shows "round_pos p emin x \<le> 2 powi (p + e)"
proof -
  let ?e = "ulp_exp p emin x"
  have "(of_int (rne (x / 2 powi ?e)) :: rat) \<le> of_int (2 ^ nat p)"
    using rne_grid_upper [OF assms(1,2)] by (simp only: of_int_le_iff)
  then have "of_int (rne (x / 2 powi ?e)) \<le> (2::rat) powi p"
    using assms(2) by (simp add: powi_2_int)
  then have "round_pos p emin x \<le> 2 powi p * 2 powi ?e"
    by (simp add: round_pos_def Let_def)
  also have "(2::rat) powi p * 2 powi ?e = 2 powi (p + ?e)" by (simp flip: power_int_add)
  also have "(2::rat) powi (p + ?e) \<le> 2 powi (p + e)" using assms(3) by (intro powi_2_mono) simp
  finally show ?thesis .
qed

lemma round_pos_lower:
  assumes "0 < y" "0 < p" "emin < ulp_exp p emin y"
  shows "2 powi (p - 1 + ulp_exp p emin y) \<le> round_pos p emin y"
proof -
  let ?e = "ulp_exp p emin y"
  have e: "?e = ilog2 y - (p - 1)" using assms(3) by (simp add: ulp_exp_def max_def split: if_splits)
  have "2 powi (p - 1 + ?e) \<le> y" using ilog2_bounds [OF assms(1)] by (simp add: e)
  then have "2 powi (p - 1) \<le> y / 2 powi ?e"
    by (simp add: pos_le_divide_eq flip: power_int_add)
  then have "rne (2 powi (p - 1)) \<le> rne (y / 2 powi ?e)" by (rule rne_mono)
  moreover have "rne (2 powi (p - 1)) = 2 ^ nat (p - 1)"
    using assms(2) by (simp only: powi_2_int rne_of_int)
  ultimately have "(of_int (2 ^ nat (p - 1)) :: rat) \<le> of_int (rne (y / 2 powi ?e))"
    by (simp only: of_int_le_iff)
  then have "(2::rat) powi (p - 1) \<le> of_int (rne (y / 2 powi ?e))"
    using assms(2) by (simp add: powi_2_int)
  then have "(2::rat) powi (p - 1) * 2 powi ?e \<le> round_pos p emin y"
    by (simp add: round_pos_def Let_def)
  then show ?thesis by (simp flip: power_int_add)
qed

lemma round_pos_mono:
  assumes "0 < x" "x \<le> y" "0 < p"
  shows "round_pos p emin x \<le> round_pos p emin y"
proof (cases "ulp_exp p emin x = ulp_exp p emin y")
  case True
  with assms(2) show ?thesis by (rule round_pos_same_exp)
next
  case False
  with ulp_exp_mono [OF assms(1,2), of p emin]
  have lt: "ulp_exp p emin x \<le> ulp_exp p emin y - 1" by simp
  have em: "emin \<le> ulp_exp p emin x" by (simp add: ulp_exp_def)
  have "round_pos p emin x \<le> 2 powi (p + (ulp_exp p emin y - 1))"
    by (rule round_pos_upper [OF assms(1,3) lt])
  also have "(2::rat) powi (p + (ulp_exp p emin y - 1)) = 2 powi (p - 1 + ulp_exp p emin y)"
    by (simp add: algebra_simps)
  also have "\<dots> \<le> round_pos p emin y"
    using assms em lt by (intro round_pos_lower) auto
  finally show ?thesis .
qed

lemma fround_mono: "0 < p \<Longrightarrow> x \<le> y \<Longrightarrow> fround p emin x \<le> fround p emin y"
  using round_pos_mono [of x y p emin] round_pos_mono [of "- y" "- x" p emin]
    round_pos_nonneg [of x p emin] round_pos_nonneg [of y p emin]
    round_pos_nonneg [of "- x" p emin] round_pos_nonneg [of "- y" p emin]
  by (auto simp: fround_def)

lemma fround_0 [simp]: "fround p emin 0 = 0"
  by (simp add: fround_def)

lemma fround_uminus: "fround p emin (- x) = - fround p emin x"
  by (simp add: fround_def)

text \<open>The values of the format: multiples of a grid step with at most \<open>p\<close> bits.\<close>

definition representable :: "int \<Rightarrow> int \<Rightarrow> rat \<Rightarrow> bool" where
  "representable p emin q \<longleftrightarrow>
     (\<exists>m e. emin \<le> e \<and> \<bar>m\<bar> \<le> 2 ^ nat p \<and> q = of_int m * 2 powi e)"

lemma round_pos_exact:
  assumes "0 < p" "emin \<le> e" "0 < m" "m \<le> 2 ^ nat p" "q = of_int m * 2 powi e"
  shows "round_pos p emin q = q"
proof -
  have q0: "0 < q" using assms by simp
  let ?u = "ulp_exp p emin q"
  have grid: "\<exists>k. q = of_int k * 2 powi ?u"
  proof (cases "m = 2 ^ nat p")
    case True
    have q: "q = 2 powi (p + e)"
      using assms(1,5) True by (simp add: powi_2_int power_int_add)
    then have "ilog2 q = p + e" by (intro ilog2_unique) (auto simp: powi_2_succ)
    then have u: "?u = e + 1" using assms(2) by (simp add: ulp_exp_def)
    have "(2::rat) powi (p + e) = 2 powi (p - 1) * 2 powi (e + 1)" by (simp flip: power_int_add)
    then have "q = of_int (2 ^ nat (p - 1)) * 2 powi (e + 1)"
      using powi_2_int [of "p - 1"] assms(1) q by simp
    then have "q = of_int (2 ^ nat (p - 1)) * 2 powi ?u" unfolding u .
    then show ?thesis by blast
  next
    case False
    with assms(4) have "(of_int m :: rat) < of_int (2 ^ nat p)" by (simp only: of_int_less_iff)
    then have "q < 2 powi p * 2 powi e"
      using assms(1,5) by (simp add: powi_2_int)
    then have "q < 2 powi (p + e)" by (simp flip: power_int_add)
    then have "2 powi ilog2 q < (2::rat) powi (p + e)" using ilog2_bounds [OF q0] by linarith
    then have "ilog2 q < p + e" by (rule powi_2_less)
    then have ue: "?u \<le> e" using assms(2) by (simp add: ulp_exp_def)
    have "(2::rat) powi e = 2 powi (e - ?u) * 2 powi ?u" by (simp flip: power_int_add)
    then have "q = of_int m * (of_int (2 ^ nat (e - ?u)) * 2 powi ?u)"
      using powi_2_int [of "e - ?u"] ue by (simp only: assms(5))
    then have "q = of_int (m * 2 ^ nat (e - ?u)) * 2 powi ?u" by (simp only: of_int_mult mult.assoc)
    then show ?thesis by blast
  qed
  then obtain k where k: "q = of_int k * 2 powi ?u" by blast
  then have "q / 2 powi ?u = of_int k" by (metis less_irrefl nonzero_mult_div_cancel_right powi_2_pos)
  then show ?thesis using k by (simp add: round_pos_def Let_def)
qed

lemma fround_exact:
  assumes "0 < p" "representable p emin q"
  shows "fround p emin q = q"
proof -
  obtain m e where me: "emin \<le> e" "\<bar>m\<bar> \<le> 2 ^ nat p" "q = of_int m * 2 powi e"
    using assms(2) by (auto simp: representable_def)
  consider "m = 0" | "0 < m" | "m < 0" by linarith
  then show ?thesis
  proof cases
    case 1
    with me show ?thesis by simp
  next
    case 2
    with me assms(1) have "round_pos p emin q = q" by (intro round_pos_exact) auto
    with 2 me show ?thesis by (simp add: fround_def)
  next
    case 3
    with me assms(1) have "round_pos p emin (- q) = - q"
      by (intro round_pos_exact [where m = "- m" and e = e]) auto
    moreover have "q < 0" using 3 me by (simp add: mult_neg_pos)
    ultimately show ?thesis by (simp add: fround_def)
  qed
qed

lemma representable_uminus: "representable p emin (- q) \<longleftrightarrow> representable p emin q"
proof -
  have "representable p emin (- q)" if "representable p emin q" for q
    using that unfolding representable_def
    by (metis abs_minus_cancel mult_minus_left of_int_minus)
  from this [of q] this [of "- q"] show ?thesis by auto
qed

lemma representable_fround:
  assumes "0 < p"
  shows "representable p emin (fround p emin q)"
proof -
  have pos: "representable p emin (round_pos p emin q)" if "0 < q" for q
  proof -
    have "rne 0 \<le> rne (q / 2 powi ulp_exp p emin q)" using that by (intro rne_mono) simp
    then have "\<bar>rne (q / 2 powi ulp_exp p emin q)\<bar> \<le> 2 ^ nat p"
      using rne_grid_upper [OF that assms, of emin] by simp
    moreover have "emin \<le> ulp_exp p emin q" by (simp add: ulp_exp_def)
    ultimately show ?thesis by (auto simp: representable_def round_pos_def Let_def)
  qed
  have "representable p emin 0" by (auto simp: representable_def intro: exI [of _ "0::int"])
  with pos [of q] pos [of "- q"] show ?thesis by (auto simp: fround_def representable_uminus)
qed

lemma fround_idem: "0 < p \<Longrightarrow> fround p emin (fround p emin q) = fround p emin q"
  by (intro fround_exact representable_fround)

lemma fround_of_int:
  assumes "0 < p" "emin \<le> 0" "\<bar>n\<bar> \<le> 2 ^ nat p"
  shows "fround p emin (of_int n) = of_int n"
proof (rule fround_exact [OF assms(1)])
  show "representable p emin (of_int n)"
    unfolding representable_def using assms by (intro exI [of _ n] exI [of _ "0::int"]) simp
qed

section \<open>The laws of rounding\<close>

text \<open>
  What the accounting proofs need of a rounding: it is monotone, odd, idempotent and keeps
  zero. Binary64 and binary32 provide it.
\<close>

locale rounding =
  fixes rnd :: "rat \<Rightarrow> rat"
  assumes rnd_mono: "x \<le> y \<Longrightarrow> rnd x \<le> rnd y"
    and rnd_uminus: "rnd (- x) = - rnd x"
    and rnd_idem: "rnd (rnd x) = rnd x"
begin

lemma rnd_zero: "rnd 0 = 0"
  using rnd_uminus [of 0] by simp

lemma rnd_nonneg: "0 \<le> x \<Longrightarrow> 0 \<le> rnd x"
  using rnd_mono [of 0 x] by (simp add: rnd_zero)

lemma rnd_nonpos: "x \<le> 0 \<Longrightarrow> rnd x \<le> 0"
  using rnd_mono [of x 0] by (simp add: rnd_zero)

lemma rnd_le_fixed: "rnd y = y \<Longrightarrow> x \<le> y \<Longrightarrow> rnd x \<le> y"
  using rnd_mono [of x y] by simp

lemma rnd_ge_fixed: "rnd y = y \<Longrightarrow> y \<le> x \<Longrightarrow> y \<le> rnd x"
  using rnd_mono [of y x] by simp

lemma rnd_diff_nonneg: "y \<le> x \<Longrightarrow> 0 \<le> rnd (x - y)"
  by (rule rnd_nonneg) simp

lemma rnd_diff_le: "rnd x = x \<Longrightarrow> 0 \<le> y \<Longrightarrow> rnd (x - y) \<le> x"
  by (rule rnd_le_fixed) simp_all

lemma rnd_add_ge: "rnd x = x \<Longrightarrow> 0 \<le> y \<Longrightarrow> x \<le> rnd (x + y)"
  by (rule rnd_ge_fixed) simp_all

lemma rnd_scale_le: "rnd x = x \<Longrightarrow> 0 \<le> x \<Longrightarrow> 0 \<le> c \<Longrightarrow> c \<le> 1 \<Longrightarrow> rnd (x * c) \<le> x"
  by (rule rnd_le_fixed) (simp_all add: mult_left_le)

end

definition rnd64 :: "rat \<Rightarrow> rat" where
  "rnd64 = fround 53 (- 1074)"

definition rnd32 :: "rat \<Rightarrow> rat" where
  "rnd32 = fround 24 (- 149)"

interpretation r64: rounding rnd64
  by unfold_locales (simp_all add: rnd64_def fround_mono fround_uminus fround_idem)

interpretation r32: rounding rnd32
  by unfold_locales (simp_all add: rnd32_def fround_mono fround_uminus fround_idem)

lemma rnd64_of_int: "\<bar>n\<bar> \<le> 2 ^ 53 \<Longrightarrow> rnd64 (of_int n) = of_int n"
  unfolding rnd64_def by (rule fround_of_int) simp_all

lemma rnd64_numeral [simp]:
  "(numeral w :: int) \<le> 2 ^ 53 \<Longrightarrow> rnd64 (numeral w) = numeral w"
  using rnd64_of_int [of "numeral w"] by simp

lemma rnd64_0 [simp]: "rnd64 0 = 0" and rnd64_1 [simp]: "rnd64 1 = 1"
  using rnd64_of_int [of 0] rnd64_of_int [of 1] by simp_all

text \<open>
  To evaluate a rounding: exhibit the binade and the nearest grid point.
\<close>

lemma rnd64_eqI:
  assumes "2 powi k \<le> q" "q < 2 powi (k + 1)" "- 1022 \<le> k"
    and "\<bar>q / 2 powi (k - 52) - of_int m\<bar> < 1 / 2"
  shows "rnd64 q = of_int m * 2 powi (k - 52)"
proof -
  have q: "0 < q" using assms(1) by (meson powi_2_pos less_le_trans)
  have "ilog2 q = k" using assms(1,2) by (rule ilog2_unique)
  then have u: "ulp_exp 53 (- 1074) q = k - 52" using assms(3) by (simp add: ulp_exp_def)
  from assms(4) have "rne (q / 2 powi (k - 52)) = m" by (rule rne_eqI)
  with q u show ?thesis by (simp add: rnd64_def fround_def round_pos_def)
qed

lemma rnd64_fee [simp]: "rnd64 (2 / 25) = 5764607523034235 / 72057594037927936"
  by (subst rnd64_eqI [where k = "- 4" and m = 5764607523034235]) simp_all

lemma rnd64_uminus [simp]: "rnd64 (- x) = - rnd64 x"
  by (rule r64.rnd_uminus)

lemma rnd64_idem [simp]: "rnd64 (rnd64 x) = rnd64 x"
  by (rule r64.rnd_idem)

section \<open>The type \<open>f64\<close>\<close>

text \<open>
  The constructors stand in PostgreSQL's order of \<open>double precision\<close>: \<open>NaN\<close> is the
  greatest value and equal to itself. Rust's own comparisons are the functions \<open>f64_lt\<close>
  and \<open>f64_le\<close>, false on \<open>NaN\<close>.
\<close>

datatype f64 = NInf | Fin rat | PInf | NaN

instantiation f64 :: linorder
begin

fun less_eq_f64 :: "f64 \<Rightarrow> f64 \<Rightarrow> bool" where
  "NInf \<le> b = True"
| "Fin x \<le> b = (case b of NInf \<Rightarrow> False | Fin y \<Rightarrow> x \<le> y | _ \<Rightarrow> True)"
| "PInf \<le> b = (b = PInf \<or> b = NaN)"
| "NaN \<le> b = (b = NaN)"

definition less_f64 :: "f64 \<Rightarrow> f64 \<Rightarrow> bool" where
  "less_f64 a b = (a \<le> b \<and> \<not> b \<le> a)"

instance
proof
  fix x y z :: f64
  show "(x < y) = (x \<le> y \<and> \<not> y \<le> x)" by (simp add: less_f64_def)
  show "x \<le> x" by (cases x) auto
  show "x \<le> y \<Longrightarrow> y \<le> z \<Longrightarrow> x \<le> z" by (cases x; cases y; cases z) auto
  show "x \<le> y \<Longrightarrow> y \<le> x \<Longrightarrow> x = y" by (cases x; cases y) auto
  show "x \<le> y \<or> y \<le> x" by (cases x; cases y) auto
qed

end

lemma less_f64_simps [simp]:
  "Fin x < Fin y \<longleftrightarrow> x < y" "NInf < Fin x" "Fin x < PInf" "NInf < PInf" "\<not> PInf < Fin x"
  "\<not> Fin x < NInf" "Fin x < NaN" "\<not> NaN < Fin x"
  by (auto simp: less_f64_def)

lemma f64_Fin_le: "Fin x \<le> Fin y \<longleftrightarrow> x \<le> y"
  by simp

lemma f64_NaN_top [simp]: "(a::f64) \<le> NaN"
  by (cases a) simp_all

text \<open>Round a rational result into the type; overflow goes to an infinity.\<close>

definition f64_of :: "rat \<Rightarrow> f64" where
  "f64_of q =
     (let r = rnd64 q
      in if 2 ^ 1024 \<le> r then PInf else if r \<le> - (2 ^ 1024) then NInf else Fin r)"

text \<open>A well-formed value: a finite one lies on the grid and below the overflow threshold.\<close>

fun f64_ok :: "f64 \<Rightarrow> bool" where
  "f64_ok (Fin q) = (rnd64 q = q \<and> \<bar>q\<bar> < 2 ^ 1024)"
| "f64_ok _ = True"

fun f64_neg :: "f64 \<Rightarrow> f64" where
  "f64_neg (Fin a) = Fin (- a)"
| "f64_neg PInf = NInf"
| "f64_neg NInf = PInf"
| "f64_neg NaN = NaN"

fun f64_add :: "f64 \<Rightarrow> f64 \<Rightarrow> f64" where
  "f64_add (Fin a) (Fin b) = f64_of (a + b)"
| "f64_add NaN b = NaN"
| "f64_add a NaN = NaN"
| "f64_add PInf NInf = NaN"
| "f64_add NInf PInf = NaN"
| "f64_add PInf b = PInf"
| "f64_add NInf b = NInf"
| "f64_add (Fin a) b = b"

definition f64_sub :: "f64 \<Rightarrow> f64 \<Rightarrow> f64" where
  "f64_sub a b = f64_add a (f64_neg b)"

text \<open>An infinity with the sign of \<open>q\<close>; \<open>NaN\<close> for zero.\<close>

definition signed_inf :: "rat \<Rightarrow> f64" where
  "signed_inf q = (if 0 < q then PInf else if q < 0 then NInf else NaN)"

fun f64_sgn :: "f64 \<Rightarrow> rat" where
  "f64_sgn (Fin a) = sgn a"
| "f64_sgn PInf = 1"
| "f64_sgn NInf = - 1"
| "f64_sgn NaN = 0"

fun f64_mul :: "f64 \<Rightarrow> f64 \<Rightarrow> f64" where
  "f64_mul (Fin a) (Fin b) = f64_of (a * b)"
| "f64_mul NaN b = NaN"
| "f64_mul a NaN = NaN"
| "f64_mul a b = signed_inf (f64_sgn a * f64_sgn b)"

fun f64_div :: "f64 \<Rightarrow> f64 \<Rightarrow> f64" where
  "f64_div (Fin a) (Fin b) = (if b = 0 then signed_inf a else f64_of (a / b))"
| "f64_div NaN b = NaN"
| "f64_div a NaN = NaN"
| "f64_div (Fin a) b = Fin 0"
| "f64_div a (Fin b) = signed_inf (f64_sgn a * (if b < 0 then - 1 else 1))"
| "f64_div a b = NaN"

text \<open>Rust's comparisons and \<open>f64::min\<close>, which returns the operand that is a number.\<close>

definition f64_lt :: "f64 \<Rightarrow> f64 \<Rightarrow> bool" where
  "f64_lt a b \<longleftrightarrow> a \<noteq> NaN \<and> b \<noteq> NaN \<and> a < b"

definition f64_le :: "f64 \<Rightarrow> f64 \<Rightarrow> bool" where
  "f64_le a b \<longleftrightarrow> a \<noteq> NaN \<and> b \<noteq> NaN \<and> a \<le> b"

definition f64_min :: "f64 \<Rightarrow> f64 \<Rightarrow> f64" where
  "f64_min a b = (if a = NaN then b else if b = NaN then a else min a b)"

text \<open>\<open>n as f64\<close> for an integer, and an \<open>f32\<close> value widened by \<open>as f64\<close> (exact).\<close>

definition f64_of_int :: "int \<Rightarrow> f64" where
  "f64_of_int n = f64_of (of_int n)"

definition f32_to_f64 :: "rat \<Rightarrow> f64" where
  "f32_to_f64 q = f64_of q"

lemma f64_of_ok [simp]: "f64_ok (f64_of q)"
  by (auto simp: f64_of_def Let_def abs_less_iff)

lemma f64_of_repr: "rnd64 q = q \<Longrightarrow> \<bar>q\<bar> < 2 ^ 1024 \<Longrightarrow> f64_of q = Fin q"
  by (auto simp: f64_of_def Let_def abs_less_iff)

lemma f64_of_0 [simp]: "f64_of 0 = Fin 0" and f64_of_1 [simp]: "f64_of 1 = Fin 1"
  by (simp_all add: f64_of_repr)

lemma big_numeral: "\<bar>q::rat\<bar> \<le> 2 ^ 53 \<Longrightarrow> \<bar>q\<bar> < 2 ^ 1024"
proof -
  assume "\<bar>q\<bar> \<le> 2 ^ 53"
  also have "(2::rat) ^ 53 < 2 ^ 1024" by (rule power_strict_increasing) simp_all
  finally show ?thesis .
qed

lemma f64_of_of_int: "\<bar>n\<bar> \<le> 2 ^ 53 \<Longrightarrow> f64_of (of_int n) = Fin (of_int n)"
proof -
  assume n: "\<bar>n\<bar> \<le> 2 ^ 53"
  then have "(of_int \<bar>n\<bar> :: rat) \<le> of_int (2 ^ 53)" by (simp only: of_int_le_iff)
  then show ?thesis
    using n by (intro f64_of_repr rnd64_of_int big_numeral) simp_all
qed

lemma f64_of_numeral [simp]:
  "(numeral w :: int) \<le> 2 ^ 53 \<Longrightarrow> f64_of (numeral w) = Fin (numeral w)"
  using f64_of_of_int [of "numeral w"] by simp

lemma f64_of_neg_numeral [simp]:
  "(numeral w :: int) \<le> 2 ^ 53 \<Longrightarrow> f64_of (- numeral w) = Fin (- numeral w)"
  using f64_of_of_int [of "- numeral w"] by simp

lemma f64_add_ok: "f64_ok (f64_add a b)" if "f64_ok a" "f64_ok b"
  using that by (cases a; cases b) auto

lemma f64_neg_ok [simp]: "f64_ok (f64_neg a) = f64_ok a"
  by (cases a) auto

lemma f64_sub_ok: "f64_ok a \<Longrightarrow> f64_ok b \<Longrightarrow> f64_ok (f64_sub a b)"
  by (simp add: f64_sub_def f64_add_ok)

lemma signed_inf_ok [simp]: "f64_ok (signed_inf q)"
  by (simp add: signed_inf_def)

lemma f64_mul_ok [simp]: "f64_ok (f64_mul a b)"
  by (cases a; cases b) auto

lemma f64_div_ok [simp]: "f64_ok (f64_div a b)"
  by (cases a; cases b) auto

lemma f64_sub_Fin [simp]: "f64_sub (Fin a) (Fin b) = f64_of (a - b)"
  by (simp add: f64_sub_def)

lemma f64_lt_Fin [simp]: "f64_lt (Fin a) (Fin b) \<longleftrightarrow> a < b"
  by (simp add: f64_lt_def)

lemma f64_le_Fin [simp]: "f64_le (Fin a) (Fin b) \<longleftrightarrow> a \<le> b"
  by (simp add: f64_le_def)

text \<open>A result between two values of the format stays between them and is finite.\<close>

lemma f64_of_between:
  assumes "rnd64 l = l" "rnd64 h = h" "l \<le> q" "q \<le> h" "\<bar>l\<bar> < 2 ^ 1024" "\<bar>h\<bar> < 2 ^ 1024"
  shows "\<exists>r. f64_of q = Fin r \<and> l \<le> r \<and> r \<le> h"
proof -
  have "l \<le> rnd64 q" "rnd64 q \<le> h"
    using assms by (auto intro: r64.rnd_ge_fixed r64.rnd_le_fixed)
  then show ?thesis using assms(5,6) by (auto simp: f64_of_def Let_def abs_less_iff)
qed

lemma f64_of_mono: "x \<le> y \<Longrightarrow> f64_of x \<le> f64_of y"
  using r64.rnd_mono [of x y] by (auto simp: f64_of_def Let_def)

lemma f64_of_not_NaN [simp]: "f64_of q \<noteq> NaN"
  by (simp add: f64_of_def Let_def)

lemma f64_of_uminus: "f64_of (- q) = f64_neg (f64_of q)"
  by (auto simp: f64_of_def Let_def)

lemma f64_of_nonneg: "0 \<le> q \<Longrightarrow> Fin 0 \<le> f64_of q"
  using f64_of_mono [of 0 q] by simp

end
