(* ===== verification/Sql.thy ===== *)
theory Sql
  imports NM_Prelude F64
begin

text \<open>
  What the services use of PostgreSQL and of sqlx: nullable columns, \<open>double precision\<close>
  and \<open>integer\<close> arithmetic with its errors, tables with a primary key, the clauses
  \<open>WHERE\<close>, \<open>ORDER BY\<close>, \<open>LIMIT\<close>, \<open>ON CONFLICT\<close>, and the execution of one statement
  against a database that may be unreachable. A table is the list of its rows in insertion
  order; where a query leaves the order open the model takes that one.
\<close>

section \<open>Values\<close>

text \<open>A nullable column is an \<open>option\<close>; the errors are the ones the statements can raise.\<close>

datatype db_error =
  Db_Unavailable | Unique_Violation | Fk_Violation | Not_Null_Violation | Check_Violation
  | Numeric_Out_Of_Range | Invalid_Limit

definition is_inf :: "f64 \<Rightarrow> bool" where
  "is_inf a \<longleftrightarrow> a = PInf \<or> a = NInf"

text \<open>PostgreSQL raises an error where IEEE arithmetic on finite operands overflows.\<close>

definition pg_arith :: "(f64 \<Rightarrow> f64 \<Rightarrow> f64) \<Rightarrow> f64 \<Rightarrow> f64 \<Rightarrow> db_error + f64" where
  "pg_arith f a b =
     (let r = f a b
      in if is_inf r \<and> \<not> is_inf a \<and> \<not> is_inf b then Inl Numeric_Out_Of_Range else Inr r)"

definition pg_add :: "f64 \<Rightarrow> f64 \<Rightarrow> db_error + f64" where
  "pg_add = pg_arith f64_add"

definition pg_sub :: "f64 \<Rightarrow> f64 \<Rightarrow> db_error + f64" where
  "pg_sub = pg_arith f64_sub"

lemma pg_add_Fin [simp]:
  "f64_of (a + b) = Fin r \<Longrightarrow> pg_add (Fin a) (Fin b) = Inr (Fin r)"
  by (simp add: pg_add_def pg_arith_def is_inf_def)

lemma pg_sub_Fin [simp]:
  "f64_of (a - b) = Fin r \<Longrightarrow> pg_sub (Fin a) (Fin b) = Inr (Fin r)"
  by (simp add: pg_sub_def pg_arith_def is_inf_def)

text \<open>Products and quotients also raise on underflow to zero, quotients on a zero divisor.\<close>

definition pg_mul :: "f64 \<Rightarrow> f64 \<Rightarrow> db_error + f64" where
  "pg_mul a b =
     (if f64_mul a b = Fin 0 \<and> a \<noteq> Fin 0 \<and> b \<noteq> Fin 0 then Inl Numeric_Out_Of_Range
      else pg_arith f64_mul a b)"

definition pg_div :: "f64 \<Rightarrow> f64 \<Rightarrow> db_error + f64" where
  "pg_div a b =
     (if b = Fin 0 \<or> (f64_div a b = Fin 0 \<and> a \<noteq> Fin 0 \<and> \<not> is_inf b) then Inl Numeric_Out_Of_Range
      else pg_arith f64_div a b)"

text \<open>Operators are strict in \<open>NULL\<close>.\<close>

definition sql_lift2 ::
  "('a \<Rightarrow> 'b \<Rightarrow> db_error + 'c) \<Rightarrow> 'a option \<Rightarrow> 'b option \<Rightarrow> db_error + 'c option" where
  "sql_lift2 f x y =
     (case (x, y) of (Some a, Some b) \<Rightarrow> map_sum id Some (f a b) | _ \<Rightarrow> Inr None)"

abbreviation sql_add :: "f64 option \<Rightarrow> f64 option \<Rightarrow> db_error + f64 option" where
  "sql_add \<equiv> sql_lift2 pg_add"

abbreviation sql_sub :: "f64 option \<Rightarrow> f64 option \<Rightarrow> db_error + f64 option" where
  "sql_sub \<equiv> sql_lift2 pg_sub"

definition int4_add :: "int \<Rightarrow> int \<Rightarrow> db_error + int" where
  "int4_add a b = (if i32_range (a + b) then Inr (a + b) else Inl Numeric_Out_Of_Range)"

text \<open>\<open>GREATEST\<close>, \<open>LEAST\<close> skip \<open>NULL\<close>s; \<open>COALESCE\<close> takes the first value.\<close>

fun sql_greatest :: "'a::linorder option \<Rightarrow> 'a option \<Rightarrow> 'a option" where
  "sql_greatest (Some a) (Some b) = Some (max a b)"
| "sql_greatest None y = y"
| "sql_greatest x None = x"

fun sql_least :: "'a::linorder option \<Rightarrow> 'a option \<Rightarrow> 'a option" where
  "sql_least (Some a) (Some b) = Some (min a b)"
| "sql_least None y = y"
| "sql_least x None = x"

definition sql_coalesce :: "'a option \<Rightarrow> 'a option \<Rightarrow> 'a option" where
  "sql_coalesce x y = (case x of None \<Rightarrow> y | Some a \<Rightarrow> Some a)"

definition unwrap_or :: "'a \<Rightarrow> 'a option \<Rightarrow> 'a" where
  "unwrap_or d x = (case x of None \<Rightarrow> d | Some a \<Rightarrow> a)"

lemma unwrap_or_simps [simp]: "unwrap_or d None = d" "unwrap_or d (Some a) = a"
  by (simp_all add: unwrap_or_def)

lemma sql_coalesce_simps [simp]: "sql_coalesce None y = y" "sql_coalesce (Some a) y = Some a"
  by (simp_all add: sql_coalesce_def)

lemma sql_lift2_simps [simp]:
  "sql_lift2 f None y = Inr None" "sql_lift2 f x None = Inr None"
  "sql_lift2 f (Some a) (Some b) = map_sum id Some (f a b)"
  by (auto simp: sql_lift2_def split: option.split)

text \<open>Comparisons in a \<open>WHERE\<close> clause: a row is kept only when the condition is true,
  so unknown counts as false.\<close>

definition null_le :: "'a::linorder option \<Rightarrow> 'a option \<Rightarrow> bool" where
  "null_le x y = (case (x, y) of (Some a, Some b) \<Rightarrow> a \<le> b | _ \<Rightarrow> False)"

definition null_less :: "'a::linorder option \<Rightarrow> 'a option \<Rightarrow> bool" where
  "null_less x y = (case (x, y) of (Some a, Some b) \<Rightarrow> a < b | _ \<Rightarrow> False)"

definition null_eq :: "'a option \<Rightarrow> 'a option \<Rightarrow> bool" where
  "null_eq x y = (case (x, y) of (Some a, Some b) \<Rightarrow> a = b | _ \<Rightarrow> False)"

lemma null_eq_Some [simp]: "null_eq x (Some a) \<longleftrightarrow> x = Some a"
  by (auto simp: null_eq_def split: option.splits)

lemma null_le_Some [simp]: "null_le (Some a) x \<longleftrightarrow> (\<exists>b. x = Some b \<and> a \<le> b)"
  "null_le x (Some b) \<longleftrightarrow> (\<exists>a. x = Some a \<and> a \<le> b)"
  by (auto simp: null_le_def split: option.splits)

lemma null_less_Some [simp]: "null_less x (Some b) \<longleftrightarrow> (\<exists>a. x = Some a \<and> a < b)"
  by (auto simp: null_less_def split: option.splits)

section \<open>Tables\<close>

definition sql_first :: "('r \<Rightarrow> bool) \<Rightarrow> 'r list \<Rightarrow> 'r option" where
  "sql_first p t = find p t"

definition sql_update :: "('r \<Rightarrow> bool) \<Rightarrow> ('r \<Rightarrow> db_error + 'r) \<Rightarrow> 'r list \<Rightarrow> db_error + 'r list" where
  "sql_update p f t = traverse (\<lambda>r. if p r then f r else Inr r) t"

definition sql_insert :: "('r \<Rightarrow> 'k) \<Rightarrow> 'r \<Rightarrow> 'r list \<Rightarrow> db_error + 'r list" where
  "sql_insert key r t = (if key r \<in> key ` set t then Inl Unique_Violation else Inr (t @ [r]))"

definition sql_insert_ignore :: "('r \<Rightarrow> 'k) \<Rightarrow> 'r \<Rightarrow> 'r list \<Rightarrow> 'r list" where
  "sql_insert_ignore key r t = (if key r \<in> key ` set t then t else t @ [r])"

definition sql_upsert ::
  "('r \<Rightarrow> 'k) \<Rightarrow> 'r \<Rightarrow> ('r \<Rightarrow> db_error + 'r) \<Rightarrow> 'r list \<Rightarrow> db_error + 'r list" where
  "sql_upsert key r f t =
     (if key r \<in> key ` set t then sql_update (\<lambda>x. key x = key r) f t else Inr (t @ [r]))"

definition rows_affected :: "('r \<Rightarrow> bool) \<Rightarrow> 'r list \<Rightarrow> nat" where
  "rows_affected p t = length (filter p t)"

definition sql_limit :: "int \<Rightarrow> 'r list \<Rightarrow> db_error + 'r list" where
  "sql_limit n t = (if n < 0 then Inl Invalid_Limit else Inr (take (nat n) t))"

text \<open>\<open>ORDER BY c ASC\<close> puts \<open>NULL\<close>s last, \<open>DESC\<close> first.\<close>

datatype 'a sort_col = Not_Null 'a | Null_Last

instantiation sort_col :: (linorder) linorder
begin

fun less_eq_sort_col :: "'a sort_col \<Rightarrow> 'a sort_col \<Rightarrow> bool" where
  "Not_Null a \<le> y = (case y of Not_Null b \<Rightarrow> a \<le> b | Null_Last \<Rightarrow> True)"
| "Null_Last \<le> y = (y = Null_Last)"

definition less_sort_col :: "'a sort_col \<Rightarrow> 'a sort_col \<Rightarrow> bool" where
  "less_sort_col a b = (a \<le> b \<and> \<not> b \<le> a)"

instance
proof
  fix x y z :: "'a sort_col"
  show "(x < y) = (x \<le> y \<and> \<not> y \<le> x)" by (simp add: less_sort_col_def)
  show "x \<le> x" by (cases x) auto
  show "x \<le> y \<Longrightarrow> y \<le> z \<Longrightarrow> x \<le> z" by (cases x; cases y; cases z) auto
  show "x \<le> y \<Longrightarrow> y \<le> x \<Longrightarrow> x = y" by (cases x; cases y) auto
  show "x \<le> y \<or> y \<le> x" by (cases x; cases y) auto
qed

end

definition sort_col :: "'a option \<Rightarrow> 'a sort_col" where
  "sort_col x = (case x of None \<Rightarrow> Null_Last | Some a \<Rightarrow> Not_Null a)"

definition order_asc :: "('r \<Rightarrow> 'a::linorder option) \<Rightarrow> 'r list \<Rightarrow> 'r list" where
  "order_asc c t = sort_key (\<lambda>r. sort_col (c r)) t"

definition order_desc :: "('r \<Rightarrow> 'a::linorder option) \<Rightarrow> 'r list \<Rightarrow> 'r list" where
  "order_desc c t = rev (sort_key (\<lambda>r. sort_col (c r)) (rev t))"

lemma set_order_asc [simp]: "set (order_asc c t) = set t"
  by (simp add: order_asc_def)

lemma set_order_desc [simp]: "set (order_desc c t) = set t"
  by (simp add: order_desc_def)

lemma sorted_order_asc: "sorted (map (\<lambda>r. sort_col (c r)) (order_asc c t))"
  by (simp add: order_asc_def)

lemma order_Nil [simp]: "order_asc c t = [] \<longleftrightarrow> t = []" "order_desc c t = [] \<longleftrightarrow> t = []"
  using set_order_asc [of c t] set_order_desc [of c t] by (metis set_empty)+

text \<open>The first row of an ordering is an extremal one.\<close>

lemma order_asc_hd:
  "order_asc c t = r # rs \<Longrightarrow> r \<in> set t \<and> (\<forall>x\<in>set t. sort_col (c r) \<le> sort_col (c x))"
  using sorted_order_asc [of c t] set_order_asc [of c t] by auto

lemma order_desc_hd:
  assumes "order_desc c t = r # rs"
  shows "r \<in> set t \<and> (\<forall>x\<in>set t. sort_col (c x) \<le> sort_col (c r))"
proof -
  have s: "sort_key (\<lambda>r. sort_col (c r)) (rev t) = rev rs @ [r]"
    using assms by (simp add: order_desc_def rev_swap)
  have "sorted (map (\<lambda>r. sort_col (c r)) (rev rs @ [r]))" by (metis s sorted_sort_key)
  moreover have "set (rev rs @ [r]) = set t" by (metis s set_sort set_rev)
  ultimately show ?thesis by (auto simp: sorted_append)
qed

subsection \<open>The primary key\<close>

definition keys_distinct :: "('r \<Rightarrow> 'k) \<Rightarrow> 'r list \<Rightarrow> bool" where
  "keys_distinct key t \<longleftrightarrow> distinct (map key t)"

lemma sql_update_map:
  "(\<And>r. r \<in> set t \<Longrightarrow> p r \<Longrightarrow> f r = Inr (g r)) \<Longrightarrow>
     sql_update p f t = Inr (map (\<lambda>r. if p r then g r else r) t)"
  by (auto simp: sql_update_def intro!: traverse_Inr_map)

lemma sql_update_total [simp]:
  "sql_update p (\<lambda>r. Inr (g r)) t = Inr (map (\<lambda>r. if p r then g r else r) t)"
  by (rule sql_update_map) simp

lemma sql_update_list_all2:
  "sql_update p f t = Inr t' \<Longrightarrow> list_all2 (\<lambda>r r'. if p r then f r = Inr r' else r' = r) t t'"
  unfolding sql_update_def
  by (drule traverse_Inr_list_all2) (erule list_all2_mono, auto split: if_splits)

lemma sql_update_map_key:
  assumes "sql_update p f t = Inr t'" "\<And>r r'. f r = Inr r' \<Longrightarrow> key r' = key r"
  shows "map key t' = map key t"
proof -
  from sql_update_list_all2 [OF assms(1)] have "list_all2 (\<lambda>r r'. key r' = key r) t t'"
    by (rule list_all2_mono) (auto split: if_splits dest: assms(2))
  then show ?thesis by (induction rule: list_all2_induct) auto
qed

lemma keys_distinct_map:
  assumes "\<And>r. key (g r) = key r"
  shows "keys_distinct key (map g t) = keys_distinct key t"
proof -
  have "map key (map g t) = map key t" by (simp add: assms)
  then show ?thesis by (simp only: keys_distinct_def)
qed

lemma keys_distinct_update:
  "sql_update p f t = Inr t' \<Longrightarrow> (\<And>r r'. f r = Inr r' \<Longrightarrow> key r' = key r) \<Longrightarrow>
     keys_distinct key t \<Longrightarrow> keys_distinct key t'"
  using sql_update_map_key [of p f t t' key] by (simp add: keys_distinct_def)

lemma keys_distinct_insert:
  "sql_insert key r t = Inr t' \<Longrightarrow> keys_distinct key t \<Longrightarrow> keys_distinct key t'"
  by (auto simp: sql_insert_def keys_distinct_def split: if_splits)

lemma keys_distinct_insert_ignore:
  "keys_distinct key t \<Longrightarrow> keys_distinct key (sql_insert_ignore key r t)"
  by (auto simp: sql_insert_ignore_def keys_distinct_def)

lemma keys_distinct_upsert:
  "sql_upsert key r f t = Inr t' \<Longrightarrow> (\<And>x x'. f x = Inr x' \<Longrightarrow> key x' = key x) \<Longrightarrow>
     keys_distinct key t \<Longrightarrow> keys_distinct key t'"
  by (auto simp: sql_upsert_def keys_distinct_def split: if_splits dest: sql_update_map_key [where key = key])

text \<open>A predicate on rows that the updated and the inserted rows satisfy.\<close>

lemma sql_update_all:
  "sql_update p f t = Inr t' \<Longrightarrow> (\<And>r r'. r \<in> set t \<Longrightarrow> p r \<Longrightarrow> Q r \<Longrightarrow> f r = Inr r' \<Longrightarrow> Q r') \<Longrightarrow>
     \<forall>r\<in>set t. Q r \<Longrightarrow> \<forall>r\<in>set t'. Q r"
  by (auto simp: sql_update_def split: if_splits dest!: traverse_Inr_in_set)

lemma sql_update_Ball:
  assumes "sql_update p f t = Inr t'" "\<And>r r'. f r = Inr r' \<Longrightarrow> Q r \<Longrightarrow> Q r'" "Ball (set t) Q"
  shows "Ball (set t') Q"
  by (rule sql_update_all [OF assms(1) _ assms(3)]) (rule assms(2))

lemma sql_upsert_all:
  "sql_upsert key r0 f t = Inr t' \<Longrightarrow> Q r0 \<Longrightarrow> (\<And>r r'. Q r \<Longrightarrow> f r = Inr r' \<Longrightarrow> Q r') \<Longrightarrow>
     \<forall>r\<in>set t. Q r \<Longrightarrow> \<forall>r\<in>set t'. Q r"
  by (cases "key r0 \<in> key ` set t")
    (simp_all only: sql_upsert_def if_True if_False, erule sql_update_all, auto)

lemma sql_first_key: "sql_first (\<lambda>r. key r = k) t = Some r \<Longrightarrow> key r = k"
  by (auto simp: sql_first_def find_Some_iff)

lemma sql_first_in_set: "sql_first p t = Some r \<Longrightarrow> r \<in> set t \<and> p r"
  by (auto simp: sql_first_def find_Some_iff)

lemma sql_first_key_in: "sql_first (\<lambda>r. key r = k) t = Some r \<Longrightarrow> k \<in> key ` set t"
  using sql_first_in_set [of "\<lambda>r. key r = k" t r] by auto

lemma sql_upsert_hit:
  "sql_first (\<lambda>r. key r = key r0) t = Some r \<Longrightarrow> sql_upsert key r0 f t = sql_update (\<lambda>r. key r = key r0) f t"
  using sql_first_in_set [of "\<lambda>r. key r = key r0" t r] by (auto simp: sql_upsert_def image_def)

section \<open>A table as a store with keys\<close>

text \<open>
  What a handler relies on when it works on the row of one key: an update rewrites that row
  and no other, an insert adds one row or fails on a duplicate. The lemmas below the laws are
  what the accounting proofs use; \<open>sql_first\<close>, \<open>sql_update\<close> and \<open>sql_insert\<close> provide the
  laws for every key (\<open>keyed_table\<close>).
\<close>

locale keyed_store =
  fixes key :: "'r \<Rightarrow> 'k"
    and get :: "'k \<Rightarrow> 't \<Rightarrow> 'r option"
    and modify :: "'k \<Rightarrow> ('r \<Rightarrow> db_error + 'r) \<Rightarrow> 't \<Rightarrow> db_error + 't"
    and add :: "'r \<Rightarrow> 't \<Rightarrow> db_error + 't"
    and wf :: "'t \<Rightarrow> bool"
  assumes modify_hit: "wf t \<Longrightarrow> get k t = Some r \<Longrightarrow> f r = Inr r' \<Longrightarrow> key r' = key r \<Longrightarrow>
      \<exists>t'. modify k f t = Inr t' \<and> wf t' \<and> get k t' = Some r' \<and>
           (\<forall>k'. k' \<noteq> k \<longrightarrow> get k' t' = get k' t)"
    and modify_error: "wf t \<Longrightarrow> get k t = Some r \<Longrightarrow> f r = Inl e \<Longrightarrow> modify k f t = Inl e"
    and modify_miss: "get k t = None \<Longrightarrow> modify k f t = Inr t"
    and add_new: "wf t \<Longrightarrow> get (key r) t = None \<Longrightarrow>
      \<exists>t'. add r t = Inr t' \<and> wf t' \<and> get (key r) t' = Some r \<and>
           (\<forall>k'. k' \<noteq> key r \<longrightarrow> get k' t' = get k' t)"
    and add_dup: "get (key r) t \<noteq> None \<Longrightarrow> add r t = Inl Unique_Violation"
begin

text \<open>Two updates of one row act as one.\<close>

lemma modify_twice:
  assumes "wf t" "get k t = Some r" "f r = Inr r1" "key r1 = key r" "g r1 = Inr r2" "key r2 = key r"
  shows "\<exists>t1 t2. modify k f t = Inr t1 \<and> modify k g t1 = Inr t2 \<and> wf t2 \<and> get k t2 = Some r2 \<and>
     (\<forall>k'. k' \<noteq> k \<longrightarrow> get k' t2 = get k' t)"
proof -
  obtain t1 where t1: "modify k f t = Inr t1" "wf t1" "get k t1 = Some r1"
    "\<forall>k'. k' \<noteq> k \<longrightarrow> get k' t1 = get k' t"
    using modify_hit [where f = f, OF assms(1-4)] by blast
  from modify_hit [where f = g, OF t1(2,3) assms(5)] assms(4,6) t1 show ?thesis by fastforce
qed

text \<open>Updates of two different rows do not disturb each other.\<close>

lemma modify_both:
  assumes "wf t" "k \<noteq> l" "get k t = Some r" "get l t = Some s"
    and "f r = Inr r'" "key r' = key r" "g s = Inr s'" "key s' = key s"
  shows "\<exists>t1 t2. modify k f t = Inr t1 \<and> modify l g t1 = Inr t2 \<and> wf t2 \<and>
     get k t2 = Some r' \<and> get l t2 = Some s' \<and> (\<forall>k'. k' \<noteq> k \<longrightarrow> k' \<noteq> l \<longrightarrow> get k' t2 = get k' t)"
proof -
  obtain t1 where t1: "modify k f t = Inr t1" "wf t1" "get k t1 = Some r'"
    "\<forall>k'. k' \<noteq> k \<longrightarrow> get k' t1 = get k' t"
    using modify_hit [where f = f, OF assms(1,3,5,6)] by blast
  then have "get l t1 = Some s" using assms(2,4) by simp
  from modify_hit [where f = g, OF t1(2) this assms(7,8)] t1 assms(2) show ?thesis by fastforce
qed

end

lemma keys_distinct_unique:
  "keys_distinct key t \<Longrightarrow> sql_first (\<lambda>r. key r = k) t = Some r \<Longrightarrow> x \<in> set t \<Longrightarrow> key x = k \<Longrightarrow> x = r"
  by (auto simp: keys_distinct_def sql_first_def find_Some_iff distinct_map inj_on_def)

lemma sql_first_replace:
  "key r' = k \<Longrightarrow> sql_first (\<lambda>r. key r = k') (map (\<lambda>x. if key x = k then r' else x) t) =
     (if k' = k then map_option (\<lambda>_. r') (sql_first (\<lambda>r. key r = k) t) else sql_first (\<lambda>r. key r = k') t)"
  by (induction t) (auto simp: sql_first_def)

lemma sql_first_map:
  "(\<And>r. key (g r) = key r) \<Longrightarrow>
     sql_first (\<lambda>r. key r = k) (map g t) = map_option g (sql_first (\<lambda>r. key r = k) t)"
  by (induction t) (auto simp: sql_first_def)

lemma keys_distinct_replace:
  "key r' = k \<Longrightarrow> keys_distinct key t \<Longrightarrow> keys_distinct key (map (\<lambda>x. if key x = k then r' else x) t)"
proof -
  assume k: "key r' = k" and d: "keys_distinct key t"
  have "map key (map (\<lambda>x. if key x = k then r' else x) t) = map key t" by (auto simp: k)
  with d show ?thesis by (simp only: keys_distinct_def)
qed

lemma sql_first_update:
  assumes "keys_distinct key t" "sql_first (\<lambda>r. key r = k) t = Some r" "f r = Inr r'" "key r' = key r"
  shows "\<exists>t'. sql_update (\<lambda>r. key r = k) f t = Inr t' \<and> keys_distinct key t' \<and>
     sql_first (\<lambda>r. key r = k) t' = Some r' \<and>
     (\<forall>k'. k' \<noteq> k \<longrightarrow> sql_first (\<lambda>r. key r = k') t' = sql_first (\<lambda>r. key r = k') t)"
proof -
  have k: "key r' = k" using assms(2,4) by (auto simp: sql_first_def find_Some_iff)
  have "sql_update (\<lambda>r. key r = k) f t = Inr (map (\<lambda>x. if key x = k then r' else x) t)"
    using keys_distinct_unique [OF assms(1,2)] assms(3) by (auto intro!: sql_update_map)
  with assms(1,2) k show ?thesis by (simp add: sql_first_replace keys_distinct_replace)
qed

lemma sql_first_update_error:
  assumes "keys_distinct key t" "sql_first (\<lambda>r. key r = k) t = Some r" "f r = Inl e"
  shows "sql_update (\<lambda>r. key r = k) f t = Inl e"
  using assms by (induction t) (auto simp: sql_first_def sql_update_def keys_distinct_def split: if_splits)

lemma sql_first_None_update:
  "sql_first (\<lambda>r. key r = k) t = None \<Longrightarrow> sql_update (\<lambda>r. key r = k) f t = Inr t"
  by (induction t) (auto simp: sql_first_def sql_update_def split: if_splits)

lemma sql_first_None_iff: "sql_first (\<lambda>r. key r = k) t = None \<longleftrightarrow> k \<notin> key ` set t"
  by (auto simp: sql_first_def find_None_iff)

lemma sql_first_simps [simp]:
  "sql_first p [] = None" "sql_first p (x # t) = (if p x then Some x else sql_first p t)"
  by (simp_all add: sql_first_def)

lemma sql_first_append:
  "sql_first p (t @ u) = (case sql_first p t of None \<Rightarrow> sql_first p u | Some r \<Rightarrow> Some r)"
  by (induction t) (auto simp: sql_first_def)

lemma sql_insert_new: "sql_first (\<lambda>x. key x = key r) t = None \<Longrightarrow> sql_insert key r t = Inr (t @ [r])"
  by (auto simp: sql_insert_def sql_first_None_iff)

lemma keyed_table:
  "keyed_store key (\<lambda>k. sql_first (\<lambda>r. key r = k)) (\<lambda>k. sql_update (\<lambda>r. key r = k))
     (sql_insert key) (keys_distinct key)"
proof (unfold_locales, goal_cases)
  case (1 t k r f r')
  then show ?case by (rule sql_first_update)
next
  case (2 t k r f e)
  then show ?case by (rule sql_first_update_error)
next
  case (3 k t f)
  then show ?case by (rule sql_first_None_update)
next
  case (4 t r)
  then have "key r \<notin> key ` set t" by (simp only: sql_first_None_iff not_False_eq_True)
  with 4 show ?case
    by (auto simp: sql_insert_def sql_first_append keys_distinct_def split: option.split)
next
  case (5 r t)
  then show ?case by (auto simp: sql_insert_def sql_first_None_iff)
qed

lemma sql_update_lookup:
  assumes "sql_update (\<lambda>r. key r = k) f t = Inr t'" "\<And>r r'. f r = Inr r' \<Longrightarrow> key r' = key r"
  shows "sql_first (\<lambda>r. key r = k') t' = (if k' = k
     then map_option (\<lambda>r. projr (f r)) (sql_first (\<lambda>r. key r = k) t) else sql_first (\<lambda>r. key r = k') t)"
  using assms(1)
proof (induction t arbitrary: t')
  case Nil
  then show ?case by (simp add: sql_update_def)
next
  case (Cons x t)
  from Cons.prems obtain y u where y: "t' = y # u" "(if key x = k then f x else Inr x) = Inr y"
    "sql_update (\<lambda>r. key r = k) f t = Inr u"
    by (auto simp: sql_update_def split: sum.splits)
  have "key y = key x" using y(2) assms(2) by (auto split: if_splits)
  with Cons.IH [OF y(3)] y show ?case by (auto split: if_splits)
qed

lemma sql_update_hit_ok:
  assumes "sql_update (\<lambda>r. key r = k) f t = Inr t'" "sql_first (\<lambda>r. key r = k) t = Some r"
  shows "\<exists>r'. f r = Inr r'"
  using assms
proof (induction t arbitrary: t')
  case (Cons x t)
  then show ?case by (auto simp: sql_update_def split: if_splits sum.splits)
qed simp

lemma sql_upsert_other:
  assumes "sql_upsert key r0 f t = Inr t'" "\<And>r r'. f r = Inr r' \<Longrightarrow> key r' = key r" "k \<noteq> key r0"
  shows "sql_first (\<lambda>r. key r = k) t' = sql_first (\<lambda>r. key r = k) t"
proof (cases "key r0 \<in> key ` set t")
  case True
  then have "sql_update (\<lambda>r. key r = key r0) f t = Inr t'" using assms(1) by (simp add: sql_upsert_def)
  from sql_update_lookup [OF this assms(2)] assms(3) show ?thesis by simp
next
  case False
  then have "t' = t @ [r0]" using assms(1) by (simp add: sql_upsert_def)
  then show ?thesis using assms(3) by (simp add: sql_first_append split: option.split)
qed

lemma traverse_cong: "(\<And>x. x \<in> set xs \<Longrightarrow> f x = g x) \<Longrightarrow> traverse f xs = traverse g xs"
  by (induction xs) (simp_all split: sum.split)

section \<open>Statements against a database that may fail\<close>

text \<open>
  The world of a handler: the database, the clock (\<open>now()\<close>), the source of UUIDs, and what
  happens to each of the next statements: it runs, it never reaches the database, or it runs
  and its answer is lost. An empty list means the remaining statements all run.
\<close>

datatype fault = No_Fault | Not_Applied | Applied_Lost

record 'd world =
  wdb :: 'd
  wnow :: int
  wids :: "nat \<Rightarrow> string"
  widn :: nat
  wfaults :: "fault list"

text \<open>A world whose statements all run, at a fixed time, with a fixed supply of identifiers.\<close>

definition world_at :: "'d \<Rightarrow> 'd world" where
  "world_at d = \<lparr>wdb = d, wnow = 1000, wids = (\<lambda>n. replicate (Suc n) (CHR ''u'')), widn = 0, wfaults = []\<rparr>"

definition run_stmt :: "(int \<Rightarrow> 'd \<Rightarrow> db_error + ('a \<times> 'd)) \<Rightarrow> ('d world, db_error, 'a) prog" where
  "run_stmt st = (\<lambda>w. case st (wnow w) (wdb w) of
       Inl e \<Rightarrow> (Inl e, w) | Inr (x, d) \<Rightarrow> (Inr x, w\<lparr>wdb := d\<rparr>))"

definition db_stmt :: "(int \<Rightarrow> 'd \<Rightarrow> db_error + ('a \<times> 'd)) \<Rightarrow> ('d world, db_error, 'a) prog" where
  "db_stmt st = (\<lambda>w. case wfaults w of
       [] \<Rightarrow> run_stmt st w
     | f # fs \<Rightarrow>
         (case f of
            No_Fault \<Rightarrow> run_stmt st (w\<lparr>wfaults := fs\<rparr>)
          | Not_Applied \<Rightarrow> (Inl Db_Unavailable, w\<lparr>wfaults := fs\<rparr>)
          | Applied_Lost \<Rightarrow> (Inl Db_Unavailable, snd (run_stmt st (w\<lparr>wfaults := fs\<rparr>)))))"

text \<open>A query reads; an execution writes and returns nothing the program uses.\<close>

definition db_query :: "(int \<Rightarrow> 'd \<Rightarrow> db_error + 'a) \<Rightarrow> ('d world, db_error, 'a) prog" where
  "db_query q = db_stmt (\<lambda>now d. map_sum id (\<lambda>x. (x, d)) (q now d))"

definition db_exec :: "(int \<Rightarrow> 'd \<Rightarrow> db_error + 'd) \<Rightarrow> ('d world, db_error, unit) prog" where
  "db_exec u = db_stmt (\<lambda>now d. map_sum id (\<lambda>d'. ((), d')) (u now d))"

text \<open>\<open>Uuid::new_v4().to_string()\<close>\<close>

definition new_uuid :: "('d world, 'e, string) prog" where
  "new_uuid = (\<lambda>w. (Inr (wids w (widn w)), w\<lparr>widn := Suc (widn w)\<rparr>))"

lemma db_query_run [prog_simps]:
  "wfaults w = [] \<Longrightarrow> db_query q w = (case q (wnow w) (wdb w) of Inl e \<Rightarrow> (Inl e, w) | Inr x \<Rightarrow> (Inr x, w))"
  by (simp add: db_query_def db_stmt_def run_stmt_def split: sum.split)

lemma db_exec_run [prog_simps]:
  "wfaults w = [] \<Longrightarrow> db_exec u w =
     (case u (wnow w) (wdb w) of Inl e \<Rightarrow> (Inl e, w) | Inr d \<Rightarrow> (Inr (), w\<lparr>wdb := d\<rparr>))"
  by (simp add: db_exec_def db_stmt_def run_stmt_def split: sum.split)

lemma db_stmt_run [prog_simps]:
  "wfaults w = [] \<Longrightarrow> db_stmt st w =
     (case st (wnow w) (wdb w) of Inl e \<Rightarrow> (Inl e, w) | Inr (x, d) \<Rightarrow> (Inr x, w\<lparr>wdb := d\<rparr>))"
  by (simp add: db_stmt_def run_stmt_def)

lemma new_uuid_run [prog_simps]:
  "new_uuid w = (Inr (wids w (widn w)), w\<lparr>widn := Suc (widn w)\<rparr>)"
  by (simp add: new_uuid_def)

text \<open>The same when faults are still to come.\<close>

lemma db_query_step [prog_simps]:
  "wfaults w = No_Fault # fs \<Longrightarrow> db_query q w =
     (case q (wnow w) (wdb w) of Inl e \<Rightarrow> (Inl e, w\<lparr>wfaults := fs\<rparr>) | Inr x \<Rightarrow> (Inr x, w\<lparr>wfaults := fs\<rparr>))"
  by (simp add: db_query_def db_stmt_def run_stmt_def split: sum.split)

lemma db_exec_step [prog_simps]:
  "wfaults w = No_Fault # fs \<Longrightarrow> db_exec u w =
     (case u (wnow w) (wdb w) of Inl e \<Rightarrow> (Inl e, w\<lparr>wfaults := fs\<rparr>)
      | Inr d \<Rightarrow> (Inr (), w\<lparr>wfaults := fs, wdb := d\<rparr>))"
  by (simp add: db_exec_def db_stmt_def run_stmt_def split: sum.split)

lemma db_exec_not_applied [prog_simps]:
  "wfaults w = Not_Applied # fs \<Longrightarrow> db_exec u w = (Inl Db_Unavailable, w\<lparr>wfaults := fs\<rparr>)"
  by (simp add: db_exec_def db_stmt_def)

lemma world_at_sel [simp]: "wdb (world_at d) = d" "wfaults (world_at d) = []" "wnow (world_at d) = 1000"
  "widn (world_at d) = 0" "wids (world_at d) n = replicate (Suc n) (CHR ''u'')"
  by (simp_all add: world_at_def)

text \<open>Whatever happens to a statement, the database afterwards is the old one or the
  statement's result: the rule that lifts an invariant of the tables to the handlers.\<close>

lemma keeps_db_stmt:
  assumes "\<And>now d x d'. I d \<Longrightarrow> st now d = Inr (x, d') \<Longrightarrow> I d'"
  shows "keeps (\<lambda>w. I (wdb w)) (db_stmt st)"
proof (rule keepsI)
  fix w :: "'a world"
  assume I: "I (wdb w)"
  have run: "I (wdb (snd (run_stmt st v)))" if "wdb v = wdb w" for v
    using I that assms by (auto simp: run_stmt_def split: sum.split prod.split)
  show "I (wdb (snd (db_stmt st w)))"
    using I run by (auto simp: db_stmt_def split: list.split fault.split)
qed

lemma keeps_db_query [keeps_intro]: "keeps (\<lambda>w. I (wdb w)) (db_query q)"
  unfolding db_query_def by (rule keeps_db_stmt) (auto simp: map_sum_eq_Inr)

lemma keeps_db_exec:
  "(\<And>now d d'. I d \<Longrightarrow> u now d = Inr d' \<Longrightarrow> I d') \<Longrightarrow> keeps (\<lambda>w. I (wdb w)) (db_exec u)"
  unfolding db_exec_def
  by (rule keeps_db_stmt) (auto simp: map_sum_eq_Inr)

lemma keeps_new_uuid [keeps_intro]: "keeps (\<lambda>w. I (wdb w)) new_uuid"
  by (simp add: keeps_def new_uuid_def)

end
