(* ===== verification/Coord_Db.thy ===== *)
theory Coord_Db
  imports Sql
begin

text \<open>
  The database of the coordinator and of the ledger service (they share it): one record per
  row, one list per table, as the migrations under \<open>coordinator/src/db/migrations\<close> declare
  them, with the columns' defaults, nullability and constraints, and the invariants of the
  schema.
\<close>

section \<open>Rows\<close>

text \<open>Times are seconds since the epoch.\<close>

record provider_row =
  p_provider_id :: string
  p_chip_model :: "string option"
  p_unified_memory_gb :: "int option"
  p_gpu_cores :: "int option"
  p_metal_version :: "string option"
  p_serial_number :: "string option"
  p_installed_runtimes :: "string list option"
  p_max_job_ram_gb :: "int option"
  p_bandwidth_mbps :: "int option"
  p_region :: "string option"
  p_floor_price :: "f64 option"
  p_state :: "string option"
  p_gpu_util_pct :: "f64 option"
  p_ram_used_gb :: "int option"
  p_active_job_id :: "string option"
  p_trust_score :: "f64 option"
  p_jobs_completed :: "int option"
  p_success_rate :: "f64 option"
  p_nm_version :: "string option"
  p_last_seen :: "int option"
  p_updated_at :: "int option"
  p_gpu_hours :: "f64 option"

record job_row =
  j_job_id :: string
  j_consumer_id :: string
  j_provider_id :: "string option"
  j_runtime :: "int option"
  j_min_ram_gb :: "int option"
  j_max_duration_s :: "int option"
  j_max_price :: "f64 option"
  j_price :: "f64 option"
  j_bundle_hash :: "string option"
  j_bundle_url :: "string option"
  j_ssh_pubkey :: "string option"
  j_wg_pubkey :: "string option"
  j_preferred_region :: "string option"
  j_state :: "string option"
  j_output_hash :: "string option"
  j_actual_runtime_s :: "int option"
  j_wireguard_endpoint :: "string option"
  j_ssh_port :: "int option"
  j_started_at :: "int option"
  j_completed_at :: "int option"
  j_created_at :: "int option"
  j_checkpoint_url :: "string option"
  j_checkpoint_iter :: "int option"
  j_last_heartbeat :: "int option"
  j_restore_attempts :: "int option"
  j_failure_reason :: "string option"
  j_output_log :: "string option"
  j_script_name :: "string option"

record credit_row =
  c_account_id :: string
  c_available :: "f64 option"
  c_escrowed :: "f64 option"
  c_earned :: "f64 option"
  c_spent :: "f64 option"
  c_updated_at :: "int option"

record escrow_row =
  e_escrow_id :: string
  e_job_id :: "string option"
  e_consumer_id :: string
  e_provider_id :: "string option"
  e_locked_nmc :: f64
  e_state :: "string option"
  e_settled_at :: "int option"

record tx_row =
  t_tx_id :: string
  t_account_id :: string
  t_tx_type :: string
  t_amount :: f64
  t_balance_after :: "f64 option"
  t_reference :: "string option"
  t_description :: "string option"
  t_created_at :: "int option"

record account_row =
  a_account_id :: string
  a_ecdsa_pubkey_hex :: string
  a_fingerprint :: string
  a_device_label :: "string option"
  a_platform :: "string option"
  a_hardware_serial_hash :: "string option"
  a_role :: "string option"
  a_active :: "bool option"
  a_created_at :: "int option"
  a_last_seen :: "int option"

record kyc_row =
  k_account_id :: string
  k_country_code :: string
  k_full_name :: string
  k_id_type :: string
  k_id_number_hash :: string
  k_kyc_level :: int
  k_annual_limit_myr :: rat
  k_acknowledged_terms :: bool
  k_submitted_at :: int
  k_verified_at :: "int option"
  k_archived :: bool

record deposit_row =
  d_session_id :: string
  d_account_id :: string
  d_amount_nmc :: f64
  d_amount_myr :: f64
  d_deposited_at :: int

record checkpoint_row =
  ck_checkpoint_id :: string
  ck_job_id :: "string option"
  ck_provider_id :: "string option"
  ck_iteration :: int
  ck_checkpoint_dir :: "string option"
  ck_dmtcp_files :: "string list option"
  ck_elapsed_secs :: "int option"

record milestone_row =
  m_provider_id :: string
  m_milestone_hours :: int
  m_reward_hc :: f64
  m_account_id :: string
  m_tx_id :: "string option"

record artifact_row =
  b_hash :: string
  b_bundle_gz :: string

record coord_db =
  providers :: "provider_row list"
  jobs :: "job_row list"
  credits :: "credit_row list"
  escrows :: "escrow_row list"
  txs :: "tx_row list"
  accounts :: "account_row list"
  kycs :: "kyc_row list"
  deposits :: "deposit_row list"
  checkpoints :: "checkpoint_row list"
  milestones :: "milestone_row list"
  artifacts :: "artifact_row list"

definition empty_db :: coord_db where
  "empty_db = \<lparr>providers = [], jobs = [], credits = [], escrows = [], txs = [], accounts = [],
     kycs = [], deposits = [], checkpoints = [], milestones = [], artifacts = []\<rparr>"

section \<open>Rows as an \<open>INSERT\<close> without these columns leaves them\<close>

definition new_provider_row :: "string \<Rightarrow> int \<Rightarrow> provider_row" where
  "new_provider_row pid now =
     \<lparr>p_provider_id = pid, p_chip_model = None, p_unified_memory_gb = None, p_gpu_cores = None,
      p_metal_version = None, p_serial_number = None, p_installed_runtimes = None,
      p_max_job_ram_gb = None, p_bandwidth_mbps = None, p_region = None,
      p_floor_price = Some (f64_of (5 / 100)), p_state = Some ''offline'',
      p_gpu_util_pct = Some (Fin 0), p_ram_used_gb = Some 0, p_active_job_id = None,
      p_trust_score = Some (Fin 3), p_jobs_completed = Some 0, p_success_rate = Some (Fin 1),
      p_nm_version = None, p_last_seen = None, p_updated_at = Some now,
      p_gpu_hours = Some (Fin 0)\<rparr>"

definition new_job_row :: "string \<Rightarrow> string \<Rightarrow> int \<Rightarrow> job_row" where
  "new_job_row jid cid now =
     \<lparr>j_job_id = jid, j_consumer_id = cid, j_provider_id = None, j_runtime = None,
      j_min_ram_gb = None, j_max_duration_s = None, j_max_price = None, j_price = None,
      j_bundle_hash = None, j_bundle_url = None, j_ssh_pubkey = None, j_wg_pubkey = None,
      j_preferred_region = None, j_state = Some ''queued'', j_output_hash = None,
      j_actual_runtime_s = None, j_wireguard_endpoint = None, j_ssh_port = Some 2222,
      j_started_at = None, j_completed_at = None, j_created_at = Some now,
      j_checkpoint_url = None, j_checkpoint_iter = Some 0, j_last_heartbeat = None,
      j_restore_attempts = Some 0, j_failure_reason = None, j_output_log = None,
      j_script_name = None\<rparr>"

definition new_credit_row :: "string \<Rightarrow> int \<Rightarrow> credit_row" where
  "new_credit_row aid now =
     \<lparr>c_account_id = aid, c_available = Some (Fin 0), c_escrowed = Some (Fin 0),
      c_earned = Some (Fin 0), c_spent = Some (Fin 0), c_updated_at = Some now\<rparr>"

definition new_escrow_row :: "string \<Rightarrow> string option \<Rightarrow> string \<Rightarrow> f64 \<Rightarrow> escrow_row" where
  "new_escrow_row eid jid cid amount =
     \<lparr>e_escrow_id = eid, e_job_id = jid, e_consumer_id = cid, e_provider_id = None,
      e_locked_nmc = amount, e_state = Some ''locked'', e_settled_at = None\<rparr>"

definition new_tx_row :: "string \<Rightarrow> string \<Rightarrow> string \<Rightarrow> f64 \<Rightarrow> int \<Rightarrow> tx_row" where
  "new_tx_row tid aid ty amount now =
     \<lparr>t_tx_id = tid, t_account_id = aid, t_tx_type = ty, t_amount = amount,
      t_balance_after = None, t_reference = None, t_description = None, t_created_at = Some now\<rparr>"

section \<open>Tables inside the database\<close>

definition on_providers :: "(provider_row list \<Rightarrow> db_error + provider_row list) \<Rightarrow> coord_db \<Rightarrow> db_error + coord_db" where
  "on_providers F d = map_sum id (\<lambda>t. d\<lparr>providers := t\<rparr>) (F (providers d))"

definition on_jobs :: "(job_row list \<Rightarrow> db_error + job_row list) \<Rightarrow> coord_db \<Rightarrow> db_error + coord_db" where
  "on_jobs F d = map_sum id (\<lambda>t. d\<lparr>jobs := t\<rparr>) (F (jobs d))"

definition on_credits :: "(credit_row list \<Rightarrow> db_error + credit_row list) \<Rightarrow> coord_db \<Rightarrow> db_error + coord_db" where
  "on_credits F d = map_sum id (\<lambda>t. d\<lparr>credits := t\<rparr>) (F (credits d))"

definition on_escrows :: "(escrow_row list \<Rightarrow> db_error + escrow_row list) \<Rightarrow> coord_db \<Rightarrow> db_error + coord_db" where
  "on_escrows F d = map_sum id (\<lambda>t. d\<lparr>escrows := t\<rparr>) (F (escrows d))"

definition on_txs :: "(tx_row list \<Rightarrow> db_error + tx_row list) \<Rightarrow> coord_db \<Rightarrow> db_error + coord_db" where
  "on_txs F d = map_sum id (\<lambda>t. d\<lparr>txs := t\<rparr>) (F (txs d))"

definition on_accounts :: "(account_row list \<Rightarrow> db_error + account_row list) \<Rightarrow> coord_db \<Rightarrow> db_error + coord_db" where
  "on_accounts F d = map_sum id (\<lambda>t. d\<lparr>accounts := t\<rparr>) (F (accounts d))"

definition on_kycs :: "(kyc_row list \<Rightarrow> db_error + kyc_row list) \<Rightarrow> coord_db \<Rightarrow> db_error + coord_db" where
  "on_kycs F d = map_sum id (\<lambda>t. d\<lparr>kycs := t\<rparr>) (F (kycs d))"

definition on_deposits :: "(deposit_row list \<Rightarrow> db_error + deposit_row list) \<Rightarrow> coord_db \<Rightarrow> db_error + coord_db" where
  "on_deposits F d = map_sum id (\<lambda>t. d\<lparr>deposits := t\<rparr>) (F (deposits d))"

definition on_checkpoints :: "(checkpoint_row list \<Rightarrow> db_error + checkpoint_row list) \<Rightarrow> coord_db \<Rightarrow> db_error + coord_db" where
  "on_checkpoints F d = map_sum id (\<lambda>t. d\<lparr>checkpoints := t\<rparr>) (F (checkpoints d))"

definition on_milestones :: "(milestone_row list \<Rightarrow> db_error + milestone_row list) \<Rightarrow> coord_db \<Rightarrow> db_error + coord_db" where
  "on_milestones F d = map_sum id (\<lambda>t. d\<lparr>milestones := t\<rparr>) (F (milestones d))"

definition on_artifacts :: "(artifact_row list \<Rightarrow> db_error + artifact_row list) \<Rightarrow> coord_db \<Rightarrow> db_error + coord_db" where
  "on_artifacts F d = map_sum id (\<lambda>t. d\<lparr>artifacts := t\<rparr>) (F (artifacts d))"

lemmas on_table_defs =
  on_providers_def on_jobs_def on_credits_def on_escrows_def on_txs_def on_accounts_def
  on_kycs_def on_deposits_def on_checkpoints_def on_milestones_def on_artifacts_def

text \<open>Lookups by primary key, as the \<open>fetch_optional\<close> queries use them.\<close>

abbreviation provider_of :: "coord_db \<Rightarrow> string \<Rightarrow> provider_row option" where
  "provider_of d pid \<equiv> sql_first (\<lambda>r. p_provider_id r = pid) (providers d)"

abbreviation job_of :: "coord_db \<Rightarrow> string \<Rightarrow> job_row option" where
  "job_of d jid \<equiv> sql_first (\<lambda>r. j_job_id r = jid) (jobs d)"

abbreviation credit_of :: "coord_db \<Rightarrow> string \<Rightarrow> credit_row option" where
  "credit_of d aid \<equiv> sql_first (\<lambda>r. c_account_id r = aid) (credits d)"

abbreviation account_of :: "coord_db \<Rightarrow> string \<Rightarrow> account_row option" where
  "account_of d aid \<equiv> sql_first (\<lambda>r. a_account_id r = aid) (accounts d)"

text \<open>Foreign keys: the referenced row exists (a \<open>NULL\<close> reference is allowed).\<close>

definition fk :: "('r \<Rightarrow> 'k) \<Rightarrow> 'r list \<Rightarrow> 'k option \<Rightarrow> bool" where
  "fk key t k = (case k of None \<Rightarrow> True | Some x \<Rightarrow> x \<in> key ` set t)"

lemma fk_simps [simp]: "fk key t None" "fk key t (Some k) \<longleftrightarrow> k \<in> key ` set t"
  by (simp_all add: fk_def)

text \<open>The tables the handlers address by key are stores with keys.\<close>

interpretation jobs_tbl: keyed_store j_job_id "\<lambda>k. sql_first (\<lambda>r. j_job_id r = k)"
  "\<lambda>k. sql_update (\<lambda>r. j_job_id r = k)" "sql_insert j_job_id" "keys_distinct j_job_id"
  by (rule keyed_table)

interpretation credits_tbl: keyed_store c_account_id "\<lambda>k. sql_first (\<lambda>r. c_account_id r = k)"
  "\<lambda>k. sql_update (\<lambda>r. c_account_id r = k)" "sql_insert c_account_id" "keys_distinct c_account_id"
  by (rule keyed_table)

interpretation providers_tbl: keyed_store p_provider_id "\<lambda>k. sql_first (\<lambda>r. p_provider_id r = k)"
  "\<lambda>k. sql_update (\<lambda>r. p_provider_id r = k)" "sql_insert p_provider_id" "keys_distinct p_provider_id"
  by (rule keyed_table)

interpretation accounts_tbl: keyed_store a_account_id "\<lambda>k. sql_first (\<lambda>r. a_account_id r = k)"
  "\<lambda>k. sql_update (\<lambda>r. a_account_id r = k)" "sql_insert a_account_id" "keys_distinct a_account_id"
  by (rule keyed_table)

section \<open>The invariant of the schema\<close>

text \<open>Every primary key is unique, and every trust score lies in \<open>[0, 5]\<close>.\<close>

definition pk_inv :: "coord_db \<Rightarrow> bool" where
  "pk_inv d \<longleftrightarrow>
     keys_distinct p_provider_id (providers d) \<and> keys_distinct j_job_id (jobs d) \<and>
     keys_distinct c_account_id (credits d) \<and> keys_distinct e_escrow_id (escrows d) \<and>
     keys_distinct t_tx_id (txs d) \<and> keys_distinct a_account_id (accounts d) \<and>
     keys_distinct k_account_id (kycs d) \<and> keys_distinct d_session_id (deposits d) \<and>
     keys_distinct ck_checkpoint_id (checkpoints d) \<and>
     keys_distinct (\<lambda>m. (m_provider_id m, m_milestone_hours m)) (milestones d) \<and>
     keys_distinct b_hash (artifacts d)"

definition trust_ok :: "provider_row \<Rightarrow> bool" where
  "trust_ok r \<longleftrightarrow> (\<forall>t. p_trust_score r = Some t \<longrightarrow> Fin 0 \<le> t \<and> t \<le> Fin 5)"

definition trust_inv :: "coord_db \<Rightarrow> bool" where
  "trust_inv d \<longleftrightarrow> (\<forall>r\<in>set (providers d). trust_ok r)"

definition db_inv :: "coord_db \<Rightarrow> bool" where
  "db_inv d \<longleftrightarrow> pk_inv d \<and> trust_inv d"

lemma db_inv_empty: "db_inv empty_db"
  by (simp add: db_inv_def pk_inv_def trust_inv_def empty_db_def keys_distinct_def)

subsection \<open>How a statement on one table keeps the invariant\<close>

text \<open>
  One rule per table: a statement that rewrites only that table keeps the invariant when it
  keeps the table's key unique (and, for the providers, the trust scores in range).
\<close>

lemma inv_on_providers:
  "on_providers F d = Inr d' \<Longrightarrow> db_inv d \<Longrightarrow>
     (\<And>t t'. keys_distinct p_provider_id t \<Longrightarrow> F t = Inr t' \<Longrightarrow> keys_distinct p_provider_id t') \<Longrightarrow>
     (\<And>t t'. Ball (set t) trust_ok \<Longrightarrow> F t = Inr t' \<Longrightarrow> Ball (set t') trust_ok) \<Longrightarrow>
     db_inv d'"
  by (auto simp: on_providers_def map_sum_eq_Inr db_inv_def pk_inv_def trust_inv_def)

lemma inv_on_jobs:
  "on_jobs F d = Inr d' \<Longrightarrow> db_inv d \<Longrightarrow>
     (\<And>t t'. keys_distinct j_job_id t \<Longrightarrow> F t = Inr t' \<Longrightarrow> keys_distinct j_job_id t') \<Longrightarrow>
     db_inv d'"
  by (auto simp: on_jobs_def map_sum_eq_Inr db_inv_def pk_inv_def trust_inv_def)

lemma inv_on_credits:
  "on_credits F d = Inr d' \<Longrightarrow> db_inv d \<Longrightarrow>
     (\<And>t t'. keys_distinct c_account_id t \<Longrightarrow> F t = Inr t' \<Longrightarrow> keys_distinct c_account_id t') \<Longrightarrow>
     db_inv d'"
  by (auto simp: on_credits_def map_sum_eq_Inr db_inv_def pk_inv_def trust_inv_def)

lemma inv_on_escrows:
  "on_escrows F d = Inr d' \<Longrightarrow> db_inv d \<Longrightarrow>
     (\<And>t t'. keys_distinct e_escrow_id t \<Longrightarrow> F t = Inr t' \<Longrightarrow> keys_distinct e_escrow_id t') \<Longrightarrow>
     db_inv d'"
  by (auto simp: on_escrows_def map_sum_eq_Inr db_inv_def pk_inv_def trust_inv_def)

lemma inv_on_txs:
  "on_txs F d = Inr d' \<Longrightarrow> db_inv d \<Longrightarrow>
     (\<And>t t'. keys_distinct t_tx_id t \<Longrightarrow> F t = Inr t' \<Longrightarrow> keys_distinct t_tx_id t') \<Longrightarrow>
     db_inv d'"
  by (auto simp: on_txs_def map_sum_eq_Inr db_inv_def pk_inv_def trust_inv_def)

lemma inv_on_accounts:
  "on_accounts F d = Inr d' \<Longrightarrow> db_inv d \<Longrightarrow>
     (\<And>t t'. keys_distinct a_account_id t \<Longrightarrow> F t = Inr t' \<Longrightarrow> keys_distinct a_account_id t') \<Longrightarrow>
     db_inv d'"
  by (auto simp: on_accounts_def map_sum_eq_Inr db_inv_def pk_inv_def trust_inv_def)

lemma inv_on_kycs:
  "on_kycs F d = Inr d' \<Longrightarrow> db_inv d \<Longrightarrow>
     (\<And>t t'. keys_distinct k_account_id t \<Longrightarrow> F t = Inr t' \<Longrightarrow> keys_distinct k_account_id t') \<Longrightarrow>
     db_inv d'"
  by (auto simp: on_kycs_def map_sum_eq_Inr db_inv_def pk_inv_def trust_inv_def)

lemma inv_on_deposits:
  "on_deposits F d = Inr d' \<Longrightarrow> db_inv d \<Longrightarrow>
     (\<And>t t'. keys_distinct d_session_id t \<Longrightarrow> F t = Inr t' \<Longrightarrow> keys_distinct d_session_id t') \<Longrightarrow>
     db_inv d'"
  by (auto simp: on_deposits_def map_sum_eq_Inr db_inv_def pk_inv_def trust_inv_def)

lemma inv_on_checkpoints:
  "on_checkpoints F d = Inr d' \<Longrightarrow> db_inv d \<Longrightarrow>
     (\<And>t t'. keys_distinct ck_checkpoint_id t \<Longrightarrow> F t = Inr t' \<Longrightarrow> keys_distinct ck_checkpoint_id t') \<Longrightarrow>
     db_inv d'"
  by (auto simp: on_checkpoints_def map_sum_eq_Inr db_inv_def pk_inv_def trust_inv_def)

lemma inv_on_milestones:
  "on_milestones F d = Inr d' \<Longrightarrow> db_inv d \<Longrightarrow>
     (\<And>t t'. keys_distinct (\<lambda>m. (m_provider_id m, m_milestone_hours m)) t \<Longrightarrow> F t = Inr t' \<Longrightarrow> keys_distinct (\<lambda>m. (m_provider_id m, m_milestone_hours m)) t') \<Longrightarrow>
     db_inv d'"
  by (auto simp: on_milestones_def map_sum_eq_Inr db_inv_def pk_inv_def trust_inv_def)

lemma inv_on_artifacts:
  "on_artifacts F d = Inr d' \<Longrightarrow> db_inv d \<Longrightarrow>
     (\<And>t t'. keys_distinct b_hash t \<Longrightarrow> F t = Inr t' \<Longrightarrow> keys_distinct b_hash t') \<Longrightarrow>
     db_inv d'"
  by (auto simp: on_artifacts_def map_sum_eq_Inr db_inv_def pk_inv_def trust_inv_def)

text \<open>
  The provider table as the services' statements see it: an update that leaves the key and
  the trust score alone keeps the invariant.
\<close>

lemma inv_update_providers:
  "on_providers (sql_update p f) d = Inr d' \<Longrightarrow> db_inv d \<Longrightarrow>
     (\<And>r r'. f r = Inr r' \<Longrightarrow> p_provider_id r' = p_provider_id r) \<Longrightarrow>
     (\<And>r r'. f r = Inr r' \<Longrightarrow> trust_ok r \<Longrightarrow> trust_ok r') \<Longrightarrow> db_inv d'"
  by (erule inv_on_providers)
    (assumption, erule keys_distinct_update, auto elim: sql_update_Ball [where Q = trust_ok, THEN bspec])

lemma inv_update_jobs:
  "on_jobs (sql_update p f) d = Inr d' \<Longrightarrow> db_inv d \<Longrightarrow>
     (\<And>r r'. f r = Inr r' \<Longrightarrow> j_job_id r' = j_job_id r) \<Longrightarrow> db_inv d'"
  by (erule inv_on_jobs) (auto elim: keys_distinct_update)

lemma inv_update_credits:
  "on_credits (sql_update p f) d = Inr d' \<Longrightarrow> db_inv d \<Longrightarrow>
     (\<And>r r'. f r = Inr r' \<Longrightarrow> c_account_id r' = c_account_id r) \<Longrightarrow> db_inv d'"
  by (erule inv_on_credits) (auto elim: keys_distinct_update)

lemma inv_upsert_credits:
  "on_credits (sql_upsert c_account_id r0 f) d = Inr d' \<Longrightarrow> db_inv d \<Longrightarrow>
     (\<And>r r'. f r = Inr r' \<Longrightarrow> c_account_id r' = c_account_id r) \<Longrightarrow> db_inv d'"
  by (erule inv_on_credits) (auto elim: keys_distinct_upsert)

lemma inv_update_escrows:
  "on_escrows (sql_update p f) d = Inr d' \<Longrightarrow> db_inv d \<Longrightarrow>
     (\<And>r r'. f r = Inr r' \<Longrightarrow> e_escrow_id r' = e_escrow_id r) \<Longrightarrow> db_inv d'"
  by (erule inv_on_escrows) (auto elim: keys_distinct_update)

lemma inv_insert_jobs:
  "on_jobs (sql_insert j_job_id r) d = Inr d' \<Longrightarrow> db_inv d \<Longrightarrow> db_inv d'"
  by (erule inv_on_jobs) (auto elim: keys_distinct_insert)

lemma inv_insert_escrows:
  "on_escrows (sql_insert e_escrow_id r) d = Inr d' \<Longrightarrow> db_inv d \<Longrightarrow> db_inv d'"
  by (erule inv_on_escrows) (auto elim: keys_distinct_insert)

lemma inv_insert_txs:
  "on_txs (sql_insert t_tx_id r) d = Inr d' \<Longrightarrow> db_inv d \<Longrightarrow> db_inv d'"
  by (erule inv_on_txs) (auto elim: keys_distinct_insert)

lemma inv_insert_deposits:
  "on_deposits (sql_insert d_session_id r) d = Inr d' \<Longrightarrow> db_inv d \<Longrightarrow> db_inv d'"
  by (erule inv_on_deposits) (auto elim: keys_distinct_insert)

lemma inv_insert_checkpoints:
  "on_checkpoints (sql_insert ck_checkpoint_id r) d = Inr d' \<Longrightarrow> db_inv d \<Longrightarrow> db_inv d'"
  by (erule inv_on_checkpoints) (auto elim: keys_distinct_insert)

text \<open>The invariant as a property of the handlers' worlds.\<close>

abbreviation keeps_db :: "(coord_db world, 'e, 'a) prog \<Rightarrow> bool" where
  "keeps_db \<equiv> keeps (\<lambda>w. db_inv (wdb w))"

end
