(* ===== verification/Http.thy ===== *)
theory Http
  imports F64
begin

text \<open>
  What the REST handlers return: JSON values as \<open>serde_json::json!\<close> builds them, the HTTP
  status codes they use, and the three ways a handler ends without a value (a bare status,
  a status with a JSON body, a panic). Text that \<open>format!\<close> produces from numbers and the
  printed form of a timestamp are kept as their template and arguments: their digits are the
  formatter's business, not the program's.
\<close>

datatype json =
    JNull
  | JBool bool
  | JNum rat
  | JInt int
  | JStr string
  | JTime int
  | JFmt string "f64 list"
  | JArr "json list"
  | JObj "(string \<times> json) list"

text \<open>\<open>json!(x)\<close> of a float: a value that is not finite becomes \<open>null\<close>.\<close>

fun j_f64 :: "f64 \<Rightarrow> json" where
  "j_f64 (Fin q) = JNum q"
| "j_f64 _ = JNull"

definition j_opt :: "('a \<Rightarrow> json) \<Rightarrow> 'a option \<Rightarrow> json" where
  "j_opt f x = (case x of None \<Rightarrow> JNull | Some a \<Rightarrow> f a)"

lemma j_opt_simps [simp]: "j_opt f None = JNull" "j_opt f (Some a) = f a"
  by (simp_all add: j_opt_def)

definition j_strs :: "string list \<Rightarrow> json" where
  "j_strs xs = JArr (map JStr xs)"

text \<open>\<open>v[\"key\"]\<close> on a JSON value: \<open>null\<close> where there is no such field.\<close>

definition j_get :: "string \<Rightarrow> json \<Rightarrow> json" where
  "j_get k v = (case v of JObj fs \<Rightarrow> (case map_of fs k of None \<Rightarrow> JNull | Some x \<Rightarrow> x) | _ \<Rightarrow> JNull)"

text \<open>\<open>.as_str()\<close>\<close>

fun j_as_str :: "json \<Rightarrow> string option" where
  "j_as_str (JStr s) = Some s"
| "j_as_str _ = None"

datatype status =
  OK | BAD_REQUEST | UNAUTHORIZED | PAYMENT_REQUIRED | NOT_FOUND | INTERNAL_SERVER_ERROR

datatype rest_error = Status status | Status_Json status json | Panicked

abbreviation ise :: "'e \<Rightarrow> rest_error" where
  "ise \<equiv> (\<lambda>_. Status INTERNAL_SERVER_ERROR)"

end
