(* ===== verification/Rest_Jobs.thy ===== *)
theory Rest_Jobs
  imports Coord_Db Http
begin

text \<open>
  The consumer-facing endpoints of \<open>coordinator/src/api/rest.rs\<close>: the provider market, job
  listing and detail, submission with its escrow, cancellation with its refund, and the job
  log. Every SQL statement of a handler is a definition of its own; a handler composes them
  in the order of the source, each one an independent statement that may fail.
\<close>

type_synonym 'a handler = "(coord_db world, rest_error, 'a) prog"

section \<open>Providers\<close>

definition health :: "json handler" where
  "health = retE (JObj [(''status'', JStr ''ok''), (''service'', JStr ''neuralmesh-coordinator'')])"

record provider_query =
  pq_runtime :: "string option"
  pq_min_ram :: "int option"
  pq_region :: "string option"
  pq_limit :: "int option"

definition provider_matches :: "provider_query \<Rightarrow> provider_row \<Rightarrow> bool" where
  "provider_matches q r \<longleftrightarrow>
     p_state r = Some ''available'' \<and>
     (pq_min_ram q = None \<or> null_le (pq_min_ram q) (p_max_job_ram_gb r)) \<and>
     (pq_region q = None \<or> null_eq (p_region r) (pq_region q))"

definition select_providers :: "provider_query \<Rightarrow> coord_db \<Rightarrow> db_error + provider_row list" where
  "select_providers q d =
     sql_limit (unwrap_or 50 (pq_limit q))
       (order_asc p_floor_price (filter (provider_matches q) (providers d)))"

definition provider_listing :: "provider_row \<Rightarrow> json" where
  "provider_listing r = JObj
     [(''id'', JStr (p_provider_id r)),
      (''chip_model'', j_opt JStr (p_chip_model r)),
      (''unified_memory_gb'', j_opt JInt (p_unified_memory_gb r)),
      (''gpu_cores'', j_opt JInt (p_gpu_cores r)),
      (''floor_price_nmc_per_hour'', j_opt j_f64 (p_floor_price r)),
      (''region'', j_opt JStr (p_region r)),
      (''trust_score'', j_opt j_f64 (p_trust_score r)),
      (''jobs_completed'', j_opt JInt (p_jobs_completed r)),
      (''state'', j_opt JStr (p_state r)),
      (''installed_runtimes'', j_strs (unwrap_or [] (p_installed_runtimes r))),
      (''max_job_ram_gb'', j_opt JInt (p_max_job_ram_gb r)),
      (''last_seen'', j_opt JTime (p_last_seen r))]"

definition list_providers :: "provider_query \<Rightarrow> json handler" where
  "list_providers q =
     bindE (map_errE ise (db_query (\<lambda>_ d. select_providers q d)))
       (\<lambda>rows. retE (JObj [(''providers'', JArr (map provider_listing rows)),
                           (''total'', JInt (int (length rows)))]))"

definition get_provider :: "string \<Rightarrow> json handler" where
  "get_provider pid =
     bindE (map_errE ise (db_query (\<lambda>_ d. Inr (provider_of d pid)))) (\<lambda>row0.
     bindE (someE (Status NOT_FOUND) row0) (\<lambda>row.
     retE (JObj
       [(''provider_id'', JStr (p_provider_id row)),
        (''chip_model'', j_opt JStr (p_chip_model row)),
        (''unified_memory_gb'', j_opt JInt (p_unified_memory_gb row)),
        (''state'', j_opt JStr (p_state row)),
        (''floor_price_nmc_per_hour'', j_opt j_f64 (p_floor_price row)),
        (''jobs_completed'', j_opt JInt (p_jobs_completed row)),
        (''trust_score'', j_opt j_f64 (p_trust_score row))])))"

section \<open>Job listing and detail\<close>

record job_query =
  jq_account_id :: "string option"
  jq_state :: "string option"
  jq_limit :: "int option"

definition select_jobs :: "job_query \<Rightarrow> coord_db \<Rightarrow> db_error + job_row list" where
  "select_jobs q d =
     sql_limit (unwrap_or 50 (jq_limit q))
       (order_desc j_created_at
         (filter (\<lambda>r. (jq_account_id q = None \<or> jq_account_id q = Some (j_consumer_id r)) \<and>
                      (jq_state q = None \<or> null_eq (j_state r) (jq_state q))) (jobs d)))"

text \<open>\<open>Some(p * (s as f64 / 3600.0))\<close> when both columns are set.\<close>

definition actual_cost_nmc :: "job_row \<Rightarrow> f64 option" where
  "actual_cost_nmc r =
     (case (j_price r, j_actual_runtime_s r) of
        (Some p, Some s) \<Rightarrow> Some (f64_mul p (f64_div (f64_of_int s) (Fin 3600)))
      | _ \<Rightarrow> None)"

definition runtime_str :: "int option \<Rightarrow> string" where
  "runtime_str x =
     (case x of
        Some n \<Rightarrow>
          (if n = 0 then ''mlx'' else if n = 1 then ''torch-mps'' else if n = 2 then ''onnx-coreml''
           else if n = 3 then ''llama-cpp'' else if n = 4 then ''shell'' else ''shell'')
      | None \<Rightarrow> ''shell'')"

definition job_summary :: "job_row \<Rightarrow> json" where
  "job_summary r = JObj
     [(''id'', JStr (j_job_id r)),
      (''job_id'', JStr (j_job_id r)),
      (''account_id'', JStr (j_consumer_id r)),
      (''consumer_id'', JStr (j_consumer_id r)),
      (''provider_id'', j_opt JStr (j_provider_id r)),
      (''state'', j_opt JStr (j_state r)),
      (''runtime'', JStr (runtime_str (j_runtime r))),
      (''min_ram_gb'', j_opt JInt (j_min_ram_gb r)),
      (''max_price_per_hour'', j_opt j_f64 (j_max_price r)),
      (''bundle_hash'', j_opt JStr (j_bundle_hash r)),
      (''actual_cost_nmc'', j_opt j_f64 (actual_cost_nmc r)),
      (''has_checkpoint'', JBool (j_checkpoint_url r \<noteq> None)),
      (''started_at'', j_opt JTime (j_started_at r)),
      (''completed_at'', j_opt JTime (j_completed_at r)),
      (''created_at'', j_opt JTime (j_created_at r))]"

definition list_jobs_rest :: "job_query \<Rightarrow> json handler" where
  "list_jobs_rest q =
     bindE (map_errE ise (db_query (\<lambda>_ d. select_jobs q d)))
       (\<lambda>rows. retE (JObj [(''jobs'', JArr (map job_summary rows)),
                           (''total'', JInt (int (length rows)))]))"

definition job_detail :: "job_row \<Rightarrow> json" where
  "job_detail r = JObj
     [(''id'', JStr (j_job_id r)),
      (''job_id'', JStr (j_job_id r)),
      (''account_id'', JStr (j_consumer_id r)),
      (''consumer_id'', JStr (j_consumer_id r)),
      (''provider_id'', j_opt JStr (j_provider_id r)),
      (''state'', j_opt JStr (j_state r)),
      (''runtime'', JStr (runtime_str (j_runtime r))),
      (''min_ram_gb'', j_opt JInt (j_min_ram_gb r)),
      (''max_price_per_hour'', j_opt j_f64 (j_max_price r)),
      (''price_per_hour'', j_opt j_f64 (j_price r)),
      (''bundle_hash'', j_opt JStr (j_bundle_hash r)),
      (''bundle_url'', j_opt JStr (j_bundle_url r)),
      (''output_hash'', j_opt JStr (j_output_hash r)),
      (''actual_cost_nmc'', j_opt j_f64 (actual_cost_nmc r)),
      (''actual_runtime_s'', j_opt JInt (j_actual_runtime_s r)),
      (''restore_attempts'', j_opt JInt (j_restore_attempts r)),
      (''failure_reason'', j_opt JStr (j_failure_reason r)),
      (''has_checkpoint'', JBool (j_checkpoint_url r \<noteq> None)),
      (''checkpoint_iter'', j_opt JInt (j_checkpoint_iter r)),
      (''started_at'', j_opt JTime (j_started_at r)),
      (''completed_at'', j_opt JTime (j_completed_at r)),
      (''created_at'', j_opt JTime (j_created_at r))]"

definition get_job :: "string \<Rightarrow> json handler" where
  "get_job jid =
     bindE (map_errE ise (db_query (\<lambda>_ d. Inr (job_of d jid)))) (\<lambda>row.
     bindE (someE (Status NOT_FOUND) row) (\<lambda>r. retE (job_detail r)))"

section \<open>Submission\<close>

record submit_job_body =
  sj_account_id :: string
  sj_runtime :: string
  sj_min_ram_gb :: int
  sj_max_duration_secs :: int
  sj_max_price_per_hour :: f64
  sj_bundle_hash :: "string option"
  sj_bundle_url :: "string option"
  sj_script_name :: "string option"
  sj_preferred_region :: "string option"

definition runtime_int :: "string \<Rightarrow> int" where
  "runtime_int s =
     (if s = ''mlx'' then 0 else if s = ''torch-mps'' then 1 else if s = ''onnx-coreml'' then 2
      else if s = ''llama-cpp'' then 3 else if s = ''shell'' then 4 else 4)"

text \<open>The escrow for the longest the job may run.\<close>

definition submit_max_cost :: "submit_job_body \<Rightarrow> f64" where
  "submit_max_cost b =
     f64_mul (sj_max_price_per_hour b) (f64_div (f64_of_int (sj_max_duration_secs b)) (Fin 3600))"

definition submitted_job :: "submit_job_body \<Rightarrow> string \<Rightarrow> int \<Rightarrow> job_row" where
  "submitted_job b jid now = (new_job_row jid (sj_account_id b) now)
     \<lparr>j_runtime := Some (runtime_int (sj_runtime b)), j_min_ram_gb := Some (sj_min_ram_gb b),
      j_max_duration_s := Some (sj_max_duration_secs b),
      j_max_price := Some (sj_max_price_per_hour b), j_bundle_hash := sj_bundle_hash b,
      j_bundle_url := sj_bundle_url b, j_script_name := sj_script_name b,
      j_preferred_region := sj_preferred_region b, j_state := Some ''queued''\<rparr>"

definition insert_job :: "submit_job_body \<Rightarrow> string \<Rightarrow> (coord_db world, db_error, unit) prog" where
  "insert_job b jid = db_exec (\<lambda>now. on_jobs (sql_insert j_job_id (submitted_job b jid now)))"

definition lock_row :: "f64 \<Rightarrow> int \<Rightarrow> credit_row \<Rightarrow> db_error + credit_row" where
  "lock_row amount now r =
     and_then (sql_sub (c_available r) (Some amount)) (\<lambda>a.
     and_then (sql_add (c_escrowed r) (Some amount)) (\<lambda>e.
     Inr (r\<lparr>c_available := a, c_escrowed := e, c_updated_at := Some now\<rparr>)))"

definition lock_credits :: "string \<Rightarrow> f64 \<Rightarrow> (coord_db world, db_error, unit) prog" where
  "lock_credits acct amount =
     db_exec (\<lambda>now. on_credits (sql_update (\<lambda>r. c_account_id r = acct) (lock_row amount now)))"

text \<open>The insert into \<open>escrows\<close>; the job it references must exist.\<close>

definition insert_escrow ::
  "string \<Rightarrow> string option \<Rightarrow> string \<Rightarrow> string option \<Rightarrow> f64 \<Rightarrow> (coord_db world, db_error, unit) prog" where
  "insert_escrow eid jid cid pid amount =
     db_exec (\<lambda>now d.
       if fk j_job_id (jobs d) jid
       then on_escrows (sql_insert e_escrow_id
              ((new_escrow_row eid jid cid amount)\<lparr>e_provider_id := pid\<rparr>)) d
       else Inl Fk_Violation)"

text \<open>The insert into \<open>transactions\<close>, with or without the \<open>balance_after\<close> subquery.\<close>

definition insert_tx ::
  "string \<Rightarrow> string \<Rightarrow> string \<Rightarrow> f64 \<Rightarrow> bool \<Rightarrow> string option \<Rightarrow> string \<Rightarrow>
     (coord_db world, db_error, unit) prog" where
  "insert_tx tid acct ty amount with_balance ref descr =
     db_exec (\<lambda>now d.
       on_txs (sql_insert t_tx_id
         ((new_tx_row tid acct ty amount now)
            \<lparr>t_balance_after := (if with_balance then Option.bind (credit_of d acct) c_available else None),
             t_reference := ref, t_description := Some descr\<rparr>)) d)"

definition db_error_body :: "'e \<Rightarrow> rest_error" where
  "db_error_body = (\<lambda>_. Status_Json INTERNAL_SERVER_ERROR (JObj [(''error'', JStr ''db_error'')]))"

definition submit_job :: "submit_job_body \<Rightarrow> json handler" where
  "submit_job b =
     bindE (map_errE db_error_body (db_query (\<lambda>_ d. Inr (credit_of d (sj_account_id b))))) (\<lambda>credit.
     let available = (case credit of None \<Rightarrow> Fin 0 | Some c \<Rightarrow> unwrap_or (Fin 0) (c_available c));
         max_cost = submit_max_cost b
     in if f64_lt available max_cost
        then failE (Status_Json PAYMENT_REQUIRED (JObj
               [(''ok'', JBool False), (''error'', JStr ''insufficient_balance''),
                (''message'', JFmt ''Need {:.4} HC escrow for max job cost, only {:.4} available. Run `hatch wallet deposit` to add credits.''
                                [max_cost, available])]))
        else
          bindE new_uuid (\<lambda>job_id.
          seqE (map_errE db_error_body (insert_job b job_id))
          (seqE (map_errE db_error_body (lock_credits (sj_account_id b) max_cost))
          (bindE new_uuid (\<lambda>escrow_id.
          seqE (map_errE db_error_body (insert_escrow escrow_id (Some job_id) (sj_account_id b) None max_cost))
          (bindE new_uuid (\<lambda>tx_id.
          seqE (map_errE db_error_body (insert_tx tx_id (sj_account_id b) ''escrow_lock'' (f64_neg max_cost) True
                  (Some job_id) ''Job escrow locked''))
          (retE (JObj
             [(''ok'', JBool True), (''job_id'', JStr job_id), (''state'', JStr ''queued''),
              (''estimated_wait_secs'', JInt 30), (''locked_nmc'', j_f64 max_cost)])))))))))"

section \<open>Cancellation\<close>

text \<open>\<open>SELECT locked_nmc FROM escrows WHERE job_id = $1 AND state = 'locked' LIMIT 1\<close> as a
  scalar subquery: \<open>NULL\<close> when there is no such row.\<close>

definition locked_escrow :: "string \<Rightarrow> coord_db \<Rightarrow> escrow_row option" where
  "locked_escrow jid d =
     sql_first (\<lambda>e. e_job_id e = Some jid \<and> e_state e = Some ''locked'') (escrows d)"

definition refund_row :: "f64 option \<Rightarrow> int \<Rightarrow> credit_row \<Rightarrow> db_error + credit_row" where
  "refund_row locked now r =
     and_then (sql_add (c_available r) locked) (\<lambda>a.
     and_then (sql_sub (c_escrowed r) locked) (\<lambda>e.
     Inr (r\<lparr>c_available := a, c_escrowed := sql_greatest (Some (Fin 0)) e, c_updated_at := Some now\<rparr>)))"

definition cancel_mark :: "string \<Rightarrow> (coord_db world, db_error, unit) prog" where
  "cancel_mark jid = db_exec (\<lambda>now. on_jobs (sql_update (\<lambda>r. j_job_id r = jid)
     (\<lambda>r. Inr (r\<lparr>j_state := Some ''cancelled'', j_completed_at := Some now\<rparr>))))"

definition cancel_refund :: "string \<Rightarrow> string \<Rightarrow> (coord_db world, db_error, unit) prog" where
  "cancel_refund jid cid = db_exec (\<lambda>now d.
     on_credits (sql_update (\<lambda>r. c_account_id r = cid)
       (refund_row (map_option e_locked_nmc (locked_escrow jid d)) now)) d)"

definition cancel_release :: "string \<Rightarrow> (coord_db world, db_error, unit) prog" where
  "cancel_release jid = db_exec (\<lambda>now. on_escrows (sql_update
     (\<lambda>e. e_job_id e = Some jid \<and> e_state e = Some ''locked'')
     (\<lambda>e. Inr (e\<lparr>e_state := Some ''released'', e_settled_at := Some now\<rparr>))))"

definition free_provider_of_job :: "string \<Rightarrow> (coord_db world, db_error, unit) prog" where
  "free_provider_of_job jid = db_exec (\<lambda>now. on_providers (sql_update
     (\<lambda>p. p_active_job_id p = Some jid)
     (\<lambda>p. Inr (p\<lparr>p_state := Some ''available'', p_active_job_id := None\<rparr>))))"

definition is_terminal :: "string option \<Rightarrow> bool" where
  "is_terminal st \<longleftrightarrow> st \<in> {Some ''complete'', Some ''failed'', Some ''cancelled''}"

definition cancel_job :: "string \<Rightarrow> json handler" where
  "cancel_job jid =
     bindE (map_errE ise (db_query (\<lambda>_ d. Inr (job_of d jid)))) (\<lambda>row.
     bindE (someE (Status NOT_FOUND) row) (\<lambda>job.
     if is_terminal (j_state job)
     then retE (JObj [(''ok'', JBool False), (''error'', JStr ''already_terminal''),
                      (''state'', j_opt JStr (j_state job))])
     else
       seqE (map_errE ise (cancel_mark jid))
       (seqE (map_errE ise (cancel_refund jid (j_consumer_id job)))
       (seqE (map_errE ise (cancel_release jid))
       (seqE (okE (free_provider_of_job jid))
       (retE (JObj [(''ok'', JBool True), (''job_id'', JStr jid), (''state'', JStr ''cancelled'')])))))))"

section \<open>Job log\<close>

definition get_job_logs :: "string \<Rightarrow> nat option \<Rightarrow> json handler" where
  "get_job_logs jid q_offset =
     (let offset = unwrap_or 0 q_offset in
     bindE (map_errE ise (db_query (\<lambda>_ d. Inr (job_of d jid)))) (\<lambda>row.
     bindE (someE (Status NOT_FOUND) row) (\<lambda>job.
     let full_log = unwrap_or [] (j_output_log job)
     in bindE (if offset < length full_log then someE Panicked (slice_from full_log offset) else retE [])
       (\<lambda>output.
        retE (JObj
          [(''job_id'', JStr jid), (''output'', JStr output),
           (''is_complete'', JBool (is_terminal (j_state job))),
           (''offset'', JInt (int (offset + length output)))])))))"

definition append_log_stmt :: "string \<Rightarrow> string \<Rightarrow> (coord_db world, db_error, unit) prog" where
  "append_log_stmt jid out = db_exec (\<lambda>now. on_jobs (sql_update (\<lambda>r. j_job_id r = jid)
     (\<lambda>r. Inr (r\<lparr>j_output_log := Some (unwrap_or [] (j_output_log r) @ out)\<rparr>))))"

definition append_job_log :: "string \<Rightarrow> string \<Rightarrow> json handler" where
  "append_job_log jid out =
     (if out = [] then retE (JObj [(''ok'', JBool True), (''appended'', JInt 0)])
      else seqE (map_errE ise (append_log_stmt jid out))
             (retE (JObj [(''ok'', JBool True), (''appended'', JInt (int (length out)))])))"

section \<open>The invariant\<close>

lemma keeps_insert_job [keeps_intro]: "keeps_db (insert_job b jid)"
  unfolding insert_job_def by (rule keeps_db_exec) (erule inv_insert_jobs)

lemma lock_row_key: "lock_row amount now r = Inr r' \<Longrightarrow> c_account_id r' = c_account_id r"
  by (auto simp: lock_row_def and_then_eq_Inr)

lemma refund_row_key: "refund_row locked now r = Inr r' \<Longrightarrow> c_account_id r' = c_account_id r"
  by (auto simp: refund_row_def and_then_eq_Inr)

lemma keeps_lock_credits [keeps_intro]: "keeps_db (lock_credits acct amount)"
  unfolding lock_credits_def by (rule keeps_db_exec) (erule inv_update_credits, simp, erule lock_row_key)

lemma keeps_insert_escrow [keeps_intro]: "keeps_db (insert_escrow eid jid cid pid amount)"
  unfolding insert_escrow_def by (rule keeps_db_exec) (auto split: if_splits elim: inv_insert_escrows)

lemma keeps_insert_tx [keeps_intro]: "keeps_db (insert_tx tid acct ty amount b ref descr)"
  unfolding insert_tx_def by (rule keeps_db_exec) (erule inv_insert_txs)

lemma keeps_cancel_mark [keeps_intro]: "keeps_db (cancel_mark jid)"
  unfolding cancel_mark_def by (rule keeps_db_exec) (erule inv_update_jobs, auto)

lemma keeps_cancel_refund [keeps_intro]: "keeps_db (cancel_refund jid cid)"
  unfolding cancel_refund_def by (rule keeps_db_exec) (erule inv_update_credits, simp, erule refund_row_key)

lemma keeps_cancel_release [keeps_intro]: "keeps_db (cancel_release jid)"
  unfolding cancel_release_def by (rule keeps_db_exec) (erule inv_update_escrows, auto)

lemma keeps_free_provider_of_job [keeps_intro]: "keeps_db (free_provider_of_job jid)"
  unfolding free_provider_of_job_def
  by (rule keeps_db_exec) (erule inv_update_providers, auto simp: trust_ok_def)

lemma keeps_append_log_stmt [keeps_intro]: "keeps_db (append_log_stmt jid out)"
  unfolding append_log_stmt_def by (rule keeps_db_exec) (erule inv_update_jobs, auto)

lemma keeps_submit_job [keeps_intro]: "keeps_db (submit_job b)"
  unfolding submit_job_def Let_def by (intro keeps_intro)

lemma keeps_cancel_job [keeps_intro]: "keeps_db (cancel_job jid)"
  unfolding cancel_job_def by (intro keeps_intro)

lemma keeps_append_job_log [keeps_intro]: "keeps_db (append_job_log jid out)"
  unfolding append_job_log_def by (intro keeps_intro)

section \<open>What a submission and a cancellation do\<close>

lemma lock_row_Fin:
  "c_available c = Some (Fin a) \<Longrightarrow> c_escrowed c = Some (Fin e) \<Longrightarrow>
   f64_of (a - m) = Fin a' \<Longrightarrow> f64_of (e + m) = Fin e' \<Longrightarrow>
   lock_row (Fin m) now c = Inr (c\<lparr>c_available := Some (Fin a'), c_escrowed := Some (Fin e'), c_updated_at := Some now\<rparr>)"
  by (simp add: lock_row_def)

lemma refund_row_Fin:
  "c_available c = Some (Fin a) \<Longrightarrow> c_escrowed c = Some (Fin e) \<Longrightarrow>
   f64_of (a + m) = Fin a' \<Longrightarrow> f64_of (e - m) = Fin e' \<Longrightarrow>
   refund_row (Some (Fin m)) now c =
     Inr (c\<lparr>c_available := Some (Fin a'), c_escrowed := Some (max (Fin 0) (Fin e')), c_updated_at := Some now\<rparr>)"
  by (simp add: refund_row_def)

text \<open>The three identifiers the submission draws are new, for the tables they are keys of.\<close>

definition submit_ids_fresh :: "coord_db world \<Rightarrow> bool" where
  "submit_ids_fresh w \<longleftrightarrow>
     job_of (wdb w) (wids w (widn w)) = None \<and> locked_escrow (wids w (widn w)) (wdb w) = None \<and>
     sql_first (\<lambda>e. e_escrow_id e = wids w (Suc (widn w))) (escrows (wdb w)) = None \<and>
     sql_first (\<lambda>t. t_tx_id t = wids w (Suc (Suc (widn w)))) (txs (wdb w)) = None"

text \<open>The world a submission leaves when every statement runs.\<close>

lemma submit_job_run:
  assumes nf: "wfaults w = []" and pk: "pk_inv (wdb w)" and fresh: "submit_ids_fresh w"
    and c: "credit_of (wdb w) (sj_account_id b) = Some c"
    and a: "c_available c = Some (Fin a)" and e: "c_escrowed c = Some (Fin e)"
    and m: "submit_max_cost b = Fin m" "m \<le> a"
    and fin: "f64_of (a - m) = Fin a'" "f64_of (e + m) = Fin e'"
  defines "jid \<equiv> wids w (widn w)"
  shows "\<exists>t'. submit_job b w = (Inr (JObj
             [(''ok'', JBool True), (''job_id'', JStr jid), (''state'', JStr ''queued''),
              (''estimated_wait_secs'', JInt 30), (''locked_nmc'', JNum m)]),
       w\<lparr>widn := widn w + 3, wdb := (wdb w)
          \<lparr>jobs := jobs (wdb w) @ [submitted_job b jid (wnow w)], credits := t',
           escrows := escrows (wdb w) @ [new_escrow_row (wids w (Suc (widn w))) (Some jid) (sj_account_id b) (Fin m)],
           txs := txs (wdb w) @ [(new_tx_row (wids w (Suc (Suc (widn w)))) (sj_account_id b) ''escrow_lock'' (Fin (- m)) (wnow w))
              \<lparr>t_balance_after := Some (Fin a'), t_reference := Some jid, t_description := Some ''Job escrow locked''\<rparr>]\<rparr>\<rparr>) \<and>
     keys_distinct c_account_id t' \<and>
     sql_first (\<lambda>r. c_account_id r = sj_account_id b) t' = Some (c\<lparr>c_available := Some (Fin a'),
        c_escrowed := Some (Fin e'), c_updated_at := Some (wnow w)\<rparr>) \<and>
     (\<forall>k. k \<noteq> sj_account_id b \<longrightarrow> sql_first (\<lambda>r. c_account_id r = k) t' = credit_of (wdb w) k)"
proof -
  have "keys_distinct c_account_id (credits (wdb w))" using pk by (simp add: pk_inv_def)
  from credits_tbl.modify_hit [where f = "lock_row (Fin m) (wnow w)", OF this c lock_row_Fin [OF a e fin]]
  obtain t' where t': "sql_update (\<lambda>r. c_account_id r = sj_account_id b) (lock_row (Fin m) (wnow w)) (credits (wdb w)) = Inr t'"
    "keys_distinct c_account_id t'"
    "sql_first (\<lambda>r. c_account_id r = sj_account_id b) t' = Some (c\<lparr>c_available := Some (Fin a'),
        c_escrowed := Some (Fin e'), c_updated_at := Some (wnow w)\<rparr>)"
    "\<forall>k. k \<noteq> sj_account_id b \<longrightarrow> sql_first (\<lambda>r. c_account_id r = k) t' = credit_of (wdb w) k"
    by auto
  have key: "\<And>now. j_job_id (submitted_job b jid now) = jid"
    by (simp add: submitted_job_def new_job_row_def)
  have ins: "sql_insert j_job_id (submitted_job b jid (wnow w)) (jobs (wdb w)) =
      Inr (jobs (wdb w) @ [submitted_job b jid (wnow w)])"
    using fresh by (intro sql_insert_new) (simp add: submit_ids_fresh_def jid_def submitted_job_def new_job_row_def)
  have "submit_job b w = (Inr (JObj
             [(''ok'', JBool True), (''job_id'', JStr jid), (''state'', JStr ''queued''),
              (''estimated_wait_secs'', JInt 30), (''locked_nmc'', JNum m)]),
       w\<lparr>widn := widn w + 3, wdb := (wdb w)
          \<lparr>jobs := jobs (wdb w) @ [submitted_job b jid (wnow w)], credits := t',
           escrows := escrows (wdb w) @ [new_escrow_row (wids w (Suc (widn w))) (Some jid) (sj_account_id b) (Fin m)],
           txs := txs (wdb w) @ [(new_tx_row (wids w (Suc (Suc (widn w)))) (sj_account_id b) ''escrow_lock'' (Fin (- m)) (wnow w))
              \<lparr>t_balance_after := Some (Fin a'), t_reference := Some jid, t_description := Some ''Job escrow locked''\<rparr>]\<rparr>\<rparr>)"
    using nf m a c t'(1,3) ins key fresh
    by (simp add: submit_job_def prog_simps insert_job_def lock_credits_def insert_escrow_def insert_tx_def
        on_table_defs jid_def submit_ids_fresh_def sql_insert_new new_escrow_row_def new_tx_row_def Let_def)
  with t' show ?thesis by blast
qed


lemma locked_escrow_append:
  "locked_escrow jid (d\<lparr>escrows := es @ [x]\<rparr>) = (case locked_escrow jid (d\<lparr>escrows := es\<rparr>) of
     None \<Rightarrow> if e_job_id x = Some jid \<and> e_state x = Some ''locked'' then Some x else None | Some e \<Rightarrow> Some e)"
  by (simp add: locked_escrow_def sql_first_append split: option.split)

lemma locked_escrow_release:
  "sql_first (\<lambda>e. e_job_id e = Some jid \<and> e_state e = Some ''locked'')
     (map (\<lambda>e. if e_job_id e = Some jid \<and> e_state e = Some ''locked''
               then e\<lparr>e_state := Some ''released'', e_settled_at := Some now\<rparr> else e) es) = None"
  by (auto simp: sql_first_def find_None_iff)

text \<open>The world a cancellation leaves when every statement runs.\<close>

lemma cancel_job_run:
  assumes nf: "wfaults w = []" and inv: "db_inv (wdb w)"
    and j: "job_of (wdb w) jid = Some j" "\<not> is_terminal (j_state j)"
    and esc: "locked_escrow jid (wdb w) = Some x" "e_locked_nmc x = Fin m"
    and c: "credit_of (wdb w) (j_consumer_id j) = Some c"
    and a: "c_available c = Some (Fin a)" and e: "c_escrowed c = Some (Fin e)"
    and fin: "f64_of (a + m) = Fin a'" "f64_of (e - m) = Fin e'"
  shows "\<exists>w'. cancel_job jid w = (Inr (JObj
             [(''ok'', JBool True), (''job_id'', JStr jid), (''state'', JStr ''cancelled'')]), w') \<and>
     credit_of (wdb w') (j_consumer_id j) = Some (c\<lparr>c_available := Some (Fin a'),
        c_escrowed := Some (max (Fin 0) (Fin e')), c_updated_at := Some (wnow w)\<rparr>) \<and>
     (\<forall>k. k \<noteq> j_consumer_id j \<longrightarrow> credit_of (wdb w') k = credit_of (wdb w) k) \<and>
     job_of (wdb w') jid = Some (j\<lparr>j_state := Some ''cancelled'', j_completed_at := Some (wnow w)\<rparr>) \<and>
     (\<forall>k. provider_of (wdb w') k = map_option (\<lambda>p. if p_active_job_id p = Some jid
        then p\<lparr>p_state := Some ''available'', p_active_job_id := None\<rparr> else p) (provider_of (wdb w) k)) \<and>
     locked_escrow jid (wdb w') = None \<and> txs (wdb w') = txs (wdb w) \<and>
     wfaults w' = [] \<and> wnow w' = wnow w \<and> wids w' = wids w \<and> widn w' = widn w \<and> db_inv (wdb w')"
proof -
  have pk: "pk_inv (wdb w)" using inv by (simp add: db_inv_def)
  have inv': "db_inv (wdb (snd (cancel_job jid w)))" by (rule keepsD [OF keeps_cancel_job inv])
  have "keys_distinct c_account_id (credits (wdb w))" using pk by (simp add: pk_inv_def)
  from credits_tbl.modify_hit [where f = "refund_row (Some (Fin m)) (wnow w)", OF this c refund_row_Fin [OF a e fin]]
  obtain t' where t': "sql_update (\<lambda>r. c_account_id r = j_consumer_id j) (refund_row (Some (Fin m)) (wnow w)) (credits (wdb w)) = Inr t'"
    "sql_first (\<lambda>r. c_account_id r = j_consumer_id j) t' = Some (c\<lparr>c_available := Some (Fin a'),
        c_escrowed := Some (max (Fin 0) (Fin e')), c_updated_at := Some (wnow w)\<rparr>)"
    "\<forall>k. k \<noteq> j_consumer_id j \<longrightarrow> sql_first (\<lambda>r. c_account_id r = k) t' = credit_of (wdb w) k"
    by auto
  have jk: "j_job_id j = jid" using j(1) by (auto simp: sql_first_def find_Some_iff)
  have "keys_distinct j_job_id (jobs (wdb w))" using pk by (simp add: pk_inv_def)
  from jobs_tbl.modify_hit [where f = "\<lambda>r. Inr (r\<lparr>j_state := Some ''cancelled'', j_completed_at := Some (wnow w)\<rparr>)",
      OF this j(1) refl] jk
  have jm: "sql_first (\<lambda>r. j_job_id r = jid) (map (\<lambda>r. if j_job_id r = jid
      then r\<lparr>j_state := Some ''cancelled'', j_completed_at := Some (wnow w)\<rparr> else r) (jobs (wdb w))) =
      Some (j\<lparr>j_state := Some ''cancelled'', j_completed_at := Some (wnow w)\<rparr>)"
    by auto
  show ?thesis
    using nf j esc t' jm inv'
    by (simp add: cancel_job_def prog_simps cancel_mark_def cancel_refund_def cancel_release_def
        free_provider_of_job_def on_table_defs locked_escrow_release locked_escrow_def sql_first_map)
qed

lemma submitted_job_sel [simp]:
  "j_job_id (submitted_job b jid now) = jid" "j_consumer_id (submitted_job b jid now) = sj_account_id b"
  "j_state (submitted_job b jid now) = Some ''queued''" "j_provider_id (submitted_job b jid now) = None"
  by (simp_all add: submitted_job_def new_job_row_def)

lemma new_escrow_row_sel [simp]:
  "e_escrow_id (new_escrow_row eid jid cid m) = eid" "e_job_id (new_escrow_row eid jid cid m) = jid"
  "e_consumer_id (new_escrow_row eid jid cid m) = cid" "e_locked_nmc (new_escrow_row eid jid cid m) = m"
  "e_state (new_escrow_row eid jid cid m) = Some ''locked''"
  by (simp_all add: new_escrow_row_def)

lemma new_tx_row_sel [simp]:
  "t_tx_id (new_tx_row tid acct ty m now) = tid" "t_account_id (new_tx_row tid acct ty m now) = acct"
  "t_tx_type (new_tx_row tid acct ty m now) = ty" "t_amount (new_tx_row tid acct ty m now) = m"
  by (simp_all add: new_tx_row_def)

lemma submit_job_after:
  assumes "wfaults w = []" "db_inv (wdb w)" "submit_ids_fresh w"
    and "credit_of (wdb w) (sj_account_id b) = Some c"
    and "c_available c = Some (Fin a)" "c_escrowed c = Some (Fin e)"
    and "submit_max_cost b = Fin m" "m \<le> a"
    and "f64_of (a - m) = Fin a'" "f64_of (e + m) = Fin e'"
  shows "\<exists>w'. submit_job b w = (Inr (JObj
             [(''ok'', JBool True), (''job_id'', JStr (wids w (widn w))), (''state'', JStr ''queued''),
              (''estimated_wait_secs'', JInt 30), (''locked_nmc'', JNum m)]), w') \<and>
     wfaults w' = [] \<and> db_inv (wdb w') \<and> wnow w' = wnow w \<and>
     job_of (wdb w') (wids w (widn w)) = Some (submitted_job b (wids w (widn w)) (wnow w)) \<and>
     credit_of (wdb w') (sj_account_id b) =
       Some (c\<lparr>c_available := Some (Fin a'), c_escrowed := Some (Fin e'), c_updated_at := Some (wnow w)\<rparr>) \<and>
     (\<forall>k. k \<noteq> sj_account_id b \<longrightarrow> credit_of (wdb w') k = credit_of (wdb w) k) \<and>
     locked_escrow (wids w (widn w)) (wdb w') =
       Some (new_escrow_row (wids w (Suc (widn w))) (Some (wids w (widn w))) (sj_account_id b) (Fin m)) \<and>
     (\<exists>t. txs (wdb w') = txs (wdb w) @ [t] \<and> t_tx_type t = ''escrow_lock'' \<and> t_amount t = Fin (- m) \<and>
          t_balance_after t = Some (Fin a') \<and> t_account_id t = sj_account_id b)"
proof -
  have "pk_inv (wdb w)" using assms(2) by (simp add: db_inv_def)
  from submit_job_run [OF assms(1) this assms(3-10)] keepsD [OF keeps_submit_job assms(2), of b] assms(1,3)
  show ?thesis
    by (auto simp: submit_ids_fresh_def locked_escrow_def sql_first_append)
qed

section \<open>Properties\<close>

text \<open>A concrete submission and database, at which the properties are evaluated.\<close>

definition demo_body :: submit_job_body where
  "demo_body = \<lparr>sj_account_id = ''acct'', sj_runtime = ''mlx'', sj_min_ram_gb = 16,
     sj_max_duration_secs = 7200, sj_max_price_per_hour = Fin 2, sj_bundle_hash = None,
     sj_bundle_url = None, sj_script_name = None, sj_preferred_region = None\<rparr>"

definition demo_credit :: credit_row where
  "demo_credit = (new_credit_row ''acct'' 900)\<lparr>c_available := Some (Fin 10)\<rparr>"

definition demo_db :: coord_db where
  "demo_db = empty_db\<lparr>credits := [demo_credit]\<rparr>"

lemma demo_body_cost [simp]: "submit_max_cost demo_body = Fin 4"
  by (simp add: submit_max_cost_def demo_body_def f64_of_int_def)

lemma demo_db_facts [simp]:
  "db_inv demo_db" "submit_ids_fresh (world_at demo_db)"
  "job_of demo_db k = None"
  "credit_of demo_db ''acct'' = Some demo_credit" "sj_account_id demo_body = ''acct''"
  "c_available demo_credit = Some (Fin 10)" "c_escrowed demo_credit = Some (Fin 0)"
  by (simp_all add: demo_db_def db_inv_def pk_inv_def trust_inv_def empty_db_def keys_distinct_def
      submit_ids_fresh_def world_at_def locked_escrow_def new_credit_row_def demo_credit_def demo_body_def)


text \<open>C2: A submission that the account can pay for locks exactly the job's maximum
  cost: the handler answers with the new job's identifier and the locked amount, the job is
  queued as submitted, the account's available balance goes down and its escrowed balance up
  by that amount, no other account changes, a locked escrow for the job holds the amount, and
  one \<open>escrow_lock\<close> transaction records it with the balance after.\<close>

theorem submit_job_locks_escrow:
  assumes "wfaults w = []" "db_inv (wdb w)" "submit_ids_fresh w"
    and "credit_of (wdb w) (sj_account_id b) = Some c"
    and "c_available c = Some (Fin a)" "c_escrowed c = Some (Fin e)"
    and "submit_max_cost b = Fin m" "m \<le> a"
    and "f64_of (a - m) = Fin a'" "f64_of (e + m) = Fin e'"
  shows "\<exists>w'. submit_job b w = (Inr (JObj
             [(''ok'', JBool True), (''job_id'', JStr (wids w (widn w))), (''state'', JStr ''queued''),
              (''estimated_wait_secs'', JInt 30), (''locked_nmc'', JNum m)]), w') \<and>
     job_of (wdb w') (wids w (widn w)) = Some (submitted_job b (wids w (widn w)) (wnow w)) \<and>
     credit_of (wdb w') (sj_account_id b) =
       Some (c\<lparr>c_available := Some (Fin a'), c_escrowed := Some (Fin e'), c_updated_at := Some (wnow w)\<rparr>) \<and>
     (\<forall>k. k \<noteq> sj_account_id b \<longrightarrow> credit_of (wdb w') k = credit_of (wdb w) k) \<and>
     locked_escrow (wids w (widn w)) (wdb w') =
       Some (new_escrow_row (wids w (Suc (widn w))) (Some (wids w (widn w))) (sj_account_id b) (Fin m)) \<and>
     (\<exists>t. txs (wdb w') = txs (wdb w) @ [t] \<and> t_tx_type t = ''escrow_lock'' \<and> t_amount t = Fin (- m) \<and>
          t_balance_after t = Some (Fin a') \<and> t_account_id t = sj_account_id b)"
  using submit_job_after [OF assms] by blast

theorem submit_job_locks_escrow_witness:
  "\<exists>r w'. submit_job demo_body (world_at demo_db) = (Inr r, w') \<and>
     (\<exists>c. credit_of (wdb w') ''acct'' = Some c \<and> c_available c = Some (Fin 6) \<and> c_escrowed c = Some (Fin 4)) \<and>
     locked_escrow ''u'' (wdb w') = Some (new_escrow_row ''uu'' (Some ''u'') ''acct'' (Fin 4))"
  using submit_job_locks_escrow [where w = "world_at demo_db" and b = demo_body and a = 10 and e = 0
      and m = 4 and a' = 6 and e' = 4 and c = demo_credit]
  by simp (elim exE conjE, intro exI conjI, assumption, auto)

text \<open>A submission that the account cannot pay for (no credit row counts as zero) is
  answered \<open>402 Payment Required\<close> and changes nothing: no job, no escrow, no identifier used.\<close>

theorem submit_job_rejects:
  assumes "wfaults w = []"
    and "available = (case credit_of (wdb w) (sj_account_id b) of None \<Rightarrow> Fin 0 | Some c \<Rightarrow> unwrap_or (Fin 0) (c_available c))"
    and "f64_lt available (submit_max_cost b)"
  shows "\<exists>body. submit_job b w = (Inl (Status_Json PAYMENT_REQUIRED body), w)"
  using assms by (simp add: submit_job_def prog_simps Let_def)

theorem submit_job_rejects_witness:
  "\<exists>body. submit_job demo_body (world_at empty_db) = (Inl (Status_Json PAYMENT_REQUIRED body), world_at empty_db)"
  by (rule submit_job_rejects [OF _ refl]) (simp_all add: demo_body_cost empty_db_def)

text \<open>C3: Submitting a job and cancelling it gives the money back: when the sums are exact
  in \<open>f64\<close>, the account's row is what it was (its update time apart), no other account
  changes, the job is cancelled and no locked escrow for it is left.\<close>

theorem submit_cancel_roundtrip:
  assumes "wfaults w = []" "db_inv (wdb w)" "submit_ids_fresh w"
    and "credit_of (wdb w) (sj_account_id b) = Some c"
    and "c_available c = Some (Fin a)" "c_escrowed c = Some (Fin e)" "0 \<le> e"
    and "submit_max_cost b = Fin m" "m \<le> a"
    and "f64_of (a - m) = Fin (a - m)" "f64_of (e + m) = Fin (e + m)" "f64_of a = Fin a" "f64_of e = Fin e"
  shows "\<exists>w1 w2 r1 r2 j2. submit_job b w = (Inr r1, w1) \<and> cancel_job (wids w (widn w)) w1 = (Inr r2, w2) \<and>
     credit_of (wdb w2) (sj_account_id b) = Some (c\<lparr>c_updated_at := Some (wnow w)\<rparr>) \<and>
     (\<forall>k. k \<noteq> sj_account_id b \<longrightarrow> credit_of (wdb w2) k = credit_of (wdb w) k) \<and>
     job_of (wdb w2) (wids w (widn w)) = Some j2 \<and> j_state j2 = Some ''cancelled'' \<and>
     locked_escrow (wids w (widn w)) (wdb w2) = None"
proof -
  let ?jid = "wids w (widn w)"
  let ?j = "submitted_job b ?jid (wnow w)"
  from submit_job_after [OF assms(1-6,8-11)]
  obtain w1 r1 where s: "submit_job b w = (Inr r1, w1)" "wfaults w1 = []" "db_inv (wdb w1)" "wnow w1 = wnow w"
    "job_of (wdb w1) ?jid = Some ?j"
    "credit_of (wdb w1) (sj_account_id b) =
       Some (c\<lparr>c_available := Some (Fin (a - m)), c_escrowed := Some (Fin (e + m)), c_updated_at := Some (wnow w)\<rparr>)"
    "\<forall>k. k \<noteq> sj_account_id b \<longrightarrow> credit_of (wdb w1) k = credit_of (wdb w) k"
    "locked_escrow ?jid (wdb w1) = Some (new_escrow_row (wids w (Suc (widn w))) (Some ?jid) (sj_account_id b) (Fin m))"
    by blast
  have restored: "f64_of (a - m + m) = Fin a" "f64_of (e + m - m) = Fin e" "max (Fin 0) (Fin e) = Fin e"
    using assms(7,12,13) by (simp_all add: max_def)
  have same: "c\<lparr>c_available := Some (Fin a), c_escrowed := Some (Fin e), c_updated_at := t\<rparr> = c\<lparr>c_updated_at := t\<rparr>" for t
    using assms(5,6) by simp
  from cancel_job_run [OF s(2,3,5) _ s(8) _ _ _ _ restored(1,2)] s(4,6) restored(3) same
  show ?thesis using s(1,7) by (fastforce simp: is_terminal_def)
qed

theorem submit_cancel_roundtrip_witness:
  "\<exists>w1 w2 r1 r2 j2. submit_job demo_body (world_at demo_db) = (Inr r1, w1) \<and> cancel_job ''u'' w1 = (Inr r2, w2) \<and>
     credit_of (wdb w2) ''acct'' = Some (demo_credit\<lparr>c_updated_at := Some 1000\<rparr>) \<and>
     (\<forall>k. k \<noteq> ''acct'' \<longrightarrow> credit_of (wdb w2) k = credit_of demo_db k) \<and>
     job_of (wdb w2) ''u'' = Some j2 \<and> j_state j2 = Some ''cancelled'' \<and> locked_escrow ''u'' (wdb w2) = None"
  using submit_cancel_roundtrip [where w = "world_at demo_db" and b = demo_body and a = 10 and e = 0
      and m = 4 and c = demo_credit]
  by simp

text \<open>The price of a submission is not checked for its sign: a negative price
  passes the balance check, and the lock then raises the available balance.\<close>

theorem submit_job_negative_price_mints:
  assumes "wfaults w = []" "db_inv (wdb w)" "submit_ids_fresh w"
    and "credit_of (wdb w) (sj_account_id b) = Some c"
    and "c_available c = Some (Fin a)" "c_escrowed c = Some (Fin e)"
    and "submit_max_cost b = Fin m" "m < 0" "0 \<le> a"
    and "f64_of (a - m) = Fin (a - m)" "f64_of (e + m) = Fin e'"
  shows "\<exists>r w' c'. submit_job b w = (Inr r, w') \<and> credit_of (wdb w') (sj_account_id b) = Some c' \<and>
     c_available c' = Some (Fin (a - m)) \<and> a < a - m"
proof -
  have "m \<le> a" using assms(8,9) by simp
  from submit_job_after [OF assms(1-7) this assms(10,11)]
  obtain w' r where "submit_job b w = (Inr r, w')"
    "credit_of (wdb w') (sj_account_id b) =
       Some (c\<lparr>c_available := Some (Fin (a - m)), c_escrowed := Some (Fin e'), c_updated_at := Some (wnow w)\<rparr>)"
    by blast
  then show ?thesis using assms(5,8) by (intro exI conjI) (assumption+, simp_all)
qed

definition demo_negative :: submit_job_body where
  "demo_negative = demo_body\<lparr>sj_max_price_per_hour := Fin (- 500)\<rparr>"

theorem submit_job_negative_price_mints_witness:
  "\<exists>r w' c'. submit_job demo_negative (world_at demo_db) = (Inr r, w') \<and> credit_of (wdb w') ''acct'' = Some c' \<and>
     c_available c' = Some (Fin 1010)"
proof -
  have cost: "submit_max_cost demo_negative = Fin (- 1000)" "sj_account_id demo_negative = ''acct''"
    by (simp_all add: submit_max_cost_def demo_negative_def demo_body_def f64_of_int_def)
  show ?thesis
    using submit_job_negative_price_mints [where w = "world_at demo_db" and b = demo_negative and a = 10 and e = 0
        and m = "- 1000" and c = demo_credit and e' = "- 1000"] cost
    by simp
qed

text \<open>The statements of a submission are not one transaction: when the database drops
  out before the third statement, the client is told of an error, yet the job stays queued and
  will be matched, with no escrow behind it and no credit taken.\<close>

theorem submit_job_half_done:
  assumes "wfaults w = [No_Fault, No_Fault, Not_Applied]"
    and "job_of (wdb w) (wids w (widn w)) = None"
    and "credit_of (wdb w) (sj_account_id b) = Some c" "c_available c = Some (Fin a)"
    and "submit_max_cost b = Fin m" "m \<le> a"
  shows "\<exists>e w'. submit_job b w = (Inl e, w') \<and>
    job_of (wdb w') (wids w (widn w)) = Some (submitted_job b (wids w (widn w)) (wnow w)) \<and>
    j_state (submitted_job b (wids w (widn w)) (wnow w)) = Some ''queued'' \<and>
    escrows (wdb w') = escrows (wdb w) \<and> credits (wdb w') = credits (wdb w)"
  using assms
  by (simp add: submit_job_def prog_simps insert_job_def lock_credits_def on_jobs_def sql_insert_new
      sql_first_append Let_def)

theorem submit_job_half_done_witness:
  "\<exists>e w'. submit_job demo_body ((world_at demo_db)\<lparr>wfaults := [No_Fault, No_Fault, Not_Applied]\<rparr>) = (Inl e, w') \<and>
    job_of (wdb w') ''u'' = Some (submitted_job demo_body ''u'' 1000) \<and>
    escrows (wdb w') = escrows demo_db \<and> credits (wdb w') = credits demo_db"
  using submit_job_half_done [where w = "(world_at demo_db)\<lparr>wfaults := [No_Fault, No_Fault, Not_Applied]\<rparr>"
     and b = demo_body and a = 10 and m = 4 and c = demo_credit]
  by simp

text \<open>Cancelling a job that is complete, failed or cancelled is refused with its state
  and changes nothing.\<close>

theorem cancel_job_terminal:
  assumes "wfaults w = []" "job_of (wdb w) jid = Some j" "is_terminal (j_state j)"
  shows "cancel_job jid w = (Inr (JObj [(''ok'', JBool False), (''error'', JStr ''already_terminal''),
                      (''state'', j_opt JStr (j_state j))]), w)"
  using assms by (simp add: cancel_job_def prog_simps)

text \<open>Cancelling a job that has no locked escrow (one submitted over gRPC, or
  left half done) sets the consumer's available balance to \<open>NULL\<close> and its escrowed balance to
  zero: the refund adds the \<open>NULL\<close> of the empty subquery.\<close>

theorem cancel_job_without_escrow:
  assumes "wfaults w = []" "db_inv (wdb w)" "job_of (wdb w) jid = Some j" "\<not> is_terminal (j_state j)"
    and "locked_escrow jid (wdb w) = None"
    and "credit_of (wdb w) (j_consumer_id j) = Some c"
  shows "\<exists>r w' c'. cancel_job jid w = (Inr r, w') \<and> credit_of (wdb w') (j_consumer_id j) = Some c' \<and>
     c_available c' = None \<and> c_escrowed c' = Some (Fin 0)"
proof -
  have "keys_distinct c_account_id (credits (wdb w))" using assms(2) by (simp add: db_inv_def pk_inv_def)
  moreover have "refund_row None (wnow w) c =
      Inr (c\<lparr>c_available := None, c_escrowed := Some (Fin 0), c_updated_at := Some (wnow w)\<rparr>)"
    by (simp add: refund_row_def)
  ultimately obtain t' where t': "sql_update (\<lambda>r. c_account_id r = j_consumer_id j) (refund_row None (wnow w)) (credits (wdb w)) = Inr t'"
    "sql_first (\<lambda>r. c_account_id r = j_consumer_id j) t' =
       Some (c\<lparr>c_available := None, c_escrowed := Some (Fin 0), c_updated_at := Some (wnow w)\<rparr>)"
    using credits_tbl.modify_hit [where f = "refund_row None (wnow w)", OF _ assms(6)] by auto
  then show ?thesis
    using assms(1,3-5)
    by (simp add: cancel_job_def prog_simps cancel_mark_def cancel_refund_def cancel_release_def
        free_provider_of_job_def on_table_defs locked_escrow_def)
qed

text \<open>Polling the log is incremental: a client that has read up to \<open>offset\<close> and polls
  again after a chunk was appended gets exactly that chunk and the new offset (the chunk being
  valid UTF-8, so that it starts at a character boundary).\<close>

theorem poll_log_increments:
  assumes "wfaults w = []" "db_inv (wdb w)" "job_of (wdb w) jid = Some j"
    and "out \<noteq> []" "\<not> is_cont_byte (hd out)"
    and "offset = length (unwrap_or [] (j_output_log j))"
  shows "\<exists>r w1. append_job_log jid out w = (Inr r, w1) \<and>
     get_job_logs jid (Some offset) w1 = (Inr (JObj
          [(''job_id'', JStr jid), (''output'', JStr out),
           (''is_complete'', JBool (is_terminal (j_state j))),
           (''offset'', JInt (int (offset + length out)))]), w1)"
proof -
  have jk: "j_job_id j = jid" using assms(3) by (auto simp: sql_first_def find_Some_iff)
  have "keys_distinct j_job_id (jobs (wdb w))" using assms(2) by (simp add: db_inv_def pk_inv_def)
  from jobs_tbl.modify_hit [where f = "\<lambda>r. Inr (r\<lparr>j_output_log := Some (unwrap_or [] (j_output_log r) @ out)\<rparr>)",
      OF this assms(3) refl] jk
  have jm: "sql_first (\<lambda>r. j_job_id r = jid) (map (\<lambda>r. if j_job_id r = jid
      then r\<lparr>j_output_log := Some (unwrap_or [] (j_output_log r) @ out)\<rparr> else r) (jobs (wdb w))) =
      Some (j\<lparr>j_output_log := Some (unwrap_or [] (j_output_log j) @ out)\<rparr>)"
    by auto
  then show ?thesis using assms
    by (simp add: append_job_log_def get_job_logs_def prog_simps append_log_stmt_def on_jobs_def
       slice_from_def is_char_boundary_def nth_append hd_conv_nth Let_def)
qed

definition demo_job_db :: "string \<Rightarrow> string \<Rightarrow> coord_db" where
  "demo_job_db st lg = demo_db\<lparr>jobs :=
     [(new_job_row ''job'' ''acct'' 900)\<lparr>j_state := Some st, j_output_log := Some lg\<rparr>]\<rparr>"

lemma demo_job_db_facts [simp]:
  "db_inv (demo_job_db st lg)"
  "job_of (demo_job_db st lg) ''job'' =
     Some ((new_job_row ''job'' ''acct'' 900)\<lparr>j_state := Some st, j_output_log := Some lg\<rparr>)"
  "locked_escrow ''job'' (demo_job_db st lg) = None"
  "credit_of (demo_job_db st lg) ''acct'' = Some demo_credit"
  by (simp_all add: demo_job_db_def demo_db_def db_inv_def pk_inv_def trust_inv_def empty_db_def keys_distinct_def
      new_job_row_def locked_escrow_def demo_credit_def new_credit_row_def)

theorem cancel_job_terminal_witness:
  "cancel_job ''job'' (world_at (demo_job_db ''complete'' [])) =
     (Inr (JObj [(''ok'', JBool False), (''error'', JStr ''already_terminal''), (''state'', JStr ''complete'')]),
      world_at (demo_job_db ''complete'' []))"
  using cancel_job_terminal [where w = "world_at (demo_job_db ''complete'' [])" and jid = "''job''"
     and j = "(new_job_row ''job'' ''acct'' 900)\<lparr>j_state := Some ''complete'', j_output_log := Some []\<rparr>"]
  by (simp add: is_terminal_def)

theorem cancel_job_without_escrow_witness:
  "\<exists>r w' c'. cancel_job ''job'' (world_at (demo_job_db ''queued'' [])) = (Inr r, w') \<and>
     credit_of (wdb w') ''acct'' = Some c' \<and> c_available c' = None \<and> c_escrowed c' = Some (Fin 0)"
  using cancel_job_without_escrow [where w = "world_at (demo_job_db ''queued'' [])" and jid = "''job''"
     and j = "(new_job_row ''job'' ''acct'' 900)\<lparr>j_state := Some ''queued'', j_output_log := Some []\<rparr>" and c = demo_credit]
  by (simp add: is_terminal_def new_job_row_def)

theorem poll_log_increments_witness:
  "\<exists>r w1. append_job_log ''job'' ''step 2'' (world_at (demo_job_db ''running'' ''step 1'')) = (Inr r, w1) \<and>
     get_job_logs ''job'' (Some 6) w1 = (Inr (JObj
          [(''job_id'', JStr ''job''), (''output'', JStr ''step 2''),
           (''is_complete'', JBool False), (''offset'', JInt 12)]), w1)"
  using poll_log_increments [where w = "world_at (demo_job_db ''running'' ''step 1'')" and jid = "''job''"
     and j = "(new_job_row ''job'' ''acct'' 900)\<lparr>j_state := Some ''running'', j_output_log := Some ''step 1''\<rparr>"
     and out = "''step 2''" and offset = 6]
  by (simp add: is_terminal_def is_cont_byte_def)

end
