(* ===== verification/Rest_Lifecycle.thy ===== *)
theory Rest_Lifecycle
  imports Rest_Jobs
begin

text \<open>
  The provider-facing endpoints of \<open>coordinator/src/api/rest.rs\<close>: fetching the assigned
  job, completion with its payment, failure with its refund, the trust score, checkpoints and
  the job heartbeat. The on-chain call a handler spawns in the background is part of its
  answer: it runs against another service and touches no table.
\<close>

section \<open>The assigned job\<close>

definition select_assigned :: "string \<Rightarrow> coord_db \<Rightarrow> job_row option" where
  "select_assigned pid d =
     (case order_asc j_started_at
             (filter (\<lambda>r. j_provider_id r = Some pid \<and> j_state r = Some ''assigned'') (jobs d)) of
        [] \<Rightarrow> None | r # _ \<Rightarrow> Some r)"

definition start_job :: "string \<Rightarrow> (coord_db world, db_error, unit) prog" where
  "start_job jid = db_exec (\<lambda>now. on_jobs (sql_update (\<lambda>r. j_job_id r = jid)
     (\<lambda>r. Inr (r\<lparr>j_state := Some ''running''\<rparr>))))"

definition assigned_json :: "job_row \<Rightarrow> json" where
  "assigned_json j = JObj
     [(''job_id'', JStr (j_job_id j)),
      (''consumer_id'', JStr (j_consumer_id j)),
      (''runtime'', j_opt JInt (j_runtime j)),
      (''min_ram_gb'', j_opt JInt (j_min_ram_gb j)),
      (''max_duration_s'', j_opt JInt (j_max_duration_s j)),
      (''max_price_per_hour'', j_opt j_f64 (j_max_price j)),
      (''bundle_hash'', j_opt JStr (j_bundle_hash j)),
      (''bundle_url'', j_opt JStr (j_bundle_url j)),
      (''script_name'', j_opt JStr (j_script_name j)),
      (''consumer_ssh_pubkey'', j_opt JStr (j_ssh_pubkey j)),
      (''consumer_wg_pubkey'', j_opt JStr (j_wg_pubkey j)),
      (''preferred_region'', j_opt JStr (j_preferred_region j))]"

definition get_assigned_job :: "string \<Rightarrow> json handler" where
  "get_assigned_job pid =
     bindE (map_errE ise (db_query (\<lambda>_ d. Inr (select_assigned pid d)))) (\<lambda>job.
     case job of
       None \<Rightarrow> retE (JObj [(''job'', JNull)])
     | Some j \<Rightarrow>
         seqE (okE (start_job (j_job_id j)))
         (retE (JObj [(''job'', assigned_json j)])))"

section \<open>Trust score and success rate\<close>

text \<open>\<open>GREATEST(0.0, LEAST(5.0, trust_score + $1))\<close>; both aggregates skip a \<open>NULL\<close>.\<close>

definition clamp_trust :: "f64 option \<Rightarrow> f64 option" where
  "clamp_trust t = sql_greatest (Some (Fin 0)) (sql_least (Some (Fin 5)) t)"

definition new_success_rate :: "provider_row \<Rightarrow> f64 \<Rightarrow> db_error + f64 option" where
  "new_success_rate r outcome =
     (if null_less (Some 0) (p_jobs_completed r)
      then
        (let n = unwrap_or 0 (p_jobs_completed r) in
         and_then (sql_lift2 pg_mul (p_success_rate r) (Some (f64_of_int (n - 1)))) (\<lambda>prev.
         and_then (sql_add prev (Some outcome)) (\<lambda>total.
         sql_lift2 pg_div total (Some (f64_of_int n)))))
      else Inr (Some outcome))"

definition trust_row :: "f64 \<Rightarrow> f64 \<Rightarrow> int \<Rightarrow> provider_row \<Rightarrow> db_error + provider_row" where
  "trust_row delta outcome now r =
     and_then (sql_add (p_trust_score r) (Some delta)) (\<lambda>t.
     and_then (new_success_rate r outcome) (\<lambda>s.
     Inr (r\<lparr>p_trust_score := clamp_trust t, p_success_rate := s, p_updated_at := Some now\<rparr>)))"

definition trust_delta :: "bool \<Rightarrow> f64" where
  "trust_delta success = (if success then f64_of (5 / 100) else f64_of (- 30 / 100))"

definition update_trust_score :: "string \<Rightarrow> bool \<Rightarrow> (coord_db world, rest_error, unit option) prog" where
  "update_trust_score pid success =
     okE (db_exec (\<lambda>now. on_providers (sql_update (\<lambda>p. p_provider_id p = pid)
       (trust_row (trust_delta success) (if success then Fin 1 else Fin 0) now))))"

section \<open>Completion\<close>

datatype chain_call = Release_Escrow string f64 | Cancel_Escrow string

record complete_job_body =
  cj_provider_id :: string
  cj_exit_code :: int
  cj_output_hash :: string
  cj_actual_runtime_s :: int
  cj_avg_gpu_util_pct :: f64
  cj_peak_ram_gb :: int

definition PLATFORM_FEE :: f64 where
  "PLATFORM_FEE = f64_of (8 / 100)"

definition gross_cost :: "f64 option \<Rightarrow> int \<Rightarrow> f64" where
  "gross_cost price runtime_s =
     f64_mul (unwrap_or (f64_of (5 / 100)) price) (f64_div (f64_of_int runtime_s) (Fin 3600))"

definition provider_share :: "f64 \<Rightarrow> f64" where
  "provider_share gross = f64_mul gross (f64_sub (Fin 1) PLATFORM_FEE)"

definition platform_share :: "f64 \<Rightarrow> f64" where
  "platform_share gross = f64_mul gross PLATFORM_FEE"

definition job_of_provider :: "string \<Rightarrow> string \<Rightarrow> coord_db \<Rightarrow> job_row option" where
  "job_of_provider jid pid d = sql_first (\<lambda>r. j_job_id r = jid \<and> j_provider_id r = Some pid) (jobs d)"

definition complete_mark :: "complete_job_body \<Rightarrow> string \<Rightarrow> (coord_db world, db_error, unit) prog" where
  "complete_mark b jid = db_exec (\<lambda>now. on_jobs (sql_update (\<lambda>r. j_job_id r = jid)
     (\<lambda>r. Inr (r\<lparr>j_state := Some ''complete'', j_output_hash := Some (cj_output_hash b),
                j_actual_runtime_s := Some (cj_actual_runtime_s b), j_completed_at := Some now\<rparr>))))"

definition earn_row :: "f64 \<Rightarrow> int \<Rightarrow> credit_row \<Rightarrow> db_error + credit_row" where
  "earn_row amount now r =
     and_then (sql_add (c_available r) (Some amount)) (\<lambda>a.
     and_then (sql_add (c_earned r) (Some amount)) (\<lambda>e.
     Inr (r\<lparr>c_available := a, c_earned := e, c_updated_at := Some now\<rparr>)))"

definition earning_account :: "string \<Rightarrow> f64 \<Rightarrow> int \<Rightarrow> credit_row" where
  "earning_account acct amount now =
     (new_credit_row acct now)\<lparr>c_available := Some amount, c_earned := Some amount\<rparr>"

definition credit_earnings :: "string \<Rightarrow> f64 \<Rightarrow> (coord_db world, db_error, unit) prog" where
  "credit_earnings acct amount = db_exec (\<lambda>now. on_credits
     (sql_upsert c_account_id (earning_account acct amount now) (earn_row amount now)))"

definition spend_row :: "f64 \<Rightarrow> int \<Rightarrow> credit_row \<Rightarrow> db_error + credit_row" where
  "spend_row amount now r =
     and_then (sql_sub (c_escrowed r) (Some amount)) (\<lambda>e.
     and_then (sql_add (c_spent r) (Some amount)) (\<lambda>s.
     Inr (r\<lparr>c_escrowed := sql_greatest (Some (Fin 0)) e, c_spent := s, c_updated_at := Some now\<rparr>)))"

definition spend_escrow :: "string \<Rightarrow> f64 \<Rightarrow> (coord_db world, db_error, unit) prog" where
  "spend_escrow acct amount = db_exec (\<lambda>now. on_credits
     (sql_update (\<lambda>r. c_account_id r = acct) (spend_row amount now)))"

definition finish_row :: "provider_row \<Rightarrow> db_error + provider_row" where
  "finish_row p =
     and_then (sql_lift2 int4_add (p_jobs_completed p) (Some 1)) (\<lambda>n.
     Inr (p\<lparr>p_state := Some ''available'', p_active_job_id := None, p_jobs_completed := n\<rparr>))"

definition finish_provider :: "string \<Rightarrow> (coord_db world, db_error, unit) prog" where
  "finish_provider pid = db_exec (\<lambda>now. on_providers
     (sql_update (\<lambda>p. p_provider_id p = pid) finish_row))"

definition complete_job ::
  "bool \<Rightarrow> string \<Rightarrow> complete_job_body \<Rightarrow> (json \<times> chain_call list) handler" where
  "complete_job oracle_enabled jid b =
     bindE (map_errE ise (db_query (\<lambda>_ d. Inr (job_of_provider jid (cj_provider_id b) d)))) (\<lambda>row.
     bindE (someE (Status NOT_FOUND) row) (\<lambda>job.
     let gross = gross_cost (j_price job) (cj_actual_runtime_s b);
         provider_nmc = provider_share gross;
         platform_nmc = platform_share gross
     in
       seqE (map_errE ise (complete_mark b jid))
       (seqE (map_errE ise (credit_earnings (cj_provider_id b) provider_nmc))
       (seqE (map_errE ise (spend_escrow (j_consumer_id job) gross))
       (seqE (map_errE ise (finish_provider (cj_provider_id b)))
       (bindE new_uuid (\<lambda>tx_id.
       seqE (map_errE ise (insert_tx tx_id (cj_provider_id b) ''earn'' provider_nmc False (Some jid)
               ''Job completion credit''))
       (seqE (update_trust_score (cj_provider_id b) True)
       (retE (JObj [(''ok'', JBool True), (''gross_nmc'', j_f64 gross),
                    (''provider_nmc'', j_f64 provider_nmc), (''platform_nmc'', j_f64 platform_nmc),
                    (''on_chain'', JBool oracle_enabled)],
              if oracle_enabled then [Release_Escrow jid gross] else []))))))))))"

section \<open>Failure\<close>

record fail_job_body =
  fj_provider_id :: string
  fj_reason :: string
  fj_slash :: bool

definition fail_mark :: "string \<Rightarrow> (coord_db world, db_error, unit) prog" where
  "fail_mark jid = db_exec (\<lambda>now. on_jobs (sql_update (\<lambda>r. j_job_id r = jid)
     (\<lambda>r. Inr (r\<lparr>j_state := Some ''failed'', j_completed_at := Some now\<rparr>))))"

definition return_all_row :: "int \<Rightarrow> credit_row \<Rightarrow> db_error + credit_row" where
  "return_all_row now r =
     and_then (sql_add (c_available r) (c_escrowed r)) (\<lambda>a.
     Inr (r\<lparr>c_available := a, c_escrowed := Some (Fin 0), c_updated_at := Some now\<rparr>))"

definition return_all :: "string \<Rightarrow> (coord_db world, db_error, unit) prog" where
  "return_all jid = db_exec (\<lambda>now d. on_credits
     (sql_update (\<lambda>r. map_option j_consumer_id (job_of d jid) = Some (c_account_id r)) (return_all_row now)) d)"

definition release_provider :: "string \<Rightarrow> (coord_db world, db_error, unit) prog" where
  "release_provider pid = db_exec (\<lambda>now. on_providers (sql_update (\<lambda>p. p_provider_id p = pid)
     (\<lambda>p. Inr (p\<lparr>p_state := Some ''available'', p_active_job_id := None\<rparr>))))"

definition fail_job :: "bool \<Rightarrow> string \<Rightarrow> fail_job_body \<Rightarrow> (json \<times> chain_call list) handler" where
  "fail_job oracle_enabled jid b =
     seqE (map_errE ise (fail_mark jid))
     (seqE (map_errE ise (return_all jid))
     (seqE (map_errE ise (release_provider (fj_provider_id b)))
     (seqE (if fj_slash b then update_trust_score (fj_provider_id b) False else retE None)
     (retE (JObj [(''ok'', JBool True), (''job_id'', JStr jid)],
            if oracle_enabled then [Cancel_Escrow jid] else [])))))"

section \<open>Checkpoints\<close>

record checkpoint_body =
  cp_provider_id :: string
  cp_iteration :: int
  cp_elapsed_secs :: int
  cp_checkpoint_dir :: string
  cp_dmtcp_files :: "string list"

definition checkpoint_row_of :: "checkpoint_body \<Rightarrow> string \<Rightarrow> string \<Rightarrow> checkpoint_row" where
  "checkpoint_row_of b cid jid =
     \<lparr>ck_checkpoint_id = cid, ck_job_id = Some jid, ck_provider_id = Some (cp_provider_id b),
      ck_iteration = cp_iteration b, ck_checkpoint_dir = Some (cp_checkpoint_dir b),
      ck_dmtcp_files = Some (cp_dmtcp_files b), ck_elapsed_secs = Some (cp_elapsed_secs b)\<rparr>"

definition insert_checkpoint ::
  "checkpoint_body \<Rightarrow> string \<Rightarrow> string \<Rightarrow> (coord_db world, db_error, unit) prog" where
  "insert_checkpoint b cid jid = db_exec (\<lambda>now d.
     if fk j_job_id (jobs d) (Some jid)
     then on_checkpoints (sql_insert ck_checkpoint_id (checkpoint_row_of b cid jid)) d
     else Inl Fk_Violation)"

definition checkpoint_url_of :: "checkpoint_body \<Rightarrow> string" where
  "checkpoint_url_of b = ''file://'' @ trim_end_matches (CHR ''/'') (cp_checkpoint_dir b)"

definition set_checkpoint :: "string \<Rightarrow> int \<Rightarrow> string \<Rightarrow> (coord_db world, db_error, unit) prog" where
  "set_checkpoint url iter jid = db_exec (\<lambda>now. on_jobs (sql_update (\<lambda>r. j_job_id r = jid)
     (\<lambda>r. Inr (r\<lparr>j_checkpoint_url := Some url, j_checkpoint_iter := Some iter,
                j_last_heartbeat := Some now\<rparr>))))"

definition save_checkpoint :: "string \<Rightarrow> checkpoint_body \<Rightarrow> json handler" where
  "save_checkpoint jid b =
     bindE new_uuid (\<lambda>ckpt_id.
     seqE (map_errE ise (insert_checkpoint b ckpt_id jid))
     (let url = checkpoint_url_of b in
      seqE (map_errE ise (set_checkpoint url (cp_iteration b) jid))
      (retE (JObj [(''ok'', JBool True), (''checkpoint_id'', JStr ckpt_id), (''checkpoint_url'', JStr url)]))))"

definition latest_checkpoint :: "string \<Rightarrow> coord_db \<Rightarrow> checkpoint_row option" where
  "latest_checkpoint jid d =
     (case order_desc (\<lambda>c. Some (ck_iteration c)) (filter (\<lambda>c. ck_job_id c = Some jid) (checkpoints d)) of
        [] \<Rightarrow> None | c # _ \<Rightarrow> Some c)"

definition get_checkpoint :: "string \<Rightarrow> json handler" where
  "get_checkpoint jid =
     bindE (map_errE ise (db_query (\<lambda>_ d. Inr (latest_checkpoint jid d)))) (\<lambda>row0.
     bindE (someE (Status NOT_FOUND) row0) (\<lambda>row.
     retE (JObj
       [(''job_id'', JStr jid),
        (''iteration'', JInt (ck_iteration row)),
        (''checkpoint_dir'', j_opt JStr (ck_checkpoint_dir row)),
        (''dmtcp_files'', j_opt j_strs (ck_dmtcp_files row)),
        (''elapsed_secs'', j_opt JInt (ck_elapsed_secs row)),
        (''coord_port'', JInt 0)])))"

section \<open>The job heartbeat\<close>

record job_heartbeat_body =
  jh_provider_id :: string
  jh_elapsed_secs :: int
  jh_gpu_util_pct :: rat
  jh_ram_used_gb :: int

definition touch_job :: "string \<Rightarrow> string \<Rightarrow> (coord_db world, db_error, unit) prog" where
  "touch_job jid pid = db_exec (\<lambda>now. on_jobs (sql_update
     (\<lambda>r. j_job_id r = jid \<and> j_provider_id r = Some pid)
     (\<lambda>r. Inr (r\<lparr>j_state := Some ''running'', j_last_heartbeat := Some now\<rparr>))))"

definition touch_provider :: "job_heartbeat_body \<Rightarrow> (coord_db world, db_error, unit) prog" where
  "touch_provider b = db_exec (\<lambda>now. on_providers (sql_update (\<lambda>p. p_provider_id p = jh_provider_id b)
     (\<lambda>p. Inr (p\<lparr>p_last_seen := Some now, p_gpu_util_pct := Some (f32_to_f64 (jh_gpu_util_pct b)),
                p_ram_used_gb := Some (as_i32 (jh_ram_used_gb b))\<rparr>))))"

definition job_heartbeat :: "string \<Rightarrow> job_heartbeat_body \<Rightarrow> json handler" where
  "job_heartbeat jid b =
     seqE (map_errE ise (touch_job jid (jh_provider_id b)))
     (seqE (map_errE ise (touch_provider b))
     (retE (JObj [(''ok'', JBool True)])))"

section \<open>The invariant\<close>

lemma clamp_range: "Fin 0 \<le> max (Fin 0) (min (Fin 5) x)" "max (Fin 0) (min (Fin 5) x) \<le> Fin 5"
  by (rule max.cobounded1) (rule max.boundedI, simp, rule min.cobounded1)

lemma clamp_trust_range: "clamp_trust t = Some s \<Longrightarrow> Fin 0 \<le> s \<and> s \<le> Fin 5"
  by (cases t) (auto simp: clamp_trust_def clamp_range f64_Fin_le simp del: less_eq_f64.simps(2))

lemma trust_row_ok: "trust_row delta outcome now r = Inr r' \<Longrightarrow> trust_ok r'"
  by (auto simp: trust_row_def and_then_eq_Inr trust_ok_def dest: clamp_trust_range simp del: less_eq_f64.simps(2))

lemma trust_row_key: "trust_row delta outcome now r = Inr r' \<Longrightarrow> p_provider_id r' = p_provider_id r"
  by (auto simp: trust_row_def and_then_eq_Inr)

lemma finish_row_key: "finish_row p = Inr p' \<Longrightarrow> p_provider_id p' = p_provider_id p"
  by (auto simp: finish_row_def and_then_eq_Inr)

lemma finish_row_trust: "finish_row p = Inr p' \<Longrightarrow> trust_ok p \<Longrightarrow> trust_ok p'"
  by (auto simp: finish_row_def and_then_eq_Inr trust_ok_def)

lemma earn_row_key: "earn_row m now r = Inr r' \<Longrightarrow> c_account_id r' = c_account_id r"
  by (auto simp: earn_row_def and_then_eq_Inr)

lemma spend_row_key: "spend_row m now r = Inr r' \<Longrightarrow> c_account_id r' = c_account_id r"
  by (auto simp: spend_row_def and_then_eq_Inr)

lemma return_all_row_key: "return_all_row now r = Inr r' \<Longrightarrow> c_account_id r' = c_account_id r"
  by (auto simp: return_all_row_def and_then_eq_Inr)

lemma keeps_start_job [keeps_intro]: "keeps_db (start_job jid)"
  unfolding start_job_def by (rule keeps_db_exec) (erule inv_update_jobs, auto)

lemma keeps_update_trust_score [keeps_intro]: "keeps_db (update_trust_score pid s)"
  unfolding update_trust_score_def
  by (intro keeps_okE keeps_db_exec)
    (erule inv_update_providers, auto intro: trust_row_ok dest: trust_row_key)

lemma keeps_complete_mark [keeps_intro]: "keeps_db (complete_mark b jid)"
  unfolding complete_mark_def by (rule keeps_db_exec) (erule inv_update_jobs, auto)

lemma keeps_credit_earnings [keeps_intro]: "keeps_db (credit_earnings acct m)"
  unfolding credit_earnings_def by (rule keeps_db_exec) (erule inv_upsert_credits, simp, erule earn_row_key)

lemma keeps_spend_escrow [keeps_intro]: "keeps_db (spend_escrow acct m)"
  unfolding spend_escrow_def by (rule keeps_db_exec) (erule inv_update_credits, simp, erule spend_row_key)

lemma keeps_finish_provider [keeps_intro]: "keeps_db (finish_provider pid)"
  unfolding finish_provider_def
  by (rule keeps_db_exec) (erule inv_update_providers, auto intro: finish_row_trust dest: finish_row_key)

lemma keeps_fail_mark [keeps_intro]: "keeps_db (fail_mark jid)"
  unfolding fail_mark_def by (rule keeps_db_exec) (erule inv_update_jobs, auto)

lemma keeps_return_all [keeps_intro]: "keeps_db (return_all jid)"
  unfolding return_all_def by (rule keeps_db_exec) (erule inv_update_credits, simp, erule return_all_row_key)

lemma keeps_release_provider [keeps_intro]: "keeps_db (release_provider pid)"
  unfolding release_provider_def
  by (rule keeps_db_exec) (erule inv_update_providers, auto simp: trust_ok_def)

lemma keeps_insert_checkpoint [keeps_intro]: "keeps_db (insert_checkpoint b cid jid)"
  unfolding insert_checkpoint_def
  by (rule keeps_db_exec) (auto split: if_splits elim: inv_insert_checkpoints)

lemma keeps_set_checkpoint [keeps_intro]: "keeps_db (set_checkpoint url it jid)"
  unfolding set_checkpoint_def by (rule keeps_db_exec) (erule inv_update_jobs, auto)

lemma keeps_touch_job [keeps_intro]: "keeps_db (touch_job jid pid)"
  unfolding touch_job_def by (rule keeps_db_exec) (erule inv_update_jobs, auto)

lemma keeps_touch_provider [keeps_intro]: "keeps_db (touch_provider b)"
  unfolding touch_provider_def
  by (rule keeps_db_exec) (erule inv_update_providers, auto simp: trust_ok_def)

lemma keeps_get_assigned_job [keeps_intro]: "keeps_db (get_assigned_job pid)"
  unfolding get_assigned_job_def by (intro keeps_intro)

lemma keeps_complete_job [keeps_intro]: "keeps_db (complete_job oe jid b)"
  unfolding complete_job_def by (intro keeps_intro)

lemma keeps_fail_job [keeps_intro]: "keeps_db (fail_job oe jid b)"
  unfolding fail_job_def by (intro keeps_intro)

lemma keeps_save_checkpoint [keeps_intro]: "keeps_db (save_checkpoint jid b)"
  unfolding save_checkpoint_def by (intro keeps_intro)

lemma keeps_job_heartbeat [keeps_intro]: "keeps_db (job_heartbeat jid b)"
  unfolding job_heartbeat_def by (intro keeps_intro)

section \<open>What a completion does\<close>

text \<open>The job a provider may report on, looked up by job and provider, is the job's row.\<close>

lemma job_of_provider_job:
  assumes "keys_distinct j_job_id (jobs d)" "job_of_provider jid pid d = Some j"
  shows "job_of d jid = Some j" "j_provider_id j = Some pid"
proof -
  from sql_first_in_set [OF assms(2) [unfolded job_of_provider_def]]
  have j: "j \<in> set (jobs d)" "j_job_id j = jid" "j_provider_id j = Some pid" by auto
  then show "j_provider_id j = Some pid" by simp
  have "job_of d jid \<noteq> None" using j(1,2) by (auto simp: sql_first_None_iff)
  then obtain j' where j': "job_of d jid = Some j'" by auto
  from keys_distinct_unique [OF assms(1) j' j(1,2)] j' show "job_of d jid = Some j" by simp
qed

lemma update_trust_score_run:
  assumes "wfaults w = []" "keys_distinct p_provider_id (providers (wdb w))" "provider_of (wdb w) pid = Some p"
  shows "\<exists>x t p'. update_trust_score pid ok w = (Inr x, w\<lparr>wdb := (wdb w)\<lparr>providers := t\<rparr>\<rparr>) \<and>
     sql_first (\<lambda>r. p_provider_id r = pid) t = Some p' \<and>
     (\<forall>k. k \<noteq> pid \<longrightarrow> sql_first (\<lambda>r. p_provider_id r = k) t = provider_of (wdb w) k) \<and>
     p' = (case trust_row (trust_delta ok) (if ok then Fin 1 else Fin 0) (wnow w) p of Inl _ \<Rightarrow> p | Inr q \<Rightarrow> q)"
proof (cases "trust_row (trust_delta ok) (if ok then Fin 1 else Fin 0) (wnow w) p")
  case (Inl e)
  from providers_tbl.modify_error [where f = "trust_row (trust_delta ok) (if ok then Fin 1 else Fin 0) (wnow w)", OF assms(2,3) Inl] Inl assms show ?thesis
    by (auto simp: update_trust_score_def prog_simps on_providers_def intro!: exI [of _ "providers (wdb w)"])
next
  case (Inr q)
  obtain t where t: "sql_update (\<lambda>r. p_provider_id r = pid)
       (trust_row (trust_delta ok) (if ok then Fin 1 else Fin 0) (wnow w)) (providers (wdb w)) = Inr t"
    "sql_first (\<lambda>r. p_provider_id r = pid) t = Some q"
    "\<forall>k. k \<noteq> pid \<longrightarrow> sql_first (\<lambda>r. p_provider_id r = k) t = provider_of (wdb w) k"
    using providers_tbl.modify_hit [where f = "trust_row (trust_delta ok) (if ok then Fin 1 else Fin 0) (wnow w)",
        OF assms(2,3) Inr trust_row_key [OF Inr]] by blast
  then have "update_trust_score pid ok w = (Inr (Some ()), w\<lparr>wdb := (wdb w)\<lparr>providers := t\<rparr>\<rparr>)"
    using assms(1) by (simp add: update_trust_score_def prog_simps on_providers_def)
  with t(2,3) Inr show ?thesis by auto
qed

lemma trust_row_sel:
  "trust_row delta out now p = Inr q \<Longrightarrow> p_state q = p_state p \<and> p_active_job_id q = p_active_job_id p \<and>
     p_jobs_completed q = p_jobs_completed p"
  by (auto simp: trust_row_def and_then_eq_Inr)

lemma complete_job_run:
  assumes nf: "wfaults w = []" and inv: "db_inv (wdb w)"
    and j: "job_of_provider jid (cj_provider_id b) (wdb w) = Some j"
    and g: "gross_cost (j_price j) (cj_actual_runtime_s b) = Fin g"
    and s: "provider_share (Fin g) = Fin s"
    and cr: "credit_of (wdb w) (cj_provider_id b) = Some r" "c_available r = Some (Fin a)" "c_earned r = Some (Fin n)"
    and cc: "credit_of (wdb w) (j_consumer_id j) = Some c" "c_escrowed c = Some (Fin e)" "c_spent c = Some (Fin t)"
    and ne: "cj_provider_id b \<noteq> j_consumer_id j"
    and fin: "f64_of (a + s) = Fin a'" "f64_of (n + s) = Fin n'" "f64_of (e - g) = Fin e'" "f64_of (t + g) = Fin t'"
    and p: "provider_of (wdb w) (cj_provider_id b) = Some p" "p_jobs_completed p = Some cnt" "i32_range (cnt + 1)"
    and fresh: "sql_first (\<lambda>x. t_tx_id x = wids w (widn w)) (txs (wdb w)) = None"
  shows "\<exists>w' p'. complete_job oe jid b w = (Inr (JObj [(''ok'', JBool True), (''gross_nmc'', JNum g),
         (''provider_nmc'', JNum s), (''platform_nmc'', j_f64 (platform_share (Fin g))),
         (''on_chain'', JBool oe)], if oe then [Release_Escrow jid (Fin g)] else []), w') \<and>
     wfaults w' = [] \<and> wnow w' = wnow w \<and> db_inv (wdb w') \<and>
     credit_of (wdb w') (cj_provider_id b) = Some (r\<lparr>c_available := Some (Fin a'), c_earned := Some (Fin n'),
        c_updated_at := Some (wnow w)\<rparr>) \<and>
     credit_of (wdb w') (j_consumer_id j) = Some (c\<lparr>c_escrowed := Some (max (Fin 0) (Fin e')),
        c_spent := Some (Fin t'), c_updated_at := Some (wnow w)\<rparr>) \<and>
     (\<forall>k. k \<noteq> cj_provider_id b \<longrightarrow> k \<noteq> j_consumer_id j \<longrightarrow> credit_of (wdb w') k = credit_of (wdb w) k) \<and>
     job_of (wdb w') jid = Some (j\<lparr>j_state := Some ''complete'', j_output_hash := Some (cj_output_hash b),
        j_actual_runtime_s := Some (cj_actual_runtime_s b), j_completed_at := Some (wnow w)\<rparr>) \<and>
     provider_of (wdb w') (cj_provider_id b) = Some p' \<and> p_state p' = Some ''available'' \<and>
     p_active_job_id p' = None \<and> p_jobs_completed p' = Some (cnt + 1) \<and>
     escrows (wdb w') = escrows (wdb w) \<and>
     (\<exists>x. txs (wdb w') = txs (wdb w) @ [x] \<and> t_tx_type x = ''earn'' \<and> t_amount x = Fin s \<and>
          t_account_id x = cj_provider_id b)"
proof -
  let ?pid = "cj_provider_id b" and ?cid = "j_consumer_id j" and ?d = "wdb w" and ?now = "wnow w"
  have kd: "keys_distinct j_job_id (jobs ?d)" "keys_distinct c_account_id (credits ?d)"
    "keys_distinct p_provider_id (providers ?d)" using inv by (simp_all add: db_inv_def pk_inv_def)
  note jj = job_of_provider_job [OF kd(1) j]
  have earn: "earn_row (Fin s) ?now r = Inr (r\<lparr>c_available := Some (Fin a'), c_earned := Some (Fin n'), c_updated_at := Some ?now\<rparr>)"
    using cr fin by (simp add: earn_row_def)
  have spend: "spend_row (Fin g) ?now c = Inr (c\<lparr>c_escrowed := Some (max (Fin 0) (Fin e')), c_spent := Some (Fin t'), c_updated_at := Some ?now\<rparr>)"
    using cc fin by (simp add: spend_row_def)
  from credits_tbl.modify_both [where f = "earn_row (Fin s) ?now" and g = "spend_row (Fin g) ?now", OF kd(2) ne cr(1) cc(1) earn _ spend] obtain c1 c2 where cs:
    "sql_update (\<lambda>x. c_account_id x = ?pid) (earn_row (Fin s) ?now) (credits ?d) = Inr c1"
    "sql_update (\<lambda>x. c_account_id x = ?cid) (spend_row (Fin g) ?now) c1 = Inr c2"
    "sql_first (\<lambda>x. c_account_id x = ?pid) c2 = Some (r\<lparr>c_available := Some (Fin a'), c_earned := Some (Fin n'), c_updated_at := Some ?now\<rparr>)"
    "sql_first (\<lambda>x. c_account_id x = ?cid) c2 = Some (c\<lparr>c_escrowed := Some (max (Fin 0) (Fin e')), c_spent := Some (Fin t'), c_updated_at := Some ?now\<rparr>)"
    "\<forall>k. k \<noteq> ?pid \<longrightarrow> k \<noteq> ?cid \<longrightarrow> sql_first (\<lambda>x. c_account_id x = k) c2 = credit_of ?d k"
    by auto
  have acct: "c_account_id (earning_account ?pid m now) = ?pid" for m now
    by (simp add: earning_account_def new_credit_row_def)
  have ups: "sql_upsert c_account_id (earning_account ?pid (Fin s) ?now) (earn_row (Fin s) ?now) (credits ?d) = Inr c1"
    using sql_upsert_hit [of c_account_id "earning_account ?pid (Fin s) ?now"] cr(1) cs(1) by (simp add: acct)
  from jobs_tbl.modify_hit [where f = "\<lambda>r. Inr (r\<lparr>j_state := Some ''complete'', j_output_hash := Some (cj_output_hash b),
        j_actual_runtime_s := Some (cj_actual_runtime_s b), j_completed_at := Some ?now\<rparr>)", OF kd(1) jj(1) refl]
  have jm: "sql_first (\<lambda>r. j_job_id r = jid) (map (\<lambda>r. if j_job_id r = jid
      then r\<lparr>j_state := Some ''complete'', j_output_hash := Some (cj_output_hash b),
        j_actual_runtime_s := Some (cj_actual_runtime_s b), j_completed_at := Some ?now\<rparr> else r) (jobs ?d)) =
      Some (j\<lparr>j_state := Some ''complete'', j_output_hash := Some (cj_output_hash b),
        j_actual_runtime_s := Some (cj_actual_runtime_s b), j_completed_at := Some ?now\<rparr>)"
    by auto
  define p1 where "p1 = p\<lparr>p_state := Some ''available'', p_active_job_id := None, p_jobs_completed := Some (cnt + 1)\<rparr>"
  have "finish_row p = Inr p1" using p by (simp add: finish_row_def int4_add_def p1_def)
  from providers_tbl.modify_hit [where f = finish_row, OF kd(3) p(1) this] obtain ps where ps:
    "sql_update (\<lambda>x. p_provider_id x = ?pid) finish_row (providers ?d) = Inr ps"
    "keys_distinct p_provider_id ps" "sql_first (\<lambda>x. p_provider_id x = ?pid) ps = Some p1"
    by (auto simp: p1_def)
  let ?w = "w\<lparr>widn := Suc (widn w), wdb := ?d\<lparr>jobs := (map (\<lambda>r. if j_job_id r = jid
      then r\<lparr>j_state := Some ''complete'', j_output_hash := Some (cj_output_hash b),
        j_actual_runtime_s := Some (cj_actual_runtime_s b), j_completed_at := Some ?now\<rparr> else r) (jobs ?d)),
      credits := c2, providers := ps, txs := txs ?d @ [(new_tx_row (wids w (widn w)) ?pid ''earn'' (Fin s) ?now)
        \<lparr>t_balance_after := None, t_reference := Some jid, t_description := Some ''Job completion credit''\<rparr>]\<rparr>\<rparr>"
  obtain x t p' where tr: "update_trust_score ?pid True ?w = (Inr x, ?w\<lparr>wdb := (wdb ?w)\<lparr>providers := t\<rparr>\<rparr>)"
    "sql_first (\<lambda>r. p_provider_id r = ?pid) t = Some p'"
    "p_state p' = Some ''available'' \<and> p_active_job_id p' = None \<and> p_jobs_completed p' = Some (cnt + 1)"
    using update_trust_score_run [of ?w ?pid p1 True] nf ps(2,3)
    by (auto simp: p1_def split: sum.splits dest!: trust_row_sel)
  have inv': "db_inv (wdb (snd (complete_job oe jid b w)))"
    by (rule keepsD [OF keeps_complete_job inv])
  have run: "complete_job oe jid b w = (Inr (JObj [(''ok'', JBool True), (''gross_nmc'', JNum g),
         (''provider_nmc'', JNum s), (''platform_nmc'', j_f64 (platform_share (Fin g))),
         (''on_chain'', JBool oe)], if oe then [Release_Escrow jid (Fin g)] else []), ?w\<lparr>wdb := (wdb ?w)\<lparr>providers := t\<rparr>\<rparr>)"
    using nf j g s ups cs(2) ps(1) fresh tr(1)
    by (simp add: complete_job_def prog_simps complete_mark_def credit_earnings_def spend_escrow_def
        finish_provider_def insert_tx_def on_table_defs sql_insert_new Let_def)
  show ?thesis
    using inv' tr(2,3) jm cs(3-5) nf unfolding run by simp
qed

section \<open>What a failure and a report to the trust score do\<close>

lemma update_trust_score_frame:
  assumes "wfaults w = []"
  shows "\<exists>x t. update_trust_score pid ok w = (Inr x, w\<lparr>wdb := (wdb w)\<lparr>providers := t\<rparr>\<rparr>)"
proof (cases "sql_update (\<lambda>p. p_provider_id p = pid)
    (trust_row (trust_delta ok) (if ok then Fin 1 else Fin 0) (wnow w)) (providers (wdb w))")
  case (Inl e)
  with assms have "update_trust_score pid ok w = (Inr None, w\<lparr>wdb := (wdb w)\<lparr>providers := providers (wdb w)\<rparr>\<rparr>)"
    by (simp add: update_trust_score_def prog_simps on_providers_def)
  then show ?thesis by blast
next
  case (Inr t)
  with assms have "update_trust_score pid ok w = (Inr (Some ()), w\<lparr>wdb := (wdb w)\<lparr>providers := t\<rparr>\<rparr>)"
    by (simp add: update_trust_score_def prog_simps on_providers_def)
  then show ?thesis by blast
qed

lemma fail_job_run:
  assumes nf: "wfaults w = []" and inv: "db_inv (wdb w)"
    and j: "job_of (wdb w) jid = Some j"
    and c: "credit_of (wdb w) (j_consumer_id j) = Some c" "c_available c = Some (Fin a)" "c_escrowed c = Some (Fin e)"
    and fin: "f64_of (a + e) = Fin a'"
  shows "\<exists>w'. fail_job oe jid b w = (Inr (JObj [(''ok'', JBool True), (''job_id'', JStr jid)],
        if oe then [Cancel_Escrow jid] else []), w') \<and>
     wfaults w' = [] \<and> wnow w' = wnow w \<and> db_inv (wdb w') \<and>
     credit_of (wdb w') (j_consumer_id j) = Some (c\<lparr>c_available := Some (Fin a'),
        c_escrowed := Some (Fin 0), c_updated_at := Some (wnow w)\<rparr>) \<and>
     (\<forall>k. k \<noteq> j_consumer_id j \<longrightarrow> credit_of (wdb w') k = credit_of (wdb w) k) \<and>
     job_of (wdb w') jid = Some (j\<lparr>j_state := Some ''failed'', j_completed_at := Some (wnow w)\<rparr>) \<and>
     (\<forall>k. k \<noteq> jid \<longrightarrow> job_of (wdb w') k = job_of (wdb w) k) \<and>
     escrows (wdb w') = escrows (wdb w)"
proof -
  let ?d = "wdb w" and ?now = "wnow w" and ?cid = "j_consumer_id j"
  let ?f = "\<lambda>r. Inr (r\<lparr>j_state := Some ''failed'', j_completed_at := Some ?now\<rparr>)"
  have kd: "keys_distinct j_job_id (jobs ?d)" "keys_distinct c_account_id (credits ?d)"
    using inv by (simp_all add: db_inv_def pk_inv_def)
  obtain js where js: "sql_update (\<lambda>r. j_job_id r = jid) ?f (jobs ?d) = Inr js"
    "sql_first (\<lambda>r. j_job_id r = jid) js = Some (j\<lparr>j_state := Some ''failed'', j_completed_at := Some ?now\<rparr>)"
    "\<forall>k. k \<noteq> jid \<longrightarrow> sql_first (\<lambda>r. j_job_id r = k) js = job_of ?d k"
    using jobs_tbl.modify_hit [where f = ?f, OF kd(1) j refl] by auto
  have row: "return_all_row ?now c = Inr (c\<lparr>c_available := Some (Fin a'), c_escrowed := Some (Fin 0), c_updated_at := Some ?now\<rparr>)"
    using c fin by (simp add: return_all_row_def)
  obtain cs where cs: "sql_update (\<lambda>r. c_account_id r = ?cid) (return_all_row ?now) (credits ?d) = Inr cs"
    "sql_first (\<lambda>r. c_account_id r = ?cid) cs = Some (c\<lparr>c_available := Some (Fin a'), c_escrowed := Some (Fin 0), c_updated_at := Some ?now\<rparr>)"
    "\<forall>k. k \<noteq> ?cid \<longrightarrow> sql_first (\<lambda>r. c_account_id r = k) cs = credit_of ?d k"
    using credits_tbl.modify_hit [where f = "return_all_row ?now", OF kd(2) c(1) row] by auto
  have eq: "(\<lambda>r. ?cid = c_account_id r) = (\<lambda>r. c_account_id r = ?cid)" by auto
  have mark: "fail_mark jid w = (Inr (), w\<lparr>wdb := ?d\<lparr>jobs := js\<rparr>\<rparr>)"
    using nf js(1) by (simp add: fail_mark_def prog_simps on_jobs_def)
  have ret: "return_all jid (w\<lparr>wdb := ?d\<lparr>jobs := js\<rparr>\<rparr>) = (Inr (), w\<lparr>wdb := ?d\<lparr>jobs := js, credits := cs\<rparr>\<rparr>)"
    using nf js(2) cs(1) by (simp add: return_all_def prog_simps on_credits_def eq)
  let ?ps = "map (\<lambda>p. if p_provider_id p = fj_provider_id b
      then p\<lparr>p_state := Some ''available'', p_active_job_id := None\<rparr> else p) (providers ?d)"
  let ?w = "w\<lparr>wdb := ?d\<lparr>jobs := js, credits := cs, providers := ?ps\<rparr>\<rparr>"
  have rel: "release_provider (fj_provider_id b) (w\<lparr>wdb := ?d\<lparr>jobs := js, credits := cs\<rparr>\<rparr>) = (Inr (), ?w)"
    using nf by (simp add: release_provider_def prog_simps on_providers_def)
  obtain x t where tr: "update_trust_score (fj_provider_id b) False ?w = (Inr x, ?w\<lparr>wdb := (wdb ?w)\<lparr>providers := t\<rparr>\<rparr>)"
    using update_trust_score_frame [of ?w "fj_provider_id b" False] nf by auto
  obtain t' where run: "fail_job oe jid b w = (Inr (JObj [(''ok'', JBool True), (''job_id'', JStr jid)],
        if oe then [Cancel_Escrow jid] else []), ?w\<lparr>wdb := (wdb ?w)\<lparr>providers := t'\<rparr>\<rparr>)"
    using tr by (cases "fj_slash b") (auto simp: fail_job_def prog_simps mark ret rel)
  have "db_inv (wdb (snd (fail_job oe jid b w)))"
    by (rule keepsD [OF keeps_fail_job inv])
  then show ?thesis using js(2,3) cs(2,3) nf unfolding run by simp
qed



text \<open>A step of the trust score: up on success, down on failure, never out of range.\<close>

lemma trust_delta_True: "\<exists>d. trust_delta True = Fin d \<and> 0 \<le> d \<and> d \<le> 1"
  unfolding trust_delta_def using f64_of_between [of 0 1 "5 / 100"] by simp

lemma trust_delta_False: "\<exists>d. trust_delta False = Fin d \<and> - 1 \<le> d \<and> d \<le> 0"
  unfolding trust_delta_def using f64_of_between [of "- 1" 0 "- 30 / 100"] by simp

lemma clamp_trust_Fin: "clamp_trust (Some (Fin r)) = Some (Fin (max 0 (min 5 r)))"
  by (auto simp: clamp_trust_def max_def min_def)

lemma trust_row_score:
  assumes "trust_row (trust_delta success) out now p = Inr q"
    and "p_trust_score p = Some (Fin t)" "rnd64 t = t" "0 \<le> t" "t \<le> 5"
  shows "\<exists>u. p_trust_score q = Some (Fin u) \<and> 0 \<le> u \<and> u \<le> 5 \<and> (if success then t \<le> u else u \<le> t)"
proof (cases success)
  case True
  obtain d where d: "trust_delta True = Fin d" "0 \<le> d" "d \<le> 1" using trust_delta_True by blast
  obtain r where "f64_of (t + d) = Fin r" "t \<le> r"
    using f64_of_between [of t 6 "t + d"] assms(3-5) d(2,3) by auto
  with assms True d(1) show ?thesis
    by (auto simp: trust_row_def and_then_eq_Inr clamp_trust_Fin)
next
  case False
  obtain d where d: "trust_delta False = Fin d" "- 1 \<le> d" "d \<le> 0" using trust_delta_False by blast
  obtain r where "f64_of (t + d) = Fin r" "r \<le> t"
    using f64_of_between [of "- 1" t "t + d"] assms(3-5) d(2,3) by auto
  with assms False d(1) show ?thesis
    by (auto simp: trust_row_def and_then_eq_Inr clamp_trust_Fin)
qed

text \<open>The success rate.\<close>

lemma success_rate_range:
  assumes "p_success_rate p = Some (Fin s)" "0 \<le> s" "s \<le> 1"
    and "p_jobs_completed p = Some n" "i32_range n" "x = 0 \<or> x = 1"
    and "new_success_rate p (Fin x) = Inr y"
  shows "\<exists>u. y = Some (Fin u) \<and> 0 \<le> u \<and> u \<le> 1"
proof (cases "0 < n")
  case False
  with assms show ?thesis by (auto simp: new_success_rate_def)
next
  case True
  have n: "f64_of_int n = Fin (of_int n)" "f64_of_int (n - 1) = Fin (of_int (n - 1))"
    "rnd64 (of_int n) = of_int n" "rnd64 (of_int (n - 1)) = of_int (n - 1)" "\<bar>of_int n :: rat\<bar> < 2 ^ 1024"
    using True assms(5) f64_of_of_int [of n] f64_of_of_int [of "n - 1"] rnd64_of_int [of n] rnd64_of_int [of "n - 1"]
      big_numeral [of "of_int n"]
    by (auto simp: i32_range_def f64_of_int_def)
  have n': "0 \<le> (of_int (n - 1) :: rat)" "(0::rat) < of_int n" using True by simp_all
  have "s * of_int (n - 1) \<le> of_int (n - 1)" using assms(2,3) n' by (simp add: mult_left_le_one_le)
  then obtain prev where prev: "f64_of (s * of_int (n - 1)) = Fin prev" "0 \<le> prev" "prev \<le> of_int (n - 1)"
    using f64_of_between [of 0 "of_int (n - 1)" "s * of_int (n - 1)"] n n' assms(2) by auto
  then obtain total where total: "f64_of (prev + x) = Fin total" "0 \<le> total" "total \<le> of_int n"
    using f64_of_between [of 0 "of_int n" "prev + x"] n n' assms(6) by auto
  then have "0 \<le> total / of_int n" "total / of_int n \<le> 1" using n' by simp_all
  then obtain u where u: "f64_of (total / of_int n) = Fin u" "0 \<le> u" "u \<le> 1"
    using f64_of_between [of 0 1 "total / of_int n"] by auto
  have "and_then (map_sum id Some (pg_mul (Fin s) (Fin (of_int (n - 1))))) (\<lambda>prev. and_then (sql_add prev (Some (Fin x)))
      (\<lambda>total. sql_lift2 pg_div total (Some (Fin (of_int n))))) = Inr y"
    using assms(1,4,7) True n by (simp add: new_success_rate_def)
  then show ?thesis
    using prev total u n'
    by (auto simp: pg_mul_def pg_div_def pg_arith_def pg_add_Fin is_inf_def split: if_splits)
qed

section \<open>Properties\<close>

lemma job_of_providerI:
  assumes "keys_distinct j_job_id (jobs d)" "job_of d jid = Some j" "j_provider_id j = Some pid"
  shows "job_of_provider jid pid d = Some j"
proof -
  from sql_first_in_set [OF assms(2)] have j: "j \<in> set (jobs d)" "j_job_id j = jid" by auto
  then have "job_of_provider jid pid d \<noteq> None"
    using assms(3) by (auto simp: job_of_provider_def sql_first_def find_None_iff)
  then obtain j' where "job_of_provider jid pid d = Some j'" by auto
  with job_of_provider_job [OF assms(1) this] assms(2) show ?thesis by simp
qed

lemma latest_checkpoint_max:
  "latest_checkpoint jid d = Some c \<Longrightarrow> c \<in> set (checkpoints d) \<and> ck_job_id c = Some jid \<and>
     (\<forall>x\<in>set (checkpoints d). ck_job_id x = Some jid \<longrightarrow> ck_iteration x \<le> ck_iteration c)"
  by (auto simp: latest_checkpoint_def sort_col_def split: list.splits dest!: order_desc_hd)

lemma latest_checkpoint_exists:
  assumes "c \<in> set (checkpoints d)" "ck_job_id c = Some jid"
  shows "\<exists>r. latest_checkpoint jid d = Some r"
proof -
  have "filter (\<lambda>c. ck_job_id c = Some jid) (checkpoints d) \<noteq> []"
    using assms by (auto simp: filter_empty_conv)
  then have "order_desc (\<lambda>c. Some (ck_iteration c)) (filter (\<lambda>c. ck_job_id c = Some jid) (checkpoints d)) \<noteq> []"
    by simp
  then show ?thesis by (simp add: latest_checkpoint_def split: list.split)
qed

lemma latest_checkpoint_append:
  assumes "ck_job_id c = Some jid"
    and "\<forall>x\<in>set t. ck_job_id x = Some jid \<longrightarrow> ck_iteration x < ck_iteration c"
  shows "latest_checkpoint jid (d\<lparr>checkpoints := t @ [c]\<rparr>) = Some c"
proof -
  obtain r where r: "latest_checkpoint jid (d\<lparr>checkpoints := t @ [c]\<rparr>) = Some r"
    using latest_checkpoint_exists [of c "d\<lparr>checkpoints := t @ [c]\<rparr>" jid] assms(1) by auto
  from latest_checkpoint_max [OF r] assms(1)
  have "r \<in> set (t @ [c])" "ck_job_id r = Some jid" "ck_iteration c \<le> ck_iteration r" by auto
  with assms(2) have "r = c" by force
  with r show ?thesis by simp
qed

text \<open>A concrete leased provider and its job, at which the properties are evaluated.\<close>

definition demo_job :: job_row where
  "demo_job = (new_job_row ''job'' ''cons'' 900)\<lparr>j_provider_id := Some ''prov'', j_price := Some (Fin 2),
     j_state := Some ''running'', j_max_duration_s := Some 7200\<rparr>"

definition demo_provider :: provider_row where
  "demo_provider = (new_provider_row ''prov'' 900)\<lparr>p_state := Some ''leased'', p_active_job_id := Some ''job''\<rparr>"

definition demo_consumer :: credit_row where
  "demo_consumer = (new_credit_row ''cons'' 900)\<lparr>c_available := Some (Fin 10), c_escrowed := Some (Fin 4)\<rparr>"

definition lease_db :: coord_db where
  "lease_db = empty_db\<lparr>providers := [demo_provider], jobs := [demo_job],
     credits := [demo_consumer, new_credit_row ''prov'' 900],
     escrows := [new_escrow_row ''e1'' (Some ''job'') ''cons'' (Fin 4)]\<rparr>"

definition demo_job2 :: job_row where
  "demo_job2 = new_job_row ''job2'' ''cons'' 950"

definition lease_db2 :: coord_db where
  "lease_db2 = lease_db\<lparr>jobs := [demo_job, demo_job2],
     escrows := [new_escrow_row ''e1'' (Some ''job'') ''cons'' (Fin 1), new_escrow_row ''e2'' (Some ''job2'') ''cons'' (Fin 3)]\<rparr>"

definition demo_complete :: complete_job_body where
  "demo_complete = \<lparr>cj_provider_id = ''prov'', cj_exit_code = 0, cj_output_hash = ''h'', cj_actual_runtime_s = 3600,
     cj_avg_gpu_util_pct = Fin 50, cj_peak_ram_gb = 8\<rparr>"

definition demo_fail :: fail_job_body where
  "demo_fail = \<lparr>fj_provider_id = ''prov'', fj_reason = ''crash'', fj_slash = False\<rparr>"

lemmas demo_lease_defs = lease_db_def lease_db2_def demo_job_def demo_job2_def demo_provider_def demo_consumer_def
  empty_db_def new_job_row_def new_provider_row_def new_credit_row_def

lemma demo_share: "provider_share (Fin 2) = Fin (8286623314361713 / 4503599627370496)"
proof -
  have "rnd64 (66292986514893701 / 72057594037927936) = 8286623314361713 / 9007199254740992"
    by (subst rnd64_eqI [where k = "- 1" and m = 8286623314361713]) simp_all
  then have f: "f64_of (66292986514893701 / 72057594037927936) = Fin (8286623314361713 / 9007199254740992)"
    by (simp add: f64_of_def)
  have "rnd64 (8286623314361713 / 4503599627370496) = 8286623314361713 / 4503599627370496"
    by (subst rnd64_eqI [where k = 0 and m = 8286623314361713]) simp_all
  then have "f64_of (8286623314361713 / 4503599627370496) = Fin (8286623314361713 / 4503599627370496)"
    by (simp add: f64_of_def)
  with f show ?thesis
    by (simp add: provider_share_def PLATFORM_FEE_def f64_of_def)
qed

lemma demo_share_repr [simp]:
  "f64_of (8286623314361713 / 4503599627370496) = Fin (8286623314361713 / 4503599627370496)"
  by (metis demo_share f64_mul_ok provider_share_def f64_ok.simps(1) f64_of_repr)

lemma demo_lease_facts [simp]:
  "db_inv lease_db" "db_inv lease_db2"
  "job_of_provider ''job'' ''prov'' lease_db = Some demo_job" "job_of lease_db2 ''job'' = Some demo_job"
  "job_of lease_db ''job'' = Some demo_job" "job_of lease_db2 ''job2'' = Some demo_job2"
  "\<not> is_terminal (j_state demo_job)" "\<not> is_terminal (j_state demo_job2)" "j_provider_id demo_job = Some ''prov''"
  "j_consumer_id demo_job = ''cons''" "j_consumer_id demo_job2 = ''cons''" "j_price demo_job = Some (Fin 2)"
  "credit_of lease_db ''cons'' = Some demo_consumer" "credit_of lease_db2 ''cons'' = Some demo_consumer"
  "credit_of lease_db ''prov'' = Some (new_credit_row ''prov'' 900)"
  "c_available demo_consumer = Some (Fin 10)" "c_escrowed demo_consumer = Some (Fin 4)" "c_spent demo_consumer = Some (Fin 0)"
  "c_available (new_credit_row k t) = Some (Fin 0)" "c_earned (new_credit_row k t) = Some (Fin 0)"
  "locked_escrow ''job'' lease_db = Some (new_escrow_row ''e1'' (Some ''job'') ''cons'' (Fin 4))"
  "locked_escrow ''job2'' lease_db2 = Some (new_escrow_row ''e2'' (Some ''job2'') ''cons'' (Fin 3))"
  "provider_of lease_db ''prov'' = Some demo_provider" "p_jobs_completed demo_provider = Some 0"
  "p_trust_score demo_provider = Some (Fin 3)" "txs lease_db = []" "checkpoints lease_db = []"
  "gross_cost (Some (Fin 2)) 3600 = Fin 2" "cj_provider_id demo_complete = ''prov''" "cj_actual_runtime_s demo_complete = 3600"
  "cj_output_hash demo_complete = ''h''"
  by (simp_all add: demo_lease_defs db_inv_def pk_inv_def trust_inv_def trust_ok_def keys_distinct_def
      job_of_provider_def is_terminal_def locked_escrow_def gross_cost_def f64_of_int_def demo_complete_def)

text \<open>A report never takes the trust score out of the range from 0 to 5; a success never
  lowers it and a failure never raises it.\<close>

theorem trust_score_step:
  assumes "wfaults w = []" "db_inv (wdb w)" "provider_of (wdb w) pid = Some p"
    and "p_trust_score p = Some (Fin t)" "f64_ok (Fin t)"
  shows "\<exists>x w' p' u. update_trust_score pid success w = (Inr x, w') \<and> provider_of (wdb w') pid = Some p' \<and>
     p_trust_score p' = Some (Fin u) \<and> 0 \<le> u \<and> u \<le> 5 \<and> (if success then t \<le> u else u \<le> t)"
proof -
  have kd: "keys_distinct p_provider_id (providers (wdb w))" using assms(2) by (simp add: db_inv_def pk_inv_def)
  have "trust_ok p" using assms(2) sql_first_in_set [OF assms(3)] by (simp add: db_inv_def trust_inv_def)
  then have t: "rnd64 t = t" "0 \<le> t" "t \<le> 5" using assms(4,5) by (auto simp: trust_ok_def)
  obtain x tab p' where run: "update_trust_score pid success w = (Inr x, w\<lparr>wdb := (wdb w)\<lparr>providers := tab\<rparr>\<rparr>)"
    "sql_first (\<lambda>r. p_provider_id r = pid) tab = Some p'"
    "p' = (case trust_row (trust_delta success) (if success then Fin 1 else Fin 0) (wnow w) p of Inl _ \<Rightarrow> p | Inr q \<Rightarrow> q)"
    using update_trust_score_run [OF assms(1) kd assms(3)] by blast
  have "\<exists>u. p_trust_score p' = Some (Fin u) \<and> 0 \<le> u \<and> u \<le> 5 \<and> (if success then t \<le> u else u \<le> t)"
    using run(3) assms(4) t trust_row_score [OF _ assms(4) t]
    by (cases "trust_row (trust_delta success) (if success then Fin 1 else Fin 0) (wnow w) p") auto
  with run(1,2) show ?thesis by auto
qed


text \<open>C4: A reported completion settles the job: the provider's account earns its 92% share of
  the gross cost (rounded in \<open>f64\<close>), the consumer's escrow goes down by the gross cost, never
  below zero, and its spending up by it, no other account changes, the job is complete with its
  output, the provider is available with one more completed job, one \<open>earn\<close> transaction is
  logged, and the on-chain release is requested when the oracle is on.\<close>

theorem complete_job_settles:
  assumes "wfaults w = []" "db_inv (wdb w)"
    and "job_of_provider jid (cj_provider_id b) (wdb w) = Some j"
    and "gross_cost (j_price j) (cj_actual_runtime_s b) = Fin g" "provider_share (Fin g) = Fin s"
    and "credit_of (wdb w) (cj_provider_id b) = Some r" "c_available r = Some (Fin a)" "c_earned r = Some (Fin n)"
    and "credit_of (wdb w) (j_consumer_id j) = Some c" "c_escrowed c = Some (Fin e)" "c_spent c = Some (Fin t)"
    and "cj_provider_id b \<noteq> j_consumer_id j"
    and "f64_of (a + s) = Fin a'" "f64_of (n + s) = Fin n'" "f64_of (e - g) = Fin e'" "f64_of (t + g) = Fin t'"
    and "provider_of (wdb w) (cj_provider_id b) = Some p" "p_jobs_completed p = Some cnt" "i32_range (cnt + 1)"
    and "sql_first (\<lambda>x. t_tx_id x = wids w (widn w)) (txs (wdb w)) = None"
  shows "\<exists>w' p' body. complete_job oe jid b w =
       (Inr (body, if oe then [Release_Escrow jid (Fin g)] else []), w') \<and>
     credit_of (wdb w') (cj_provider_id b) = Some (r\<lparr>c_available := Some (Fin a'), c_earned := Some (Fin n'),
        c_updated_at := Some (wnow w)\<rparr>) \<and>
     credit_of (wdb w') (j_consumer_id j) = Some (c\<lparr>c_escrowed := Some (max (Fin 0) (Fin e')),
        c_spent := Some (Fin t'), c_updated_at := Some (wnow w)\<rparr>) \<and>
     (\<forall>k. k \<notin> {cj_provider_id b, j_consumer_id j} \<longrightarrow> credit_of (wdb w') k = credit_of (wdb w) k) \<and>
     job_of (wdb w') jid = Some (j\<lparr>j_state := Some ''complete'', j_output_hash := Some (cj_output_hash b),
        j_actual_runtime_s := Some (cj_actual_runtime_s b), j_completed_at := Some (wnow w)\<rparr>) \<and>
     provider_of (wdb w') (cj_provider_id b) = Some p' \<and> p_state p' = Some ''available'' \<and>
     p_active_job_id p' = None \<and> p_jobs_completed p' = Some (cnt + 1) \<and>
     (\<exists>x. txs (wdb w') = txs (wdb w) @ [x] \<and> t_tx_type x = ''earn'' \<and> t_amount x = Fin s)"
  using complete_job_run [OF assms, of oe] by auto

text \<open>What the maximum cost locked beyond the actual cost is never given back: after
  a completion the consumer's available balance is what it was, the remainder stays in the
  escrowed balance, the escrow row stays \<open>locked\<close>, and a cancellation is refused as terminal.\<close>

theorem complete_job_strands_remainder:
  assumes "wfaults w = []" "db_inv (wdb w)"
    and "job_of_provider jid (cj_provider_id b) (wdb w) = Some j"
    and "gross_cost (j_price j) (cj_actual_runtime_s b) = Fin g" "provider_share (Fin g) = Fin s"
    and "credit_of (wdb w) (cj_provider_id b) = Some r" "c_available r = Some (Fin a)" "c_earned r = Some (Fin n)"
    and "credit_of (wdb w) (j_consumer_id j) = Some c" "c_escrowed c = Some (Fin e)" "c_spent c = Some (Fin t)"
    and "cj_provider_id b \<noteq> j_consumer_id j"
    and "f64_of (a + s) = Fin a'" "f64_of (n + s) = Fin n'" "f64_of (e - g) = Fin e'" "f64_of (t + g) = Fin t'"
    and "provider_of (wdb w) (cj_provider_id b) = Some p" "p_jobs_completed p = Some cnt" "i32_range (cnt + 1)"
    and "sql_first (\<lambda>x. t_tx_id x = wids w (widn w)) (txs (wdb w)) = None"
  shows "\<exists>w' body c'. complete_job oe jid b w = (Inr body, w') \<and>
     credit_of (wdb w') (j_consumer_id j) = Some c' \<and> c_available c' = c_available c \<and>
     c_escrowed c' = Some (max (Fin 0) (Fin e')) \<and>
     locked_escrow jid (wdb w') = locked_escrow jid (wdb w) \<and>
     (\<exists>r'. cancel_job jid w' = (Inr (JObj [(''ok'', JBool False), (''error'', JStr ''already_terminal''),
                      (''state'', JStr ''complete'')]), w'))"
  using complete_job_run [OF assms, of oe]
  by (auto simp: cancel_job_def prog_simps is_terminal_def locked_escrow_def)

text \<open>C17: A completion does not look at the job's state: after a cancellation has given
  the consumer the whole escrow back, the provider's report still pays the provider.\<close>

theorem complete_after_cancel_pays_twice:
  assumes "wfaults w = []" "db_inv (wdb w)"
    and "job_of_provider jid (cj_provider_id b) (wdb w) = Some j" "\<not> is_terminal (j_state j)"
    and "locked_escrow jid (wdb w) = Some x" "e_locked_nmc x = Fin m"
    and "gross_cost (j_price j) (cj_actual_runtime_s b) = Fin g" "provider_share (Fin g) = Fin s"
    and "credit_of (wdb w) (cj_provider_id b) = Some r" "c_available r = Some (Fin a)" "c_earned r = Some (Fin n)"
    and "credit_of (wdb w) (j_consumer_id j) = Some c" "c_available c = Some (Fin d)" "c_escrowed c = Some (Fin m)"
       "c_spent c = Some (Fin t)"
    and "cj_provider_id b \<noteq> j_consumer_id j" "0 \<le> g" "f64_of g = Fin g"
    and "f64_of (d + m) = Fin d'" "f64_of (a + s) = Fin a'" "f64_of (n + s) = Fin n'" "f64_of (t + g) = Fin t'"
    and "provider_of (wdb w) (cj_provider_id b) = Some p" "p_jobs_completed p = Some cnt" "i32_range (cnt + 1)"
    and "sql_first (\<lambda>x. t_tx_id x = wids w (widn w)) (txs (wdb w)) = None"
  shows "\<exists>w1 w2 r1 r2 c' r'. cancel_job jid w = (Inr r1, w1) \<and> complete_job oe jid b w1 = (Inr r2, w2) \<and>
     credit_of (wdb w2) (j_consumer_id j) = Some c' \<and> c_available c' = Some (Fin d') \<and>
     c_escrowed c' = Some (Fin 0) \<and>
     credit_of (wdb w2) (cj_provider_id b) = Some r' \<and> c_available r' = Some (Fin a')"
proof -
  have kd: "keys_distinct j_job_id (jobs (wdb w))" using assms(2) by (simp add: db_inv_def pk_inv_def)
  note jj = job_of_provider_job [OF kd assms(3)]
  let ?j1 = "j\<lparr>j_state := Some ''cancelled'', j_completed_at := Some (wnow w)\<rparr>"
  let ?c1 = "c\<lparr>c_available := Some (Fin d'), c_escrowed := Some (max (Fin 0) (Fin 0)), c_updated_at := Some (wnow w)\<rparr>"
  obtain w1 r1 where c: "cancel_job jid w = (Inr r1, w1)"
    "credit_of (wdb w1) (j_consumer_id j) = Some ?c1"
    "\<forall>k. k \<noteq> j_consumer_id j \<longrightarrow> credit_of (wdb w1) k = credit_of (wdb w) k"
    "job_of (wdb w1) jid = Some ?j1"
    "\<forall>k. provider_of (wdb w1) k = map_option (\<lambda>p. if p_active_job_id p = Some jid
        then p\<lparr>p_state := Some ''available'', p_active_job_id := None\<rparr> else p) (provider_of (wdb w) k)"
    "txs (wdb w1) = txs (wdb w)" "wfaults w1 = []" "wnow w1 = wnow w" "wids w1 = wids w" "widn w1 = widn w" "db_inv (wdb w1)"
    using cancel_job_run [OF assms(1,2) jj(1) assms(4-6,12-14,19), where e' = 0] by auto
  have "job_of_provider jid (cj_provider_id b) (wdb w1) = Some ?j1"
    using c(4,11) jj(2) by (intro job_of_providerI) (auto simp: db_inv_def pk_inv_def)
  moreover obtain p1 where "provider_of (wdb w1) (cj_provider_id b) = Some p1" "p_jobs_completed p1 = Some cnt"
    using c(5) assms(23,24) by auto
  moreover have "f64_of (0 - g) = Fin (- g)" using assms(18) by (simp add: f64_of_uminus)
  ultimately show ?thesis
    using complete_job_run [OF c(7,11), of jid b ?j1 g s r a n ?c1 0 t a' n' "- g" t' p1 cnt oe] assms c(1-3,6,9,10)
    by (auto simp: max_def)
qed

text \<open>A failed job returns everything its consumer has in escrow, the locks of other
  jobs included, and leaves the escrow rows locked: cancelling another job of the same consumer
  afterwards pays that job's lock a second time.\<close>

theorem fail_then_cancel_refunds_twice:
  assumes "wfaults w = []" "db_inv (wdb w)"
    and "job_of (wdb w) jid = Some j" "job_of (wdb w) jid' = Some j'" "jid \<noteq> jid'"
    and "j_consumer_id j' = j_consumer_id j" "\<not> is_terminal (j_state j')"
    and "locked_escrow jid' (wdb w) = Some x" "e_locked_nmc x = Fin m" "0 \<le> m" "f64_of m = Fin m"
    and "credit_of (wdb w) (j_consumer_id j) = Some c" "c_available c = Some (Fin a)" "c_escrowed c = Some (Fin e)"
    and "f64_of (a + e) = Fin (a + e)" "f64_of (a + e + m) = Fin (a + e + m)"
  shows "\<exists>w1 w2 r1 r2 c'. fail_job oe jid b w = (Inr r1, w1) \<and> cancel_job jid' w1 = (Inr r2, w2) \<and>
     credit_of (wdb w2) (j_consumer_id j) = Some c' \<and> c_available c' = Some (Fin (a + e + m)) \<and>
     c_escrowed c' = Some (Fin 0)"
proof -
  let ?c1 = "c\<lparr>c_available := Some (Fin (a + e)), c_escrowed := Some (Fin 0), c_updated_at := Some (wnow w)\<rparr>"
  obtain w1 r1 where f: "fail_job oe jid b w = (Inr r1, w1)" "wfaults w1 = []" "db_inv (wdb w1)"
    "credit_of (wdb w1) (j_consumer_id j) = Some ?c1" "job_of (wdb w1) jid' = Some j'"
    "locked_escrow jid' (wdb w1) = Some x"
    using fail_job_run [OF assms(1-3,12-15), of oe b] assms(4,5,8) by (auto simp: locked_escrow_def)
  have neg: "f64_of (0 - m) = Fin (- m)" using assms(11) by (simp add: f64_of_uminus)
  from cancel_job_run [OF f(2,3,5) assms(7) f(6) assms(9) _ _ _ assms(16) neg] f(4) assms(6,10)
  show ?thesis using f(1) by (auto simp: max_def)
qed

text \<open>A job heartbeat of the assigned provider sets the job to \<open>running\<close> whatever its
  state was: a cancelled, failed or complete job comes back to life.\<close>

theorem job_heartbeat_revives:
  assumes "wfaults w = []" "db_inv (wdb w)"
    and "job_of (wdb w) jid = Some j" "j_provider_id j = Some (jh_provider_id b)"
  shows "\<exists>r w'. job_heartbeat jid b w = (Inr r, w') \<and>
     job_of (wdb w') jid = Some (j\<lparr>j_state := Some ''running'', j_last_heartbeat := Some (wnow w)\<rparr>)"
proof -
  have kd: "keys_distinct j_job_id (jobs (wdb w))" using assms(2) by (simp add: db_inv_def pk_inv_def)
  let ?g = "\<lambda>r. if j_job_id r = jid \<and> j_provider_id r = Some (jh_provider_id b)
     then r\<lparr>j_state := Some ''running'', j_last_heartbeat := Some (wnow w)\<rparr> else r"
  have "job_of (wdb w) jid = Some j \<Longrightarrow> sql_first (\<lambda>r. j_job_id r = jid) (map ?g (jobs (wdb w))) = Some (?g j)"
    by (subst sql_first_map) auto
  with assms(1,3,4) sql_first_key [OF assms(3)] show ?thesis
    by (simp add: job_heartbeat_def touch_job_def touch_provider_def prog_simps on_table_defs)
qed

text \<open>The checkpoint served for a restore belongs to the job and has the greatest
  iteration among the checkpoints recorded for it.\<close>

theorem latest_checkpoint_newest:
  assumes "latest_checkpoint jid d = Some c"
  shows "c \<in> set (checkpoints d) \<and> ck_job_id c = Some jid \<and>
     (\<forall>x\<in>set (checkpoints d). ck_job_id x = Some jid \<longrightarrow> ck_iteration x \<le> ck_iteration c)"
  by (rule latest_checkpoint_max [OF assms])

text \<open>Saving a checkpoint with an iteration above the recorded ones and fetching the
  job's checkpoint gives back the directory, files, iteration and elapsed time that were saved.\<close>

theorem checkpoint_roundtrip:
  assumes "wfaults w = []" "job_of (wdb w) jid = Some j"
    and "\<forall>x\<in>set (checkpoints (wdb w)). ck_job_id x = Some jid \<longrightarrow> ck_iteration x < cp_iteration b"
    and "sql_first (\<lambda>x. ck_checkpoint_id x = wids w (widn w)) (checkpoints (wdb w)) = None"
  shows "\<exists>r w'. save_checkpoint jid b w = (Inr r, w') \<and>
     get_checkpoint jid w' = (Inr (JObj
       [(''job_id'', JStr jid), (''iteration'', JInt (cp_iteration b)),
        (''checkpoint_dir'', JStr (cp_checkpoint_dir b)), (''dmtcp_files'', j_strs (cp_dmtcp_files b)),
        (''elapsed_secs'', JInt (cp_elapsed_secs b)), (''coord_port'', JInt 0)]), w')"
proof -
  let ?c = "checkpoint_row_of b (wids w (widn w)) jid"
  have sel: "ck_checkpoint_id ?c = wids w (widn w)" "ck_job_id ?c = Some jid" "ck_iteration ?c = cp_iteration b"
     "ck_checkpoint_dir ?c = Some (cp_checkpoint_dir b)" "ck_dmtcp_files ?c = Some (cp_dmtcp_files b)"
     "ck_elapsed_secs ?c = Some (cp_elapsed_secs b)"
    by (simp_all add: checkpoint_row_of_def)
  have "jid \<in> j_job_id ` set (jobs (wdb w))" using sql_first_in_set [OF assms(2)] by auto
  with assms(1,4) show ?thesis
    using latest_checkpoint_append [of ?c jid "checkpoints (wdb w)"] assms(3)
    by (simp add: save_checkpoint_def get_checkpoint_def insert_checkpoint_def set_checkpoint_def prog_simps
       on_table_defs sql_insert_new sel Let_def latest_checkpoint_def)
qed

text \<open>Polling for work hands the provider a job that was assigned to it, marks that
  job running, and never hands the same job out at a later poll.\<close>

theorem assigned_job_delivered_once:
  assumes "wfaults w = []" "db_inv (wdb w)" "select_assigned pid (wdb w) = Some j"
  shows "\<exists>w'. get_assigned_job pid w = (Inr (JObj [(''job'', assigned_json j)]), w') \<and>
     j_provider_id j = Some pid \<and> j_state j = Some ''assigned'' \<and>
     job_of (wdb w') (j_job_id j) = Some (j\<lparr>j_state := Some ''running''\<rparr>) \<and>
     (\<forall>j'. select_assigned pid (wdb w') = Some j' \<longrightarrow> j_job_id j' \<noteq> j_job_id j)"
proof -
  have kd: "keys_distinct j_job_id (jobs (wdb w))" using assms(2) by (simp add: db_inv_def pk_inv_def)
  from assms(3) have j: "j \<in> set (jobs (wdb w))" "j_provider_id j = Some pid" "j_state j = Some ''assigned''"
    by (auto simp: select_assigned_def split: list.splits dest!: order_asc_hd)
  then have "job_of (wdb w) (j_job_id j) \<noteq> None" by (auto simp: sql_first_None_iff)
  then have jj: "job_of (wdb w) (j_job_id j) = Some j"
    using keys_distinct_unique [OF kd _ j(1) refl] by auto
  let ?g = "\<lambda>r. if j_job_id r = j_job_id j then r\<lparr>j_state := Some ''running''\<rparr> else r"
  let ?w = "w\<lparr>wdb := (wdb w)\<lparr>jobs := map ?g (jobs (wdb w))\<rparr>\<rparr>"
  have run: "get_assigned_job pid w = (Inr (JObj [(''job'', assigned_json j)]), ?w)"
    using assms(1,3) by (simp add: get_assigned_job_def start_job_def prog_simps on_jobs_def)
  have "job_of (wdb ?w) (j_job_id j) = Some (?g j)"
    using jj sql_first_map [of j_job_id ?g "j_job_id j" "jobs (wdb w)"] by simp
  moreover have "j_job_id j' \<noteq> j_job_id j" if "select_assigned pid (wdb ?w) = Some j'" for j'
  proof -
    from that have "j' \<in> ?g ` set (jobs (wdb w))" "j_state j' = Some ''assigned''"
      by (auto simp: select_assigned_def split: list.splits dest!: order_asc_hd)
    then show ?thesis by (auto split: if_splits)
  qed
  ultimately show ?thesis using run j(2,3) by simp
qed

theorem trust_score_step_witness:
  "\<exists>x w' p' u. update_trust_score ''prov'' False (world_at lease_db) = (Inr x, w') \<and>
     provider_of (wdb w') ''prov'' = Some p' \<and> p_trust_score p' = Some (Fin u) \<and> 0 \<le> u \<and> u \<le> 5 \<and> u \<le> 3"
  using trust_score_step [where w = "world_at lease_db" and pid = "''prov''" and p = demo_provider and t = 3 and success = False]
  by simp

theorem complete_job_settles_witness:
  "\<exists>w' body. complete_job True ''job'' demo_complete (world_at lease_db) = (Inr (body, [Release_Escrow ''job'' (Fin 2)]), w') \<and>
     credit_of (wdb w') ''prov'' = Some ((new_credit_row ''prov'' 900)\<lparr>
        c_available := Some (Fin (8286623314361713 / 4503599627370496)),
        c_earned := Some (Fin (8286623314361713 / 4503599627370496)), c_updated_at := Some 1000\<rparr>) \<and>
     credit_of (wdb w') ''cons'' = Some (demo_consumer\<lparr>c_escrowed := Some (Fin 2), c_spent := Some (Fin 2),
        c_updated_at := Some 1000\<rparr>)"
  using complete_job_settles [where w = "world_at lease_db" and jid = "''job''" and b = demo_complete and j = demo_job
     and g = 2 and s = "8286623314361713 / 4503599627370496" and r = "new_credit_row ''prov'' 900" and a = 0 and n = 0
     and c = demo_consumer and e = 4 and t = 0 and a' = "8286623314361713 / 4503599627370496"
     and n' = "8286623314361713 / 4503599627370496" and e' = 2 and t' = 2 and p = demo_provider and cnt = 0 and oe = True]
  by (auto simp: demo_share i32_range_def max_def)

theorem complete_job_strands_remainder_witness:
  "\<exists>w' body c'. complete_job False ''job'' demo_complete (world_at lease_db) = (Inr body, w') \<and>
     credit_of (wdb w') ''cons'' = Some c' \<and> c_available c' = Some (Fin 10) \<and> c_escrowed c' = Some (Fin 2) \<and>
     locked_escrow ''job'' (wdb w') = Some (new_escrow_row ''e1'' (Some ''job'') ''cons'' (Fin 4))"
  using complete_job_strands_remainder [where w = "world_at lease_db" and jid = "''job''" and b = demo_complete and j = demo_job
     and g = 2 and s = "8286623314361713 / 4503599627370496" and r = "new_credit_row ''prov'' 900" and a = 0 and n = 0
     and c = demo_consumer and e = 4 and t = 0 and a' = "8286623314361713 / 4503599627370496"
     and n' = "8286623314361713 / 4503599627370496" and e' = 2 and t' = 2 and p = demo_provider and cnt = 0 and oe = False]
  by (auto simp: demo_share i32_range_def max_def)

theorem complete_after_cancel_pays_twice_witness:
  "\<exists>w1 w2 r1 r2 c' r'. cancel_job ''job'' (world_at lease_db) = (Inr r1, w1) \<and>
     complete_job False ''job'' demo_complete w1 = (Inr r2, w2) \<and>
     credit_of (wdb w2) ''cons'' = Some c' \<and> c_available c' = Some (Fin 14) \<and> c_escrowed c' = Some (Fin 0) \<and>
     credit_of (wdb w2) ''prov'' = Some r' \<and> c_available r' = Some (Fin (8286623314361713 / 4503599627370496))"
  using complete_after_cancel_pays_twice [where w = "world_at lease_db" and jid = "''job''" and b = demo_complete and j = demo_job
     and g = 2 and s = "8286623314361713 / 4503599627370496" and r = "new_credit_row ''prov'' 900" and a = 0 and n = 0
     and x = "new_escrow_row ''e1'' (Some ''job'') ''cons'' (Fin 4)" and m = 4 and d = 10 and d' = 14
     and c = demo_consumer and t = 0 and a' = "8286623314361713 / 4503599627370496"
     and n' = "8286623314361713 / 4503599627370496" and t' = 2 and p = demo_provider and cnt = 0 and oe = False]
  by (simp add: demo_share i32_range_def)

theorem fail_then_cancel_refunds_twice_witness:
  "\<exists>w1 w2 r1 r2 c'. fail_job False ''job'' demo_fail (world_at lease_db2) = (Inr r1, w1) \<and>
     cancel_job ''job2'' w1 = (Inr r2, w2) \<and>
     credit_of (wdb w2) ''cons'' = Some c' \<and> c_available c' = Some (Fin 17) \<and> c_escrowed c' = Some (Fin 0)"
  using fail_then_cancel_refunds_twice [where w = "world_at lease_db2" and jid = "''job''" and jid' = "''job2''" and j = demo_job
     and j' = demo_job2 and x = "new_escrow_row ''e2'' (Some ''job2'') ''cons'' (Fin 3)" and m = 3 and c = demo_consumer
     and a = 10 and e = 4 and b = demo_fail and oe = False]
  by simp

definition demo_heartbeat :: job_heartbeat_body where
  "demo_heartbeat = \<lparr>jh_provider_id = ''prov'', jh_elapsed_secs = 60, jh_gpu_util_pct = 50, jh_ram_used_gb = 8\<rparr>"

theorem job_heartbeat_revives_witness:
  "\<exists>r w'. job_heartbeat ''job'' demo_heartbeat
       (world_at (lease_db\<lparr>jobs := [demo_job\<lparr>j_state := Some ''cancelled''\<rparr>]\<rparr>)) = (Inr r, w') \<and>
     (\<exists>j. job_of (wdb w') ''job'' = Some j \<and> j_state j = Some ''running'')"
proof -
  let ?w = "world_at (lease_db\<lparr>jobs := [demo_job\<lparr>j_state := Some ''cancelled''\<rparr>]\<rparr>)"
  have "db_inv (wdb ?w)" "job_of (wdb ?w) ''job'' = Some (demo_job\<lparr>j_state := Some ''cancelled''\<rparr>)"
    "jh_provider_id demo_heartbeat = ''prov''"
    by (simp_all add: demo_lease_defs db_inv_def pk_inv_def trust_inv_def trust_ok_def keys_distinct_def demo_heartbeat_def)
  with job_heartbeat_revives [of ?w "''job''" "demo_job\<lparr>j_state := Some ''cancelled''\<rparr>" demo_heartbeat]
  show ?thesis by fastforce
qed

definition demo_checkpoint :: checkpoint_body where
  "demo_checkpoint = \<lparr>cp_provider_id = ''prov'', cp_iteration = 3, cp_elapsed_secs = 90,
     cp_checkpoint_dir = ''/tmp/ck/'', cp_dmtcp_files = [''a.dmtcp'']\<rparr>"

theorem checkpoint_roundtrip_witness:
  "\<exists>r w'. save_checkpoint ''job'' demo_checkpoint (world_at lease_db) = (Inr r, w') \<and>
     get_checkpoint ''job'' w' = (Inr (JObj
       [(''job_id'', JStr ''job''), (''iteration'', JInt 3),
        (''checkpoint_dir'', JStr ''/tmp/ck/''), (''dmtcp_files'', j_strs [''a.dmtcp'']),
        (''elapsed_secs'', JInt 90), (''coord_port'', JInt 0)]), w')"
  using checkpoint_roundtrip [where w = "world_at lease_db" and jid = "''job''" and j = demo_job and b = demo_checkpoint]
  by (simp add: demo_checkpoint_def)

theorem latest_checkpoint_newest_witness:
  "\<exists>c. latest_checkpoint ''job'' (lease_db\<lparr>checkpoints := [checkpoint_row_of demo_checkpoint ''c'' ''job'']\<rparr>) = Some c \<and>
     ck_iteration c = 3"
proof -
  let ?d = "lease_db\<lparr>checkpoints := [checkpoint_row_of demo_checkpoint ''c'' ''job'']\<rparr>"
  have "latest_checkpoint ''job'' ?d = Some (checkpoint_row_of demo_checkpoint ''c'' ''job'')"
    by (simp add: latest_checkpoint_def order_desc_def checkpoint_row_of_def)
  from latest_checkpoint_newest [OF this] this show ?thesis
    by (auto simp: checkpoint_row_of_def demo_checkpoint_def)
qed

theorem assigned_job_delivered_once_witness:
  "\<exists>w'. get_assigned_job ''prov'' (world_at (lease_db\<lparr>jobs := [demo_job\<lparr>j_state := Some ''assigned''\<rparr>]\<rparr>)) =
       (Inr (JObj [(''job'', assigned_json (demo_job\<lparr>j_state := Some ''assigned''\<rparr>))]), w')"
proof -
  let ?w = "world_at (lease_db\<lparr>jobs := [demo_job\<lparr>j_state := Some ''assigned''\<rparr>]\<rparr>)"
  have "db_inv (wdb ?w)" "select_assigned ''prov'' (wdb ?w) = Some (demo_job\<lparr>j_state := Some ''assigned''\<rparr>)"
    by (simp_all add: demo_lease_defs db_inv_def pk_inv_def trust_inv_def trust_ok_def keys_distinct_def
      select_assigned_def order_asc_def)
  from assigned_job_delivered_once [OF _ this] show ?thesis by auto
qed

end
