(* ===== verification/Matching.thy ===== *)
theory Matching
  imports Rest_Lifecycle
begin

text \<open>
  The background loops of the coordinator: the matching engine and the heartbeat watcher of
  \<open>coordinator/src/matching/mod.rs\<close> and the eviction of \<open>coordinator/src/reputation/mod.rs\<close>.
  Each definition is one pass; the loops repeat them on a timer. The NATS message an
  assignment publishes is its value: the publication itself may fail without consequence.
\<close>

section \<open>Scoring\<close>

definition F64_MAX :: f64 where
  "F64_MAX = Fin ((2 ^ 53 - 1) * 2 ^ 971)"

definition simple_score :: "f64 \<Rightarrow> f64 \<Rightarrow> f64 \<Rightarrow> f64" where
  "simple_score price trust max_price =
     (let price_norm = (if f64_lt (Fin 0) max_price
                        then f64_sub (Fin 1) (f64_min (f64_div price max_price) (Fin 1))
                        else f64_of (1 / 2));
          trust_norm = f64_div trust (Fin 5)
      in f64_add (f64_mul (f64_of (6 / 10)) price_norm) (f64_mul (f64_of (4 / 10)) trust_norm))"

text \<open>\<open>Iterator::max_by\<close>: of several greatest elements the last one is kept.\<close>

fun max_by :: "('a \<Rightarrow> 'a \<Rightarrow> bool) \<Rightarrow> 'a list \<Rightarrow> 'a option" where
  "max_by gt [] = None"
| "max_by gt [x] = Some x"
| "max_by gt (x # y # ys) = max_by gt ((if gt x y then x else y) # ys)"

definition provider_score :: "f64 \<Rightarrow> provider_row \<Rightarrow> f64" where
  "provider_score max_price p =
     simple_score (unwrap_or (f64_of (1 / 10)) (p_floor_price p)) (unwrap_or (Fin 3) (p_trust_score p)) max_price"

section \<open>The auction\<close>

definition is_candidate :: "int \<Rightarrow> f64 \<Rightarrow> provider_row \<Rightarrow> bool" where
  "is_candidate min_ram_gb max_price p \<longleftrightarrow>
     p_state p = Some ''available'' \<and> null_le (Some (as_i32 min_ram_gb)) (p_max_job_ram_gb p) \<and>
     null_le (p_floor_price p) (Some max_price)"

definition select_candidates :: "int \<Rightarrow> f64 \<Rightarrow> coord_db \<Rightarrow> provider_row list" where
  "select_candidates min_ram_gb max_price d =
     take 20 (order_asc p_floor_price (filter (is_candidate min_ram_gb max_price) (providers d)))"

definition best_candidate :: "f64 \<Rightarrow> provider_row list \<Rightarrow> provider_row option" where
  "best_candidate max_price cs =
     max_by (\<lambda>a b. f64_lt (provider_score max_price b) (provider_score max_price a)) cs"

definition find_best_provider :: "int \<Rightarrow> f64 \<Rightarrow> (coord_db world, db_error, string option) prog" where
  "find_best_provider min_ram_gb max_price =
     bindE (db_query (\<lambda>_ d. Inr (select_candidates min_ram_gb max_price d))) (\<lambda>candidates.
     if candidates = [] then retE None
     else retE (map_option p_provider_id (best_candidate max_price candidates)))"

record nats_msg =
  n_job_id :: string
  n_provider_id :: string
  n_checkpoint_url :: "string option"

definition assigned_row :: "string \<Rightarrow> f64 \<Rightarrow> string option \<Rightarrow> int \<Rightarrow> job_row \<Rightarrow> db_error + job_row" where
  "assigned_row pid price checkpoint_url now j =
     and_then (sql_lift2 int4_add (j_restore_attempts j) (Some (if checkpoint_url \<noteq> None then 1 else 0))) (\<lambda>n.
     Inr (j\<lparr>j_state := Some ''assigned'', j_provider_id := Some pid, j_price := Some price,
           j_started_at := sql_coalesce (j_started_at j) (Some now), j_restore_attempts := n\<rparr>))"

text \<open>The assigned provider must exist: \<open>jobs.provider_id\<close> is a foreign key.\<close>

definition assign_to_job ::
  "string \<Rightarrow> string \<Rightarrow> f64 \<Rightarrow> string option \<Rightarrow> (coord_db world, db_error, unit) prog" where
  "assign_to_job jid pid price checkpoint_url = db_exec (\<lambda>now d.
     if job_of d jid \<noteq> None \<and> \<not> fk p_provider_id (providers d) (Some pid) then Inl Fk_Violation
     else on_jobs (sql_update (\<lambda>r. j_job_id r = jid) (assigned_row pid price checkpoint_url now)) d)"

definition lease_provider :: "string \<Rightarrow> string \<Rightarrow> (coord_db world, db_error, unit) prog" where
  "lease_provider jid pid = db_exec (\<lambda>now. on_providers (sql_update (\<lambda>p. p_provider_id p = pid)
     (\<lambda>p. Inr (p\<lparr>p_state := Some ''leased'', p_active_job_id := Some jid\<rparr>))))"

definition assign_job ::
  "bool \<Rightarrow> string \<Rightarrow> string \<Rightarrow> f64 \<Rightarrow> string option \<Rightarrow> (coord_db world, db_error, nats_msg option) prog" where
  "assign_job nats jid pid price checkpoint_url =
     seqE (assign_to_job jid pid price checkpoint_url)
     (seqE (lease_provider jid pid)
     (retE (if nats then Some \<lparr>n_job_id = jid, n_provider_id = pid, n_checkpoint_url = checkpoint_url\<rparr> else None)))"

definition select_queued :: "coord_db \<Rightarrow> job_row list" where
  "select_queued d = take 50 (order_asc j_created_at (filter (\<lambda>j. j_state j = Some ''queued'') (jobs d)))"

definition auction_job :: "bool \<Rightarrow> job_row \<Rightarrow> (coord_db world, db_error, unit) prog" where
  "auction_job nats job =
     matchE (find_best_provider (as_u32 (unwrap_or 0 (j_min_ram_gb job))) (unwrap_or F64_MAX (j_max_price job)))
       (\<lambda>best. case best of
          Some pid \<Rightarrow>
            seqE (assign_job nats (j_job_id job) pid (unwrap_or (f64_of (1 / 10)) (j_max_price job)) (j_checkpoint_url job))
              (retE ())
        | None \<Rightarrow> retE ())
       (\<lambda>e. retE ())"

definition run_auction_cycle :: "bool \<Rightarrow> (coord_db world, db_error, unit) prog" where
  "run_auction_cycle nats =
     bindE (db_query (\<lambda>_ d. Inr (select_queued d))) (\<lambda>queued. forE queued (auction_job nats))"

definition calculate_credits :: "string \<Rightarrow> (coord_db world, db_error, f64) prog" where
  "calculate_credits jid =
     bindE (db_query (\<lambda>_ d. Inr (job_of d jid))) (\<lambda>row.
     case row of
       Some r \<Rightarrow>
         (let hours = f64_div (f64_of_int (unwrap_or 0 (j_actual_runtime_s r))) (Fin 3600);
              gross = f64_mul (unwrap_or (Fin 0) (j_price r)) hours;
              fee = f64_mul gross (f64_of (8 / 100))
          in retE (f64_sub gross fee))
     | None \<Rightarrow> retE (Fin 0))"

section \<open>The heartbeat watcher\<close>

definition PROVIDER_TIMEOUT_SECS :: int where
  "PROVIDER_TIMEOUT_SECS = 120"

definition MAX_RESTORE_ATTEMPTS :: int where
  "MAX_RESTORE_ATTEMPTS = 3"

definition release_escrow_row :: "string \<Rightarrow> (coord_db world, db_error, unit) prog" where
  "release_escrow_row eid = db_exec (\<lambda>now. on_escrows (sql_update (\<lambda>e. e_escrow_id e = eid)
     (\<lambda>e. Inr (e\<lparr>e_state := Some ''released'', e_settled_at := Some now\<rparr>))))"

definition credit_refund :: "string \<Rightarrow> f64 \<Rightarrow> (coord_db world, db_error, unit) prog" where
  "credit_refund cid locked = db_exec (\<lambda>now. on_credits
     (sql_upsert c_account_id ((new_credit_row cid now)\<lparr>c_available := Some locked\<rparr>)
        (refund_row (Some locked) now)))"

definition refund_consumer_escrow :: "string \<Rightarrow> (coord_db world, db_error, unit) prog" where
  "refund_consumer_escrow jid =
     bindE (db_query (\<lambda>_ d. Inr (locked_escrow jid d))) (\<lambda>escrow0.
     case escrow0 of
       None \<Rightarrow> retE ()
     | Some escrow \<Rightarrow>
         seqE (release_escrow_row (e_escrow_id escrow))
         (seqE (credit_refund (e_consumer_id escrow) (e_locked_nmc escrow))
         (bindE new_uuid (\<lambda>tx_id.
         insert_tx tx_id (e_consumer_id escrow) ''escrow_release'' (e_locked_nmc escrow) False (Some jid)
           ''Provider disconnect refund''))))"

definition requeue_job :: "string \<Rightarrow> (coord_db world, db_error, unit) prog" where
  "requeue_job jid = db_exec (\<lambda>now. on_jobs (sql_update (\<lambda>r. j_job_id r = jid)
     (\<lambda>r. Inr (r\<lparr>j_state := Some ''queued'', j_provider_id := None,
                j_failure_reason := Some ''provider_disconnect_checkpoint_restore''\<rparr>))))"

definition fail_lost_job :: "string \<Rightarrow> string \<Rightarrow> (coord_db world, db_error, unit) prog" where
  "fail_lost_job reason jid = db_exec (\<lambda>now. on_jobs (sql_update (\<lambda>r. j_job_id r = jid)
     (\<lambda>r. Inr (r\<lparr>j_state := Some ''failed'', j_completed_at := Some now, j_failure_reason := Some reason\<rparr>))))"

definition penalty_row :: "provider_row \<Rightarrow> db_error + provider_row" where
  "penalty_row p =
     and_then (sql_sub (p_trust_score p) (Some (f64_of (20 / 100)))) (\<lambda>t.
     Inr (p\<lparr>p_trust_score := clamp_trust t\<rparr>))"

definition penalise_provider :: "string \<Rightarrow> (coord_db world, db_error, unit) prog" where
  "penalise_provider pid = db_exec (\<lambda>now. on_providers
     (sql_update (\<lambda>p. p_provider_id p = pid) penalty_row))"

definition migrate_or_fail_job :: "string \<Rightarrow> string \<Rightarrow> (coord_db world, db_error, unit) prog" where
  "migrate_or_fail_job jid pid =
     bindE (db_query (\<lambda>_ d. Inr (job_of d jid))) (\<lambda>row.
     case row of
       None \<Rightarrow> retE ()
     | Some job \<Rightarrow>
         if j_state job \<notin> {Some ''running'', Some ''assigned''} then retE ()
         else
           let restore_attempts = unwrap_or 0 (j_restore_attempts job);
               has_checkpoint = (j_checkpoint_url job \<noteq> None)
           in if has_checkpoint \<and> restore_attempts < MAX_RESTORE_ATTEMPTS then requeue_job jid
              else
                (let reason = (if has_checkpoint then ''Max restore attempts (3) exceeded''
                               else ''Provider disconnected with no checkpoint'')
                 in seqE (fail_lost_job reason jid)
                    (seqE (okE (refund_consumer_escrow jid))
                    (seqE (okE (penalise_provider pid)) (retE ())))))"

definition select_stale :: "int \<Rightarrow> coord_db \<Rightarrow> provider_row list" where
  "select_stale now d = filter (\<lambda>p. p_state p = Some ''leased'' \<and>
     null_less (p_last_seen p) (Some (now - PROVIDER_TIMEOUT_SECS))) (providers d)"

definition mark_offline :: "string \<Rightarrow> (coord_db world, db_error, unit) prog" where
  "mark_offline pid = db_exec (\<lambda>now. on_providers (sql_update (\<lambda>p. p_provider_id p = pid)
     (\<lambda>p. Inr (p\<lparr>p_state := Some ''offline'', p_active_job_id := None\<rparr>))))"

definition check_stale_providers :: "(coord_db world, db_error, unit) prog" where
  "check_stale_providers =
     bindE (db_query (\<lambda>now d. Inr (select_stale now d))) (\<lambda>stale.
     forE stale (\<lambda>p.
       seqE (mark_offline (p_provider_id p))
       (case p_active_job_id p of
          None \<Rightarrow> retE ()
        | Some jid \<Rightarrow> migrate_or_fail_job jid (p_provider_id p))))"

section \<open>Eviction\<close>

definition is_silent :: "int \<Rightarrow> provider_row \<Rightarrow> bool" where
  "is_silent now p \<longleftrightarrow> p_state p \<in> {Some ''available'', Some ''leased''} \<and>
     null_less (p_last_seen p) (Some (now - 90))"

definition evict_stale_providers :: "(coord_db world, db_error, nat) prog" where
  "evict_stale_providers = db_stmt (\<lambda>now d.
     map_sum id (\<lambda>d'. (rows_affected (is_silent now) (providers d), d'))
       (on_providers (sql_update (is_silent now)
          (\<lambda>p. Inr (p\<lparr>p_state := Some ''offline'', p_active_job_id := None\<rparr>))) d))"

section \<open>The invariant\<close>

lemma assigned_row_key: "assigned_row pid price c now j = Inr j' \<Longrightarrow> j_job_id j' = j_job_id j"
  by (auto simp: assigned_row_def and_then_eq_Inr)

lemma penalty_row_key: "penalty_row p = Inr p' \<Longrightarrow> p_provider_id p' = p_provider_id p"
  by (auto simp: penalty_row_def and_then_eq_Inr)

lemma penalty_row_ok: "penalty_row p = Inr p' \<Longrightarrow> trust_ok p'"
  by (auto simp: penalty_row_def and_then_eq_Inr trust_ok_def dest: clamp_trust_range simp del: less_eq_f64.simps(2))

lemma keeps_assign_to_job [keeps_intro]: "keeps_db (assign_to_job jid pid price c)"
  unfolding assign_to_job_def
  by (rule keeps_db_exec) (auto split: if_splits elim!: inv_update_jobs dest: assigned_row_key)

lemma keeps_lease_provider [keeps_intro]: "keeps_db (lease_provider jid pid)"
  unfolding lease_provider_def
  by (rule keeps_db_exec) (erule inv_update_providers, auto simp: trust_ok_def)

lemma keeps_release_escrow_row [keeps_intro]: "keeps_db (release_escrow_row eid)"
  unfolding release_escrow_row_def by (rule keeps_db_exec) (erule inv_update_escrows, auto)

lemma keeps_credit_refund [keeps_intro]: "keeps_db (credit_refund cid m)"
  unfolding credit_refund_def by (rule keeps_db_exec) (erule inv_upsert_credits, simp, erule refund_row_key)

lemma keeps_requeue_job [keeps_intro]: "keeps_db (requeue_job jid)"
  unfolding requeue_job_def by (rule keeps_db_exec) (erule inv_update_jobs, auto)

lemma keeps_fail_lost_job [keeps_intro]: "keeps_db (fail_lost_job reason jid)"
  unfolding fail_lost_job_def by (rule keeps_db_exec) (erule inv_update_jobs, auto)

lemma keeps_penalise_provider [keeps_intro]: "keeps_db (penalise_provider pid)"
  unfolding penalise_provider_def
  by (rule keeps_db_exec) (erule inv_update_providers, auto intro: penalty_row_ok dest: penalty_row_key)

lemma keeps_mark_offline [keeps_intro]: "keeps_db (mark_offline pid)"
  unfolding mark_offline_def
  by (rule keeps_db_exec) (erule inv_update_providers, auto simp: trust_ok_def)

lemma keeps_evict [keeps_intro]: "keeps_db evict_stale_providers"
  unfolding evict_stale_providers_def
  by (rule keeps_db_stmt)
    (auto simp: map_sum_eq_Inr simp del: sql_update_total elim!: inv_update_providers simp: trust_ok_def)

lemma keeps_refund_consumer_escrow [keeps_intro]: "keeps_db (refund_consumer_escrow jid)"
  unfolding refund_consumer_escrow_def by (intro keeps_intro)

lemma keeps_migrate_or_fail_job [keeps_intro]: "keeps_db (migrate_or_fail_job jid pid)"
  unfolding migrate_or_fail_job_def by (intro keeps_intro)

lemma keeps_check_stale_providers [keeps_intro]: "keeps_db check_stale_providers"
  unfolding check_stale_providers_def by (intro keeps_intro)

lemma keeps_find_best_provider [keeps_intro]: "keeps_db (find_best_provider r p)"
  unfolding find_best_provider_def by (intro keeps_intro)

lemma keeps_auction_job [keeps_intro]: "keeps_db (auction_job nats j)"
  unfolding auction_job_def assign_job_def by (intro keeps_intro)

lemma keeps_run_auction_cycle [keeps_intro]: "keeps_db (run_auction_cycle nats)"
  unfolding run_auction_cycle_def by (intro keeps_intro)


section \<open>The choice of a provider\<close>

lemma max_by_in: "max_by gt xs = Some m \<Longrightarrow> m \<in> set xs"
  by (induction gt xs rule: max_by.induct) (auto split: if_splits)

lemma max_by_None [simp]: "max_by gt xs = None \<longleftrightarrow> xs = []"
  by (induction gt xs rule: max_by.induct) auto

lemma max_by_greatest:
  fixes k :: "'a \<Rightarrow> 'b::linorder"
  assumes "max_by gt xs = Some m" "\<And>a b. a \<in> set xs \<Longrightarrow> b \<in> set xs \<Longrightarrow> gt a b \<longleftrightarrow> k b < k a"
  shows "\<forall>x\<in>set xs. k x \<le> k m"
  using assms
proof (induction gt xs rule: max_by.induct)
  case (3 gt x y ys)
  let ?z = "if gt x y then x else y"
  have "\<forall>v\<in>set (?z # ys). k v \<le> k m"
    using "3.prems" by (intro "3.IH") auto
  moreover have "k x \<le> k ?z" "k y \<le> k ?z" using "3.prems"(2) [of x y] by auto
  ultimately show ?case by (auto split: if_splits)
qed auto

lemma f64_of_fin_pos: "rnd64 l = l \<Longrightarrow> rnd64 h = h \<Longrightarrow> 0 < l \<Longrightarrow> l \<le> q \<Longrightarrow> q \<le> h \<Longrightarrow> h \<le> 1 \<Longrightarrow>
    \<exists>u. f64_of q = Fin u \<and> 0 < u \<and> u \<le> 1"
  using f64_of_between [of l h q] by fastforce

lemma score_weights: "\<exists>u. f64_of (6 / 10) = Fin u \<and> 0 < u \<and> u \<le> 1" "\<exists>u. f64_of (4 / 10) = Fin u \<and> 0 < u \<and> u \<le> 1"
    "f64_of (1 / 2) = Fin (1 / 2)"
proof -
  have h: "rnd64 (1 / 2) = 1 / 2" "rnd64 (1 / 4) = 1 / 4"
    by (subst rnd64_eqI [where k = "- 1" and m = "2 ^ 52"]; simp) (subst rnd64_eqI [where k = "- 2" and m = "2 ^ 52"]; simp)
  then show "f64_of (1 / 2) = Fin (1 / 2)" by (simp add: f64_of_def)
  show "\<exists>u. f64_of (6 / 10) = Fin u \<and> 0 < u \<and> u \<le> 1" by (rule f64_of_fin_pos [of "1 / 2" 1]) (simp_all add: h)
  show "\<exists>u. f64_of (4 / 10) = Fin u \<and> 0 < u \<and> u \<le> 1" by (rule f64_of_fin_pos [of "1 / 4" 1]) (simp_all add: h)
qed

text \<open>The score of a provider with a finite price and a trust score in range is a number.\<close>

lemma simple_score_not_NaN:
  assumes "0 \<le> t" "t \<le> 5"
  shows "simple_score (Fin x) (Fin t) (Fin m) \<noteq> NaN"
proof -
  obtain u v where w: "f64_of (6 / 10) = Fin u" "0 < u" "f64_of (4 / 10) = Fin v" using score_weights by blast
  obtain r where r: "f64_of (t / 5) = Fin r" "0 \<le> r" "r \<le> 1"
    using f64_of_between [of 0 1 "t / 5"] assms by auto
  have vr: "\<exists>z. f64_of (v * r) = Fin z"
  proof -
    have "0 < v" "v \<le> 1" using score_weights(2) w(3) by auto
    then have "0 \<le> v * r" "v * r \<le> 1" using r(2,3) by (auto intro: mult_le_one)
    then show ?thesis using f64_of_between [of 0 1 "v * r"] by auto
  qed
  then obtain z where z: "f64_of (v * r) = Fin z" by blast
  have fin: "f64_add a (Fin z) \<noteq> NaN" if "a \<noteq> NaN" for a using that by (cases a) auto
  have m6: "f64_mul (Fin u) a \<noteq> NaN" if "a \<noteq> NaN" for a using that w(2) by (cases a) (auto simp: signed_inf_def)
  have sub: "f64_sub (Fin 1) a \<noteq> NaN" if "a \<noteq> NaN" for a using that by (cases a) (auto simp: f64_sub_def)
  have mn: "f64_min a (Fin 1) \<noteq> NaN" for a by (auto simp: f64_min_def min_def)
  show ?thesis
    using w r(1) z score_weights(3) by (simp add: simple_score_def Let_def fin m6 sub mn)
qed

lemma find_best_provider_run:
  assumes "wfaults w = []"
  shows "find_best_provider ram m w = (Inr (map_option p_provider_id (best_candidate m (select_candidates ram m (wdb w)))), w)"
  using assms by (auto simp: find_best_provider_def prog_simps best_candidate_def)

lemma select_candidates_sub:
  "set (select_candidates ram m d) \<subseteq> {p \<in> set (providers d). is_candidate ram m p}"
  using set_take_subset [of 20] by (fastforce simp: select_candidates_def)

lemma best_candidate_optimal:
  assumes "best_candidate m cs = Some p"
    and "\<forall>q\<in>set cs. provider_score m q \<noteq> NaN"
  shows "p \<in> set cs \<and> (\<forall>q\<in>set cs. f64_le (provider_score m q) (provider_score m p))"
proof -
  have "\<forall>x\<in>set cs. provider_score m x \<le> provider_score m p"
    using assms(2) by (intro max_by_greatest [OF assms(1) [unfolded best_candidate_def]]) (auto simp: f64_lt_def)
  moreover have "p \<in> set cs" by (rule max_by_in [OF assms(1) [unfolded best_candidate_def]])
  ultimately show ?thesis using assms(2) by (simp add: f64_le_def)
qed

definition finite_prices :: "coord_db \<Rightarrow> bool" where
  "finite_prices d \<longleftrightarrow> (\<forall>p\<in>set (providers d).
     (\<forall>x. p_floor_price p = Some x \<longrightarrow> (\<exists>q. x = Fin q)) \<and> (\<forall>t. p_trust_score p = Some t \<longrightarrow> (\<exists>q. t = Fin q)))"

lemma candidate_score:
  assumes "db_inv d" "finite_prices d" "p \<in> set (select_candidates ram (Fin m) d)"
  shows "provider_score (Fin m) p \<noteq> NaN"
proof -
  from assms(3) have p: "p \<in> set (providers d)" "is_candidate ram (Fin m) p" using select_candidates_sub by fastforce+
  then obtain x where x: "p_floor_price p = Some (Fin x)"
    using assms(2) by (fastforce simp: is_candidate_def finite_prices_def)
  have ok: "trust_ok p" using p(1) assms(1) by (simp add: db_inv_def trust_inv_def)
  show ?thesis
  proof (cases "p_trust_score p")
    case None
    then show ?thesis using x by (simp add: provider_score_def simple_score_not_NaN)
  next
    case (Some t)
    then obtain q where "t = Fin q" using p(1) assms(2) unfolding finite_prices_def by blast
    with Some ok x show ?thesis using simple_score_not_NaN [of q x m] by (simp add: provider_score_def trust_ok_def)
  qed
qed

text \<open>C11: The matching engine picks a best admissible provider: when it answers a provider, that
  provider is available, has the memory and a floor price within the job's maximum, and no other
  candidate (of the twenty cheapest) scores higher; it answers none only when there is no
  candidate, and it changes nothing.\<close>

theorem find_best_provider_optimal:
  assumes "wfaults w = []" "db_inv (wdb w)" "finite_prices (wdb w)"
  shows "\<exists>best. find_best_provider ram (Fin m) w = (Inr best, w) \<and>
     (best = None \<longrightarrow> (\<forall>p\<in>set (providers (wdb w)). \<not> is_candidate ram (Fin m) p)) \<and>
     (\<forall>pid. best = Some pid \<longrightarrow> (\<exists>p\<in>set (providers (wdb w)). p_provider_id p = pid \<and> is_candidate ram (Fin m) p \<and>
        (\<forall>q\<in>set (select_candidates ram (Fin m) (wdb w)).
           f64_le (provider_score (Fin m) q) (provider_score (Fin m) p))))"
proof -
  let ?cs = "select_candidates ram (Fin m) (wdb w)"
  have score: "\<forall>q\<in>set ?cs. provider_score (Fin m) q \<noteq> NaN" using candidate_score [OF assms(2,3)] by blast
  have none: "best_candidate (Fin m) ?cs = None \<Longrightarrow> \<forall>p\<in>set (providers (wdb w)). \<not> is_candidate ram (Fin m) p"
    by (auto simp: best_candidate_def select_candidates_def filter_empty_conv)
  show ?thesis
  proof (cases "best_candidate (Fin m) ?cs")
    case None
    then show ?thesis using find_best_provider_run [OF assms(1)] none by auto
  next
    case (Some p)
    from best_candidate_optimal [OF Some score] have "p \<in> set ?cs"
      "\<forall>q\<in>set ?cs. f64_le (provider_score (Fin m) q) (provider_score (Fin m) p)" by auto
    moreover have "p \<in> set (providers (wdb w)) \<and> is_candidate ram (Fin m) p" using calculation(1) select_candidates_sub by fastforce
    ultimately show ?thesis using find_best_provider_run [OF assms(1)] Some by auto
  qed
qed

section \<open>The auction\<close>

lemma auction_job_cases:
  assumes "wfaults w = []"
  shows "(\<exists>r. auction_job nats job w = (r, w)) \<or>
    (\<exists>p js. p \<in> set (providers (wdb w)) \<and>
       is_candidate (as_u32 (unwrap_or 0 (j_min_ram_gb job))) (unwrap_or F64_MAX (j_max_price job)) p \<and>
       sql_update (\<lambda>r. j_job_id r = j_job_id job) (assigned_row (p_provider_id p)
           (unwrap_or (f64_of (1 / 10)) (j_max_price job)) (j_checkpoint_url job) (wnow w)) (jobs (wdb w)) = Inr js \<and>
       auction_job nats job w = (Inr (), w\<lparr>wdb := (wdb w)\<lparr>jobs := js,
         providers := map (\<lambda>q. if p_provider_id q = p_provider_id p
             then q\<lparr>p_state := Some ''leased'', p_active_job_id := Some (j_job_id job)\<rparr> else q) (providers (wdb w))\<rparr>\<rparr>))"
proof -
  let ?ram = "as_u32 (unwrap_or 0 (j_min_ram_gb job))" and ?max = "unwrap_or F64_MAX (j_max_price job)"
  let ?cs = "select_candidates ?ram ?max (wdb w)"
  note find = find_best_provider_run [OF assms, of ?ram ?max]
  show ?thesis
  proof (cases "best_candidate ?max ?cs")
    case None
    then show ?thesis using find by (simp add: auction_job_def matchE_run retE_run)
  next
    case (Some p)
    then have p: "p \<in> set ?cs" by (auto simp: best_candidate_def dest: max_by_in)
    then have p': "p \<in> set (providers (wdb w))" "is_candidate ?ram ?max p" using select_candidates_sub by fastforce+
    let ?f = "assigned_row (p_provider_id p) (unwrap_or (f64_of (1 / 10)) (j_max_price job)) (j_checkpoint_url job) (wnow w)"
    show ?thesis
    proof (cases "sql_update (\<lambda>r. j_job_id r = j_job_id job) ?f (jobs (wdb w))")
      case (Inl e)
      with find Some p'(1) assms show ?thesis
        by (simp add: auction_job_def prog_simps assign_job_def assign_to_job_def on_jobs_def)
    next
      case (Inr js)
      with find Some p'(1) assms
      have "auction_job nats job w = (Inr (), w\<lparr>wdb := (wdb w)\<lparr>jobs := js,
         providers := map (\<lambda>q. if p_provider_id q = p_provider_id p
             then q\<lparr>p_state := Some ''leased'', p_active_job_id := Some (j_job_id job)\<rparr> else q) (providers (wdb w))\<rparr>\<rparr>)"
        by (simp add: auction_job_def prog_simps assign_job_def assign_to_job_def lease_provider_def on_jobs_def on_providers_def)
      with Inr p' show ?thesis by blast
    qed
  qed
qed

text \<open>A job that went from queued to assigned is held by a leased provider that holds it.\<close>

definition leases_match :: "coord_db \<Rightarrow> coord_db \<Rightarrow> bool" where
  "leases_match d0 d \<longleftrightarrow> (\<forall>jid j j'. job_of d0 jid = Some j \<longrightarrow> j_state j = Some ''queued'' \<longrightarrow>
     job_of d jid = Some j' \<longrightarrow> j_state j' = Some ''assigned'' \<longrightarrow>
     (\<exists>pid p. j_provider_id j' = Some pid \<and> provider_of d pid = Some p \<and>
        p_state p = Some ''leased'' \<and> p_active_job_id p = Some jid))"

lemma leases_match_step:
  assumes "leases_match d0 d" "keys_distinct p_provider_id (providers d)"
    and "p \<in> set (providers d)" "p_state p = Some ''available''"
    and "sql_update (\<lambda>r. j_job_id r = jid) (assigned_row (p_provider_id p) price c now) (jobs d) = Inr js"
  shows "leases_match d0 (d\<lparr>jobs := js, providers := map (\<lambda>q. if p_provider_id q = p_provider_id p
             then q\<lparr>p_state := Some ''leased'', p_active_job_id := Some jid\<rparr> else q) (providers d)\<rparr>)"
proof -
  let ?g = "\<lambda>q. if p_provider_id q = p_provider_id p
             then q\<lparr>p_state := Some ''leased'', p_active_job_id := Some jid\<rparr> else q"
  let ?f = "assigned_row (p_provider_id p) price c now"
  have look: "sql_first (\<lambda>r. j_job_id r = k) js = (if k = jid then map_option (\<lambda>r. projr (?f r)) (job_of d jid) else job_of d k)" for k
    by (rule sql_update_lookup [OF assms(5) assigned_row_key])
  have pro: "sql_first (\<lambda>q. p_provider_id q = k) (map ?g (providers d)) = map_option ?g (provider_of d k)" for k
    by (rule sql_first_map) simp
  have "provider_of d (p_provider_id p) \<noteq> None" using assms(3) by (auto simp: sql_first_None_iff)
  then have pp: "provider_of d (p_provider_id p) = Some p" using keys_distinct_unique [OF assms(2) _ assms(3) refl] by auto
  show ?thesis
    unfolding leases_match_def
  proof (intro allI impI)
    fix k j j'
    assume j: "job_of d0 k = Some j" "j_state j = Some ''queued''"
      "job_of (d\<lparr>jobs := js, providers := map ?g (providers d)\<rparr>) k = Some j'" "j_state j' = Some ''assigned''"
    show "\<exists>pid q. j_provider_id j' = Some pid \<and> provider_of (d\<lparr>jobs := js, providers := map ?g (providers d)\<rparr>) pid = Some q \<and>
        p_state q = Some ''leased'' \<and> p_active_job_id q = Some k"
    proof (cases "k = jid")
      case True
      with j(3) obtain j0 where j0: "job_of d jid = Some j0" "j' = projr (?f j0)" using look [of k] by (cases "job_of d jid") auto
      then obtain j1 where "?f j0 = Inr j1" using sql_update_hit_ok [OF assms(5)] by blast
      then have "j_provider_id j' = Some (p_provider_id p)" using j0(2) by (auto simp: assigned_row_def and_then_eq_Inr)
      with True pp pro show ?thesis by simp
    next
      case False
      with j(3) have "job_of d k = Some j'" using look [of k] by simp
      with assms(1) j(1,2,4) obtain pid q where q: "j_provider_id j' = Some pid" "provider_of d pid = Some q"
        "p_state q = Some ''leased''" "p_active_job_id q = Some k"
        unfolding leases_match_def by blast
      then have "pid \<noteq> p_provider_id p" using pp assms(4) by auto
      with q pro sql_first_key [OF q(2)] show ?thesis by auto
    qed
  qed
qed

text \<open>C12: A cycle of the auction never books a provider twice: starting from any database, every job
  that the cycle takes from \<open>queued\<close> to \<open>assigned\<close> names a provider that is now leased and whose
  active job is this one, so two jobs assigned in one cycle have different providers.\<close>

theorem auction_cycle_leases:
  assumes "wfaults w = []" "db_inv (wdb w)" "run_auction_cycle nats w = (r, w')"
    and "job_of (wdb w) jid = Some j" "j_state j = Some ''queued''"
    and "job_of (wdb w') jid = Some j'" "j_state j' = Some ''assigned''"
  shows "\<exists>pid p. j_provider_id j' = Some pid \<and> provider_of (wdb w') pid = Some p \<and>
     p_state p = Some ''leased'' \<and> p_active_job_id p = Some jid"
proof -
  let ?Q = "\<lambda>v. wfaults v = [] \<and> db_inv (wdb v) \<and> leases_match (wdb w) (wdb v)"
  have step: "keeps ?Q (auction_job nats job)" for job
  proof (rule keepsI)
    fix v :: "coord_db world"
    assume Q: "?Q v"
    have inv: "db_inv (wdb (snd (auction_job nats job v)))" using Q by (intro keepsD [OF keeps_auction_job]) simp
    have kd: "keys_distinct p_provider_id (providers (wdb v))" using Q by (simp add: db_inv_def pk_inv_def)
    have "wfaults v = []" using Q by simp
    from Q auction_job_cases [OF this, of nats job] show "?Q (snd (auction_job nats job v))"
    proof (elim conjE disjE exE)
      fix x assume "auction_job nats job v = (x, v)"
      with Q show ?thesis by simp
    next
      fix p js
      assume a: "p \<in> set (providers (wdb v))"
         "is_candidate (as_u32 (unwrap_or 0 (j_min_ram_gb job))) (unwrap_or F64_MAX (j_max_price job)) p"
         "sql_update (\<lambda>r. j_job_id r = j_job_id job) (assigned_row (p_provider_id p)
           (unwrap_or (f64_of (1 / 10)) (j_max_price job)) (j_checkpoint_url job) (wnow v)) (jobs (wdb v)) = Inr js"
        and run: "auction_job nats job v = (Inr (), v\<lparr>wdb := (wdb v)\<lparr>jobs := js,
         providers := map (\<lambda>q. if p_provider_id q = p_provider_id p
             then q\<lparr>p_state := Some ''leased'', p_active_job_id := Some (j_job_id job)\<rparr> else q) (providers (wdb v))\<rparr>\<rparr>)"
      have "p_state p = Some ''available''" using a(2) by (simp add: is_candidate_def)
      from leases_match_step [OF _ kd a(1) this a(3)] Q inv show ?thesis unfolding run by simp
    qed
  qed
  have start: "?Q w" using assms(1,2) by (auto simp: leases_match_def)
  have "w' = snd (forE (select_queued (wdb w)) (auction_job nats) w)"
    using assms(1,3) by (simp add: run_auction_cycle_def prog_simps)
  then have "leases_match (wdb w) (wdb w')"
    using keepsD [OF keeps_forE [OF step] start, of "select_queued (wdb w)"] by simp
  then show ?thesis using assms(4-7) unfolding leases_match_def by blast
qed

section \<open>A lost provider\<close>

lemma refund_consumer_escrow_run:
  assumes nf: "wfaults w = []" and inv: "db_inv (wdb w)"
    and e: "locked_escrow jid (wdb w) = Some x" "e_locked_nmc x = Fin m"
    and c: "credit_of (wdb w) (e_consumer_id x) = Some c" "c_available c = Some (Fin a)" "c_escrowed c = Some (Fin e)"
    and fin: "f64_of (a + m) = Fin a'" "f64_of (e - m) = Fin e'"
    and fresh: "sql_first (\<lambda>t. t_tx_id t = wids w (widn w)) (txs (wdb w)) = None"
  shows "\<exists>w' t. refund_consumer_escrow jid w = (Inr (), w') \<and> wfaults w' = [] \<and> wnow w' = wnow w \<and> db_inv (wdb w') \<and>
     credit_of (wdb w') (e_consumer_id x) = Some (c\<lparr>c_available := Some (Fin a'),
       c_escrowed := Some (max (Fin 0) (Fin e')), c_updated_at := Some (wnow w)\<rparr>) \<and>
     (\<forall>k. k \<noteq> e_consumer_id x \<longrightarrow> credit_of (wdb w') k = credit_of (wdb w) k) \<and>
     jobs (wdb w') = jobs (wdb w) \<and> providers (wdb w') = providers (wdb w) \<and>
     escrows (wdb w') = map (\<lambda>y. if e_escrow_id y = e_escrow_id x
        then y\<lparr>e_state := Some ''released'', e_settled_at := Some (wnow w)\<rparr> else y) (escrows (wdb w)) \<and>
     txs (wdb w') = txs (wdb w) @ [t] \<and> t_tx_type t = ''escrow_release'' \<and> t_amount t = Fin m \<and>
     t_account_id t = e_consumer_id x \<and> t_reference t = Some jid"
proof -
  let ?cid = "e_consumer_id x"
  have kd: "keys_distinct c_account_id (credits (wdb w))" using inv by (simp add: db_inv_def pk_inv_def)
  obtain t where t: "sql_update (\<lambda>r. c_account_id r = ?cid) (refund_row (Some (Fin m)) (wnow w)) (credits (wdb w)) = Inr t"
    "sql_first (\<lambda>r. c_account_id r = ?cid) t = Some (c\<lparr>c_available := Some (Fin a'),
       c_escrowed := Some (max (Fin 0) (Fin e')), c_updated_at := Some (wnow w)\<rparr>)"
    "\<forall>k. k \<noteq> ?cid \<longrightarrow> sql_first (\<lambda>r. c_account_id r = k) t = credit_of (wdb w) k"
    using credits_tbl.modify_hit [where f = "refund_row (Some (Fin m)) (wnow w)", OF kd c(1) refund_row_Fin [OF c(2,3) fin]]
    by auto
  have k: "c_account_id ((new_credit_row ?cid now)\<lparr>c_available := y\<rparr>) = ?cid" for now y by (simp add: new_credit_row_def)
  have ups: "sql_upsert c_account_id ((new_credit_row ?cid (wnow w))\<lparr>c_available := Some (Fin m)\<rparr>)
      (refund_row (Some (Fin m)) (wnow w)) (credits (wdb w)) = Inr t"
    using sql_upsert_hit [of c_account_id "(new_credit_row ?cid (wnow w))\<lparr>c_available := Some (Fin m)\<rparr>"] c(1) t(1)
    by (simp add: k)
  have inv': "db_inv (wdb (snd (refund_consumer_escrow jid w)))" by (rule keepsD [OF keeps_refund_consumer_escrow inv])
  show ?thesis
    using nf e ups t(2,3) fresh inv'
    by (auto simp: refund_consumer_escrow_def prog_simps release_escrow_row_def credit_refund_def insert_tx_def
        on_table_defs sql_insert_new)
qed

lemma job_update_lookup:
  "(\<And>r. j_job_id (g r) = j_job_id r) \<Longrightarrow>
   sql_first (\<lambda>r. j_job_id r = jid) (map (\<lambda>r. if j_job_id r = jid then g r else r) t) =
     map_option g (sql_first (\<lambda>r. j_job_id r = jid) t)"
  by (induction t) auto

text \<open>C13: A job whose provider vanished without a checkpoint to resume from, or after three restores, ends
  \<open>failed\<close>, and its consumer gets exactly this job's lock back, once: the locked escrow is released,
  the refund is logged as one \<open>escrow_release\<close> of that amount for that consumer, and a second report of the lost provider
  changes nothing, so that the log has it once.\<close>

theorem lost_job_refunded_once:
  assumes "wfaults w = []" "db_inv (wdb w)"
    and "job_of (wdb w) jid = Some j" "j_state j \<in> {Some ''running'', Some ''assigned''}"
    and "j_checkpoint_url j = None \<or> MAX_RESTORE_ATTEMPTS \<le> unwrap_or 0 (j_restore_attempts j)"
    and "locked_escrow jid (wdb w) = Some x" "e_locked_nmc x = Fin m"
    and "credit_of (wdb w) (e_consumer_id x) = Some c" "c_available c = Some (Fin a)" "c_escrowed c = Some (Fin e)"
    and "f64_of (a + m) = Fin a'" "f64_of (e - m) = Fin e'"
    and "sql_first (\<lambda>t. t_tx_id t = wids w (widn w)) (txs (wdb w)) = None"
  shows "\<exists>w' j'. migrate_or_fail_job jid pid w = (Inr (), w') \<and> job_of (wdb w') jid = Some j' \<and>
     j_state j' = Some ''failed'' \<and>
     credit_of (wdb w') (e_consumer_id x) = Some (c\<lparr>c_available := Some (Fin a'),
       c_escrowed := Some (max (Fin 0) (Fin e')), c_updated_at := Some (wnow w)\<rparr>) \<and>
     (\<forall>k. k \<noteq> e_consumer_id x \<longrightarrow> credit_of (wdb w') k = credit_of (wdb w) k) \<and>
     (\<forall>y\<in>set (escrows (wdb w')). e_escrow_id y = e_escrow_id x \<longrightarrow> e_state y = Some ''released'') \<and>
     (\<exists>t. txs (wdb w') = txs (wdb w) @ [t] \<and> t_tx_type t = ''escrow_release'' \<and> t_amount t = Fin m \<and>
        t_account_id t = e_consumer_id x \<and> t_reference t = Some jid) \<and>
     migrate_or_fail_job jid pid w' = (Inr (), w')"
proof -
  define reason where "reason = (if j_checkpoint_url j \<noteq> None then ''Max restore attempts (3) exceeded''
      else ''Provider disconnected with no checkpoint'')"
  let ?g = "\<lambda>r. r\<lparr>j_state := Some ''failed'', j_completed_at := Some (wnow w), j_failure_reason := Some reason\<rparr>"
  let ?js = "map (\<lambda>r. if j_job_id r = jid then ?g r else r) (jobs (wdb w))"
  let ?w1 = "w\<lparr>wdb := (wdb w)\<lparr>jobs := ?js\<rparr>\<rparr>"
  have fail: "fail_lost_job reason jid w = (Inr (), ?w1)"
    using assms(1) by (simp add: fail_lost_job_def prog_simps on_jobs_def)
  have inv1: "db_inv (wdb ?w1)"
    using keepsD [OF keeps_fail_lost_job assms(2), of reason jid] fail by simp
  have esc: "locked_escrow jid (wdb ?w1) = Some x" using assms(6) by (simp add: locked_escrow_def)
  obtain w2 t where r: "refund_consumer_escrow jid ?w1 = (Inr (), w2)" "wfaults w2 = []" "db_inv (wdb w2)"
    "credit_of (wdb w2) (e_consumer_id x) = Some (c\<lparr>c_available := Some (Fin a'),
       c_escrowed := Some (max (Fin 0) (Fin e')), c_updated_at := Some (wnow w)\<rparr>)"
    "\<forall>k. k \<noteq> e_consumer_id x \<longrightarrow> credit_of (wdb w2) k = credit_of (wdb w) k" "jobs (wdb w2) = ?js"
    "escrows (wdb w2) = map (\<lambda>y. if e_escrow_id y = e_escrow_id x
        then y\<lparr>e_state := Some ''released'', e_settled_at := Some (wnow w)\<rparr> else y) (escrows (wdb w))"
    "txs (wdb w2) = txs (wdb w) @ [t]" "t_tx_type t = ''escrow_release''" "t_amount t = Fin m" "t_account_id t = e_consumer_id x" "t_reference t = Some jid"
    using refund_consumer_escrow_run [of ?w1 jid x m c a e a' e'] assms(1,7-13) inv1 esc by auto
  obtain v u where pen: "(okE (penalise_provider pid) :: (coord_db world, db_error, unit option) prog) w2 = (Inr v, w2\<lparr>wdb := (wdb w2)\<lparr>providers := u\<rparr>\<rparr>)"
  proof (cases "sql_update (\<lambda>p. p_provider_id p = pid) penalty_row (providers (wdb w2))")
    case (Inl e)
    then have "okE (penalise_provider pid) w2 = (Inr None, w2\<lparr>wdb := (wdb w2)\<lparr>providers := providers (wdb w2)\<rparr>\<rparr>)"
      using r(2) by (simp add: penalise_provider_def prog_simps on_providers_def)
    then show ?thesis by (rule that)
  next
    case (Inr u)
    then have "okE (penalise_provider pid) w2 = (Inr (Some ()), w2\<lparr>wdb := (wdb w2)\<lparr>providers := u\<rparr>\<rparr>)"
      using r(2) by (simp add: penalise_provider_def prog_simps on_providers_def)
    then show ?thesis by (rule that)
  qed
  let ?w3 = "w2\<lparr>wdb := (wdb w2)\<lparr>providers := u\<rparr>\<rparr>"
  have guard: "\<not> (j_checkpoint_url j \<noteq> None \<and> unwrap_or 0 (j_restore_attempts j) < MAX_RESTORE_ATTEMPTS)"
    using assms(5) by auto
  have okr: "okE (refund_consumer_escrow jid) ?w1 = (Inr (Some ()), w2)" using r(1) by (simp add: okE_run)
  have unf: "migrate_or_fail_job jid pid w = seqE (fail_lost_job reason jid)
      (seqE (okE (refund_consumer_escrow jid)) (seqE (okE (penalise_provider pid)) (retE ()))) w"
    using assms(1,3,4) guard
    by (auto simp: migrate_or_fail_job_def bindE_run db_query_run reason_def)
  have run: "migrate_or_fail_job jid pid w = (Inr (), ?w3)"
    unfolding unf by (simp only: seqE_run fail okr pen retE_run prod.case sum.case)
  have j': "job_of (wdb ?w3) jid = Some (?g j)"
    using r(6) assms(3) job_update_lookup [of ?g jid "jobs (wdb w)"] by simp
  have "migrate_or_fail_job jid pid ?w3 = (Inr (), ?w3)"
    using j' r(2) by (simp add: migrate_or_fail_job_def prog_simps)
  with run j' r(4,5,7-12) show ?thesis by auto
qed

text \<open>A job whose provider vanished is given another chance when it has a checkpoint and fewer
  than three restores: it goes back to the queue without a provider, nothing is refunded and its
  escrow stays locked.\<close>

theorem lost_job_requeued:
  assumes "wfaults w = []" "job_of (wdb w) jid = Some j" "j_state j \<in> {Some ''running'', Some ''assigned''}"
    and "j_checkpoint_url j = Some url" "unwrap_or 0 (j_restore_attempts j) < MAX_RESTORE_ATTEMPTS"
  shows "\<exists>w'. migrate_or_fail_job jid pid w = (Inr (), w') \<and>
     job_of (wdb w') jid = Some (j\<lparr>j_state := Some ''queued'', j_provider_id := None,
        j_failure_reason := Some ''provider_disconnect_checkpoint_restore''\<rparr>) \<and>
     credits (wdb w') = credits (wdb w) \<and> escrows (wdb w') = escrows (wdb w)"
  using assms job_update_lookup [of "\<lambda>r. r\<lparr>j_state := Some ''queued'', j_provider_id := None,
        j_failure_reason := Some ''provider_disconnect_checkpoint_restore''\<rparr>" jid "jobs (wdb w)"]
  by (auto simp: migrate_or_fail_job_def prog_simps requeue_job_def on_jobs_def)

text \<open>C18: The eviction hides lost jobs from the watcher. A pass of the eviction (90 seconds of silence) takes every available or leased
  provider that has been silent so long offline and clears its active job, and touches no other provider and no job; among them is every
  provider that the watcher would find (leased, 120 seconds). So the watcher's next pass, at the same time, does nothing, and the
  jobs of the lost providers keep their state.\<close>

theorem eviction_blinds_watcher:
  assumes "wfaults w = []"
  shows "\<exists>n w1. evict_stale_providers w = (Inr n, w1) \<and> n = length (filter (is_silent (wnow w)) (providers (wdb w))) \<and>
     providers (wdb w1) = map (\<lambda>p. if is_silent (wnow w) p then p\<lparr>p_state := Some ''offline'', p_active_job_id := None\<rparr> else p) (providers (wdb w)) \<and>
     (\<forall>p\<in>set (select_stale (wnow w) (wdb w)). is_silent (wnow w) p) \<and>
     check_stale_providers w1 = (Inr (), w1) \<and> jobs (wdb w1) = jobs (wdb w)"
proof -
  let ?g = "\<lambda>p. if is_silent (wnow w) p then p\<lparr>p_state := Some ''offline'', p_active_job_id := None\<rparr> else p"
  let ?w1 = "w\<lparr>wdb := (wdb w)\<lparr>providers := map ?g (providers (wdb w))\<rparr>\<rparr>"
  have "evict_stale_providers w = (Inr (rows_affected (is_silent (wnow w)) (providers (wdb w))), ?w1)"
    using assms by (simp add: evict_stale_providers_def prog_simps on_providers_def)
  moreover have "select_stale (wnow w) (wdb ?w1) = []"
    by (auto simp: select_stale_def is_silent_def PROVIDER_TIMEOUT_SECS_def filter_empty_conv null_less_def
        split: option.splits)
  then have "check_stale_providers ?w1 = (Inr (), ?w1)"
    using assms by (simp add: check_stale_providers_def prog_simps)
  moreover have "\<forall>p\<in>set (select_stale (wnow w) (wdb w)). is_silent (wnow w) p"
    by (auto simp: select_stale_def is_silent_def PROVIDER_TIMEOUT_SECS_def)
  ultimately show ?thesis by (auto simp: rows_affected_def)
qed

text \<open>A concrete market: one provider, one queued job.\<close>

definition market_provider :: provider_row where
  "market_provider = (new_provider_row ''prov'' 900)\<lparr>p_state := Some ''available'', p_max_job_ram_gb := Some 32,
     p_floor_price := Some (Fin 1)\<rparr>"

definition market_job :: job_row where
  "market_job = (new_job_row ''job'' ''cons'' 900)\<lparr>j_min_ram_gb := Some 16, j_max_price := Some (Fin 2)\<rparr>"

definition market_db :: coord_db where
  "market_db = empty_db\<lparr>providers := [market_provider], jobs := [market_job]\<rparr>"

lemmas market_defs = market_db_def market_provider_def market_job_def empty_db_def new_provider_row_def new_job_row_def

lemma market_facts:
  "db_inv market_db" "finite_prices market_db" "job_of market_db ''job'' = Some market_job"
  "j_state market_job = Some ''queued''" "is_candidate 16 (Fin 2) market_provider" "market_provider \<in> set (providers market_db)"
  by (auto simp: market_defs db_inv_def pk_inv_def trust_inv_def trust_ok_def keys_distinct_def finite_prices_def
      is_candidate_def i32_range_def)

theorem find_best_provider_optimal_witness:
  "\<exists>best. find_best_provider 16 (Fin 2) (world_at market_db) = (Inr best, world_at market_db) \<and> best \<noteq> None"
  using find_best_provider_optimal [where w = "world_at market_db" and ram = 16 and m = 2] market_facts by fastforce

theorem auction_cycle_leases_witness:
  "\<exists>w'. run_auction_cycle False (world_at market_db) = (Inr (), w') \<and>
     (\<exists>pid p j'. job_of (wdb w') ''job'' = Some j' \<and> j_provider_id j' = Some pid \<and> provider_of (wdb w') pid = Some p \<and>
        p_state p = Some ''leased'' \<and> p_active_job_id p = Some ''job'')"
proof -
  have q: "select_queued market_db = [market_job]"
    by (simp add: select_queued_def market_defs order_asc_def)
  have c: "select_candidates 16 (Fin 2) market_db = [market_provider]"
    by (simp add: select_candidates_def is_candidate_def market_defs order_asc_def i32_range_def)
  obtain w' j' where w': "run_auction_cycle False (world_at market_db) = (Inr (), w')"
    "job_of (wdb w') ''job'' = Some j'" "j_state j' = Some ''assigned''"
  proof -
    have "find_best_provider 16 (Fin 2) (world_at market_db) = (Inr (Some ''prov''), world_at market_db)"
      using find_best_provider_run [of "world_at market_db" 16 "Fin 2"] c
      by (simp add: best_candidate_def) (simp add: market_provider_def new_provider_row_def)
    moreover have "j_min_ram_gb market_job = Some 16" "j_max_price market_job = Some (Fin 2)" "j_job_id market_job = ''job''"
      "j_checkpoint_url market_job = None"
      by (simp_all add: market_job_def new_job_row_def)
    moreover have "fk p_provider_id (providers market_db) (Some ''prov'')"
      by (simp add: market_defs)
    moreover obtain js where "sql_update (\<lambda>r. j_job_id r = ''job'') (assigned_row ''prov'' (Fin 2) None 1000) (jobs market_db) = Inr js"
       "sql_first (\<lambda>r. j_job_id r = ''job'') js = Some (market_job\<lparr>j_state := Some ''assigned'', j_provider_id := Some ''prov'',
          j_price := Some (Fin 2), j_started_at := Some 1000, j_restore_attempts := Some 0\<rparr>)"
      by (simp add: market_defs sql_update_def assigned_row_def int4_add_def i32_range_def)
    ultimately show ?thesis
      using that by (simp add: run_auction_cycle_def auction_job_def assign_job_def assign_to_job_def lease_provider_def
        prog_simps q on_jobs_def on_providers_def)
  qed
  from auction_cycle_leases [OF _ _ w'(1) _ _ w'(2,3)] market_facts w' show ?thesis by auto
qed

theorem lost_job_refunded_once_witness:
  "\<exists>w' c'. migrate_or_fail_job ''job'' ''prov'' (world_at lease_db) = (Inr (), w') \<and>
     credit_of (wdb w') ''cons'' = Some c' \<and> c_available c' = Some (Fin 14) \<and> c_escrowed c' = Some (Fin 0) \<and>
     map t_amount (txs (wdb w')) = [Fin 4] \<and> migrate_or_fail_job ''job'' ''prov'' w' = (Inr (), w')"
proof -
  have f: "j_state demo_job \<in> {Some ''running'', Some ''assigned''}" "j_checkpoint_url demo_job = None"
    by (simp_all add: demo_job_def new_job_row_def)
  show ?thesis
    using lost_job_refunded_once [where w = "world_at lease_db" and jid = "''job''" and pid = "''prov''" and j = demo_job
       and x = "new_escrow_row ''e1'' (Some ''job'') ''cons'' (Fin 4)" and m = 4 and c = demo_consumer and a = 10 and e = 4
       and a' = 14 and e' = 0] f by auto
qed

theorem lost_job_requeued_witness:
  "\<exists>w' j'. migrate_or_fail_job ''job'' ''prov'' (world_at (lease_db\<lparr>jobs := [demo_job\<lparr>j_checkpoint_url := Some ''file:///c''\<rparr>]\<rparr>)) =
       (Inr (), w') \<and> job_of (wdb w') ''job'' = Some j' \<and> j_state j' = Some ''queued'' \<and> credits (wdb w') = credits lease_db"
proof -
  let ?w = "world_at (lease_db\<lparr>jobs := [demo_job\<lparr>j_checkpoint_url := Some ''file:///c''\<rparr>]\<rparr>)"
  let ?j = "demo_job\<lparr>j_checkpoint_url := Some ''file:///c''\<rparr>"
  have f: "job_of (wdb ?w) ''job'' = Some ?j" "j_state ?j \<in> {Some ''running'', Some ''assigned''}"
    "j_checkpoint_url ?j = Some ''file:///c''" "unwrap_or 0 (j_restore_attempts ?j) < MAX_RESTORE_ATTEMPTS"
    by (simp_all add: demo_job_def new_job_row_def MAX_RESTORE_ATTEMPTS_def)
  from lost_job_requeued [OF _ f] show ?thesis by fastforce
qed

theorem eviction_blinds_watcher_witness:
  "\<exists>w1. evict_stale_providers (world_at (lease_db\<lparr>providers := [demo_provider\<lparr>p_last_seen := Some 800\<rparr>]\<rparr>)) = (Inr 1, w1) \<and>
     map p_active_job_id (providers (wdb w1)) = [None] \<and> check_stale_providers w1 = (Inr (), w1) \<and> jobs (wdb w1) = [demo_job]"
proof -
  let ?p = "demo_provider\<lparr>p_last_seen := Some 800\<rparr>"
  have silent: "is_silent 1000 ?p" by (simp add: is_silent_def demo_lease_defs null_less_def)
  show ?thesis
    using eviction_blinds_watcher [where w = "world_at (lease_db\<lparr>providers := [?p]\<rparr>)"] silent
    by (auto simp: lease_db_def)
qed

end
