(* ===== verification/Rest_Accounts.thy ===== *)
theory Rest_Accounts
  imports Rest_Jobs
begin

text \<open>
  Identity in \<open>coordinator/src/api/rest.rs\<close>: KYC records, device-bound accounts and the
  network statistics. SHA-256 and the hexadecimal encoding are libraries the code calls; they
  are parameters (\<open>sha\<close>, \<open>hex\<close>) of the definitions that use them.
\<close>

section \<open>KYC\<close>

definition kyc_of :: "coord_db \<Rightarrow> string \<Rightarrow> kyc_row option" where
  "kyc_of d aid = sql_first (\<lambda>k. k_account_id k = aid) (kycs d)"

definition kyc_status :: "kyc_row \<Rightarrow> string" where
  "kyc_status k =
     (if k_archived k then ''rejected'' else if k_verified_at k \<noteq> None then ''approved'' else ''pending'')"

definition get_kyc :: "string \<Rightarrow> json handler" where
  "get_kyc aid =
     bindE (map_errE ise (db_query (\<lambda>_ d. Inr (kyc_of d aid)))) (\<lambda>kyc.
     case kyc of
       Some k \<Rightarrow> retE (JObj
         [(''account_id'', JStr (k_account_id k)),
          (''status'', JStr (kyc_status k)),
          (''compliance_level'', JInt (k_kyc_level k)),
          (''full_name'', JStr (k_full_name k)),
          (''id_type'', JStr (k_id_type k)),
          (''country'', JStr (k_country_code k)),
          (''annual_limit_myr'', JNum (k_annual_limit_myr k)),
          (''submitted_at'', JTime (k_submitted_at k)),
          (''approved_at'', j_opt JTime (k_verified_at k))])
     | None \<Rightarrow> retE (JObj
         [(''account_id'', JStr aid), (''status'', JStr ''not_submitted''), (''compliance_level'', JInt 0)]))"

record kyc_submit_body =
  ks_account_id :: string
  ks_full_name :: string
  ks_id_type :: string
  ks_id_number :: string
  ks_country :: string

text \<open>A \<open>CHAR(2)\<close> column pads a shorter text with blanks.\<close>

definition char2 :: "string \<Rightarrow> string" where
  "char2 s = s @ replicate (2 - length (filter (\<lambda>c. \<not> is_cont_byte c) s)) (CHR '' '')"

definition kyc_insert_row :: "kyc_submit_body \<Rightarrow> string \<Rightarrow> string \<Rightarrow> int \<Rightarrow> kyc_row" where
  "kyc_insert_row b id_hash country now =
     \<lparr>k_account_id = ks_account_id b, k_country_code = char2 country, k_full_name = ks_full_name b,
      k_id_type = ks_id_type b, k_id_number_hash = id_hash, k_kyc_level = 1, k_annual_limit_myr = 5000,
      k_acknowledged_terms = True, k_submitted_at = now, k_verified_at = None, k_archived = False\<rparr>"

definition kyc_update_row :: "kyc_submit_body \<Rightarrow> string \<Rightarrow> string \<Rightarrow> int \<Rightarrow> kyc_row \<Rightarrow> kyc_row" where
  "kyc_update_row b id_hash country now k =
     k\<lparr>k_full_name := ks_full_name b, k_id_type := ks_id_type b, k_id_number_hash := id_hash,
       k_country_code := char2 country, k_submitted_at := now, k_archived := False\<rparr>"

text \<open>The upsert, with the table's check on \<open>id_type\<close> and its foreign key.\<close>

definition upsert_kyc ::
  "kyc_submit_body \<Rightarrow> string \<Rightarrow> string \<Rightarrow> (coord_db world, db_error, unit) prog" where
  "upsert_kyc b id_hash country = db_exec (\<lambda>now d.
     if ks_id_type b \<notin> {''mykad'', ''passport'', ''nric'', ''other''} then Inl Check_Violation
     else if \<not> fk a_account_id (accounts d) (Some (ks_account_id b)) then Inl Fk_Violation
     else on_kycs (sql_upsert k_account_id (kyc_insert_row b id_hash country now)
            (\<lambda>k. Inr (kyc_update_row b id_hash country now k))) d)"

definition submit_kyc :: "(string \<Rightarrow> string) \<Rightarrow> (string \<Rightarrow> string) \<Rightarrow> kyc_submit_body \<Rightarrow> json handler" where
  "submit_kyc sha hex b =
     (if ks_full_name b = [] \<or> ks_id_number b = [] \<or> length (ks_country b) < 2
      then failE (Status BAD_REQUEST)
      else
        let id_hash = hex (sha (ks_id_number b)) in
        bindE (someE Panicked (slice_to (ks_country b) (min 2 (length (ks_country b))))) (\<lambda>country.
        seqE (map_errE ise (upsert_kyc b id_hash country))
        (retE (JObj
          [(''ok'', JBool True), (''status'', JStr ''pending''), (''compliance_level'', JInt 1),
           (''annual_limit_myr'', JNum 5000),
           (''message'', JStr (''KYC submitted '' @ [CHR 0xE2, CHR 0x80, CHR 0x94] @ '' will be reviewed within 1 business day''))]))))"

section \<open>Accounts bound to a device\<close>

record register_account_body =
  ra_ecdsa_pubkey_hex :: string
  ra_device_fingerprint_hash :: string
  ra_device_label :: "string option"
  ra_platform :: "string option"
  ra_hardware_serial_hash :: "string option"

text \<open>The message that is hashed, and the identifier: the first 12 bytes of the digest.\<close>

definition account_preimage :: "string \<Rightarrow> string \<Rightarrow> string" where
  "account_preimage pubkey_hex fingerprint_hash = pubkey_hex @ ''||'' @ fingerprint_hash"

definition derive_account_id :: "(string \<Rightarrow> string) \<Rightarrow> (string \<Rightarrow> string) \<Rightarrow> string \<Rightarrow> string \<Rightarrow> string" where
  "derive_account_id sha hex pubkey_hex fingerprint_hash =
     hex (take 12 (sha (account_preimage pubkey_hex fingerprint_hash)))"

definition new_account_row :: "register_account_body \<Rightarrow> string \<Rightarrow> int \<Rightarrow> account_row" where
  "new_account_row b aid now =
     \<lparr>a_account_id = aid, a_ecdsa_pubkey_hex = ra_ecdsa_pubkey_hex b,
      a_fingerprint = ra_device_fingerprint_hash b, a_device_label = ra_device_label b,
      a_platform = Some (unwrap_or ''browser'' (ra_platform b)),
      a_hardware_serial_hash = ra_hardware_serial_hash b, a_role = Some ''consumer'',
      a_active = Some True, a_created_at = Some now, a_last_seen = Some now\<rparr>"

definition refresh_account_row :: "register_account_body \<Rightarrow> int \<Rightarrow> account_row \<Rightarrow> account_row" where
  "refresh_account_row b now a =
     a\<lparr>a_last_seen := Some now, a_device_label := sql_coalesce (ra_device_label b) (a_device_label a)\<rparr>"

text \<open>
  \<open>INSERT .. ON CONFLICT (account_id) DO UPDATE .. RETURNING\<close>: the conflict on the account
  takes the update; the unique key of another row is an error.
\<close>

definition register_stmt ::
  "register_account_body \<Rightarrow> string \<Rightarrow> (coord_db world, db_error, account_row option) prog" where
  "register_stmt b aid = db_stmt (\<lambda>now d.
     if account_of d aid = None \<and> ra_ecdsa_pubkey_hex b \<in> a_ecdsa_pubkey_hex ` set (accounts d)
     then Inl Unique_Violation
     else map_sum id (\<lambda>d'. (account_of d' aid, d'))
            (on_accounts (sql_upsert a_account_id (new_account_row b aid now)
               (\<lambda>a. Inr (refresh_account_row b now a))) d))"

definition ensure_credit_account :: "string \<Rightarrow> (coord_db world, db_error, unit) prog" where
  "ensure_credit_account aid = db_exec (\<lambda>now.
     on_credits (\<lambda>t. Inr (sql_insert_ignore c_account_id (new_credit_row aid now) t)))"

definition device_mismatch :: json where
  "device_mismatch = JObj
     [(''ok'', JBool False), (''error'', JStr ''device_mismatch''),
      (''message'', JStr ''This key is already registered to a different device fingerprint.'')]"

definition register_account ::
  "(string \<Rightarrow> string) \<Rightarrow> (string \<Rightarrow> string) \<Rightarrow> register_account_body \<Rightarrow> json handler" where
  "register_account sha hex b =
     (if ra_ecdsa_pubkey_hex b = [] \<or> length (ra_device_fingerprint_hash b) \<noteq> 64
      then failE (Status BAD_REQUEST)
      else
        let account_id = derive_account_id sha hex (ra_ecdsa_pubkey_hex b) (ra_device_fingerprint_hash b) in
        matchE (register_stmt b account_id)
          (\<lambda>ret. bindE (someE (Status INTERNAL_SERVER_ERROR) ret) (\<lambda>row.
             seqE (okE (ensure_credit_account account_id))
             (retE (JObj
               [(''ok'', JBool True), (''account_id'', JStr (a_account_id row)),
                (''created_at'', j_opt JTime (a_created_at row)),
                (''last_seen'', j_opt JTime (a_last_seen row))]))))
          (\<lambda>e. if e = Unique_Violation then retE device_mismatch
               else failE (Status INTERNAL_SERVER_ERROR)))"

definition balance_json :: "credit_row \<Rightarrow> json" where
  "balance_json b = JObj
     [(''available_nmc'', j_opt j_f64 (c_available b)), (''escrowed_nmc'', j_opt j_f64 (c_escrowed b)),
      (''total_earned_nmc'', j_opt j_f64 (c_earned b)), (''total_spent_nmc'', j_opt j_f64 (c_spent b))]"

definition get_account :: "string \<Rightarrow> json handler" where
  "get_account aid =
     bindE (map_errE ise (db_query (\<lambda>_ d. Inr (account_of d aid)))) (\<lambda>acc0.
     bindE (someE (Status NOT_FOUND) acc0) (\<lambda>acc.
     bindE (map_errE ise (db_query (\<lambda>_ d. Inr (credit_of d aid)))) (\<lambda>bal.
     retE (JObj
       [(''account_id'', JStr (a_account_id acc)),
        (''device_label'', j_opt JStr (a_device_label acc)),
        (''platform'', j_opt JStr (a_platform acc)),
        (''role'', j_opt JStr (a_role acc)),
        (''active'', j_opt JBool (a_active acc)),
        (''created_at'', j_opt JTime (a_created_at acc)),
        (''last_seen'', j_opt JTime (a_last_seen acc)),
        (''balance'', j_opt balance_json bal)]))))"

record verify_device_body =
  vd_device_fingerprint_hash :: string
  vd_ecdsa_pubkey_hex :: string

definition active_account :: "string \<Rightarrow> coord_db \<Rightarrow> account_row option" where
  "active_account aid d = sql_first (\<lambda>a. a_account_id a = aid \<and> a_active a = Some True) (accounts d)"

definition see_account :: "string \<Rightarrow> (coord_db world, db_error, unit) prog" where
  "see_account aid = db_exec (\<lambda>now. on_accounts (sql_update (\<lambda>a. a_account_id a = aid)
     (\<lambda>a. Inr (a\<lparr>a_last_seen := Some now\<rparr>))))"

definition verify_device :: "string \<Rightarrow> verify_device_body \<Rightarrow> json handler" where
  "verify_device aid b =
     bindE (map_errE ise (db_query (\<lambda>_ d. Inr (active_account aid d)))) (\<lambda>acc0.
     bindE (someE (Status NOT_FOUND) acc0) (\<lambda>acc.
     let pubkey_match = (a_ecdsa_pubkey_hex acc = vd_ecdsa_pubkey_hex b);
         fingerprint_match = (a_fingerprint acc = vd_device_fingerprint_hash b)
     in if pubkey_match \<and> fingerprint_match
        then seqE (okE (see_account aid)) (retE (JObj [(''ok'', JBool True), (''verified'', JBool True)]))
        else retE (JObj
               [(''ok'', JBool True), (''verified'', JBool False),
                (''reason'', JStr (if \<not> pubkey_match then ''key_mismatch'' else ''fingerprint_mismatch''))])))"

record reregister_body =
  rr_ecdsa_pubkey_hex :: string
  rr_new_device_fingerprint_hash :: string
  rr_old_device_fingerprint_hash :: string
  rr_device_label :: "string option"

definition rebind_row :: "reregister_body \<Rightarrow> int \<Rightarrow> account_row \<Rightarrow> account_row" where
  "rebind_row b now a =
     a\<lparr>a_fingerprint := rr_new_device_fingerprint_hash b, a_last_seen := Some now,
       a_device_label := sql_coalesce (rr_device_label b) (a_device_label a)\<rparr>"

text \<open>The update with \<open>RETURNING\<close>: \<open>fetch_one\<close> fails when no row is returned.\<close>

definition rebind_stmt :: "reregister_body \<Rightarrow> string \<Rightarrow> (coord_db world, db_error, account_row option) prog" where
  "rebind_stmt b aid = db_stmt (\<lambda>now d.
     map_sum id (\<lambda>d'. (account_of d' aid, d'))
       (on_accounts (sql_update (\<lambda>a. a_account_id a = aid) (\<lambda>a. Inr (rebind_row b now a))) d))"

definition reregister_device :: "string \<Rightarrow> reregister_body \<Rightarrow> json handler" where
  "reregister_device aid b =
     (if length (rr_new_device_fingerprint_hash b) \<noteq> 64 \<or> length (rr_old_device_fingerprint_hash b) \<noteq> 64
      then failE (Status BAD_REQUEST)
      else
        bindE (map_errE ise (db_query (\<lambda>_ d. Inr (active_account aid d)))) (\<lambda>acc0.
        bindE (someE (Status NOT_FOUND) acc0) (\<lambda>acc.
        if a_ecdsa_pubkey_hex acc \<noteq> rr_ecdsa_pubkey_hex b
        then retE (JObj
               [(''ok'', JBool False), (''error'', JStr ''key_mismatch''),
                (''message'', JStr ''Public key does not match the registered account.'')])
        else
          bindE (map_errE ise (rebind_stmt b aid)) (\<lambda>ret.
          bindE (someE (Status INTERNAL_SERVER_ERROR) ret) (\<lambda>row.
          retE (JObj
            [(''ok'', JBool True), (''account_id'', JStr (a_account_id row)),
             (''last_seen'', j_opt JTime (a_last_seen row))]))))))"

section \<open>Network statistics\<close>

text \<open>\<open>SUM\<close> skips \<open>NULL\<close>s and is \<open>NULL\<close> over no value.\<close>

definition sql_sum :: "int option list \<Rightarrow> int option" where
  "sql_sum xs = (let ys = filter (\<lambda>x. x \<noteq> None) xs in
     if ys = [] then None else Some (sum_list (map the ys)))"

definition count_state :: "string \<Rightarrow> ('r \<Rightarrow> string option) \<Rightarrow> 'r list \<Rightarrow> int" where
  "count_state st f t = int (length (filter (\<lambda>r. f r = Some st) t))"

definition network_stats :: "json handler" where
  "network_stats =
     bindE (map_errE ise (db_query (\<lambda>_ d. Inr
       (count_state ''available'' p_state (providers d), count_state ''leased'' p_state (providers d),
        sql_sum (map p_unified_memory_gb (filter (\<lambda>p. p_state p = Some ''available'') (providers d)))))))
     (\<lambda>(avail, active, ram).
     bindE (map_errE ise (db_query (\<lambda>_ d. Inr
       (count_state ''running'' j_state (jobs d), count_state ''complete'' j_state (jobs d)))))
     (\<lambda>(running, complete).
     retE (JObj
       [(''available_providers'', JInt avail), (''active_providers'', JInt active),
        (''total_available_ram_gb'', j_opt JInt ram), (''running_jobs'', JInt running),
        (''completed_jobs'', JInt complete)])))"

section \<open>The invariant\<close>

lemma keeps_upsert_kyc [keeps_intro]: "keeps_db (upsert_kyc b h c)"
  unfolding upsert_kyc_def
  by (rule keeps_db_exec)
    (auto split: if_splits elim!: inv_on_kycs keys_distinct_upsert simp: kyc_update_row_def)

lemma keeps_register_stmt [keeps_intro]: "keeps_db (register_stmt b aid)"
  unfolding register_stmt_def
  by (rule keeps_db_stmt)
    (auto split: if_splits simp: map_sum_eq_Inr refresh_account_row_def elim!: inv_on_accounts keys_distinct_upsert)

lemma keeps_ensure_credit_account [keeps_intro]: "keeps_db (ensure_credit_account aid)"
  unfolding ensure_credit_account_def
  by (rule keeps_db_exec) (auto elim!: inv_on_credits intro: keys_distinct_insert_ignore)

lemma keeps_see_account [keeps_intro]: "keeps_db (see_account aid)"
  unfolding see_account_def
  by (rule keeps_db_exec) (auto elim!: inv_on_accounts simp: keys_distinct_map)

lemma keeps_rebind_stmt [keeps_intro]: "keeps_db (rebind_stmt b aid)"
  unfolding rebind_stmt_def
  by (rule keeps_db_stmt)
    (auto simp: map_sum_eq_Inr rebind_row_def keys_distinct_map elim!: inv_on_accounts)

lemma keeps_submit_kyc [keeps_intro]: "keeps_db (submit_kyc sha hex b)"
  unfolding submit_kyc_def by (intro keeps_intro)

lemma keeps_register_account [keeps_intro]: "keeps_db (register_account sha hex b)"
  unfolding register_account_def by (intro keeps_intro)

lemma keeps_verify_device [keeps_intro]: "keeps_db (verify_device aid b)"
  unfolding verify_device_def by (intro keeps_intro)

lemma keeps_reregister_device [keeps_intro]: "keeps_db (reregister_device aid b)"
  unfolding reregister_device_def by (intro keeps_intro)

section \<open>Properties\<close>

text \<open>Two devices are told apart by what is hashed into the account identifier: for
  fingerprints of the length the handler insists on, the hashed message determines both the
  public key and the fingerprint, so only a collision of the truncated digest can give two
  devices one identifier.\<close>

theorem account_preimage_injective:
  assumes "length f = 64" "length f' = 64"
    and "account_preimage p f = account_preimage p' f'"
  shows "p = p' \<and> f = f'"
proof -
  have "length p = length p'" using assms by (auto simp: account_preimage_def dest: arg_cong [where f = length])
  then show ?thesis using assms(3) by (simp add: account_preimage_def)
qed

theorem account_preimage_injective_witness:
  "account_preimage ''aa'' (replicate 64 (CHR ''1'')) = account_preimage ''aa'' (replicate 64 (CHR ''1'')) \<and>
   ''aa'' = ''aa''"
  using account_preimage_injective [of "replicate 64 (CHR ''1'')" "replicate 64 (CHR ''1'')" "''aa''" "''aa''"] by simp

lemma account_update_first:
  assumes "keys_distinct a_account_id t" "sql_first (\<lambda>a. a_account_id a = aid) t = Some a" "a_active a = Some True"
  shows "sql_first (\<lambda>a. a_account_id a = aid \<and> a_active a = Some True) t = Some a"
  using assms by (induction t) (auto simp: sql_first_def keys_distinct_def split: if_splits)

lemma active_accountI:
  assumes "db_inv d" "account_of d aid = Some a" "a_active a = Some True"
  shows "active_account aid d = Some a"
  using assms account_update_first [of "accounts d" aid a] by (simp add: active_account_def db_inv_def pk_inv_def)

lemma new_account_row_sel [simp]:
  "a_account_id (new_account_row b aid now) = aid" "a_ecdsa_pubkey_hex (new_account_row b aid now) = ra_ecdsa_pubkey_hex b"
  "a_fingerprint (new_account_row b aid now) = ra_device_fingerprint_hash b" "a_active (new_account_row b aid now) = Some True"
  "a_last_seen (new_account_row b aid now) = Some now" "a_created_at (new_account_row b aid now) = Some now"
  by (simp_all add: new_account_row_def)

text \<open>A first registration.\<close>

lemma register_account_run:
  assumes "wfaults w = []" "db_inv (wdb w)"
    and "ra_ecdsa_pubkey_hex b \<noteq> []" "length (ra_device_fingerprint_hash b) = 64"
    and "aid = derive_account_id sha hex (ra_ecdsa_pubkey_hex b) (ra_device_fingerprint_hash b)"
    and "account_of (wdb w) aid = None" "ra_ecdsa_pubkey_hex b \<notin> a_ecdsa_pubkey_hex ` set (accounts (wdb w))"
  shows "register_account sha hex b w =
       (Inr (JObj [(''ok'', JBool True), (''account_id'', JStr aid), (''created_at'', JTime (wnow w)),
                   (''last_seen'', JTime (wnow w))]),
        w\<lparr>wdb := (wdb w)\<lparr>accounts := accounts (wdb w) @ [new_account_row b aid (wnow w)],
          credits := sql_insert_ignore c_account_id (new_credit_row aid (wnow w)) (credits (wdb w))\<rparr>\<rparr>)"
proof -
  have "aid \<notin> a_account_id ` set (accounts (wdb w))"
    using assms(6) by (simp only: sql_first_None_iff not_False_eq_True)
  with assms show ?thesis
    by (simp add: register_account_def prog_simps register_stmt_def ensure_credit_account_def on_table_defs
        sql_upsert_def sql_first_append Let_def)
qed

text \<open>C14: A device that registers is recognised afterwards: verifying the new account with the
  key and the fingerprint it registered with answers \<open>verified\<close>; the account has a credit row.\<close>

theorem register_verify_roundtrip:
  assumes "wfaults w = []" "db_inv (wdb w)"
    and "ra_ecdsa_pubkey_hex b \<noteq> []" "length (ra_device_fingerprint_hash b) = 64"
    and "aid = derive_account_id sha hex (ra_ecdsa_pubkey_hex b) (ra_device_fingerprint_hash b)"
    and "account_of (wdb w) aid = None" "ra_ecdsa_pubkey_hex b \<notin> a_ecdsa_pubkey_hex ` set (accounts (wdb w))"
  shows "\<exists>r w1 w2. register_account sha hex b w = (Inr r, w1) \<and>
     verify_device aid \<lparr>vd_device_fingerprint_hash = ra_device_fingerprint_hash b,
        vd_ecdsa_pubkey_hex = ra_ecdsa_pubkey_hex b\<rparr> w1 =
       (Inr (JObj [(''ok'', JBool True), (''verified'', JBool True)]), w2) \<and>
     credit_of (wdb w2) aid \<noteq> None"
proof -
  let ?w1 = "w\<lparr>wdb := (wdb w)\<lparr>accounts := accounts (wdb w) @ [new_account_row b aid (wnow w)],
          credits := sql_insert_ignore c_account_id (new_credit_row aid (wnow w)) (credits (wdb w))\<rparr>\<rparr>"
  have run: "\<exists>r. register_account sha hex b w = (Inr r, ?w1)"
    using register_account_run [OF assms] by blast
  then have "db_inv (wdb ?w1)"
    using keepsD [OF keeps_register_account assms(2), of sha hex b] by (metis snd_conv)
  then have "active_account aid (wdb ?w1) = Some (new_account_row b aid (wnow w))"
    using assms(6) by (intro active_accountI) (simp_all add: sql_first_append)
  moreover have "credit_of (wdb ?w1) aid \<noteq> None"
    by (simp add: sql_insert_ignore_def sql_first_None_iff new_credit_row_def)
  ultimately show ?thesis
    using run assms(1)
    by (auto simp: verify_device_def prog_simps see_account_def on_table_defs Let_def)
qed

definition demo_register :: register_account_body where
  "demo_register = \<lparr>ra_ecdsa_pubkey_hex = ''abcd'', ra_device_fingerprint_hash = replicate 64 (CHR ''1''),
     ra_device_label = None, ra_platform = None, ra_hardware_serial_hash = None\<rparr>"

theorem register_verify_roundtrip_witness:
  "\<exists>r w1 w2. register_account (\<lambda>s. take 32 s) (\<lambda>s. s) demo_register (world_at empty_db) = (Inr r, w1) \<and>
     verify_device (derive_account_id (\<lambda>s. take 32 s) (\<lambda>s. s) ''abcd'' (replicate 64 (CHR ''1'')))
        \<lparr>vd_device_fingerprint_hash = replicate 64 (CHR ''1''), vd_ecdsa_pubkey_hex = ''abcd''\<rparr> w1 =
       (Inr (JObj [(''ok'', JBool True), (''verified'', JBool True)]), w2)"
proof -
  have f: "wfaults (world_at empty_db) = []" "db_inv (wdb (world_at empty_db))"
    "ra_ecdsa_pubkey_hex demo_register \<noteq> []" "length (ra_device_fingerprint_hash demo_register) = 64"
    by (simp_all add: demo_register_def db_inv_empty)
  have g: "account_of (wdb (world_at empty_db)) k = None"
    "ra_ecdsa_pubkey_hex demo_register \<notin> a_ecdsa_pubkey_hex ` set (accounts (wdb (world_at empty_db)))" for k
    by (simp_all add: empty_db_def)
  have n: "ra_ecdsa_pubkey_hex demo_register = ''abcd''" "ra_device_fingerprint_hash demo_register = replicate 64 (CHR ''1'')"
    by (simp_all add: demo_register_def)
  from register_verify_roundtrip [where sha = "\<lambda>s. take 32 s" and hex = "\<lambda>s. s", OF f refl g] show ?thesis
    unfolding n by blast
qed

text \<open>Re-registering a device does not let the device register again: the account keeps the
  identifier derived from the old fingerprint, so a later registration from the new device,
  whose key and new fingerprint give another identifier, is refused as \<open>device_mismatch\<close>.\<close>

theorem reregister_then_register_refused:
  assumes "wfaults w = []" "db_inv (wdb w)"
    and "account_of (wdb w) aid = Some a" "a_active a = Some True"
    and "a_ecdsa_pubkey_hex a = rr_ecdsa_pubkey_hex rb" "rr_ecdsa_pubkey_hex rb \<noteq> []"
    and "length (rr_new_device_fingerprint_hash rb) = 64" "length (rr_old_device_fingerprint_hash rb) = 64"
    and "ra_ecdsa_pubkey_hex b = rr_ecdsa_pubkey_hex rb"
    and "ra_device_fingerprint_hash b = rr_new_device_fingerprint_hash rb"
    and "account_of (wdb w) (derive_account_id sha hex (ra_ecdsa_pubkey_hex b) (ra_device_fingerprint_hash b)) = None"
  shows "\<exists>r w1 a1. reregister_device aid rb w = (Inr r, w1) \<and> account_of (wdb w1) aid = Some a1 \<and>
     a_fingerprint a1 = rr_new_device_fingerprint_hash rb \<and>
     register_account sha hex b w1 = (Inr device_mismatch, w1)"
proof -
  let ?g = "\<lambda>a. if a_account_id a = aid then rebind_row rb (wnow w) a else a"
  let ?w1 = "w\<lparr>wdb := (wdb w)\<lparr>accounts := map ?g (accounts (wdb w))\<rparr>\<rparr>"
  have key: "a_account_id (?g x) = a_account_id x" "a_ecdsa_pubkey_hex (?g x) = a_ecdsa_pubkey_hex x" for x
    by (simp_all add: rebind_row_def)
  have ak: "a_account_id a = aid" using assms(3) by (rule sql_first_key)
  have first: "sql_first (\<lambda>x. a_account_id x = k) (map ?g (accounts (wdb w))) = map_option ?g (account_of (wdb w) k)" for k
    by (rule sql_first_map) (simp add: key)
  have act: "active_account aid (wdb w) = Some a" using assms(2-4) by (rule active_accountI)
  have new: "account_of (wdb ?w1) aid = Some (rebind_row rb (wnow w) a)"
    using first [of aid] assms(3) ak by simp
  have none: "account_of (wdb ?w1) (derive_account_id sha hex (ra_ecdsa_pubkey_hex b) (ra_device_fingerprint_hash b)) = None"
    using first assms(11) by simp
  have row: "a_account_id (rebind_row rb t x) = a_account_id x" "a_last_seen (rebind_row rb t x) = Some t"
    "a_fingerprint (rebind_row rb t x) = rr_new_device_fingerprint_hash rb" for t x
    by (simp_all add: rebind_row_def)
  have re: "reregister_device aid rb w = (Inr (JObj [(''ok'', JBool True), (''account_id'', JStr aid),
      (''last_seen'', JTime (wnow w))]), ?w1)"
    using assms(1,3,5,7,8) act new ak row
    by (simp add: reregister_device_def prog_simps rebind_stmt_def on_table_defs)
  have "a \<in> set (accounts (wdb w))" using sql_first_in_set [OF assms(3)] by simp
  then have "a_ecdsa_pubkey_hex (?g a) \<in> a_ecdsa_pubkey_hex ` set (map ?g (accounts (wdb w)))" by simp
  then have dup: "ra_ecdsa_pubkey_hex b \<in> a_ecdsa_pubkey_hex ` set (accounts (wdb ?w1))"
    using key(2) [of a] assms(5,9) by simp
  have "register_account sha hex b ?w1 = (Inr device_mismatch, ?w1)"
    using assms(1,6,7,9,10) none dup
    by (simp add: register_account_def prog_simps register_stmt_def Let_def)
  with re new row show ?thesis by auto
qed

definition demo_rebind :: reregister_body where
  "demo_rebind = \<lparr>rr_ecdsa_pubkey_hex = ''abcd'', rr_new_device_fingerprint_hash = replicate 64 (CHR ''1''),
     rr_old_device_fingerprint_hash = replicate 64 (CHR ''0''), rr_device_label = None\<rparr>"

definition demo_account :: account_row where
  "demo_account = new_account_row (demo_register\<lparr>ra_device_fingerprint_hash := replicate 64 (CHR ''0'')\<rparr>) ''old'' 900"

theorem reregister_then_register_refused_witness:
  "\<exists>r w1. reregister_device ''old'' demo_rebind (world_at (empty_db\<lparr>accounts := [demo_account]\<rparr>)) = (Inr r, w1) \<and>
     register_account (\<lambda>s. take 32 s) (\<lambda>s. s) demo_register w1 = (Inr device_mismatch, w1)"
proof -
  let ?w = "world_at (empty_db\<lparr>accounts := [demo_account]\<rparr>)"
  have f: "db_inv (wdb ?w)" "account_of (wdb ?w) ''old'' = Some demo_account" "a_active demo_account = Some True"
    "a_ecdsa_pubkey_hex demo_account = rr_ecdsa_pubkey_hex demo_rebind" "rr_ecdsa_pubkey_hex demo_rebind \<noteq> []"
    "length (rr_new_device_fingerprint_hash demo_rebind) = 64" "length (rr_old_device_fingerprint_hash demo_rebind) = 64"
    "ra_ecdsa_pubkey_hex demo_register = rr_ecdsa_pubkey_hex demo_rebind"
    "ra_device_fingerprint_hash demo_register = rr_new_device_fingerprint_hash demo_rebind"
    by (simp_all add: demo_account_def demo_register_def demo_rebind_def db_inv_def pk_inv_def trust_inv_def empty_db_def
      keys_distinct_def)
  have "account_of (wdb ?w) (derive_account_id (\<lambda>s. take 32 s) (\<lambda>s. s)
      (ra_ecdsa_pubkey_hex demo_register) (ra_device_fingerprint_hash demo_register)) = None"
    by (simp add: demo_account_def demo_register_def derive_account_id_def account_preimage_def)
  from reregister_then_register_refused [OF _ f this] show ?thesis by auto
qed

text \<open>A KYC review is not undone by new data: submitting again, with another name and another
  identity document, under an approved record answers \<open>pending\<close>, yet the record keeps its
  approval and is served as \<open>approved\<close> under the new name.\<close>

theorem kyc_resubmission_stays_approved:
  assumes "wfaults w = []" "db_inv (wdb w)"
    and "kyc_of (wdb w) (ks_account_id b) = Some k" "k_verified_at k = Some t"
    and "ks_full_name b \<noteq> []" "ks_id_number b \<noteq> []" "2 \<le> length (ks_country b)"
    and "is_char_boundary (ks_country b) 2" "ks_id_type b \<in> {''mykad'', ''passport'', ''nric'', ''other''}"
    and "account_of (wdb w) (ks_account_id b) = Some a"
  shows "\<exists>r w1 k1 fs. submit_kyc sha hex b w = (Inr r, w1) \<and> j_get ''status'' r = JStr ''pending'' \<and>
     kyc_of (wdb w1) (ks_account_id b) = Some k1 \<and> k_full_name k1 = ks_full_name b \<and>
     k_id_number_hash k1 = hex (sha (ks_id_number b)) \<and>
     get_kyc (ks_account_id b) w1 = (Inr (JObj fs), w1) \<and>
     j_get ''status'' (JObj fs) = JStr ''approved'' \<and> j_get ''full_name'' (JObj fs) = JStr (ks_full_name b)"
proof -
  let ?h = "hex (sha (ks_id_number b))" and ?c = "take 2 (ks_country b)" and ?aid = "ks_account_id b"
  let ?g = "\<lambda>x. if k_account_id x = ?aid then kyc_update_row b ?h ?c (wnow w) x else x"
  let ?w1 = "w\<lparr>wdb := (wdb w)\<lparr>kycs := map ?g (kycs (wdb w))\<rparr>\<rparr>"
  have row: "k_account_id (kyc_update_row b h c now x) = k_account_id x"
    "k_full_name (kyc_update_row b h c now x) = ks_full_name b" "k_id_number_hash (kyc_update_row b h c now x) = h"
    "k_archived (kyc_update_row b h c now x) = False" "k_verified_at (kyc_update_row b h c now x) = k_verified_at x"
    for h c now x by (simp_all add: kyc_update_row_def)
  have slice: "slice_to (ks_country b) (min 2 (length (ks_country b))) = Some ?c"
    using assms(7,8) by (simp add: slice_to_def min_def)
  have fk: "?aid \<in> a_account_id ` set (accounts (wdb w))" by (rule sql_first_key_in [OF assms(10)])
  have kin: "?aid \<in> k_account_id ` set (kycs (wdb w))"
    by (rule sql_first_key_in [OF assms(3) [unfolded kyc_of_def]])
  have ins: "k_account_id (kyc_insert_row b ?h ?c (wnow w)) = ?aid" by (simp add: kyc_insert_row_def)
  have "submit_kyc sha hex b w = (Inr (JObj [(''ok'', JBool True), (''status'', JStr ''pending''), (''compliance_level'', JInt 1),
           (''annual_limit_myr'', JNum 5000),
           (''message'', JStr (''KYC submitted '' @ [CHR 0xE2, CHR 0x80, CHR 0x94] @ '' will be reviewed within 1 business day''))]), ?w1)"
    using assms(1,5-7,9) slice fk kin ins
    by (simp add: submit_kyc_def prog_simps upsert_kyc_def on_table_defs sql_upsert_def Let_def)
  moreover have k1: "kyc_of (wdb ?w1) ?aid = Some (kyc_update_row b ?h ?c (wnow w) k)"
    using sql_first_map [of k_account_id ?g ?aid "kycs (wdb w)"] assms(3) row(1)
      sql_first_key [OF assms(3) [unfolded kyc_of_def]] by (simp add: kyc_of_def)
  moreover have "\<exists>fs. get_kyc ?aid ?w1 = (Inr (JObj fs), ?w1) \<and> j_get ''status'' (JObj fs) = JStr ''approved'' \<and>
      j_get ''full_name'' (JObj fs) = JStr (ks_full_name b)"
    using assms(1,4) k1 row by (simp add: get_kyc_def prog_simps kyc_status_def j_get_def)
  ultimately show ?thesis using row by (auto simp: j_get_def)
qed

definition demo_kyc :: kyc_submit_body where
  "demo_kyc = \<lparr>ks_account_id = ''old'', ks_full_name = ''Eve'', ks_id_type = ''passport'', ks_id_number = ''X1'', ks_country = ''MY''\<rparr>"

definition demo_kyc_row :: kyc_row where
  "demo_kyc_row = (kyc_insert_row (demo_kyc\<lparr>ks_full_name := ''Alice''\<rparr>) ''h'' ''MY'' 900)\<lparr>k_verified_at := Some 950\<rparr>"

theorem kyc_resubmission_stays_approved_witness:
  "\<exists>r w1 fs. submit_kyc (\<lambda>s. s) (\<lambda>s. s) demo_kyc
       (world_at (empty_db\<lparr>accounts := [demo_account], kycs := [demo_kyc_row]\<rparr>)) = (Inr r, w1) \<and>
     get_kyc ''old'' w1 = (Inr (JObj fs), w1) \<and> j_get ''status'' (JObj fs) = JStr ''approved'' \<and>
     j_get ''full_name'' (JObj fs) = JStr ''Eve''"
proof -
  let ?w = "world_at (empty_db\<lparr>accounts := [demo_account], kycs := [demo_kyc_row]\<rparr>)"
  have f: "db_inv (wdb ?w)" "kyc_of (wdb ?w) (ks_account_id demo_kyc) = Some demo_kyc_row" "k_verified_at demo_kyc_row = Some 950"
    "ks_full_name demo_kyc \<noteq> []" "ks_id_number demo_kyc \<noteq> []" "2 \<le> length (ks_country demo_kyc)"
    "is_char_boundary (ks_country demo_kyc) 2" "ks_id_type demo_kyc \<in> {''mykad'', ''passport'', ''nric'', ''other''}"
    "account_of (wdb ?w) (ks_account_id demo_kyc) = Some demo_account"
    by (simp_all add: demo_account_def demo_kyc_def demo_kyc_row_def kyc_insert_row_def kyc_of_def db_inv_def pk_inv_def
      trust_inv_def empty_db_def keys_distinct_def is_char_boundary_def)
  have n: "ks_account_id demo_kyc = ''old''" "ks_full_name demo_kyc = ''Eve''" by (simp_all add: demo_kyc_def)
  from kyc_resubmission_stays_approved [where w = ?w and sha = "\<lambda>s. s" and hex = "\<lambda>s. s", OF _ f] show ?thesis
    unfolding n by auto
qed

end
