(* ===== verification/Rust_Text.thy ===== *)
theory Rust_Text
  imports NM_Prelude
begin

text \<open>
  Text as Rust's standard library handles it, shared by the components: splitting, trimming, searching, lines, and decimal numbers with
  their parsers. Text is bytes; white space and letter case are those of ASCII.
\<close>

section \<open>Splitting and trimming\<close>

text \<open>\<open>s.split(c)\<close>\<close>

fun split_on :: "char \<Rightarrow> string \<Rightarrow> string list" where
  "split_on c [] = [[]]"
| "split_on c (x # xs) =
     (if x = c then [] # split_on c xs
      else (case split_on c xs of [] \<Rightarrow> [[x]] | y # ys \<Rightarrow> (x # y) # ys))"

definition is_space :: "char \<Rightarrow> bool" where
  "is_space c \<longleftrightarrow> (of_char c :: nat) \<in> {9, 10, 11, 12, 13, 32}"

definition trim_str :: "string \<Rightarrow> string" where
  "trim_str s = rev (dropWhile is_space (rev (dropWhile is_space s)))"

definition contains_str :: "string \<Rightarrow> string \<Rightarrow> bool" where
  "contains_str p s \<longleftrightarrow> list_ex (\<lambda>i. starts_with p (drop i s)) [0..<length s + 1]"

definition lower_char :: "char \<Rightarrow> char" where
  "lower_char c = (let n = (of_char c :: nat) in if 65 \<le> n \<and> n \<le> 90 then char_of (n + 32) else c)"

definition to_lowercase :: "string \<Rightarrow> string" where
  "to_lowercase s = map lower_char s"

text \<open>\<open>s.lines()\<close>: split at line feeds, without a final empty line and without a carriage return at a line's end.\<close>

definition strip_cr :: "string \<Rightarrow> string" where
  "strip_cr l = (if l \<noteq> [] \<and> last l = CHR 0x0D then butlast l else l)"

definition lines_of :: "string \<Rightarrow> string list" where
  "lines_of s = (let ls = split_on (CHR 0x0A) s in map strip_cr (if last ls = [] then butlast ls else ls))"

definition trim_matches :: "char \<Rightarrow> string \<Rightarrow> string" where
  "trim_matches c s = rev (dropWhile (\<lambda>x. x = c) (rev (dropWhile (\<lambda>x. x = c) s)))"

definition all_digits :: "string \<Rightarrow> bool" where
  "all_digits s \<longleftrightarrow> list_all (\<lambda>c. 48 \<le> (of_char c :: int) \<and> (of_char c :: int) \<le> 57) s"

definition digits_value :: "string \<Rightarrow> int" where
  "digits_value ds = foldl (\<lambda>a c. a * 10 + (of_char c - 48)) 0 ds"

section \<open>Decimal numbers\<close>

text \<open>\<open>s.parse::<u64>()\<close> and \<open>s.parse::<u32>()\<close>: an optional plus, digits, and a value in the range.\<close>

definition parse_unsigned :: "int \<Rightarrow> string \<Rightarrow> int option" where
  "parse_unsigned bound s =
     (let ds = (case s of c # cs \<Rightarrow> if c = CHR ''+'' then cs else s | [] \<Rightarrow> [])
      in if ds \<noteq> [] \<and> all_digits ds \<and> digits_value ds < bound then Some (digits_value ds) else None)"

abbreviation parse_u64 :: "string \<Rightarrow> int option" where
  "parse_u64 \<equiv> parse_unsigned 18446744073709551616"

abbreviation parse_u32 :: "string \<Rightarrow> int option" where
  "parse_u32 \<equiv> parse_unsigned 4294967296"

text \<open>The printed form of an integer.\<close>

fun int_digits :: "nat \<Rightarrow> string" where
  "int_digits n = (if n < 10 then [char_of (48 + n)] else int_digits (n div 10) @ [char_of (48 + n mod 10)])"

definition int_str :: "int \<Rightarrow> string" where
  "int_str i = (if i < 0 then CHR ''-'' # int_digits (nat (- i)) else int_digits (nat i))"

section \<open>Laws\<close>

lemma split_on_one: "c \<notin> set p \<Longrightarrow> split_on c p = [p]"
  by (induction p) auto

lemma split_on_ne: "split_on c s \<noteq> []"
  by (induction s) (auto split: list.split)

lemma split_on_join: "c \<notin> set p \<Longrightarrow> split_on c (p @ c # r) = p # split_on c r"
  by (induction p) auto

lemma lines_of_rows:
  assumes "\<forall>l\<in>set ls. CHR 0x0A \<notin> set l \<and> strip_cr l = l"
  shows "lines_of (concat (map (\<lambda>l. l @ [CHR 0x0A]) ls)) = ls"
proof -
  have "split_on (CHR 0x0A) (concat (map (\<lambda>l. l @ [CHR 0x0A]) ls)) = ls @ [[]]"
    using assms by (induction ls) (simp_all add: split_on_join)
  moreover have "map strip_cr ls = ls" using assms by (simp add: map_idI)
  ultimately show ?thesis by (simp add: lines_of_def)
qed

lemma digit_code: "n < 10 \<Longrightarrow> (of_char (char_of (48 + n) :: char) :: int) = 48 + int n"
proof -
  assume "n < 10"
  then have "of_char (char_of (48 + n) :: char) = 48 + n" by (simp add: of_char_of)
  then show ?thesis by (metis of_nat_add of_nat_numeral of_nat_of_char)
qed

lemma digits_value_snoc: "digits_value (ds @ [c]) = digits_value ds * 10 + (of_char c - 48)"
  by (simp add: digits_value_def)

declare int_digits.simps [simp del]

lemma int_digits_value: "digits_value (int_digits n) = int n"
proof (induction n rule: int_digits.induct)
  case (1 n)
  show ?case
  proof (cases "n < 10")
    case True
    then show ?thesis by (subst int_digits.simps) (simp add: digits_value_def digit_code)
  next
    case False
    moreover have "int (n div 10) * 10 + int (n mod 10) = int n" by presburger
    ultimately show ?thesis using 1 by (subst int_digits.simps) (simp add: digits_value_snoc digit_code)
  qed
qed

lemma int_digits_digits: "all_digits (int_digits n)"
proof (induction n rule: int_digits.induct)
  case (1 n)
  then show ?case by (subst int_digits.simps) (auto simp: all_digits_def digit_code)
qed

lemma int_digits_ne: "int_digits n \<noteq> []"
  by (subst int_digits.simps) simp

lemma int_digits_chars: "c \<in> set (int_digits n) \<Longrightarrow> 48 \<le> (of_char c :: int) \<and> (of_char c :: int) \<le> 57"
  using int_digits_digits [of n] by (auto simp: all_digits_def list_all_iff)

lemma int_str_of_nat: "0 \<le> i \<Longrightarrow> int_str i = int_digits (nat i)"
  by (simp add: int_str_def)

lemma unsigned_text:
  assumes "ds \<noteq> []" "all_digits ds"
  shows "(case ds of c # cs \<Rightarrow> if c = CHR ''+'' then cs else ds | [] \<Rightarrow> []) = ds"
  using assms by (cases ds) (auto simp: all_digits_def)

lemma parse_int_str: "0 \<le> i \<Longrightarrow> i < b \<Longrightarrow> parse_unsigned b (int_str i) = Some i"
  using unsigned_text [OF int_digits_ne int_digits_digits, of "nat i"]
  by (simp add: parse_unsigned_def int_str_of_nat int_digits_ne int_digits_digits int_digits_value Let_def)

lemma is_space_digit: "c \<in> set (int_digits n) \<Longrightarrow> \<not> is_space c"
  using int_digits_chars [of c n] of_nat_of_char [of c, where ?'a = int] by (auto simp: is_space_def)

lemma dropWhile_none: "(\<And>c. c \<in> set s \<Longrightarrow> \<not> P c) \<Longrightarrow> dropWhile P s = s"
  by (cases s) auto

lemma trim_str_lead: "trim_str (CHR '' '' # s) = trim_str s"
  by (simp add: trim_str_def is_space_def)

lemma trim_str_last: "trim_str s = s \<Longrightarrow> s \<noteq> [] \<Longrightarrow> \<not> is_space (last s)"
proof -
  assume s: "trim_str s = s" "s \<noteq> []"
  let ?u = "dropWhile is_space (rev (dropWhile is_space s))"
  have rev: "rev ?u = s" using s(1) by (simp only: trim_str_def)
  then have ne: "?u \<noteq> []" using s(2) by (metis rev.simps(1))
  have "last s = hd ?u" using rev ne by (metis last_rev)
  then show ?thesis using hd_dropWhile [OF ne] by simp
qed

end
