(* ===== verification/Rest_Ledger.thy ===== *)
theory Rest_Ledger
  imports Rest_Accounts Rust_Text
begin

text \<open>
  Money in and out in \<open>coordinator/src/api/rest.rs\<close>: balances and transactions, the Stripe
  credit, the queued withdrawal; and the artifact store, whose \<open>tar\<close> process and temporary
  directory are parameters.
\<close>

section \<open>Balances and transactions\<close>

definition get_balance :: "string \<Rightarrow> json handler" where
  "get_balance aid =
     bindE (map_errE ise (db_query (\<lambda>_ d. Inr (credit_of d aid)))) (\<lambda>bal.
     case bal of
       Some b \<Rightarrow> retE (JObj
         [(''account_id'', JStr aid), (''available_nmc'', j_opt j_f64 (c_available b)),
          (''escrowed_nmc'', j_opt j_f64 (c_escrowed b)), (''total_earned_nmc'', j_opt j_f64 (c_earned b)),
          (''total_spent_nmc'', j_opt j_f64 (c_spent b))])
     | None \<Rightarrow> retE (JObj
         [(''account_id'', JStr aid), (''available_nmc'', JNum 0), (''escrowed_nmc'', JNum 0),
          (''total_earned_nmc'', JNum 0), (''total_spent_nmc'', JNum 0)]))"

record tx_query =
  tq_account_id :: string
  tq_limit :: "int option"

definition select_txs :: "tx_query \<Rightarrow> coord_db \<Rightarrow> db_error + tx_row list" where
  "select_txs q d =
     sql_limit (unwrap_or 50 (tq_limit q))
       (order_desc t_created_at (filter (\<lambda>t. t_account_id t = tq_account_id q) (txs d)))"

definition tx_json :: "tx_row \<Rightarrow> json" where
  "tx_json t = JObj
     [(''id'', JStr (t_tx_id t)), (''kind'', JStr (t_tx_type t)), (''amount_nmc'', j_f64 (t_amount t)),
      (''description'', j_opt JStr (t_description t)), (''reference'', j_opt JStr (t_reference t)),
      (''created_at'', j_opt JTime (t_created_at t))]"

definition list_transactions :: "tx_query \<Rightarrow> json handler" where
  "list_transactions q =
     bindE (map_errE ise (db_query (\<lambda>_ d. select_txs q d)))
       (\<lambda>rows. retE (JObj [(''transactions'', JArr (map tx_json rows)), (''total'', JInt (int (length rows)))]))"

section \<open>The Stripe credit\<close>

record stripe_credit_body =
  sc_account_id :: string
  sc_amount_nmc :: f64
  sc_stripe_session_id :: string
  sc_amount_myr :: f64

text \<open>The bearer token of the request, empty when the header is missing or malformed.\<close>

definition bearer_token :: "string option \<Rightarrow> string" where
  "bearer_token header = unwrap_or [] (Option.bind header (strip_prefix ''Bearer ''))"

definition deposit_row_of :: "credit_row \<Rightarrow> f64 \<Rightarrow> int \<Rightarrow> db_error + credit_row" where
  "deposit_row_of r amount now =
     and_then (sql_add (c_available r) (Some amount)) (\<lambda>a.
     Inr (r\<lparr>c_available := a, c_updated_at := Some now\<rparr>))"

definition credit_deposit :: "string \<Rightarrow> f64 \<Rightarrow> (coord_db world, db_error, unit) prog" where
  "credit_deposit acct amount = db_exec (\<lambda>now. on_credits
     (sql_upsert c_account_id ((new_credit_row acct now)\<lparr>c_available := Some amount\<rparr>)
        (\<lambda>r. deposit_row_of r amount now)))"

text \<open>
  The insert into \<open>deposit_records\<close>. \<open>amount_nmc\<close> is \<open>NOT NULL\<close> without a default; a
  statement that does not list the column leaves it \<open>NULL\<close>.
\<close>

definition insert_deposit ::
  "string \<Rightarrow> string \<Rightarrow> f64 option \<Rightarrow> f64 \<Rightarrow> (coord_db world, db_error, unit) prog" where
  "insert_deposit sid acct amount_nmc amount_myr = db_exec (\<lambda>now d.
     case amount_nmc of
       None \<Rightarrow> Inl Not_Null_Violation
     | Some n \<Rightarrow>
         (if \<not> fk a_account_id (accounts d) (Some acct) then Inl Fk_Violation
          else on_deposits (sql_insert d_session_id
                 \<lparr>d_session_id = sid, d_account_id = acct, d_amount_nmc = n,
                  d_amount_myr = amount_myr, d_deposited_at = now\<rparr>) d))"

definition stripe_credit :: "string option \<Rightarrow> string option \<Rightarrow> stripe_credit_body \<Rightarrow> json handler" where
  "stripe_credit internal_secret authorization b =
     (let expected = unwrap_or [] internal_secret;
          token = bearer_token authorization
      in if token \<noteq> expected then failE (Status UNAUTHORIZED)
         else if f64_le (sc_amount_nmc b) (Fin 0) then failE (Status BAD_REQUEST)
         else
           bindE (map_errE ise (db_query (\<lambda>_ d. Inr
               (int (length (filter (\<lambda>r. d_session_id r = sc_stripe_session_id b) (deposits d))))))) (\<lambda>already.
           if already > 0 then retE (JObj [(''ok'', JBool True), (''duplicate'', JBool True)])
           else
             seqE (map_errE ise (credit_deposit (sc_account_id b) (sc_amount_nmc b)))
             (seqE (map_errE ise (insert_deposit (sc_stripe_session_id b) (sc_account_id b) None (sc_amount_myr b)))
             (bindE new_uuid (\<lambda>tx_id.
             seqE (map_errE ise (insert_tx tx_id (sc_account_id b) ''deposit'' (sc_amount_nmc b) False
                     (Some (sc_stripe_session_id b)) ''Stripe top-up''))
             (retE (JObj [(''ok'', JBool True), (''credited_nmc'', j_f64 (sc_amount_nmc b))])))))))"

section \<open>Withdrawal\<close>

record withdraw_body =
  wd_account_id :: string
  wd_destination_address :: string
  wd_amount_nmc :: f64
  wd_chain :: string

definition is_eth_address :: "string \<Rightarrow> bool" where
  "is_eth_address a \<longleftrightarrow> starts_with ''0x'' a \<and> length a = 42"

definition is_sol_address :: "string \<Rightarrow> bool" where
  "is_sol_address a \<longleftrightarrow> 32 \<le> length a \<and> length a \<le> 44 \<and> \<not> starts_with ''0x'' a"

definition invalid_address :: json where
  "invalid_address = JObj
     [(''ok'', JBool False), (''error'', JStr ''invalid_address''),
      (''message'', JStr (''Provide a valid Ethereum (0x'' @ [CHR 0xE2, CHR 0x80, CHR 0xA6] @ '') or Solana address''))]"

definition available_balance :: "string \<Rightarrow> coord_db \<Rightarrow> f64" where
  "available_balance acct d =
     (case credit_of d acct of None \<Rightarrow> Fin 0 | Some c \<Rightarrow> unwrap_or (Fin 0) (c_available c))"

definition insufficient :: "f64 \<Rightarrow> f64 \<Rightarrow> json" where
  "insufficient bal amount = JObj
     [(''ok'', JBool False), (''error'', JStr ''insufficient_balance''),
      (''message'', JFmt ''Available: {:.4} NMC, requested: {:.4}'' [bal, amount])]"

text \<open>The first half of the handler: its checks. \<open>Some\<close> answer ends the handler.\<close>

definition withdraw_check :: "withdraw_body \<Rightarrow> json option handler" where
  "withdraw_check b =
     (if f64_le (wd_amount_nmc b) (Fin 0) then failE (Status BAD_REQUEST)
      else if \<not> is_eth_address (wd_destination_address b) \<and> \<not> is_sol_address (wd_destination_address b)
      then retE (Some invalid_address)
      else
        bindE (map_errE ise (db_query (\<lambda>_ d. Inr (available_balance (wd_account_id b) d)))) (\<lambda>bal.
        if f64_lt bal (wd_amount_nmc b) then retE (Some (insufficient bal (wd_amount_nmc b)))
        else retE None))"

definition deduct_row :: "f64 \<Rightarrow> int \<Rightarrow> credit_row \<Rightarrow> db_error + credit_row" where
  "deduct_row amount now r =
     and_then (sql_sub (c_available r) (Some amount)) (\<lambda>a.
     Inr (r\<lparr>c_available := a, c_updated_at := Some now\<rparr>))"

definition deduct :: "string \<Rightarrow> f64 \<Rightarrow> (coord_db world, db_error, unit) prog" where
  "deduct acct amount = db_exec (\<lambda>now. on_credits
     (sql_update (\<lambda>r. c_account_id r = acct) (deduct_row amount now)))"

text \<open>The second half: the deduction and its record.\<close>

definition withdraw_apply :: "withdraw_body \<Rightarrow> json handler" where
  "withdraw_apply b =
     seqE (map_errE ise (deduct (wd_account_id b) (wd_amount_nmc b)))
     (bindE new_uuid (\<lambda>tx_id.
     seqE (map_errE ise (insert_tx tx_id (wd_account_id b) ''withdrawal'' (f64_neg (wd_amount_nmc b)) False
             (Some (wd_destination_address b)) ''Withdrawal request queued''))
     (retE (JObj
       [(''ok'', JBool True), (''tx_id'', JStr tx_id),
        (''message'', JStr (''Withdrawal queued '' @ [CHR 0xE2, CHR 0x80, CHR 0x94] @
           '' processed within 24 hours to your on-chain address''))]))))"

definition withdraw :: "withdraw_body \<Rightarrow> json handler" where
  "withdraw b = bindE (withdraw_check b) (\<lambda>refusal.
     case refusal of Some r \<Rightarrow> retE r | None \<Rightarrow> withdraw_apply b)"

section \<open>Artifacts\<close>

text \<open>
  One field of the multipart request: its name, file name, and what reading it as text and as
  bytes gives (\<open>None\<close>: the read fails). \<open>Bad_Part\<close> is a parse error of the stream.
\<close>

datatype part = Bad_Part | Part "string option" "string option" "string option" "string option"

fun collect_parts ::
  "part list \<Rightarrow> string \<Rightarrow> (string \<times> string) list \<Rightarrow> rest_error + (string \<times> (string \<times> string) list)" where
  "collect_parts [] bundle_hash files = Inr (bundle_hash, files)"
| "collect_parts (Bad_Part # ps) bundle_hash files = Inl (Status BAD_REQUEST)"
| "collect_parts (Part name file_name txt data # ps) bundle_hash files =
     (let nm = unwrap_or [] name in
      if nm = ''bundle_hash''
      then (case txt of None \<Rightarrow> Inl (Status BAD_REQUEST) | Some t \<Rightarrow> collect_parts ps t files)
      else (case data of
              None \<Rightarrow> Inl (Status BAD_REQUEST)
            | Some x \<Rightarrow> collect_parts ps bundle_hash (files @ [(unwrap_or nm file_name, x)])))"

text \<open>\<open>Path::file_name\<close>: the last component, unless it is \<open>..\<close> or there is none.\<close>

definition path_file_name :: "string \<Rightarrow> string option" where
  "path_file_name s =
     (let cs = filter (\<lambda>c. c \<noteq> [] \<and> c \<noteq> ''.'') (split_on (CHR ''/'') s)
      in if cs = [] \<or> last cs = ''..'' then None else Some (last cs))"

text \<open>The name a file is written under, and the argument \<open>tar\<close> is given for it.\<close>

definition safe_name :: "string \<Rightarrow> string" where
  "safe_name name = unwrap_or ''file'' (path_file_name name)"

definition tar_arg :: "string \<Rightarrow> string" where
  "tar_arg name = unwrap_or name (path_file_name name)"

datatype tar_result = Setup_Failed | Tar_Failed | Tar_Ok string

definition insert_artifact :: "string \<Rightarrow> string \<Rightarrow> (coord_db world, db_error, unit) prog" where
  "insert_artifact h gz = db_exec (\<lambda>now. on_artifacts
     (\<lambda>t. Inr (sql_insert_ignore b_hash \<lparr>b_hash = h, b_bundle_gz = gz\<rparr> t)))"

definition artifact_url :: "string \<Rightarrow> string \<Rightarrow> string" where
  "artifact_url public_url h =
     (if public_url = [] then [] else trim_end_matches (CHR ''/'') public_url) @ ''/api/v1/artifacts/'' @ h"

text \<open>\<open>tar\<close>: what writing these files and running the process with these arguments gives.\<close>

definition upload_artifact ::
  "((string \<times> string) list \<Rightarrow> string list \<Rightarrow> tar_result) \<Rightarrow> string \<Rightarrow> part list \<Rightarrow> json handler" where
  "upload_artifact tar public_url parts =
     (case collect_parts parts [] [] of
        Inl e \<Rightarrow> failE e
      | Inr (bundle_hash, files) \<Rightarrow>
          if bundle_hash = [] \<or> files = [] then failE (Status BAD_REQUEST)
          else if \<not> list_all is_ascii_hexdigit bundle_hash then failE (Status BAD_REQUEST)
          else (case tar (map (\<lambda>(n, x). (safe_name n, x)) files) (map (\<lambda>(n, x). tar_arg n) files) of
                  Setup_Failed \<Rightarrow> failE (Status INTERNAL_SERVER_ERROR)
                | Tar_Failed \<Rightarrow> failE (Status INTERNAL_SERVER_ERROR)
                | Tar_Ok gz \<Rightarrow>
                    seqE (map_errE ise (insert_artifact bundle_hash gz))
                    (retE (JObj [(''url'', JStr (artifact_url public_url bundle_hash)),
                                 (''bundle_hash'', JStr bundle_hash)]))))"

definition download_artifact :: "string \<Rightarrow> (string \<times> string) handler" where
  "download_artifact h =
     (if \<not> list_all is_ascii_hexdigit h then failE (Status BAD_REQUEST)
      else
        bindE (map_errE ise (db_query (\<lambda>_ d. Inr (sql_first (\<lambda>a. b_hash a = h) (artifacts d))))) (\<lambda>row0.
        bindE (someE (Status NOT_FOUND) row0) (\<lambda>row.
        bindE (someE Panicked (slice_to h (min 8 (length h)))) (\<lambda>short.
        retE (''attachment; filename=\"bundle-'' @ short @ ''.tar.gz\"'', b_bundle_gz row)))))"

section \<open>The invariant\<close>

lemma deposit_row_key: "deposit_row_of r m now = Inr r' \<Longrightarrow> c_account_id r' = c_account_id r"
  by (auto simp: deposit_row_of_def and_then_eq_Inr)

lemma deduct_row_key: "deduct_row m now r = Inr r' \<Longrightarrow> c_account_id r' = c_account_id r"
  by (auto simp: deduct_row_def and_then_eq_Inr)

lemma keeps_credit_deposit [keeps_intro]: "keeps_db (credit_deposit acct m)"
  unfolding credit_deposit_def by (rule keeps_db_exec) (erule inv_upsert_credits, simp, erule deposit_row_key)

lemma keeps_insert_deposit [keeps_intro]: "keeps_db (insert_deposit sid acct n m)"
  unfolding insert_deposit_def
  by (rule keeps_db_exec) (auto split: if_splits option.splits elim: inv_insert_deposits)

lemma keeps_deduct [keeps_intro]: "keeps_db (deduct acct m)"
  unfolding deduct_def by (rule keeps_db_exec) (erule inv_update_credits, simp, erule deduct_row_key)

lemma keeps_insert_artifact [keeps_intro]: "keeps_db (insert_artifact h gz)"
  unfolding insert_artifact_def
  by (rule keeps_db_exec) (auto elim!: inv_on_artifacts intro: keys_distinct_insert_ignore)

lemma keeps_stripe_credit [keeps_intro]: "keeps_db (stripe_credit sec auth b)"
  unfolding stripe_credit_def Let_def by (intro keeps_intro)

lemma keeps_withdraw [keeps_intro]: "keeps_db (withdraw b)"
  unfolding withdraw_def withdraw_check_def withdraw_apply_def by (intro keeps_intro)

lemma keeps_upload_artifact [keeps_intro]: "keeps_db (upload_artifact tar url parts)"
  unfolding upload_artifact_def
  by (auto split: sum.split prod.split tar_result.split intro!: keeps_intro)

section \<open>Properties\<close>

text \<open>What the two halves of a withdrawal do.\<close>

lemma deduct_run:
  assumes "wfaults w = []" "db_inv (wdb w)" "credit_of (wdb w) acct = Some c" "c_available c = Some (Fin a)"
    and "f64_of (a - m) = Fin a'"
  shows "\<exists>t. deduct acct (Fin m) w = (Inr (), w\<lparr>wdb := (wdb w)\<lparr>credits := t\<rparr>\<rparr>) \<and>
     sql_first (\<lambda>r. c_account_id r = acct) t = Some (c\<lparr>c_available := Some (Fin a'), c_updated_at := Some (wnow w)\<rparr>) \<and>
     (\<forall>k. k \<noteq> acct \<longrightarrow> sql_first (\<lambda>r. c_account_id r = k) t = credit_of (wdb w) k)"
proof -
  have kd: "keys_distinct c_account_id (credits (wdb w))" using assms(2) by (simp add: db_inv_def pk_inv_def)
  have row: "deduct_row (Fin m) (wnow w) c = Inr (c\<lparr>c_available := Some (Fin a'), c_updated_at := Some (wnow w)\<rparr>)"
    using assms(4,5) by (simp add: deduct_row_def)
  obtain t where t: "sql_update (\<lambda>r. c_account_id r = acct) (deduct_row (Fin m) (wnow w)) (credits (wdb w)) = Inr t"
    "sql_first (\<lambda>r. c_account_id r = acct) t = Some (c\<lparr>c_available := Some (Fin a'), c_updated_at := Some (wnow w)\<rparr>)"
    "\<forall>k. k \<noteq> acct \<longrightarrow> sql_first (\<lambda>r. c_account_id r = k) t = credit_of (wdb w) k"
    using credits_tbl.modify_hit [where f = "deduct_row (Fin m) (wnow w)", OF kd assms(3) row] by auto
  moreover have "deduct acct (Fin m) w = (Inr (), w\<lparr>wdb := (wdb w)\<lparr>credits := t\<rparr>\<rparr>)"
    using assms(1) t(1) by (simp add: deduct_def prog_simps on_credits_def)
  ultimately show ?thesis by blast
qed

lemma withdraw_apply_run:
  assumes "wfaults w = []" "db_inv (wdb w)" "credit_of (wdb w) (wd_account_id b) = Some c"
    and "c_available c = Some (Fin a)" "wd_amount_nmc b = Fin m" "f64_of (a - m) = Fin a'"
    and "sql_first (\<lambda>x. t_tx_id x = wids w (widn w)) (txs (wdb w)) = None"
  shows "\<exists>r w' t. withdraw_apply b w = (Inr r, w') \<and> j_get ''ok'' r = JBool True \<and>
     wfaults w' = [] \<and> db_inv (wdb w') \<and> wids w' = wids w \<and> widn w' = Suc (widn w) \<and> wnow w' = wnow w \<and>
     credit_of (wdb w') (wd_account_id b) = Some (c\<lparr>c_available := Some (Fin a'), c_updated_at := Some (wnow w)\<rparr>) \<and>
     (\<forall>k. k \<noteq> wd_account_id b \<longrightarrow> credit_of (wdb w') k = credit_of (wdb w) k) \<and>
     txs (wdb w') = txs (wdb w) @ [t] \<and> t_tx_id t = wids w (widn w) \<and> t_tx_type t = ''withdrawal'' \<and>
     t_amount t = Fin (- m) \<and> t_account_id t = wd_account_id b \<and> t_reference t = Some (wd_destination_address b)"
proof -
  obtain tab where d: "deduct (wd_account_id b) (Fin m) w = (Inr (), w\<lparr>wdb := (wdb w)\<lparr>credits := tab\<rparr>\<rparr>)"
    "sql_first (\<lambda>r. c_account_id r = wd_account_id b) tab = Some (c\<lparr>c_available := Some (Fin a'), c_updated_at := Some (wnow w)\<rparr>)"
    "\<forall>k. k \<noteq> wd_account_id b \<longrightarrow> sql_first (\<lambda>r. c_account_id r = k) tab = credit_of (wdb w) k"
    using deduct_run [OF assms(1-4,6)] by blast
  have keep: "keeps_db (withdraw_apply b)" unfolding withdraw_apply_def by (intro keeps_intro)
  have "db_inv (wdb (snd (withdraw_apply b w)))" by (rule keepsD [OF keep assms(2)])
  with d assms(1,5,7) show ?thesis
    by (auto simp: withdraw_apply_def prog_simps insert_tx_def on_table_defs sql_insert_new j_get_def)
qed

lemma withdraw_check_run:
  assumes "wfaults w = []" "credit_of (wdb w) (wd_account_id b) = Some c" "c_available c = Some (Fin a)"
    and "wd_amount_nmc b = Fin m" "0 < m" "m \<le> a"
    and "is_eth_address (wd_destination_address b) \<or> is_sol_address (wd_destination_address b)"
  shows "withdraw_check b w = (Inr None, w)"
  using assms by (auto simp: withdraw_check_def prog_simps available_balance_def f64_le_def f64_lt_def less_f64_def)

text \<open>A withdrawal within the balance to a well-formed address takes exactly the amount (as
  \<open>f64\<close> subtraction) from the account, never below zero and from no other account, and queues
  one \<open>withdrawal\<close> transaction of the negated amount to the address.\<close>

theorem withdraw_deducts:
  assumes "wfaults w = []" "db_inv (wdb w)" "credit_of (wdb w) (wd_account_id b) = Some c"
    and "c_available c = Some (Fin a)" "wd_amount_nmc b = Fin m" "0 < m" "m \<le> a"
    and "is_eth_address (wd_destination_address b) \<or> is_sol_address (wd_destination_address b)"
    and "sql_first (\<lambda>x. t_tx_id x = wids w (widn w)) (txs (wdb w)) = None" "f64_ok (Fin a)"
  shows "\<exists>r w' t a'. withdraw b w = (Inr r, w') \<and> j_get ''ok'' r = JBool True \<and>
     0 \<le> a' \<and> a' \<le> a \<and> f64_sub (Fin a) (Fin m) = Fin a' \<and>
     credit_of (wdb w') (wd_account_id b) = Some (c\<lparr>c_available := Some (Fin a'), c_updated_at := Some (wnow w)\<rparr>) \<and>
     (\<forall>k. k \<noteq> wd_account_id b \<longrightarrow> credit_of (wdb w') k = credit_of (wdb w) k) \<and>
     txs (wdb w') = txs (wdb w) @ [t] \<and> t_tx_type t = ''withdrawal'' \<and> t_amount t = Fin (- m) \<and>
     t_reference t = Some (wd_destination_address b)"
proof -
  obtain a' where a': "f64_of (a - m) = Fin a'" "0 \<le> a'" "a' \<le> a"
    using f64_of_between [of 0 a "a - m"] assms(6,7,10) by auto
  from withdraw_apply_run [OF assms(1-5) a'(1) assms(9)] withdraw_check_run [OF assms(1,3-8)] a'
  show ?thesis by (auto simp: withdraw_def prog_simps)
qed

text \<open>The balance check and the deduction are separate statements: when two withdrawals that
  each pass the check have both checked before either deducts, both are granted and the balance
  goes negative if their sum exceeds it.\<close>

theorem withdraw_race_overdraws:
  assumes "wfaults w = []" "db_inv (wdb w)" "credit_of (wdb w) (wd_account_id b) = Some c"
    and "c_available c = Some (Fin a)" "wd_amount_nmc b = Fin m" "0 < m" "m \<le> a" "a < m + m"
    and "is_eth_address (wd_destination_address b) \<or> is_sol_address (wd_destination_address b)"
    and "f64_of (a - m) = Fin (a - m)" "f64_of (a - m - m) = Fin (a - m - m)"
    and "sql_first (\<lambda>x. t_tx_id x = wids w (widn w)) (txs (wdb w)) = None"
    and "sql_first (\<lambda>x. t_tx_id x = wids w (Suc (widn w))) (txs (wdb w)) = None" "wids w (Suc (widn w)) \<noteq> wids w (widn w)"
  shows "\<exists>w1 w2 r1 r2 c'. withdraw_check b w = (Inr None, w) \<and>
     withdraw_apply b w = (Inr r1, w1) \<and> j_get ''ok'' r1 = JBool True \<and>
     withdraw_apply b w1 = (Inr r2, w2) \<and> j_get ''ok'' r2 = JBool True \<and>
     credit_of (wdb w2) (wd_account_id b) = Some c' \<and> c_available c' = Some (Fin (a - m - m)) \<and> a - m - m < 0"
proof -
  have chk: "withdraw_check b w = (Inr None, w)" by (rule withdraw_check_run) fact+
  obtain r1 w1 t where one: "withdraw_apply b w = (Inr r1, w1)" "j_get ''ok'' r1 = JBool True" "wfaults w1 = []"
    "db_inv (wdb w1)" "wids w1 = wids w" "widn w1 = Suc (widn w)"
    "credit_of (wdb w1) (wd_account_id b) = Some (c\<lparr>c_available := Some (Fin (a - m)), c_updated_at := Some (wnow w)\<rparr>)"
    "txs (wdb w1) = txs (wdb w) @ [t]" "t_tx_id t = wids w (widn w)"
    using withdraw_apply_run [OF assms(1-5,10,12)] by blast
  have "sql_first (\<lambda>x. t_tx_id x = wids w1 (widn w1)) (txs (wdb w1)) = None"
    using one(5,6,8,9) assms(13,14) by (simp add: sql_first_append)
  from withdraw_apply_run [OF one(3,4,7) _ assms(5,11) this] chk one(1,2) assms(8)
  show ?thesis by fastforce
qed

definition demo_withdraw :: withdraw_body where
  "demo_withdraw = \<lparr>wd_account_id = ''acct'', wd_destination_address = ''0x'' @ replicate 40 (CHR ''a''),
     wd_amount_nmc = Fin 8, wd_chain = ''arbitrum''\<rparr>"

lemma demo_withdraw_facts [simp]:
  "wd_account_id demo_withdraw = ''acct''" "wd_amount_nmc demo_withdraw = Fin 8"
  "is_eth_address (wd_destination_address demo_withdraw)" "txs demo_db = []"
  by (simp_all add: demo_withdraw_def is_eth_address_def starts_with_def demo_db_def empty_db_def)

theorem withdraw_deducts_witness:
  "\<exists>r w'. withdraw demo_withdraw (world_at demo_db) = (Inr r, w') \<and>
     credit_of (wdb w') ''acct'' = Some (demo_credit\<lparr>c_available := Some (Fin 2), c_updated_at := Some 1000\<rparr>)"
  using withdraw_deducts [where w = "world_at demo_db" and b = demo_withdraw and c = demo_credit and a = 10 and m = 8]
  by auto

theorem withdraw_race_overdraws_witness:
  "\<exists>w1 w2 r1 r2 c'. withdraw_check demo_withdraw (world_at demo_db) = (Inr None, world_at demo_db) \<and>
     withdraw_apply demo_withdraw (world_at demo_db) = (Inr r1, w1) \<and> withdraw_apply demo_withdraw w1 = (Inr r2, w2) \<and>
     credit_of (wdb w2) ''acct'' = Some c' \<and> c_available c' = Some (Fin (- 6))"
  using withdraw_race_overdraws [where w = "world_at demo_db" and b = demo_withdraw and c = demo_credit and a = 10 and m = 8]
  by auto

text \<open>The Stripe credit.\<close>

lemma insert_deposit_null: "wfaults w = [] \<Longrightarrow> insert_deposit sid acct None m w = (Inl Not_Null_Violation, w)"
  by (simp add: insert_deposit_def prog_simps)

lemma stripe_credit_run:
  assumes "wfaults w = []" "db_inv (wdb w)" "bearer_token auth = unwrap_or [] secret"
    and "sc_amount_nmc b = Fin m" "0 < m" "credit_of (wdb w) (sc_account_id b) = Some c" "c_available c = Some (Fin a)"
    and "f64_of (a + m) = Fin a'"
    and "\<forall>r\<in>set (deposits (wdb w)). d_session_id r \<noteq> sc_stripe_session_id b"
  shows "\<exists>w1. stripe_credit secret auth b w = (Inl (Status INTERNAL_SERVER_ERROR), w1) \<and> wfaults w1 = [] \<and>
     db_inv (wdb w1) \<and> deposits (wdb w1) = deposits (wdb w) \<and> txs (wdb w1) = txs (wdb w) \<and>
     credit_of (wdb w1) (sc_account_id b) = Some (c\<lparr>c_available := Some (Fin a'), c_updated_at := Some (wnow w)\<rparr>)"
proof -
  let ?acct = "sc_account_id b"
  have kd: "keys_distinct c_account_id (credits (wdb w))" using assms(2) by (simp add: db_inv_def pk_inv_def)
  have row: "deposit_row_of c (Fin m) (wnow w) = Inr (c\<lparr>c_available := Some (Fin a'), c_updated_at := Some (wnow w)\<rparr>)"
    using assms(7,8) by (simp add: deposit_row_of_def)
  obtain t where t: "sql_update (\<lambda>r. c_account_id r = ?acct) (\<lambda>r. deposit_row_of r (Fin m) (wnow w)) (credits (wdb w)) = Inr t"
    "sql_first (\<lambda>r. c_account_id r = ?acct) t = Some (c\<lparr>c_available := Some (Fin a'), c_updated_at := Some (wnow w)\<rparr>)"
    using credits_tbl.modify_hit [where f = "\<lambda>r. deposit_row_of r (Fin m) (wnow w)", OF kd assms(6) row] by auto
  have k: "c_account_id ((new_credit_row ?acct now)\<lparr>c_available := x\<rparr>) = ?acct" for now x by (simp add: new_credit_row_def)
  have ups: "sql_upsert c_account_id ((new_credit_row ?acct (wnow w))\<lparr>c_available := Some (Fin m)\<rparr>)
      (\<lambda>r. deposit_row_of r (Fin m) (wnow w)) (credits (wdb w)) = Inr t"
    using sql_upsert_hit [of c_account_id "(new_credit_row ?acct (wnow w))\<lparr>c_available := Some (Fin m)\<rparr>"] assms(6) t(1)
    by (simp add: k)
  have none: "filter (\<lambda>r. d_session_id r = sc_stripe_session_id b) (deposits (wdb w)) = []"
    using assms(9) by (auto simp: filter_empty_conv)
  have run: "stripe_credit secret auth b w = (Inl (Status INTERNAL_SERVER_ERROR), w\<lparr>wdb := (wdb w)\<lparr>credits := t\<rparr>\<rparr>)"
    using assms(1,3-5) ups none
    by (simp add: stripe_credit_def prog_simps credit_deposit_def on_credits_def insert_deposit_null f64_le_def Let_def)
  have "db_inv (wdb (snd (stripe_credit secret auth b w)))" by (rule keepsD [OF keeps_stripe_credit assms(2)])
  then show ?thesis using t(2) assms(1) unfolding run by simp
qed

text \<open>A Stripe credit takes effect and is then reported as a failure: the insert into
  \<open>deposit_records\<close> leaves out the mandatory \<open>amount_nmc\<close>, so the handler ends with a 500 after
  the balance was raised and before the session is recorded. When Stripe delivers the event
  again, the duplicate check finds nothing and the account is credited a second time.\<close>

theorem stripe_retry_credits_again:
  assumes "wfaults w = []" "db_inv (wdb w)" "bearer_token auth = unwrap_or [] secret"
    and "sc_amount_nmc b = Fin m" "0 < m" "credit_of (wdb w) (sc_account_id b) = Some c" "c_available c = Some (Fin a)"
    and "f64_of (a + m) = Fin (a + m)" "f64_of (a + m + m) = Fin (a + m + m)"
    and "\<forall>r\<in>set (deposits (wdb w)). d_session_id r \<noteq> sc_stripe_session_id b"
  shows "\<exists>w1 w2 c'. stripe_credit secret auth b w = (Inl (Status INTERNAL_SERVER_ERROR), w1) \<and>
     stripe_credit secret auth b w1 = (Inl (Status INTERNAL_SERVER_ERROR), w2) \<and>
     credit_of (wdb w2) (sc_account_id b) = Some c' \<and> c_available c' = Some (Fin (a + m + m)) \<and>
     deposits (wdb w2) = deposits (wdb w) \<and> txs (wdb w2) = txs (wdb w)"
proof -
  obtain w1 where one: "stripe_credit secret auth b w = (Inl (Status INTERNAL_SERVER_ERROR), w1)" "wfaults w1 = []"
     "db_inv (wdb w1)" "deposits (wdb w1) = deposits (wdb w)" "txs (wdb w1) = txs (wdb w)"
     "credit_of (wdb w1) (sc_account_id b) = Some (c\<lparr>c_available := Some (Fin (a + m)), c_updated_at := Some (wnow w)\<rparr>)"
    using stripe_credit_run [OF assms(1-8,10)] by blast
  from stripe_credit_run [OF one(2,3) assms(3-5) one(6) _ assms(9)] one(1,4,5) assms(10)
  show ?thesis by fastforce
qed

definition demo_stripe :: stripe_credit_body where
  "demo_stripe = \<lparr>sc_account_id = ''acct'', sc_amount_nmc = Fin 5, sc_stripe_session_id = ''cs_1'', sc_amount_myr = Fin 20\<rparr>"

theorem stripe_retry_credits_again_witness:
  "\<exists>w1 w2 c'. stripe_credit (Some ''s3cret'') (Some ''Bearer s3cret'') demo_stripe (world_at demo_db) =
       (Inl (Status INTERNAL_SERVER_ERROR), w1) \<and>
     stripe_credit (Some ''s3cret'') (Some ''Bearer s3cret'') demo_stripe w1 = (Inl (Status INTERNAL_SERVER_ERROR), w2) \<and>
     credit_of (wdb w2) ''acct'' = Some c' \<and> c_available c' = Some (Fin 20)"
proof -
  have tok: "bearer_token (Some ''Bearer s3cret'') = unwrap_or [] (Some ''s3cret'')"
    by (simp add: bearer_token_def strip_prefix_def starts_with_def)
  have f: "sc_amount_nmc demo_stripe = Fin 5" "sc_account_id demo_stripe = ''acct''" "deposits demo_db = []"
    by (simp_all add: demo_stripe_def demo_db_def empty_db_def)
  show ?thesis
    using stripe_retry_credits_again [where w = "world_at demo_db" and b = demo_stripe and m = 5 and c = demo_credit and a = 10,
       OF _ _ tok] by (auto simp: f)
qed

text \<open>The internal endpoint fails open: on a server without \<open>INTERNAL_SECRET\<close> the expected
  token is empty, and so is the token of a request without an authorization header; such a
  request is let through to the credit.\<close>

theorem stripe_credit_open_without_secret:
  assumes "wfaults w = []" "db_inv (wdb w)"
    and "sc_amount_nmc b = Fin m" "0 < m" "credit_of (wdb w) (sc_account_id b) = Some c" "c_available c = Some (Fin a)"
    and "f64_of (a + m) = Fin a'"
    and "\<forall>r\<in>set (deposits (wdb w)). d_session_id r \<noteq> sc_stripe_session_id b"
  shows "\<exists>r w1 c'. stripe_credit None None b w = (r, w1) \<and>
     credit_of (wdb w1) (sc_account_id b) = Some c' \<and> c_available c' = Some (Fin a')"
proof -
  have "bearer_token None = unwrap_or [] None" by (simp add: bearer_token_def)
  from stripe_credit_run [OF assms(1,2) this assms(3-8)] show ?thesis by fastforce
qed

theorem stripe_credit_open_without_secret_witness:
  "\<exists>r w1 c'. stripe_credit None None demo_stripe (world_at demo_db) = (r, w1) \<and>
     credit_of (wdb w1) ''acct'' = Some c' \<and> c_available c' = Some (Fin 15)"
proof -
  have f: "sc_amount_nmc demo_stripe = Fin 5" "sc_account_id demo_stripe = ''acct''" "deposits demo_db = []"
    by (simp_all add: demo_stripe_def demo_db_def empty_db_def)
  show ?thesis
    using stripe_credit_open_without_secret [where w = "world_at demo_db" and b = demo_stripe and m = 5 and c = demo_credit
      and a = 10 and a' = 15] by (auto simp: f)
qed

text \<open>An artifact can be downloaded under the hash it was uploaded with, and stays what it is:
  after the first upload of a hash, a later upload of anything under that hash leaves the stored
  bundle alone. The hash is the client's word; nothing compares it with the content.\<close>

theorem artifact_first_upload_wins:
  assumes "wfaults w = []" "sql_first (\<lambda>a. b_hash a = h) (artifacts (wdb w)) = None"
    and "collect_parts parts [] [] = Inr (h, files)" "files \<noteq> []" "h \<noteq> []" "list_all is_ascii_hexdigit h"
    and "tar (map (\<lambda>(n, x). (safe_name n, x)) files) (map (\<lambda>(n, x). tar_arg n) files) = Tar_Ok gz"
    and "collect_parts parts' [] [] = Inr (h, files')" "files' \<noteq> []"
    and "tar (map (\<lambda>(n, x). (safe_name n, x)) files') (map (\<lambda>(n, x). tar_arg n) files') = Tar_Ok gz'"
  shows "\<exists>r1 w1 r2 name. upload_artifact tar url parts w = (Inr r1, w1) \<and>
     upload_artifact tar url parts' w1 = (Inr r2, w1) \<and> download_artifact h w1 = (Inr (name, gz), w1)"
proof -
  have ascii: "\<not> is_cont_byte c" if "c \<in> set h" for c
    using that assms(6) by (auto simp: list_all_iff is_ascii_hexdigit_def is_cont_byte_def Let_def)
  then have slice: "\<exists>s. slice_to h (min 8 (length h)) = Some s"
    by (auto simp: slice_to_def is_char_boundary_def min_def)
  have new: "h \<notin> b_hash ` set (artifacts (wdb w))" using assms(2) by (simp only: sql_first_None_iff not_False_eq_True)
  let ?w1 = "w\<lparr>wdb := (wdb w)\<lparr>artifacts := artifacts (wdb w) @ [\<lparr>b_hash = h, b_bundle_gz = gz\<rparr>]\<rparr>\<rparr>"
  have "\<exists>r. upload_artifact tar url parts w = (Inr r, ?w1)"
    using assms(1,3-7) new
    by (simp add: upload_artifact_def prog_simps insert_artifact_def on_artifacts_def sql_insert_ignore_def)
  moreover have "\<exists>r. upload_artifact tar url parts' ?w1 = (Inr r, ?w1)"
    using assms(1,5,6,8-10)
    by (simp add: upload_artifact_def prog_simps insert_artifact_def on_artifacts_def sql_insert_ignore_def)
  moreover have "\<exists>name. download_artifact h ?w1 = (Inr (name, gz), ?w1)"
    using slice assms(1,2,6) by (auto simp: download_artifact_def prog_simps sql_first_append)
  ultimately show ?thesis by blast
qed

theorem artifact_first_upload_wins_witness:
  "\<exists>r1 w1 r2 name. upload_artifact (\<lambda>fs args. Tar_Ok (concat (map snd fs))) [] 
       [Part (Some ''bundle_hash'') None (Some ''ab'') None, Part (Some ''f'') (Some ''a.py'') None (Some ''one'')] (world_at empty_db) = (Inr r1, w1) \<and>
     upload_artifact (\<lambda>fs args. Tar_Ok (concat (map snd fs))) []
       [Part (Some ''bundle_hash'') None (Some ''ab'') None, Part (Some ''f'') (Some ''a.py'') None (Some ''two'')] w1 = (Inr r2, w1) \<and>
     download_artifact ''ab'' w1 = (Inr (name, ''one''), w1)"
  by (rule artifact_first_upload_wins [where files = "[(''a.py'', ''one'')]" and files' = "[(''a.py'', ''two'')]" and gz' = "''two''"])
    (simp_all add: empty_db_def is_ascii_hexdigit_def)

text \<open>What \<open>tar\<close> is told to pack.\<close>

lemma tar_arg_dotdot: "safe_name ''..'' = ''file'' \<and> tar_arg ''..'' = ''..''"
  by (simp add: safe_name_def tar_arg_def path_file_name_def Let_def)

lemma tar_arg_option: "tar_arg (''--checkpoint-action=exec=sh x'') = ''--checkpoint-action=exec=sh x''"
  by (simp add: tar_arg_def path_file_name_def Let_def)

end
