(* ===== verification/Ledger_Service.thy ===== *)
theory Ledger_Service
  imports Rest_Ledger Rest_Lifecycle
begin

text \<open>
  The ledger service (\<open>ledger/src/off_chain/handlers.rs\<close> and the settlement endpoints of
  \<open>ledger/src/main.rs\<close>), on the same database as the coordinator, and the coordinator's
  client of those endpoints (\<open>coordinator/src/on_chain.rs\<close>). The names carry \<open>ledger\<close> where
  the coordinator has a handler of the same name.
\<close>

section \<open>Off-chain accounting\<close>

definition ledger_health :: "json handler" where
  "ledger_health = retE (JObj [(''status'', JStr ''ok''), (''service'', JStr ''neuralmesh-ledger'')])"

definition ledger_get_balance :: "string \<Rightarrow> json handler" where
  "ledger_get_balance aid =
     seqE (map_errE ise (ensure_credit_account aid))
     (bindE (map_errE ise (db_query (\<lambda>_ d. Inr (credit_of d aid)))) (\<lambda>row0.
      bindE (someE (Status NOT_FOUND) row0) (\<lambda>row.
      retE (JObj
        [(''account_id'', JStr aid), (''available_nmc'', j_opt j_f64 (c_available row)),
         (''escrowed_nmc'', j_opt j_f64 (c_escrowed row)),
         (''total_nmc'', j_f64 (f64_add (unwrap_or (Fin 0) (c_available row)) (unwrap_or (Fin 0) (c_escrowed row)))),
         (''total_earned_nmc'', j_opt j_f64 (c_earned row)), (''total_spent_nmc'', j_opt j_f64 (c_spent row))]))))"

record deposit_body =
  db_amount_nmc :: f64
  db_reference :: "string option"

definition deposit :: "string \<Rightarrow> deposit_body \<Rightarrow> json handler" where
  "deposit aid b =
     (if f64_le (db_amount_nmc b) (Fin 0) then failE (Status BAD_REQUEST)
      else
        bindE new_uuid (\<lambda>tx_id.
        seqE (map_errE ise (credit_deposit aid (db_amount_nmc b)))
        (seqE (map_errE ise (insert_tx tx_id aid ''deposit'' (db_amount_nmc b) True (db_reference b) ''Manual deposit''))
        (retE (JObj [(''ok'', JBool True), (''transaction_id'', JStr tx_id),
                     (''amount_nmc'', j_f64 (db_amount_nmc b))])))))"

record ledger_withdraw_body =
  lw_amount_nmc :: f64
  lw_dest_address :: string

text \<open>\<open>WHERE account_id = $2 AND available_nmc >= $1\<close>, in the update itself.\<close>

definition can_pay :: "string \<Rightarrow> f64 \<Rightarrow> credit_row \<Rightarrow> bool" where
  "can_pay acct amount r \<longleftrightarrow> c_account_id r = acct \<and> null_le (Some amount) (c_available r)"

definition withdraw_row :: "f64 \<Rightarrow> int \<Rightarrow> credit_row \<Rightarrow> db_error + credit_row" where
  "withdraw_row amount now r =
     and_then (sql_sub (c_available r) (Some amount)) (\<lambda>a.
     and_then (sql_add (c_spent r) (Some amount)) (\<lambda>s.
     Inr (r\<lparr>c_available := a, c_spent := s, c_updated_at := Some now\<rparr>)))"

text \<open>A guarded update and the number of rows it changed.\<close>

definition guarded_debit ::
  "string \<Rightarrow> f64 \<Rightarrow> (int \<Rightarrow> credit_row \<Rightarrow> db_error + credit_row) \<Rightarrow> (coord_db world, db_error, nat) prog" where
  "guarded_debit acct amount f = db_stmt (\<lambda>now d.
     map_sum id (\<lambda>d'. (rows_affected (can_pay acct amount) (credits d), d'))
       (on_credits (sql_update (can_pay acct amount) (f now)) d))"

definition ledger_withdraw :: "string \<Rightarrow> ledger_withdraw_body \<Rightarrow> json handler" where
  "ledger_withdraw aid b =
     (if f64_le (lw_amount_nmc b) (Fin 0) then failE (Status BAD_REQUEST)
      else
        bindE new_uuid (\<lambda>tx_id.
        bindE (map_errE ise (guarded_debit aid (lw_amount_nmc b) (withdraw_row (lw_amount_nmc b)))) (\<lambda>n.
        if n = 0 then retE (JObj [(''ok'', JBool False), (''message'', JStr ''Insufficient balance'')])
        else
          seqE (map_errE ise (insert_tx tx_id aid ''withdraw'' (f64_neg (lw_amount_nmc b)) True
                  (Some (lw_dest_address b)) ''Withdrawal request''))
          (retE (JObj [(''ok'', JBool True), (''transaction_id'', JStr tx_id),
                       (''message'', JStr ''Withdrawal queued for processing'')])))))"

record escrow_lock_body =
  el_job_id :: string
  el_consumer_id :: string
  el_provider_id :: "string option"
  el_amount_nmc :: f64

definition lock_escrow :: "escrow_lock_body \<Rightarrow> json handler" where
  "lock_escrow b =
     bindE new_uuid (\<lambda>escrow_id.
     bindE (map_errE ise (guarded_debit (el_consumer_id b) (el_amount_nmc b) (lock_row (el_amount_nmc b)))) (\<lambda>n.
     if n = 0 then retE (JObj [(''ok'', JBool False), (''message'', JStr ''Insufficient balance for escrow'')])
     else
       seqE (map_errE ise (insert_escrow escrow_id (Some (el_job_id b)) (el_consumer_id b) (el_provider_id b) (el_amount_nmc b)))
       (retE (JObj [(''ok'', JBool True), (''escrow_id'', JStr escrow_id)]))))"

record escrow_release_body =
  er_escrow_id :: string
  er_job_id :: string
  er_actual_runtime_s :: int
  er_actual_price_per_hour :: f64

text \<open>The four amounts of a settlement: the cost capped by the lock, the fee, the provider's share,
  the consumer's refund.\<close>

definition settlement :: "f64 \<Rightarrow> f64 \<Rightarrow> int \<Rightarrow> f64 \<times> f64 \<times> f64 \<times> f64" where
  "settlement locked price runtime_s =
     (let actual_hours = f64_div (f64_of_int runtime_s) (Fin 3600);
          actual_cost = f64_min (f64_mul price actual_hours) locked;
          fee = f64_mul actual_cost (f64_of (8 / 100));
          provider_gets = f64_sub actual_cost fee;
          consumer_refund = f64_sub locked actual_cost
      in (actual_cost, fee, provider_gets, consumer_refund))"

definition settle_consumer_row :: "f64 \<Rightarrow> f64 \<Rightarrow> int \<Rightarrow> credit_row \<Rightarrow> db_error + credit_row" where
  "settle_consumer_row locked refund now r =
     and_then (sql_sub (c_escrowed r) (Some locked)) (\<lambda>e.
     and_then (sql_add (c_available r) (Some refund)) (\<lambda>a.
     Inr (r\<lparr>c_escrowed := e, c_available := a, c_updated_at := Some now\<rparr>)))"

definition settle_consumer :: "string \<Rightarrow> f64 \<Rightarrow> f64 \<Rightarrow> (coord_db world, db_error, unit) prog" where
  "settle_consumer acct locked refund = db_exec (\<lambda>now. on_credits
     (sql_update (\<lambda>r. c_account_id r = acct) (settle_consumer_row locked refund now)))"

definition mark_settled :: "string \<Rightarrow> (coord_db world, db_error, unit) prog" where
  "mark_settled eid = db_exec (\<lambda>now. on_escrows (sql_update (\<lambda>e. e_escrow_id e = eid)
     (\<lambda>e. Inr (e\<lparr>e_state := Some ''released'', e_settled_at := Some now\<rparr>))))"

definition locked_escrow_by_id :: "string \<Rightarrow> coord_db \<Rightarrow> escrow_row option" where
  "locked_escrow_by_id eid d =
     sql_first (\<lambda>e. e_escrow_id e = eid \<and> e_state e = Some ''locked'') (escrows d)"

definition release_escrow :: "escrow_release_body \<Rightarrow> json handler" where
  "release_escrow b =
     bindE (map_errE ise (db_query (\<lambda>_ d. Inr (locked_escrow_by_id (er_escrow_id b) d)))) (\<lambda>escrow0.
     bindE (someE (Status NOT_FOUND) escrow0) (\<lambda>escrow.
     case settlement (e_locked_nmc escrow) (er_actual_price_per_hour b) (er_actual_runtime_s b) of
       (actual_cost, fee, provider_gets, consumer_refund) \<Rightarrow>
         seqE (map_errE ise (settle_consumer (e_consumer_id escrow) (e_locked_nmc escrow) consumer_refund))
         (seqE (map_errE ise (credit_earnings (unwrap_or [] (e_provider_id escrow)) provider_gets))
         (seqE (map_errE ise (mark_settled (er_escrow_id b)))
         (retE (JObj
           [(''ok'', JBool True), (''provider_credited'', j_f64 provider_gets),
            (''consumer_refunded'', j_f64 consumer_refund), (''platform_fee'', j_f64 fee)]))))))"

definition ledger_select_txs :: "string \<Rightarrow> coord_db \<Rightarrow> tx_row list" where
  "ledger_select_txs aid d = take 100 (order_desc t_created_at (filter (\<lambda>t. t_account_id t = aid) (txs d)))"

definition ledger_tx_json :: "tx_row \<Rightarrow> json" where
  "ledger_tx_json t = JObj
     [(''tx_id'', JStr (t_tx_id t)), (''tx_type'', JStr (t_tx_type t)), (''amount_nmc'', j_f64 (t_amount t)),
      (''balance_after'', j_f64 (unwrap_or (Fin 0) (t_balance_after t))),
      (''reference'', j_opt JStr (t_reference t)), (''description'', j_opt JStr (t_description t)),
      (''created_at'', j_opt JTime (t_created_at t))]"

definition ledger_list_transactions :: "string \<Rightarrow> json handler" where
  "ledger_list_transactions aid =
     bindE (map_errE ise (db_query (\<lambda>_ d. Inr (ledger_select_txs aid d)))) (\<lambda>rows.
     retE (JObj [(''transactions'', JArr (map ledger_tx_json rows))]))"

section \<open>The settlement endpoints and their client\<close>

text \<open>
  The ledger's oracle is a function: the transaction hash, nothing when it is disabled, or an
  error. \<open>secret\<close> is \<open>INTERNAL_SECRET\<close> in the process's environment.
\<close>

type_synonym 'a oracle_result = "string + 'a option"

definition verify_secret :: "string option \<Rightarrow> string \<Rightarrow> bool" where
  "verify_secret secret provided = (let expected = unwrap_or [] secret in expected \<noteq> [] \<and> provided = expected)"

definition on_chain_release ::
  "string option \<Rightarrow> (string \<Rightarrow> f64 \<Rightarrow> string oracle_result) \<Rightarrow> string \<Rightarrow> f64 \<Rightarrow> string \<Rightarrow> rest_error + json" where
  "on_chain_release secret oracle job_id cost provided =
     (if \<not> verify_secret secret provided then Inl (Status UNAUTHORIZED)
      else if f64_lt cost (Fin 0) then Inl (Status BAD_REQUEST)
      else (case oracle job_id cost of
              Inr (Some tx_hash) \<Rightarrow> Inr (JObj [(''ok'', JBool True), (''tx_hash'', JStr tx_hash), (''job_id'', JStr job_id)])
            | Inr None \<Rightarrow> Inr (JObj [(''ok'', JBool True), (''tx_hash'', JNull),
                (''message'', JStr (''on-chain oracle disabled '' @ [CHR 0xE2, CHR 0x80, CHR 0x94] @ '' off-chain settlement only''))])
            | Inl e \<Rightarrow> Inl (Status INTERNAL_SERVER_ERROR)))"

definition on_chain_cancel ::
  "string option \<Rightarrow> (string \<Rightarrow> string oracle_result) \<Rightarrow> string \<Rightarrow> string \<Rightarrow> rest_error + json" where
  "on_chain_cancel secret oracle job_id provided =
     (if \<not> verify_secret secret provided then Inl (Status UNAUTHORIZED)
      else (case oracle job_id of
              Inr (Some tx_hash) \<Rightarrow> Inr (JObj [(''ok'', JBool True), (''tx_hash'', JStr tx_hash)])
            | Inr None \<Rightarrow> Inr (JObj [(''ok'', JBool True), (''tx_hash'', JNull)])
            | Inl e \<Rightarrow> Inl (Status INTERNAL_SERVER_ERROR)))"

record settlement_oracle =
  so_ledger_url :: string
  so_secret :: string
  so_enabled :: bool

definition oracle_disabled :: settlement_oracle where
  "oracle_disabled = \<lparr>so_ledger_url = [], so_secret = [], so_enabled = False\<rparr>"

definition oracle_from_env :: "string option \<Rightarrow> string option \<Rightarrow> settlement_oracle" where
  "oracle_from_env ledger_url_var secret_var =
     (let ledger_url = unwrap_or [] ledger_url_var in
      if ledger_url = [] then oracle_disabled
      else
        let secret = unwrap_or [] secret_var in
        if secret = [] then oracle_disabled
        else \<lparr>so_ledger_url = ledger_url, so_secret = secret, so_enabled = True\<rparr>)"

text \<open>
  An HTTP exchange: it fails, or answers with a status and a body that may not be JSON.
\<close>

datatype http_result = Send_Failed | Http_Response bool "json option"

definition post_settlement ::
  "(string \<Rightarrow> json \<Rightarrow> http_result) \<Rightarrow> settlement_oracle \<Rightarrow> string \<Rightarrow> json \<Rightarrow> string oracle_result" where
  "post_settlement http so path body =
     (if \<not> so_enabled so then Inr None
      else (case http (so_ledger_url so @ path) body of
              Send_Failed \<Rightarrow> Inl ''send''
            | Http_Response success answer \<Rightarrow>
                if \<not> success then Inl ''status''
                else (case answer of
                        None \<Rightarrow> Inl ''json''
                      | Some j \<Rightarrow> Inr (j_as_str (j_get ''tx_hash'' j)))))"

definition so_release_escrow ::
  "(string \<Rightarrow> json \<Rightarrow> http_result) \<Rightarrow> settlement_oracle \<Rightarrow> string \<Rightarrow> f64 \<Rightarrow> string oracle_result" where
  "so_release_escrow http so job_id cost =
     post_settlement http so ''/api/v1/on_chain/release_escrow''
       (JObj [(''job_id'', JStr job_id), (''actual_cost_nmc'', j_f64 cost), (''secret'', JStr (so_secret so))])"

definition so_cancel_escrow ::
  "(string \<Rightarrow> json \<Rightarrow> http_result) \<Rightarrow> settlement_oracle \<Rightarrow> string \<Rightarrow> string oracle_result" where
  "so_cancel_escrow http so job_id =
     post_settlement http so ''/api/v1/on_chain/cancel_escrow''
       (JObj [(''job_id'', JStr job_id), (''secret'', JStr (so_secret so))])"

section \<open>The invariant\<close>

lemma withdraw_row_key: "withdraw_row m now r = Inr r' \<Longrightarrow> c_account_id r' = c_account_id r"
  by (auto simp: withdraw_row_def and_then_eq_Inr)

lemma settle_consumer_row_key: "settle_consumer_row l f now r = Inr r' \<Longrightarrow> c_account_id r' = c_account_id r"
  by (auto simp: settle_consumer_row_def and_then_eq_Inr)

lemma keeps_guarded_debit:
  "(\<And>now r r'. f now r = Inr r' \<Longrightarrow> c_account_id r' = c_account_id r) \<Longrightarrow> keeps_db (guarded_debit acct m f)"
  unfolding guarded_debit_def
  by (rule keeps_db_stmt) (auto simp: map_sum_eq_Inr elim!: inv_update_credits)

lemma keeps_debits [keeps_intro]:
  "keeps_db (guarded_debit acct m (withdraw_row k))" "keeps_db (guarded_debit acct m (lock_row k))"
  by (rule keeps_guarded_debit, erule withdraw_row_key) (rule keeps_guarded_debit, erule lock_row_key)

lemma keeps_settle_consumer [keeps_intro]: "keeps_db (settle_consumer acct l f)"
  unfolding settle_consumer_def by (rule keeps_db_exec) (erule inv_update_credits, simp, erule settle_consumer_row_key)

lemma keeps_mark_settled [keeps_intro]: "keeps_db (mark_settled eid)"
  unfolding mark_settled_def by (rule keeps_db_exec) (erule inv_update_escrows, auto)

lemma keeps_deposit [keeps_intro]: "keeps_db (deposit aid b)"
  unfolding deposit_def by (intro keeps_intro)

lemma keeps_ledger_get_balance [keeps_intro]: "keeps_db (ledger_get_balance aid)"
  unfolding ledger_get_balance_def by (intro keeps_intro)

lemma keeps_ledger_withdraw [keeps_intro]: "keeps_db (ledger_withdraw aid b)"
  unfolding ledger_withdraw_def by (intro keeps_intro)

lemma keeps_lock_escrow [keeps_intro]: "keeps_db (lock_escrow b)"
  unfolding lock_escrow_def by (intro keeps_intro)

lemma keeps_release_escrow [keeps_intro]: "keeps_db (release_escrow b)"
  unfolding release_escrow_def by (intro keeps_intro)

section \<open>Solvency\<close>

text \<open>No account is below zero and no lock is negative (\<open>NULL\<close> and \<open>NaN\<close> are not below zero).\<close>

definition nonneg :: "f64 option \<Rightarrow> bool" where
  "nonneg x \<longleftrightarrow> (case x of None \<Rightarrow> True | Some a \<Rightarrow> Fin 0 \<le> a)"

definition amount_ok :: "f64 \<Rightarrow> bool" where
  "amount_ok a \<longleftrightarrow> f64_ok a \<and> Fin 0 \<le> a"

definition solvent :: "coord_db \<Rightarrow> bool" where
  "solvent d \<longleftrightarrow> (\<forall>r\<in>set (credits d). nonneg (c_available r)) \<and> (\<forall>e\<in>set (escrows d). amount_ok (e_locked_nmc e))"

lemma nonneg_simps [simp]: "nonneg None" "nonneg (Some a) \<longleftrightarrow> Fin 0 \<le> a"
  by (simp_all add: nonneg_def)

lemma f64_sub_nonneg: "m \<le> a \<Longrightarrow> Fin 0 \<le> m \<Longrightarrow> Fin 0 \<le> f64_sub a m"
  using f64_of_nonneg by (cases a; cases m) (auto simp: f64_sub_def)

lemma f64_add_nonneg: "Fin 0 \<le> a \<Longrightarrow> Fin 0 \<le> m \<Longrightarrow> Fin 0 \<le> f64_add a m"
  using f64_of_nonneg by (cases a; cases m) auto

lemma pg_sub_nonneg: "pg_sub a m = Inr r \<Longrightarrow> m \<le> a \<Longrightarrow> Fin 0 \<le> m \<Longrightarrow> Fin 0 \<le> r"
  using f64_sub_nonneg by (auto simp: pg_sub_def pg_arith_def Let_def simp del: less_eq_f64.simps split: if_splits)

lemma pg_add_nonneg: "pg_add a m = Inr r \<Longrightarrow> Fin 0 \<le> a \<Longrightarrow> Fin 0 \<le> m \<Longrightarrow> Fin 0 \<le> r"
  using f64_add_nonneg by (auto simp: pg_add_def pg_arith_def Let_def simp del: less_eq_f64.simps split: if_splits)

lemma sql_sub_nonneg: "sql_sub x (Some m) = Inr r \<Longrightarrow> null_le (Some m) x \<Longrightarrow> Fin 0 \<le> m \<Longrightarrow> nonneg r"
  by (cases x) (auto simp: map_sum_eq_Inr simp del: less_eq_f64.simps intro: pg_sub_nonneg)

lemma sql_add_nonneg: "sql_add x (Some m) = Inr r \<Longrightarrow> nonneg x \<Longrightarrow> Fin 0 \<le> m \<Longrightarrow> nonneg r"
  by (cases x) (auto simp: map_sum_eq_Inr simp del: less_eq_f64.simps intro: pg_add_nonneg)

lemma solvent_credits:
  assumes "on_credits F d = Inr d'" "solvent d"
    and "\<And>t t'. \<forall>r\<in>set t. nonneg (c_available r) \<Longrightarrow> F t = Inr t' \<Longrightarrow> \<forall>r\<in>set t'. nonneg (c_available r)"
  shows "solvent d'"
  using assms by (auto simp: on_credits_def map_sum_eq_Inr solvent_def)

lemma solvent_update:
  assumes "on_credits (sql_update p f) d = Inr d'" "solvent d"
    and "\<And>r r'. p r \<Longrightarrow> nonneg (c_available r) \<Longrightarrow> f r = Inr r' \<Longrightarrow> nonneg (c_available r')"
  shows "solvent d'"
  by (rule solvent_credits [OF assms(1,2)]) (rule sql_update_all, assumption, rule assms(3), assumption+)

lemma solvent_upsert:
  assumes "on_credits (sql_upsert c_account_id r0 f) d = Inr d'" "solvent d" "nonneg (c_available r0)"
    and "\<And>r r'. nonneg (c_available r) \<Longrightarrow> f r = Inr r' \<Longrightarrow> nonneg (c_available r')"
  shows "solvent d'"
  by (rule solvent_credits [OF assms(1,2)]) (rule sql_upsert_all, assumption, rule assms(3), rule assms(4), assumption+)

abbreviation keeps_solvent :: "(coord_db world, 'e, 'a) prog \<Rightarrow> bool" where
  "keeps_solvent \<equiv> keeps (\<lambda>w. solvent (wdb w))"

lemma keeps_solvent_insert_tx: "keeps_solvent (insert_tx tid acct ty m bal ref descr)"
  unfolding insert_tx_def by (rule keeps_db_exec) (auto simp: on_txs_def map_sum_eq_Inr solvent_def)

lemma keeps_solvent_ensure: "keeps_solvent (ensure_credit_account aid)"
  unfolding ensure_credit_account_def
  by (rule keeps_db_exec) (auto simp: on_credits_def solvent_def sql_insert_ignore_def new_credit_row_def split: if_splits)

lemma keeps_solvent_credit_deposit: "Fin 0 \<le> m \<Longrightarrow> keeps_solvent (credit_deposit acct m)"
  unfolding credit_deposit_def
  by (rule keeps_db_exec) (erule solvent_upsert, simp_all add: deposit_row_of_def and_then_eq_Inr del: less_eq_f64.simps,
    auto intro: sql_add_nonneg)

lemma keeps_solvent_debit:
  assumes "\<And>now r r'. nonneg (c_available r) \<Longrightarrow> null_le (Some m) (c_available r) \<Longrightarrow> f now r = Inr r' \<Longrightarrow> nonneg (c_available r')"
  shows "keeps_solvent (guarded_debit acct m f)"
  unfolding guarded_debit_def
  by (rule keeps_db_stmt) (auto simp: map_sum_eq_Inr can_pay_def simp del: null_le_Some elim!: solvent_update intro: assms)

lemma keeps_solvent_insert_escrow: "amount_ok m \<Longrightarrow> keeps_solvent (insert_escrow eid jid cid pid m)"
  unfolding insert_escrow_def
  by (rule keeps_db_exec)
    (auto simp: on_escrows_def map_sum_eq_Inr solvent_def sql_insert_def simp del: less_eq_f64.simps split: if_splits)

lemma keeps_solvent_mark_settled: "keeps_solvent (mark_settled eid)"
  unfolding mark_settled_def
  by (rule keeps_db_exec) (auto simp: on_escrows_def solvent_def simp del: less_eq_f64.simps)

lemma keeps_solvent_settle_consumer: "Fin 0 \<le> f \<Longrightarrow> keeps_solvent (settle_consumer acct l f)"
  unfolding settle_consumer_def
  by (rule keeps_db_exec) (erule solvent_update,
    auto simp: settle_consumer_row_def and_then_eq_Inr simp del: less_eq_f64.simps intro: sql_add_nonneg)

lemma keeps_solvent_credit_earnings: "Fin 0 \<le> m \<Longrightarrow> keeps_solvent (credit_earnings acct m)"
  unfolding credit_earnings_def
  by (rule keeps_db_exec) (erule solvent_upsert,
    auto simp: earn_row_def earning_account_def and_then_eq_Inr simp del: less_eq_f64.simps intro: sql_add_nonneg)

lemmas keeps_solvent_intro = keeps_solvent_insert_tx keeps_solvent_ensure keeps_solvent_credit_deposit
  keeps_solvent_insert_escrow keeps_solvent_mark_settled keeps_solvent_settle_consumer keeps_solvent_credit_earnings


lemma keeps_solvent_debits:
  "Fin 0 \<le> m \<Longrightarrow> keeps_solvent (guarded_debit acct m (withdraw_row m))"
  "Fin 0 \<le> m \<Longrightarrow> keeps_solvent (guarded_debit acct m (lock_row m))"
  by (rule keeps_solvent_debit, auto simp: withdraw_row_def and_then_eq_Inr simp del: less_eq_f64.simps null_le_Some intro: sql_sub_nonneg)
    (rule keeps_solvent_debit, auto simp: lock_row_def and_then_eq_Inr simp del: less_eq_f64.simps null_le_Some intro: sql_sub_nonneg)

text \<open>What a query returned can be used with what the database promised when it ran.\<close>

lemma keeps_query_bind:
  fixes I :: "'d \<Rightarrow> bool"
  assumes "\<And>x now d. I d \<Longrightarrow> q now d = Inr x \<Longrightarrow> keeps (\<lambda>w. I (wdb w)) (f x)"
  shows "keeps (\<lambda>w. I (wdb w)) (bindE (map_errE g (db_query q)) f)"
proof (rule keepsI)
  fix w :: "'d world"
  assume I: "I (wdb w)"
  show "I (wdb (snd (bindE (map_errE g (db_query q)) f w)))"
  proof (cases "wfaults w")
    case Nil
    then show ?thesis using I assms [OF I]
      by (auto simp: prog_simps split: sum.split intro: keepsD)
  next
    case (Cons a fs)
    then show ?thesis using I assms [OF I]
      by (cases a) (auto simp: bindE_run map_errE_run db_query_def db_stmt_def run_stmt_def map_sum_eq_Inr map_sum_eq_Inl split: sum.split intro!: keepsD [where P = "\<lambda>w. I (wdb w)"])
  qed
qed

section \<open>The amounts of a settlement\<close>

lemma f64_fee: "f64_of (2 / 25) = Fin (5764607523034235 / 72057594037927936)"
  by (simp add: f64_of_def)

lemma f64_min_le: "f64_min c l \<le> l"
  by (auto simp: f64_min_def simp del: less_eq_f64.simps)

lemma f64_min_nonneg: "Fin 0 \<le> c \<Longrightarrow> Fin 0 \<le> l \<Longrightarrow> Fin 0 \<le> f64_min c l"
  by (auto simp: f64_min_def simp del: less_eq_f64.simps)

lemma f64_min_ok: "f64_ok c \<Longrightarrow> f64_ok l \<Longrightarrow> f64_ok (f64_min c l)"
  by (auto simp: f64_min_def min_def)

lemma fee_nonneg: "Fin 0 \<le> c \<Longrightarrow> 0 < k \<Longrightarrow> Fin 0 \<le> f64_mul c (Fin k)"
  using f64_of_nonneg by (cases c) (auto simp: signed_inf_def)

lemma share_nonneg:
  assumes "f64_ok c" "Fin 0 \<le> c" "0 < k" "k \<le> 1"
  shows "Fin 0 \<le> f64_sub c (f64_mul c (Fin k))"
proof (cases c)
  case (Fin q)
  then have "0 \<le> q * k" "q * k \<le> q" using assms by (simp_all add: mult_left_le)
  with Fin assms(1) obtain r where "f64_of (q * k) = Fin r" "0 \<le> r" "r \<le> q"
    using f64_of_between [of 0 q "q * k"] by auto
  with Fin show ?thesis using f64_of_nonneg [of "q - r"] by simp
qed (use assms in \<open>auto simp: signed_inf_def f64_sub_def\<close>)

lemma f64_mul_nonneg: "Fin 0 \<le> a \<Longrightarrow> Fin 0 \<le> b \<Longrightarrow> Fin 0 \<le> f64_mul a b"
proof -
  assume ab: "Fin 0 \<le> a" "Fin 0 \<le> b"
  have "Fin 0 \<le> f64_of (x * y)" if "0 \<le> x" "0 \<le> y" for x y
    using that by (simp add: f64_of_nonneg del: less_eq_f64.simps)
  with ab show ?thesis by (cases a; cases b) (simp_all add: signed_inf_def)
qed

lemma f64_div_nonneg: "Fin 0 \<le> a \<Longrightarrow> 0 < x \<Longrightarrow> Fin 0 \<le> f64_div a (Fin x)"
proof -
  assume ax: "Fin 0 \<le> a" "0 < x"
  have "Fin 0 \<le> f64_of (y / x)" if "0 \<le> y" for y
    using that ax(2) by (simp add: f64_of_nonneg del: less_eq_f64.simps)
  with ax show ?thesis by (cases a) (simp_all add: signed_inf_def)
qed

lemma cost_nonneg: "Fin 0 \<le> price \<Longrightarrow> 0 \<le> runtime \<Longrightarrow> Fin 0 \<le> f64_mul price (f64_div (f64_of_int runtime) (Fin 3600))"
  by (intro f64_mul_nonneg f64_div_nonneg) (simp_all add: f64_of_int_def f64_of_nonneg del: less_eq_f64.simps)

lemma settlement_nonneg:
  assumes "settlement l price t = (c, f, p, r)" "amount_ok l" "Fin 0 \<le> price" "0 \<le> t"
  shows "Fin 0 \<le> p \<and> Fin 0 \<le> r"
proof -
  let ?c = "f64_mul price (f64_div (f64_of_int t) (Fin 3600))"
  have c: "Fin 0 \<le> ?c" using assms(3,4) by (rule cost_nonneg)
  have l: "Fin 0 \<le> l" "f64_ok l" using assms(2) by (simp_all add: amount_ok_def)
  have "Fin 0 \<le> f64_min ?c l" "f64_ok (f64_min ?c l)"
    using f64_min_nonneg [OF c l(1)] f64_min_ok [OF _ l(2)] by simp_all
  moreover have "f64_min ?c l \<le> l" by (rule f64_min_le)
  ultimately have "Fin 0 \<le> f64_sub (f64_min ?c l) (f64_mul (f64_min ?c l) (f64_of (2 / 25)))"
    "Fin 0 \<le> f64_sub l (f64_min ?c l)"
    unfolding f64_fee by (auto intro: share_nonneg f64_sub_nonneg simp del: less_eq_f64.simps f64_mul.simps)
  then show ?thesis
    using assms(1) by (auto simp: settlement_def Let_def simp del: less_eq_f64.simps)
qed

section \<open>Sequences of ledger calls\<close>

datatype ledger_op =
    Op_Deposit string deposit_body
  | Op_Withdraw string ledger_withdraw_body
  | Op_Lock escrow_lock_body
  | Op_Release escrow_release_body

fun run_op :: "ledger_op \<Rightarrow> json handler" where
  "run_op (Op_Deposit aid b) = deposit aid b"
| "run_op (Op_Withdraw aid b) = ledger_withdraw aid b"
| "run_op (Op_Lock b) = lock_escrow b"
| "run_op (Op_Release b) = release_escrow b"

text \<open>The callers' side: amounts to lock and prices are not negative (the handlers check neither),
  the amount is a value of the type, and a running time is unsigned.\<close>

fun op_ok :: "ledger_op \<Rightarrow> bool" where
  "op_ok (Op_Lock b) = amount_ok (el_amount_nmc b)"
| "op_ok (Op_Release b) = (Fin 0 \<le> er_actual_price_per_hour b \<and> 0 \<le> er_actual_runtime_s b)"
| "op_ok _ = True"

fun run_ops :: "ledger_op list \<Rightarrow> coord_db world \<Rightarrow> coord_db world" where
  "run_ops [] w = w"
| "run_ops (x # xs) w = run_ops xs (snd (run_op x w))"

lemma keeps_solvent_deposit: "keeps_solvent (deposit aid b)"
proof (cases "f64_le (db_amount_nmc b) (Fin 0)")
  case False
  then have "Fin 0 \<le> db_amount_nmc b" by (auto simp: f64_le_def simp del: less_eq_f64.simps)
  then show ?thesis unfolding deposit_def by (intro keeps_intro keeps_solvent_intro)
qed (simp add: deposit_def keeps_failE)

lemma keeps_solvent_withdraw: "keeps_solvent (ledger_withdraw aid b)"
proof (cases "f64_le (lw_amount_nmc b) (Fin 0)")
  case False
  then have "Fin 0 \<le> lw_amount_nmc b" by (auto simp: f64_le_def simp del: less_eq_f64.simps)
  then show ?thesis unfolding ledger_withdraw_def by (intro keeps_intro keeps_solvent_intro keeps_solvent_debits)
qed (simp add: ledger_withdraw_def keeps_failE)

lemma keeps_solvent_lock: "amount_ok (el_amount_nmc b) \<Longrightarrow> keeps_solvent (lock_escrow b)"
  unfolding lock_escrow_def
  by (intro keeps_intro keeps_solvent_intro keeps_solvent_debits) (simp_all add: amount_ok_def)

lemma keeps_solvent_release:
  assumes "Fin 0 \<le> er_actual_price_per_hour b" "0 \<le> er_actual_runtime_s b"
  shows "keeps_solvent (release_escrow b)"
  unfolding release_escrow_def
proof (rule keeps_query_bind)
  fix x now d
  assume d: "solvent d" "Inr (locked_escrow_by_id (er_escrow_id b) d) = Inr x"
  show "keeps_solvent (bindE (someE (Status NOT_FOUND) x) (\<lambda>escrow.
     case settlement (e_locked_nmc escrow) (er_actual_price_per_hour b) (er_actual_runtime_s b) of
       (actual_cost, fee, provider_gets, consumer_refund) \<Rightarrow>
         seqE (map_errE ise (settle_consumer (e_consumer_id escrow) (e_locked_nmc escrow) consumer_refund))
         (seqE (map_errE ise (credit_earnings (unwrap_or [] (e_provider_id escrow)) provider_gets))
         (seqE (map_errE ise (mark_settled (er_escrow_id b)))
         (retE (JObj
           [(''ok'', JBool True), (''provider_credited'', j_f64 provider_gets),
            (''consumer_refunded'', j_f64 consumer_refund), (''platform_fee'', j_f64 fee)]))))))"
  proof (cases x)
    case None
    then show ?thesis by (simp add: someE_def keeps_failE)
  next
    case (Some e)
    obtain c f p r where s: "settlement (e_locked_nmc e) (er_actual_price_per_hour b) (er_actual_runtime_s b) = (c, f, p, r)"
      by (cases "settlement (e_locked_nmc e) (er_actual_price_per_hour b) (er_actual_runtime_s b)") auto
    have "amount_ok (e_locked_nmc e)"
      using d Some sql_first_in_set by (fastforce simp: solvent_def locked_escrow_by_id_def)
    from settlement_nonneg [OF s this assms] have "Fin 0 \<le> p" "Fin 0 \<le> r" by simp_all
    then show ?thesis
      using Some s by (simp add: someE_def del: less_eq_f64.simps) (intro keeps_intro keeps_solvent_intro)
  qed
qed

lemma keeps_solvent_run_op: "op_ok x \<Longrightarrow> keeps_solvent (run_op x)"
  by (cases x) (simp_all add: keeps_solvent_deposit keeps_solvent_withdraw keeps_solvent_lock keeps_solvent_release del: less_eq_f64.simps)

text \<open>C5: The ledger stays solvent. Start from a database in which no account's available
  balance is negative and every lock is a non-negative amount; run any sequence of deposits,
  withdrawals, locks and releases, each with any database failures and lost answers. Then
  again no available balance is negative: the guard inside the debit statements is enough for the
  withdrawals and locks, and a release pays the provider and the consumer non-negative amounts.
  The callers must not lock a negative amount nor release at a negative price.\<close>

theorem ledger_solvent:
  assumes "solvent (wdb w)" "\<forall>x\<in>set ops. op_ok x"
  shows "solvent (wdb (run_ops ops w))"
  using assms
proof (induction ops arbitrary: w)
  case (Cons x xs)
  then have "solvent (wdb (snd (run_op x w)))" using keepsD [OF keeps_solvent_run_op] by simp
  with Cons show ?case by simp
qed simp


lemma ledger_solvent_witness:
  "solvent (wdb (run_ops
     [Op_Deposit ''acct'' \<lparr>db_amount_nmc = Fin 5, db_reference = None\<rparr>,
      Op_Lock \<lparr>el_job_id = ''j'', el_consumer_id = ''acct'', el_provider_id = None, el_amount_nmc = Fin 3\<rparr>,
      Op_Release \<lparr>er_escrow_id = ''e'', er_job_id = ''j'', er_actual_runtime_s = 60, er_actual_price_per_hour = Fin 1\<rparr>]
     (world_at demo_db)))"
  by (rule ledger_solvent) (simp_all add: solvent_def demo_db_def empty_db_def amount_ok_def big_numeral del: abs_numeral)

section \<open>One release\<close>

lemma settlement_Fin:
  assumes "amount_ok (Fin l)" "Fin 0 \<le> price" "0 \<le> t"
  shows "\<exists>c f p r. settlement (Fin l) price t = (Fin c, Fin f, Fin p, Fin r) \<and>
     0 \<le> c \<and> c \<le> l \<and> 0 \<le> f \<and> f \<le> c \<and> 0 \<le> p \<and> p \<le> c \<and> 0 \<le> r \<and> r \<le> l"
proof -
  let ?c = "f64_mul price (f64_div (f64_of_int t) (Fin 3600))"
  have l: "rnd64 l = l" "\<bar>l\<bar> < 2 ^ 1024" "0 \<le> l" using assms(1) unfolding amount_ok_def f64_ok.simps f64_Fin_le by blast+
  have c0: "Fin 0 \<le> ?c" using assms(2,3) by (rule cost_nonneg)
  have "Fin 0 \<le> f64_min ?c (Fin l)" "f64_min ?c (Fin l) \<le> Fin l" "f64_ok (f64_min ?c (Fin l))"
    using f64_min_nonneg [OF c0, of "Fin l"] f64_min_le f64_min_ok [of ?c "Fin l"] l by simp_all
  then obtain c where c: "f64_min ?c (Fin l) = Fin c" "0 \<le> c" "c \<le> l" "rnd64 c = c" "\<bar>c\<bar> < 2 ^ 1024"
    by (cases "f64_min ?c (Fin l)") auto
  let ?k = "5764607523034235 / 72057594037927936 :: rat"
  obtain f where f: "f64_of (c * ?k) = Fin f" "0 \<le> f" "f \<le> c"
    using f64_of_between [of 0 c "c * ?k"] c by auto
  obtain p where p: "f64_of (c - f) = Fin p" "0 \<le> p" "p \<le> c"
    using f64_of_between [of 0 c "c - f"] c f by auto
  obtain r where r: "f64_of (l - c) = Fin r" "0 \<le> r" "r \<le> l"
    using f64_of_between [of 0 l "l - c"] c l by auto
  have "settlement (Fin l) price t = (Fin c, Fin f, Fin p, Fin r)"
    using c(1) f(1) p(1) r(1) by (simp add: settlement_def f64_fee)
  with c f p r show ?thesis by blast
qed

text \<open>C15: The arithmetic of a settlement. For a finite lock and a price that is not negative, the
  cost, the fee, the provider's share and the refund are all finite; the cost never exceeds the lock,
  the fee and the share never exceed the cost, the refund never exceeds the lock, and none is negative,
  whatever the rounding does and however long the job ran.\<close>

theorem settlement_bounds:
  assumes "amount_ok (Fin l)" "Fin 0 \<le> price" "0 \<le> t"
  shows "\<exists>c f p r. settlement (Fin l) price t = (Fin c, Fin f, Fin p, Fin r) \<and>
     0 \<le> c \<and> c \<le> l \<and> 0 \<le> f \<and> f \<le> c \<and> 0 \<le> p \<and> p \<le> c \<and> 0 \<le> r \<and> r \<le> l"
  using assms by (rule settlement_Fin)

lemma settlement_bounds_witness:
  "\<exists>c f p r. settlement (Fin 10) (Fin 2) 5400 = (Fin c, Fin f, Fin p, Fin r) \<and>
     0 \<le> c \<and> c \<le> 10 \<and> 0 \<le> f \<and> f \<le> c \<and> 0 \<le> p \<and> p \<le> c \<and> 0 \<le> r \<and> r \<le> 10"
  by (rule settlement_bounds) (simp_all add: amount_ok_def big_numeral del: abs_numeral)

lemma mark_settled_unlocks:
  "sql_first (\<lambda>e. e_escrow_id e = eid \<and> e_state e = Some ''locked'')
     (map (\<lambda>e. if e_escrow_id e = eid then e\<lparr>e_state := Some ''released'', e_settled_at := Some now\<rparr> else e) t) = None"
  by (induction t) auto

text \<open>An escrow is released once. After a release that answered, a release of the same
  escrow, with whatever job, running time and price, answers \<open>404\<close> and changes nothing.\<close>

theorem release_escrow_once:
  assumes "wfaults w = []" "release_escrow b w = (Inr j, w')" "er_escrow_id b' = er_escrow_id b"
  shows "release_escrow b' w' = (Inl (Status NOT_FOUND), w')"
proof -
  have "locked_escrow_by_id (er_escrow_id b) (wdb w') = None \<and> wfaults w' = []"
    using assms(1,2)
    by (auto simp: release_escrow_def prog_simps settle_consumer_def credit_earnings_def mark_settled_def
        on_table_defs locked_escrow_by_id_def mark_settled_unlocks split: option.splits prod.splits sum.splits)
  then show ?thesis using assms(3) by (simp add: release_escrow_def prog_simps)
qed


lemma demo_release:
  "\<exists>j w'. release_escrow \<lparr>er_escrow_id = ''e1'', er_job_id = ''job'', er_actual_runtime_s = 3600, er_actual_price_per_hour = Fin 2\<rparr>
      (world_at lease_db) = (Inr j, w')"
proof -
  have l: "locked_escrow_by_id ''e1'' lease_db = Some (new_escrow_row ''e1'' (Some ''job'') ''cons'' (Fin 4))"
    by (simp add: locked_escrow_by_id_def demo_lease_defs new_escrow_row_def)
  obtain c f p r where s: "settlement (Fin 4) (Fin 2) 3600 = (Fin c, Fin f, Fin p, Fin r)" "0 \<le> r" "r \<le> 4"
    using settlement_Fin [of 4 "Fin 2" 3600] by (auto simp: amount_ok_def big_numeral simp del: abs_numeral)
  have "\<exists>q. f64_of (10 + r) = Fin q"
    using f64_of_between [of 10 14 "10 + r"] s(2,3) by (auto simp: big_numeral simp del: abs_numeral)
  then show ?thesis
    using l s by (auto simp: release_escrow_def prog_simps settle_consumer_def credit_earnings_def mark_settled_def
        on_table_defs demo_lease_defs new_escrow_row_def sql_upsert_def earning_account_def settle_consumer_row_def sql_update_def)
qed

lemma release_escrow_once_witness:
  "\<exists>j w'. release_escrow \<lparr>er_escrow_id = ''e1'', er_job_id = ''job'', er_actual_runtime_s = 3600, er_actual_price_per_hour = Fin 2\<rparr>
      (world_at lease_db) = (Inr j, w') \<and>
     release_escrow \<lparr>er_escrow_id = ''e1'', er_job_id = ''other'', er_actual_runtime_s = 7200, er_actual_price_per_hour = Fin 9\<rparr> w' =
      (Inl (Status NOT_FOUND), w')"
proof -
  obtain j w' where r: "release_escrow \<lparr>er_escrow_id = ''e1'', er_job_id = ''job'', er_actual_runtime_s = 3600, er_actual_price_per_hour = Fin 2\<rparr>
      (world_at lease_db) = (Inr j, w')" using demo_release by blast
  with release_escrow_once [OF _ r, of "\<lparr>er_escrow_id = ''e1'', er_job_id = ''other'', er_actual_runtime_s = 7200, er_actual_price_per_hour = Fin 9\<rparr>"]
  show ?thesis by auto
qed

section \<open>Locks and interrupted releases\<close>

lemma guarded_update:
  assumes "keys_distinct c_account_id t" "sql_first (\<lambda>r. c_account_id r = k) t = Some c" "null_le (Some m) (c_available c)"
  shows "sql_update (can_pay k m) f t = sql_update (\<lambda>r. c_account_id r = k) f t" "rows_affected (can_pay k m) t \<noteq> 0"
proof -
  have "can_pay k m r = (c_account_id r = k)" if "r \<in> set t" for r
    using keys_distinct_unique [OF assms(1,2) that] assms(3) by (auto simp: can_pay_def)
  then show "sql_update (can_pay k m) f t = sql_update (\<lambda>r. c_account_id r = k) f t"
    unfolding sql_update_def by (intro traverse_cong) simp
  show "rows_affected (can_pay k m) t \<noteq> 0"
    using sql_first_in_set [OF assms(2)] assms(3) by (auto simp: rows_affected_def can_pay_def filter_empty_conv)
qed

lemma guarded_debit_run:
  assumes "wfaults w = []" "pk_inv (wdb w)" "credit_of (wdb w) k = Some c" "null_le (Some m) (c_available c)"
    and f: "f (wnow w) c = Inr c'" "c_account_id c' = c_account_id c"
  shows "\<exists>n t. guarded_debit k m f w = (Inr n, w\<lparr>wdb := (wdb w)\<lparr>credits := t\<rparr>\<rparr>) \<and> n \<noteq> 0 \<and>
     sql_first (\<lambda>r. c_account_id r = k) t = Some c' \<and>
     (\<forall>x. x \<noteq> k \<longrightarrow> sql_first (\<lambda>r. c_account_id r = x) t = credit_of (wdb w) x)"
proof -
  have kd: "keys_distinct c_account_id (credits (wdb w))" using assms(2) by (simp add: pk_inv_def)
  note g = guarded_update [OF kd assms(3,4)]
  from credits_tbl.modify_hit [where f = "f (wnow w)", OF kd assms(3) f] g
  show ?thesis
    using assms(1) by (auto simp: guarded_debit_def prog_simps on_credits_def)
qed

text \<open>Locking credits for a job that does not exist strands them. The debit runs, then the
  insert of the escrow row fails on its foreign key: the caller gets a \<open>500\<close>, the amount has moved
  from the consumer's available balance to the escrowed one, and no escrow row exists that a release or
  a cancellation could name.\<close>

theorem lock_escrow_strands:
  assumes "wfaults w = []" "pk_inv (wdb w)" "job_of (wdb w) (el_job_id b) = None"
    and "credit_of (wdb w) (el_consumer_id b) = Some c" "c_available c = Some (Fin a)" "c_escrowed c = Some (Fin e)"
    and "el_amount_nmc b = Fin m" "m \<le> a" "f64_of (a - m) = Fin a'" "f64_of (e + m) = Fin e'"
  shows "\<exists>w'. lock_escrow b w = (Inl (Status INTERNAL_SERVER_ERROR), w') \<and> escrows (wdb w') = escrows (wdb w) \<and>
     credit_of (wdb w') (el_consumer_id b) = Some (c\<lparr>c_available := Some (Fin a'), c_escrowed := Some (Fin e'),
       c_updated_at := Some (wnow w)\<rparr>)"
proof -
  let ?w = "w\<lparr>widn := Suc (widn w)\<rparr>"
  from guarded_debit_run [of ?w "el_consumer_id b" c "Fin m" "lock_row (Fin m)"] assms lock_row_Fin [OF assms(5,6,9,10)]
  obtain n t where "guarded_debit (el_consumer_id b) (Fin m) (lock_row (Fin m)) ?w =
      (Inr n, ?w\<lparr>wdb := (wdb w)\<lparr>credits := t\<rparr>\<rparr>)" "n \<noteq> 0"
    "sql_first (\<lambda>r. c_account_id r = el_consumer_id b) t = Some (c\<lparr>c_available := Some (Fin a'), c_escrowed := Some (Fin e'),
       c_updated_at := Some (wnow w)\<rparr>)" by auto
  then show ?thesis
    using assms(1,3,7) by (simp add: lock_escrow_def prog_simps insert_escrow_def sql_first_None_iff)
qed

lemma lock_escrow_strands_witness:
  "\<exists>w'. lock_escrow \<lparr>el_job_id = ''no-such-job'', el_consumer_id = ''acct'', el_provider_id = None, el_amount_nmc = Fin 4\<rparr>
      (world_at demo_db) = (Inl (Status INTERNAL_SERVER_ERROR), w') \<and> escrows (wdb w') = escrows demo_db \<and>
     credit_of (wdb w') ''acct'' = Some (demo_credit\<lparr>c_available := Some (Fin 6), c_escrowed := Some (Fin 4),
       c_updated_at := Some 1000\<rparr>)"
proof -
  have "pk_inv demo_db" using demo_db_facts(1) by (simp add: db_inv_def)
  then show ?thesis
    using lock_escrow_strands [of "world_at demo_db"
      "\<lparr>el_job_id = ''no-such-job'', el_consumer_id = ''acct'', el_provider_id = None, el_amount_nmc = Fin 4\<rparr>"
      demo_credit 10 0 4 6 4] by simp
qed


text \<open>A release pays the provider recorded in the escrow row, and an escrow made by the
  coordinator's \<open>submit_job\<close> records none. Such a release credits the provider's share to the account with
  the empty name: apart from it and the consumer, no account changes, and the answer says the provider
  was credited.\<close>

theorem release_pays_blank_account:
  assumes "wfaults w = []" "release_escrow b w = (Inr j, w')"
    and "locked_escrow_by_id (er_escrow_id b) (wdb w) = Some e" "e_provider_id e = None"
    and "k \<noteq> []" "k \<noteq> e_consumer_id e"
  shows "credit_of (wdb w') k = credit_of (wdb w) k"
proof -
  obtain c f p r where s: "settlement (e_locked_nmc e) (er_actual_price_per_hour b) (er_actual_runtime_s b) = (c, f, p, r)"
    by (cases "settlement (e_locked_nmc e) (er_actual_price_per_hour b) (er_actual_runtime_s b)") auto
  obtain t u where tu: "sql_update (\<lambda>r. c_account_id r = e_consumer_id e) (settle_consumer_row (e_locked_nmc e) r (wnow w)) (credits (wdb w)) = Inr t"
    "sql_upsert c_account_id (earning_account [] p (wnow w)) (earn_row p (wnow w)) t = Inr u" "credits (wdb w') = u"
    using assms(1-4) s
    by (auto simp: release_escrow_def prog_simps settle_consumer_def credit_earnings_def mark_settled_def
        on_table_defs map_sum_eq_Inr split: sum.splits)
  have "sql_first (\<lambda>r. c_account_id r = k) u = sql_first (\<lambda>r. c_account_id r = k) t"
    using assms(5) by (intro sql_upsert_other [OF tu(2)])
      (auto simp: earn_row_def and_then_eq_Inr earning_account_def new_credit_row_def)
  also have "\<dots> = credit_of (wdb w) k"
    using assms(6) sql_update_lookup [OF tu(1) settle_consumer_row_key, where k' = k] by simp
  finally show ?thesis using tu(3) by simp
qed

lemma release_pays_blank_account_witness:
  "\<exists>j w'. release_escrow \<lparr>er_escrow_id = ''e1'', er_job_id = ''job'', er_actual_runtime_s = 3600, er_actual_price_per_hour = Fin 2\<rparr>
      (world_at lease_db) = (Inr j, w') \<and> credit_of (wdb w') ''prov'' = credit_of lease_db ''prov''"
proof -
  obtain j w' where r: "release_escrow \<lparr>er_escrow_id = ''e1'', er_job_id = ''job'', er_actual_runtime_s = 3600, er_actual_price_per_hour = Fin 2\<rparr>
      (world_at lease_db) = (Inr j, w')" using demo_release by blast
  have l: "locked_escrow_by_id ''e1'' lease_db = Some (new_escrow_row ''e1'' (Some ''job'') ''cons'' (Fin 4))"
    by (simp add: locked_escrow_by_id_def demo_lease_defs new_escrow_row_def)
  show ?thesis
    using release_pays_blank_account [OF _ r, of "new_escrow_row ''e1'' (Some ''job'') ''cons'' (Fin 4)" "''prov''"] l r
    by (auto simp: new_escrow_row_def)
qed

end
