(* ===== verification/Common_Types.thy ===== *)
theory Common_Types
  imports F64
begin

text \<open>
  The shared types of \<open>crates/nm-common/src/types.rs\<close>: chip tiers, runtimes and their names, job
  and provider states, and the bid score. A \<open>u32\<close> is an integer in its range; the additions that
  may exceed it wrap, as the release build compiles them. An \<open>f32\<close> is kept as the value of
  \<open>f64\<close> it denotes.
\<close>

section \<open>Chips\<close>

record mac_chip_info =
  mc_chip_model :: string
  mc_unified_memory_gb :: int
  mc_gpu_cores :: int
  mc_cpu_cores :: int
  mc_metal_version :: string
  mc_serial_number :: string
  mc_platform_uuid :: string
  mc_macos_version :: string

definition capability_class :: "mac_chip_info \<Rightarrow> string" where
  "capability_class c =
     (let m = mc_unified_memory_gb c in
      if m \<le> 15 then ''metal-gpu-small'' else if m \<le> 31 then ''metal-gpu-mid''
      else if m \<le> 63 then ''metal-gpu-high'' else if m \<le> 127 then ''metal-gpu-ultra'' else ''metal-gpu-pro'')"

definition can_serve :: "mac_chip_info \<Rightarrow> int \<Rightarrow> bool" where
  "can_serve c ram_gb \<longleftrightarrow> as_u32 (ram_gb + 4) \<le> mc_unified_memory_gb c"

section \<open>States and runtimes\<close>

datatype provider_state = Offline | Idle | Available | Leased | Paused

datatype job_state = Queued | Matching | Assigned | Running | Migrating | Complete | Failed | Cancelled

datatype runtime = Mlx | TorchMps | OnnxCoreml | LlamaCpp | Shell

fun runtime_as_str :: "runtime \<Rightarrow> string" where
  "runtime_as_str Mlx = ''mlx''"
| "runtime_as_str TorchMps = ''torch-mps''"
| "runtime_as_str OnnxCoreml = ''onnx-coreml''"
| "runtime_as_str LlamaCpp = ''llama-cpp''"
| "runtime_as_str Shell = ''shell''"

definition runtime_from_str :: "string \<Rightarrow> runtime option" where
  "runtime_from_str s =
     (if s = ''mlx'' then Some Mlx else if s = ''torch-mps'' then Some TorchMps
      else if s = ''onnx-coreml'' then Some OnnxCoreml else if s = ''llama-cpp'' then Some LlamaCpp
      else if s = ''shell'' then Some Shell else None)"

fun pip_packages :: "runtime \<Rightarrow> string list" where
  "pip_packages Mlx = [''mlx'', ''mlx-lm'', ''numpy'', ''Pillow'']"
| "pip_packages TorchMps = [''torch'', ''torchvision'', ''torchaudio'']"
| "pip_packages OnnxCoreml = [''onnxruntime'', ''numpy'']"
| "pip_packages LlamaCpp = []"
| "pip_packages Shell = []"

lemma runtime_from_as_str [simp]: "runtime_from_str (runtime_as_str r) = Some r"
  by (cases r) (simp_all add: runtime_from_str_def)

lemma runtime_as_str_inj: "runtime_as_str r = runtime_as_str s \<longleftrightarrow> r = s"
  using runtime_from_as_str by (metis option.inject)

section \<open>Wallets and bids\<close>

record wallet_balance =
  wb_account_id :: string
  wb_available_nmc :: f64
  wb_escrowed_nmc :: f64

definition wallet_total :: "wallet_balance \<Rightarrow> f64" where
  "wallet_total w = f64_add (wb_available_nmc w) (wb_escrowed_nmc w)"

record provider_bid =
  bid_job_id :: string
  bid_provider_id :: string
  bid_chip_model :: string
  bid_unified_ram_gb :: int
  bid_price_per_hour :: f64
  bid_latency_ms :: int
  bid_attestation_sig :: string

text \<open>\<open>x / 5.0\<close> on \<open>f32\<close>.\<close>

definition f32_div5 :: "f64 \<Rightarrow> f64" where
  "f32_div5 x = (case x of Fin q \<Rightarrow> Fin (rnd32 (q / 5)) | _ \<Rightarrow> x)"

definition score_bid :: "provider_bid \<Rightarrow> f64 \<Rightarrow> f64 \<Rightarrow> f64 \<Rightarrow> f64" where
  "score_bid bid trust_score uptime_ratio max_price =
     (let price_norm = f64_sub (Fin 1) (f64_min (f64_div (bid_price_per_hour bid) max_price) (Fin 1));
          latency_norm = f64_sub (Fin 1) (f64_min (f64_div (f64_of_int (bid_latency_ms bid)) (Fin 500)) (Fin 1));
          trust_norm = f32_div5 trust_score;
          uptime_norm = uptime_ratio
      in f64_add (f64_add (f64_add (f64_mul (f64_of (40 / 100)) price_norm) (f64_mul (f64_of (30 / 100)) latency_norm))
           (f64_mul (f64_of (20 / 100)) trust_norm)) (f64_mul (f64_of (10 / 100)) uptime_norm))"

text \<open>A finite value between 0 and a small integer, and how the operations of the score treat it.\<close>

definition fin_upto :: "int \<Rightarrow> f64 \<Rightarrow> bool" where
  "fin_upto h x \<longleftrightarrow> (\<exists>q. x = Fin q \<and> 0 \<le> q \<and> q \<le> of_int h)"

lemma f64_of_fin_upto: "0 \<le> q \<Longrightarrow> q \<le> of_int h \<Longrightarrow> h \<le> 2 ^ 53 \<Longrightarrow> fin_upto h (f64_of q)"
proof -
  assume a: "0 \<le> q" "q \<le> of_int h" "h \<le> 2 ^ 53"
  then have h: "0 \<le> h" by (metis of_int_0_le_iff order_trans)
  have "f64_of (of_int h) = Fin (of_int h)" using a(3) h by (intro f64_of_of_int) simp
  then have "Fin 0 \<le> f64_of q" "f64_of q \<le> Fin (of_int h)"
    using f64_of_nonneg [OF a(1)] f64_of_mono [OF a(2)] by simp_all
  then show ?thesis by (cases "f64_of q") (auto simp: fin_upto_def)
qed

lemma fin_upto_add: "fin_upto h x \<Longrightarrow> fin_upto k y \<Longrightarrow> h + k \<le> 2 ^ 53 \<Longrightarrow> fin_upto (h + k) (f64_add x y)"
  unfolding fin_upto_def [of h] fin_upto_def [of k] by (auto intro!: f64_of_fin_upto)

lemma fin_upto_mul: "fin_upto 1 x \<Longrightarrow> 0 \<le> c \<Longrightarrow> c \<le> 1 \<Longrightarrow> fin_upto 1 (f64_mul (Fin c) x)"
  unfolding fin_upto_def [of _ x] by (auto intro!: f64_of_fin_upto mult_le_one)

lemma fin_upto_add_mono: "fin_upto h x \<Longrightarrow> fin_upto k y \<Longrightarrow> fin_upto l z \<Longrightarrow> x \<le> y \<Longrightarrow> f64_add x z \<le> f64_add y z"
  by (auto simp: fin_upto_def intro!: f64_of_mono)

lemma fin_upto_add_mono2: "fin_upto h x \<Longrightarrow> fin_upto k y \<Longrightarrow> fin_upto l z \<Longrightarrow> x \<le> y \<Longrightarrow> f64_add z x \<le> f64_add z y"
  by (auto simp: fin_upto_def intro!: f64_of_mono)

lemma fin_upto_mul_mono: "fin_upto h x \<Longrightarrow> fin_upto k y \<Longrightarrow> x \<le> y \<Longrightarrow> 0 \<le> c \<Longrightarrow> f64_mul (Fin c) x \<le> f64_mul (Fin c) y"
  by (auto simp: fin_upto_def intro!: f64_of_mono mult_left_mono)

definition discount :: "f64 \<Rightarrow> f64" where
  "discount x = f64_sub (Fin 1) (f64_min x (Fin 1))"

lemma discount_fin_upto: "Fin 0 \<le> x \<Longrightarrow> fin_upto 1 (discount x)"
proof -
  have z: "fin_upto 1 (Fin 0)" by (simp add: fin_upto_def)
  assume "Fin 0 \<le> x"
  then show ?thesis using z
    by (cases x) (auto simp: discount_def f64_min_def min_def intro!: f64_of_fin_upto split: if_splits)
qed

lemma discount_anti: "Fin 0 \<le> x \<Longrightarrow> x \<le> y \<Longrightarrow> y \<noteq> NaN \<Longrightarrow> discount y \<le> discount x"
proof -
  have n: "Fin 0 \<le> f64_of (1 - q)" if "q \<le> 1" for q using that by (intro f64_of_nonneg) simp
  assume "Fin 0 \<le> x" "x \<le> y" "y \<noteq> NaN"
  then show ?thesis using n
    by (cases x; cases y) (auto simp: discount_def f64_min_def min_def intro!: f64_of_mono split: if_splits)
qed

lemma f64_div_mono: "x \<le> y \<Longrightarrow> 0 < m \<Longrightarrow> f64_div (Fin x) (Fin m) \<le> f64_div (Fin y) (Fin m)"
  by (auto intro!: f64_of_mono divide_right_mono)

lemma f64_div_Fin_nonneg: "0 \<le> x \<Longrightarrow> 0 < m \<Longrightarrow> Fin 0 \<le> f64_div (Fin x) (Fin m) \<and> f64_div (Fin x) (Fin m) \<noteq> NaN"
  using f64_of_nonneg [of "x / m"] by simp

text \<open>The four weights.\<close>

lemma weight: "0 \<le> q \<Longrightarrow> q \<le> 1 \<Longrightarrow> \<exists>c. f64_of q = Fin c \<and> 0 \<le> c \<and> c \<le> 1"
  using f64_of_between [of 0 1 q] by auto

definition weighted :: "rat \<Rightarrow> rat \<Rightarrow> rat \<Rightarrow> rat \<Rightarrow> f64 \<Rightarrow> f64 \<Rightarrow> f64 \<Rightarrow> f64 \<Rightarrow> f64" where
  "weighted c1 c2 c3 c4 x y z u =
     f64_add (f64_add (f64_add (f64_mul (Fin c1) x) (f64_mul (Fin c2) y)) (f64_mul (Fin c3) z)) (f64_mul (Fin c4) u)"

lemma weighted_mono:
  assumes c: "0 \<le> c1" "c1 \<le> 1" "0 \<le> c2" "c2 \<le> 1" "0 \<le> c3" "c3 \<le> 1" "0 \<le> c4" "c4 \<le> 1"
    and x: "fin_upto 1 x" "fin_upto 1 x'" "x' \<le> x" and y: "fin_upto 1 y" "fin_upto 1 y'" "y' \<le> y"
    and z: "fin_upto 1 z" and u: "fin_upto 1 u"
  shows "weighted c1 c2 c3 c4 x' y' z u \<le> weighted c1 c2 c3 c4 x y z u \<and> fin_upto 4 (weighted c1 c2 c3 c4 x y z u)"
proof -
  let ?s = "\<lambda>x y. f64_add (f64_mul (Fin c1) x) (f64_mul (Fin c2) y)"
  let ?t = "\<lambda>x y. f64_add (?s x y) (f64_mul (Fin c3) z)"
  note w = fin_upto_mul [OF x(1) c(1,2)] fin_upto_mul [OF x(2) c(1,2)] fin_upto_mul [OF y(1) c(3,4)] fin_upto_mul [OF y(2) c(3,4)]
    fin_upto_mul [OF z c(5,6)] fin_upto_mul [OF u c(7,8)]
  have s: "fin_upto 2 (?s x y)" "fin_upto 2 (?s x' y')"
    using fin_upto_add [OF w(1) w(3)] fin_upto_add [OF w(2) w(4)] by simp_all
  have t: "fin_upto 3 (?t x y)" "fin_upto 3 (?t x' y')"
    using fin_upto_add [OF s(1) w(5)] fin_upto_add [OF s(2) w(5)] by simp_all
  have "?s x' y' \<le> ?s x y"
    by (rule order_trans [OF fin_upto_add_mono [OF w(2) w(1) w(4)] fin_upto_add_mono2 [OF w(4) w(3) w(1)]])
      (rule fin_upto_mul_mono [OF x(2,1) x(3) c(1)], rule fin_upto_mul_mono [OF y(2,1) y(3) c(3)])
  from fin_upto_add_mono [OF t(2,1) w(6) fin_upto_add_mono [OF s(2,1) w(5) this]]
  show ?thesis using fin_upto_add [OF t(1) w(6)] by (simp add: weighted_def del: f64_add.simps f64_mul.simps)
qed

lemma score_bid_weighted:
  "f64_of (40 / 100) = Fin c1 \<Longrightarrow> f64_of (30 / 100) = Fin c2 \<Longrightarrow> f64_of (20 / 100) = Fin c3 \<Longrightarrow> f64_of (10 / 100) = Fin c4 \<Longrightarrow>
   score_bid b t u m = weighted c1 c2 c3 c4 (discount (f64_div (bid_price_per_hour b) m))
     (discount (f64_div (f64_of_int (bid_latency_ms b)) (Fin 500))) (f32_div5 t) u"
  unfolding score_bid_def weighted_def discount_def Let_def by (simp only:)

text \<open>A better bid never scores lower: of two bids judged with the same trust, uptime and ceiling, one that
  asks no more and is no slower scores at least as high, whatever the roundings do; and a score is a
  finite number that is not negative.\<close>

theorem score_bid_monotone:
  assumes "bid_price_per_hour b = Fin p" "bid_price_per_hour b' = Fin p'" "0 \<le> p" "p \<le> p'" "0 < m"
    and "0 \<le> bid_latency_ms b" "bid_latency_ms b \<le> bid_latency_ms b'" "bid_latency_ms b' < 2 ^ 32"
    and "0 \<le> t" "t \<le> 5" "0 \<le> u" "u \<le> 1"
  shows "score_bid b' (Fin t) (Fin u) (Fin m) \<le> score_bid b (Fin t) (Fin u) (Fin m) \<and>
     (\<exists>s. score_bid b (Fin t) (Fin u) (Fin m) = Fin s \<and> 0 \<le> s)"
proof -
  obtain c1 c2 c3 c4 where c: "f64_of (40 / 100) = Fin c1" "0 \<le> c1" "c1 \<le> 1" "f64_of (30 / 100) = Fin c2" "0 \<le> c2" "c2 \<le> 1"
    "f64_of (20 / 100) = Fin c3" "0 \<le> c3" "c3 \<le> 1" "f64_of (10 / 100) = Fin c4" "0 \<le> c4" "c4 \<le> 1"
    using weight [of "40 / 100"] weight [of "30 / 100"] weight [of "20 / 100"] weight [of "10 / 100"] by auto
  have L: "f64_of_int k = Fin (of_int k)" if "0 \<le> k" "k < 2 ^ 32" for k
    using that f64_of_of_int [of k] by (simp add: f64_of_int_def)
  let ?p = "f64_div (Fin p) (Fin m)" and ?p' = "f64_div (Fin p') (Fin m)"
  let ?l = "f64_div (Fin (of_int (bid_latency_ms b))) (Fin 500)" and ?l' = "f64_div (Fin (of_int (bid_latency_ms b'))) (Fin 500)"
  have P: "fin_upto 1 (discount ?p)" "fin_upto 1 (discount ?p')" "discount ?p' \<le> discount ?p"
    using f64_div_Fin_nonneg [of p m] f64_div_Fin_nonneg [of p' m] f64_div_mono [of p p' m] assms(3-5)
    by (auto intro!: discount_fin_upto discount_anti simp del: f64_div.simps less_eq_f64.simps)
  have Q: "fin_upto 1 (discount ?l)" "fin_upto 1 (discount ?l')" "discount ?l' \<le> discount ?l"
    using f64_div_Fin_nonneg [of "of_int (bid_latency_ms b)" 500] f64_div_Fin_nonneg [of "of_int (bid_latency_ms b')" 500]
      f64_div_mono [of "of_int (bid_latency_ms b)" "of_int (bid_latency_ms b')" 500] assms(6,7)
    by (auto intro!: discount_fin_upto discount_anti simp del: f64_div.simps less_eq_f64.simps)
  have "0 \<le> rnd32 (t / 5)" "rnd32 (t / 5) \<le> rnd32 1"
    using assms(9,10) by (auto intro!: r32.rnd_nonneg r32.rnd_mono)
  moreover have "rnd32 1 = 1" using fround_of_int [of 24 "- 149" 1] by (simp add: rnd32_def)
  ultimately have T: "fin_upto 1 (f32_div5 (Fin t))" by (simp add: f32_div5_def fin_upto_def)
  have U: "fin_upto 1 (Fin u)" using assms(11,12) by (simp add: fin_upto_def)
  from weighted_mono [OF c(2,3,5,6,8,9,11,12) P Q T U] show ?thesis
    unfolding score_bid_weighted [OF c(1,4,7,10)] assms(1,2) L [OF assms(6) order_le_less_trans [OF assms(7,8)]]
      L [OF order_trans [OF assms(6,7)] assms(8)]
    by (auto simp: fin_upto_def simp del: f64_div.simps less_eq_f64.simps)
qed

lemma score_bid_monotone_witness:
  "let b = \<lparr>bid_job_id = ''j'', bid_provider_id = ''p'', bid_chip_model = ''M4'', bid_unified_ram_gb = 32,
     bid_price_per_hour = Fin 1, bid_latency_ms = 20, bid_attestation_sig = []\<rparr>;
       b' = b\<lparr>bid_price_per_hour := Fin 2, bid_latency_ms := 80\<rparr>
   in score_bid b' (Fin 4) (Fin 1) (Fin 3) \<le> score_bid b (Fin 4) (Fin 1) (Fin 3) \<and>
     (\<exists>s. score_bid b (Fin 4) (Fin 1) (Fin 3) = Fin s \<and> 0 \<le> s)"
  unfolding Let_def by (rule score_bid_monotone [where p = 1 and p' = 2]) simp_all

section \<open>Names and sizes\<close>

lemma runtime_from_str_iff: "runtime_from_str s = Some r \<longleftrightarrow> s = runtime_as_str r"
  by (cases r) (auto simp: runtime_from_str_def)

text \<open>A chip can serve a job exactly when it has 4 GB beside the job's memory, as long as the sum fits in 32
  bits; the four largest requests wrap round to at most 3 GB.\<close>

lemma can_serve_iff:
  assumes "0 \<le> ram_gb" "ram_gb < 2 ^ 32"
  shows "can_serve c ram_gb \<longleftrightarrow>
     (if ram_gb < 2 ^ 32 - 4 then ram_gb + 4 else ram_gb + 4 - 2 ^ 32) \<le> mc_unified_memory_gb c"
proof (cases "ram_gb < 2 ^ 32 - 4")
  case False
  then have "(ram_gb + 4) mod 4294967296 = (ram_gb + 4 - 4294967296) mod 4294967296"
    by (metis minus_mod_self2)
  also have "\<dots> = ram_gb + 4 - 4294967296" using assms False by (intro mod_pos_pos_trivial) simp_all
  finally show ?thesis using False by (simp add: can_serve_def as_u32_def)
qed (use assms in \<open>simp add: can_serve_def as_u32_def\<close>)

end
