(* ===== verification/Grpc_Api.thy ===== *)
theory Grpc_Api
  imports Matching Ledger_Service Common_Types
begin

text \<open>
  The gRPC services of the coordinator, \<open>coordinator/src/api/grpc.rs\<close>: AgentService (registration,
  heartbeat, acknowledgement, completion with the milestone rewards) and ConsumerService, on the
  same database as the REST handlers. The reward call to the ledger is an HTTP client given as
  a parameter; \<open>ledger_server\<close> is the ledger's own deposit route in that place.
\<close>

section \<open>Status codes, casts and the HTTP client\<close>

datatype grpc_error = Invalid_Argument string | Internal | Grpc_Not_Found string

type_synonym 'a grpc = "(coord_db world, grpc_error, 'a) prog"

abbreviation db_internal :: "'e \<Rightarrow> grpc_error" where
  "db_internal \<equiv> (\<lambda>_. Internal)"

text \<open>\<open>x as i32\<close> of a float: towards zero, saturating, \<open>NaN\<close> is zero.\<close>

definition f64_as_i32 :: "f64 \<Rightarrow> int" where
  "f64_as_i32 x =
     (case x of
        NaN \<Rightarrow> 0 | PInf \<Rightarrow> 2147483647 | NInf \<Rightarrow> - 2147483648
      | Fin q \<Rightarrow> max (- 2147483648) (min 2147483647 (if 0 \<le> q then \<lfloor>q\<rfloor> else \<lceil>q\<rceil>)))"

text \<open>\<open>x as f32\<close>, kept as the value it denotes.\<close>

definition f64_as_f32 :: "f64 \<Rightarrow> f64" where
  "f64_as_f32 x =
     (case x of
        Fin q \<Rightarrow> (let r = rnd32 q in if 2 ^ 128 \<le> r then PInf else if r \<le> - (2 ^ 128) then NInf else Fin r)
      | _ \<Rightarrow> x)"

text \<open>A POST to another service. The ledger works on the same database, so the call is a step of the world.\<close>

type_synonym http_client = "string \<Rightarrow> json \<Rightarrow> coord_db world \<Rightarrow> http_result \<times> coord_db world"

definition postE :: "http_client \<Rightarrow> string \<Rightarrow> json \<Rightarrow> (coord_db world, 'e, http_result) prog" where
  "postE http url body = (\<lambda>w. case http url body w of (r, w') \<Rightarrow> (Inr r, w'))"

section \<open>AgentService\<close>

record chip_info =
  ci_chip_model :: string
  ci_unified_memory_gb :: int
  ci_gpu_cores :: int
  ci_metal_version :: string
  ci_serial_number :: string

record capabilities =
  cap_chip :: "chip_info option"
  cap_installed_runtimes :: "string list"
  cap_max_job_ram_gb :: int
  cap_bandwidth_mbps :: int
  cap_region :: string
  cap_floor_price :: f64

record register_request =
  rr_capabilities :: "capabilities option"
  rr_provider_id :: string
  rr_nm_version :: string

definition registered_row :: "register_request \<Rightarrow> capabilities \<Rightarrow> chip_info \<Rightarrow> int \<Rightarrow> provider_row" where
  "registered_row req caps chip now = (new_provider_row (rr_provider_id req) now)
     \<lparr>p_chip_model := Some (ci_chip_model chip), p_unified_memory_gb := Some (as_i32 (ci_unified_memory_gb chip)),
      p_gpu_cores := Some (as_i32 (ci_gpu_cores chip)), p_metal_version := Some (ci_metal_version chip),
      p_serial_number := Some (ci_serial_number chip), p_installed_runtimes := Some (cap_installed_runtimes caps),
      p_max_job_ram_gb := Some (as_i32 (cap_max_job_ram_gb caps)), p_bandwidth_mbps := Some (as_i32 (cap_bandwidth_mbps caps)),
      p_region := Some (cap_region caps), p_floor_price := Some (cap_floor_price caps), p_state := Some ''offline'',
      p_nm_version := Some (rr_nm_version req)\<rparr>"

text \<open>\<open>ON CONFLICT (provider_id) DO UPDATE SET ..\<close>: the columns it copies from \<open>EXCLUDED\<close>.\<close>

definition reregistered_row :: "capabilities \<Rightarrow> chip_info \<Rightarrow> int \<Rightarrow> provider_row \<Rightarrow> provider_row" where
  "reregistered_row caps chip now r = r
     \<lparr>p_chip_model := Some (ci_chip_model chip), p_unified_memory_gb := Some (as_i32 (ci_unified_memory_gb chip)),
      p_gpu_cores := Some (as_i32 (ci_gpu_cores chip)), p_installed_runtimes := Some (cap_installed_runtimes caps),
      p_floor_price := Some (cap_floor_price caps), p_state := Some ''offline'', p_updated_at := Some now\<rparr>"

definition upsert_provider :: "register_request \<Rightarrow> capabilities \<Rightarrow> chip_info \<Rightarrow> (coord_db world, db_error, unit) prog" where
  "upsert_provider req caps chip = db_exec (\<lambda>now. on_providers
     (sql_upsert p_provider_id (registered_row req caps chip now) (\<lambda>r. Inr (reregistered_row caps chip now r))))"

record register_response =
  rs_status :: string
  rs_message :: string
  rs_assigned_relay :: string

definition register_provider :: "register_request \<Rightarrow> register_response grpc" where
  "register_provider req =
     bindE (someE (Invalid_Argument ''capabilities required'') (rr_capabilities req)) (\<lambda>caps.
     bindE (someE (Invalid_Argument ''chip info required'') (cap_chip caps)) (\<lambda>chip.
     seqE (map_errE db_internal (upsert_provider req caps chip))
     (retE \<lparr>rs_status = ''ok'', rs_message = ''Provider registered successfully'', rs_assigned_relay = []\<rparr>)))"

text \<open>The float of a heartbeat is an \<open>f32\<close>; widening it is exact.\<close>

record heartbeat =
  hb_provider_id :: string
  hb_state :: string
  hb_gpu_util_pct :: f64
  hb_ram_used_gb :: int
  hb_active_job_id :: string

definition null_if :: "'a \<Rightarrow> 'a \<Rightarrow> 'a option" where
  "null_if x y = (if x = y then None else Some x)"

definition heartbeat_stmt :: "heartbeat \<Rightarrow> (coord_db world, db_error, unit) prog" where
  "heartbeat_stmt hb = db_exec (\<lambda>now. on_providers (sql_update (\<lambda>p. p_provider_id p = hb_provider_id hb)
     (\<lambda>p. Inr (p\<lparr>p_state := Some (hb_state hb), p_gpu_util_pct := Some (hb_gpu_util_pct hb),
        p_ram_used_gb := Some (as_i32 (hb_ram_used_gb hb)), p_active_job_id := null_if (hb_active_job_id hb) [],
        p_last_seen := Some now\<rparr>))))"

definition send_heartbeat :: "heartbeat \<Rightarrow> (bool \<times> string) grpc" where
  "send_heartbeat hb = seqE (map_errE db_internal (heartbeat_stmt hb)) (retE (True, []))"

record job_accepted =
  ja_job_id :: string
  ja_wireguard_endpoint :: string
  ja_ssh_port :: int

record complete_ack =
  ack_ok :: bool
  ack_credits_earned :: f64
  ack_message :: json

definition acknowledge_stmt :: "job_accepted \<Rightarrow> (coord_db world, db_error, unit) prog" where
  "acknowledge_stmt ja = db_exec (\<lambda>now. on_jobs (sql_update (\<lambda>j. j_job_id j = ja_job_id ja)
     (\<lambda>j. Inr (j\<lparr>j_state := Some ''running'', j_wireguard_endpoint := Some (ja_wireguard_endpoint ja),
        j_ssh_port := Some (as_i32 (ja_ssh_port ja))\<rparr>))))"

definition acknowledge_job :: "job_accepted \<Rightarrow> complete_ack grpc" where
  "acknowledge_job ja =
     seqE (map_errE db_internal (acknowledge_stmt ja))
     (retE \<lparr>ack_ok = True, ack_credits_earned = Fin 0, ack_message = JStr ''Job running''\<rparr>)"

record job_complete =
  jc_job_id :: string
  jc_provider_id :: string
  jc_exit_code :: int
  jc_output_hash :: string
  jc_actual_runtime_s :: int

definition completion_state :: "job_complete \<Rightarrow> string" where
  "completion_state jc = (if jc_exit_code jc = 0 then ''complete'' else ''failed'')"

definition completion_stmt :: "job_complete \<Rightarrow> (coord_db world, db_error, unit) prog" where
  "completion_stmt jc = db_exec (\<lambda>now. on_jobs (sql_update (\<lambda>j. j_job_id j = jc_job_id jc)
     (\<lambda>j. Inr (j\<lparr>j_state := Some (completion_state jc), j_output_hash := Some (jc_output_hash jc),
        j_actual_runtime_s := Some (as_i64 (jc_actual_runtime_s jc)), j_completed_at := Some now\<rparr>))))"

subsection \<open>Milestone rewards\<close>

definition add_hours_row :: "f64 \<Rightarrow> provider_row \<Rightarrow> db_error + provider_row" where
  "add_hours_row hours p =
     and_then (pg_add (unwrap_or (Fin 0) (p_gpu_hours p)) hours) (\<lambda>t. Inr (p\<lparr>p_gpu_hours := Some t\<rparr>))"

text \<open>\<open>UPDATE .. RETURNING total_gpu_hours_contributed\<close>\<close>

definition add_gpu_hours :: "string \<Rightarrow> f64 \<Rightarrow> (coord_db world, db_error, f64 option option) prog" where
  "add_gpu_hours pid hours = db_stmt (\<lambda>now d.
     map_sum id (\<lambda>d'. (map_option p_gpu_hours (provider_of d' pid), d'))
       (on_providers (sql_update (\<lambda>p. p_provider_id p = pid) (add_hours_row hours)) d))"

definition count_milestones :: "string \<Rightarrow> coord_db \<Rightarrow> int" where
  "count_milestones pid d = int (length (filter (\<lambda>m. m_provider_id m = pid) (milestones d)))"

definition insert_milestone :: "string \<Rightarrow> int \<Rightarrow> f64 \<Rightarrow> string \<Rightarrow> string option \<Rightarrow> (coord_db world, db_error, unit) prog" where
  "insert_milestone pid hours reward acct tx_id = db_exec (\<lambda>now d.
     if (pid, hours) \<in> (\<lambda>m. (m_provider_id m, m_milestone_hours m)) ` set (milestones d) then Inr d
     else if fk p_provider_id (providers d) (Some pid)
     then on_milestones (\<lambda>t. Inr (sql_insert_ignore (\<lambda>m. (m_provider_id m, m_milestone_hours m))
            \<lparr>m_provider_id = pid, m_milestone_hours = hours, m_reward_hc = reward, m_account_id = acct, m_tx_id = tx_id\<rparr> t)) d
     else Inl Fk_Violation)"

text \<open>The arms of the \<open>match\<close> on the ledger's answer.\<close>

definition reward_tx_id :: "http_result \<Rightarrow> string option" where
  "reward_tx_id r =
     (case r of
        Http_Response ok body \<Rightarrow> (if ok then Option.bind body (\<lambda>v. j_as_str (j_get ''transaction_id'' v)) else None)
      | Send_Failed \<Rightarrow> None)"

definition reward_url :: "string option \<Rightarrow> string \<Rightarrow> string" where
  "reward_url ledger_url_var acct =
     unwrap_or ''http://localhost:8082'' ledger_url_var @ ''/api/v1/wallet/'' @ acct @ ''/deposit''"

text \<open>\<open>{}\<close> of an integer.\<close>

fun dec_nat :: "nat \<Rightarrow> string" where
  "dec_nat n = (if n < 10 then [char_of (48 + n)] else dec_nat (n div 10) @ [char_of (48 + n mod 10)])"

declare dec_nat.simps [simp del]

definition dec_int :: "int \<Rightarrow> string" where
  "dec_int n = (if n < 0 then CHR ''-'' # dec_nat (nat (- n)) else dec_nat (nat n))"

definition reward_body :: "int \<Rightarrow> json" where
  "reward_body milestone_hours = JObj
     [(''amount_nmc'', j_f64 (Fin 50)), (''reference'', JStr (''milestone_'' @ dec_int milestone_hours @ ''h''))]"

definition reward_milestone :: "http_client \<Rightarrow> string option \<Rightarrow> string \<Rightarrow> int \<Rightarrow> unit grpc" where
  "reward_milestone http ledger_url_var pid n =
     (let milestone_hours = as_i32 (n * 8) in
      bindE (postE http (reward_url ledger_url_var pid) (reward_body milestone_hours)) (\<lambda>resp.
      seqE (okE (insert_milestone pid milestone_hours (Fin 50) pid (reward_tx_id resp)))
      (retE ())))"

definition milestone_rewards :: "http_client \<Rightarrow> string option \<Rightarrow> string \<Rightarrow> int \<Rightarrow> unit grpc" where
  "milestone_rewards http ledger_url_var pid runtime_s =
     (let hours = f64_div (f64_of_int runtime_s) (Fin 3600) in
      bindE (okE (add_gpu_hours pid hours)) (\<lambda>updated.
      case Option.bind updated id of
        None \<Rightarrow> retE ()
      | Some hours_sum \<Rightarrow>
          (let milestones_earned = f64_as_i32 (f64_div (unwrap_or (Fin 0) hours_sum) (Fin 8)) in
           bindE (okE (db_query (\<lambda>_ d. Inr (count_milestones pid d)))) (\<lambda>c.
           let claimed = as_i32 (unwrap_or 0 c) in
           forE [claimed + 1..milestones_earned] (reward_milestone http ledger_url_var pid)))))"

definition report_completion ::
  "http_client \<Rightarrow> string option \<Rightarrow> bool \<Rightarrow> job_complete \<Rightarrow> (complete_ack \<times> chain_call list) grpc" where
  "report_completion http ledger_url_var oracle_enabled jc =
     seqE (map_errE db_internal (completion_stmt jc))
     (seqE (if completion_state jc = ''complete'' \<and> jc_provider_id jc \<noteq> []
            then milestone_rewards http ledger_url_var (jc_provider_id jc) (jc_actual_runtime_s jc) else retE ())
     (bindE (okE (calculate_credits (jc_job_id jc))) (\<lambda>credits0.
     let credits = unwrap_or (Fin 0) credits0 in
     retE (\<lparr>ack_ok = True, ack_credits_earned = credits,
            ack_message = JArr [JStr ''Job '', JStr (jc_job_id jc), JStr '': '', JStr (completion_state jc),
              JFmt (CHR '' '' # [CHR 0xE2, CHR 0x80, CHR 0x94] @ '' earned {:.4} HC'') [credits]]\<rparr>,
           if completion_state jc = ''complete'' \<and> oracle_enabled then [Release_Escrow (jc_job_id jc) credits] else []))))"


section \<open>ConsumerService\<close>

text \<open>The enumeration \<open>Runtime\<close> of \<open>proto/job.proto\<close> travels as its number.\<close>

record job_requirements =
  jr_runtime :: int
  jr_min_ram_gb :: int
  jr_max_duration_s :: int
  jr_max_price_per_h :: f64

record job_submit =
  js_consumer_id :: string
  js_requirements :: "job_requirements option"
  js_bundle_hash :: string
  js_bundle_upload_url :: string
  js_consumer_ssh_pubkey :: string
  js_consumer_wg_pubkey :: string

definition grpc_job_row :: "job_submit \<Rightarrow> job_requirements \<Rightarrow> string \<Rightarrow> int \<Rightarrow> job_row" where
  "grpc_job_row req reqs jid now = (new_job_row jid (js_consumer_id req) now)
     \<lparr>j_runtime := Some (jr_runtime reqs), j_min_ram_gb := Some (as_i32 (jr_min_ram_gb reqs)),
      j_max_duration_s := Some (as_i32 (jr_max_duration_s reqs)), j_max_price := Some (jr_max_price_per_h reqs),
      j_bundle_hash := Some (js_bundle_hash req), j_bundle_url := Some (js_bundle_upload_url req),
      j_ssh_pubkey := Some (js_consumer_ssh_pubkey req), j_wg_pubkey := Some (js_consumer_wg_pubkey req),
      j_state := Some ''queued''\<rparr>"

definition grpc_insert_job :: "job_submit \<Rightarrow> job_requirements \<Rightarrow> string \<Rightarrow> (coord_db world, db_error, unit) prog" where
  "grpc_insert_job req reqs jid = db_exec (\<lambda>now. on_jobs (sql_insert j_job_id (grpc_job_row req reqs jid now)))"

text \<open>The reply, and the subject and payload published to NATS when a client is configured (the
  publication's own failure is dropped).\<close>

record submit_response =
  sr_job_id :: string
  sr_state :: int
  sr_message :: string

definition grpc_submit_job :: "bool \<Rightarrow> job_submit \<Rightarrow> (submit_response \<times> (string \<times> json) option) grpc" where
  "grpc_submit_job nats req =
     bindE (someE (Invalid_Argument ''requirements required'') (js_requirements req)) (\<lambda>reqs.
     bindE new_uuid (\<lambda>job_id.
     seqE (map_errE db_internal (grpc_insert_job req reqs job_id))
     (retE (\<lparr>sr_job_id = job_id, sr_state = 1, sr_message = ''Job queued for matching''\<rparr>,
            if nats then Some (''nm.jobs.new'', JObj [(''job_id'', JStr job_id)]) else None))))"

record job_status_msg =
  st_job_id :: string
  st_state :: int
  st_provider_id :: string
  st_price_per_hour :: f64
  st_elapsed_s :: int
  st_wireguard_endpoint :: string
  st_ssh_port :: int

definition job_of_consumer :: "string \<Rightarrow> string \<Rightarrow> coord_db \<Rightarrow> job_row option" where
  "job_of_consumer jid cid d = sql_first (\<lambda>j. j_job_id j = jid \<and> j_consumer_id j = cid) (jobs d)"

definition job_status_of :: "int \<Rightarrow> job_row \<Rightarrow> job_status_msg" where
  "job_status_of now j =
     \<lparr>st_job_id = j_job_id j, st_state = 0, st_provider_id = unwrap_or [] (j_provider_id j),
      st_price_per_hour = unwrap_or (Fin 0) (j_price j),
      st_elapsed_s = as_u64 (unwrap_or 0 (map_option (\<lambda>t. now - t) (j_started_at j))),
      st_wireguard_endpoint = unwrap_or [] (j_wireguard_endpoint j),
      st_ssh_port = as_u32 (unwrap_or 2222 (j_ssh_port j))\<rparr>"

definition get_job_status :: "string \<Rightarrow> string \<Rightarrow> job_status_msg grpc" where
  "get_job_status jid cid =
     bindE (map_errE db_internal (db_query (\<lambda>now d. Inr (map_option (job_status_of now) (job_of_consumer jid cid d))))) (\<lambda>row.
     someE (Grpc_Not_Found ''Job not found'') row)"

definition grpc_list_jobs :: "string \<Rightarrow> (job_status_msg list \<times> int) grpc" where
  "grpc_list_jobs cid = retE ([], 0)"

definition grpc_cancel_stmt :: "string \<Rightarrow> string \<Rightarrow> (coord_db world, db_error, unit) prog" where
  "grpc_cancel_stmt jid cid = db_exec (\<lambda>now. on_jobs (sql_update (\<lambda>j. j_job_id j = jid \<and> j_consumer_id j = cid)
     (\<lambda>j. Inr (j\<lparr>j_state := Some ''cancelled''\<rparr>))))"

definition grpc_cancel_job :: "string \<Rightarrow> string \<Rightarrow> (bool \<times> string) grpc" where
  "grpc_cancel_job jid cid = seqE (map_errE db_internal (grpc_cancel_stmt jid cid)) (retE (True, ''Cancelled''))"

record list_providers_request =
  lp_min_ram_gb :: int
  lp_region :: string
  lp_max_price :: f64
  lp_limit :: int
  lp_offset :: int

definition grpc_provider_matches :: "list_providers_request \<Rightarrow> provider_row \<Rightarrow> bool" where
  "grpc_provider_matches q r \<longleftrightarrow>
     p_state r = Some ''available'' \<and> null_le (Some (as_i32 (lp_min_ram_gb q))) (p_max_job_ram_gb r) \<and>
     (lp_region q = [] \<or> p_region r = Some (lp_region q)) \<and>
     (null_le (p_floor_price r) (Some (lp_max_price q)) \<or> lp_max_price q = Fin 0)"

definition grpc_select_providers :: "list_providers_request \<Rightarrow> coord_db \<Rightarrow> provider_row list" where
  "grpc_select_providers q d =
     take (nat (max (lp_limit q) 20)) (drop (nat (lp_offset q))
       (order_asc p_floor_price (filter (grpc_provider_matches q) (providers d))))"

record grpc_provider_listing =
  pl_provider_id :: string
  pl_chip_model :: string
  pl_unified_ram_gb :: int
  pl_gpu_cores :: int
  pl_metal_version :: string
  pl_runtimes :: "string list"
  pl_max_job_ram_gb :: int
  pl_price_per_hour :: f64
  pl_region :: string
  pl_trust_score :: f64
  pl_jobs_completed :: int
  pl_success_rate :: f64

definition grpc_listing_of :: "provider_row \<Rightarrow> grpc_provider_listing" where
  "grpc_listing_of r =
     \<lparr>pl_provider_id = p_provider_id r, pl_chip_model = unwrap_or [] (p_chip_model r),
      pl_unified_ram_gb = as_u32 (unwrap_or 0 (p_unified_memory_gb r)), pl_gpu_cores = as_u32 (unwrap_or 0 (p_gpu_cores r)),
      pl_metal_version = unwrap_or [] (p_metal_version r), pl_runtimes = unwrap_or [] (p_installed_runtimes r),
      pl_max_job_ram_gb = as_u32 (unwrap_or 0 (p_max_job_ram_gb r)), pl_price_per_hour = unwrap_or (Fin 0) (p_floor_price r),
      pl_region = unwrap_or [] (p_region r), pl_trust_score = f64_as_f32 (unwrap_or (Fin 3) (p_trust_score r)),
      pl_jobs_completed = as_u32 (unwrap_or 0 (p_jobs_completed r)),
      pl_success_rate = f64_as_f32 (unwrap_or (Fin 1) (p_success_rate r))\<rparr>"

definition grpc_list_providers :: "list_providers_request \<Rightarrow> (grpc_provider_listing list \<times> int) grpc" where
  "grpc_list_providers q =
     bindE (map_errE db_internal (db_query (\<lambda>_ d. Inr (grpc_select_providers q d)))) (\<lambda>rows.
     retE (map grpc_listing_of rows, int (length rows)))"

section \<open>The ledger as the HTTP peer\<close>

text \<open>
  The route \<open>POST /api/v1/wallet/:id/deposit\<close> of the ledger service, at the address \<open>base\<close>: what
  the reward call reaches when the ledger runs on the same database. Other paths are answered \<open>404\<close>
  and change nothing.
\<close>

definition wallet_of_path :: "string \<Rightarrow> string \<Rightarrow> string option" where
  "wallet_of_path base url =
     (case strip_prefix (base @ ''/api/v1/wallet/'') url of
        None \<Rightarrow> None
      | Some rest \<Rightarrow> (case split_on (CHR ''/'') rest of [acct, op] \<Rightarrow> (if op = ''deposit'' then Some acct else None) | _ \<Rightarrow> None))"

definition deposit_of_json :: "json \<Rightarrow> deposit_body option" where
  "deposit_of_json j =
     (case j_get ''amount_nmc'' j of
        JNum q \<Rightarrow> Some \<lparr>db_amount_nmc = Fin q, db_reference = j_as_str (j_get ''reference'' j)\<rparr>
      | _ \<Rightarrow> None)"

definition ledger_server :: "string \<Rightarrow> http_client" where
  "ledger_server base url body w =
     (case (wallet_of_path base url, deposit_of_json body) of
        (Some acct, Some b) \<Rightarrow>
          (case deposit acct b w of (Inr j, w') \<Rightarrow> (Http_Response True (Some j), w') | (Inl e, w') \<Rightarrow> (Http_Response False None, w'))
      | _ \<Rightarrow> (Http_Response False None, w))"

section \<open>The invariant\<close>

definition keeps_http :: "http_client \<Rightarrow> bool" where
  "keeps_http http \<longleftrightarrow> (\<forall>url body w. db_inv (wdb w) \<longrightarrow> db_inv (wdb (snd (http url body w))))"

lemma keeps_postE [keeps_intro]: "keeps_http http \<Longrightarrow> keeps_db (postE http url body)"
  by (auto simp: keeps_http_def keeps_def postE_def split: prod.split) (metis snd_conv)

lemma provider_rows_ok:
  "trust_ok (registered_row req caps chip now)" "trust_ok (reregistered_row caps chip now r) = trust_ok r"
  "p_provider_id (reregistered_row caps chip now r) = p_provider_id r"
  "p_provider_id (registered_row req caps chip now) = rr_provider_id req"
  by (simp_all add: trust_ok_def registered_row_def reregistered_row_def new_provider_row_def)

lemma keeps_upsert_provider [keeps_intro]: "keeps_db (upsert_provider req caps chip)"
  unfolding upsert_provider_def
proof (rule keeps_db_exec, erule inv_on_providers, assumption)
  fix now t t'
  let ?u = "sql_upsert p_provider_id (registered_row req caps chip now) (\<lambda>r. Inr (reregistered_row caps chip now r)) t"
  show "keys_distinct p_provider_id t \<Longrightarrow> ?u = Inr t' \<Longrightarrow> keys_distinct p_provider_id t'"
    by (erule keys_distinct_upsert [rotated 2]) (auto simp: provider_rows_ok)
  show "Ball (set t) trust_ok \<Longrightarrow> ?u = Inr t' \<Longrightarrow> Ball (set t') trust_ok"
    by (erule sql_upsert_all [rotated 3]) (auto simp: provider_rows_ok)
qed

lemma keeps_register_provider [keeps_intro]: "keeps_db (register_provider req)"
  unfolding register_provider_def by (intro keeps_intro)

lemma keeps_send_heartbeat [keeps_intro]: "keeps_db (send_heartbeat hb)"
  unfolding send_heartbeat_def heartbeat_stmt_def
  by (intro keeps_intro keeps_db_exec) (erule inv_update_providers, auto simp: trust_ok_def)

lemma keeps_acknowledge_job [keeps_intro]: "keeps_db (acknowledge_job ja)"
  unfolding acknowledge_job_def acknowledge_stmt_def
  by (intro keeps_intro keeps_db_exec) (erule inv_update_jobs, auto)

lemma keeps_completion_stmt [keeps_intro]: "keeps_db (completion_stmt jc)"
  unfolding completion_stmt_def by (rule keeps_db_exec) (erule inv_update_jobs, auto)

lemma keeps_add_gpu_hours [keeps_intro]: "keeps_db (add_gpu_hours pid h)"
  unfolding add_gpu_hours_def
  by (rule keeps_db_stmt) (auto simp: map_sum_eq_Inr add_hours_row_def and_then_eq_Inr trust_ok_def elim!: inv_update_providers)

lemma keeps_insert_milestone [keeps_intro]: "keeps_db (insert_milestone pid h r a t)"
  unfolding insert_milestone_def
  by (rule keeps_db_exec) (auto split: if_splits elim!: inv_on_milestones intro: keys_distinct_insert_ignore)

lemma keeps_milestone_rewards [keeps_intro]: "keeps_http http \<Longrightarrow> keeps_db (milestone_rewards http u pid s)"
  unfolding milestone_rewards_def reward_milestone_def by (intro keeps_intro)

lemma keeps_calculate_credits [keeps_intro]: "keeps_db (calculate_credits jid)"
  unfolding calculate_credits_def by (intro keeps_intro)

lemma keeps_report_completion [keeps_intro]: "keeps_http http \<Longrightarrow> keeps_db (report_completion http u oe jc)"
  unfolding report_completion_def by (intro keeps_intro)

lemma keeps_grpc_submit_job [keeps_intro]: "keeps_db (grpc_submit_job nats req)"
  unfolding grpc_submit_job_def grpc_insert_job_def by (intro keeps_intro keeps_db_exec) (erule inv_insert_jobs)

lemma keeps_grpc_cancel_job [keeps_intro]: "keeps_db (grpc_cancel_job jid cid)"
  unfolding grpc_cancel_job_def grpc_cancel_stmt_def by (intro keeps_intro keeps_db_exec) (erule inv_update_jobs, auto)

lemma ledger_server_keeps: "keeps_http (ledger_server base)"
  unfolding keeps_http_def
proof (intro allI impI)
  fix url body and w :: "coord_db world"
  assume "db_inv (wdb w)"
  then have "db_inv (wdb (snd (deposit a b w)))" for a b by (rule keepsD [OF keeps_deposit])
  then show "db_inv (wdb (snd (ledger_server base url body w)))" using \<open>db_inv (wdb w)\<close>
    by (auto simp: ledger_server_def split: option.split prod.split sum.split) (metis snd_conv)+
qed

section \<open>A job submitted over gRPC\<close>

text \<open>A job submitted over gRPC is queued without an escrow. Whatever the price, the duration and the
  consumer's balance (or the lack of an account), the job joins the queue that the matching engine serves, and
  no credit, escrow or transaction row changes, where the REST endpoint refuses or locks the cost.\<close>

theorem grpc_submit_unescrowed:
  assumes "wfaults w = []" "pk_inv (wdb w)" "job_of (wdb w) (wids w (widn w)) = None" "js_requirements req = Some reqs"
  shows "\<exists>w' msg. grpc_submit_job nats req w = (Inr (\<lparr>sr_job_id = wids w (widn w), sr_state = 1,
        sr_message = ''Job queued for matching''\<rparr>, msg), w') \<and>
     credits (wdb w') = credits (wdb w) \<and> escrows (wdb w') = escrows (wdb w) \<and> txs (wdb w') = txs (wdb w) \<and>
     (\<exists>j. job_of (wdb w') (wids w (widn w)) = Some j \<and> j_state j = Some ''queued'' \<and> j_consumer_id j = js_consumer_id req \<and>
        j_max_price j = Some (jr_max_price_per_h reqs) \<and> locked_escrow (wids w (widn w)) (wdb w') = locked_escrow (wids w (widn w)) (wdb w))"
proof -
  let ?jid = "wids w (widn w)"
  have key: "j_job_id (grpc_job_row req reqs ?jid (wnow w)) = ?jid" by (simp add: grpc_job_row_def new_job_row_def)
  have ins: "sql_insert j_job_id (grpc_job_row req reqs ?jid (wnow w)) (jobs (wdb w)) =
      Inr (jobs (wdb w) @ [grpc_job_row req reqs ?jid (wnow w)])"
    using assms(3) key by (intro sql_insert_new) simp
  have look: "sql_first (\<lambda>r. j_job_id r = ?jid) (jobs (wdb w) @ [grpc_job_row req reqs ?jid (wnow w)]) =
      Some (grpc_job_row req reqs ?jid (wnow w))"
    using assms(3) key by (simp add: sql_first_append)
  show ?thesis
    using assms(1,4) ins look
    by (simp add: grpc_submit_job_def prog_simps grpc_insert_job_def on_jobs_def locked_escrow_def grpc_job_row_def new_job_row_def)
qed

definition demo_requirements :: job_requirements where
  "demo_requirements = \<lparr>jr_runtime = 1, jr_min_ram_gb = 8, jr_max_duration_s = 3600, jr_max_price_per_h = Fin 1000\<rparr>"

definition demo_grpc_submit :: job_submit where
  "demo_grpc_submit = \<lparr>js_consumer_id = ''nobody'', js_requirements = Some demo_requirements, js_bundle_hash = ''h'',
     js_bundle_upload_url = ''u'', js_consumer_ssh_pubkey = ''s'', js_consumer_wg_pubkey = ''g''\<rparr>"

lemma empty_world_pk [simp]: "pk_inv empty_db"
  using db_inv_empty by (simp add: db_inv_def)

lemma grpc_submit_unescrowed_witness:
  "\<exists>w' msg. grpc_submit_job False demo_grpc_submit (world_at empty_db) = (Inr (\<lparr>sr_job_id = ''u'', sr_state = 1,
        sr_message = ''Job queued for matching''\<rparr>, msg), w') \<and> credits (wdb w') = [] \<and> escrows (wdb w') = []"
  using grpc_submit_unescrowed [of "world_at empty_db" demo_grpc_submit demo_requirements False]
  by (auto simp: demo_grpc_submit_def empty_db_def [THEN arg_cong [where f = jobs]] empty_db_def [THEN arg_cong [where f = credits]]
      empty_db_def [THEN arg_cong [where f = escrows]] simp del: world_at_sel(5)) (auto simp: empty_db_def)

text \<open>The number of a runtime in \<open>proto/job.proto\<close>.\<close>

fun proto_runtime :: "runtime \<Rightarrow> int" where
  "proto_runtime Mlx = 1"
| "proto_runtime TorchMps = 2"
| "proto_runtime OnnxCoreml = 3"
| "proto_runtime LlamaCpp = 4"
| "proto_runtime Shell = 5"

text \<open>A job submitted over gRPC is listed with another runtime. The service stores the protobuf number, the REST
  endpoints read the column with the numbering of their own submissions, one lower: for every runtime but the
  plain shell the name that comes back is the name of a different runtime.\<close>

theorem grpc_runtime_relabelled:
  assumes "jr_runtime reqs = proto_runtime r" "r \<noteq> Shell"
  shows "\<exists>r'. runtime_str (j_runtime (grpc_job_row req reqs jid now)) = runtime_as_str r' \<and> r' \<noteq> r"
  using assms by (cases r) (auto simp: grpc_job_row_def runtime_str_def intro: exI [of _ TorchMps] exI [of _ OnnxCoreml]
      exI [of _ LlamaCpp] exI [of _ Shell])

lemma grpc_runtime_relabelled_witness:
  "\<exists>r'. runtime_str (j_runtime (grpc_job_row demo_grpc_submit demo_requirements ''j'' 0)) = runtime_as_str r' \<and> r' \<noteq> Mlx"
  by (rule grpc_runtime_relabelled) (simp_all add: demo_requirements_def)

section \<open>A failure reported over gRPC\<close>

text \<open>A failure reported over gRPC settles nothing. Any caller, naming any job in any state, makes it \<open>failed\<close>;
  the consumer's escrow stays locked, no balance moves, and the provider that held the job stays as it was,
  leased on a job that is over.\<close>

theorem grpc_failure_settles_nothing:
  assumes "wfaults w = []" "pk_inv (wdb w)" "job_of (wdb w) (jc_job_id jc) = Some j" "jc_exit_code jc \<noteq> 0"
  shows "\<exists>ack w'. report_completion http u oe jc w = (Inr (ack, []), w') \<and>
     escrows (wdb w') = escrows (wdb w) \<and> credits (wdb w') = credits (wdb w) \<and> providers (wdb w') = providers (wdb w) \<and>
     job_of (wdb w') (jc_job_id jc) = Some (j\<lparr>j_state := Some ''failed'', j_output_hash := Some (jc_output_hash jc),
       j_actual_runtime_s := Some (as_i64 (jc_actual_runtime_s jc)), j_completed_at := Some (wnow w)\<rparr>)"
proof -
  have kd: "keys_distinct j_job_id (jobs (wdb w))" using assms(2) by (simp add: pk_inv_def)
  let ?f = "\<lambda>j. Inr (j\<lparr>j_state := Some ''failed'', j_output_hash := Some (jc_output_hash jc),
       j_actual_runtime_s := Some (as_i64 (jc_actual_runtime_s jc)), j_completed_at := Some (wnow w)\<rparr>)"
  from jobs_tbl.modify_hit [where f = ?f, OF kd assms(3) refl] show ?thesis
    using assms(1,4)
    by (auto simp: report_completion_def completion_state_def completion_stmt_def calculate_credits_def prog_simps on_jobs_def Let_def)
qed

lemma grpc_failure_settles_nothing_witness:
  "\<exists>ack w'. report_completion (\<lambda>_ _ w. (Send_Failed, w)) None True
      \<lparr>jc_job_id = ''job'', jc_provider_id = ''stranger'', jc_exit_code = 1, jc_output_hash = ''h'', jc_actual_runtime_s = 5\<rparr>
      (world_at lease_db) = (Inr (ack, []), w') \<and> escrows (wdb w') = escrows lease_db \<and> providers (wdb w') = providers lease_db"
proof -
  have "pk_inv lease_db" using demo_lease_facts(1) by (simp add: db_inv_def)
  then show ?thesis
    using grpc_failure_settles_nothing [of "world_at lease_db"
      "\<lparr>jc_job_id = ''job'', jc_provider_id = ''stranger'', jc_exit_code = 1, jc_output_hash = ''h'', jc_actual_runtime_s = 5\<rparr>"
      demo_job "\<lambda>_ _ w. (Send_Failed, w)" None True] by auto
qed

section \<open>Milestones\<close>

definition milestone_hours_of :: "string \<Rightarrow> coord_db \<Rightarrow> int list" where
  "milestone_hours_of pid d = map m_milestone_hours (filter (\<lambda>m. m_provider_id m = pid) (milestones d))"

text \<open>What the reward call must leave alone: the milestone and provider tables, and a run without faults.\<close>

definition http_neutral :: "http_client \<Rightarrow> bool" where
  "http_neutral http \<longleftrightarrow> (\<forall>url body w. milestones (wdb (snd (http url body w))) = milestones (wdb w) \<and>
     providers (wdb (snd (http url body w))) = providers (wdb w) \<and> (wfaults w = [] \<longrightarrow> wfaults (snd (http url body w)) = []))"

lemma reward_milestone_run:
  assumes "http_neutral http" "wfaults w = []" "provider_of (wdb w) pid \<noteq> None" "0 < n" "n < 2 ^ 28"
    and "8 * n \<notin> set (milestone_hours_of pid (wdb w))"
  shows "\<exists>w'. reward_milestone http u pid n w = (Inr (), w') \<and> wfaults w' = [] \<and>
     providers (wdb w') = providers (wdb w) \<and>
     milestone_hours_of pid (wdb w') = milestone_hours_of pid (wdb w) @ [8 * n]"
proof -
  have r: "as_i32 (n * 8) = 8 * n" using assms(4,5) by (simp add: i32_range_def)
  obtain resp v where h: "http (reward_url u pid) (reward_body (8 * n)) w = (resp, v)" by fastforce
  then have v: "milestones (wdb v) = milestones (wdb w)" "providers (wdb v) = providers (wdb w)" "wfaults v = []"
    using assms(1,2) unfolding http_neutral_def by (metis snd_conv)+
  have new: "(pid, 8 * n) \<notin> (\<lambda>m. (m_provider_id m, m_milestone_hours m)) ` set (milestones (wdb w))"
    using assms(6) by (auto simp: milestone_hours_of_def)
  have fk: "pid \<in> p_provider_id ` set (providers (wdb w))" using assms(3) by (simp add: sql_first_None_iff)
  show ?thesis
    using v h new fk r
    by (simp add: reward_milestone_def prog_simps postE_def insert_milestone_def on_milestones_def sql_insert_ignore_def
        milestone_hours_of_def Let_def)
qed

lemma reward_loop:
  assumes "http_neutral http" "0 < a" "b < 2 ^ 28"
  shows "wfaults w = [] \<Longrightarrow> provider_of (wdb w) pid \<noteq> None \<Longrightarrow> \<forall>n. a \<le> n \<longrightarrow> 8 * n \<notin> set (milestone_hours_of pid (wdb w)) \<Longrightarrow>
     \<exists>w'. forE [a..b] (reward_milestone http u pid) w = (Inr (), w') \<and> wfaults w' = [] \<and>
       milestone_hours_of pid (wdb w') = milestone_hours_of pid (wdb w) @ map (\<lambda>n. 8 * n) [a..b]"
  using assms
proof (induction "nat (b - a + 1)" arbitrary: a w)
  case 0
  then have "[a..b] = []" by simp
  then show ?case using 0 by (simp add: prog_simps)
next
  case (Suc k)
  then have ab: "a \<le> b" by simp
  then have l: "[a..b] = a # [a + 1..b]" by (rule upto_rec1)
  obtain v where v: "reward_milestone http u pid a w = (Inr (), v)" "wfaults v = []" "providers (wdb v) = providers (wdb w)"
    "milestone_hours_of pid (wdb v) = milestone_hours_of pid (wdb w) @ [8 * a]"
    using reward_milestone_run [OF Suc.prems(4,1,2), of a] Suc.prems ab by auto
  have "\<forall>n. a + 1 \<le> n \<longrightarrow> 8 * n \<notin> set (milestone_hours_of pid (wdb v))" using Suc.prems(3) v(4) by auto
  have "k = nat (b - (a + 1) + 1)" using Suc.hyps(2) by simp
  from Suc.hyps(1) [OF this v(2)] obtain w' where "forE [a + 1..b] (reward_milestone http u pid) v = (Inr (), w')"
    "wfaults w' = []" "milestone_hours_of pid (wdb w') = milestone_hours_of pid (wdb v) @ map (\<lambda>n. 8 * n) [a + 1..b]"
    using \<open>\<forall>n. a + 1 \<le> n \<longrightarrow> _ n\<close> Suc.prems v(3) by auto
  then show ?case using v(1,4) l by (simp add: prog_simps)
qed

lemma count_milestones_length: "count_milestones pid d = int (length (milestone_hours_of pid d))"
  by (simp add: count_milestones_def milestone_hours_of_def)

lemma add_gpu_hours_run:
  assumes "wfaults w = []" "keys_distinct p_provider_id (providers (wdb w))" "provider_of (wdb w) pid = Some p"
    and "pg_add (unwrap_or (Fin 0) (p_gpu_hours p)) h = Inr t"
  shows "\<exists>ps. add_gpu_hours pid h w = (Inr (Some (Some t)), w\<lparr>wdb := (wdb w)\<lparr>providers := ps\<rparr>\<rparr>) \<and>
     sql_first (\<lambda>p. p_provider_id p = pid) ps = Some (p\<lparr>p_gpu_hours := Some t\<rparr>)"
proof -
  have "add_hours_row h p = Inr (p\<lparr>p_gpu_hours := Some t\<rparr>)" using assms(4) by (simp add: add_hours_row_def)
  from providers_tbl.modify_hit [where f = "add_hours_row h", OF assms(2,3) this] show ?thesis
    using assms(1) by (auto simp: add_gpu_hours_def prog_simps on_providers_def)
qed

lemma milestone_rewards_run:
  assumes "http_neutral http" "wfaults w = []" "pk_inv (wdb w)" "provider_of (wdb w) pid = Some p"
    and "pg_add (unwrap_or (Fin 0) (p_gpu_hours p)) (f64_div (f64_of_int s) (Fin 3600)) = Inr t"
    and "f64_as_i32 (f64_div t (Fin 8)) = e" "e < 2 ^ 28" "milestone_hours_of pid (wdb w) = map (\<lambda>n. 8 * n) [1..c]" "0 \<le> c" "c < 2 ^ 28"
  shows "\<exists>w'. milestone_rewards http u pid s w = (Inr (), w') \<and>
     milestone_hours_of pid (wdb w') = map (\<lambda>n. 8 * n) [1..max c e]"
proof -
  have kd: "keys_distinct p_provider_id (providers (wdb w))" using assms(3) by (simp add: pk_inv_def)
  from add_gpu_hours_run [OF assms(2) kd assms(4,5)] obtain ps where ps:
    "add_gpu_hours pid (f64_div (f64_of_int s) (Fin 3600)) w = (Inr (Some (Some t)), w\<lparr>wdb := (wdb w)\<lparr>providers := ps\<rparr>\<rparr>)"
    "sql_first (\<lambda>p. p_provider_id p = pid) ps = Some (p\<lparr>p_gpu_hours := Some t\<rparr>)" by blast
  let ?v = "w\<lparr>wdb := (wdb w)\<lparr>providers := ps\<rparr>\<rparr>"
  have m: "milestone_hours_of pid (wdb ?v) = map (\<lambda>n. 8 * n) [1..c]" using assms(8) by (simp add: milestone_hours_of_def)
  then have cnt: "count_milestones pid (wdb ?v) = c" using assms(9) by (simp add: count_milestones_length)
  have c32: "as_i32 c = c" using assms(9,10) by (simp add: i32_range_def)
  have "\<exists>w'. forE [c + 1..e] (reward_milestone http u pid) ?v = (Inr (), w') \<and> wfaults w' = [] \<and>
       milestone_hours_of pid (wdb w') = milestone_hours_of pid (wdb ?v) @ map (\<lambda>n. 8 * n) [c + 1..e]"
    using ps(2) m assms(1,2,7,9) by (intro reward_loop) auto
  then obtain w' where w': "forE [c + 1..e] (reward_milestone http u pid) ?v = (Inr (), w')"
    "milestone_hours_of pid (wdb w') = map (\<lambda>n. 8 * n) [1..c] @ map (\<lambda>n. 8 * n) [c + 1..e]" unfolding m by blast
  have up: "[1..c] @ [c + 1..e] = [1..max c e]"
  proof (cases "1 \<le> c \<and> c \<le> e")
    case True
    then show ?thesis by (simp add: max_def upto_split2 [of 1 c e])
  next
    case False
    then have "c = 0 \<or> e < c" using assms(9) by linarith
    then show ?thesis using assms(9) by (auto simp: max_def)
  qed
  have "milestone_hours_of pid (wdb w') = map (\<lambda>n. 8 * n) [1..max c e]"
    unfolding up [symmetric] map_append by (rule w'(2))
  moreover have "milestone_rewards http u pid s w = (Inr (), w')"
    using ps(1) w'(1) cnt c32 assms(2,6) by (simp add: milestone_rewards_def prog_simps Let_def)
  ultimately show ?thesis by blast
qed

text \<open>C16: The milestone rewards catch up. A provider whose recorded milestones are 8, 16, .., 8c hours reports a
  successful job that brings its total to \<open>t\<close> hours. Whatever the ledger answers, afterwards its recorded milestones
  are every multiple of 8 up to the total, in order, each once: none is skipped and none is recorded twice.\<close>

theorem milestones_catch_up:
  assumes "http_neutral http" "wfaults w = []" "pk_inv (wdb w)" "provider_of (wdb w) pid = Some p"
    and "pg_add (unwrap_or (Fin 0) (p_gpu_hours p)) (f64_div (f64_of_int s) (Fin 3600)) = Inr t"
    and "f64_as_i32 (f64_div t (Fin 8)) = e" "e < 2 ^ 28" "milestone_hours_of pid (wdb w) = map (\<lambda>n. 8 * n) [1..c]" "0 \<le> c" "c < 2 ^ 28"
  shows "\<exists>w'. milestone_rewards http u pid s w = (Inr (), w') \<and>
     milestone_hours_of pid (wdb w') = map (\<lambda>n. 8 * n) [1..max c e]"
  using assms by (rule milestone_rewards_run)

lemma keeps_no_faults_stmt: "keeps (\<lambda>w. wfaults w = []) (db_stmt st)"
  by (rule keepsI) (auto simp: db_stmt_def run_stmt_def split: sum.split prod.split)

lemma deposit_keeps:
  assumes "\<And>now d t. I d \<Longrightarrow> I (d\<lparr>credits := t\<rparr>)" "\<And>now d t. I d \<Longrightarrow> I (d\<lparr>txs := t\<rparr>)"
  shows "keeps (\<lambda>w. I (wdb w)) (deposit aid b)"
  unfolding deposit_def credit_deposit_def insert_tx_def
  by (intro keeps_intro keeps_db_exec) (auto simp: on_credits_def on_txs_def map_sum_eq_Inr assms)

lemma deposit_no_faults: "keeps (\<lambda>w. wfaults w = []) (deposit aid b)"
  unfolding deposit_def credit_deposit_def insert_tx_def db_exec_def
  by (intro keeps_intro keeps_no_faults_stmt) (simp add: keeps_def new_uuid_def)

lemma ledger_server_neutral: "http_neutral (ledger_server base)"
  unfolding http_neutral_def
proof (intro allI)
  fix url body and w :: "coord_db world"
  have "milestones (wdb (snd (deposit a b w))) = milestones (wdb w)" "providers (wdb (snd (deposit a b w))) = providers (wdb w)"
    "wfaults w = [] \<Longrightarrow> wfaults (snd (deposit a b w)) = []" for a b
    using keepsD [OF deposit_keeps [of "\<lambda>d. milestones d = milestones (wdb w)"]] keepsD [OF deposit_keeps [of "\<lambda>d. providers d = providers (wdb w)"]]
      keepsD [OF deposit_no_faults] by auto
  then show "milestones (wdb (snd (ledger_server base url body w))) = milestones (wdb w) \<and>
     providers (wdb (snd (ledger_server base url body w))) = providers (wdb w) \<and> (wfaults w = [] \<longrightarrow> wfaults (snd (ledger_server base url body w)) = [])"
    by (auto simp: ledger_server_def split: option.split prod.split sum.split) (metis snd_conv)+
qed

definition hours_db :: coord_db where
  "hours_db = empty_db\<lparr>providers := [demo_provider\<lparr>p_gpu_hours := Some (Fin 7)\<rparr>]\<rparr>"

lemma hours_db_facts [simp]:
  "pk_inv hours_db" "provider_of hours_db ''prov'' = Some (demo_provider\<lparr>p_gpu_hours := Some (Fin 7)\<rparr>)"
  "milestone_hours_of ''prov'' hours_db = []" "credits hours_db = []" "txs hours_db = []"
  "f64_div (f64_of_int 36000) (Fin 3600) = Fin 10" "pg_add (Fin 7) (Fin 10) = Inr (Fin 17)" "f64_as_i32 (f64_of (17 / 8)) = 2"
proof -
  have "rnd64 (17 / 8) = 17 / 8" by (subst rnd64_eqI [where k = 1 and m = "17 * 2 ^ 48"]) simp_all
  then have "f64_of (17 / 8) = Fin (17 / 8)" by (simp add: f64_of_def)
  then show "f64_as_i32 (f64_of (17 / 8)) = 2" by (simp add: f64_as_i32_def floor_eq_iff)
qed (simp_all add: hours_db_def pk_inv_def keys_distinct_def empty_db_def demo_provider_def new_provider_row_def milestone_hours_of_def f64_of_int_def)

lemma milestones_catch_up_witness:
  "\<exists>w'. milestone_rewards (ledger_server ''http://ledger'') (Some ''http://ledger'') ''prov'' 36000 (world_at hours_db) = (Inr (), w') \<and>
     milestone_hours_of ''prov'' (wdb w') = [8, 16]"
  using milestones_catch_up [OF ledger_server_neutral [of "''http://ledger''"], where w = "world_at hours_db" and pid = "''prov''" and s = 36000 and t = "Fin 17" and e = 2 and c = 0
      and u = "Some ''http://ledger''" and p = "demo_provider\<lparr>p_gpu_hours := Some (Fin 7)\<rparr>"] by (auto simp: upto.simps)

lemma milestone_rewards_keeps:
  assumes "\<And>d t. I d \<Longrightarrow> I (d\<lparr>providers := t\<rparr>)" "\<And>d t. I d \<Longrightarrow> I (d\<lparr>milestones := t\<rparr>)"
    and "\<And>url body. keeps (\<lambda>w. I (wdb w)) (postE http url body :: (coord_db world, grpc_error, http_result) prog)"
  shows "keeps (\<lambda>w. I (wdb w)) (milestone_rewards http u pid s)"
  unfolding milestone_rewards_def reward_milestone_def add_gpu_hours_def insert_milestone_def
  by (intro keeps_intro keeps_db_exec keeps_db_stmt assms(3))
    (auto simp: on_providers_def on_milestones_def map_sum_eq_Inr assms(1,2) split: if_splits)

text \<open>A milestone reached while the ledger is down is never paid. The call fails, the milestone is recorded all the
  same: all the hours count as rewarded, no balance has moved, and (by the previous property) later reports start
  after the recorded milestones.\<close>

theorem milestone_lost_when_ledger_down:
  assumes "wfaults w = []" "pk_inv (wdb w)" "provider_of (wdb w) pid = Some p"
    and "pg_add (unwrap_or (Fin 0) (p_gpu_hours p)) (f64_div (f64_of_int s) (Fin 3600)) = Inr t"
    and "f64_as_i32 (f64_div t (Fin 8)) = e" "e < 2 ^ 28" "milestone_hours_of pid (wdb w) = map (\<lambda>n. 8 * n) [1..c]" "0 \<le> c" "c < 2 ^ 28"
  shows "\<exists>w'. milestone_rewards (\<lambda>url body v. (Send_Failed, v)) u pid s w = (Inr (), w') \<and>
     milestone_hours_of pid (wdb w') = map (\<lambda>n. 8 * n) [1..max c e] \<and> credits (wdb w') = credits (wdb w) \<and> txs (wdb w') = txs (wdb w)"
proof -
  have "http_neutral (\<lambda>url body v. (Send_Failed, v))" by (simp add: http_neutral_def)
  from milestone_rewards_run [OF this assms, of u] obtain w' where w':
    "milestone_rewards (\<lambda>url body v. (Send_Failed, v)) u pid s w = (Inr (), w')"
    "milestone_hours_of pid (wdb w') = map (\<lambda>n. 8 * n) [1..max c e]" by blast
  have "keeps (\<lambda>v. (\<lambda>d. credits d = credits (wdb w) \<and> txs d = txs (wdb w)) (wdb v)) (milestone_rewards (\<lambda>url body v. (Send_Failed, v)) u pid s)"
    by (rule milestone_rewards_keeps) (auto simp: keeps_def postE_def)
  from keepsD [OF this, of w] w' show ?thesis by auto
qed

lemma milestone_lost_when_ledger_down_witness:
  "\<exists>w'. milestone_rewards (\<lambda>url body v. (Send_Failed, v)) None ''prov'' 36000 (world_at hours_db) = (Inr (), w') \<and>
     milestone_hours_of ''prov'' (wdb w') = [8, 16] \<and> credits (wdb w') = []"
  using milestone_lost_when_ledger_down [where w = "world_at hours_db" and pid = "''prov''" and s = 36000 and t = "Fin 17" and e = 2 and c = 0
      and u = None and p = "demo_provider\<lparr>p_gpu_hours := Some (Fin 7)\<rparr>"] by (auto simp: upto.simps)

end
