(* ===== verification/Coordinator_System.thy ===== *)
theory Coordinator_System
  imports Matching Grpc_Api Ledger_Service Rest_Accounts Rest_Ledger Rest_Lifecycle
begin

text \<open>
  The services together: the routes of the coordinator (REST and gRPC) and of the ledger service, the background tasks, and the runs that
  any sequence of requests makes of them, with any statement failing at any point. The handlers run one after the other; statements of
  concurrent handlers are not interleaved here.
\<close>

section \<open>Every request the services serve\<close>

record sys_env =
  se_sha :: "string \<Rightarrow> string"
  se_hex :: "string \<Rightarrow> string"
  se_tar :: "(string \<times> string) list \<Rightarrow> string list \<Rightarrow> tar_result"
  se_public_url :: string
  se_secret :: "string option"
  se_oracle :: bool
  se_nats :: bool
  se_ledger_url :: "string option"
  se_ledger_base :: string

datatype rest_request =
    Get_Health | Get_Providers provider_query | Get_Provider string | Get_Stats
  | Get_Jobs job_query | Post_Job submit_job_body | Get_Job string | Delete_Job string
  | Get_Logs string "nat option" | Post_Logs string string
  | Post_Register register_account_body | Get_Account string | Post_Verify string verify_device_body | Post_Reregister string reregister_body
  | Get_Balance string | Get_Transactions tx_query | Get_Kyc string | Post_Kyc kyc_submit_body
  | Get_Assigned string | Post_Complete string complete_job_body | Post_Fail string fail_job_body
  | Get_Checkpoint string | Post_Checkpoint string checkpoint_body | Post_Heartbeat string job_heartbeat_body
  | Post_Artifact "part list" | Get_Artifact string | Post_Withdraw withdraw_body
  | Post_Stripe "string option" stripe_credit_body

text \<open>The router: the handler of each route. Only the state it leaves is of interest here.\<close>

definition rest_router :: "sys_env \<Rightarrow> rest_request \<Rightarrow> coord_db world \<Rightarrow> coord_db world" where
  "rest_router env r w = (case r of
     Get_Health \<Rightarrow> snd (health w)
   | Get_Providers q \<Rightarrow> snd (list_providers q w)
   | Get_Provider i \<Rightarrow> snd (get_provider i w)
   | Get_Stats \<Rightarrow> snd (network_stats w)
   | Get_Jobs q \<Rightarrow> snd (list_jobs_rest q w)
   | Post_Job b \<Rightarrow> snd (submit_job b w)
   | Get_Job i \<Rightarrow> snd (get_job i w)
   | Delete_Job i \<Rightarrow> snd (cancel_job i w)
   | Get_Logs i off \<Rightarrow> snd (get_job_logs i off w)
   | Post_Logs i out \<Rightarrow> snd (append_job_log i out w)
   | Post_Register b \<Rightarrow> snd (register_account (se_sha env) (se_hex env) b w)
   | Get_Account i \<Rightarrow> snd (get_account i w)
   | Post_Verify i b \<Rightarrow> snd (verify_device i b w)
   | Post_Reregister i b \<Rightarrow> snd (reregister_device i b w)
   | Get_Balance i \<Rightarrow> snd (get_balance i w)
   | Get_Transactions q \<Rightarrow> snd (list_transactions q w)
   | Get_Kyc i \<Rightarrow> snd (get_kyc i w)
   | Post_Kyc b \<Rightarrow> snd (submit_kyc (se_sha env) (se_hex env) b w)
   | Get_Assigned i \<Rightarrow> snd (get_assigned_job i w)
   | Post_Complete i b \<Rightarrow> snd (complete_job (se_oracle env) i b w)
   | Post_Fail i b \<Rightarrow> snd (fail_job (se_oracle env) i b w)
   | Get_Checkpoint i \<Rightarrow> snd (get_checkpoint i w)
   | Post_Checkpoint i b \<Rightarrow> snd (save_checkpoint i b w)
   | Post_Heartbeat i b \<Rightarrow> snd (job_heartbeat i b w)
   | Post_Artifact ps \<Rightarrow> snd (upload_artifact (se_tar env) (se_public_url env) ps w)
   | Get_Artifact h \<Rightarrow> snd (download_artifact h w)
   | Post_Withdraw b \<Rightarrow> snd (withdraw b w)
   | Post_Stripe auth b \<Rightarrow> snd (stripe_credit (se_secret env) auth b w))"

datatype grpc_request =
    Rpc_Register register_request | Rpc_Heartbeat heartbeat | Rpc_Acknowledge job_accepted | Rpc_Completion job_complete
  | Rpc_Submit job_submit | Rpc_Status string string | Rpc_List string | Rpc_Cancel string string | Rpc_Providers list_providers_request

text \<open>The gRPC services; the rewards of a completion go to the ledger service.\<close>

definition grpc_router :: "sys_env \<Rightarrow> grpc_request \<Rightarrow> coord_db world \<Rightarrow> coord_db world" where
  "grpc_router env r w = (case r of
     Rpc_Register q \<Rightarrow> snd (register_provider q w)
   | Rpc_Heartbeat h \<Rightarrow> snd (send_heartbeat h w)
   | Rpc_Acknowledge a \<Rightarrow> snd (acknowledge_job a w)
   | Rpc_Completion c \<Rightarrow> snd (report_completion (ledger_server (se_ledger_base env)) (se_ledger_url env) (se_oracle env) c w)
   | Rpc_Submit q \<Rightarrow> snd (grpc_submit_job (se_nats env) q w)
   | Rpc_Status i c \<Rightarrow> snd (get_job_status i c w)
   | Rpc_List c \<Rightarrow> snd (grpc_list_jobs c w)
   | Rpc_Cancel i c \<Rightarrow> snd (grpc_cancel_job i c w)
   | Rpc_Providers q \<Rightarrow> snd (grpc_list_providers q w))"

datatype ledger_request = Ledger_Op ledger_op | Ledger_Balance string | Ledger_Transactions string

definition ledger_router :: "ledger_request \<Rightarrow> coord_db world \<Rightarrow> coord_db world" where
  "ledger_router r w = (case r of
     Ledger_Op x \<Rightarrow> snd (run_op x w)
   | Ledger_Balance i \<Rightarrow> snd (ledger_get_balance i w)
   | Ledger_Transactions i \<Rightarrow> snd (ledger_list_transactions i w))"

text \<open>One step of the system: a request is served, a background task runs, or the clock and the faults to come change.\<close>

inductive sys_step :: "sys_env \<Rightarrow> coord_db world \<Rightarrow> coord_db world \<Rightarrow> bool" for env where
  step_rest: "sys_step env w (rest_router env r w)"
| step_grpc: "sys_step env w (grpc_router env g w)"
| step_ledger: "sys_step env w (ledger_router l w)"
| step_auction: "sys_step env w (snd (run_auction_cycle (se_nats env) w))"
| step_watch: "sys_step env w (snd (check_stale_providers w))"
| step_evict: "sys_step env w (snd (evict_stale_providers w))"
| step_environment: "sys_step env w (w\<lparr>wnow := t, wfaults := fs\<rparr>)"

section \<open>The tables stay well formed\<close>

lemma keeps_reads [keeps_intro]:
  "keeps_db health" "keeps_db (list_providers pq)" "keeps_db (get_provider i)" "keeps_db network_stats" "keeps_db (list_jobs_rest jq)"
  "keeps_db (get_job i)" "keeps_db (get_job_logs i off)" "keeps_db (get_account i)" "keeps_db (get_balance i)" "keeps_db (list_transactions tq)"
  "keeps_db (get_kyc i)" "keeps_db (get_checkpoint i)" "keeps_db (download_artifact h)"
  unfolding health_def list_providers_def get_provider_def network_stats_def list_jobs_rest_def get_job_def get_job_logs_def get_account_def
    get_balance_def list_transactions_def get_kyc_def get_checkpoint_def download_artifact_def Let_def
  by (intro keeps_intro)+


lemma keeps_grpc_reads [keeps_intro]:
  "keeps_db (get_job_status i c)" "keeps_db (grpc_list_jobs c)" "keeps_db (grpc_list_providers q)" "keeps_db (ledger_list_transactions i)"
  unfolding get_job_status_def grpc_list_jobs_def grpc_list_providers_def ledger_list_transactions_def Let_def
  by (intro keeps_intro)+

lemma keeps_run_op [keeps_intro]: "keeps_db (run_op x)"
  by (cases x; simp only: run_op.simps; intro keeps_intro)

lemma rest_keeps_db: "db_inv (wdb w) \<Longrightarrow> db_inv (wdb (rest_router env r w))"
  by (cases r; simp only: rest_router_def rest_request.case; rule keepsD [where P = "\<lambda>w. db_inv (wdb w)"]; (intro keeps_intro)?)

lemma grpc_keeps_db: "db_inv (wdb w) \<Longrightarrow> db_inv (wdb (grpc_router env r w))"
  by (cases r; simp only: grpc_router_def grpc_request.case; rule keepsD [where P = "\<lambda>w. db_inv (wdb w)"]; (intro keeps_intro ledger_server_keeps)?)

lemma ledger_keeps_db: "db_inv (wdb w) \<Longrightarrow> db_inv (wdb (ledger_router r w))"
  by (cases r; simp only: ledger_router_def ledger_request.case; rule keepsD [where P = "\<lambda>w. db_inv (wdb w)"]; (intro keeps_intro)?)

lemma sys_step_keeps_db: "sys_step env w w' \<Longrightarrow> db_inv (wdb w) \<Longrightarrow> db_inv (wdb w')"
proof (induction rule: sys_step.induct)
  case (step_auction w)
  then show ?case by (rule keepsD [OF keeps_run_auction_cycle])
next
  case (step_watch w)
  then show ?case by (rule keepsD [OF keeps_check_stale_providers])
next
  case (step_evict w)
  then show ?case by (rule keepsD [OF keeps_evict])
qed (simp_all add: rest_keeps_db grpc_keeps_db ledger_keeps_db)

section \<open>What becomes of an escrow\<close>

text \<open>A property of the escrow table that opening an escrow and releasing escrows keep is kept by the whole system: these are the only two
  things that any handler does to the table.\<close>

lemma escrow_frames:
  "on_providers Fp d = Inr d' \<Longrightarrow> escrows d' = escrows d" "on_jobs Fj d = Inr d' \<Longrightarrow> escrows d' = escrows d"
  "on_credits Fc d = Inr d' \<Longrightarrow> escrows d' = escrows d" "on_txs Ft d = Inr d' \<Longrightarrow> escrows d' = escrows d"
  "on_accounts Fa d = Inr d' \<Longrightarrow> escrows d' = escrows d" "on_kycs Fk d = Inr d' \<Longrightarrow> escrows d' = escrows d"
  "on_deposits Fd d = Inr d' \<Longrightarrow> escrows d' = escrows d" "on_checkpoints Fx d = Inr d' \<Longrightarrow> escrows d' = escrows d"
  "on_milestones Fm d = Inr d' \<Longrightarrow> escrows d' = escrows d" "on_artifacts Fr d = Inr d' \<Longrightarrow> escrows d' = escrows d"
  by (auto simp: on_table_defs map_sum_eq_Inr)

definition released_from :: "escrow_row \<Rightarrow> escrow_row \<Rightarrow> bool" where
  "released_from r r' \<longleftrightarrow> (\<exists>t. r' = r\<lparr>e_state := Some ''released'', e_settled_at := Some t\<rparr>)"

locale escrow_history =
  fixes I :: "escrow_row list \<Rightarrow> bool"
  assumes opened: "I t \<Longrightarrow> sql_insert e_escrow_id r t = Inr t' \<Longrightarrow> I t'"
    and closed: "I t \<Longrightarrow> sql_update p f t = Inr t' \<Longrightarrow> \<forall>r r'. f r = Inr r' \<longrightarrow> released_from r r' \<Longrightarrow> I t'"
begin

abbreviation keeps_esc :: "(coord_db world, 'e, 'a) prog \<Rightarrow> bool" where
  "keeps_esc \<equiv> keeps (\<lambda>w. I (escrows (wdb w)))"

lemma frame_exec: "(\<And>now d d'. u now d = Inr d' \<Longrightarrow> escrows d' = escrows d) \<Longrightarrow> keeps_esc (db_exec u)"
  by (rule keeps_db_exec [where I = "\<lambda>d. I (escrows d)"]) simp

lemma frame_stmt: "(\<And>now d x d'. st now d = Inr (x, d') \<Longrightarrow> escrows d' = escrows d) \<Longrightarrow> keeps_esc (db_stmt st)"
  by (rule keeps_db_stmt [where I = "\<lambda>d. I (escrows d)"]) (metis)

lemma release_exec:
  "(\<And>now r r'. f now r = Inr r' \<Longrightarrow> released_from r r') \<Longrightarrow> keeps_esc (db_exec (\<lambda>now. on_escrows (sql_update (p now) (f now))))"
  by (rule keeps_db_exec [where I = "\<lambda>d. I (escrows d)"]) (auto simp: on_escrows_def map_sum_eq_Inr intro: closed)

lemma keeps_esc_queries: "keeps_esc (db_query q)" "keeps_esc new_uuid"
  by (rule keeps_db_query, rule keeps_new_uuid)

lemma keeps_releases:
  "keeps_esc (cancel_release jid)" "keeps_esc (mark_settled eid)" "keeps_esc (release_escrow_row eid)"
  unfolding cancel_release_def mark_settled_def release_escrow_row_def
  by (rule release_exec, auto simp: released_from_def)+

lemma keeps_insert: "keeps_esc (insert_escrow eid jid cid pid m)"
  unfolding insert_escrow_def
  by (rule keeps_db_exec [where I = "\<lambda>d. I (escrows d)"]) (auto simp: on_escrows_def map_sum_eq_Inr intro: opened split: if_splits)

lemma keeps_rest_stmts:
  "keeps_esc (insert_job b jid)" "keeps_esc (lock_credits acct m)" "keeps_esc (insert_tx tid acct ty m bal ref descr)"
  "keeps_esc (cancel_mark jid)" "keeps_esc (cancel_refund jid cid)" "keeps_esc (free_provider_of_job jid)" "keeps_esc (append_log_stmt jid out)"
  unfolding insert_job_def lock_credits_def insert_tx_def cancel_mark_def cancel_refund_def free_provider_of_job_def append_log_stmt_def
  by (rule frame_exec; auto dest: escrow_frames split: if_splits)+

lemma keeps_lifecycle_stmts:
  "keeps_esc (start_job jid)" "keeps_esc (update_trust_score pid ok)" "keeps_esc (complete_mark cb jid)" "keeps_esc (credit_earnings acct m)"
  "keeps_esc (spend_escrow acct m)" "keeps_esc (finish_provider pid)" "keeps_esc (fail_mark jid)" "keeps_esc (return_all jid)"
  "keeps_esc (release_provider pid)" "keeps_esc (insert_checkpoint kb cid jid)" "keeps_esc (set_checkpoint url it jid)"
  "keeps_esc (touch_job jid pid)" "keeps_esc (touch_provider hb)"
  unfolding start_job_def update_trust_score_def complete_mark_def credit_earnings_def spend_escrow_def finish_provider_def fail_mark_def
    return_all_def release_provider_def insert_checkpoint_def set_checkpoint_def touch_job_def touch_provider_def Let_def
  by ((intro keeps_okE)?, rule frame_exec; auto dest: escrow_frames split: if_splits)+

lemma keeps_account_stmts:
  "keeps_esc (upsert_kyc kb h c)" "keeps_esc (register_stmt rb aid)" "keeps_esc (ensure_credit_account aid)" "keeps_esc (see_account aid)"
  "keeps_esc (rebind_stmt bb aid)" "keeps_esc (credit_deposit acct m)" "keeps_esc (insert_deposit sid acct n my)" "keeps_esc (deduct acct m)"
  "keeps_esc (insert_artifact h gz)"
  unfolding upsert_kyc_def register_stmt_def ensure_credit_account_def see_account_def rebind_stmt_def credit_deposit_def insert_deposit_def
    deduct_def insert_artifact_def
  by ((rule frame_exec frame_stmt; auto dest: escrow_frames simp: map_sum_eq_Inr and_then_eq_Inr split: if_splits option.splits)+)

lemma keeps_grpc_stmts:
  "keeps_esc (upsert_provider req caps chip)" "keeps_esc (heartbeat_stmt hb)" "keeps_esc (acknowledge_stmt ja)" "keeps_esc (completion_stmt jc)"
  "keeps_esc (add_gpu_hours pid h)" "keeps_esc (insert_milestone pid n r acct tx)" "keeps_esc (grpc_insert_job gb reqs jid)"
  "keeps_esc (grpc_cancel_stmt jid cid)"
  unfolding upsert_provider_def heartbeat_stmt_def acknowledge_stmt_def completion_stmt_def add_gpu_hours_def insert_milestone_def
    grpc_insert_job_def grpc_cancel_stmt_def
  by ((rule frame_exec frame_stmt; auto dest: escrow_frames simp: map_sum_eq_Inr and_then_eq_Inr split: if_splits option.splits)+)

lemma keeps_engine_stmts:
  "keeps_esc (assign_to_job jid pid price url)" "keeps_esc (lease_provider jid pid)" "keeps_esc (credit_refund cid m)" "keeps_esc (requeue_job jid)"
  "keeps_esc (fail_lost_job reason jid)" "keeps_esc (penalise_provider pid)" "keeps_esc (mark_offline pid)" "keeps_esc evict_stale_providers"
  "keeps_esc (guarded_debit acct m g)" "keeps_esc (settle_consumer acct m r)"
  unfolding assign_to_job_def lease_provider_def credit_refund_def requeue_job_def fail_lost_job_def penalise_provider_def mark_offline_def
    evict_stale_providers_def guarded_debit_def settle_consumer_def
  by ((rule frame_exec frame_stmt; auto dest: escrow_frames simp: map_sum_eq_Inr and_then_eq_Inr split: if_splits option.splits)+)

lemmas keeps_stmts = keeps_esc_queries keeps_releases keeps_insert keeps_rest_stmts keeps_lifecycle_stmts keeps_account_stmts
  keeps_grpc_stmts keeps_engine_stmts

lemma keeps_rest_handlers:
  "keeps_esc health" "keeps_esc (list_providers pq)" "keeps_esc (get_provider i)" "keeps_esc network_stats" "keeps_esc (list_jobs_rest jq)"
  "keeps_esc (get_job i)" "keeps_esc (get_job_logs i off)" "keeps_esc (submit_job b)" "keeps_esc (cancel_job i)" "keeps_esc (append_job_log i out)"
  unfolding health_def list_providers_def get_provider_def network_stats_def list_jobs_rest_def get_job_def get_job_logs_def submit_job_def
    cancel_job_def append_job_log_def Let_def
  by (intro keeps_intro keeps_stmts)+

lemma keeps_account_handlers:
  "keeps_esc (register_account sha hex rb)" "keeps_esc (get_account i)" "keeps_esc (verify_device i vb)" "keeps_esc (reregister_device i bb)"
  "keeps_esc (get_balance i)" "keeps_esc (list_transactions tq)" "keeps_esc (get_kyc i)" "keeps_esc (submit_kyc sha hex kb)"
  "keeps_esc (download_artifact h)" "keeps_esc (withdraw wb)" "keeps_esc (stripe_credit sec auth sb)"
  unfolding register_account_def get_account_def verify_device_def reregister_device_def get_balance_def list_transactions_def get_kyc_def
    submit_kyc_def download_artifact_def withdraw_def withdraw_check_def withdraw_apply_def stripe_credit_def Let_def
  by (intro keeps_intro keeps_stmts)+

lemma keeps_upload: "keeps_esc (upload_artifact tar url ps)"
  unfolding upload_artifact_def
  by (auto split: sum.split tar_result.split prod.split intro!: keeps_intro keeps_account_stmts)

lemma keeps_lifecycle_handlers:
  "keeps_esc (get_assigned_job i)" "keeps_esc (complete_job oe i cb)" "keeps_esc (fail_job oe i fb)" "keeps_esc (get_checkpoint i)"
  "keeps_esc (save_checkpoint i kb)" "keeps_esc (job_heartbeat i hb)"
  unfolding get_assigned_job_def complete_job_def fail_job_def get_checkpoint_def save_checkpoint_def job_heartbeat_def Let_def
  by (intro keeps_intro keeps_stmts)+

lemma keeps_ledger_handlers:
  "keeps_esc (deposit i db)" "keeps_esc (ledger_withdraw i wb)" "keeps_esc (lock_escrow lb)" "keeps_esc (release_escrow rb)"
  "keeps_esc (ledger_get_balance i)" "keeps_esc (ledger_list_transactions i)"
  unfolding deposit_def ledger_withdraw_def lock_escrow_def release_escrow_def ledger_get_balance_def ledger_list_transactions_def Let_def
  by (intro keeps_intro keeps_stmts)+

lemma keeps_engine:
  "keeps_esc (run_auction_cycle nats)" "keeps_esc check_stale_providers"
  unfolding run_auction_cycle_def auction_job_def assign_job_def find_best_provider_def check_stale_providers_def migrate_or_fail_job_def
    refund_consumer_escrow_def
  by (intro keeps_intro keeps_stmts)+

lemma keeps_reward_call: "keeps_esc (postE (ledger_server base) url body)"
  unfolding postE_def
  by (rule keepsI)
    (auto simp: ledger_server_def split: prod.split option.split sum.split dest: keeps_stepD [OF keeps_ledger_handlers(1)])

lemma keeps_grpc_handlers:
  "keeps_esc (register_provider q)" "keeps_esc (send_heartbeat hb)" "keeps_esc (acknowledge_job ja)" 
  "keeps_esc (report_completion (ledger_server base) u oe jc)" "keeps_esc (grpc_submit_job nats gs)" "keeps_esc (get_job_status i c)"
  "keeps_esc (grpc_list_jobs c)" "keeps_esc (grpc_cancel_job i c)" "keeps_esc (grpc_list_providers pq)"
  unfolding register_provider_def send_heartbeat_def acknowledge_job_def report_completion_def milestone_rewards_def reward_milestone_def
    calculate_credits_def grpc_submit_job_def get_job_status_def grpc_list_jobs_def grpc_cancel_job_def grpc_list_providers_def Let_def
  by (intro keeps_intro keeps_stmts keeps_reward_call)+

lemma rest_keeps_esc: "I (escrows (wdb w)) \<Longrightarrow> I (escrows (wdb (rest_router env r w)))"
  by (cases r; simp only: rest_router_def rest_request.case; rule keepsD [where P = "\<lambda>w. I (escrows (wdb w))"];
    (intro keeps_rest_handlers keeps_account_handlers keeps_upload keeps_lifecycle_handlers)?)

lemma grpc_keeps_esc: "I (escrows (wdb w)) \<Longrightarrow> I (escrows (wdb (grpc_router env r w)))"
  by (cases r; simp only: grpc_router_def grpc_request.case; rule keepsD [where P = "\<lambda>w. I (escrows (wdb w))"];
    (intro keeps_grpc_handlers)?)

lemma keeps_run_op_esc: "keeps_esc (run_op x)"
  by (cases x; simp only: run_op.simps; intro keeps_ledger_handlers)

lemma ledger_keeps_esc: "I (escrows (wdb w)) \<Longrightarrow> I (escrows (wdb (ledger_router r w)))"
  by (cases r; simp only: ledger_router_def ledger_request.case; rule keepsD [where P = "\<lambda>w. I (escrows (wdb w))"];
    (intro keeps_run_op_esc keeps_ledger_handlers)?)

lemma step_keeps_esc: "sys_step env w w' \<Longrightarrow> I (escrows (wdb w)) \<Longrightarrow> I (escrows (wdb w'))"
proof (induction rule: sys_step.induct)
  case (step_auction w)
  then show ?case by (rule keepsD [OF keeps_engine(1)])
next
  case (step_watch w)
  then show ?case by (rule keepsD [OF keeps_engine(2)])
next
  case (step_evict w)
  then show ?case by (rule keepsD [OF keeps_engine_stmts(8)])
qed (simp_all add: rest_keeps_esc grpc_keeps_esc ledger_keeps_esc)

lemma run_keeps_esc: "(sys_step env)\<^sup>*\<^sup>* w w' \<Longrightarrow> I (escrows (wdb w)) \<Longrightarrow> I (escrows (wdb w'))"
  by (induction rule: rtranclp_induct) (auto intro: step_keeps_esc)

end

text \<open>Two such properties: an escrow stays recorded, with its owner and amount; and once released it stays so.\<close>

definition recorded :: "escrow_row \<Rightarrow> escrow_row list \<Rightarrow> bool" where
  "recorded e t \<longleftrightarrow> (\<exists>r\<in>set t. e_escrow_id r = e_escrow_id e \<and> e_job_id r = e_job_id e \<and> e_consumer_id r = e_consumer_id e \<and>
     e_provider_id r = e_provider_id e \<and> e_locked_nmc r = e_locked_nmc e \<and> (e_state e = Some ''released'' \<longrightarrow> e_state r = Some ''released''))"

lemma recorded_update:
  assumes "recorded e t" "sql_update p f t = Inr t'" "\<forall>r r'. f r = Inr r' \<longrightarrow> released_from r r'"
  shows "recorded e t'"
  using assms
proof (induction t arbitrary: t')
  case (Cons x xs)
  then show ?case
    by (fastforce simp: sql_update_def recorded_def released_from_def split: sum.splits if_splits)
qed (simp add: recorded_def)

interpretation recorded: escrow_history "recorded e" for e
proof (unfold_locales, goal_cases)
  case (1 t r t')
  then show ?case by (auto simp: sql_insert_def recorded_def split: if_splits)
next
  case (2 t p f t')
  then show ?case by (rule recorded_update)
qed

end
