(* ===== verification/Agent_Monitor.thy ===== *)
theory Agent_Monitor
  imports Grpc_Api
begin

text \<open>
  The provider agent: the idle detector of \<open>crates/nm-macos/src/idle.rs\<close> and the event loop of
  \<open>agent/src/idle_monitor.rs\<close>, whose calls go to the coordinator's handlers (the gRPC heartbeat, the
  job poll, the reports), so that a turn of the loop is a step of the coordinator's world. The
  sampled GPU load, the clock and the parsing of a UUID are inputs.
\<close>

section \<open>Idle detection\<close>

text \<open>Times are seconds of a monotonic clock. One poll sees the time, the sampled GPU utilisation (\<open>None\<close>: no
  reading) and whether \<open>NM_FORCE_AVAILABLE\<close> is set. The screen-lock state that the source computes is not an
  input: nothing reads it.\<close>

datatype idle_state = I_Busy | I_CoolingDown | I_Available | I_Leased | I_Paused

record idle_detector =
  id_threshold_pct :: f64
  id_cool_down :: int
  id_state :: idle_state
  id_cool_down_since :: "int option"

definition detector_new :: "f64 \<Rightarrow> int \<Rightarrow> idle_detector" where
  "detector_new threshold_pct cool_down_minutes =
     \<lparr>id_threshold_pct = threshold_pct, id_cool_down = cool_down_minutes * 60, id_state = I_Busy, id_cool_down_since = None\<rparr>"

definition set_leased :: "idle_detector \<Rightarrow> idle_detector" where
  "set_leased d = d\<lparr>id_state := I_Leased, id_cool_down_since := None\<rparr>"

definition release_lease :: "idle_detector \<Rightarrow> idle_detector" where
  "release_lease d = d\<lparr>id_state := I_Busy\<rparr>"

definition pause_offers :: "idle_detector \<Rightarrow> idle_detector" where
  "pause_offers d = d\<lparr>id_state := I_Paused\<rparr>"

definition resume_offers :: "idle_detector \<Rightarrow> idle_detector" where
  "resume_offers d = (if id_state d = I_Paused then d\<lparr>id_state := I_Busy\<rparr> else d)"

record poll_input =
  pi_now :: int
  pi_sample :: "f64 option"
  pi_force :: bool

definition is_gpu_idle :: "idle_detector \<Rightarrow> f64 option \<Rightarrow> bool" where
  "is_gpu_idle d sample = (case sample of Some u \<Rightarrow> f64_lt u (id_threshold_pct d) | None \<Rightarrow> True)"

definition user_idle :: "idle_detector \<Rightarrow> poll_input \<Rightarrow> bool" where
  "user_idle d i \<longleftrightarrow> is_gpu_idle d (pi_sample i) \<or> pi_force i"

definition poll_step :: "poll_input \<Rightarrow> idle_detector \<Rightarrow> idle_detector" where
  "poll_step i d =
     (case id_state d of
        I_Busy \<Rightarrow>
          (if user_idle d i then d\<lparr>id_state := I_CoolingDown, id_cool_down_since := Some (pi_now i)\<rparr>
           else d\<lparr>id_state := I_Busy, id_cool_down_since := None\<rparr>)
      | I_Available \<Rightarrow>
          (if user_idle d i then d else d\<lparr>id_state := I_Busy, id_cool_down_since := None\<rparr>)
      | I_CoolingDown \<Rightarrow>
          (if \<not> user_idle d i then d\<lparr>id_state := I_Busy, id_cool_down_since := None\<rparr>
           else (case id_cool_down_since d of
                   Some since \<Rightarrow>
                     (if id_cool_down d \<le> pi_now i - since then d\<lparr>id_state := I_Available, id_cool_down_since := None\<rparr> else d)
                 | None \<Rightarrow> d))
      | I_Leased \<Rightarrow> d
      | I_Paused \<Rightarrow> d)"

definition poll :: "poll_input \<Rightarrow> idle_detector \<Rightarrow> idle_detector \<times> idle_state option" where
  "poll i d =
     (if id_state d = I_Leased \<or> id_state d = I_Paused then (d, None)
      else
        let d' = poll_step i d
        in (d', if id_state d' \<noteq> id_state d then Some (id_state d') else None))"

text \<open>The screen-lock probe, from the seconds since the last input event and the screen saver's presence.\<close>

definition is_screen_locked :: "int option \<Rightarrow> bool \<Rightarrow> bool" where
  "is_screen_locked idle_secs screensaver_active \<longleftrightarrow> screensaver_active \<or> 300 < unwrap_or 0 idle_secs"

section \<open>What the agent reads from the coordinator\<close>

fun j_as_i64 :: "json \<Rightarrow> int option" where
  "j_as_i64 (JInt n) = (if i64_range n then Some n else None)"
| "j_as_i64 _ = None"

fun j_as_u64 :: "json \<Rightarrow> int option" where
  "j_as_u64 (JInt n) = (if 0 \<le> n \<and> n < 18446744073709551616 then Some n else None)"
| "j_as_u64 _ = None"

fun j_as_f64 :: "json \<Rightarrow> f64 option" where
  "j_as_f64 (JNum q) = Some (Fin q)"
| "j_as_f64 (JInt n) = Some (f64_of_int n)"
| "j_as_f64 _ = None"

record agent_job_spec =
  as_job_id :: string
  as_consumer_id :: string
  as_runtime :: runtime
  as_min_ram_gb :: int
  as_max_duration_secs :: int
  as_max_price_per_hour :: f64
  as_bundle_hash :: string
  as_bundle_url :: string
  as_script_name :: "string option"
  as_consumer_ssh_pubkey :: string
  as_consumer_wg_pubkey :: string
  as_preferred_region :: "string option"
  as_checkpoint_url :: "string option"
  as_restore_attempts :: int

definition nil_uuid :: string where
  "nil_uuid = ''00000000-0000-0000-0000-000000000000''"

definition str_or_empty :: "string \<Rightarrow> json \<Rightarrow> string" where
  "str_or_empty k j = unwrap_or [] (j_as_str (j_get k j))"

text \<open>\<open>parse_uuid\<close> is \<open>Uuid::parse_str\<close> followed by printing.\<close>

definition decode_job :: "(string \<Rightarrow> string option) \<Rightarrow> json \<Rightarrow> agent_job_spec" where
  "decode_job parse_uuid job =
     \<lparr>as_job_id = unwrap_or nil_uuid (parse_uuid (str_or_empty ''job_id'' job)),
      as_consumer_id = str_or_empty ''consumer_id'' job,
      as_runtime = unwrap_or Shell (runtime_from_str (unwrap_or ''shell'' (j_as_str (j_get ''runtime'' job)))),
      as_min_ram_gb = as_u32 (unwrap_or 8 (j_as_i64 (j_get ''min_ram_gb'' job))),
      as_max_duration_secs = as_u32 (unwrap_or 3600 (j_as_i64 (j_get ''max_duration_s'' job))),
      as_max_price_per_hour = unwrap_or (f64_of (1 / 10)) (j_as_f64 (j_get ''max_price_per_hour'' job)),
      as_bundle_hash = str_or_empty ''bundle_hash'' job, as_bundle_url = str_or_empty ''bundle_url'' job,
      as_script_name = j_as_str (j_get ''script_name'' job),
      as_consumer_ssh_pubkey = str_or_empty ''consumer_ssh_pubkey'' job,
      as_consumer_wg_pubkey = str_or_empty ''consumer_wg_pubkey'' job,
      as_preferred_region = j_as_str (j_get ''preferred_region'' job),
      as_checkpoint_url = j_as_str (j_get ''checkpoint_url'' job),
      as_restore_attempts = as_u32 (unwrap_or 0 (j_as_u64 (j_get ''restore_attempts'' job)))\<rparr>"

text \<open>The GET on the coordinator: a failed request and a status other than success both mean no job. The source also tries to
  download the checkpoint, when it is told of one, to the local disk and carries on when that fails; the download is
  left out.\<close>

definition poll_for_job :: "(string \<Rightarrow> string option) \<Rightarrow> string \<Rightarrow> (coord_db world, unit, agent_job_spec option) prog" where
  "poll_for_job parse_uuid pid =
     matchE (get_assigned_job pid)
       (\<lambda>body. if j_get ''job'' body = JNull then retE None else retE (Some (decode_job parse_uuid (j_get ''job'' body))))
       (\<lambda>e. retE None)"

section \<open>The event loop\<close>

record agent_monitor =
  am_provider_id :: string
  am_detector :: idle_detector
  am_current :: idle_state
  am_last_heartbeat :: int

fun state_to_str :: "idle_state \<Rightarrow> string" where
  "state_to_str I_Busy = ''busy''"
| "state_to_str I_CoolingDown = ''cooling_down''"
| "state_to_str I_Available = ''available''"
| "state_to_str I_Leased = ''leased''"
| "state_to_str I_Paused = ''paused''"

text \<open>The client's heartbeat; every call of the loop passes no active job.\<close>

definition client_heartbeat :: "string \<Rightarrow> string \<Rightarrow> f64 \<Rightarrow> int \<Rightarrow> string option \<Rightarrow> (bool \<times> string) grpc" where
  "client_heartbeat pid st gpu_util ram_used active_job_id =
     send_heartbeat \<lparr>hb_provider_id = pid, hb_state = st, hb_gpu_util_pct = gpu_util, hb_ram_used_gb = ram_used,
       hb_active_job_id = unwrap_or [] active_job_id\<rparr>"

definition announce_change :: "string \<Rightarrow> idle_state \<Rightarrow> (coord_db world, unit, unit) prog" where
  "announce_change pid st =
     (case st of
        I_Available \<Rightarrow> bindE (okE (client_heartbeat pid ''available'' (Fin 0) 0 None)) (\<lambda>_. retE ())
      | I_Busy \<Rightarrow> bindE (okE (client_heartbeat pid ''busy'' (Fin 0) 0 None)) (\<lambda>_. retE ())
      | _ \<Rightarrow> retE ())"

record tick_input =
  ti_poll :: poll_input
  ti_gpu_util :: f64
  ti_ram_used :: int

text \<open>One turn of \<open>run\<close>'s loop: the new state of the monitor and the job it starts.\<close>

definition monitor_tick ::
  "(string \<Rightarrow> string option) \<Rightarrow> tick_input \<Rightarrow> agent_monitor \<Rightarrow>
     (coord_db world, unit, agent_monitor \<times> agent_job_spec option) prog" where
  "monitor_tick parse_uuid i m =
     (case poll (ti_poll i) (am_detector m) of (det, changed) \<Rightarrow>
        let pid = am_provider_id m;
            current = unwrap_or (am_current m) changed
        in
          seqE (case changed of Some st \<Rightarrow> announce_change pid st | None \<Rightarrow> retE ())
          (bindE (if current = I_Available then poll_for_job parse_uuid pid else retE None) (\<lambda>job.
           let current' = (case job of Some _ \<Rightarrow> I_Leased | None \<Rightarrow> current)
           in
             if 30 \<le> pi_now (ti_poll i) - am_last_heartbeat m
             then
               bindE (okE (client_heartbeat pid (state_to_str current') (ti_gpu_util i) (ti_ram_used i) None)) (\<lambda>_.
               retE (m\<lparr>am_detector := det, am_current := current', am_last_heartbeat := pi_now (ti_poll i)\<rparr>, job))
             else retE (m\<lparr>am_detector := det, am_current := current'\<rparr>, job))))"

definition monitor_start :: "string \<Rightarrow> f64 \<Rightarrow> int \<Rightarrow> int \<Rightarrow> agent_monitor" where
  "monitor_start pid threshold_pct cool_down_minutes now =
     \<lparr>am_provider_id = pid, am_detector = detector_new threshold_pct cool_down_minutes, am_current = I_Busy, am_last_heartbeat = now\<rparr>"

text \<open>The reports of a finished job.\<close>

record job_result =
  jx_job_id :: string
  jx_exit_code :: int
  jx_output_hash :: string
  jx_actual_runtime_s :: int
  jx_avg_gpu_util_pct :: f64
  jx_peak_ram_gb :: int

definition agent_report_completion :: "bool \<Rightarrow> string \<Rightarrow> job_result \<Rightarrow> (json \<times> chain_call list) handler" where
  "agent_report_completion oracle_enabled pid r =
     complete_job oracle_enabled (jx_job_id r)
       \<lparr>cj_provider_id = pid, cj_exit_code = jx_exit_code r, cj_output_hash = jx_output_hash r,
        cj_actual_runtime_s = jx_actual_runtime_s r, cj_avg_gpu_util_pct = jx_avg_gpu_util_pct r, cj_peak_ram_gb = jx_peak_ram_gb r\<rparr>"

definition agent_report_failure :: "bool \<Rightarrow> string \<Rightarrow> string \<Rightarrow> string \<Rightarrow> bool \<Rightarrow> (json \<times> chain_call list) handler" where
  "agent_report_failure oracle_enabled pid jid reason slash =
     fail_job oracle_enabled jid \<lparr>fj_provider_id = pid, fj_reason = reason, fj_slash = slash\<rparr>"

text \<open>The log file's content is pushed once, when it can be read and is not empty.\<close>

definition push_final_log :: "string \<Rightarrow> string option \<Rightarrow> (coord_db world, rest_error, unit) prog" where
  "push_final_log jid log_file =
     (case log_file of
        Some out \<Rightarrow> (if out \<noteq> [] then bindE (okE (append_job_log jid out)) (\<lambda>_. retE ()) else retE ())
      | None \<Rightarrow> retE ())"

section \<open>The idle detector\<close>

definition run_polls :: "poll_input list \<Rightarrow> idle_detector \<Rightarrow> idle_detector" where
  "run_polls is d = fold (\<lambda>i d. fst (poll i d)) is d"

text \<open>The detector's configuration never changes.\<close>

lemma poll_config [simp]: "id_threshold_pct (fst (poll i d)) = id_threshold_pct d" "id_cool_down (fst (poll i d)) = id_cool_down d"
  by (auto simp: poll_def poll_step_def Let_def split: idle_state.split option.split)

lemma user_idle_config [simp]: "user_idle (fst (poll i d)) j = user_idle d j"
  by (simp add: user_idle_def is_gpu_idle_def cong: option.case_cong)

lemma run_polls_simps [simp]: "run_polls [] d = d" "run_polls (xs @ [i]) d = fst (poll i (run_polls xs d))"
  by (simp_all add: run_polls_def)

lemma run_polls_idle [simp]: "user_idle (run_polls xs d) j = user_idle d j" "id_cool_down (run_polls xs d) = id_cool_down d"
  by (induction xs rule: rev_induct) auto

text \<open>The last polls of a history were all idle, the first of them was at \<open>t\<close>, and they reach \<open>n\<close> seconds further.\<close>

definition idle_run :: "idle_detector \<Rightarrow> int \<Rightarrow> int \<Rightarrow> poll_input list \<Rightarrow> bool" where
  "idle_run d t n xs \<longleftrightarrow> (\<exists>ys i zs. xs = ys @ i # zs \<and> pi_now i = t \<and> (\<forall>j\<in>set (i # zs). user_idle d j) \<and>
     (\<exists>j\<in>set (i # zs). n \<le> pi_now j - t))"

lemma idle_run_snoc: "idle_run d t n xs \<Longrightarrow> user_idle d i \<Longrightarrow> idle_run d t n (xs @ [i])"
proof -
  assume "idle_run d t n xs" and u: "user_idle d i"
  then obtain ys k zs where *: "xs = ys @ k # zs" "pi_now k = t" "\<forall>j\<in>set (k # zs). user_idle d j"
    "\<exists>j\<in>set (k # zs). n \<le> pi_now j - t" unfolding idle_run_def by blast
  show ?thesis unfolding idle_run_def
    by (rule exI [of _ ys], rule exI [of _ k], rule exI [of _ "zs @ [i]"]) (use * u in auto)
qed

lemma idle_run_reach: "idle_run d t m xs \<Longrightarrow> user_idle d i \<Longrightarrow> n \<le> pi_now i - t \<Longrightarrow> idle_run d t n (xs @ [i])"
proof -
  assume "idle_run d t m xs" and u: "user_idle d i" "n \<le> pi_now i - t"
  then obtain ys k zs where *: "xs = ys @ k # zs" "pi_now k = t" "\<forall>j\<in>set (k # zs). user_idle d j"
    unfolding idle_run_def by blast
  show ?thesis unfolding idle_run_def
    by (rule exI [of _ ys], rule exI [of _ k], rule exI [of _ "zs @ [i]"]) (use * u in auto)
qed

lemma idle_run_now: "user_idle d i \<Longrightarrow> idle_run d (pi_now i) 0 (xs @ [i])"
  unfolding idle_run_def by (rule exI [of _ xs], rule exI [of _ i], rule exI [of _ "[]"]) simp

definition detector_inv :: "idle_detector \<Rightarrow> poll_input list \<Rightarrow> idle_detector \<Rightarrow> bool" where
  "detector_inv d0 xs d \<longleftrightarrow>
     id_state d \<in> {I_Busy, I_CoolingDown, I_Available} \<and>
     (id_state d = I_CoolingDown \<longrightarrow> (\<exists>t. id_cool_down_since d = Some t \<and> idle_run d0 t 0 xs)) \<and>
     (id_state d = I_Available \<longrightarrow> (\<exists>t. idle_run d0 t (id_cool_down d0) xs))"

lemma detector_inv_run: "detector_inv (detector_new c m) xs (run_polls xs (detector_new c m))"
proof (induction xs rule: rev_induct)
  case Nil
  show ?case by (simp add: detector_inv_def detector_new_def)
next
  case (snoc i xs)
  let ?init = "detector_new c m" and ?d = "run_polls xs (detector_new c m)"
  have st: "id_state ?d \<in> {I_Busy, I_CoolingDown, I_Available}" using snoc by (simp add: detector_inv_def)
  have cfg: "user_idle ?d i = user_idle ?init i" "id_cool_down ?d = id_cool_down ?init" by simp_all
  have p: "fst (poll i ?d) = poll_step i ?d" using st by (auto simp: poll_def Let_def)
  show ?case
  proof (cases "user_idle ?init i")
    case False
    then have "id_state (poll_step i ?d) = I_Busy" using st cfg by (auto simp: poll_step_def)
    then show ?thesis using p by (simp add: detector_inv_def)
  next
    case True
    then have here: "idle_run ?init (pi_now i) 0 (xs @ [i])" by (rule idle_run_now)
    from st consider "id_state ?d = I_Busy" | "id_state ?d = I_Available" | "id_state ?d = I_CoolingDown" by auto
    then show ?thesis
    proof cases
      case 1
      then have "poll_step i ?d = ?d\<lparr>id_state := I_CoolingDown, id_cool_down_since := Some (pi_now i)\<rparr>"
        using True cfg by (simp add: poll_step_def)
      with here show ?thesis using p by (simp add: detector_inv_def)
    next
      case 2
      then have "poll_step i ?d = ?d" using True cfg by (simp add: poll_step_def)
      moreover from 2 snoc obtain t where "idle_run ?init t (id_cool_down ?init) xs" by (auto simp: detector_inv_def)
      from idle_run_snoc [OF this True] have "idle_run ?init t (id_cool_down ?init) (xs @ [i])" .
      ultimately show ?thesis using 2 p by (auto simp: detector_inv_def)
    next
      case 3
      with snoc obtain t where t: "id_cool_down_since ?d = Some t" "idle_run ?init t 0 xs" by (auto simp: detector_inv_def)
      then have "poll_step i ?d = (if id_cool_down ?init \<le> pi_now i - t
          then ?d\<lparr>id_state := I_Available, id_cool_down_since := None\<rparr> else ?d)"
        using 3 True cfg by (simp add: poll_step_def)
      then show ?thesis using 3 t idle_run_snoc [OF t(2) True] idle_run_reach [OF t(2) True] p
        by (auto simp: detector_inv_def)
    qed
  qed
qed

text \<open>A machine is offered only after a whole cool-down of idleness. Whatever the polls saw, when the detector says
  available, the latest polls, back to one that is at least the configured cool-down older than another of them,
  were all idle.\<close>

theorem available_needs_cool_down:
  assumes "id_state (run_polls xs (detector_new thr mins)) = I_Available"
  shows "\<exists>ys i zs. xs = ys @ i # zs \<and> (\<forall>j\<in>set (i # zs). user_idle (detector_new thr mins) j) \<and>
     (\<exists>j\<in>set (i # zs). mins * 60 \<le> pi_now j - pi_now i)"
proof -
  have "id_cool_down (detector_new thr mins) = mins * 60" by (simp add: detector_new_def)
  then show ?thesis using detector_inv_run [of thr mins xs] assms
    unfolding detector_inv_def idle_run_def by metis
qed

definition demo_poll :: "int \<Rightarrow> poll_input" where
  "demo_poll t = \<lparr>pi_now = t, pi_sample = Some (Fin 2), pi_force = False\<rparr>"

lemma available_needs_cool_down_witness:
  "\<exists>ys i zs. [demo_poll 0, demo_poll 30, demo_poll 60] = ys @ i # zs \<and>
     (\<forall>j\<in>set (i # zs). user_idle (detector_new (Fin 10) 1) j) \<and> (\<exists>j\<in>set (i # zs). 1 * 60 \<le> pi_now j - pi_now i)"
  by (rule available_needs_cool_down)
    (simp add: run_polls_def detector_new_def poll_def poll_step_def user_idle_def is_gpu_idle_def demo_poll_def)

section \<open>What the coordinator sends and what the agent reads\<close>

text \<open>The agent reads the job it was assigned, except for what decides how to run it. Consumer, bundle, script, sizes and
  price arrive as the coordinator stored them; but the coordinator sends the runtime as a number where the agent
  reads a string, so every job runs as a plain shell job, and it sends neither the checkpoint nor the restore
  count, so a job that was re-queued to be restored starts from the beginning.\<close>

theorem assigned_job_decoded:
  assumes "j_min_ram_gb j = Some ram" "0 \<le> ram" "ram < 2 ^ 31" "j_max_duration_s j = Some dur" "0 \<le> dur" "dur < 2 ^ 31"
    and "j_max_price j = Some (Fin q)" "uuid (j_job_id j) = Some (j_job_id j)"
  shows "decode_job uuid (j_get ''job'' (JObj [(''job'', assigned_json j)])) =
     \<lparr>as_job_id = j_job_id j, as_consumer_id = j_consumer_id j, as_runtime = Shell, as_min_ram_gb = ram,
      as_max_duration_secs = dur, as_max_price_per_hour = Fin q,
      as_bundle_hash = unwrap_or [] (j_bundle_hash j), as_bundle_url = unwrap_or [] (j_bundle_url j),
      as_script_name = j_script_name j, as_consumer_ssh_pubkey = unwrap_or [] (j_ssh_pubkey j),
      as_consumer_wg_pubkey = unwrap_or [] (j_wg_pubkey j), as_preferred_region = j_preferred_region j,
      as_checkpoint_url = None, as_restore_attempts = 0\<rparr>"
proof -
  have opt: "j_as_str (j_opt JStr x) = x" for x by (cases x) auto
  have num: "j_as_str (j_opt JInt x) = None" for x by (cases x) auto
  show ?thesis
    using assms by (simp add: decode_job_def assigned_json_def j_get_def str_or_empty_def opt num runtime_from_str_def i64_range_def)
qed

lemma assigned_job_decoded_witness:
  "as_runtime (decode_job Some (j_get ''job'' (JObj [(''job'', assigned_json (submitted_job demo_body ''job'' 0))]))) = Shell"
  by (subst assigned_job_decoded [of _ "sj_min_ram_gb demo_body" "sj_max_duration_secs demo_body"])
    (simp_all add: submitted_job_def demo_body_def new_job_row_def)

end
