(* ===== verification/Job_Runner.thy ===== *)
theory Job_Runner
  imports Agent_Monitor "HOL-Library.Multiset"
begin

text \<open>
  How the agent runs a job: the runner of \<open>agent/src/job_runner.rs\<close>, the checkpoints of \<open>agent/src/checkpoint.rs\<close>,
  the sandbox profile of \<open>crates/nm-macos/src/sandbox.rs\<close> and the virtual machine of \<open>crates/nm-macos/src/virt.rs\<close>.

  The machine is a state: the files, and the commands that were run. What a command does to the files and how it ends,
  which file operations fail, the clock and the samples of the GPU are parameters (\<open>agent_env\<close>). An error is its
  message, as the agent reports it. Creating a directory does not record its ancestors; the sleep assertion and the
  environment variables that the process inherits are not modelled.
\<close>

section \<open>The machine\<close>

datatype file_entry = E_Dir | E_File string

type_synonym files = "string \<Rightarrow> file_entry option"

record command =
  cm_program :: string
  cm_args :: "string list"
  cm_dir :: "string option"
  cm_env :: "(string \<times> string) list"
  cm_log :: "string option"

text \<open>\<open>None\<close>: the command could not be spawned; else the exit code, if it was not killed by a signal.\<close>

type_synonym cmd_result = "int option option"

record host =
  ho_files :: files
  ho_commands :: "command list"

record agent_env =
  ae_exec :: "command \<Rightarrow> files \<Rightarrow> cmd_result \<times> files"
  ae_stdout :: "command \<Rightarrow> files \<Rightarrow> string"
  ae_stderr :: "command \<Rightarrow> files \<Rightarrow> string"
  ae_io_error :: "string \<Rightarrow> string \<Rightarrow> files \<Rightarrow> string option"
  ae_list_dir :: "string \<Rightarrow> files \<Rightarrow> string list"
  ae_sha256_hex :: "string \<Rightarrow> string"
  ae_json_text :: "json \<Rightarrow> string"
  ae_macos :: bool
  ae_cpus :: int
  ae_elapsed :: int
  ae_gpu_samples :: "rat list"
  ae_memory_used_gb :: "int option"

type_synonym 'a agent_prog = "(host, string, 'a) prog"

definition exists_path :: "string \<Rightarrow> bool agent_prog" where
  "exists_path p = (\<lambda>s. (Inr (ho_files s p \<noteq> None), s))"

text \<open>A file operation: it fails with the message that the environment gives, else changes the files.\<close>

definition file_op :: "agent_env \<Rightarrow> string \<Rightarrow> string \<Rightarrow> (files \<Rightarrow> files) \<Rightarrow> unit agent_prog" where
  "file_op env op p f = (\<lambda>s. case ae_io_error env op p (ho_files s) of
     Some msg \<Rightarrow> (Inl msg, s) | None \<Rightarrow> (Inr (), s\<lparr>ho_files := f (ho_files s)\<rparr>))"

definition create_dir_all :: "agent_env \<Rightarrow> string \<Rightarrow> unit agent_prog" where
  "create_dir_all env p = file_op env ''mkdir'' p (\<lambda>fs. if fs p = None then fs(p \<mapsto> E_Dir) else fs)"

definition below :: "string \<Rightarrow> string \<Rightarrow> bool" where
  "below d p \<longleftrightarrow> p = d \<or> starts_with (d @ ''/'') p"

definition remove_dir_all :: "agent_env \<Rightarrow> string \<Rightarrow> unit agent_prog" where
  "remove_dir_all env d = file_op env ''rmdir'' d (\<lambda>fs p. if below d p then None else fs p)"

definition remove_file :: "agent_env \<Rightarrow> string \<Rightarrow> unit agent_prog" where
  "remove_file env p = file_op env ''rm'' p (\<lambda>fs. fs(p := None))"

definition write_file :: "agent_env \<Rightarrow> string \<Rightarrow> string \<Rightarrow> unit agent_prog" where
  "write_file env p content = file_op env ''write'' p (\<lambda>fs. fs(p \<mapsto> E_File content))"

definition read_file :: "agent_env \<Rightarrow> string \<Rightarrow> string agent_prog" where
  "read_file env p = (\<lambda>s. case (ae_io_error env ''read'' p (ho_files s), ho_files s p) of
     (None, Some (E_File c)) \<Rightarrow> (Inr c, s) | (Some msg, _) \<Rightarrow> (Inl msg, s) | _ \<Rightarrow> (Inl ''No such file or directory'', s))"

definition run_command :: "agent_env \<Rightarrow> command \<Rightarrow> cmd_result agent_prog" where
  "run_command env c = (\<lambda>s. case ae_exec env c (ho_files s) of
     (r, fs) \<Rightarrow> (Inr r, s\<lparr>ho_files := fs, ho_commands := ho_commands s @ [c]\<rparr>))"

definition command_of :: "string \<Rightarrow> string list \<Rightarrow> command" where
  "command_of prog args = \<lparr>cm_program = prog, cm_args = args, cm_dir = None, cm_env = [], cm_log = None\<rparr>"

text \<open>\<open>.status().context(msg)?\<close>, and the test for success that follows it.\<close>

definition status_of :: "agent_env \<Rightarrow> command \<Rightarrow> string \<Rightarrow> (int option) agent_prog" where
  "status_of env c msg = bindE (run_command env c) (someE msg)"

definition check_status :: "agent_env \<Rightarrow> command \<Rightarrow> string \<Rightarrow> string \<Rightarrow> unit agent_prog" where
  "check_status env c msg failed = bindE (status_of env c msg) (\<lambda>code. if code = Some 0 then retE () else failE failed)"

text \<open>\<open>a.join(b)\<close>\<close>

definition path_join :: "string \<Rightarrow> string \<Rightarrow> string" where
  "path_join a b = (if starts_with ''/'' b then b else a @ ''/'' @ b)"

text \<open>The part of a path after its last slash, and its extension.\<close>

definition file_name :: "string \<Rightarrow> string" where
  "file_name p = rev (takeWhile (\<lambda>c. c \<noteq> CHR ''/'') (rev p))"

definition extension :: "string \<Rightarrow> string option" where
  "extension p = (let n = file_name p; e = rev (takeWhile (\<lambda>c. c \<noteq> CHR ''.'') (rev n))
     in if length e + 1 < length n then Some e else None)"

section \<open>Sandbox\<close>

record sandbox_profile =
  sp_job_id :: string
  sp_work_dir :: string
  sp_profile_path :: string

definition work_dir_of :: "string \<Rightarrow> string" where
  "work_dir_of job_id = ''/tmp/neuralmesh/'' @ job_id"

definition join_lines :: "string list \<Rightarrow> string" where
  "join_lines ls = concat (map (\<lambda>l. l @ [CHR 0x0A]) ls)"

definition allow_read :: "string \<Rightarrow> string" where
  "allow_read p = ''(allow file-read* (subpath '' @ [CHR 0x22] @ p @ [CHR 0x22] @ ''))''"

definition runtime_paths :: "string \<Rightarrow> string \<Rightarrow> string list" where
  "runtime_paths rt python_prefix =
     (if rt \<in> {''mlx'', ''torch-mps'', ''onnx-coreml''}
      then [python_prefix, ''/opt/homebrew/lib'', ''/opt/homebrew/bin'', ''/opt/homebrew/opt'']
      else if rt = ''llama-cpp'' then [''/opt/homebrew/bin'', ''/opt/homebrew/lib''] else [])"

definition metal_paths :: "string list" where
  "metal_paths = [''/System/Library/Frameworks/Metal.framework'', ''/System/Library/Frameworks/MetalPerformanceShaders.framework'',
     ''/System/Library/Frameworks/Accelerate.framework'', ''/System/Library/Frameworks/CoreML.framework'',
     ''/System/Library/Frameworks/CoreGraphics.framework'', ''/usr/lib'', ''/usr/local/lib'']"

definition quoted :: "string \<Rightarrow> string" where
  "quoted s = [CHR 0x22] @ s @ [CHR 0x22]"

text \<open>The profile's rules; its comment lines are left out.\<close>

definition generate_profile :: "string \<Rightarrow> string \<Rightarrow> string \<Rightarrow> string \<Rightarrow> string list" where
  "generate_profile job_id work_dir rt python_prefix =
     [''(version 1)'', ''(deny default)'',
      ''(allow file-read*  (subpath '' @ quoted work_dir @ ''))'', ''(allow file-write* (subpath '' @ quoted work_dir @ ''))'',
      ''(allow file-read*  (subpath '' @ quoted ''/tmp'' @ ''))'',
      ''(allow file-write* (subpath '' @ quoted (''/tmp/neuralmesh/'' @ job_id) @ ''))'',
      allow_read ''/usr/lib'', allow_read ''/usr/local/lib'', allow_read ''/System/Library'', allow_read ''/Library/Frameworks'',
      allow_read ''/private/var/db/timezone'', ''(allow file-read* (literal '' @ quoted ''/etc/resolv.conf'' @ ''))'',
      ''(allow file-read* (literal '' @ quoted ''/etc/localtime'' @ ''))'']
     @ map allow_read metal_paths @ map allow_read (runtime_paths rt python_prefix)
     @ [''(allow process-exec)'', ''(allow process-fork)'', ''(allow mach-lookup)'', ''(allow mach-register)'', ''(allow ipc-posix-shm)'',
        ''(allow network-outbound (local))'', ''(allow network-bind    (local))'', ''(deny  network-outbound)'',
        ''(allow signal (target self))'', ''(allow sysctl-read)'', ''(allow iokit-open)'', ''(allow iokit-get-properties)'']"

definition sandbox_new :: "agent_env \<Rightarrow> string \<Rightarrow> string \<Rightarrow> string \<Rightarrow> sandbox_profile agent_prog" where
  "sandbox_new env job_id rt python_prefix =
     (let work_dir = work_dir_of job_id; profile_path = ''/tmp/neuralmesh/'' @ job_id @ ''.sb''
      in seqE (create_dir_all env work_dir)
         (seqE (write_file env profile_path (join_lines (generate_profile job_id work_dir rt python_prefix)))
         (retE \<lparr>sp_job_id = job_id, sp_work_dir = work_dir, sp_profile_path = profile_path\<rparr>)))"

definition sandbox_cleanup :: "agent_env \<Rightarrow> sandbox_profile \<Rightarrow> unit agent_prog" where
  "sandbox_cleanup env sb =
     seqE (bindE (exists_path (sp_work_dir sb)) (\<lambda>e. if e then remove_dir_all env (sp_work_dir sb) else retE ()))
     (bindE (exists_path (sp_profile_path sb)) (\<lambda>e. if e then remove_file env (sp_profile_path sb) else retE ()))"

section \<open>Checkpoints\<close>

definition checkpoint_root :: string where
  "checkpoint_root = ''/var/neuralmesh/checkpoints''"

definition checkpoint_interval_secs :: int where
  "checkpoint_interval_secs = 300"

definition dmtcp_which :: command where
  "dmtcp_which = command_of ''which'' [''dmtcp_launch'']"

definition is_dmtcp_available :: "agent_env \<Rightarrow> bool agent_prog" where
  "is_dmtcp_available env = bindE (run_command env dmtcp_which) (\<lambda>r. retE (r = Some (Some 0)))"

record checkpoint_meta =
  cx_job_id :: string
  cx_iteration :: int
  cx_checkpoint_dir :: string
  cx_elapsed_secs :: int
  cx_coord_port :: int
  cx_dmtcp_files :: "string list"

definition meta_json :: "checkpoint_meta \<Rightarrow> json" where
  "meta_json m = JObj [(''job_id'', JStr (cx_job_id m)), (''iteration'', JInt (cx_iteration m)),
     (''checkpoint_dir'', JStr (cx_checkpoint_dir m)), (''elapsed_secs'', JInt (cx_elapsed_secs m)),
     (''coord_port'', JInt (cx_coord_port m)), (''dmtcp_files'', j_strs (cx_dmtcp_files m))]"

definition meta_save :: "agent_env \<Rightarrow> checkpoint_meta \<Rightarrow> unit agent_prog" where
  "meta_save env m =
     (let dir = path_join checkpoint_root (cx_job_id m)
      in seqE (create_dir_all env dir)
         (map_errE (\<lambda>_. ''Writing checkpoint metadata'')
           (write_file env (path_join dir ''checkpoint.json'') (ae_json_text env (meta_json m)))))"

definition collect_dmtcp_files :: "agent_env \<Rightarrow> string \<Rightarrow> files \<Rightarrow> string list" where
  "collect_dmtcp_files env dir fs =
     map file_name (filter (\<lambda>p. extension p = Some ''dmtcp'') (ae_list_dir env dir fs))"

text \<open>The port: the wrapping 16-bit sum of the bytes of the identifier, modulo 200, above 7780.\<close>

definition derive_port :: "string \<Rightarrow> int" where
  "derive_port job_id = 7780 + foldl (\<lambda>acc b. (acc + of_char b) mod 65536) 0 job_id mod 200"

record dmtcp_session =
  ds_job_id :: string
  ds_checkpoint_dir :: string
  ds_coord_port :: int
  ds_iteration :: int

text \<open>The log file is created when missing, and both streams are appended to it.\<close>

definition open_log_stdio :: "agent_env \<Rightarrow> string option \<Rightarrow> unit agent_prog" where
  "open_log_stdio env log_path = (case log_path of
     Some p \<Rightarrow> map_errE (\<lambda>_. ''Creating job log file at '' @ p)
       (file_op env ''open'' p (\<lambda>fs. if fs p = None then fs(p \<mapsto> E_File []) else fs))
   | None \<Rightarrow> retE ())"

text \<open>\<open>launch\<close>: here the session and how the job ends, since the caller only waits for the child.\<close>

definition dmtcp_launch ::
  "agent_env \<Rightarrow> string \<Rightarrow> string \<Rightarrow> string list \<Rightarrow> string \<Rightarrow> (string \<times> string) list \<Rightarrow> string option \<Rightarrow>
     (dmtcp_session \<times> int option) agent_prog" where
  "dmtcp_launch env job_id cmd args work_dir env_vars log_path =
     (let coord_port = derive_port job_id; ckpt_dir = path_join checkpoint_root job_id
      in seqE (create_dir_all env ckpt_dir)
         (seqE (open_log_stdio env log_path)
         (bindE (status_of env \<lparr>cm_program = ''dmtcp_launch'',
              cm_args = [''--new-coordinator'', ''--coord-port'', int_str coord_port, ''--ckptdir'', ckpt_dir, ''--no-gzip'',
                ''--interval'', ''0'', ''--'', cmd] @ args,
              cm_dir = Some work_dir, cm_env = [(''NM_JOB_ID'', job_id), (''DMTCP_CKPT_DIR'', ckpt_dir)] @ env_vars, cm_log = log_path\<rparr>
            ''dmtcp_launch spawn'') (\<lambda>code.
          retE (\<lparr>ds_job_id = job_id, ds_checkpoint_dir = ckpt_dir, ds_coord_port = coord_port, ds_iteration = 0\<rparr>, code)))))"

definition restore_port :: "checkpoint_meta \<Rightarrow> int" where
  "restore_port m = (if 0 < cx_coord_port m then cx_coord_port m else derive_port (cx_job_id m))"

definition dmtcp_restore :: "agent_env \<Rightarrow> checkpoint_meta \<Rightarrow> string \<Rightarrow> string option \<Rightarrow> (int option \<times> int) agent_prog" where
  "dmtcp_restore env m work_dir log_path = (\<lambda>s.
     let coord_port = restore_port m;
         file_paths = map (path_join (cx_checkpoint_dir m)) (cx_dmtcp_files m);
         found = filter (\<lambda>p. ho_files s p \<noteq> None) file_paths
     in if cx_dmtcp_files m = [] then failE (''No .dmtcp files recorded in checkpoint metadata for job '' @ cx_job_id m) s
        else if found = [] then failE (''Checkpoint files not found on disk for job '' @ cx_job_id m @ ''. Expected them in '' @ cx_checkpoint_dir m) s
        else seqE (open_log_stdio env log_path)
          (bindE (status_of env \<lparr>cm_program = ''dmtcp_restart'', cm_args = [''--new-coordinator'', ''--coord-port'', int_str coord_port] @ found,
                 cm_dir = Some work_dir, cm_env = [], cm_log = log_path\<rparr> ''dmtcp_restart spawn'') (\<lambda>code. retE (code, coord_port))) s)"

definition dmtcp_cleanup :: "agent_env \<Rightarrow> string \<Rightarrow> unit agent_prog" where
  "dmtcp_cleanup env job_id =
     (let dir = path_join checkpoint_root job_id
      in bindE (exists_path dir) (\<lambda>e. if e then bindE (okE (remove_dir_all env dir)) (\<lambda>_. retE ()) else retE ()))"

text \<open>One tick of the checkpoint ticker: the iteration it has reached, and the report it sends, if any.\<close>

definition report_body :: "string \<Rightarrow> checkpoint_meta \<Rightarrow> checkpoint_body" where
  "report_body provider_id m = \<lparr>cp_provider_id = provider_id, cp_iteration = cx_iteration m, cp_elapsed_secs = cx_elapsed_secs m,
     cp_checkpoint_dir = cx_checkpoint_dir m, cp_dmtcp_files = cx_dmtcp_files m\<rparr>"

definition ticker_step ::
  "agent_env \<Rightarrow> string \<Rightarrow> int \<Rightarrow> string \<Rightarrow> string \<Rightarrow> int \<Rightarrow> int \<Rightarrow> (int \<times> checkpoint_body option) agent_prog" where
  "ticker_step env job_id coord_port ckpt_dir provider_id elapsed iteration =
     (let iteration' = as_u32 (iteration + 1)
      in bindE (run_command env (command_of ''dmtcp_command'' [''--coord-port'', int_str coord_port, ''--checkpoint'', ''--wait-for-success''])) (\<lambda>r.
         if r = Some (Some 0)
         then (\<lambda>s.
           let m = \<lparr>cx_job_id = job_id, cx_iteration = iteration', cx_checkpoint_dir = ckpt_dir, cx_elapsed_secs = elapsed,
                    cx_coord_port = coord_port, cx_dmtcp_files = collect_dmtcp_files env ckpt_dir (ho_files s)\<rparr>
           in matchE (meta_save env m) (\<lambda>_. retE (iteration', Some (report_body provider_id m))) (\<lambda>_. retE (iteration', None)) s)
         else retE (iteration', None)))"


text \<open>\<open>checkpoint\<close>: one snapshot of a session, with its metadata saved.\<close>

definition dmtcp_checkpoint :: "agent_env \<Rightarrow> dmtcp_session \<Rightarrow> int \<Rightarrow> dmtcp_session agent_prog" where
  "dmtcp_checkpoint env ds elapsed =
     (let ds' = ds\<lparr>ds_iteration := as_u32 (ds_iteration ds + 1)\<rparr>
      in seqE (check_status env (command_of ''dmtcp_command'' [''--coord-port'', int_str (ds_coord_port ds), ''--checkpoint'', ''--wait-for-success''])
           ''dmtcp_command --checkpoint'' ''dmtcp_command --checkpoint returned non-zero'')
         (\<lambda>s. seqE (meta_save env \<lparr>cx_job_id = ds_job_id ds, cx_iteration = ds_iteration ds', cx_checkpoint_dir = ds_checkpoint_dir ds,
             cx_elapsed_secs = elapsed, cx_coord_port = ds_coord_port ds,
             cx_dmtcp_files = collect_dmtcp_files env (ds_checkpoint_dir ds) (ho_files s)\<rparr>) (retE ds') s))"

section \<open>The bundle and the entry script\<close>

definition download_bundle :: "agent_env \<Rightarrow> string \<Rightarrow> string \<Rightarrow> string \<Rightarrow> string agent_prog" where
  "download_bundle env job_id url expected_hash =
     (let dest = ''/tmp/neuralmesh/bundle-'' @ job_id @ ''.tar.gz''
      in seqE (create_dir_all env ''/tmp/neuralmesh'')
         (seqE (check_status env (command_of ''curl'' [''-fsSL'', ''--max-time'', ''300'', ''-o'', dest, url]) ''curl download''
            (''curl failed downloading bundle from '' @ url))
         (if expected_hash = [] then retE dest
          else bindE (read_file env dest) (\<lambda>content.
            let actual = ae_sha256_hex env content
            in if actual \<noteq> expected_hash
               then bindE (okE (remove_file env dest)) (\<lambda>_. failE (''Bundle hash mismatch: expected '' @ expected_hash @ '', got '' @ actual))
               else retE dest))))"

definition extract_bundle :: "agent_env \<Rightarrow> string \<Rightarrow> string \<Rightarrow> unit agent_prog" where
  "extract_bundle env bundle_path work_dir =
     check_status env (command_of ''tar'' [''-xzf'', bundle_path, ''-C'', work_dir]) ''tar extraction'' ''tar failed extracting bundle''"

definition entry_candidates :: "runtime \<Rightarrow> string list" where
  "entry_candidates rt = (case rt of
     Shell \<Rightarrow> [''run.sh'', ''main.sh'', ''start.sh'']
   | _ \<Rightarrow> [''main.py'', ''inference.py'', ''train.py'', ''run.py'', ''script.py''])"

definition find_entry_script :: "agent_env \<Rightarrow> string \<Rightarrow> runtime \<Rightarrow> string agent_prog" where
  "find_entry_script env work_dir rt = (\<lambda>s.
     case filter (\<lambda>p. ho_files s p \<noteq> None) (map (path_join work_dir) (entry_candidates rt)) of
       p # _ \<Rightarrow> retE p s
     | [] \<Rightarrow>
         (case ae_io_error env ''readdir'' work_dir (ho_files s) of
            Some msg \<Rightarrow> failE msg s
          | None \<Rightarrow>
              (case filter (\<lambda>p. extension p = Some ''py'') (ae_list_dir env work_dir (ho_files s)) of
                 p # _ \<Rightarrow> retE p s | [] \<Rightarrow> failE ''No entry script found in bundle'' s)))"

definition no_entry_script :: string where
  "no_entry_script = ''No runnable entry script found in bundle''"

definition resolve_entry :: "agent_env \<Rightarrow> agent_job_spec \<Rightarrow> string \<Rightarrow> string agent_prog" where
  "resolve_entry env spec work_dir =
     (let scan = map_errE (\<lambda>_. no_entry_script) (find_entry_script env work_dir (as_runtime spec))
      in case as_script_name spec of
           Some name \<Rightarrow> bindE (exists_path (path_join work_dir name)) (\<lambda>e. if e then retE (path_join work_dir name) else scan)
         | None \<Rightarrow> scan)"

definition python_names :: "string list" where
  "python_names = [''python3.12'', ''python3.13'', ''python3.11'', ''python3'']"

fun first_on_path :: "agent_env \<Rightarrow> string list \<Rightarrow> string agent_prog" where
  "first_on_path env [] = retE ''python3''"
| "first_on_path env (py # pys) = bindE (run_command env (command_of ''which'' [py])) (\<lambda>r.
     if r = Some (Some 0) then retE py else first_on_path env pys)"

definition resolve_python :: "agent_env \<Rightarrow> string \<Rightarrow> string agent_prog" where
  "resolve_python env prefix = (\<lambda>s.
     case filter (\<lambda>p. ho_files s p \<noteq> None) (map (\<lambda>py. prefix @ ''/bin/'' @ py) python_names) of
       bin # _ \<Rightarrow> retE bin s | [] \<Rightarrow> first_on_path env python_names s)"

definition runtime_env :: "runtime \<Rightarrow> (string \<times> string) list" where
  "runtime_env rt = (case rt of
     Mlx \<Rightarrow> [(''MLX_USE_DEFAULT_DEVICE'', ''gpu'')] | TorchMps \<Rightarrow> [(''PYTORCH_ENABLE_MPS_FALLBACK'', ''1'')] | _ \<Rightarrow> [])"

section \<open>Running\<close>

definition job_env :: "agent_job_spec \<Rightarrow> (string \<times> string) list" where
  "job_env spec = [(''NM_JOB_ID'', as_job_id spec), (''NM_RAM_LIMIT_GB'', int_str (as_min_ram_gb spec)), (''PYTORCH_MPS_HIGH_WATERMARK_RATIO'', ''0.0'')]"

definition log_of :: "string \<Rightarrow> string" where
  "log_of work_dir = path_join work_dir ''nm-output.log''"

text \<open>The job's environment variables are always empty in a decoded job.\<close>

definition run_direct :: "agent_env \<Rightarrow> agent_job_spec \<Rightarrow> string \<Rightarrow> string \<Rightarrow> string \<Rightarrow> sandbox_profile \<Rightarrow> int agent_prog" where
  "run_direct env spec work_dir entry_script python_bin sb =
     seqE (map_errE (\<lambda>_. ''Creating log file at '' @ log_of work_dir) (write_file env (log_of work_dir) []))
     (bindE (status_of env \<lparr>cm_program = ''sandbox-exec'', cm_args = [''-f'', sp_profile_path sb, python_bin, entry_script], cm_dir = Some work_dir,
          cm_env = job_env spec @ runtime_env (as_runtime spec), cm_log = Some (log_of work_dir)\<rparr> ''Failed to spawn sandbox-exec'') (\<lambda>code.
      retE (unwrap_or (- 1) code)))"

definition run_with_dmtcp :: "agent_env \<Rightarrow> agent_job_spec \<Rightarrow> string \<Rightarrow> string \<Rightarrow> string \<Rightarrow> sandbox_profile \<Rightarrow> int agent_prog" where
  "run_with_dmtcp env spec work_dir entry_script python_bin sb =
     bindE (dmtcp_launch env (as_job_id spec) ''sandbox-exec'' [''-f'', sp_profile_path sb, python_bin, entry_script] work_dir (job_env spec)
       (Some (log_of work_dir))) (\<lambda>(ds, code). retE (unwrap_or (- 1) code))"

text \<open>The SHA-256 of the log when it exists (empty when it cannot be read), else of nothing.\<close>

definition output_hash_of :: "agent_env \<Rightarrow> string \<Rightarrow> string agent_prog" where
  "output_hash_of env log_path = bindE (exists_path log_path) (\<lambda>e.
     if e then bindE (okE (read_file env log_path)) (\<lambda>c. retE (ae_sha256_hex env (unwrap_or [] c)))
     else retE (ae_sha256_hex env []))"

text \<open>The mean of the samples in single precision; zero without samples.\<close>

definition avg_gpu :: "rat list \<Rightarrow> f64" where
  "avg_gpu samples = (if samples = [] then Fin 0
     else Fin (rnd32 (foldl (\<lambda>a x. rnd32 (a + x)) 0 samples / rnd32 (of_nat (length samples)))))"

definition run_sandboxed :: "agent_env \<Rightarrow> agent_job_spec \<Rightarrow> string \<Rightarrow> string \<Rightarrow> string \<Rightarrow> job_result agent_prog" where
  "run_sandboxed env spec work_dir entry_script python_prefix =
     bindE (sandbox_new env (as_job_id spec) (runtime_as_str (as_runtime spec)) python_prefix) (\<lambda>sb.
     bindE (resolve_python env python_prefix) (\<lambda>python_bin.
     bindE (is_dmtcp_available env) (\<lambda>dmtcp.
     bindE (if dmtcp then run_with_dmtcp env spec work_dir entry_script python_bin sb
            else run_direct env spec work_dir entry_script python_bin sb) (\<lambda>exit_code.
     bindE (output_hash_of env (log_of (sp_work_dir sb))) (\<lambda>output_hash.
     seqE (if exit_code = 0 then dmtcp_cleanup env (as_job_id spec) else retE ())
     (bindE (okE (sandbox_cleanup env sb)) (\<lambda>_.
      if exit_code \<noteq> 0 then failE (''Job exited with code '' @ int_str exit_code)
      else retE \<lparr>jx_job_id = as_job_id spec, jx_exit_code = exit_code, jx_output_hash = output_hash, jx_actual_runtime_s = ae_elapsed env,
             jx_avg_gpu_util_pct = avg_gpu (ae_gpu_samples env), jx_peak_ram_gb = unwrap_or 0 (ae_memory_used_gb env)\<rparr>)))))))"

text \<open>The answer of the coordinator for the checkpoint: \<open>None\<close> when the request failed.\<close>

fun strs_of :: "json list \<Rightarrow> string list option" where
  "strs_of [] = Some []"
| "strs_of (JStr s # xs) = map_option (\<lambda>ys. s # ys) (strs_of xs)"
| "strs_of _ = None"

fun json_int :: "int \<Rightarrow> json \<Rightarrow> int option" where
  "json_int mx (JInt n) = (if 0 \<le> n \<and> n \<le> mx then Some n else None)"
| "json_int mx _ = None"

definition decode_meta :: "json \<Rightarrow> checkpoint_meta option" where
  "decode_meta j =
     (case (j_get ''job_id'' j, json_int 4294967295 (j_get ''iteration'' j), j_get ''checkpoint_dir'' j,
            json_int 18446744073709551615 (j_get ''elapsed_secs'' j), json_int 65535 (j_get ''coord_port'' j), j_get ''dmtcp_files'' j) of
        (JStr jid, Some it, JStr dir, Some el, Some port, JArr fs) \<Rightarrow>
          map_option (\<lambda>names. \<lparr>cx_job_id = jid, cx_iteration = it, cx_checkpoint_dir = dir, cx_elapsed_secs = el, cx_coord_port = port,
             cx_dmtcp_files = names\<rparr>) (strs_of fs)
      | _ \<Rightarrow> None)"

definition fetch_checkpoint_meta :: "json option \<Rightarrow> checkpoint_meta agent_prog" where
  "fetch_checkpoint_meta answer =
     someE ''Could not fetch checkpoint metadata from coordinator'' (case answer of Some j \<Rightarrow> decode_meta j | None \<Rightarrow> None)"

definition run_restore :: "agent_env \<Rightarrow> agent_job_spec \<Rightarrow> string \<Rightarrow> json option \<Rightarrow> job_result agent_prog" where
  "run_restore env spec work_dir answer =
     bindE (is_dmtcp_available env) (\<lambda>dmtcp.
     if \<not> dmtcp then failE (''Job '' @ as_job_id spec @ '' needs DMTCP restore but dmtcp_launch is not available on this machine'')
     else
       bindE (fetch_checkpoint_meta answer) (\<lambda>meta.
       bindE (dmtcp_restore env meta work_dir (Some (log_of work_dir))) (\<lambda>(code, port).
       let exit_code = unwrap_or (- 1) code
       in seqE (if exit_code = 0 then dmtcp_cleanup env (as_job_id spec) else retE ())
          (bindE (output_hash_of env (log_of work_dir)) (\<lambda>output_hash.
           if exit_code \<noteq> 0 then failE (''Restored job exited with code '' @ int_str exit_code)
           else retE \<lparr>jx_job_id = as_job_id spec, jx_exit_code = exit_code, jx_output_hash = output_hash,
                  jx_actual_runtime_s = as_u64 (ae_elapsed env + cx_elapsed_secs meta), jx_avg_gpu_util_pct = Fin 0,
                  jx_peak_ram_gb = as_min_ram_gb spec\<rparr>)))))"

section \<open>The virtual machine\<close>

record vm_config =
  vm_job_id :: string
  vm_cpu_count :: int
  vm_memory_gb :: int
  vm_job_dir :: string
  vm_base_image :: string
  vm_helper_bin :: string

definition vm_for_job :: "agent_env \<Rightarrow> string \<Rightarrow> string \<Rightarrow> int \<Rightarrow> vm_config" where
  "vm_for_job env job_id job_dir ram_limit_gb =
     \<lparr>vm_job_id = job_id, vm_cpu_count = as_u32 (min (ae_cpus env) 8), vm_memory_gb = max (min ram_limit_gb 16) 2, vm_job_dir = job_dir,
      vm_base_image = ''/var/neuralmesh/base-linux-arm64.img'', vm_helper_bin = ''/usr/local/bin/nm-vm-helper''\<rparr>"

text \<open>The first number of a dotted version that parses as \<open>u32\<close>; zero when none does.\<close>

definition macos_major :: "string \<Rightarrow> int" where
  "macos_major ver = (case List.map_filter parse_u32 (split_on (CHR ''.'') (trim_str ver)) of n # _ \<Rightarrow> n | [] \<Rightarrow> 0)"

definition sw_vers :: command where
  "sw_vers = command_of ''sw_vers'' [''-productVersion'']"

definition vm_is_available :: "agent_env \<Rightarrow> bool agent_prog" where
  "vm_is_available env = (\<lambda>s.
     let ver = ae_stdout env sw_vers (ho_files s)
     in bindE (run_command env sw_vers) (\<lambda>r.
        if macos_major (if r = None then [] else ver) < 12 then retE False else exists_path ''/usr/local/bin/nm-vm-helper'') s)"

record vm_result =
  vr_exit_code :: int
  vr_stdout :: string
  vr_stderr :: string
  vr_runtime_secs :: int

definition run_in_vm :: "agent_env \<Rightarrow> vm_config \<Rightarrow> string \<Rightarrow> vm_result agent_prog" where
  "run_in_vm env cfg entry_script =
     bindE (vm_is_available env) (\<lambda>ok.
     if \<not> ok then failE ''Virtualization.framework not available (need macOS 12+ and nm-vm-helper)''
     else
       seqE (check_status env (command_of (vm_helper_bin cfg) [''create'', vm_job_id cfg, int_str (vm_cpu_count cfg), int_str (vm_memory_gb cfg),
           vm_job_dir cfg, vm_base_image cfg]) ''nm-vm-helper create'' (''VM creation failed for job '' @ vm_job_id cfg))
       (\<lambda>s. let run = command_of (vm_helper_bin cfg) [''run'', vm_job_id cfg, entry_script];
                out = ae_stdout env run (ho_files s); err = ae_stderr env run (ho_files s)
            in bindE (status_of env run ''nm-vm-helper run'') (\<lambda>code.
               bindE (run_command env (command_of (vm_helper_bin cfg) [''destroy'', vm_job_id cfg])) (\<lambda>_.
               retE \<lparr>vr_exit_code = unwrap_or (- 1) code, vr_stdout = out, vr_stderr = err, vr_runtime_secs = ae_elapsed env\<rparr>)) s))"

text \<open>The attempt in the VM: \<open>None\<close> when it is not available or fails, and the sandbox is used.\<close>

definition try_vm :: "agent_env \<Rightarrow> agent_job_spec \<Rightarrow> string \<Rightarrow> string \<Rightarrow> (job_result option) agent_prog" where
  "try_vm env spec work_dir entry_script =
     (if \<not> ae_macos env then retE None
      else bindE (vm_is_available env) (\<lambda>ok.
        if \<not> ok then retE None
        else matchE (run_in_vm env (vm_for_job env (as_job_id spec) work_dir (as_min_ram_gb spec)) entry_script)
          (\<lambda>r. bindE (okE (remove_dir_all env work_dir)) (\<lambda>_.
             if vr_exit_code r \<noteq> 0 then failE (''VM job exited with code '' @ int_str (vr_exit_code r))
             else retE (Some \<lparr>jx_job_id = as_job_id spec, jx_exit_code = vr_exit_code r,
                    jx_output_hash = ae_sha256_hex env (vr_stdout r @ vr_stderr r), jx_actual_runtime_s = ae_elapsed env,
                    jx_avg_gpu_util_pct = Fin 0, jx_peak_ram_gb = as_min_ram_gb spec\<rparr>)))
          (\<lambda>e. retE None)))"

text \<open>Installing the helper and the disk image. Only the download and the decompression are tested for success; \<open>chmod\<close> and \<open>sudo mv\<close> need
  only be spawned.\<close>

definition vm_helper_path :: string where
  "vm_helper_path = ''/usr/local/bin/nm-vm-helper''"

definition install_vm_helper :: "agent_env \<Rightarrow> unit agent_prog" where
  "install_vm_helper env =
     bindE (exists_path vm_helper_path) (\<lambda>e.
     if e then retE ()
     else
       seqE (check_status env (command_of ''curl'' [''-fsSL'', ''-o'', ''/tmp/nm-vm-helper'', ''https://releases.neuralmesh.io/tools/nm-vm-helper-arm64''])
         ''Download nm-vm-helper'' ''Failed to download nm-vm-helper'')
       (seqE (status_of env (command_of ''chmod'' [''+x'', ''/tmp/nm-vm-helper'']) ''No such file or directory'')
       (seqE (status_of env (command_of ''sudo'' [''mv'', ''/tmp/nm-vm-helper'', vm_helper_path]) ''Install nm-vm-helper'')
       (retE ()))))"

definition base_image_path :: string where
  "base_image_path = ''/var/neuralmesh/base-linux-arm64.img''"

definition ensure_base_image :: "agent_env \<Rightarrow> string agent_prog" where
  "ensure_base_image env =
     bindE (exists_path base_image_path) (\<lambda>e.
     if e then retE base_image_path
     else
       seqE (create_dir_all env ''/var/neuralmesh'')
       (seqE (check_status env (command_of ''curl'' [''-fsSL'', ''--progress-bar'', ''-o'', ''/var/neuralmesh/base-linux-arm64.img.gz'',
           ''https://releases.neuralmesh.io/images/neuralmesh-base-arm64-v1.img.gz'']) ''Download base image'' ''Failed to download base Linux image'')
       (seqE (check_status env (command_of ''gunzip'' [''/var/neuralmesh/base-linux-arm64.img.gz''])
           ''Decompress base image'' ''Failed to decompress base Linux image'')
       (retE base_image_path))))"

section \<open>A whole job\<close>

definition job_run :: "agent_env \<Rightarrow> agent_job_spec \<Rightarrow> string \<Rightarrow> json option \<Rightarrow> job_result agent_prog" where
  "job_run env spec python_prefix answer =
     (if as_bundle_url spec = [] \<and> as_checkpoint_url spec = None
      then failE (''Job has neither bundle_url nor checkpoint_url '' @ [CHR 0xE2, CHR 0x80, CHR 0x94] @ '' cannot execute'')
      else
        let work_dir = work_dir_of (as_job_id spec)
        in seqE (create_dir_all env work_dir)
           (case as_checkpoint_url spec of
              Some ckpt_url \<Rightarrow> run_restore env spec work_dir answer
            | None \<Rightarrow>
                bindE (download_bundle env (as_job_id spec) (as_bundle_url spec) (as_bundle_hash spec)) (\<lambda>bundle_path.
                seqE (extract_bundle env bundle_path work_dir)
                (bindE (okE (remove_file env bundle_path)) (\<lambda>_.
                 bindE (resolve_entry env spec work_dir) (\<lambda>entry_script.
                 bindE (try_vm env spec work_dir entry_script) (\<lambda>vm.
                 case vm of Some r \<Rightarrow> retE r | None \<Rightarrow> run_sandboxed env spec work_dir entry_script python_prefix)))))))"

text \<open>What the task of a job tells the coordinator: the final log, then the completion or the failure, which is always reported as the
  provider's fault.\<close>

datatype job_report = Report_Completion job_result | Report_Failure string bool

definition final_log_of :: "agent_env \<Rightarrow> string \<Rightarrow> files \<Rightarrow> string option" where
  "final_log_of env job_id fs =
     (case (ae_io_error env ''read'' (log_of (work_dir_of job_id)) fs, fs (log_of (work_dir_of job_id))) of
        (None, Some (E_File c)) \<Rightarrow> (if c \<noteq> [] then Some c else None) | _ \<Rightarrow> None)"

definition job_task :: "agent_env \<Rightarrow> agent_job_spec \<Rightarrow> string \<Rightarrow> json option \<Rightarrow> host \<Rightarrow> (string option \<times> job_report) \<times> host" where
  "job_task env spec python_prefix answer s =
     (case job_run env spec python_prefix answer s of
        (Inr r, s') \<Rightarrow> ((final_log_of env (jx_job_id r) (ho_files s'), Report_Completion r), s')
      | (Inl e, s') \<Rightarrow> ((final_log_of env (as_job_id spec) (ho_files s'), Report_Failure e True), s'))"

end
