(* ===== verification/Job_Claims.thy ===== *)
theory Job_Claims
  imports Job_Runner
begin

text \<open>
  What the agent's job runner promises: the bundle is verified before use; what becomes of the final log; which checkpoint is the latest; the
  checkpoint port.
\<close>

section \<open>The bundle\<close>

definition bundle_path_of :: "string \<Rightarrow> string" where
  "bundle_path_of job_id = ''/tmp/neuralmesh/bundle-'' @ job_id @ ''.tar.gz''"

definition curl_command :: "agent_job_spec \<Rightarrow> command" where
  "curl_command spec = command_of ''curl'' [''-fsSL'', ''--max-time'', ''300'', ''-o'', bundle_path_of (as_job_id spec), as_bundle_url spec]"

lemma file_op_commands [simp]: "ho_commands (snd (file_op env op p f s)) = ho_commands s"
  by (simp add: file_op_def split: option.split)

lemma read_file_state [simp]: "snd (read_file env p s) = s"
  by (simp add: read_file_def split: option.split file_entry.split)

lemma run_command_commands [simp]: "ho_commands (snd (run_command env c s)) = ho_commands s @ [c]"
  by (simp add: run_command_def split: prod.split)

lemma check_status_commands [simp]: "ho_commands (snd (check_status env c m f s)) = ho_commands s @ [c]"
  using run_command_commands [of env c s]
  by (auto simp: check_status_def status_of_def prog_simps run_command_def split: prod.split sum.split option.split)

lemma create_dir_all_commands [simp]: "ho_commands (snd (create_dir_all env p s)) = ho_commands s"
  by (simp add: create_dir_all_def)

definition checked :: "agent_env \<Rightarrow> agent_job_spec \<Rightarrow> string \<Rightarrow> host \<Rightarrow> bool" where
  "checked env spec d s \<longleftrightarrow> d = bundle_path_of (as_job_id spec) \<and> (\<exists>c. ho_files s d = Some (E_File c) \<and> ae_sha256_hex env c = as_bundle_hash spec)"

lemma download_bundle_run:
  assumes "as_bundle_hash spec \<noteq> []" "download_bundle env (as_job_id spec) (as_bundle_url spec) (as_bundle_hash spec) s = (r, s2)"
  shows "(ho_commands s2 = ho_commands s \<or> ho_commands s2 = ho_commands s @ [curl_command spec]) \<and> (\<forall>d. r = Inr d \<longrightarrow> checked env spec d s2)"
proof -
  let ?dest = "bundle_path_of (as_job_id spec)"
  obtain r1 sA where mk: "create_dir_all env ''/tmp/neuralmesh'' s = (r1, sA)" by fastforce
  obtain r2 sB where curl: "check_status env (curl_command spec) ''curl download'' (''curl failed downloading bundle from '' @ as_bundle_url spec) sA = (r2, sB)"
    by fastforce
  have c: "ho_commands sA = ho_commands s" "ho_commands sB = ho_commands sA @ [curl_command spec]"
    by (metis mk create_dir_all_commands snd_conv, metis curl check_status_commands snd_conv)
  obtain r3 sC where rd: "read_file env ?dest sB = (r3, sC)" by fastforce
  then have sC: "sC = sB" using read_file_state [of env ?dest sB] by simp
  obtain r4 sD where rm: "remove_file env ?dest sB = (r4, sD)" by fastforce
  have sD: "ho_commands sD = ho_commands sB" by (metis rm remove_file_def file_op_commands snd_conv)
  note run = assms(2) [unfolded download_bundle_def Let_def bundle_path_of_def [symmetric] curl_command_def [symmetric], simplified assms(1)]
  have rdf: "ho_files sB ?dest = Some (E_File content)" if "r3 = Inr content" for content
    using rd that by (auto simp: read_file_def split: option.splits file_entry.splits)
  show ?thesis
  proof (cases r1)
    case (Inl e)
    then have "r = Inl e" "s2 = sA" using run mk by (simp_all add: seqE_run)
    then show ?thesis using c by simp
  next
    case r1: (Inr u)
    show ?thesis
    proof (cases r2)
      case (Inl e)
      then have "r = Inl e" "s2 = sB" using run mk r1 curl by (simp_all add: seqE_run)
      then show ?thesis using c by simp
    next
      case r2: (Inr v)
      show ?thesis
      proof (cases r3)
        case (Inl e)
        then have "r = Inl e" "s2 = sB" using run mk r1 curl r2 rd sC by (simp_all add: seqE_run bindE_run)
        then show ?thesis using c by simp
      next
        case r3: (Inr content)
        show ?thesis
        proof (cases "ae_sha256_hex env content = as_bundle_hash spec")
          case True
          then have "r = Inr ?dest" "s2 = sB" using run mk r1 curl r2 rd sC r3 by (simp_all add: seqE_run bindE_run retE_run)
          then show ?thesis using c rdf [OF r3] True by (auto simp: checked_def)
        next
          case False
          then have "(\<exists>e. r = Inl e) \<and> s2 = sD" using run mk r1 curl r2 rd sC r3 rm
            by (auto simp: seqE_run bindE_run okE_run failE_run split: sum.splits)
          then show ?thesis using c sD by auto
        qed
      qed
    qed
  qed
qed

subsection \<open>What the run executes\<close>

definition tar_command :: "agent_job_spec \<Rightarrow> command" where
  "tar_command spec = command_of ''tar'' [''-xzf'', bundle_path_of (as_job_id spec), ''-C'', work_dir_of (as_job_id spec)]"

text \<open>The commands begin with these.\<close>

definition began :: "command list \<Rightarrow> host \<Rightarrow> bool" where
  "began b s \<longleftrightarrow> (\<exists>cs. ho_commands s = b @ cs)"

lemma began_run_command [keeps_intro]: "keeps (began b) (run_command env c)"
  by (auto simp: keeps_def began_def)

lemma began_file_op [keeps_intro]: "keeps (began b) (file_op env op p f)"
  by (auto simp: keeps_def began_def)

lemma began_read_file [keeps_intro]: "keeps (began b) (read_file env p)"
  by (simp add: keeps_def)

lemma began_exists_path [keeps_intro]: "keeps (began b) (exists_path p)"
  by (simp add: keeps_def exists_path_def)

lemma began_files:
  "keeps (began b) (create_dir_all env p)" "keeps (began b) (remove_dir_all env p)" "keeps (began b) (remove_file env p)"
  "keeps (began b) (write_file env p t)" "keeps (began b) (open_log_stdio env l)"
  unfolding create_dir_all_def remove_dir_all_def remove_file_def write_file_def open_log_stdio_def
  by (intro keeps_intro)+

lemma began_status: "keeps (began b) (status_of env c m)" "keeps (began b) (check_status env c m f)"
  unfolding check_status_def status_of_def by (intro keeps_intro)+

lemma began_first_on_path: "keeps (began b) (first_on_path env pys)"
  by (induction pys) (auto intro!: keeps_intro)

lemma began_resolve: "keeps (began b) (resolve_python env py)" "keeps (began b) (resolve_entry env spec d)"
proof -
  show "keeps (began b) (resolve_python env py)"
    using began_first_on_path by (auto simp: keeps_def resolve_python_def retE_def split: list.split)
  have "snd (find_entry_script env d rt s) = s" for rt s
    by (simp add: find_entry_script_def retE_def failE_def split: list.split option.split)
  then have "keeps (began b) (find_entry_script env d rt)" for rt by (simp add: keeps_def)
  then show "keeps (began b) (resolve_entry env spec d)" unfolding resolve_entry_def Let_def
    by (intro keeps_case_option keeps_map_errE keeps_bindE began_exists_path keeps_if keeps_retE)
qed

lemma began_vm: "keeps (began b) (try_vm env spec d script)"
proof -
  have a: "keeps (began b) (vm_is_available env)"
    unfolding vm_is_available_def Let_def
    by (rule keepsI, rule keepsD, intro keeps_bindE began_run_command keeps_if keeps_retE began_exists_path)
  have "keeps (began b) (\<lambda>s. bindE (status_of env run msg) (\<lambda>code. bindE (run_command env destroy) (\<lambda>_.
      retE \<lparr>vr_exit_code = unwrap_or (- 1) code, vr_stdout = out s, vr_stderr = err s, vr_runtime_secs = ae_elapsed env\<rparr>)) s)" for run msg destroy out err
    by (rule keepsI, rule keepsD, intro keeps_bindE began_status began_run_command keeps_retE)
  then have "keeps (began b) (run_in_vm env cfg script)" for cfg unfolding run_in_vm_def Let_def
    by (intro keeps_bindE a keeps_if keeps_failE keeps_seqE began_status)
  then show ?thesis unfolding try_vm_def
    by (intro keeps_if keeps_retE keeps_bindE a keeps_matchE keeps_okE began_files keeps_failE)
qed

lemma began_sandboxed: "keeps (began b) (run_sandboxed env spec d script py)"
  unfolding run_sandboxed_def sandbox_new_def is_dmtcp_available_def run_with_dmtcp_def run_direct_def dmtcp_launch_def output_hash_of_def
    dmtcp_cleanup_def sandbox_cleanup_def Let_def
  by (intro keeps_intro began_files began_status began_resolve)

lemma download_commands:
  assumes "download_bundle env (as_job_id spec) (as_bundle_url spec) h s = (Inr d, s')"
  shows "ho_commands s' = ho_commands s @ [curl_command spec]"
proof -
  obtain u1 s1 u2 s2 where "create_dir_all env ''/tmp/neuralmesh'' s = (Inr u1, s1)"
      "check_status env (curl_command spec) ''curl download'' (''curl failed downloading bundle from '' @ as_bundle_url spec) s1 = (Inr u2, s2)"
      and "s' = s2 \<or> (\<exists>c. read_file env (bundle_path_of (as_job_id spec)) s2 = (Inr c, s'))"
    using assms by (fastforce simp: download_bundle_def Let_def seqE_ok bindE_ok retE_ok failE_ok curl_command_def bundle_path_of_def split: if_splits)
  then show ?thesis by (metis create_dir_all_commands check_status_commands read_file_state snd_conv)
qed

text \<open>What follows the download of a bundle.\<close>

definition after_download :: "agent_env \<Rightarrow> agent_job_spec \<Rightarrow> string \<Rightarrow> job_result agent_prog" where
  "after_download env spec python_prefix =
     (let work_dir = work_dir_of (as_job_id spec); bundle_path = bundle_path_of (as_job_id spec)
      in seqE (extract_bundle env bundle_path work_dir)
         (bindE (okE (remove_file env bundle_path)) (\<lambda>_.
          bindE (resolve_entry env spec work_dir) (\<lambda>entry_script.
          bindE (try_vm env spec work_dir entry_script) (\<lambda>vm.
          case vm of Some r \<Rightarrow> retE r | None \<Rightarrow> run_sandboxed env spec work_dir entry_script python_prefix)))))"

lemma after_download_commands: "\<exists>rest. ho_commands (snd (after_download env spec py s)) = ho_commands s @ tar_command spec # rest"
proof -
  let ?b = "ho_commands s @ [tar_command spec]"
  obtain r s1 where ex: "extract_bundle env (bundle_path_of (as_job_id spec)) (work_dir_of (as_job_id spec)) s = (r, s1)" by fastforce
  then have "ho_commands s1 = ?b" by (metis extract_bundle_def tar_command_def check_status_commands snd_conv)
  then have s1: "began ?b s1" by (simp add: began_def)
  have rest: "keeps (began ?b) (bindE (okE (remove_file env (bundle_path_of (as_job_id spec)))) (\<lambda>_.
      bindE (resolve_entry env spec (work_dir_of (as_job_id spec))) (\<lambda>script.
      bindE (try_vm env spec (work_dir_of (as_job_id spec)) script) (\<lambda>vm.
      case vm of Some r \<Rightarrow> retE r | None \<Rightarrow> run_sandboxed env spec (work_dir_of (as_job_id spec)) script py))))"
    by (intro keeps_bindE keeps_okE began_files began_resolve began_vm keeps_case_option keeps_retE began_sandboxed)
  have "began ?b (snd (after_download env spec py s))"
    using s1 keepsD [OF rest s1] ex by (cases r) (simp_all add: after_download_def seqE_run Let_def)
  then show ?thesis by (auto simp: began_def)
qed

lemma job_run_from_bundle:
  assumes "as_checkpoint_url spec = None" "as_bundle_url spec \<noteq> []"
  shows "job_run env spec py answer = seqE (create_dir_all env (work_dir_of (as_job_id spec)))
    (seqE (download_bundle env (as_job_id spec) (as_bundle_url spec) (as_bundle_hash spec)) (after_download env spec py))"
proof -
  have "download_bundle env (as_job_id spec) u h t = (Inr d, t') \<Longrightarrow> d = bundle_path_of (as_job_id spec)" for u h t d t'
    by (auto simp: download_bundle_def Let_def seqE_ok bindE_ok retE_ok failE_ok bundle_path_of_def split: if_splits)
  then show ?thesis using assms
    by (intro ext) (auto simp: job_run_def after_download_def seqE_run bindE_run Let_def split: prod.split sum.split)
qed

subsection \<open>What tar is given\<close>

definition verified_bundle :: "agent_env \<Rightarrow> agent_job_spec \<Rightarrow> files \<Rightarrow> bool" where
  "verified_bundle env spec fs \<longleftrightarrow>
     (case fs (bundle_path_of (as_job_id spec)) of Some (E_File c) \<Rightarrow> ae_sha256_hex env c = as_bundle_hash spec | _ \<Rightarrow> False)"

text \<open>The same machine, except that \<open>tar\<close> does something else when the bundle on disk does not have the expected hash.\<close>

definition with_unverified_tar :: "agent_env \<Rightarrow> agent_job_spec \<Rightarrow> (command \<Rightarrow> files \<Rightarrow> cmd_result \<times> files) \<Rightarrow> agent_env" where
  "with_unverified_tar env spec other = env\<lparr>ae_exec := (\<lambda>c fs.
     if cm_program c = ''tar'' \<and> \<not> verified_bundle env spec fs then other c fs else ae_exec env c fs)\<rparr>"

named_theorems same_machine \<open>programs that do the same on both machines\<close>

lemma with_unverified_tar_fields [simp]:
  "ae_stdout (with_unverified_tar env spec other) = ae_stdout env" "ae_stderr (with_unverified_tar env spec other) = ae_stderr env"
  "ae_io_error (with_unverified_tar env spec other) = ae_io_error env" "ae_list_dir (with_unverified_tar env spec other) = ae_list_dir env"
  "ae_sha256_hex (with_unverified_tar env spec other) = ae_sha256_hex env" "ae_macos (with_unverified_tar env spec other) = ae_macos env"
  "ae_cpus (with_unverified_tar env spec other) = ae_cpus env" "ae_elapsed (with_unverified_tar env spec other) = ae_elapsed env"
  "ae_gpu_samples (with_unverified_tar env spec other) = ae_gpu_samples env"
  "ae_memory_used_gb (with_unverified_tar env spec other) = ae_memory_used_gb env" "ae_json_text (with_unverified_tar env spec other) = ae_json_text env"
  by (simp_all add: with_unverified_tar_def)

lemma same_files [same_machine]:
  "file_op (with_unverified_tar env spec other) = file_op env" "read_file (with_unverified_tar env spec other) = read_file env"
  "create_dir_all (with_unverified_tar env spec other) = create_dir_all env" "remove_dir_all (with_unverified_tar env spec other) = remove_dir_all env"
  "remove_file (with_unverified_tar env spec other) = remove_file env" "write_file (with_unverified_tar env spec other) = write_file env"
  "open_log_stdio (with_unverified_tar env spec other) = open_log_stdio env"
proof -
  show op: "file_op (with_unverified_tar env spec other) = file_op env" by (simp add: fun_eq_iff file_op_def)
  show "read_file (with_unverified_tar env spec other) = read_file env"
    "create_dir_all (with_unverified_tar env spec other) = create_dir_all env" "remove_dir_all (with_unverified_tar env spec other) = remove_dir_all env"
    "remove_file (with_unverified_tar env spec other) = remove_file env" "write_file (with_unverified_tar env spec other) = write_file env"
    "open_log_stdio (with_unverified_tar env spec other) = open_log_stdio env"
    by (simp_all add: op fun_eq_iff read_file_def create_dir_all_def remove_dir_all_def remove_file_def write_file_def open_log_stdio_def
      cong: option.case_cong)
qed

lemma same_command [same_machine]:
  "cm_program c \<noteq> ''tar'' \<Longrightarrow> run_command (with_unverified_tar env spec other) c = run_command env c"
  by (simp add: fun_eq_iff run_command_def with_unverified_tar_def)

lemma same_status [same_machine]:
  "cm_program c \<noteq> ''tar'' \<Longrightarrow> status_of (with_unverified_tar env spec other) c m = status_of env c m"
  "cm_program c \<noteq> ''tar'' \<Longrightarrow> check_status (with_unverified_tar env spec other) c m f = check_status env c m f"
  by (simp_all add: status_of_def check_status_def same_command)

lemma same_download [same_machine]: "download_bundle (with_unverified_tar env spec other) = download_bundle env"
  by (simp add: fun_eq_iff download_bundle_def same_machine command_of_def Let_def cong: if_cong)

lemma same_first_on_path [same_machine]: "first_on_path (with_unverified_tar env spec other) pys = first_on_path env pys"
  by (induction pys) (simp_all add: same_machine command_of_def cong: if_cong)

lemma same_resolve [same_machine]:
  "resolve_python (with_unverified_tar env spec other) = resolve_python env" "resolve_entry (with_unverified_tar env spec other) = resolve_entry env"
  by (simp_all add: fun_eq_iff resolve_python_def resolve_entry_def find_entry_script_def same_machine Let_def cong: option.case_cong list.case_cong if_cong)

lemma same_vm [same_machine]: "try_vm (with_unverified_tar env spec other) = try_vm env"
proof -
  have a: "vm_is_available (with_unverified_tar env spec other) = vm_is_available env"
    by (simp add: fun_eq_iff vm_is_available_def sw_vers_def command_of_def same_machine Let_def cong: if_cong)
  have run: "run_in_vm (with_unverified_tar env spec other) cfg script = run_in_vm env cfg script" if "vm_helper_bin cfg \<noteq> ''tar''" for cfg script
    using that by (intro ext) (simp add: run_in_vm_def command_of_def a same_machine Let_def cong: if_cong)
  have vm: "vm_helper_bin (vm_for_job env j d r) \<noteq> ''tar''" "vm_for_job (with_unverified_tar env spec other) j d r = vm_for_job env j d r" for j d r
    by (simp_all add: vm_for_job_def)
  show ?thesis by (intro ext) (simp add: try_vm_def a run vm same_machine cong: if_cong)
qed

lemma same_sandboxed [same_machine]: "run_sandboxed (with_unverified_tar env spec other) = run_sandboxed env"
  by (simp add: fun_eq_iff run_sandboxed_def sandbox_new_def is_dmtcp_available_def dmtcp_which_def run_with_dmtcp_def run_direct_def dmtcp_launch_def
    output_hash_of_def dmtcp_cleanup_def sandbox_cleanup_def command_of_def same_machine Let_def cong: if_cong)

lemma same_after_download:
  assumes "verified_bundle env spec (ho_files s)"
  shows "after_download (with_unverified_tar env spec other) spec py s = after_download env spec py s"
proof -
  have "run_command (with_unverified_tar env spec other) c s = run_command env c s" for c
    using assms by (simp add: run_command_def with_unverified_tar_def)
  then have "extract_bundle (with_unverified_tar env spec other) b d s = extract_bundle env b d s" for b d
    by (simp add: extract_bundle_def check_status_def status_of_def bindE_run)
  then show ?thesis by (simp add: after_download_def seqE_run same_machine Let_def)
qed

text \<open>C19: A bundle that does not hash to the expected value is never unpacked or run. In every run of a job that expects a hash, whatever the
  commands and the file operations do: either nothing but the download has been executed; or the download of this run ended in a state in
  which the file on disk has the expected SHA-256, and the very next command is the \<open>tar\<close> that unpacks it. And \<open>tar\<close> finds that
  file: were \<open>tar\<close> to do anything else whatsoever on a machine whose bundle on disk has another hash, or none, no run would differ.\<close>

theorem bundle_verified_before_use:
  assumes "as_checkpoint_url spec = None" "as_bundle_hash spec \<noteq> []"
  shows "((\<exists>cs. set cs \<subseteq> {curl_command spec} \<and> ho_commands (snd (job_run env spec python_prefix answer s)) = ho_commands s @ cs) \<or>
      (\<exists>s1 s2 c rest. create_dir_all env (work_dir_of (as_job_id spec)) s = (Inr (), s1) \<and>
         download_bundle env (as_job_id spec) (as_bundle_url spec) (as_bundle_hash spec) s1 = (Inr (bundle_path_of (as_job_id spec)), s2) \<and>
         ho_files s2 (bundle_path_of (as_job_id spec)) = Some (E_File c) \<and> ae_sha256_hex env c = as_bundle_hash spec \<and>
         ho_commands s2 = ho_commands s @ [curl_command spec] \<and>
         ho_commands (snd (job_run env spec python_prefix answer s)) = ho_commands s2 @ tar_command spec # rest)) \<and>
    (\<forall>other. job_run (with_unverified_tar env spec other) spec python_prefix answer s = job_run env spec python_prefix answer s)"
proof (cases "as_bundle_url spec = []")
  case True
  then have "job_run e spec python_prefix answer s = (job_run env spec python_prefix answer s)" "ho_commands (snd (job_run e spec python_prefix answer s)) = ho_commands s @ []" for e
    using assms(1) by (simp_all add: job_run_def failE_def)
  then show ?thesis by (metis empty_set empty_subsetI)
next
  case False
  let ?d = "work_dir_of (as_job_id spec)" and ?p = "bundle_path_of (as_job_id spec)"
  note unf = job_run_from_bundle [OF assms(1) False, of _ python_prefix answer]
  obtain r s1 where mk: "create_dir_all env ?d s = (r, s1)" by fastforce
  then have s1: "ho_commands s1 = ho_commands s" using create_dir_all_commands [of env ?d s] by simp
  obtain d s2 where dl: "download_bundle env (as_job_id spec) (as_bundle_url spec) (as_bundle_hash spec) s1 = (d, s2)" by fastforce
  note * = download_bundle_run [OF assms(2) dl]
  show ?thesis
  proof (cases "(\<exists>e. r = Inl e) \<or> (\<exists>e. d = Inl e)")
    case True
    then have run: "job_run (with_unverified_tar env spec other) spec python_prefix answer s = job_run env spec python_prefix answer s"
        "snd (job_run env spec python_prefix answer s) \<in> {s1, s2}" for other
      using mk dl by (cases r; auto simp: unf seqE_run same_machine)+
    then have "\<exists>cs. set cs \<subseteq> {curl_command spec} \<and> ho_commands (snd (job_run env spec python_prefix answer s)) = ho_commands s @ cs"
      using * s1 by (metis append.right_neutral empty_set empty_subsetI insertE list.simps(15) singletonD subset_refl)
    then show ?thesis using run(1) by blast
  next
    case False
    then have d: "r = Inr ()" "\<exists>p. d = Inr p" by (cases r; cases d; simp)+
    then have c: "d = Inr ?p" "checked env spec ?p s2" using * by (auto simp: checked_def)
    then obtain c where c': "ho_files s2 ?p = Some (E_File c)" "ae_sha256_hex env c = as_bundle_hash spec" by (auto simp: checked_def)
    have run: "job_run e spec python_prefix answer s = after_download e spec python_prefix s2"
      if "e = env \<or> e = with_unverified_tar env spec other" for e other
      using that mk dl d(1) c(1) by (auto simp: unf seqE_run same_machine)
    have "verified_bundle env spec (ho_files s2)" using c' by (simp add: verified_bundle_def)
    then have "\<forall>other. job_run (with_unverified_tar env spec other) spec python_prefix answer s = job_run env spec python_prefix answer s"
      using run same_after_download by metis
    moreover have "ho_commands s2 = ho_commands s @ [curl_command spec]" using download_commands [OF dl [unfolded c(1)]] s1 by simp
    moreover obtain rest where "ho_commands (snd (job_run env spec python_prefix answer s)) = ho_commands s2 @ tar_command spec # rest"
      using run [of env] after_download_commands [of env spec python_prefix s2] by auto
    ultimately show ?thesis using mk dl d(1) c(1) c' by blast
  qed
qed

section \<open>The final log\<close>

text \<open>A log file lies in an existing working directory.\<close>

definition log_in_dir :: "string \<Rightarrow> files \<Rightarrow> bool" where
  "log_in_dir job_id fs \<longleftrightarrow> (fs (log_of (work_dir_of job_id)) \<noteq> None \<longrightarrow> fs (work_dir_of job_id) \<noteq> None)"

abbreviation "log_ok job_id \<equiv> \<lambda>s. log_in_dir job_id (ho_files s)"

definition commands_keep_logs :: "agent_env \<Rightarrow> string \<Rightarrow> bool" where
  "commands_keep_logs env job_id \<longleftrightarrow> (\<forall>c fs. log_in_dir job_id fs \<longrightarrow> log_in_dir job_id (snd (ae_exec env c fs)))"

lemma log_of_ne [simp]: "log_of d \<noteq> d" "d \<noteq> log_of d"
  by (simp_all add: log_of_def path_join_def starts_with_def)

lemma keeps_file_op: "(\<And>fs. log_in_dir j fs \<Longrightarrow> log_in_dir j (f fs)) \<Longrightarrow> keeps (log_ok j) (file_op env op p f)"
  by (auto simp: keeps_def file_op_def split: option.split)

lemma keeps_run_command [keeps_intro]: "commands_keep_logs env j \<Longrightarrow> keeps (log_ok j) (run_command env c)"
  unfolding keeps_def run_command_def commands_keep_logs_def by (auto split: prod.split) (metis snd_conv)

lemma keeps_exists_path [keeps_intro]: "keeps (log_ok j) (exists_path p)"
  by (simp add: keeps_def exists_path_def)

lemma keeps_read_file [keeps_intro]: "keeps (log_ok j) (read_file env p)"
  by (simp add: keeps_def)

lemma keeps_mkdir [keeps_intro]: "keeps (log_ok j) (create_dir_all env p)" if "p = work_dir_of j \<or> p \<noteq> log_of (work_dir_of j)"
  using that unfolding create_dir_all_def by (intro keeps_file_op) (auto simp: log_in_dir_def)


lemma starts_with_append [simp]: "starts_with p (p @ s)"
  by (simp add: starts_with_def)

lemma below_log [simp]: "below (work_dir_of j) (log_of (work_dir_of j))"
  by (simp add: below_def log_of_def path_join_def starts_with_def)

lemma below_log_dir: "below d (work_dir_of j) \<Longrightarrow> below d (log_of (work_dir_of j))"
  by (auto simp: below_def log_of_def path_join_def starts_with_def take_Cons')

lemma keeps_rmdir [keeps_intro]: "keeps (log_ok j) (remove_dir_all env d)"
  unfolding remove_dir_all_def by (intro keeps_file_op) (auto simp: log_in_dir_def dest: below_log_dir)

lemma keeps_rm [keeps_intro]: "p \<noteq> work_dir_of j \<Longrightarrow> keeps (log_ok j) (remove_file env p)"
  unfolding remove_file_def by (intro keeps_file_op) (auto simp: log_in_dir_def)

lemma keeps_write [keeps_intro]: "p \<noteq> log_of (work_dir_of j) \<Longrightarrow> keeps (log_ok j) (write_file env p c)"
  unfolding write_file_def by (intro keeps_file_op) (auto simp: log_in_dir_def)

text \<open>After the sandbox is cleaned up there is no log, unless a file operation failed.\<close>

lemma cleanup_removes_log:
  assumes "sp_work_dir sb = work_dir_of j" "\<And>p fs. ae_io_error env ''rmdir'' p fs = None" "log_ok j s"
    "sandbox_cleanup env sb s = (r, s')"
  shows "ho_files s' (log_of (work_dir_of j)) = None"
  using assms
  by (auto simp: sandbox_cleanup_def prog_simps exists_path_def remove_dir_all_def remove_file_def file_op_def log_in_dir_def
    split: option.splits if_splits)


text \<open>A file cannot be created in a directory that is missing, and a command cannot leave one there.\<close>

definition filesystem_laws :: "agent_env \<Rightarrow> string \<Rightarrow> bool" where
  "filesystem_laws env j \<longleftrightarrow> commands_keep_logs env j \<and>
     (\<forall>fs. fs (work_dir_of j) = None \<longrightarrow> ae_io_error env ''write'' (log_of (work_dir_of j)) fs \<noteq> None) \<and>
     (\<forall>fs. fs (work_dir_of j) = None \<longrightarrow> ae_io_error env ''open'' (log_of (work_dir_of j)) fs \<noteq> None)"

lemma keeps_file_op_log:
  assumes err: "\<And>fs. fs (work_dir_of j) = None \<Longrightarrow> ae_io_error env op (log_of (work_dir_of j)) fs \<noteq> None"
    and f: "\<And>fs. f fs (work_dir_of j) = fs (work_dir_of j)"
  shows "keeps (log_ok j) (file_op env op (log_of (work_dir_of j)) f)"
proof (rule keepsI)
  fix s :: host
  assume ok: "log_ok j s"
  show "log_ok j (snd (file_op env op (log_of (work_dir_of j)) f s))"
  proof (cases "ae_io_error env op (log_of (work_dir_of j)) (ho_files s)")
    case None
    with err [of "ho_files s"] have "ho_files s (work_dir_of j) \<noteq> None" by auto
    with None show ?thesis by (simp add: file_op_def log_in_dir_def f)
  next
    case (Some msg)
    with ok show ?thesis by (simp add: file_op_def)
  qed
qed

lemma keeps_write_log: "filesystem_laws env j \<Longrightarrow> keeps (log_ok j) (write_file env (log_of (work_dir_of j)) c)"
  unfolding write_file_def filesystem_laws_def by (intro keeps_file_op_log) auto

lemma keeps_open_log: "filesystem_laws env j \<Longrightarrow> keeps (log_ok j) (open_log_stdio env (Some (log_of (work_dir_of j))))"
  unfolding open_log_stdio_def option.case filesystem_laws_def by (intro keeps_map_errE keeps_file_op_log) auto

lemma laws_commands: "filesystem_laws env j \<Longrightarrow> commands_keep_logs env j"
  by (simp add: filesystem_laws_def)

lemma log_of_eq: "log_of (work_dir_of j) = ''/tmp/neuralmesh/'' @ j @ ''/nm-output.log''"
  by (simp add: log_of_def work_dir_of_def path_join_def starts_with_def)

lemma profile_path_apart:
    "''/tmp/neuralmesh/'' @ j @ ''.sb'' \<noteq> log_of (work_dir_of j)" "''/tmp/neuralmesh/'' @ j @ ''.sb'' \<noteq> work_dir_of j"
  by (simp_all only: log_of_eq) (simp_all add: work_dir_of_def)

lemmas profile_path_apart_simps [simp] = profile_path_apart [unfolded append_Cons append_Nil]

lemma checkpoint_path_apart [simp]: "path_join checkpoint_root j \<noteq> log_of (work_dir_of j)"
proof -
  have "j \<noteq> log_of (work_dir_of j)"
    by (rule notI, drule arg_cong [where f = length]) (simp add: log_of_eq)
  then show ?thesis
    by (auto simp: log_of_eq path_join_def starts_with_def checkpoint_root_def)
qed

lemma keeps_sandbox_new: "keeps (log_ok j) (sandbox_new env j rt py)"
  unfolding sandbox_new_def Let_def by (intro keeps_intro) simp_all

lemma sandbox_new_dir: "sandbox_new env j rt py s = (Inr sb, s') \<Longrightarrow> sp_work_dir sb = work_dir_of j"
  by (auto simp: sandbox_new_def Let_def seqE_ok retE_ok)

lemma keeps_first_on_path: "commands_keep_logs env j \<Longrightarrow> keeps (log_ok j) (first_on_path env ps)"
  by (induction ps) (auto intro!: keeps_intro)

lemma keeps_resolve_python: "commands_keep_logs env j \<Longrightarrow> keeps (log_ok j) (resolve_python env py)"
  using keeps_first_on_path [of env j] by (auto simp: keeps_def resolve_python_def retE_def split: list.split)

lemma keeps_status_of: "commands_keep_logs env j \<Longrightarrow> keeps (log_ok j) (status_of env c msg)"
  unfolding status_of_def by (intro keeps_intro)

lemma keeps_run_direct: "filesystem_laws env (as_job_id spec) \<Longrightarrow>
    keeps (log_ok (as_job_id spec)) (run_direct env spec (work_dir_of (as_job_id spec)) script py sb)"
  unfolding run_direct_def
  by (intro keeps_seqE keeps_bindE keeps_map_errE keeps_write_log keeps_status_of keeps_retE laws_commands)

lemma keeps_run_with_dmtcp: "filesystem_laws env (as_job_id spec) \<Longrightarrow>
    keeps (log_ok (as_job_id spec)) (run_with_dmtcp env spec (work_dir_of (as_job_id spec)) script py sb)"
  unfolding run_with_dmtcp_def dmtcp_launch_def Let_def
  by (intro keeps_seqE keeps_bindE keeps_case_prod keeps_mkdir keeps_open_log keeps_status_of keeps_retE laws_commands) simp_all

lemma keeps_output_hash: "keeps (log_ok j) (output_hash_of env p)"
  unfolding output_hash_of_def by (intro keeps_intro)

lemma keeps_dmtcp_cleanup: "keeps (log_ok j) (dmtcp_cleanup env i)"
  unfolding dmtcp_cleanup_def Let_def by (intro keeps_intro)

lemma keeps_is_dmtcp: "commands_keep_logs env j \<Longrightarrow> keeps (log_ok j) (is_dmtcp_available env)"
  unfolding is_dmtcp_available_def by (intro keeps_intro)

lemma run_sandboxed_no_log:
  assumes laws: "filesystem_laws env (as_job_id spec)" "\<And>p fs. ae_io_error env ''rmdir'' p fs = None"
    and ok: "log_ok (as_job_id spec) s" "run_sandboxed env spec (work_dir_of (as_job_id spec)) script py s = (Inr r, s')"
  shows "ho_files s' (log_of (work_dir_of (as_job_id spec))) = None"
proof -
  let ?j = "as_job_id spec" and ?d = "work_dir_of (as_job_id spec)"
  obtain sb s1 python s2 dm s3 code s4 hash s5 u s6 v r7 where
      step: "sandbox_new env ?j (runtime_as_str (as_runtime spec)) py s = (Inr sb, s1)" "resolve_python env py s1 = (Inr python, s2)"
        "is_dmtcp_available env s2 = (Inr dm, s3)"
        "(if dm then run_with_dmtcp env spec ?d script python sb else run_direct env spec ?d script python sb) s3 = (Inr code, s4)"
        "output_hash_of env (log_of (sp_work_dir sb)) s4 = (Inr hash, s5)"
        "(if code = 0 then dmtcp_cleanup env ?j else retE ()) s5 = (Inr u, s6)"
      and "sandbox_cleanup env sb s6 = (r7, v)"
      and "(if code \<noteq> 0 then failE (''Job exited with code '' @ int_str code)
        else retE \<lparr>jx_job_id = ?j, jx_exit_code = code, jx_output_hash = hash, jx_actual_runtime_s = ae_elapsed env,
          jx_avg_gpu_util_pct = avg_gpu (ae_gpu_samples env), jx_peak_ram_gb = unwrap_or 0 (ae_memory_used_gb env)\<rparr>) v = (Inr r, s')"
    using ok(2) unfolding run_sandboxed_def bindE_ok seqE_ok okE_ok by (elim exE conjE) (rule that, assumption+)
  then have clean: "sandbox_cleanup env sb s6 = (r7, s')"
    by (auto simp: failE_ok retE_ok split: if_splits)
  note c = laws_commands [OF laws(1)]
  have "log_ok ?j s4"
    using keeps_stepD [OF keeps_sandbox_new step(1)] keeps_stepD [OF keeps_resolve_python [OF c] step(2)]
      keeps_stepD [OF keeps_is_dmtcp [OF c] step(3)] keeps_stepD [OF keeps_if [OF keeps_run_with_dmtcp [OF laws(1)] keeps_run_direct [OF laws(1)]] step(4)]
      ok(1) by blast
  then have "log_ok ?j s6"
    using keeps_stepD [OF keeps_output_hash step(5)] keeps_stepD [OF keeps_if [OF keeps_dmtcp_cleanup keeps_retE] step(6)] by blast
  from cleanup_removes_log [OF sandbox_new_dir [OF step(1)] laws(2) this clean] show ?thesis .
qed


lemma run_sandboxed_job_id: "run_sandboxed env spec d script py s = (Inr r, s') \<Longrightarrow> jx_job_id r = as_job_id spec"
  unfolding run_sandboxed_def bindE_ok seqE_ok okE_ok by (elim exE conjE) (auto simp: failE_ok retE_ok split: if_splits)

lemma keeps_exec_status [keeps_intro]: "commands_keep_logs env j \<Longrightarrow> keeps (log_ok j) (check_status env c m f)"
  unfolding check_status_def by (intro keeps_bindE keeps_status_of keeps_if keeps_retE keeps_failE)

lemma bundle_path_apart: "bundle_path_of j \<noteq> work_dir_of j"
  by (rule notI, drule arg_cong [where f = length]) (simp add: bundle_path_of_def work_dir_of_def)

lemma keeps_download: "commands_keep_logs env j \<Longrightarrow> keeps (log_ok j) (download_bundle env j url h)"
  using bundle_path_apart [of j] unfolding download_bundle_def Let_def bundle_path_of_def
  by (intro keeps_seqE keeps_bindE keeps_mkdir keeps_exec_status keeps_if keeps_retE keeps_read_file keeps_failE keeps_okE keeps_rm)
    (simp_all add: log_of_eq)

lemma keeps_resolve_entry: "keeps (log_ok j) (resolve_entry env spec d)"
proof -
  have "snd (find_entry_script env d rt s) = s" for rt s
    by (simp add: find_entry_script_def retE_def failE_def split: list.split option.split)
  then have "keeps (log_ok j) (find_entry_script env d rt)" for rt by (simp add: keeps_def)
  then show ?thesis unfolding resolve_entry_def Let_def
    by (intro keeps_case_option keeps_map_errE keeps_bindE keeps_exists_path keeps_if keeps_retE)
qed

lemma keeps_vm_available: "commands_keep_logs env j \<Longrightarrow> keeps (log_ok j) (vm_is_available env)"
  unfolding vm_is_available_def Let_def
  by (rule keepsI, rule keepsD, intro keeps_bindE keeps_run_command keeps_if keeps_retE keeps_exists_path)

lemma keeps_run_in_vm: "commands_keep_logs env j \<Longrightarrow> keeps (log_ok j) (run_in_vm env cfg script)"
proof -
  assume c: "commands_keep_logs env j"
  have "keeps (log_ok j) (\<lambda>s. bindE (status_of env run msg) (\<lambda>code. bindE (run_command env destroy) (\<lambda>_.
      retE \<lparr>vr_exit_code = unwrap_or (- 1) code, vr_stdout = out s, vr_stderr = err s, vr_runtime_secs = ae_elapsed env\<rparr>)) s)" for run msg destroy out err
    by (rule keepsI, rule keepsD, intro keeps_bindE keeps_status_of keeps_run_command keeps_retE c)
  then show ?thesis unfolding run_in_vm_def Let_def
    by (intro keeps_bindE keeps_vm_available keeps_if keeps_failE keeps_seqE keeps_exec_status c)
qed

lemma keeps_try_vm: "commands_keep_logs env j \<Longrightarrow> keeps (log_ok j) (try_vm env spec d script)"
  unfolding try_vm_def
  by (intro keeps_if keeps_retE keeps_bindE keeps_vm_available keeps_matchE keeps_run_in_vm keeps_okE keeps_rmdir keeps_failE)

lemma try_vm_some:
  assumes "try_vm env spec (work_dir_of j) script s = (Inr (Some r), s')" "\<And>p fs. ae_io_error env ''rmdir'' p fs = None"
  shows "ho_files s' (log_of (work_dir_of j)) = None \<and> jx_job_id r = as_job_id spec"
  using assms unfolding try_vm_def
  by (auto simp: bindE_ok matchE_ok okE_ok retE_ok failE_ok remove_dir_all_def file_op_def split: if_splits)

text \<open>The log of a completed job is never delivered. The runner removes the working directory, by the sandbox's cleanup or after the
  VM, before it returns; the task reads the log from that directory afterwards, finds none and sends none. It holds
  for every job started from a bundle, whatever the commands do, as long as they leave no log outside its directory and
  removing a directory works.\<close>

lemma final_log_lost:
  assumes "filesystem_laws env (as_job_id spec)" "\<forall>p fs. ae_io_error env ''rmdir'' p fs = None"
    and "as_checkpoint_url spec = None" "log_in_dir (as_job_id spec) (ho_files s)"
    and "job_task env spec python_prefix answer s = ((final_log, Report_Completion r), s')"
  shows "final_log = None \<and> jx_job_id r = as_job_id spec"
proof -
  let ?j = "as_job_id spec" and ?d = "work_dir_of (as_job_id spec)"
  note c = laws_commands [OF assms(1)]
  have run: "job_run env spec python_prefix answer s = (Inr r, s')" and log: "final_log = final_log_of env (jx_job_id r) (ho_files s')"
    using assms(5) by (auto simp: job_task_def split: prod.splits sum.splits)
  obtain u1 s1 bun s2 u2 s3 rm s4 script s5 vm s6 where
      step: "create_dir_all env ?d s = (Inr u1, s1)" "download_bundle env ?j (as_bundle_url spec) (as_bundle_hash spec) s1 = (Inr bun, s2)"
        "extract_bundle env bun ?d s2 = (Inr u2, s3)" "remove_file env bun s3 = (rm, s4)" "resolve_entry env spec ?d s4 = (Inr script, s5)"
        "try_vm env spec ?d script s5 = (Inr vm, s6)"
      and rest: "(case vm of Some r \<Rightarrow> retE r | None \<Rightarrow> run_sandboxed env spec ?d script python_prefix) s6 = (Inr r, s')"
    using run assms(3) unfolding job_run_def Let_def option.case
    by (simp add: failE_ok bindE_ok seqE_ok okE_ok split: if_splits) (elim exE conjE, rule that, assumption+)
  have bun: "bun = bundle_path_of ?j" using step(2)
    by (auto simp: download_bundle_def Let_def seqE_ok bindE_ok retE_ok failE_ok bundle_path_of_def split: if_splits)
  have "log_ok ?j s6"
    using assms(4) keeps_stepD [OF keeps_mkdir step(1)] keeps_stepD [OF keeps_download [OF c] step(2)]
      keeps_stepD [OF keeps_exec_status [OF c] step(3) [unfolded extract_bundle_def]]
      keeps_stepD [OF keeps_rm step(4)] keeps_stepD [OF keeps_resolve_entry step(5)] keeps_stepD [OF keeps_try_vm [OF c] step(6)]
      bundle_path_apart bun by blast
  then have "ho_files s' (log_of ?d) = None \<and> jx_job_id r = ?j"
    using rest try_vm_some [of env spec ?j script s5] step(6) run_sandboxed_no_log [OF assms(1), of s6] run_sandboxed_job_id assms(2)
    by (cases vm) (auto simp: retE_def)
  then show ?thesis using log by (auto simp: final_log_of_def split: option.split file_entry.split)
qed

section \<open>Checkpoints across providers\<close>

lemma last_insort_key: "xs \<noteq> [] \<Longrightarrow> f x < f (last xs) \<Longrightarrow> sorted (map f xs) \<Longrightarrow> last (insort_key f x xs) = last xs"
proof (induction xs)
  case (Cons y ys)
  show ?case
  proof (cases "ys = []")
    case False
    then have "insort_key f x ys \<noteq> []" by (cases ys) auto
    with Cons False show ?thesis by auto
  qed (use Cons in \<open>auto simp: not_le less_imp_le\<close>)
qed simp

lemma latest_checkpoint_last: "latest_checkpoint jid d = Some c \<longleftrightarrow>
    (let xs = sort_key (\<lambda>r. sort_col (Some (ck_iteration r))) (rev (filter (\<lambda>c. ck_job_id c = Some jid) (checkpoints d)))
     in xs \<noteq> [] \<and> last xs = c)"
  by (auto simp: latest_checkpoint_def order_desc_def Let_def hd_rev split: list.split dest: arg_cong [of _ _ rev])

text \<open>A checkpoint with a smaller iteration than the latest one does not become the latest.\<close>

lemma latest_checkpoint_lower:
  assumes "latest_checkpoint jid d = Some c0" "ck_iteration c < ck_iteration c0" "ck_job_id c = Some jid"
  shows "latest_checkpoint jid (d\<lparr>checkpoints := checkpoints d @ [c]\<rparr>) = Some c0"
proof -
  let ?f = "\<lambda>r. sort_col (Some (ck_iteration r))"
  let ?xs = "sort_key ?f (rev (filter (\<lambda>c. ck_job_id c = Some jid) (checkpoints d)))"
  have xs: "?xs \<noteq> []" "last ?xs = c0" using assms(1) by (simp_all add: latest_checkpoint_last Let_def)
  have "?f c < ?f (last ?xs)" using assms(2) xs(2) by (simp add: sort_col_def less_sort_col_def)
  then have "last (insort_key ?f c ?xs) = c0" using last_insort_key [OF xs(1), of ?f c] xs(2) by simp
  moreover have "insort_key ?f c ?xs \<noteq> []" by (cases ?xs) auto
  ultimately show ?thesis using assms(3) by (simp add: latest_checkpoint_last Let_def)
qed

lemma strs_of_map [simp]: "strs_of (map JStr xs) = Some xs"
  by (induction xs) auto

section \<open>Ports\<close>

lemma port_sum: "foldl (\<lambda>acc b. (acc + of_char b) mod 65536) a xs = (a + (\<Sum>b\<leftarrow>xs. of_char b)) mod (65536 :: int)" if "0 \<le> a" "a < 65536"
  using that
proof (induction xs arbitrary: a)
  case (Cons x xs)
  have "0 \<le> (a + of_char x) mod 65536" "(a + of_char x) mod 65536 < 65536" by simp_all
  from Cons.IH [OF this] show ?case by (simp add: mod_add_left_eq add.assoc)
qed simp

text \<open>The checkpoint port lies in a window of 200 ports and depends only on the characters of the job's identifier: jobs whose
  identifiers are permutations of each other get the same port.\<close>

theorem derive_port_window:
  "7780 \<le> derive_port job_id \<and> derive_port job_id \<le> 7979 \<and> (mset job_id = mset other \<longrightarrow> derive_port job_id = derive_port other)"
proof -
  have "derive_port i = 7780 + (\<Sum>b\<in>#mset i. of_char b) mod 65536 mod 200" for i
    by (simp add: derive_port_def port_sum sum_mset_sum_list flip: mset_map)
  then show ?thesis by simp
qed

theorem derive_port_window_witness: "derive_port ''ab'' = derive_port ''ba''"
  using derive_port_window [of "''ab''" "''ba''"] by simp

section \<open>A concrete machine\<close>

text \<open>A machine without DMTCP and without the VM helper: \<open>curl\<close> stores the bundle, \<open>tar\<close> unpacks a script, \<open>sandbox-exec\<close> writes to the log,
  every other command ends well. A file cannot be created in a missing working directory. The hash is the identity.\<close>

definition demo_exec :: "string \<Rightarrow> command \<Rightarrow> files \<Rightarrow> cmd_result \<times> files" where
  "demo_exec j c fs =
     (if c = dmtcp_which then (Some (Some 1), fs)
      else if cm_program c = ''curl'' then (Some (Some 0), fs(bundle_path_of j \<mapsto> E_File ''tgz''))
      else if cm_program c = ''tar'' then (Some (Some 0), fs(path_join (work_dir_of j) ''run.sh'' \<mapsto> E_File ''echo''))
      else if cm_program c = ''sandbox-exec'' \<and> fs (log_of (work_dir_of j)) \<noteq> None
        then (Some (Some 0), fs(log_of (work_dir_of j) \<mapsto> E_File ''out''))
      else (Some (Some 0), fs))"

definition demo_machine :: "string \<Rightarrow> agent_env" where
  "demo_machine j = \<lparr>ae_exec = demo_exec j, ae_stdout = (\<lambda>_ _. ''14.1''), ae_stderr = (\<lambda>_ _. []),
     ae_io_error = (\<lambda>op p fs. if op \<in> {''write'', ''open''} \<and> p = log_of (work_dir_of j) \<and> fs (work_dir_of j) = None
        then Some ''No such file or directory'' else None),
     ae_list_dir = (\<lambda>_ _. []), ae_sha256_hex = (\<lambda>s. s), ae_json_text = (\<lambda>_. ''{}''), ae_macos = True, ae_cpus = 10,
     ae_elapsed = 60, ae_gpu_samples = [], ae_memory_used_gb = Some 12\<rparr>"

definition demo_agent_job :: agent_job_spec where
  "demo_agent_job = \<lparr>as_job_id = ''job'', as_consumer_id = ''cons'', as_runtime = Shell, as_min_ram_gb = 8, as_max_duration_secs = 3600,
     as_max_price_per_hour = Fin 1, as_bundle_hash = ''tgz'', as_bundle_url = ''http://b'', as_script_name = Some ''run.sh'',
     as_consumer_ssh_pubkey = [], as_consumer_wg_pubkey = [], as_preferred_region = None, as_checkpoint_url = None, as_restore_attempts = 0\<rparr>"

definition demo_host :: host where
  "demo_host = \<lparr>ho_files = Map.empty, ho_commands = []\<rparr>"

lemma demo_machine_laws: "filesystem_laws (demo_machine ''job'') ''job''"
  by (auto simp: filesystem_laws_def commands_keep_logs_def demo_machine_def demo_exec_def log_in_dir_def log_of_def work_dir_of_def bundle_path_of_def path_join_def starts_with_def)

lemma demo_job_completes: "case job_task (demo_machine ''job'') demo_agent_job ''/opt/nm'' None demo_host of
    ((l, Report_Completion r), s) \<Rightarrow> jx_exit_code r = 0 | _ \<Rightarrow> False"
  by code_simp

lemma final_log_lost_witness:
  "\<exists>r s'. job_task (demo_machine ''job'') demo_agent_job ''/opt/nm'' None demo_host = ((None, Report_Completion r), s') \<and> jx_exit_code r = 0"
proof -
  obtain l r s' where run: "job_task (demo_machine ''job'') demo_agent_job ''/opt/nm'' None demo_host = ((l, Report_Completion r), s')" "jx_exit_code r = 0"
    using demo_job_completes by (auto split: prod.splits job_report.splits)
  have "as_job_id demo_agent_job = ''job''" "as_checkpoint_url demo_agent_job = None" by (simp_all add: demo_agent_job_def)
  moreover have "\<forall>p fs. ae_io_error (demo_machine ''job'') ''rmdir'' p fs = None" by (simp add: demo_machine_def)
  moreover have "log_in_dir ''job'' (ho_files demo_host)" by (simp add: log_in_dir_def demo_host_def)
  ultimately show ?thesis
    using final_log_lost [of "demo_machine ''job''" demo_agent_job demo_host "''/opt/nm''" None l r s'] demo_machine_laws run by simp
qed

theorem bundle_verified_before_use_witness:
  "let run = job_run (demo_machine ''job'') (demo_agent_job\<lparr>as_bundle_hash := ''other''\<rparr>) ''/opt/nm'' None demo_host
   in set (ho_commands (snd run)) \<subseteq> {curl_command (demo_agent_job\<lparr>as_bundle_hash := ''other''\<rparr>)} \<and>
      job_run (with_unverified_tar (demo_machine ''job'') (demo_agent_job\<lparr>as_bundle_hash := ''other''\<rparr>) (\<lambda>c fs. (None, Map.empty)))
        (demo_agent_job\<lparr>as_bundle_hash := ''other''\<rparr>) ''/opt/nm'' None demo_host = run"
proof -
  let ?spec = "demo_agent_job\<lparr>as_bundle_hash := ''other''\<rparr>"
  have no: "download_bundle (demo_machine ''job'') (as_job_id ?spec) (as_bundle_url ?spec) (as_bundle_hash ?spec) s1 = (Inr (bundle_path_of (as_job_id ?spec)), s2) \<Longrightarrow>
       ho_files s2 (bundle_path_of (as_job_id ?spec)) = Some (E_File c) \<Longrightarrow> ae_sha256_hex (demo_machine ''job'') c \<noteq> as_bundle_hash ?spec" for s1 s2 c
    by (auto simp: demo_agent_job_def download_bundle_def Let_def bundle_path_of_def [symmetric] seqE_ok bindE_ok okE_ok retE_ok failE_ok
      check_status_def status_of_def someE_run run_command_def demo_machine_def demo_exec_def command_of_def dmtcp_which_def read_file_def
      create_dir_all_def file_op_def split: if_splits option.splits)
  have "as_checkpoint_url ?spec = None" "as_bundle_hash ?spec \<noteq> []" by (simp_all add: demo_agent_job_def)
  note claim = bundle_verified_before_use [OF this, of "demo_machine ''job''" "''/opt/nm''" None demo_host]
  have "\<exists>cs. set cs \<subseteq> {curl_command ?spec} \<and> ho_commands (snd (job_run (demo_machine ''job'') ?spec ''/opt/nm'' None demo_host)) = ho_commands demo_host @ cs"
    using conjunct1 [OF claim] no by blast
  then show ?thesis using conjunct2 [OF claim] by (auto simp: Let_def demo_host_def)
qed

definition demo_meta :: checkpoint_meta where
  "demo_meta = \<lparr>cx_job_id = ''job'', cx_iteration = 4, cx_checkpoint_dir = ''/var/neuralmesh/checkpoints/job'', cx_elapsed_secs = 1200,
     cx_coord_port = 7851, cx_dmtcp_files = [''ckpt_1.dmtcp'']\<rparr>"

end
