(* ===== verification/Attestation.thy ===== *)
theory Attestation
  imports Job_Claims
begin

text \<open>
  Hardware attestation, \<open>crates/nm-crypto\<close>: Ed25519 keys (\<open>keys.rs\<close>), Dilithium and Kyber keys (\<open>pq_keys.rs\<close>), the classical
  attestation (\<open>attestation.rs\<close>) and the hybrid one (\<open>hybrid_attestation.rs\<close>).

  The schemes, the hashes, the hexadecimal crate and the JSON printer and parser are third-party code: the fields of \<open>crypto\<close>. What the
  code relies on is \<open>crypto_laws\<close>. Byte strings are lists of characters. The key files are those of the machine of the job runner.
\<close>

section \<open>The schemes\<close>

record crypto =
  cr_sha256 :: "string \<Rightarrow> string"
  cr_blake3 :: "string \<Rightarrow> string"
  cr_hex :: "string \<Rightarrow> string"
  cr_unhex :: "string \<Rightarrow> string option"
  cr_json :: "json \<Rightarrow> string"
  cr_parse :: "string \<Rightarrow> json option"
  cr_ed_public :: "string \<Rightarrow> string"
  cr_ed_valid :: "string \<Rightarrow> bool"
  cr_ed_sign :: "string \<Rightarrow> string \<Rightarrow> string"
  cr_ed_verify :: "string \<Rightarrow> string \<Rightarrow> string \<Rightarrow> bool"
  cr_dil_pk_len :: nat
  cr_dil_sk_len :: nat
  cr_dil_sig_len :: nat
  cr_dil_pair :: "string \<Rightarrow> string \<Rightarrow> bool"
  cr_dil_sign :: "string \<Rightarrow> string \<Rightarrow> string"
  cr_dil_open :: "string \<Rightarrow> string \<Rightarrow> string option"
  cr_kem_pk_len :: nat
  cr_kem_ct_len :: nat
  cr_kem_encapsulate :: "string \<Rightarrow> nat \<Rightarrow> string \<times> string"
  cr_kem_decapsulate :: "string \<Rightarrow> string \<Rightarrow> string"

datatype crypto_error =
  Invalid_Hex | Wrong_Length | Invalid_Key | Bad_Signature | Commitment_Mismatch | Stale int | Malformed_Json | File_Failed string

section \<open>Ed25519 keys\<close>

text \<open>A keypair is its seed.\<close>

record nm_keypair =
  kp_seed :: string

record nm_public_key =
  pk_bytes :: string

definition io_error :: "'a agent_prog \<Rightarrow> (host, crypto_error, 'a) prog" where
  "io_error m = map_errE File_Failed m"

text \<open>\<open>path.parent()\<close>: nothing for the root and for the empty path.\<close>

definition parent_of :: "string \<Rightarrow> string option" where
  "parent_of p = (if p = [] \<or> p = ''/'' then None else
     let d = rev (drop 1 (dropWhile (\<lambda>c. c \<noteq> CHR ''/'') (rev p))) in Some (if d = [] \<and> CHR ''/'' \<in> set p then ''/'' else d))"

definition set_mode_600 :: "agent_env \<Rightarrow> string \<Rightarrow> unit agent_prog" where
  "set_mode_600 env p = file_op env ''chmod'' p (\<lambda>fs. fs)"

definition save_bytes :: "agent_env \<Rightarrow> string \<Rightarrow> string \<Rightarrow> (host, crypto_error, unit) prog" where
  "save_bytes env path content =
     seqE (case parent_of path of Some d \<Rightarrow> io_error (create_dir_all env d) | None \<Rightarrow> retE ())
     (seqE (io_error (write_file env path content)) (io_error (set_mode_600 env path)))"

definition keypair_load :: "agent_env \<Rightarrow> string \<Rightarrow> (host, crypto_error, nm_keypair) prog" where
  "keypair_load env path =
     bindE (io_error (read_file env path)) (\<lambda>bytes.
     if length bytes \<noteq> 32 then failE Wrong_Length else retE \<lparr>kp_seed = bytes\<rparr>)"

definition keypair_save :: "agent_env \<Rightarrow> string \<Rightarrow> nm_keypair \<Rightarrow> (host, crypto_error, unit) prog" where
  "keypair_save env path kp = save_bytes env path (kp_seed kp)"

definition keypair_sign :: "crypto \<Rightarrow> nm_keypair \<Rightarrow> string \<Rightarrow> string" where
  "keypair_sign cr kp message = cr_ed_sign cr (kp_seed kp) message"

definition public_key_hex :: "crypto \<Rightarrow> nm_keypair \<Rightarrow> string" where
  "public_key_hex cr kp = cr_hex cr (cr_ed_public cr (kp_seed kp))"

definition public_from_bytes :: "crypto \<Rightarrow> string \<Rightarrow> crypto_error + nm_public_key" where
  "public_from_bytes cr b = (if cr_ed_valid cr b then Inr \<lparr>pk_bytes = b\<rparr> else Inl Invalid_Key)"

definition unhex :: "crypto \<Rightarrow> string \<Rightarrow> crypto_error + string" where
  "unhex cr h = (case cr_unhex cr h of Some b \<Rightarrow> Inr b | None \<Rightarrow> Inl Invalid_Hex)"

definition public_from_hex :: "crypto \<Rightarrow> string \<Rightarrow> crypto_error + nm_public_key" where
  "public_from_hex cr h = and_then (unhex cr h) (\<lambda>b. if length b \<noteq> 32 then Inl Wrong_Length else public_from_bytes cr b)"

definition public_verify :: "crypto \<Rightarrow> nm_public_key \<Rightarrow> string \<Rightarrow> string \<Rightarrow> crypto_error + unit" where
  "public_verify cr pk message signature =
     (if length signature \<noteq> 64 then Inl Wrong_Length
      else if cr_ed_verify cr (pk_bytes pk) message signature then Inr () else Inl Bad_Signature)"

section \<open>Dilithium and Kyber keys\<close>

record pq_keypair =
  pq_public :: string
  pq_secret :: string

definition pq_load :: "crypto \<Rightarrow> agent_env \<Rightarrow> string \<Rightarrow> (host, crypto_error, pq_keypair) prog" where
  "pq_load cr env path =
     bindE (io_error (read_file env path)) (\<lambda>raw.
     if length raw \<noteq> cr_dil_pk_len cr + cr_dil_sk_len cr then failE Wrong_Length
     else retE \<lparr>pq_public = take (cr_dil_pk_len cr) raw, pq_secret = drop (cr_dil_pk_len cr) raw\<rparr>)"

definition pq_save :: "agent_env \<Rightarrow> string \<Rightarrow> pq_keypair \<Rightarrow> (host, crypto_error, unit) prog" where
  "pq_save env path kp = save_bytes env path (pq_public kp @ pq_secret kp)"

text \<open>The detached signature: what the signed message has before the message.\<close>

definition pq_sign :: "crypto \<Rightarrow> pq_keypair \<Rightarrow> string \<Rightarrow> string" where
  "pq_sign cr kp message = (let signed = cr_dil_sign cr (pq_secret kp) message in take (length signed - length message) signed)"

definition pq_public_key_hex :: "crypto \<Rightarrow> pq_keypair \<Rightarrow> string" where
  "pq_public_key_hex cr kp = cr_hex cr (pq_public kp)"

definition pq_from_bytes :: "crypto \<Rightarrow> string \<Rightarrow> crypto_error + string" where
  "pq_from_bytes cr b = (if length b = cr_dil_pk_len cr then Inr b else Inl Invalid_Key)"

definition pq_from_hex :: "crypto \<Rightarrow> string \<Rightarrow> crypto_error + string" where
  "pq_from_hex cr h = and_then (unhex cr h) (pq_from_bytes cr)"

definition pq_verify :: "crypto \<Rightarrow> string \<Rightarrow> string \<Rightarrow> string \<Rightarrow> crypto_error + unit" where
  "pq_verify cr pk message signature =
     (if length signature \<noteq> cr_dil_sig_len cr then Inl Wrong_Length
      else case cr_dil_open cr (signature @ message) pk of Some _ \<Rightarrow> Inr () | None \<Rightarrow> Inl Bad_Signature)"

record kem_keypair =
  kem_public :: string
  kem_secret :: string

definition encapsulate_for :: "crypto \<Rightarrow> nat \<Rightarrow> string \<Rightarrow> crypto_error + string \<times> string" where
  "encapsulate_for cr coins their_key =
     (if length their_key = cr_kem_pk_len cr then Inr (cr_kem_encapsulate cr their_key coins) else Inl Invalid_Key)"

definition decapsulate :: "crypto \<Rightarrow> kem_keypair \<Rightarrow> string \<Rightarrow> crypto_error + string" where
  "decapsulate cr kp ct = (if length ct = cr_kem_ct_len cr then Inr (cr_kem_decapsulate cr (kem_secret kp) ct) else Inl Wrong_Length)"

section \<open>The classical attestation\<close>

record attestation_claim =
  ac_provider_pubkey :: string
  ac_job_id :: string
  ac_chip :: mac_chip_info
  ac_timestamp :: int

record attestation =
  at_claim :: attestation_claim
  at_signature :: string

definition chip_json :: "mac_chip_info \<Rightarrow> json" where
  "chip_json c = JObj [(''chip_model'', JStr (mc_chip_model c)), (''unified_memory_gb'', JInt (mc_unified_memory_gb c)),
     (''gpu_cores'', JInt (mc_gpu_cores c)), (''cpu_cores'', JInt (mc_cpu_cores c)), (''metal_version'', JStr (mc_metal_version c)),
     (''serial_number'', JStr (mc_serial_number c)), (''platform_uuid'', JStr (mc_platform_uuid c)), (''macos_version'', JStr (mc_macos_version c))]"

definition claim_json :: "attestation_claim \<Rightarrow> json" where
  "claim_json c = JObj [(''provider_pubkey'', JStr (ac_provider_pubkey c)), (''job_id'', JStr (ac_job_id c)),
     (''chip'', chip_json (ac_chip c)), (''timestamp'', JInt (ac_timestamp c))]"

definition attestation_json :: "attestation \<Rightarrow> json" where
  "attestation_json a = JObj [(''claim'', claim_json (at_claim a)), (''signature'', JStr (at_signature a))]"

definition claim_signing_bytes :: "crypto \<Rightarrow> attestation_claim \<Rightarrow> string" where
  "claim_signing_bytes cr c = cr_sha256 cr (cr_json cr (claim_json c))"

definition attestation_create :: "crypto \<Rightarrow> int \<Rightarrow> nm_keypair \<Rightarrow> string \<Rightarrow> mac_chip_info \<Rightarrow> attestation" where
  "attestation_create cr now kp job_id chip =
     (let claim = \<lparr>ac_provider_pubkey = public_key_hex cr kp, ac_job_id = job_id, ac_chip = chip, ac_timestamp = now\<rparr>
      in \<lparr>at_claim = claim, at_signature = cr_hex cr (keypair_sign cr kp (claim_signing_bytes cr claim))\<rparr>)"

text \<open>\<open>unix_now().saturating_sub(timestamp)\<close>, and the five minutes.\<close>

definition freshness :: "int \<Rightarrow> int \<Rightarrow> crypto_error + unit" where
  "freshness now timestamp = (let age = max 0 (now - timestamp) in if 300 < age then Inl (Stale age) else Inr ())"

definition attestation_verify :: "crypto \<Rightarrow> int \<Rightarrow> attestation \<Rightarrow> crypto_error + unit" where
  "attestation_verify cr now a =
     and_then (public_from_hex cr (ac_provider_pubkey (at_claim a))) (\<lambda>pk.
     and_then (unhex cr (at_signature a)) (\<lambda>sig.
     and_then (public_verify cr pk (claim_signing_bytes cr (at_claim a)) sig) (\<lambda>_.
     freshness now (ac_timestamp (at_claim a)))))"

fun j_str :: "json \<Rightarrow> string option" where
  "j_str (JStr s) = Some s"
| "j_str _ = None"

definition decode_chip :: "json \<Rightarrow> mac_chip_info option" where
  "decode_chip j =
     (case (j_get ''chip_model'' j, json_int 4294967295 (j_get ''unified_memory_gb'' j), json_int 4294967295 (j_get ''gpu_cores'' j),
            json_int 4294967295 (j_get ''cpu_cores'' j), j_get ''metal_version'' j, j_get ''serial_number'' j, j_get ''platform_uuid'' j,
            j_get ''macos_version'' j) of
        (JStr model, Some ram, Some gpu, Some cpu, JStr metal, JStr serial, JStr uuid, JStr os) \<Rightarrow>
          Some \<lparr>mc_chip_model = model, mc_unified_memory_gb = ram, mc_gpu_cores = gpu, mc_cpu_cores = cpu, mc_metal_version = metal,
            mc_serial_number = serial, mc_platform_uuid = uuid, mc_macos_version = os\<rparr>
      | _ \<Rightarrow> None)"

definition decode_claim :: "json \<Rightarrow> attestation_claim option" where
  "decode_claim j =
     (case (j_get ''provider_pubkey'' j, j_get ''job_id'' j, decode_chip (j_get ''chip'' j), json_int 18446744073709551615 (j_get ''timestamp'' j)) of
        (JStr pk, JStr jid, Some chip, Some t) \<Rightarrow> Some \<lparr>ac_provider_pubkey = pk, ac_job_id = jid, ac_chip = chip, ac_timestamp = t\<rparr>
      | _ \<Rightarrow> None)"

definition attestation_to_bytes :: "crypto \<Rightarrow> attestation \<Rightarrow> string" where
  "attestation_to_bytes cr a = cr_json cr (attestation_json a)"

definition attestation_from_bytes :: "crypto \<Rightarrow> string \<Rightarrow> crypto_error + attestation" where
  "attestation_from_bytes cr b =
     (case cr_parse cr b of
        None \<Rightarrow> Inl Malformed_Json
      | Some j \<Rightarrow>
          (case (decode_claim (j_get ''claim'' j), j_get ''signature'' j) of
             (Some c, JStr sig) \<Rightarrow> Inr \<lparr>at_claim = c, at_signature = sig\<rparr> | _ \<Rightarrow> Inl Malformed_Json))"

section \<open>The hybrid attestation\<close>

record hybrid_claim =
  hc_ed25519_pubkey :: string
  hc_dilithium3_pubkey :: string
  hc_job_id :: string
  hc_chip :: mac_chip_info
  hc_gpu_vendor :: string
  hc_gpu_model :: string
  hc_nonce :: int
  hc_timestamp :: int
  hc_version :: int

record hybrid_attestation =
  ha_claim :: hybrid_claim
  ha_ed25519_sig :: string
  ha_dilithium3_sig :: string
  ha_on_chain_commitment :: string

definition hybrid_claim_new :: "crypto \<Rightarrow> int \<Rightarrow> int \<Rightarrow> nm_keypair \<Rightarrow> pq_keypair \<Rightarrow> string \<Rightarrow> mac_chip_info \<Rightarrow> string \<Rightarrow> string \<Rightarrow> hybrid_claim" where
  "hybrid_claim_new cr now nonce ed pq job_id chip vendor model =
     \<lparr>hc_ed25519_pubkey = public_key_hex cr ed, hc_dilithium3_pubkey = pq_public_key_hex cr pq, hc_job_id = job_id, hc_chip = chip,
      hc_gpu_vendor = vendor, hc_gpu_model = model, hc_nonce = nonce, hc_timestamp = now, hc_version = 1\<rparr>"

definition hybrid_claim_json :: "hybrid_claim \<Rightarrow> json" where
  "hybrid_claim_json c = JObj [(''ed25519_pubkey'', JStr (hc_ed25519_pubkey c)), (''dilithium3_pubkey'', JStr (hc_dilithium3_pubkey c)),
     (''job_id'', JStr (hc_job_id c)), (''chip'', chip_json (hc_chip c)), (''gpu_vendor'', JStr (hc_gpu_vendor c)),
     (''gpu_model'', JStr (hc_gpu_model c)), (''nonce'', JInt (hc_nonce c)), (''timestamp'', JInt (hc_timestamp c)), (''version'', JInt (hc_version c))]"

definition hybrid_signing_bytes :: "crypto \<Rightarrow> hybrid_claim \<Rightarrow> string" where
  "hybrid_signing_bytes cr c = cr_blake3 cr (cr_json cr (hybrid_claim_json c))"

text \<open>The hasher is fed the three parts one after the other.\<close>

definition on_chain_commitment :: "crypto \<Rightarrow> string \<Rightarrow> string \<Rightarrow> string \<Rightarrow> string" where
  "on_chain_commitment cr signing_bytes ed_sig dil3_sig = cr_blake3 cr (signing_bytes @ ed_sig @ dil3_sig)"

definition hybrid_create ::
  "crypto \<Rightarrow> int \<Rightarrow> int \<Rightarrow> nm_keypair \<Rightarrow> pq_keypair \<Rightarrow> string \<Rightarrow> mac_chip_info \<Rightarrow> string \<Rightarrow> string \<Rightarrow> hybrid_attestation" where
  "hybrid_create cr now nonce ed pq job_id chip vendor model =
     (let claim = hybrid_claim_new cr now nonce ed pq job_id chip vendor model;
          bytes = hybrid_signing_bytes cr claim; ed_sig = keypair_sign cr ed bytes; dil3_sig = pq_sign cr pq bytes
      in \<lparr>ha_claim = claim, ha_ed25519_sig = cr_hex cr ed_sig, ha_dilithium3_sig = cr_hex cr dil3_sig,
          ha_on_chain_commitment = cr_hex cr (on_chain_commitment cr bytes ed_sig dil3_sig)\<rparr>)"

definition hybrid_verify :: "crypto \<Rightarrow> int \<Rightarrow> hybrid_attestation \<Rightarrow> crypto_error + unit" where
  "hybrid_verify cr now a =
     (let bytes = hybrid_signing_bytes cr (ha_claim a) in
      and_then (public_from_hex cr (hc_ed25519_pubkey (ha_claim a))) (\<lambda>ed_key.
      and_then (unhex cr (ha_ed25519_sig a)) (\<lambda>ed_sig.
      and_then (public_verify cr ed_key bytes ed_sig) (\<lambda>_.
      and_then (pq_from_hex cr (hc_dilithium3_pubkey (ha_claim a))) (\<lambda>pq_key.
      and_then (unhex cr (ha_dilithium3_sig a)) (\<lambda>dil3_sig.
      and_then (pq_verify cr pq_key bytes dil3_sig) (\<lambda>_.
      and_then (unhex cr (ha_on_chain_commitment a)) (\<lambda>stored.
      and_then (if on_chain_commitment cr bytes ed_sig dil3_sig = stored then Inr () else Inl Commitment_Mismatch) (\<lambda>_.
      freshness now (hc_timestamp (ha_claim a)))))))))))"

definition commitment_bytes :: "crypto \<Rightarrow> hybrid_attestation \<Rightarrow> crypto_error + string" where
  "commitment_bytes cr a = and_then (unhex cr (ha_on_chain_commitment a)) (\<lambda>b. if length b = 32 then Inr b else Inl Wrong_Length)"

section \<open>What the code relies on\<close>

text \<open>Documented behaviour of the crates: hexadecimal text decodes to what was encoded, an Ed25519 key has 32 bytes, a signature 64, what a key
  signed its public key accepts, a signed Dilithium message is a signature of fixed length and the message, BLAKE3 gives 32 bytes.\<close>

definition crypto_laws :: "crypto \<Rightarrow> bool" where
  "crypto_laws cr \<longleftrightarrow>
     (\<forall>b. cr_unhex cr (cr_hex cr b) = Some b) \<and> (\<forall>s. length (cr_ed_public cr s) = 32 \<and> cr_ed_valid cr (cr_ed_public cr s)) \<and>
     (\<forall>s m. length (cr_ed_sign cr s m) = 64 \<and> cr_ed_verify cr (cr_ed_public cr s) m (cr_ed_sign cr s m)) \<and>
     (\<forall>pk sk m. cr_dil_pair cr pk sk \<longrightarrow> length pk = cr_dil_pk_len cr \<and> length sk = cr_dil_sk_len cr \<and>
        (\<exists>sig. length sig = cr_dil_sig_len cr \<and> cr_dil_sign cr sk m = sig @ m \<and> cr_dil_open cr (sig @ m) pk = Some m)) \<and>
     (\<forall>x. length (cr_blake3 cr x) = 32)"

lemma unhex_hex: "crypto_laws cr \<Longrightarrow> unhex cr (cr_hex cr b) = Inr b"
  by (simp add: crypto_laws_def unhex_def)

lemma own_key: "crypto_laws cr \<Longrightarrow> public_from_hex cr (public_key_hex cr kp) = Inr \<lparr>pk_bytes = cr_ed_public cr (kp_seed kp)\<rparr>"
  by (simp add: public_from_hex_def public_key_hex_def unhex_hex public_from_bytes_def) (simp add: crypto_laws_def)

lemma own_signature: "crypto_laws cr \<Longrightarrow> public_verify cr \<lparr>pk_bytes = cr_ed_public cr (kp_seed kp)\<rparr> m (keypair_sign cr kp m) = Inr ()"
  by (simp add: public_verify_def keypair_sign_def crypto_laws_def)

lemma own_pq_signature:
  assumes "crypto_laws cr" "cr_dil_pair cr (pq_public kp) (pq_secret kp)"
  shows "pq_from_hex cr (pq_public_key_hex cr kp) = Inr (pq_public kp) \<and> pq_verify cr (pq_public kp) m (pq_sign cr kp m) = Inr ()"
proof -
  have "length (pq_public kp) = cr_dil_pk_len cr" using assms unfolding crypto_laws_def by blast
  then have key: "pq_from_hex cr (pq_public_key_hex cr kp) = Inr (pq_public kp)"
    using assms(1) by (simp add: pq_from_hex_def pq_public_key_hex_def unhex_hex pq_from_bytes_def)
  obtain sig where "length sig = cr_dil_sig_len cr" "cr_dil_sign cr (pq_secret kp) m = sig @ m" "cr_dil_open cr (sig @ m) (pq_public kp) = Some m"
    using assms unfolding crypto_laws_def by blast
  then show ?thesis using key by (simp add: pq_verify_def pq_sign_def Let_def)
qed

section \<open>Properties\<close>

text \<open>C23: What a provider attests verifies, during the five minutes after it was made, for both kinds of attestation; and the commitment that
  goes on chain is the hash of the signing bytes and both signatures.\<close>

theorem attestation_complete:
  assumes "crypto_laws cr" "cr_dil_pair cr (pq_public pq) (pq_secret pq)" "made \<le> now" "now \<le> made + 300"
  shows "attestation_verify cr now (attestation_create cr made ed job chip) = Inr () \<and>
    hybrid_verify cr now (hybrid_create cr made nonce ed pq job chip vendor model) = Inr () \<and>
    (let m = hybrid_signing_bytes cr (hybrid_claim_new cr made nonce ed pq job chip vendor model)
     in commitment_bytes cr (hybrid_create cr made nonce ed pq job chip vendor model) =
          Inr (cr_blake3 cr (m @ keypair_sign cr ed m @ pq_sign cr pq m)))"
proof (intro conjI)
  have fresh: "freshness now made = Inr ()" using assms(3,4) by (simp add: freshness_def Let_def)
  then show "attestation_verify cr now (attestation_create cr made ed job chip) = Inr ()"
    using own_key [OF assms(1)] own_signature [OF assms(1)]
    by (simp add: attestation_verify_def attestation_create_def Let_def unhex_hex [OF assms(1)])
  have keys: "hc_ed25519_pubkey (hybrid_claim_new cr made nonce ed pq job chip vendor model) = public_key_hex cr ed"
    "hc_dilithium3_pubkey (hybrid_claim_new cr made nonce ed pq job chip vendor model) = pq_public_key_hex cr pq"
    "hc_timestamp (hybrid_claim_new cr made nonce ed pq job chip vendor model) = made"
    by (simp_all add: hybrid_claim_new_def)
  show "hybrid_verify cr now (hybrid_create cr made nonce ed pq job chip vendor model) = Inr ()"
    using own_key [OF assms(1)] own_signature [OF assms(1)] own_pq_signature [OF assms(1,2)] fresh
    by (simp add: hybrid_verify_def hybrid_create_def Let_def unhex_hex [OF assms(1)] keys)
qed (use assms(1) in \<open>simp add: commitment_bytes_def hybrid_create_def Let_def unhex_hex on_chain_commitment_def\<close>,
  simp add: crypto_laws_def)

text \<open>When each check passes.\<close>

lemma checks_ok:
  "unhex cr h = Inr b \<longleftrightarrow> cr_unhex cr h = Some b"
  "public_verify cr pk m sig = Inr u \<longleftrightarrow> length sig = 64 \<and> cr_ed_verify cr (pk_bytes pk) m sig"
  "pq_from_hex cr h = Inr k \<longleftrightarrow> cr_unhex cr h = Some k \<and> length k = cr_dil_pk_len cr"
  "pq_verify cr k m sig = Inr u \<longleftrightarrow> length sig = cr_dil_sig_len cr \<and> cr_dil_open cr (sig @ m) k \<noteq> None"
  "(if c then Inr () else Inl Commitment_Mismatch) = Inr u \<longleftrightarrow> c"
  by (auto simp: unhex_def public_verify_def pq_from_hex_def pq_from_bytes_def pq_verify_def and_then_eq_Inr split: option.split)

lemma freshness_ok: "freshness now t = Inr () \<longleftrightarrow> now \<le> t + 300"
  by (auto simp: freshness_def Let_def)

text \<open>What the verifier has checked when it accepts a hybrid attestation, and all it has checked: the two keys decode, both signatures are
  valid for the claim under the keys that the claim itself names, the stored commitment is the hash of claim and signatures, and the
  claim is not older than five minutes. A claim dated in the future passes the last check; nothing ties the keys or the job to what the
  caller expects.\<close>

theorem hybrid_verify_exact:
  "hybrid_verify cr now a = Inr () \<longleftrightarrow>
     (\<exists>ed_key ed_sig pq_key pq_sig commitment.
        public_from_hex cr (hc_ed25519_pubkey (ha_claim a)) = Inr \<lparr>pk_bytes = ed_key\<rparr> \<and> cr_unhex cr (ha_ed25519_sig a) = Some ed_sig \<and>
        length ed_sig = 64 \<and> cr_ed_verify cr ed_key (hybrid_signing_bytes cr (ha_claim a)) ed_sig \<and>
        cr_unhex cr (hc_dilithium3_pubkey (ha_claim a)) = Some pq_key \<and> length pq_key = cr_dil_pk_len cr \<and>
        cr_unhex cr (ha_dilithium3_sig a) = Some pq_sig \<and> length pq_sig = cr_dil_sig_len cr \<and>
        cr_dil_open cr (pq_sig @ hybrid_signing_bytes cr (ha_claim a)) pq_key \<noteq> None \<and>
        cr_unhex cr (ha_on_chain_commitment a) = Some commitment \<and>
        commitment = cr_blake3 cr (hybrid_signing_bytes cr (ha_claim a) @ ed_sig @ pq_sig) \<and>
        now \<le> hc_timestamp (ha_claim a) + 300)"
proof -
  have ex: "(\<exists>k. P k) \<longleftrightarrow> (\<exists>b. P \<lparr>pk_bytes = b\<rparr>)" for P :: "nm_public_key \<Rightarrow> bool"
    by (metis nm_public_key.surjective old.unit.exhaust)
  show ?thesis
    unfolding hybrid_verify_def Let_def and_then_eq_Inr ex checks_ok freshness_ok on_chain_commitment_def by simp
qed

text \<open>The freshness check has one side only. An attestation that was accepted once is accepted at every earlier time too and until five
  minutes after the time it states, so a provider that dates its claim ahead can replay it for as long as it likes.\<close>

theorem freshness_one_sided:
  assumes "attestation_verify cr now a = Inr ()"
  shows "attestation_verify cr later a =
    (if later \<le> ac_timestamp (at_claim a) + 300 then Inr () else Inl (Stale (later - ac_timestamp (at_claim a))))"
  using assms by (auto simp: attestation_verify_def and_then_eq_Inr freshness_def Let_def)

text \<open>The text form of a classical attestation.\<close>

definition u32_ok :: "int \<Rightarrow> bool" where
  "u32_ok x \<longleftrightarrow> 0 \<le> x \<and> x < 2 ^ 32"

definition chip_ok :: "mac_chip_info \<Rightarrow> bool" where
  "chip_ok c \<longleftrightarrow> u32_ok (mc_unified_memory_gb c) \<and> u32_ok (mc_gpu_cores c) \<and> u32_ok (mc_cpu_cores c)"

lemma decode_chip_json: "chip_ok c \<Longrightarrow> decode_chip (chip_json c) = Some c"
  by (simp add: decode_chip_def chip_json_def j_get_def chip_ok_def u32_ok_def)

text \<open>An attestation survives its text form: parsing what \<open>to_bytes\<close> prints gives the same attestation, which verifies exactly when the
  original does.\<close>

theorem attestation_bytes_roundtrip:
  assumes "cr_parse cr (cr_json cr (attestation_json a)) = Some (attestation_json a)" "chip_ok (ac_chip (at_claim a))"
    and "0 \<le> ac_timestamp (at_claim a)" "ac_timestamp (at_claim a) < 2 ^ 64"
  shows "attestation_from_bytes cr (attestation_to_bytes cr a) = Inr a"
  using assms
  by (simp add: attestation_from_bytes_def attestation_to_bytes_def attestation_json_def decode_claim_def claim_json_def j_get_def decode_chip_json)

lemma save_then_read:
  assumes "\<And>op fs. ae_io_error env op path fs = None" "\<And>op d fs. parent_of path = Some d \<Longrightarrow> ae_io_error env op d fs = None"
  shows "\<exists>s'. save_bytes env path content s = (Inr (), s') \<and> io_error (read_file env path) s' = (Inr content, s')"
  using assms
  by (cases "parent_of path")
    (simp_all add: save_bytes_def io_error_def prog_simps create_dir_all_def write_file_def set_mode_600_def file_op_def read_file_def)

text \<open>A key file gives back the key that was saved, for both kinds of keys, and a file of any other length is refused.\<close>

theorem key_files_roundtrip:
  assumes quiet: "\<forall>op p fs. ae_io_error env op p fs = None" and len: "length (kp_seed ed) = 32"
    "length (pq_public pq) = cr_dil_pk_len cr" "length (pq_secret pq) = cr_dil_sk_len cr" and stored: "ho_files t path = Some (E_File content)"
  shows "fst (seqE (keypair_save env path ed) (keypair_load env path) s) = Inr ed \<and>
    fst (seqE (pq_save env path pq) (pq_load cr env path) s) = Inr pq \<and>
    (fst (keypair_load env path t) = Inl Wrong_Length \<longleftrightarrow> length content \<noteq> 32) \<and>
    (fst (pq_load cr env path t) = Inl Wrong_Length \<longleftrightarrow> length content \<noteq> cr_dil_pk_len cr + cr_dil_sk_len cr)"
proof -
  have "fst (seqE (keypair_save env path ed) (keypair_load env path) s) = Inr ed"
    using save_then_read [of env path "kp_seed ed" s] quiet len
    by (auto simp: keypair_save_def keypair_load_def prog_simps)
  moreover have "fst (seqE (pq_save env path pq) (pq_load cr env path) s) = Inr pq"
    using save_then_read [of env path "pq_public pq @ pq_secret pq" s] quiet len
    by (auto simp: pq_save_def pq_load_def prog_simps)
  ultimately show ?thesis using quiet stored by (simp add: keypair_load_def pq_load_def prog_simps io_error_def read_file_def)
qed

section \<open>Concrete schemes\<close>

definition pad :: "nat \<Rightarrow> string \<Rightarrow> string" where
  "pad n s = take n (s @ replicate n CHR ''.'')"

definition demo_crypto :: crypto where
  "demo_crypto = \<lparr>cr_sha256 = pad 32, cr_blake3 = pad 32, cr_hex = (\<lambda>b. b), cr_unhex = Some, cr_json = (\<lambda>_. ''json''), cr_parse = (\<lambda>_. None),
     cr_ed_public = pad 32, cr_ed_valid = (\<lambda>b. length b = 32), cr_ed_sign = (\<lambda>s m. pad 64 (pad 32 s @ m)),
     cr_ed_verify = (\<lambda>pk m sig. sig = pad 64 (pk @ m)), cr_dil_pk_len = 4, cr_dil_sk_len = 4, cr_dil_sig_len = 8,
     cr_dil_pair = (\<lambda>pk sk. pk = sk \<and> length pk = 4), cr_dil_sign = (\<lambda>sk m. pad 8 (sk @ m) @ m),
     cr_dil_open = (\<lambda>sm pk. if take 8 sm = pad 8 (pk @ drop 8 sm) then Some (drop 8 sm) else None), cr_kem_pk_len = 1, cr_kem_ct_len = 1,
     cr_kem_encapsulate = (\<lambda>_ _. ([], [])), cr_kem_decapsulate = (\<lambda>_ _. [])\<rparr>"

lemma length_pad [simp]: "length (pad n s) = n"
  by (simp add: pad_def)

lemma demo_crypto_laws: "crypto_laws demo_crypto"
  by (auto simp: crypto_laws_def demo_crypto_def)

definition demo_chip :: mac_chip_info where
  "demo_chip = \<lparr>mc_chip_model = ''M2'', mc_unified_memory_gb = 16, mc_gpu_cores = 10, mc_cpu_cores = 8, mc_metal_version = ''3'',
     mc_serial_number = ''S'', mc_platform_uuid = ''U'', mc_macos_version = ''14.5''\<rparr>"

definition demo_seed :: nm_keypair where
  "demo_seed = \<lparr>kp_seed = replicate 32 CHR ''k''\<rparr>"

theorem attestation_complete_witness:
  "attestation_verify demo_crypto 1200 (attestation_create demo_crypto 1000 demo_seed ''job'' demo_chip) = Inr () \<and>
   hybrid_verify demo_crypto 1200 (hybrid_create demo_crypto 1000 7 demo_seed \<lparr>pq_public = ''abcd'', pq_secret = ''abcd''\<rparr> ''job'' demo_chip ''apple'' ''M2'') = Inr ()"
  using attestation_complete [OF demo_crypto_laws, of "\<lparr>pq_public = ''abcd'', pq_secret = ''abcd''\<rparr>" 1000 1200]
  by (simp add: demo_crypto_def)

theorem freshness_one_sided_witness:
  "attestation_verify demo_crypto 5 (attestation_create demo_crypto 90000 demo_seed ''job'' demo_chip) = Inr ()"
proof -
  have "attestation_verify demo_crypto 90000 (attestation_create demo_crypto 90000 demo_seed ''job'' demo_chip) = Inr ()"
    using own_key [OF demo_crypto_laws] own_signature [OF demo_crypto_laws]
    by (simp add: attestation_verify_def attestation_create_def Let_def unhex_hex [OF demo_crypto_laws] freshness_def)
  from freshness_one_sided [OF this, of 5] show ?thesis by (simp add: attestation_create_def Let_def)
qed

theorem attestation_bytes_roundtrip_witness:
  "let a = attestation_create demo_crypto 1000 demo_seed ''job'' demo_chip; cr = demo_crypto\<lparr>cr_parse := (\<lambda>_. Some (attestation_json a))\<rparr>
   in attestation_from_bytes cr (attestation_to_bytes cr a) = Inr a"
  using attestation_bytes_roundtrip [of "demo_crypto\<lparr>cr_parse := (\<lambda>_. Some (attestation_json (attestation_create demo_crypto 1000 demo_seed ''job'' demo_chip)))\<rparr>"
      "attestation_create demo_crypto 1000 demo_seed ''job'' demo_chip"]
  by (simp add: Let_def attestation_create_def demo_chip_def chip_ok_def u32_ok_def)

theorem key_files_roundtrip_witness:
  "let env = (demo_machine ''job'')\<lparr>ae_io_error := (\<lambda>_ _ _. None)\<rparr>
   in fst (seqE (keypair_save env ''/home/a/key'' demo_seed) (keypair_load env ''/home/a/key'') demo_host) = Inr demo_seed"
  using key_files_roundtrip [of "(demo_machine ''job'')\<lparr>ae_io_error := (\<lambda>_ _ _. None)\<rparr>" demo_seed "\<lparr>pq_public = ''abcd'', pq_secret = ''abcd''\<rparr>"
      demo_crypto "demo_host\<lparr>ho_files := [''/home/a/key'' \<mapsto> E_File []]\<rparr>" "''/home/a/key''" "[]" demo_host]
  by (simp add: demo_seed_def demo_crypto_def)

end
