(* ===== verification/Cli_Http.thy ===== *)
theory Cli_Http
  imports Coordinator_System Attestation
begin

text \<open>
  How the command-line client (\<open>src/cli\<close>) talks to the services: the client context of \<open>client.rs\<close>, requests and replies, the decoding of
  answers, and, as peers, the routes of the coordinator and of the ledger that the client uses, on the models of their handlers.

  A peer is a function of the request and of its own state. The text of a JSON value is a parameter of the peers; percent encoding of
  addresses is not modelled. The client's machine is the machine of the job runner.
\<close>

section \<open>Requests and replies\<close>

datatype request_body = No_Body | Json_Body json | Form_Body "part list"

record http_request =
  hr_method :: string
  hr_url :: string
  hr_body :: request_body

text \<open>No reply at all, or a status code, the text of the body, and its JSON value when it has one.\<close>

datatype http_reply = Unreachable | Reply int string "json option"

type_synonym 'w http_peer = "http_request \<Rightarrow> 'w \<Rightarrow> http_reply \<times> 'w"

record 'w cli_world =
  ci_host :: host
  ci_peer :: 'w

type_synonym ('w, 'a) cli = "('w cli_world, string, 'a) prog"

definition send_to :: "'w http_peer \<Rightarrow> http_request \<Rightarrow> ('w, http_reply) cli" where
  "send_to peer req = (\<lambda>s. case peer req (ci_peer s) of (r, w) \<Rightarrow> (Inr r, s\<lparr>ci_peer := w\<rparr>))"

definition on_host :: "(host, string, 'a) prog \<Rightarrow> ('w, 'a) cli" where
  "on_host m = (\<lambda>s. case m (ci_host s) of (r, h) \<Rightarrow> (r, s\<lparr>ci_host := h\<rparr>))"

text \<open>\<open>.send().await.context(msg)?\<close>\<close>

definition send_or :: "'w http_peer \<Rightarrow> http_request \<Rightarrow> string \<Rightarrow> ('w, int \<times> string \<times> json option) cli" where
  "send_or peer req msg = bindE (send_to peer req) (\<lambda>r. case r of Unreachable \<Rightarrow> failE msg | Reply code txt j \<Rightarrow> retE (code, txt, j))"

definition is_success :: "int \<Rightarrow> bool" where
  "is_success code \<longleftrightarrow> 200 \<le> code \<and> code < 300"

text \<open>\<open>resp.json().await.context(msg)?\<close>\<close>

definition json_or :: "(json \<Rightarrow> 'a option) \<Rightarrow> json option \<Rightarrow> string \<Rightarrow> ('w, 'a) cli" where
  "json_or decode j msg = someE msg (Option.bind j decode)"

definition get_req :: "string \<Rightarrow> http_request" where
  "get_req url = \<lparr>hr_method = ''GET'', hr_url = url, hr_body = No_Body\<rparr>"

definition post_req :: "string \<Rightarrow> request_body \<Rightarrow> http_request" where
  "post_req url b = \<lparr>hr_method = ''POST'', hr_url = url, hr_body = b\<rparr>"

definition delete_req :: "string \<Rightarrow> http_request" where
  "delete_req url = \<lparr>hr_method = ''DELETE'', hr_url = url, hr_body = No_Body\<rparr>"

section \<open>The client context\<close>

record client_context =
  cc_coordinator_url :: string
  cc_ledger_url :: string
  cc_output_json :: bool
  cc_account_id :: "string option"

definition at_coordinator :: "client_context \<Rightarrow> string \<Rightarrow> string" where
  "at_coordinator ctx path = trim_end_matches (CHR ''/'') (cc_coordinator_url ctx) @ path"

definition at_ledger :: "client_context \<Rightarrow> string \<Rightarrow> string" where
  "at_ledger ctx path = trim_end_matches (CHR ''/'') (cc_ledger_url ctx) @ path"

definition require_account_id :: "client_context \<Rightarrow> ('w, string) cli" where
  "require_account_id ctx = someE ''No account configured. Run `hatch provider install` or set NM_ACCOUNT_ID.'' (cc_account_id ctx)"

section \<open>Decoding an answer\<close>

definition j_field :: "string \<Rightarrow> json \<Rightarrow> json option" where
  "j_field k v = (case v of JObj fs \<Rightarrow> map_of fs k | _ \<Rightarrow> None)"

text \<open>A value that is text on the wire: a string, a printed timestamp, or formatted numbers.\<close>

definition j_text :: "json \<Rightarrow> json option" where
  "j_text j = (case j of JStr _ \<Rightarrow> Some j | JTime _ \<Rightarrow> Some j | JFmt _ _ \<Rightarrow> Some j | _ \<Rightarrow> None)"

definition j_bool :: "json \<Rightarrow> bool option" where
  "j_bool j = (case j of JBool b \<Rightarrow> Some b | _ \<Rightarrow> None)"

abbreviation j_u32 :: "json \<Rightarrow> int option" where
  "j_u32 \<equiv> json_int 4294967295"

text \<open>An \<open>Option\<close> field: absent or null, or a value that must decode; a field with a default: absent, or a value that must decode.\<close>

definition opt_field :: "(json \<Rightarrow> 'a option) \<Rightarrow> string \<Rightarrow> json \<Rightarrow> 'a option option" where
  "opt_field decode k v = (case j_field k v of None \<Rightarrow> Some None | Some JNull \<Rightarrow> Some None | Some x \<Rightarrow> map_option Some (decode x))"

definition default_field :: "'a \<Rightarrow> (json \<Rightarrow> 'a option) \<Rightarrow> string \<Rightarrow> json \<Rightarrow> 'a option" where
  "default_field d decode k v = (case j_field k v of None \<Rightarrow> Some d | Some x \<Rightarrow> decode x)"

definition req_field :: "(json \<Rightarrow> 'a option) \<Rightarrow> string \<Rightarrow> json \<Rightarrow> 'a option" where
  "req_field decode k v = Option.bind (j_field k v) decode"

fun decode_all :: "(json \<Rightarrow> 'a option) \<Rightarrow> json list \<Rightarrow> 'a list option" where
  "decode_all decode [] = Some []"
| "decode_all decode (j # js) = Option.bind (decode j) (\<lambda>x. map_option (\<lambda>xs. x # xs) (decode_all decode js))"

definition list_field :: "(json \<Rightarrow> 'a option) \<Rightarrow> string \<Rightarrow> json \<Rightarrow> 'a list option" where
  "list_field decode k v = (case j_field k v of Some (JArr js) \<Rightarrow> decode_all decode js | _ \<Rightarrow> None)"

section \<open>The services as peers\<close>

definition status_code :: "status \<Rightarrow> int" where
  "status_code c = (case c of
     OK \<Rightarrow> 200 | BAD_REQUEST \<Rightarrow> 400 | UNAUTHORIZED \<Rightarrow> 401 | PAYMENT_REQUIRED \<Rightarrow> 402 | NOT_FOUND \<Rightarrow> 404 | INTERNAL_SERVER_ERROR \<Rightarrow> 500)"

text \<open>What the client sees of a handler's result; a handler that panics closes the connection.\<close>

definition reply_of :: "(json \<Rightarrow> string) \<Rightarrow> (rest_error + json) \<times> 'w \<Rightarrow> http_reply \<times> 'w" where
  "reply_of text_of r = (case r of
     (Inr j, w) \<Rightarrow> (Reply 200 (text_of j) (Some j), w)
   | (Inl (Status c), w) \<Rightarrow> (Reply (status_code c) [] None, w)
   | (Inl (Status_Json c j), w) \<Rightarrow> (Reply (status_code c) (text_of j) (Some j), w)
   | (Inl Panicked, w) \<Rightarrow> (Unreachable, w))"

text \<open>The path of an address below \<open>base\<close>, in segments, and the parameters of its query.\<close>

definition split_query :: "string \<Rightarrow> string \<times> string" where
  "split_query s = (let p = takeWhile (\<lambda>c. c \<noteq> CHR ''?'') s in (p, drop (length p + 1) s))"

definition query_params :: "string \<Rightarrow> (string \<times> string) list" where
  "query_params q = (if q = [] then [] else
     map (\<lambda>kv. let k = takeWhile (\<lambda>c. c \<noteq> CHR ''='') kv in (k, drop (length k + 1) kv)) (split_on (CHR ''&'') q))"

definition route_of :: "string \<Rightarrow> string \<Rightarrow> (string list \<times> (string \<times> string) list) option" where
  "route_of base url = map_option (\<lambda>rest. let (p, q) = split_query rest in (split_on (CHR ''/'') p, query_params q)) (strip_prefix (base @ ''/api/v1/'') url)"

text \<open>A typed parameter: absent, or one that must parse.\<close>

definition parse_signed :: "int \<Rightarrow> string \<Rightarrow> int option" where
  "parse_signed bound s = (case s of
     c # ds \<Rightarrow> if c = CHR ''-'' then (if ds \<noteq> [] \<and> all_digits ds \<and> digits_value ds \<le> bound then Some (- digits_value ds) else None)
              else parse_unsigned bound s
   | [] \<Rightarrow> None)"

definition int_param :: "(string \<Rightarrow> int option) \<Rightarrow> string \<Rightarrow> (string \<times> string) list \<Rightarrow> int option option" where
  "int_param parse k ps = (case map_of ps k of None \<Rightarrow> Some None | Some v \<Rightarrow> map_option Some (parse v))"

definition provider_query_of :: "(string \<times> string) list \<Rightarrow> provider_query option" where
  "provider_query_of ps = (case (int_param (parse_signed 2147483648) ''min_ram'' ps, int_param (parse_signed 9223372036854775808) ''limit'' ps) of
     (Some m, Some l) \<Rightarrow> Some \<lparr>pq_runtime = map_of ps ''runtime'', pq_min_ram = m, pq_region = map_of ps ''region'', pq_limit = l\<rparr>
   | _ \<Rightarrow> None)"

definition job_query_of :: "(string \<times> string) list \<Rightarrow> job_query option" where
  "job_query_of ps = map_option (\<lambda>l. \<lparr>jq_account_id = map_of ps ''account_id'', jq_state = map_of ps ''state'', jq_limit = l\<rparr>)
     (int_param (parse_signed 9223372036854775808) ''limit'' ps)"

text \<open>The bodies: \<open>None\<close> is axum's rejection.\<close>

definition json_i32 :: "json \<Rightarrow> int option" where
  "json_i32 j = (case j of JInt n \<Rightarrow> if i32_range n then Some n else None | _ \<Rightarrow> None)"

definition submit_body_of :: "json \<Rightarrow> submit_job_body option" where
  "submit_body_of j =
     (case (req_field j_as_str ''account_id'' j, req_field j_as_str ''runtime'' j, req_field json_i32 ''min_ram_gb'' j,
            req_field json_i32 ''max_duration_secs'' j, req_field j_as_f64 ''max_price_per_hour'' j, opt_field j_as_str ''bundle_hash'' j,
            opt_field j_as_str ''bundle_url'' j, opt_field j_as_str ''script_name'' j, opt_field j_as_str ''preferred_region'' j) of
        (Some a, Some rt, Some ram, Some dur, Some price, Some h, Some u, Some n, Some reg) \<Rightarrow>
          Some \<lparr>sj_account_id = a, sj_runtime = rt, sj_min_ram_gb = ram, sj_max_duration_secs = dur, sj_max_price_per_hour = price,
            sj_bundle_hash = h, sj_bundle_url = u, sj_script_name = n, sj_preferred_region = reg\<rparr>
      | _ \<Rightarrow> None)"

definition register_body_of :: "json \<Rightarrow> register_account_body option" where
  "register_body_of j =
     (case (req_field j_as_str ''ecdsa_pubkey_hex'' j, req_field j_as_str ''device_fingerprint_hash'' j, opt_field j_as_str ''device_label'' j,
            opt_field j_as_str ''platform'' j, opt_field j_as_str ''hardware_serial_hash'' j) of
        (Some pk, Some fp, Some l, Some p, Some hs) \<Rightarrow>
          Some \<lparr>ra_ecdsa_pubkey_hex = pk, ra_device_fingerprint_hash = fp, ra_device_label = l, ra_platform = p, ra_hardware_serial_hash = hs\<rparr>
      | _ \<Rightarrow> None)"

definition deposit_body_of :: "json \<Rightarrow> deposit_body option" where
  "deposit_body_of j = (case (req_field j_as_f64 ''amount_nmc'' j, opt_field j_as_str ''reference'' j) of
     (Some m, Some r) \<Rightarrow> Some \<lparr>db_amount_nmc = m, db_reference = r\<rparr> | _ \<Rightarrow> None)"

definition ledger_withdraw_body_of :: "json \<Rightarrow> ledger_withdraw_body option" where
  "ledger_withdraw_body_of j = (case (req_field j_as_f64 ''amount_nmc'' j, req_field j_as_str ''dest_address'' j) of
     (Some m, Some a) \<Rightarrow> Some \<lparr>lw_amount_nmc = m, lw_dest_address = a\<rparr> | _ \<Rightarrow> None)"

definition plain_reply :: "int \<Rightarrow> 'w \<Rightarrow> http_reply \<times> 'w" where
  "plain_reply code w = (Reply code [] None, w)"

text \<open>A JSON body that decodes goes to the handler; else the request is rejected.\<close>

definition with_body :: "(json \<Rightarrow> 'b option) \<Rightarrow> ('b \<Rightarrow> 'w \<Rightarrow> http_reply \<times> 'w) \<Rightarrow> request_body \<Rightarrow> 'w \<Rightarrow> http_reply \<times> 'w" where
  "with_body decode k b w = (case b of
     Json_Body j \<Rightarrow> (case decode j of Some x \<Rightarrow> k x w | None \<Rightarrow> plain_reply 422 w) | _ \<Rightarrow> plain_reply 415 w)"

text \<open>The routes of the coordinator that the client uses, by method.\<close>

definition coordinator_get :: "(json \<Rightarrow> string) \<Rightarrow> string list \<Rightarrow> (string \<times> string) list \<Rightarrow> coord_db world \<Rightarrow> http_reply \<times> coord_db world" where
  "coordinator_get text_of segs ps w =
     (case segs of
        [a] \<Rightarrow>
          (if a = ''providers'' then (case provider_query_of ps of Some q \<Rightarrow> reply_of text_of (list_providers q w) | None \<Rightarrow> plain_reply 400 w)
           else if a = ''jobs'' then (case job_query_of ps of Some q \<Rightarrow> reply_of text_of (list_jobs_rest q w) | None \<Rightarrow> plain_reply 400 w)
           else if a = ''stats'' then reply_of text_of (network_stats w)
           else plain_reply 404 w)
      | [a, i] \<Rightarrow> if a = ''jobs'' then reply_of text_of (get_job i w) else plain_reply 404 w
      | [a, i, b] \<Rightarrow>
          (if a = ''jobs'' \<and> b = ''logs''
           then (case int_param (parse_unsigned 18446744073709551616) ''offset'' ps of
                   Some off \<Rightarrow> reply_of text_of (get_job_logs i (map_option nat off) w) | None \<Rightarrow> plain_reply 400 w)
           else plain_reply 404 w)
      | _ \<Rightarrow> plain_reply 404 w)"

definition coordinator_post ::
  "sys_env \<Rightarrow> (json \<Rightarrow> string) \<Rightarrow> string list \<Rightarrow> request_body \<Rightarrow> coord_db world \<Rightarrow> http_reply \<times> coord_db world" where
  "coordinator_post env text_of segs b w =
     (if segs = [''jobs''] then with_body submit_body_of (\<lambda>x w. reply_of text_of (submit_job x w)) b w
      else if segs = [''account'', ''register'']
      then with_body register_body_of (\<lambda>x w. reply_of text_of (register_account (se_sha env) (se_hex env) x w)) b w
      else if segs = [''artifacts'']
      then (case b of Form_Body parts \<Rightarrow> reply_of text_of (upload_artifact (se_tar env) (se_public_url env) parts w) | _ \<Rightarrow> plain_reply 400 w)
      else plain_reply 404 w)"

definition coordinator_peer :: "sys_env \<Rightarrow> (json \<Rightarrow> string) \<Rightarrow> string \<Rightarrow> coord_db world http_peer" where
  "coordinator_peer env text_of base = (\<lambda>req w.
     case route_of base (hr_url req) of
       None \<Rightarrow> plain_reply 404 w
     | Some (segs, ps) \<Rightarrow>
         if hr_method req = ''GET'' then coordinator_get text_of segs ps w
         else if hr_method req = ''POST'' then coordinator_post env text_of segs (hr_body req) w
         else if hr_method req = ''DELETE'' then (case segs of [a, i] \<Rightarrow> if a = ''jobs'' then reply_of text_of (cancel_job i w) else plain_reply 404 w | _ \<Rightarrow> plain_reply 404 w)
         else plain_reply 405 w)"

text \<open>The wallet routes of the ledger.\<close>

definition ledger_peer :: "(json \<Rightarrow> string) \<Rightarrow> string \<Rightarrow> coord_db world http_peer" where
  "ledger_peer text_of base = (\<lambda>req w.
     case route_of base (hr_url req) of
       Some ([a, acct, op], ps) \<Rightarrow>
         (if a \<noteq> ''wallet'' then plain_reply 404 w
          else if op = ''balance'' \<and> hr_method req = ''GET'' then reply_of text_of (ledger_get_balance acct w)
          else if op = ''transactions'' \<and> hr_method req = ''GET'' then reply_of text_of (ledger_list_transactions acct w)
          else if op = ''deposit'' \<and> hr_method req = ''POST'' then with_body deposit_body_of (\<lambda>x w. reply_of text_of (deposit acct x w)) (hr_body req) w
          else if op = ''withdraw'' \<and> hr_method req = ''POST''
          then with_body ledger_withdraw_body_of (\<lambda>x w. reply_of text_of (ledger_withdraw acct x w)) (hr_body req) w
          else plain_reply 404 w)
     | _ \<Rightarrow> plain_reply 404 w)"

section \<open>Addresses\<close>

text \<open>A path segment or a parameter as the client writes it into an address.\<close>

definition plain_text :: "string \<Rightarrow> bool" where
  "plain_text s \<longleftrightarrow> CHR ''/'' \<notin> set s \<and> CHR ''?'' \<notin> set s \<and> CHR ''&'' \<notin> set s \<and> CHR ''='' \<notin> set s"

lemma takeWhile_neq: "c \<notin> set p \<Longrightarrow> takeWhile (\<lambda>x. x \<noteq> c) p = p"
  by (rule takeWhile_eq_all_conv [THEN iffD2]) auto

lemma split_query_plain: "CHR ''?'' \<notin> set p \<Longrightarrow> split_query p = (p, [])"
  by (simp add: split_query_def takeWhile_neq Let_def)

lemma split_query_at: "CHR ''?'' \<notin> set p \<Longrightarrow> split_query (p @ CHR ''?'' # q) = (p, q)"
  by (simp add: split_query_def takeWhile_append takeWhile_neq Let_def)

lemma strip_prefix_append [simp]: "strip_prefix p (p @ s) = Some s"
  by (simp add: strip_prefix_def starts_with_def)

lemma route_plain: "CHR ''?'' \<notin> set p \<Longrightarrow> route_of base (base @ ''/api/v1/'' @ p) = Some (split_on (CHR ''/'') p, [])"
  using strip_prefix_append [of "base @ ''/api/v1/''" p] by (simp add: route_of_def split_query_plain query_params_def)

lemma route_query: "CHR ''?'' \<notin> set p \<Longrightarrow> route_of base (base @ ''/api/v1/'' @ p @ ''?'' @ q) = Some (split_on (CHR ''/'') p, query_params q)"
  using strip_prefix_append [of "base @ ''/api/v1/''" "p @ ''?'' @ q"] by (simp add: route_of_def split_query_at)

text \<open>The address of a wallet operation.\<close>

lemma wallet_route:
  assumes "plain_text acct" "plain_text op"
  shows "route_of (trim_end_matches (CHR ''/'') (cc_ledger_url ctx)) (at_ledger ctx (''/api/v1/wallet/'' @ acct @ ''/'' @ op)) =
     Some ([''wallet'', acct, op], [])"
proof -
  have "split_on (CHR ''/'') (''wallet/'' @ acct @ ''/'' @ op) = [''wallet'', acct, op]"
    using assms by (simp add: plain_text_def split_on_join split_on_one)
  then show ?thesis using route_plain [of "''wallet/'' @ acct @ ''/'' @ op"] assms
    by (simp add: at_ledger_def plain_text_def)
qed


end
