(* ===== verification/Cli_Jobs.thy ===== *)
theory Cli_Jobs
  imports Cli_Http Job_Claims "HOL-Library.List_Lexorder" "HOL-Library.Char_ord" "HOL-Library.Word"
begin

text \<open>
  The job commands of the client, \<open>src/cli/src/commands/job.rs\<close>: the bundle and its hash, submission, the list, the log, waiting and
  cancellation. A command returns what it shows; the layout of the text is not modelled. A panic is the error \<open>panicked\<close>. The two loops
  that poll are partial functions: what the rest of the world does between two polls is the parameter \<open>meanwhile\<close>.
\<close>

unbundle bit_operations_syntax

section \<open>The bundle hash\<close>

definition fnv_prime :: "64 word" where
  "fnv_prime = 0x100000001b3"

definition fnv_file :: "string \<Rightarrow> 64 word" where
  "fnv_file content = foldl (\<lambda>h b. (h XOR of_char b) * fnv_prime) 0xcbf29ce484222325 content"

text \<open>The \<open>BTreeMap\<close> from file names to hashes.\<close>

fun btree_insert :: "string \<Rightarrow> 'v \<Rightarrow> (string \<times> 'v) list \<Rightarrow> (string \<times> 'v) list" where
  "btree_insert k v [] = [(k, v)]"
| "btree_insert k v (e # m) =
     (if k = fst e then (k, v) # m else if k < fst e then (k, v) # e # m else e # btree_insert k v m)"

definition combine_hashes :: "64 word list \<Rightarrow> 64 word" where
  "combine_hashes hs = foldl (\<lambda>c h. (c XOR h) * fnv_prime) 0 hs"

text \<open>\<open>{:016x}\<close>\<close>

definition hex_char :: "nat \<Rightarrow> char" where
  "hex_char n = ''0123456789abcdef'' ! n"

definition hex16 :: "64 word \<Rightarrow> string" where
  "hex16 w = map (\<lambda>i. hex_char (unat (drop_bit (4 * i) w AND 15))) (rev [0..<16])"

definition hash_text :: "(string \<times> 64 word) list \<Rightarrow> string" where
  "hash_text m = (let c = combine_hashes (map snd m) in hex16 c @ hex16 (c * 0xdeadbeef))"

definition panicked :: string where
  "panicked = ''panicked''"

definition read_or :: "agent_env \<Rightarrow> string \<Rightarrow> string agent_prog" where
  "read_or env p = map_errE (\<lambda>_. ''Failed to read '' @ p) (read_file env p)"

fun hash_entries :: "agent_env \<Rightarrow> string list \<Rightarrow> (string \<times> 64 word) list \<Rightarrow> (string \<times> 64 word) list agent_prog" where
  "hash_entries env [] m = retE m"
| "hash_entries env (p # ps) m =
     bindE (read_or env p) (\<lambda>content.
     bindE (someE panicked (path_file_name p)) (\<lambda>n. hash_entries env ps (btree_insert n (fnv_file content) m)))"

definition hash_files :: "agent_env \<Rightarrow> string list \<Rightarrow> string agent_prog" where
  "hash_files env files = bindE (hash_entries env files []) (\<lambda>m. retE (hash_text m))"

section \<open>Upload\<close>

text \<open>A file as a part of the form: named, and named as a file, by its file name; its text is its bytes.\<close>

fun form_parts :: "agent_env \<Rightarrow> string list \<Rightarrow> part list agent_prog" where
  "form_parts env [] = retE []"
| "form_parts env (p # ps) =
     bindE (someE panicked (path_file_name p)) (\<lambda>n.
     bindE (read_or env p) (\<lambda>content.
     bindE (form_parts env ps) (\<lambda>parts. retE (Part (Some n) (Some n) (Some content) (Some content) # parts))))"

definition hash_part :: "string \<Rightarrow> part" where
  "hash_part h = Part (Some ''bundle_hash'') None (Some h) (Some h)"

definition upload_bundle :: "agent_env \<Rightarrow> 'w http_peer \<Rightarrow> client_context \<Rightarrow> string list \<Rightarrow> string \<Rightarrow> ('w, string) cli" where
  "upload_bundle env peer ctx files h =
     bindE (on_host (form_parts env files)) (\<lambda>parts.
     bindE (send_or peer (post_req (at_coordinator ctx ''/api/v1/artifacts'') (Form_Body (hash_part h # parts))) ''Failed to upload bundle'') (\<lambda>(code, body, j).
     if \<not> is_success code then failE (''Bundle upload failed: '' @ body)
     else json_or (req_field j_as_str ''url'') j ''Invalid upload response''))"

section \<open>Submission\<close>

record job_submit_request =
  jr_account_id :: string
  jr_runtime :: string
  jr_min_ram_gb :: int
  jr_max_duration_secs :: int
  jr_max_price_per_hour :: f64
  jr_bundle_hash :: string
  jr_bundle_url :: string
  jr_script_name :: string

definition submit_request_json :: "job_submit_request \<Rightarrow> json" where
  "submit_request_json r = JObj
     [(''account_id'', JStr (jr_account_id r)), (''runtime'', JStr (jr_runtime r)), (''min_ram_gb'', JInt (jr_min_ram_gb r)),
      (''max_duration_secs'', JInt (jr_max_duration_secs r)), (''max_price_per_hour'', j_f64 (jr_max_price_per_hour r)),
      (''bundle_hash'', JStr (jr_bundle_hash r)), (''bundle_url'', JStr (jr_bundle_url r)), (''script_name'', JStr (jr_script_name r))]"

record job_submit_response =
  js_job_id :: string
  js_state :: string
  js_estimated_wait_secs :: int

abbreviation j_u64 :: "json \<Rightarrow> int option" where
  "j_u64 \<equiv> json_int 18446744073709551615"

definition decode_submit :: "json \<Rightarrow> job_submit_response option" where
  "decode_submit j = (case (req_field j_as_str ''job_id'' j, req_field j_as_str ''state'' j, req_field j_u64 ''estimated_wait_secs'' j) of
     (Some i, Some st, Some e) \<Rightarrow> Some \<lparr>js_job_id = i, js_state = st, js_estimated_wait_secs = e\<rparr> | _ \<Rightarrow> None)"

definition valid_runtimes :: "string list" where
  "valid_runtimes = [''mlx'', ''torch-mps'', ''onnx-coreml'', ''llama-cpp'', ''shell'']"

text \<open>The included files that exist; the others are only warned about.\<close>

fun existing_paths :: "string list \<Rightarrow> string list agent_prog" where
  "existing_paths [] = retE []"
| "existing_paths (p # ps) =
     bindE (exists_path (trim_str p)) (\<lambda>e. bindE (existing_paths ps) (\<lambda>qs. retE (if e then trim_str p # qs else qs)))"

definition bundle_files :: "string \<Rightarrow> string option \<Rightarrow> string list agent_prog" where
  "bundle_files script includes =
     (case includes of None \<Rightarrow> retE [script] | Some extras \<Rightarrow> bindE (existing_paths (split_on (CHR '','') extras)) (\<lambda>ps. retE (script # ps)))"

text \<open>\<open>x as u64\<close> of a float.\<close>

definition f64_as_u64 :: "f64 \<Rightarrow> int" where
  "f64_as_u64 x = (case x of NaN \<Rightarrow> 0 | NInf \<Rightarrow> 0 | PInf \<Rightarrow> 18446744073709551615 | Fin q \<Rightarrow> max 0 (min 18446744073709551615 \<lfloor>q\<rfloor>))"

text \<open>The message of a JSON error body, else the body; a formatted message is its template.\<close>

definition wire_str :: "json \<Rightarrow> string option" where
  "wire_str j = (case j of JStr s \<Rightarrow> Some s | JFmt t _ \<Rightarrow> Some t | _ \<Rightarrow> None)"

definition submit_error :: "int \<Rightarrow> string \<Rightarrow> json option \<Rightarrow> string" where
  "submit_error code body j =
     ''Job submission failed (HTTP '' @ int_str code @ ''): '' @ unwrap_or body (Option.bind j (\<lambda>v. wire_str (j_get ''message'' v)))"

definition cli_submit ::
  "agent_env \<Rightarrow> 'w http_peer \<Rightarrow> client_context \<Rightarrow> string \<Rightarrow> string \<Rightarrow> int \<Rightarrow> f64 \<Rightarrow> f64 \<Rightarrow> string option \<Rightarrow> ('w, job_submit_response) cli" where
  "cli_submit env peer ctx script runtime ram hours max_price includes =
     bindE (require_account_id ctx) (\<lambda>acct.
     bindE (on_host (exists_path script)) (\<lambda>found.
     if \<not> found then failE (''Script not found: '' @ script)
     else if runtime \<notin> set valid_runtimes then failE (''Unknown runtime '' @ [CHR 0x27] @ runtime @ [CHR 0x27] @ ''. Valid options: mlx, torch-mps, onnx-coreml, llama-cpp, shell'')
     else
       bindE (on_host (bundle_files script includes)) (\<lambda>files.
       bindE (on_host (hash_files env files)) (\<lambda>h.
       bindE (upload_bundle env peer ctx files h) (\<lambda>url.
       bindE (send_or peer (post_req (at_coordinator ctx ''/api/v1/jobs'') (Json_Body (submit_request_json
         \<lparr>jr_account_id = acct, jr_runtime = runtime, jr_min_ram_gb = ram, jr_max_duration_secs = f64_as_u64 (f64_mul hours (Fin 3600)),
          jr_max_price_per_hour = max_price, jr_bundle_hash = h, jr_bundle_url = url,
          jr_script_name = unwrap_or ''job.py'' (path_file_name script)\<rparr>))) ''Failed to submit job'') (\<lambda>(code, body, j).
       if \<not> is_success code then failE (submit_error code body j)
       else json_or decode_submit j ''Invalid submit response''))))))"

section \<open>List and cancel\<close>

record job_response =
  jo_id :: string
  jo_state :: string
  jo_runtime :: string
  jo_min_ram_gb :: int
  jo_max_price_per_hour :: f64
  jo_created_at :: json
  jo_provider_id :: "string option"
  jo_started_at :: "json option"
  jo_completed_at :: "json option"
  jo_exit_code :: "int option"

definition decode_job_response :: "json \<Rightarrow> job_response option" where
  "decode_job_response j =
     (case (req_field j_as_str ''id'' j, req_field j_as_str ''state'' j, req_field j_as_str ''runtime'' j, req_field j_u32 ''min_ram_gb'' j,
            req_field j_as_f64 ''max_price_per_hour'' j, req_field j_text ''created_at'' j) of
        (Some i, Some st, Some rt, Some ram, Some price, Some c) \<Rightarrow>
          (case (opt_field j_as_str ''provider_id'' j, opt_field j_text ''started_at'' j, opt_field j_text ''completed_at'' j, opt_field json_i32 ''exit_code'' j) of
             (Some p, Some sa, Some ca, Some ec) \<Rightarrow>
               Some \<lparr>jo_id = i, jo_state = st, jo_runtime = rt, jo_min_ram_gb = ram, jo_max_price_per_hour = price, jo_created_at = c,
                 jo_provider_id = p, jo_started_at = sa, jo_completed_at = ca, jo_exit_code = ec\<rparr>
           | _ \<Rightarrow> None)
      | _ \<Rightarrow> None)"

definition decode_job_list :: "json \<Rightarrow> (job_response list \<times> int) option" where
  "decode_job_list j = (case (list_field decode_job_response ''jobs'' j, req_field j_u32 ''total'' j) of
     (Some js, Some n) \<Rightarrow> Some (js, n) | _ \<Rightarrow> None)"

definition list_url :: "client_context \<Rightarrow> string \<Rightarrow> string option \<Rightarrow> int \<Rightarrow> string" where
  "list_url ctx acct state limit =
     at_coordinator ctx (''/api/v1/jobs?account_id='' @ acct @ ''&limit='' @ int_str limit) @
       (case state of Some st \<Rightarrow> ''&state='' @ st | None \<Rightarrow> [])"

text \<open>The table cuts the creation time after 19 bytes, which a printed timestamp always has.\<close>

definition can_cut :: "job_response \<Rightarrow> bool" where
  "can_cut r = (case jo_created_at r of JStr t \<Rightarrow> slice_to t 19 \<noteq> None | _ \<Rightarrow> True)"

definition cli_list_jobs :: "'w http_peer \<Rightarrow> client_context \<Rightarrow> string option \<Rightarrow> int \<Rightarrow> ('w, job_response list \<times> int) cli" where
  "cli_list_jobs peer ctx state limit =
     bindE (require_account_id ctx) (\<lambda>acct.
     bindE (send_or peer (get_req (list_url ctx acct state limit)) ''Failed to list jobs'') (\<lambda>(code, body, j).
     if \<not> is_success code then failE (''Failed to list jobs: '' @ body)
     else bindE (json_or decode_job_list j ''Invalid list response'') (\<lambda>r.
       if \<not> cc_output_json ctx \<and> \<not> list_all can_cut (fst r) then failE panicked else retE r)))"

definition job_url :: "client_context \<Rightarrow> string \<Rightarrow> string" where
  "job_url ctx jid = at_coordinator ctx (''/api/v1/jobs/'' @ jid)"

definition cli_cancel :: "'w http_peer \<Rightarrow> client_context \<Rightarrow> string \<Rightarrow> ('w, string) cli" where
  "cli_cancel peer ctx jid =
     bindE (send_or peer (delete_req (job_url ctx jid)) ''Failed to cancel job'') (\<lambda>(code, body, j).
     if code = 404 then failE (''Job not found: '' @ jid)
     else if \<not> is_success code then failE (''Failed to cancel job: '' @ body)
     else retE (''Job '' @ jid @ '' cancelled''))"

section \<open>The log\<close>

record logs_response =
  lo_job_id :: string
  lo_output :: string
  lo_is_complete :: bool

definition decode_logs :: "json \<Rightarrow> logs_response option" where
  "decode_logs j = (case (req_field j_as_str ''job_id'' j, req_field j_as_str ''output'' j, default_field False j_bool ''is_complete'' j) of
     (Some i, Some out, Some c) \<Rightarrow> Some \<lparr>lo_job_id = i, lo_output = out, lo_is_complete = c\<rparr> | _ \<Rightarrow> None)"

definition logs_url :: "client_context \<Rightarrow> string \<Rightarrow> string" where
  "logs_url ctx jid = at_coordinator ctx (''/api/v1/jobs/'' @ jid @ ''/logs'')"

definition cli_show_log :: "'w http_peer \<Rightarrow> client_context \<Rightarrow> string \<Rightarrow> ('w, string) cli" where
  "cli_show_log peer ctx jid =
     bindE (send_or peer (get_req (logs_url ctx jid)) ''Failed to fetch logs'') (\<lambda>(code, body, j).
     if code = 404 then failE (''Job not found: '' @ jid)
     else if \<not> is_success code then failE (''Failed to fetch logs: '' @ body)
     else bindE (json_or decode_logs j ''Invalid logs response'') (\<lambda>l. retE (lo_output l)))"

text \<open>What one poll of the log tells the client: the end with the last output, more output, or that there is no such job.\<close>

datatype log_turn = Log_End string | Log_More string | Log_Missing

definition log_step :: "http_reply \<Rightarrow> log_turn" where
  "log_step r = (case r of
     Unreachable \<Rightarrow> Log_More []
   | Reply code body j \<Rightarrow>
       (if is_success code then
          (case Option.bind j decode_logs of
             None \<Rightarrow> Log_More [] | Some l \<Rightarrow> (if lo_is_complete l then Log_End (lo_output l) else Log_More (lo_output l)))
        else if code = 404 then Log_Missing else Log_More []))"

text \<open>The result of following: an error or the end, with what was printed.\<close>

partial_function (option) follow_logs ::
  "'w http_peer \<Rightarrow> (nat \<Rightarrow> 'w \<Rightarrow> 'w) \<Rightarrow> string \<Rightarrow> string \<Rightarrow> nat \<Rightarrow> nat \<Rightarrow> string \<Rightarrow> 'w cli_world \<Rightarrow> (((string + unit) \<times> string) \<times> 'w cli_world) option" where
  "follow_logs peer meanwhile url jid n offset printed s =
     (case peer (get_req (url @ ''?offset='' @ int_str (int offset))) (ci_peer s) of
        (r, w) \<Rightarrow> (case log_step r of
            Log_End out \<Rightarrow> Some ((Inr (), printed @ out), s\<lparr>ci_peer := w\<rparr>)
          | Log_Missing \<Rightarrow> Some ((Inl (''Job not found: '' @ jid), printed), s\<lparr>ci_peer := w\<rparr>)
          | Log_More out \<Rightarrow>
              follow_logs peer meanwhile url jid (Suc n) (offset + length out) (printed @ out) (s\<lparr>ci_peer := meanwhile n w\<rparr>)))"

section \<open>Waiting\<close>

definition terminal_states :: "string list" where
  "terminal_states = [''complete'', ''failed'', ''cancelled'']"

text \<open>The status of the answer is not looked at.\<close>

definition finished_job :: "http_reply \<Rightarrow> job_response option" where
  "finished_job r = (case r of
     Unreachable \<Rightarrow> None
   | Reply _ _ j \<Rightarrow> (case Option.bind j decode_job_response of
        None \<Rightarrow> None | Some job \<Rightarrow> (if jo_state job \<in> set terminal_states then Some job else None)))"

partial_function (option) wait_for_completion ::
  "'w http_peer \<Rightarrow> (nat \<Rightarrow> 'w \<Rightarrow> 'w) \<Rightarrow> string \<Rightarrow> nat \<Rightarrow> 'w cli_world \<Rightarrow> (job_response \<times> 'w cli_world) option" where
  "wait_for_completion peer meanwhile url n s =
     (case peer (get_req url) (ci_peer s) of
        (r, w) \<Rightarrow> (case finished_job r of
            Some job \<Rightarrow> Some (job, s\<lparr>ci_peer := w\<rparr>)
          | None \<Rightarrow> wait_for_completion peer meanwhile url (Suc n) (s\<lparr>ci_peer := meanwhile n w\<rparr>)))"

end
