(* ===== verification/Cli_Job_Runs.thy ===== *)
theory Cli_Job_Runs
  imports Cli_Jobs
begin

text \<open>
  The job commands of the client run against the coordinator, and against the agent that is given the submitted job.
\<close>

abbreviation coordinator_of :: "sys_env \<Rightarrow> client_context \<Rightarrow> (json \<Rightarrow> string) \<Rightarrow> coord_db world http_peer" where
  "coordinator_of senv ctx text_of \<equiv> coordinator_peer senv text_of (trim_end_matches (CHR ''/'') (cc_coordinator_url ctx))"

section \<open>The bundle hash\<close>

lemma btree_insert_fst: "fst ` set (btree_insert k v m) = insert k (fst ` set m)"
  by (induction m) auto

lemma btree_insert_sorted: "sorted_wrt (<) (map fst m) \<Longrightarrow> sorted_wrt (<) (map fst (btree_insert k v m))"
proof (induction m)
  case (Cons e m)
  then show ?case using btree_insert_fst [of k v m] by (auto dest: less_trans intro: order.not_eq_order_implies_strict simp: not_less)
qed simp

lemma btree_insert_new: "k \<notin> fst ` set m \<Longrightarrow> set (btree_insert k v m) = insert (k, v) (set m)"
  by (induction m) auto

text \<open>The entry of a file, as it is read.\<close>

definition entry_hash :: "agent_env \<Rightarrow> host \<Rightarrow> string \<Rightarrow> (string \<times> 64 word) option" where
  "entry_hash env s p = (case (read_file env p s, path_file_name p) of
     ((Inr c, _), Some n) \<Rightarrow> Some (n, fnv_file c) | _ \<Rightarrow> None)"

definition file_entries :: "agent_env \<Rightarrow> host \<Rightarrow> string list \<Rightarrow> (string \<times> 64 word) list" where
  "file_entries env s = map (\<lambda>p. the (entry_hash env s p))"

definition readable :: "agent_env \<Rightarrow> host \<Rightarrow> string \<Rightarrow> bool" where
  "readable env s p \<longleftrightarrow> entry_hash env s p \<noteq> None"

lemma hash_entries_state: "snd (hash_entries env files m s) = s"
proof (induction files arbitrary: m)
  case (Cons p files)
  have "\<exists>r. read_file env p s = (r, s)" by (metis prod.collapse read_file_state)
  with Cons show ?case by (auto simp: read_or_def prog_simps split: sum.split option.split)
qed (simp add: prog_simps)

abbreviation btree_of :: "(string \<times> 64 word) list \<Rightarrow> (string \<times> 64 word) list \<Rightarrow> (string \<times> 64 word) list" where
  "btree_of es m \<equiv> fold (\<lambda>(n, h). btree_insert n h) es m"

lemma hash_entries_run:
  "fst (hash_entries env files m s) = Inr m' \<longleftrightarrow> list_all (readable env s) files \<and> m' = btree_of (file_entries env s files) m"
proof (induction files arbitrary: m)
  case (Cons p files)
  obtain r where "read_file env p s = (r, s)" by (metis prod.collapse read_file_state)
  with Cons show ?case
    by (auto simp: read_or_def prog_simps readable_def entry_hash_def file_entries_def split: sum.split option.split)
qed (auto simp: prog_simps file_entries_def)

lemma hash_files_run:
  assumes "hash_files env files s = (r, s')"
  shows "s' = s \<and> (\<forall>h. r = Inr h \<longleftrightarrow> list_all (readable env s) files \<and> h = hash_text (btree_of (file_entries env s files) []))"
proof -
  obtain r0 where r0: "hash_entries env files [] s = (r0, s)" by (metis prod.collapse hash_entries_state)
  let ?m = "btree_of (file_entries env s files) []"
  have run: "r0 = Inr m \<longleftrightarrow> list_all (readable env s) files \<and> m = ?m" for m
    using hash_entries_run [of env files "[]" s m] r0 by simp
  show ?thesis
  proof (cases r0)
    case (Inl e)
    then have "\<not> list_all (readable env s) files" using run [of ?m] by simp
    then show ?thesis using assms r0 Inl by (auto simp: hash_files_def bindE_run)
  next
    case (Inr m)
    then have "list_all (readable env s) files" "m = ?m" using run [of m] by simp_all
    then show ?thesis using assms r0 Inr by (simp add: hash_files_def bindE_run retE_run) blast
  qed
qed

lemma fold_btree_sorted: "sorted_wrt (<) (map fst m) \<Longrightarrow> sorted_wrt (<) (map fst (fold (\<lambda>(n, h). btree_insert n h) es m))"
  by (induction es arbitrary: m) (auto intro: btree_insert_sorted)

lemma fold_btree_set:
  "distinct (map fst es) \<Longrightarrow> fst ` set es \<inter> fst ` set m = {} \<Longrightarrow> set (fold (\<lambda>(n, h). btree_insert n h) es m) = set es \<union> set m"
proof (induction es arbitrary: m)
  case (Cons e es)
  have "set (btree_insert (fst e) (snd e) m) = insert e (set m)" "fst ` set (btree_insert (fst e) (snd e) m) = insert (fst e) (fst ` set m)"
    using Cons.prems by (auto simp: btree_insert_fst btree_insert_new)
  with Cons.IH [of "btree_insert (fst e) (snd e) m"] Cons.prems show ?case by (auto simp: case_prod_unfold)
qed simp

lemma sorted_entries_unique:
  assumes "sorted_wrt (<) (map fst xs)" "sorted_wrt (<) (map fst ys)" "set xs = set (ys :: (string \<times> 'v) list)"
  shows "xs = ys"
proof -
  have "distinct (map fst xs)" "distinct (map fst ys)" "sorted (map fst xs)" "sorted (map fst ys)"
    using assms(1,2) by (auto simp: strict_sorted_iff)
  moreover have "inj_on fst (set xs \<union> set ys)" using assms(3) \<open>distinct (map fst xs)\<close> by (simp add: distinct_map)
  ultimately show ?thesis using map_sorted_distinct_set_unique [of fst xs ys] assms(3) by simp
qed

text \<open>C34: The bundle hash does not depend on the order of the files, and is blind to their names. For readable files of distinct names it is the
  hash of the file hashes in the order of the names; listing the same files in any other order gives the same hash, and so does any other
  bundle whose files, in the order of their names, have the same contents.\<close>

theorem bundle_hash_canonical:
  assumes "list_all (readable env s) files" "distinct (map fst (file_entries env s files))"
  shows "\<exists>es. set es = set (file_entries env s files) \<and> sorted_wrt (<) (map fst es) \<and> hash_files env files s = (Inr (hash_text es), s) \<and>
     (\<forall>files'. mset files' = mset files \<longrightarrow> hash_files env files' s = (Inr (hash_text es), s)) \<and>
     (\<forall>es'. map snd es' = map snd es \<longrightarrow> hash_text es' = hash_text es)"
proof -
  let ?es = "btree_of (file_entries env s files) []"
  have es: "set ?es = set (file_entries env s files)" "sorted_wrt (<) (map fst ?es)"
    using fold_btree_set [of "file_entries env s files" "[]"] fold_btree_sorted [of "[]" "file_entries env s files"] assms(2) by auto
  have "hash_files env files' s = (Inr (hash_text ?es), s)" if "mset files' = mset files" for files'
  proof -
    have m: "mset (file_entries env s files') = mset (file_entries env s files)" using that by (simp add: file_entries_def)
    then have "distinct (map fst (file_entries env s files'))"
      using assms(2) by (metis mset_map mset_eq_imp_distinct_iff)
    then have "set (btree_of (file_entries env s files') []) = set ?es" "sorted_wrt (<) (map fst (btree_of (file_entries env s files') []))"
      using fold_btree_set [of "file_entries env s files'" "[]"] fold_btree_sorted [of "[]" "file_entries env s files'"] es(1) mset_eq_setD [OF m] by auto
    then have "btree_of (file_entries env s files') [] = ?es" using sorted_entries_unique es(2) by blast
    moreover have "list_all (readable env s) files'" using assms(1) mset_eq_setD [OF that] by (simp add: list_all_iff)
    ultimately show ?thesis using hash_files_run [of env files' s] by (metis prod.exhaust)
  qed
  then show ?thesis using es by (intro exI [of _ ?es]) (auto simp: hash_text_def)
qed

definition submit_host :: host where
  "submit_host = \<lparr>ho_files = [''b/train.py'' \<mapsto> E_File ''x'', ''a.txt'' \<mapsto> E_File ''y''], ho_commands = []\<rparr>"

definition demo_agent_env :: agent_env where
  "demo_agent_env = \<lparr>ae_exec = (\<lambda>c fs. (Some (Some 0), fs)), ae_stdout = (\<lambda>_ _. []), ae_stderr = (\<lambda>_ _. []), ae_io_error = (\<lambda>_ _ _. None),
     ae_list_dir = (\<lambda>_ _. []), ae_sha256_hex = (\<lambda>c. replicate 64 (CHR ''0'')), ae_json_text = (\<lambda>_. []), ae_macos = True, ae_cpus = 8,
     ae_elapsed = 1, ae_gpu_samples = [], ae_memory_used_gb = None\<rparr>"

lemma demo_read: "entry_hash demo_agent_env submit_host ''b/train.py'' = Some (''train.py'', fnv_file ''x'')"
    "entry_hash demo_agent_env submit_host ''a.txt'' = Some (''a.txt'', fnv_file ''y'')"
  by (simp_all add: entry_hash_def read_file_def demo_agent_env_def submit_host_def path_file_name_def split_on_join)

lemma bundle_hash_canonical_witness:
  "\<exists>h. hash_files demo_agent_env [''b/train.py'', ''a.txt''] submit_host = (Inr h, submit_host) \<and>
     hash_files demo_agent_env [''a.txt'', ''b/train.py''] submit_host = (Inr h, submit_host)"
proof -
  have "list_all (readable demo_agent_env submit_host) [''b/train.py'', ''a.txt'']" by (simp add: readable_def demo_read)
  moreover have "distinct (map fst (file_entries demo_agent_env submit_host [''b/train.py'', ''a.txt'']))" by (simp add: file_entries_def demo_read)
  ultimately obtain es where "hash_files demo_agent_env [''b/train.py'', ''a.txt''] submit_host = (Inr (hash_text es), submit_host)"
    and "\<forall>files'. mset files' = mset [''b/train.py'', ''a.txt''] \<longrightarrow> hash_files demo_agent_env files' submit_host = (Inr (hash_text es), submit_host)"
    using bundle_hash_canonical by blast
  then show ?thesis by auto
qed

lemma hex16_length [simp]: "length (hex16 w) = 16"
  by (simp add: hex16_def)

lemma hash_text_length: "length (hash_text m) = 32"
  by (simp add: hash_text_def Let_def)


lemma hex16_digits: "list_all is_ascii_hexdigit (hex16 w)"
proof -
  have "unat (x AND 15) < 16" for x :: "64 word"
    using word_and_le1 [of x 15] by (simp add: word_le_nat_alt)
  moreover have "is_ascii_hexdigit (hex_char n)" if "n < 16" for n
  proof -
    have "n \<in> {0..<16}" using that by simp
    then show ?thesis by (auto simp: hex_char_def is_ascii_hexdigit_def atLeastLessThan_nat_numeral atLeastLessThanSuc)
  qed
  ultimately show ?thesis by (simp add: hex16_def list_all_iff)
qed

lemma hash_text_digits: "list_all is_ascii_hexdigit (hash_text m)"
  using hex16_digits by (simp add: hash_text_def Let_def)
section \<open>A submitted job\<close>

lemma coordinator_route:
  assumes "CHR ''?'' \<notin> set p"
  shows "route_of (trim_end_matches (CHR ''/'') (cc_coordinator_url ctx)) (at_coordinator ctx (''/api/v1/'' @ p)) = Some (split_on (CHR ''/'') p, [])"
  using route_plain [OF assms] by (simp add: at_coordinator_def)

lemmas route_jobs = coordinator_route [of "''jobs''", unfolded append.simps, simplified]

lemma submit_reply:
  assumes "jr_min_ram_gb r \<le> 2147483647" "0 \<le> jr_min_ram_gb r" "jr_max_duration_secs r \<le> 2147483647" "0 \<le> jr_max_duration_secs r"
    and "jr_max_price_per_hour r = Fin q"
  shows "coordinator_of senv ctx text_of (post_req (at_coordinator ctx ''/api/v1/jobs'') (Json_Body (submit_request_json r))) w =
     reply_of text_of (submit_job \<lparr>sj_account_id = jr_account_id r, sj_runtime = jr_runtime r, sj_min_ram_gb = jr_min_ram_gb r,
       sj_max_duration_secs = jr_max_duration_secs r, sj_max_price_per_hour = jr_max_price_per_hour r, sj_bundle_hash = Some (jr_bundle_hash r),
       sj_bundle_url = Some (jr_bundle_url r), sj_script_name = Some (jr_script_name r), sj_preferred_region = None\<rparr> w)"
  using assms route_jobs
  by (simp add: coordinator_peer_def coordinator_post_def post_req_def with_body_def submit_body_of_def submit_request_json_def req_field_def opt_field_def
      j_field_def json_i32_def i32_range_def split_on_one)

lemma submit_body_hash:
  assumes "submit_body_of (submit_request_json r) = Some b"
  shows "b = \<lparr>sj_account_id = jr_account_id r, sj_runtime = jr_runtime r, sj_min_ram_gb = jr_min_ram_gb r,
       sj_max_duration_secs = jr_max_duration_secs r, sj_max_price_per_hour = jr_max_price_per_hour r, sj_bundle_hash = Some (jr_bundle_hash r),
       sj_bundle_url = Some (jr_bundle_url r), sj_script_name = Some (jr_script_name r), sj_preferred_region = None\<rparr>"
  using assms
  by (cases "jr_max_price_per_hour r") (auto simp: submit_body_of_def submit_request_json_def req_field_def opt_field_def j_field_def json_i32_def split: if_splits)


lemma db_exec_ok: "db_exec u w = (Inr x, w') \<Longrightarrow> u (wnow w) (wdb w) = Inr (wdb w') \<and> wnow w' = wnow w"
  by (auto simp: db_exec_def db_stmt_def run_stmt_def map_sum_eq_Inr split: list.splits fault.splits sum.splits prod.splits)

lemma db_query_state: "db_query q w = (r, w') \<Longrightarrow> wdb w' = wdb w \<and> wnow w' = wnow w"
  by (auto simp: db_query_def db_stmt_def run_stmt_def map_sum_eq_Inr split: list.splits fault.splits sum.splits prod.splits)

text \<open>The rows that the statements of a submission leave in the table of jobs.\<close>

lemma insert_job_row:
  assumes "insert_job b jid w = (Inr x, w')"
  shows "job_of (wdb w') jid = Some (submitted_job b jid (wnow w))"
proof -
  have k: "j_job_id (submitted_job b jid (wnow w)) = jid" by (simp add: submitted_job_def new_job_row_def)
  from assms have "on_jobs (sql_insert j_job_id (submitted_job b jid (wnow w))) (wdb w) = Inr (wdb w')"
    unfolding insert_job_def by (drule_tac db_exec_ok) simp
  then have "jobs (wdb w') = jobs (wdb w) @ [submitted_job b jid (wnow w)]" "jid \<notin> j_job_id ` set (jobs (wdb w))"
    using k by (auto simp: on_jobs_def map_sum_eq_Inr sql_insert_def split: if_splits)
  moreover from this(2) have "job_of (wdb w) jid = None" by (auto simp: sql_first_def find_None_iff)
  ultimately show ?thesis using k by (simp add: sql_first_append)
qed

lemma lock_credits_jobs: "lock_credits acct m w = (Inr x, w') \<Longrightarrow> jobs (wdb w') = jobs (wdb w)"
  unfolding lock_credits_def by (drule db_exec_ok) (auto simp: on_credits_def map_sum_eq_Inr)

lemma insert_escrow_jobs: "insert_escrow eid jj cid pid m w = (Inr x, w') \<Longrightarrow> jobs (wdb w') = jobs (wdb w)"
  unfolding insert_escrow_def by (drule db_exec_ok) (auto simp: on_escrows_def map_sum_eq_Inr split: if_splits)

lemma insert_tx_jobs: "insert_tx tid acct ty m bal ref descr w = (Inr x, w') \<Longrightarrow> jobs (wdb w') = jobs (wdb w)"
  unfolding insert_tx_def by (drule db_exec_ok) (auto simp: on_txs_def map_sum_eq_Inr)

lemma submit_job_row:
  assumes "submit_job b w = (Inr j, w')"
  shows "\<exists>jid. decode_submit j = Some \<lparr>js_job_id = jid, js_state = ''queued'', js_estimated_wait_secs = 30\<rparr> \<and>
     job_of (wdb w') jid = Some (submitted_job b jid (wnow w))"
proof -
  from assms obtain c w1 w2 w3 w4 w5 x1 x2 x3 x4 where q: "db_query (\<lambda>_ d. Inr (credit_of d (sj_account_id b))) w = (Inr c, w1)"
    and i: "insert_job b (wids w1 (widn w1)) (w1\<lparr>widn := Suc (widn w1)\<rparr>) = (Inr x1, w2)" and l: "lock_credits (sj_account_id b) (submit_max_cost b) w2 = (Inr x2, w3)"
    and e: "insert_escrow (wids w3 (widn w3)) (Some (wids w1 (widn w1))) (sj_account_id b) None (submit_max_cost b) (w3\<lparr>widn := Suc (widn w3)\<rparr>) = (Inr x3, w4)"
    and t: "insert_tx (wids w4 (widn w4)) (sj_account_id b) ''escrow_lock'' (f64_neg (submit_max_cost b)) True (Some (wids w1 (widn w1))) ''Job escrow locked''
        (w4\<lparr>widn := Suc (widn w4)\<rparr>) = (Inr x4, w')"
    and j: "j = JObj [(''ok'', JBool True), (''job_id'', JStr (wids w1 (widn w1))), (''state'', JStr ''queued''), (''estimated_wait_secs'', JInt 30),
        (''locked_nmc'', j_f64 (submit_max_cost b))]"
    by (auto simp: submit_job_def new_uuid_def bindE_ok seqE_ok map_errE_ok retE_ok failE_ok Let_def split: if_splits)
  have "wnow w1 = wnow w" using db_query_state [OF q] by simp
  then have "job_of (wdb w') (wids w1 (widn w1)) = Some (submitted_job b (wids w1 (widn w1)) (wnow w))"
    using insert_job_row [OF i] lock_credits_jobs [OF l] insert_escrow_jobs [OF e] insert_tx_jobs [OF t] by simp
  then show ?thesis using j by (simp add: decode_submit_def req_field_def j_field_def)
qed

lemma submit_job_answers: "submit_job b w = (Inl (Status_Json c j), w') \<Longrightarrow> \<not> is_success (status_code c)"
  by (auto simp: submit_job_def new_uuid_def retE_def failE_def bindE_def seqE_def map_errE_def Let_def db_error_body_def is_success_def status_code_def
      split: sum.splits prod.splits if_splits)

lemma on_host_ok: "on_host m s = (Inr x, s') \<longleftrightarrow> (\<exists>h. m (ci_host s) = (Inr x, h) \<and> s' = s\<lparr>ci_host := h\<rparr>)"
  by (auto simp: on_host_def split: prod.split)

lemma send_or_ok: "send_or peer req msg s = (Inr x, s') \<longleftrightarrow>
    (\<exists>code body j w. peer req (ci_peer s) = (Reply code body j, w) \<and> x = (code, body, j) \<and> s' = s\<lparr>ci_peer := w\<rparr>)"
  by (auto simp: send_or_def send_to_def bindE_run failE_run retE_run split: prod.splits http_reply.splits)

lemma json_or_ok: "json_or decode j msg s = (Inr x, s') \<longleftrightarrow> Option.bind j decode = Some x \<and> s' = s"
  by (auto simp: json_or_def someE_run split: option.splits)

lemma existing_paths_state: "snd (existing_paths ps h) = h"
  by (induction ps) (auto simp: prog_simps exists_path_def split: prod.splits sum.splits)

lemma bundle_files_state: "bundle_files script includes h = (r, h') \<Longrightarrow> h' = h"
proof -
  have "snd (bundle_files script includes h) = h"
    by (auto simp: bundle_files_def prog_simps split: option.splits prod.splits sum.splits) (metis existing_paths_state snd_conv)+
  then show "bundle_files script includes h = (r, h') \<Longrightarrow> h' = h" by simp
qed

text \<open>What a successful submission has left in the coordinator.\<close>

lemma cli_submit_row:
  assumes "cli_submit env (coordinator_of senv ctx text_of) ctx script runtime ram hours price includes s = (Inr r, s')"
  shows "\<exists>acct files h url now. cc_account_id ctx = Some acct \<and> runtime \<in> set valid_runtimes \<and>
     fst (bundle_files script includes (ci_host s)) = Inr files \<and> fst (hash_files env files (ci_host s)) = Inr h \<and>
     job_of (wdb (ci_peer s')) (js_job_id r) = Some (submitted_job
       \<lparr>sj_account_id = acct, sj_runtime = runtime, sj_min_ram_gb = ram, sj_max_duration_secs = f64_as_u64 (f64_mul hours (Fin 3600)),
        sj_max_price_per_hour = price, sj_bundle_hash = Some h, sj_bundle_url = Some url,
        sj_script_name = Some (unwrap_or ''job.py'' (path_file_name script)), sj_preferred_region = None\<rparr> (js_job_id r) now) \<and>
     js_state r = ''queued''"
proof -
  obtain acct where acct: "cc_account_id ctx = Some acct"
    using assms by (cases "cc_account_id ctx") (simp_all add: cli_submit_def require_account_id_def prog_simps)
  note run = assms [unfolded cli_submit_def require_account_id_def acct]
  have c: "ho_files (ci_host s) script \<noteq> None" "runtime \<in> set valid_runtimes"
    using run by (auto simp: someE_run bindE_run on_host_def exists_path_def failE_run split: if_splits)
  have "\<exists>files s1 h s2 url w3 code body j. bundle_files script includes (ci_host s) = (Inr files, s1) \<and> hash_files env files s1 = (Inr h, s2) \<and>
     coordinator_of senv ctx text_of (post_req (at_coordinator ctx ''/api/v1/jobs'') (Json_Body (submit_request_json
         \<lparr>jr_account_id = acct, jr_runtime = runtime, jr_min_ram_gb = ram, jr_max_duration_secs = f64_as_u64 (f64_mul hours (Fin 3600)),
          jr_max_price_per_hour = price, jr_bundle_hash = h, jr_bundle_url = url,
          jr_script_name = unwrap_or ''job.py'' (path_file_name script)\<rparr>))) w3 = (Reply code body j, ci_peer s') \<and>
     is_success code \<and> Option.bind j decode_submit = Some r"
    using run c
    apply (simp add: someE_run bindE_ok on_host_ok exists_path_def failE_ok if_ok)
    apply (elim exE conjE)
    apply (simp add: send_or_ok split: prod.splits)
    apply (elim exE conjE)
    apply (simp add: failE_ok json_or_ok split: if_splits)
    apply (elim conjE)
    apply (intro exI conjI)
    apply assumption+
    done
  then obtain files s1 h s2 url w3 code body j where f: "bundle_files script includes (ci_host s) = (Inr files, s1)"
    and h: "hash_files env files s1 = (Inr h, s2)"
    and p: "coordinator_of senv ctx text_of (post_req (at_coordinator ctx ''/api/v1/jobs'') (Json_Body (submit_request_json
         \<lparr>jr_account_id = acct, jr_runtime = runtime, jr_min_ram_gb = ram, jr_max_duration_secs = f64_as_u64 (f64_mul hours (Fin 3600)),
          jr_max_price_per_hour = price, jr_bundle_hash = h, jr_bundle_url = url,
          jr_script_name = unwrap_or ''job.py'' (path_file_name script)\<rparr>))) w3 = (Reply code body j, ci_peer s')"
    and d: "is_success code" "Option.bind j decode_submit = Some r" by blast
  obtain j' where j: "j = Some j'" "decode_submit j' = Some r" using d(2) by (cases j) auto
  obtain b where b: "submit_body_of (submit_request_json
         \<lparr>jr_account_id = acct, jr_runtime = runtime, jr_min_ram_gb = ram, jr_max_duration_secs = f64_as_u64 (f64_mul hours (Fin 3600)),
          jr_max_price_per_hour = price, jr_bundle_hash = h, jr_bundle_url = url,
          jr_script_name = unwrap_or ''job.py'' (path_file_name script)\<rparr>) = Some b"
    and rb: "reply_of text_of (submit_job b w3) = (Reply code body (Some j'), ci_peer s')"
    using p j(1) route_jobs
    by (auto simp: coordinator_peer_def coordinator_post_def post_req_def with_body_def split_on_one plain_reply_def split: option.splits)
  have "submit_job b w3 = (Inr j', ci_peer s')"
    using rb d(1) submit_job_answers [of b w3]
    by (auto simp: reply_of_def split: prod.splits sum.splits rest_error.splits)
  from submit_job_row [OF this] j(2) have "job_of (wdb (ci_peer s')) (js_job_id r) = Some (submitted_job b (js_job_id r) (wnow w3))" "js_state r = ''queued''"
    by auto
  with submit_body_hash [OF b] acct c(2) f h bundle_files_state [OF f] show ?thesis by auto
qed

lemmas route_artifacts = coordinator_route [of "''artifacts''", unfolded append.simps, simplified]

lemma job_run_rejects:
  assumes "as_checkpoint_url spec = None" "as_bundle_hash spec \<noteq> []" "\<And>c. ae_sha256_hex env c \<noteq> as_bundle_hash spec"
  shows "(\<exists>e. fst (job_run env spec py answer s) = Inl e) \<and>
     (\<exists>cs. set cs \<subseteq> {curl_command spec} \<and> ho_commands (snd (job_run env spec py answer s)) = ho_commands s @ cs)"
proof (cases "as_bundle_url spec = []")
  case True
  then show ?thesis using assms(1) by (auto simp: job_run_def failE_def intro: exI [of _ "[]"])
next
  case False
  obtain r s1 where mk: "create_dir_all env (work_dir_of (as_job_id spec)) s = (r, s1)" by fastforce
  then have s1: "ho_commands s1 = ho_commands s" using create_dir_all_commands [of env "work_dir_of (as_job_id spec)" s] by simp
  obtain d s2 where dl: "download_bundle env (as_job_id spec) (as_bundle_url spec) (as_bundle_hash spec) s1 = (d, s2)" by fastforce
  have d: "\<exists>e. d = Inl e" and c: "ho_commands s2 = ho_commands s1 \<or> ho_commands s2 = ho_commands s1 @ [curl_command spec]"
    using download_bundle_run [OF assms(2) dl] assms(3) by (auto simp: checked_def intro: sum.exhaust [of d])
  have "(\<exists>e. job_run env spec py answer s = (Inl e, s1)) \<or> (\<exists>e. job_run env spec py answer s = (Inl e, s2))"
    using mk dl d False assms(1) by (cases r) (auto simp: job_run_def seqE_run bindE_run Let_def)
  then show ?thesis using c s1 by (auto intro: exI [of _ "[]"] exI [of _ "[curl_command spec]"])
qed


text \<open>A script, alone, is uploaded.\<close>

lemma upload_run:
  assumes "wfaults (ci_peer s) = []" "read_file env script (ci_host s) = (Inr content, ci_host s)" "path_file_name script = Some n" "n \<noteq> ''bundle_hash''"
    and "list_all is_ascii_hexdigit h" "h \<noteq> []" "se_tar senv [(safe_name n, content)] [tar_arg n] = Tar_Ok gz"
  shows "upload_bundle env (coordinator_of senv ctx text_of) ctx [script] h s =
     (Inr (artifact_url (se_public_url senv) h), s\<lparr>ci_peer := (ci_peer s)\<lparr>wdb := (wdb (ci_peer s))
       \<lparr>artifacts := sql_insert_ignore b_hash \<lparr>b_hash = h, b_bundle_gz = gz\<rparr> (artifacts (wdb (ci_peer s)))\<rparr>\<rparr>\<rparr>)"
proof -
  have "form_parts env [script] (ci_host s) = (Inr [Part (Some n) (Some n) (Some content) (Some content)], ci_host s)"
    using assms(2,3) by (simp add: prog_simps read_or_def)
  moreover have "coordinator_of senv ctx text_of (post_req (at_coordinator ctx ''/api/v1/artifacts'')
      (Form_Body [hash_part h, Part (Some n) (Some n) (Some content) (Some content)])) (ci_peer s) =
     reply_of text_of (Inr (JObj [(''url'', JStr (artifact_url (se_public_url senv) h)), (''bundle_hash'', JStr h)]), (ci_peer s)\<lparr>wdb := (wdb (ci_peer s))
       \<lparr>artifacts := sql_insert_ignore b_hash \<lparr>b_hash = h, b_bundle_gz = gz\<rparr> (artifacts (wdb (ci_peer s)))\<rparr>\<rparr>)"
    using assms route_artifacts
    by (simp add: coordinator_peer_def coordinator_post_def post_req_def split_on_one upload_artifact_def hash_part_def insert_artifact_def prog_simps
        on_artifacts_def)
  ultimately show ?thesis
    by (simp add: upload_bundle_def prog_simps on_host_def send_or_def send_to_def reply_of_def is_success_def json_or_def req_field_def j_field_def)
qed

lemma cli_submit_run:
  assumes ctx: "cc_account_id ctx = Some acct" and script: "ho_files (ci_host s) script = Some (E_File content)" "\<And>fs. ae_io_error env ''read'' script fs = None"
    and name: "path_file_name script = Some n" "n \<noteq> ''bundle_hash''" and rt: "runtime \<in> set valid_runtimes"
    and ram: "0 \<le> ram" "ram \<le> 2147483647" and dur: "f64_as_u64 (f64_mul hours (Fin 3600)) = dur" "dur \<le> 2147483647"
    and tar: "\<And>fs args. \<exists>gz. se_tar senv fs args = Tar_Ok gz"
    and w: "wfaults (ci_peer s) = []" "pk_inv (wdb (ci_peer s))" "submit_ids_fresh (ci_peer s)"
    and c: "credit_of (wdb (ci_peer s)) acct = Some c" "c_available c = Some (Fin a)" "c_escrowed c = Some (Fin e)"
    and m: "f64_mul (Fin price) (f64_div (f64_of_int dur) (Fin 3600)) = Fin m" "m \<le> a" "f64_of (a - m) = Fin a'" "f64_of (e + m) = Fin e'"
  shows "\<exists>s'. cli_submit env (coordinator_of senv ctx text_of) ctx script runtime ram hours (Fin price) None s =
     (Inr \<lparr>js_job_id = wids (ci_peer s) (widn (ci_peer s)), js_state = ''queued'', js_estimated_wait_secs = 30\<rparr>, s')"
proof -
  have rd: "read_file env script (ci_host s) = (Inr content, ci_host s)" using script by (simp add: read_file_def)
  define h where "h = hash_text [(n, fnv_file content)]"
  have h: "hash_files env [script] (ci_host s) = (Inr h, ci_host s)"
    using rd name(1) by (simp add: hash_files_def prog_simps read_or_def h_def)
  obtain gz where gz: "se_tar senv [(safe_name n, content)] [tar_arg n] = Tar_Ok gz" using tar by blast
  define w1 where "w1 = (ci_peer s)\<lparr>wdb := (wdb (ci_peer s))\<lparr>artifacts := sql_insert_ignore b_hash \<lparr>b_hash = h, b_bundle_gz = gz\<rparr> (artifacts (wdb (ci_peer s)))\<rparr>\<rparr>"
  define url where "url = artifact_url (se_public_url senv) h"
  have up: "upload_bundle env (coordinator_of senv ctx text_of) ctx [script] h s = (Inr url, s\<lparr>ci_peer := w1\<rparr>)"
    unfolding w1_def url_def
  proof (rule upload_run [OF w(1) rd name _ _ gz])
    show "list_all is_ascii_hexdigit h" unfolding h_def by (rule hash_text_digits)
    have "length h = 32" unfolding h_def by (rule hash_text_length)
    then show "h \<noteq> []" by auto
  qed
  let ?b = "\<lparr>sj_account_id = acct, sj_runtime = runtime, sj_min_ram_gb = ram, sj_max_duration_secs = dur, sj_max_price_per_hour = Fin price,
      sj_bundle_hash = Some h, sj_bundle_url = Some url, sj_script_name = Some n, sj_preferred_region = None\<rparr>"
  have f1: "wfaults w1 = []" "submit_ids_fresh w1" using w(1,3) by (simp_all add: w1_def submit_ids_fresh_def locked_escrow_def)
  have "keys_distinct b_hash (sql_insert_ignore b_hash \<lparr>b_hash = h, b_bundle_gz = gz\<rparr> (artifacts (wdb (ci_peer s))))"
    using w(2) by (intro keys_distinct_insert_ignore) (simp add: pk_inv_def)
  then have c1: "pk_inv (wdb w1)" "credit_of (wdb w1) (sj_account_id ?b) = Some c" using w(2) c(1) by (simp_all add: w1_def pk_inv_def)
  have "submit_max_cost ?b = Fin m" using m(1) by (simp add: submit_max_cost_def)
  then obtain w2 where "submit_job ?b w1 = (Inr (JObj [(''ok'', JBool True), (''job_id'', JStr (wids w1 (widn w1))), (''state'', JStr ''queued''),
      (''estimated_wait_secs'', JInt 30), (''locked_nmc'', JNum m)]), w2)"
    using submit_job_run [of w1 ?b c a e m a' e'] f1 c1 c(2,3) m(2-4) by auto
  moreover have "0 \<le> dur" using dur(1) by (auto simp: f64_as_u64_def split: f64.splits)
  ultimately have "coordinator_of senv ctx text_of (post_req (at_coordinator ctx ''/api/v1/jobs'') (Json_Body (submit_request_json
         \<lparr>jr_account_id = acct, jr_runtime = runtime, jr_min_ram_gb = ram, jr_max_duration_secs = dur, jr_max_price_per_hour = Fin price, jr_bundle_hash = h,
          jr_bundle_url = url, jr_script_name = n\<rparr>))) w1 = reply_of text_of (Inr (JObj [(''ok'', JBool True), (''job_id'', JStr (wids w1 (widn w1))),
          (''state'', JStr ''queued''), (''estimated_wait_secs'', JInt 30), (''locked_nmc'', JNum m)]), w2)"
    using ram dur(2) by (subst submit_reply [where q = price]) simp_all
  moreover have "wids w1 = wids (ci_peer s)" "widn w1 = widn (ci_peer s)" by (simp_all add: w1_def)
  ultimately show ?thesis using ctx script(1) rt name(1) h up dur(1)
    by (simp add: cli_submit_def require_account_id_def prog_simps on_host_def exists_path_def bundle_files_def send_or_def send_to_def reply_of_def
        is_success_def json_or_def decode_submit_def req_field_def j_field_def)
qed


text \<open>C28: No bundle that the client uploads is ever run. After a successful \<open>hatch job submit\<close> the coordinator has the queued job, with the client's
  hash; and whatever agent is later given the job, with that hash, refuses it: it downloads the bundle, at most, and fails, since the client
  hashes with 32 digits of FNV where the agent compares with the 64 digits of SHA-256.\<close>

theorem submitted_bundle_never_runs:
  assumes "cli_submit env (coordinator_of senv ctx text_of) ctx script runtime ram hours price includes s = (Inr r, s')"
    and "\<And>c. length (ae_sha256_hex agent c) = 64"
  shows "\<exists>j. job_of (wdb (ci_peer s')) (js_job_id r) = Some j \<and> j_state j = Some ''queued'' \<and>
     (\<forall>j'. j_bundle_hash j' = j_bundle_hash j \<longrightarrow>
       (let spec = decode_job uuid (j_get ''job'' (JObj [(''job'', assigned_json j')]))
        in (\<exists>e. fst (job_run agent spec py answer h) = Inl e) \<and>
           (\<exists>cs. set cs \<subseteq> {curl_command spec} \<and> ho_commands (snd (job_run agent spec py answer h)) = ho_commands h @ cs)))"
proof -
  from cli_submit_row [OF assms(1)] obtain j hs files where j: "job_of (wdb (ci_peer s')) (js_job_id r) = Some j" "j_bundle_hash j = Some hs"
    "j_state j = Some ''queued''" and hs: "fst (hash_files env files (ci_host s)) = Inr hs"
    by (auto simp: submitted_job_def)
  have len: "length hs = 32" using hash_files_run [of env files "ci_host s"] hs hash_text_length by (metis prod.collapse)
  have "(\<exists>e. fst (job_run agent spec py answer h) = Inl e) \<and>
       (\<exists>cs. set cs \<subseteq> {curl_command spec} \<and> ho_commands (snd (job_run agent spec py answer h)) = ho_commands h @ cs)"
    if "j_bundle_hash j' = j_bundle_hash j" "spec = decode_job uuid (j_get ''job'' (JObj [(''job'', assigned_json j')]))" for j' spec
  proof (rule job_run_rejects)
    have eq: "as_bundle_hash spec = hs" "as_checkpoint_url spec = None"
      using that j(2) by (simp_all add: decode_job_def assigned_json_def j_get_def str_or_empty_def)
    show "as_checkpoint_url spec = None" by (rule eq)
    show "as_bundle_hash spec \<noteq> []" using eq(1) len by auto
    show "ae_sha256_hex agent c \<noteq> as_bundle_hash spec" for c
      using eq(1) len assms(2) [of c] by auto
  qed
  with j show ?thesis by (auto simp: Let_def)
qed

definition demo_senv :: sys_env where
  "demo_senv = \<lparr>se_sha = (\<lambda>s. s), se_hex = (\<lambda>s. s), se_tar = (\<lambda>fs _. Tar_Ok (concat (map snd fs))), se_public_url = ''http://c'', se_secret = None,
     se_oracle = False, se_nats = False, se_ledger_url = None, se_ledger_base = []\<rparr>"

definition demo_submitter :: client_context where
  "demo_submitter = \<lparr>cc_coordinator_url = ''http://c/'', cc_ledger_url = ''http://l'', cc_output_json = False, cc_account_id = Some ''acct''\<rparr>"

definition demo_submit_world :: "coord_db world cli_world" where
  "demo_submit_world = \<lparr>ci_host = submit_host, ci_peer = world_at demo_db\<rparr>"

lemma demo_submit_run:
  "\<exists>s'. cli_submit demo_agent_env (coordinator_of demo_senv demo_submitter (\<lambda>_. [])) demo_submitter ''b/train.py'' ''mlx'' 16 (Fin 2) (Fin 2) None demo_submit_world =
     (Inr \<lparr>js_job_id = ''u'', js_state = ''queued'', js_estimated_wait_secs = 30\<rparr>, s')"
proof -
  have "path_file_name ''b/train.py'' = Some ''train.py''" by (simp add: path_file_name_def split_on_join)
  moreover have "f64_as_u64 (f64_mul (Fin 2) (Fin 3600)) = 7200" by (simp add: f64_as_u64_def)
  moreover have "f64_mul (Fin 2) (f64_div (f64_of_int 7200) (Fin 3600)) = Fin 4" by (simp add: f64_of_int_def)
  moreover have "pk_inv demo_db" using demo_db_facts(1) by (simp add: db_inv_def)
  ultimately show ?thesis
    using cli_submit_run [where ctx = demo_submitter and acct = "''acct''" and s = demo_submit_world and script = "''b/train.py''" and content = "''x''"
        and env = demo_agent_env and n = "''train.py''" and runtime = "''mlx''" and ram = 16 and hours = "Fin 2" and dur = 7200 and senv = demo_senv
        and c = demo_credit and a = 10 and e = 0 and price = 2 and m = 4 and a' = 6 and e' = 4 and text_of = "\<lambda>_. []"]
    by (simp add: demo_submitter_def demo_submit_world_def submit_host_def demo_agent_env_def demo_senv_def valid_runtimes_def)
qed

definition demo_submission :: "(string + job_submit_response) \<times> coord_db world cli_world" where
  "demo_submission = cli_submit demo_agent_env (coordinator_of demo_senv demo_submitter (\<lambda>_. [])) demo_submitter ''b/train.py'' ''mlx'' 16 (Fin 2) (Fin 2) None
     demo_submit_world"

lemma submitted_bundle_never_runs_witness:
  "\<exists>j. job_of (wdb (ci_peer (snd demo_submission))) ''u'' = Some j \<and>
     (\<exists>e. fst (job_run demo_agent_env (decode_job Some (j_get ''job'' (JObj [(''job'', assigned_json j)]))) ''/usr'' None submit_host) = Inl e)"
proof -
  obtain s' where s': "demo_submission = (Inr \<lparr>js_job_id = ''u'', js_state = ''queued'', js_estimated_wait_secs = 30\<rparr>, s')"
    using demo_submit_run unfolding demo_submission_def by blast
  have sha: "length (ae_sha256_hex demo_agent_env c) = 64" for c by (simp add: demo_agent_env_def)
  have eq: "snd demo_submission = s'" using arg_cong [OF s', of snd] by simp
  obtain j where jj: "job_of (wdb (ci_peer s')) ''u'' = Some j"
    and j: "\<forall>j'. j_bundle_hash j' = j_bundle_hash j \<longrightarrow> (let spec = decode_job Some (j_get ''job'' (JObj [(''job'', assigned_json j')]))
        in (\<exists>e. fst (job_run demo_agent_env spec ''/usr'' None submit_host) = Inl e) \<and>
           (\<exists>cs. set cs \<subseteq> {curl_command spec} \<and> ho_commands (snd (job_run demo_agent_env spec ''/usr'' None submit_host)) = ho_commands submit_host @ cs))"
    using submitted_bundle_never_runs [OF s' [unfolded demo_submission_def] sha, of Some "''/usr''" None submit_host] by auto
  from j [THEN spec, of j] have "\<exists>e. fst (job_run demo_agent_env (decode_job Some (j_get ''job'' (JObj [(''job'', assigned_json j)]))) ''/usr'' None submit_host) = Inl e"
    by (simp add: Let_def)
  with jj show ?thesis unfolding eq by blast
qed

end
