(* ===== verification/Cli_Job_Polls.thy ===== *)
theory Cli_Job_Polls
  imports Cli_Job_Runs
begin

text \<open>
  The client's commands that read and cancel jobs, against the coordinator: the list, the cancellation, and the two polling loops
  while the rest of the system goes on between the polls.
\<close>

section \<open>Following a log\<close>

text \<open>
  What the loop relies on: in a world that is \<open>up\<close>, a request at a character boundary of the log is answered by the rest of the log, with the
  mark of the end when the job has ended; in one that is \<open>down\<close> it tells the client nothing. Either way the world goes on as \<open>after\<close>.
\<close>

definition text_grows :: "string \<Rightarrow> string \<Rightarrow> bool" where
  "text_grows old new \<longleftrightarrow> (\<exists>d. new = old @ d \<and> (d = [] \<or> \<not> is_cont_byte (hd d)))"

lemma text_grows_refl: "text_grows t t"
  by (simp add: text_grows_def)

lemma text_grows_trans:
  assumes "text_grows a b" "text_grows b c"
  shows "text_grows a c"
proof -
  obtain d e where "b = a @ d" "d = [] \<or> \<not> is_cont_byte (hd d)" "c = b @ e" "e = [] \<or> \<not> is_cont_byte (hd e)"
    using assms by (auto simp: text_grows_def)
  then have "c = a @ (d @ e)" "d @ e = [] \<or> \<not> is_cont_byte (hd (d @ e))" by (auto simp: hd_append)
  then show ?thesis unfolding text_grows_def by blast
qed

lemma text_grows_boundary:
  assumes "text_grows old new"
  shows "is_char_boundary new (length old)" "length old \<le> length new" "old @ drop (length old) new = new"
  using assms by (auto simp: text_grows_def is_char_boundary_def nth_append hd_conv_nth)

locale log_source =
  fixes peer :: "'w http_peer" and url :: string and up :: "'w \<Rightarrow> bool" and down :: "'w \<Rightarrow> bool"
    and log_text :: "'w \<Rightarrow> string" and ended :: "'w \<Rightarrow> bool" and after :: "'w \<Rightarrow> 'w"
  assumes fetch_state: "up w \<or> down w \<Longrightarrow> n \<le> length (log_text w) \<Longrightarrow>
      snd (peer (get_req (url @ ''?offset='' @ int_str (int n))) w) = after w"
    and fetch_up: "up w \<Longrightarrow> is_char_boundary (log_text w) n \<Longrightarrow> n \<le> length (log_text w) \<Longrightarrow>
      log_step (fst (peer (get_req (url @ ''?offset='' @ int_str (int n))) w)) = (if ended w then Log_End else Log_More) (drop n (log_text w))"
    and fetch_down: "down w \<Longrightarrow> n \<le> length (log_text w) \<Longrightarrow>
      log_step (fst (peer (get_req (url @ ''?offset='' @ int_str (int n))) w)) = Log_More []"
begin

lemma follow_step:
  assumes "up (ci_peer s) \<or> down (ci_peer s)" "length printed \<le> length (log_text (ci_peer s))"
  shows "follow_logs peer meanwhile url jid n (length printed) printed s =
     (case log_step (fst (peer (get_req (url @ ''?offset='' @ int_str (int (length printed)))) (ci_peer s))) of
        Log_End out \<Rightarrow> Some ((Inr (), printed @ out), s\<lparr>ci_peer := after (ci_peer s)\<rparr>)
      | Log_Missing \<Rightarrow> Some ((Inl (''Job not found: '' @ jid), printed), s\<lparr>ci_peer := after (ci_peer s)\<rparr>)
      | Log_More out \<Rightarrow> follow_logs peer meanwhile url jid (Suc n) (length (printed @ out)) (printed @ out)
          (s\<lparr>ci_peer := meanwhile n (after (ci_peer s))\<rparr>))"
  using fetch_state [OF assms] by (subst follow_logs.simps) (auto split: prod.split log_turn.split)

lemma follow_from:
  assumes "n \<le> k" "ci_peer s = W n" "\<And>i. i < k \<Longrightarrow> W (Suc i) = meanwhile i (after (W i))"
    and "\<And>i. i < k \<Longrightarrow> up (W i) \<and> \<not> ended (W i) \<or> down (W i)" "up (W k)" "ended (W k)"
    and "\<And>i. i < k \<Longrightarrow> text_grows (log_text (W i)) (log_text (W (Suc i)))" "text_grows printed (log_text (W n))"
  shows "follow_logs peer meanwhile url jid n (length printed) printed s = Some ((Inr (), log_text (W k)), s\<lparr>ci_peer := after (W k)\<rparr>)"
  using assms(1,2,8)
proof (induction "k - n" arbitrary: n printed s)
  case 0
  then have n: "n = k" by simp
  note b = text_grows_boundary [OF 0(4)]
  show ?case using follow_step [of s printed] fetch_up [of "W k" "length printed"] b assms(5,6) 0(3) n by simp
next
  case (Suc m)
  then have n: "n < k" by simp
  note b = text_grows_boundary [OF Suc.prems(3)]
  let ?r = "fst (peer (get_req (url @ ''?offset='' @ int_str (int (length printed)))) (W n))"
  obtain out where out: "log_step ?r = Log_More out" "text_grows (printed @ out) (log_text (W n))"
  proof (cases "down (W n)")
    case True
    then show ?thesis using that [of "[]"] fetch_down b(2) Suc.prems(3) by simp
  next
    case False
    then have "log_step ?r = Log_More (drop (length printed) (log_text (W n)))"
      using fetch_up [of "W n" "length printed"] b(1,2) assms(4) [OF n] by simp
    then show ?thesis using that b(3) text_grows_refl by simp
  qed
  have "follow_logs peer meanwhile url jid (Suc n) (length (printed @ out)) (printed @ out) (s\<lparr>ci_peer := W (Suc n)\<rparr>) =
      Some ((Inr (), log_text (W k)), (s\<lparr>ci_peer := W (Suc n)\<rparr>)\<lparr>ci_peer := after (W k)\<rparr>)"
  proof (rule Suc.hyps(1))
    show "m = k - Suc n" "Suc n \<le> k" using Suc.hyps(2) n by simp_all
    show "text_grows (printed @ out) (log_text (W (Suc n)))" by (rule text_grows_trans [OF out(2) assms(7) [OF n]])
  qed simp
  then show ?case using follow_step [of s printed meanwhile jid n] out(1) Suc.prems(2) assms(3) [OF n] assms(4) [OF n] b(2) by auto
qed

end

section \<open>The coordinator as the source of a log\<close>

lemma plain_chars: "plain_text s \<Longrightarrow> CHR ''/'' \<notin> set s \<and> CHR ''?'' \<notin> set s \<and> CHR ''&'' \<notin> set s \<and> CHR ''='' \<notin> set s"
  by (simp add: plain_text_def)

lemma int_str_plain: "0 \<le> i \<Longrightarrow> plain_text (int_str i)"
  using int_digits_chars [of "CHR ''/''" "nat i"] int_digits_chars [of "CHR ''?''" "nat i"] int_digits_chars [of "CHR ''&''" "nat i"]
    int_digits_chars [of "CHR ''=''" "nat i"]
  by (auto simp: plain_text_def int_str_of_nat)

lemma query_one: "plain_text k \<Longrightarrow> plain_text v \<Longrightarrow> query_params (k @ CHR ''='' # v) = [(k, v)]"
  by (simp add: query_params_def plain_text_def split_on_one takeWhile_append takeWhile_neq Let_def)

lemma query_more: "plain_text k \<Longrightarrow> plain_text v \<Longrightarrow> q \<noteq> [] \<Longrightarrow> query_params (k @ CHR ''='' # v @ CHR ''&'' # q) = (k, v) # query_params q"
  using split_on_join [of "CHR ''&''" "k @ CHR ''='' # v" q]
  by (simp add: query_params_def plain_text_def takeWhile_append takeWhile_neq Let_def)

lemma logs_reply:
  assumes "plain_text jid" "int n < 18446744073709551616"
  shows "coordinator_of senv ctx text_of (get_req (logs_url ctx jid @ ''?offset='' @ int_str (int n))) w = reply_of text_of (get_job_logs jid (Some n) w)"
proof -
  let ?base = "trim_end_matches (CHR ''/'') (cc_coordinator_url ctx)"
  have "route_of ?base (?base @ ''/api/v1/'' @ (''jobs/'' @ jid @ ''/logs'') @ ''?'' @ ''offset='' @ int_str (int n)) =
     Some (split_on (CHR ''/'') (''jobs/'' @ jid @ ''/logs''), query_params (''offset='' @ int_str (int n)))"
    using assms(1) by (intro route_query) (simp add: plain_text_def)
  moreover have "split_on (CHR ''/'') (''jobs/'' @ jid @ ''/logs'') = [''jobs'', jid, ''logs'']"
    using assms(1) by (simp add: plain_text_def split_on_join split_on_one)
  moreover have "query_params (''offset'' @ CHR ''='' # int_str (int n)) = [(''offset'', int_str (int n))]"
    by (rule query_one) (simp_all add: int_str_plain, simp add: plain_text_def)
  ultimately have "route_of ?base (logs_url ctx jid @ ''?offset='' @ int_str (int n)) = Some ([''jobs'', jid, ''logs''], [(''offset'', int_str (int n))])"
    by (simp add: logs_url_def at_coordinator_def)
  then show ?thesis using assms(2)
    by (simp add: coordinator_peer_def get_req_def coordinator_get_def int_param_def parse_int_str)
qed

definition job_log :: "string \<Rightarrow> coord_db world \<Rightarrow> string" where
  "job_log jid w = (case job_of (wdb w) jid of None \<Rightarrow> [] | Some j \<Rightarrow> unwrap_or [] (j_output_log j))"

definition job_ended :: "string \<Rightarrow> coord_db world \<Rightarrow> bool" where
  "job_ended jid w = (case job_of (wdb w) jid of None \<Rightarrow> False | Some j \<Rightarrow> is_terminal (j_state j))"

text \<open>The job is there and the database answers; the database does not answer. A log is shorter than \<open>2 ^ 64\<close>.\<close>

definition log_up :: "string \<Rightarrow> coord_db world \<Rightarrow> bool" where
  "log_up jid w \<longleftrightarrow> plain_text jid \<and> length (job_log jid w) < 18446744073709551616 \<and> wfaults w = [] \<and> job_of (wdb w) jid \<noteq> None"

definition log_down :: "string \<Rightarrow> coord_db world \<Rightarrow> bool" where
  "log_down jid w \<longleftrightarrow> plain_text jid \<and> length (job_log jid w) < 18446744073709551616 \<and> (\<exists>f fs. wfaults w = f # fs \<and> f \<noteq> No_Fault)"

definition next_fault :: "coord_db world \<Rightarrow> coord_db world" where
  "next_fault w = w\<lparr>wfaults := tl (wfaults w)\<rparr>"

lemma logs_up_reply:
  assumes "log_up jid w" "is_char_boundary (job_log jid w) n" "n \<le> length (job_log jid w)"
  shows "get_job_logs jid (Some n) w = (Inr (JObj [(''job_id'', JStr jid), (''output'', JStr (drop n (job_log jid w))),
     (''is_complete'', JBool (job_ended jid w)), (''offset'', JInt (int (n + length (drop n (job_log jid w)))))]), w)"
  using assms by (auto simp: log_up_def get_job_logs_def prog_simps job_log_def job_ended_def slice_from_def Let_def)

lemma logs_reply_down: "log_down jid w \<Longrightarrow> get_job_logs jid (Some n) w = (Inl (Status INTERNAL_SERVER_ERROR), next_fault w)"
  by (auto simp: log_down_def get_job_logs_def db_query_def db_stmt_def run_stmt_def map_errE_run bindE_run next_fault_def Let_def
      split: fault.splits sum.splits prod.splits)

lemma logs_state: "log_up jid w \<Longrightarrow> snd (get_job_logs jid (Some n) w) = next_fault w"
  by (auto simp: log_up_def get_job_logs_def prog_simps next_fault_def Let_def split: option.splits)

interpretation coord_log: log_source "coordinator_of senv ctx text_of" "logs_url ctx jid" "log_up jid" "log_down jid" "job_log jid" "job_ended jid" next_fault
  for senv ctx text_of jid
proof unfold_locales
  fix w n
  have reply: "coordinator_of senv ctx text_of (get_req (logs_url ctx jid @ ''?offset='' @ int_str (int n))) w = reply_of text_of (get_job_logs jid (Some n) w)"
    if "log_up jid w \<or> log_down jid w" "n \<le> length (job_log jid w)"
    using that by (intro logs_reply) (auto simp: log_up_def log_down_def)
  have snd_reply: "snd (reply_of text_of r) = snd r" for r :: "(rest_error + json) \<times> coord_db world"
    by (auto simp: reply_of_def split: prod.split sum.split rest_error.split)
  show "snd (coordinator_of senv ctx text_of (get_req (logs_url ctx jid @ ''?offset='' @ int_str (int n))) w) = next_fault w"
    if "log_up jid w \<or> log_down jid w" "n \<le> length (job_log jid w)"
    using reply [OF that] that(1) logs_state logs_reply_down by (auto simp: snd_reply)
  show "log_step (fst (coordinator_of senv ctx text_of (get_req (logs_url ctx jid @ ''?offset='' @ int_str (int n))) w)) =
      (if job_ended jid w then Log_End else Log_More) (drop n (job_log jid w))"
    if "log_up jid w" "is_char_boundary (job_log jid w) n" "n \<le> length (job_log jid w)"
    using reply that logs_up_reply [OF that]
    by (simp add: reply_of_def log_step_def is_success_def decode_logs_def req_field_def default_field_def j_field_def j_bool_def)
  show "log_step (fst (coordinator_of senv ctx text_of (get_req (logs_url ctx jid @ ''?offset='' @ int_str (int n))) w)) = Log_More []"
    if "log_down jid w" "n \<le> length (job_log jid w)"
    using reply that logs_reply_down [OF that(1), of n] by (simp add: reply_of_def log_step_def is_success_def status_code_def)
qed

text \<open>C29: Following a log ends with the whole log. Between the polls of \<open>hatch job logs --follow\<close> the system may do anything, as long as the job stays
  and its log only grows, by pieces of text; the database may fail at any poll. If at some poll, the first that finds it so, the job has
  ended and the database answers, the command ends there, without error, and what it has printed is the log as it then is: nothing twice,
  nothing left out.\<close>

theorem follow_logs_complete:
  assumes "W 0 = ci_peer s" "\<And>i. i < k \<Longrightarrow> W (Suc i) = meanwhile i (next_fault (W i))"
    and "\<And>i. i < k \<Longrightarrow> log_up jid (W i) \<and> \<not> job_ended jid (W i) \<or> log_down jid (W i)" "log_up jid (W k)" "job_ended jid (W k)"
    and "\<And>i. i < k \<Longrightarrow> text_grows (job_log jid (W i)) (job_log jid (W (Suc i)))" "job_log jid (W 0) = [] \<or> \<not> is_cont_byte (hd (job_log jid (W 0)))"
  shows "follow_logs (coordinator_of senv ctx text_of) meanwhile (logs_url ctx jid) jid 0 0 [] s =
     Some ((Inr (), job_log jid (W k)), s\<lparr>ci_peer := next_fault (W k)\<rparr>)"
proof -
  have "text_grows [] (job_log jid (W 0))" using assms(7) by (simp add: text_grows_def)
  from coord_log.follow_from [where n = 0 and k = k and W = W and s = s and meanwhile = meanwhile and printed = "[]" and jid = jid, OF _ _ assms(2-6) this] assms(1)
  show ?thesis by simp
qed


definition demo_meanwhile :: "nat \<Rightarrow> coord_db world \<Rightarrow> coord_db world" where
  "demo_meanwhile n w = (if n = 0 then (world_at (demo_job_db ''running'' ''step 1''))\<lparr>wfaults := [Not_Applied]\<rparr> else world_at (demo_job_db ''complete'' ''step 1; done''))"

definition demo_world_of :: "string \<Rightarrow> string \<Rightarrow> coord_db world cli_world" where
  "demo_world_of st lg = \<lparr>ci_host = submit_host, ci_peer = world_at (demo_job_db st lg)\<rparr>"

text \<open>A running job, a failing database, and the end.\<close>

definition demo_log_worlds :: "nat \<Rightarrow> coord_db world" where
  "demo_log_worlds n = (if n = 0 then world_at (demo_job_db ''running'' ''step 1'')
     else if n = 1 then (world_at (demo_job_db ''running'' ''step 1''))\<lparr>wfaults := [Not_Applied]\<rparr> else world_at (demo_job_db ''complete'' ''step 1; done''))"

lemma follow_logs_complete_witness:
  "\<exists>w. follow_logs (coordinator_of demo_senv demo_submitter (\<lambda>_. [])) demo_meanwhile (logs_url demo_submitter ''job'') ''job'' 0 0 [] (demo_world_of ''running'' ''step 1'') =
     Some ((Inr (), ''step 1; done''), w)"
proof -
  have jl: "job_log ''job'' (world_at (demo_job_db st lg)) = lg" "job_log ''job'' ((world_at (demo_job_db st lg))\<lparr>wfaults := fs\<rparr>) = lg" for st lg fs
    by (simp_all add: job_log_def)
  have g: "text_grows ''step 1'' ''step 1; done''" by (auto simp: text_grows_def is_cont_byte_def)
  have "follow_logs (coordinator_of demo_senv demo_submitter (\<lambda>_. [])) demo_meanwhile (logs_url demo_submitter ''job'') ''job'' 0 0 [] (demo_world_of ''running'' ''step 1'') =
     Some ((Inr (), job_log ''job'' (demo_log_worlds 2)), (demo_world_of ''running'' ''step 1'')\<lparr>ci_peer := next_fault (demo_log_worlds 2)\<rparr>)"
  proof (rule follow_logs_complete)
    fix i :: nat
    assume "i < 2"
    then have i: "i = 0 \<or> i = 1" by auto
    show "demo_log_worlds (Suc i) = demo_meanwhile i (next_fault (demo_log_worlds i))" using i by (auto simp: demo_log_worlds_def demo_meanwhile_def)
    show "log_up ''job'' (demo_log_worlds i) \<and> \<not> job_ended ''job'' (demo_log_worlds i) \<or> log_down ''job'' (demo_log_worlds i)"
      using i by (auto simp: demo_log_worlds_def log_up_def log_down_def job_ended_def is_terminal_def plain_text_def jl)
    show "text_grows (job_log ''job'' (demo_log_worlds i)) (job_log ''job'' (demo_log_worlds (Suc i)))"
      using i g by (auto simp: demo_log_worlds_def jl text_grows_refl)
  qed (simp_all add: demo_log_worlds_def demo_world_of_def log_up_def job_ended_def is_terminal_def plain_text_def jl is_cont_byte_def)
  then show ?thesis by (simp add: demo_log_worlds_def jl)
qed

section \<open>Waiting for the end\<close>

text \<open>The worlds that the polls of the loop find.\<close>

fun polled :: "'w http_peer \<Rightarrow> (nat \<Rightarrow> 'w \<Rightarrow> 'w) \<Rightarrow> string \<Rightarrow> nat \<Rightarrow> 'w \<Rightarrow> nat \<Rightarrow> 'w" where
  "polled peer meanwhile url n w 0 = w"
| "polled peer meanwhile url n w (Suc k) = polled peer meanwhile url (Suc n) (meanwhile n (snd (peer (get_req url) w))) k"

definition job_seen :: "'w http_peer \<Rightarrow> string \<Rightarrow> 'w \<Rightarrow> job_response option" where
  "job_seen peer url w = finished_job (fst (peer (get_req url) w))"

lemma wait_step:
  "wait_for_completion peer meanwhile url n s = (case job_seen peer url (ci_peer s) of
     Some job \<Rightarrow> Some (job, s\<lparr>ci_peer := snd (peer (get_req url) (ci_peer s))\<rparr>)
   | None \<Rightarrow> wait_for_completion peer meanwhile url (Suc n) (s\<lparr>ci_peer := meanwhile n (snd (peer (get_req url) (ci_peer s)))\<rparr>))"
  by (subst wait_for_completion.simps) (auto simp: job_seen_def split: prod.split option.split)

lemma wait_reaches:
  "job_seen peer url (polled peer meanwhile url n (ci_peer s) k) = Some job \<Longrightarrow>
   (\<And>i. i < k \<Longrightarrow> job_seen peer url (polled peer meanwhile url n (ci_peer s) i) = None) \<Longrightarrow>
   wait_for_completion peer meanwhile url n s = Some (job, s\<lparr>ci_peer := snd (peer (get_req url) (polled peer meanwhile url n (ci_peer s) k))\<rparr>)"
proof (induction k arbitrary: n s)
  case 0
  then show ?case by (subst wait_step) auto
next
  case (Suc k)
  let ?s = "s\<lparr>ci_peer := meanwhile n (snd (peer (get_req url) (ci_peer s)))\<rparr>"
  have "wait_for_completion peer meanwhile url (Suc n) ?s = Some (job, ?s\<lparr>ci_peer := snd (peer (get_req url) (polled peer meanwhile url (Suc n) (ci_peer ?s) k))\<rparr>)"
    using Suc.prems(1) Suc.prems(2) [of "Suc _"] by (intro Suc.IH) simp_all
  moreover have "job_seen peer url (ci_peer s) = None" using Suc.prems(2) [of 0] by simp
  ultimately show ?case by (subst wait_step) auto
qed

lemma wait_found:
  assumes "wait_for_completion peer meanwhile url n s = Some r"
  shows "\<exists>k. job_seen peer url (polled peer meanwhile url n (ci_peer s) k) \<noteq> None"
proof (rule wait_for_completion.raw_induct
    [where P = "\<lambda>peer meanwhile url n s r. \<exists>k. job_seen peer url (polled peer meanwhile url n (ci_peer s) k) \<noteq> None", OF _ assms])
  fix loop :: "'a http_peer \<Rightarrow> (nat \<Rightarrow> 'a \<Rightarrow> 'a) \<Rightarrow> string \<Rightarrow> nat \<Rightarrow> 'a cli_world \<Rightarrow> (job_response \<times> 'a cli_world) option"
    and peer :: "'a http_peer" and meanwhile url n s r
  assume IH: "\<And>peer meanwhile url n s r. loop peer meanwhile url n s = Some r \<Longrightarrow> \<exists>k. job_seen peer url (polled peer meanwhile url n (ci_peer s) k) \<noteq> None"
    and body: "(case peer (get_req url) (ci_peer s) of
        (r, w) \<Rightarrow> (case finished_job r of
            Some job \<Rightarrow> Some (job, s\<lparr>ci_peer := w\<rparr>)
          | None \<Rightarrow> loop peer meanwhile url (Suc n) (s\<lparr>ci_peer := meanwhile n w\<rparr>))) = Some r"
  show "\<exists>k. job_seen peer url (polled peer meanwhile url n (ci_peer s) k) \<noteq> None"
  proof (cases "job_seen peer url (ci_peer s)")
    case (Some job)
    then show ?thesis by (intro exI [of _ 0]) simp
  next
    case None
    then have "loop peer meanwhile url (Suc n) (s\<lparr>ci_peer := meanwhile n (snd (peer (get_req url) (ci_peer s)))\<rparr>) = Some r"
      using body by (auto simp: job_seen_def split: prod.splits option.splits)
    from IH [OF this] obtain k where "job_seen peer url (polled peer meanwhile url n (ci_peer s) (Suc k)) \<noteq> None" by auto
    then show ?thesis by blast
  qed
qed

text \<open>Waiting ends exactly when the job is seen to have ended. Whatever the peer answers and whatever happens between the polls: \<open>hatch job submit
  --wait\<close> comes back if and only if at some poll the answer is a job in a terminal state; then it reports the job of the first such answer.\<close>

theorem wait_terminates_iff:
  "map_option fst (wait_for_completion peer meanwhile url 0 s) =
     (if \<exists>k. job_seen peer url (polled peer meanwhile url 0 (ci_peer s) k) \<noteq> None
      then job_seen peer url (polled peer meanwhile url 0 (ci_peer s) (LEAST k. job_seen peer url (polled peer meanwhile url 0 (ci_peer s) k) \<noteq> None))
      else None)"
proof (cases "\<exists>k. job_seen peer url (polled peer meanwhile url 0 (ci_peer s) k) \<noteq> None")
  case True
  define k where "k = (LEAST k. job_seen peer url (polled peer meanwhile url 0 (ci_peer s) k) \<noteq> None)"
  from LeastI_ex [OF True] obtain job where job: "job_seen peer url (polled peer meanwhile url 0 (ci_peer s) k) = Some job" by (auto simp: k_def)
  have "job_seen peer url (polled peer meanwhile url 0 (ci_peer s) i) = None" if "i < k" for i
    using not_less_Least [OF that [unfolded k_def]] by simp
  from wait_reaches [OF job this] obtain w where "wait_for_completion peer meanwhile url 0 s = Some (job, s\<lparr>ci_peer := w\<rparr>)" by blast
  then show ?thesis using True job by (simp add: k_def)
next
  case False
  then have "wait_for_completion peer meanwhile url 0 s = None" using wait_found by (metis not_Some_eq)
  then show ?thesis using False by simp
qed

section \<open>The list and cancellation\<close>

lemma list_reply:
  assumes "plain_text acct" "case state of None \<Rightarrow> True | Some st \<Rightarrow> plain_text st" "0 \<le> limit" "limit < 4294967296"
  shows "coordinator_of senv ctx text_of (get_req (list_url ctx acct state limit)) w =
     reply_of text_of (list_jobs_rest \<lparr>jq_account_id = Some acct, jq_state = state, jq_limit = Some limit\<rparr> w)"
proof -
  let ?base = "trim_end_matches (CHR ''/'') (cc_coordinator_url ctx)"
  define q where "q = (''limit'' @ CHR ''='' # int_str limit) @ (case state of Some st \<Rightarrow> ''&state='' @ st | None \<Rightarrow> [])"
  have p: "plain_text ''account_id''" "plain_text ''limit''" "plain_text ''state''" "plain_text (int_str limit)" using assms(3) int_str_plain
    by (simp_all add: plain_text_def)
  have "query_params (''account_id'' @ CHR ''='' # acct @ CHR ''&'' # q) = (''account_id'', acct) # query_params q"
    using p(1) assms(1) by (intro query_more) (simp_all add: q_def)
  moreover have "query_params q = (''limit'', int_str limit) # (case state of Some st \<Rightarrow> [(''state'', st)] | None \<Rightarrow> [])"
    using query_one [OF p(2,4)] query_more [OF p(2,4), of "''state='' @ st" for st] query_one [OF p(3)] assms(2)
    by (auto simp: q_def split: option.split)
  moreover have "route_of ?base (?base @ ''/api/v1/'' @ ''jobs'' @ ''?'' @ ''account_id'' @ CHR ''='' # acct @ CHR ''&'' # q) =
      Some (split_on (CHR ''/'') ''jobs'', query_params (''account_id'' @ CHR ''='' # acct @ CHR ''&'' # q))"
    by (intro route_query) simp
  ultimately have "route_of ?base (list_url ctx acct state limit) =
      Some ([''jobs''], (''account_id'', acct) # (''limit'', int_str limit) # (case state of Some st \<Rightarrow> [(''state'', st)] | None \<Rightarrow> []))"
    by (simp add: list_url_def at_coordinator_def q_def split_on_one)
  moreover have "parse_signed 9223372036854775808 (int_str limit) = Some limit"
  proof -
    obtain c ds where c: "int_str limit = c # ds" using int_digits_ne [of "nat limit"] assms(3) by (cases "int_str limit") (auto simp: int_str_of_nat)
    moreover have "c \<noteq> CHR ''-''" using c int_digits_chars [of c "nat limit"] assms(3) by (auto simp: int_str_of_nat)
    ultimately show ?thesis using parse_int_str [of limit 9223372036854775808] assms(3,4) by (simp add: parse_signed_def)
  qed
  ultimately show ?thesis
    by (simp add: coordinator_peer_def get_req_def coordinator_get_def job_query_of_def int_param_def split: option.split)
qed

lemma cancel_reply:
  assumes "plain_text jid"
  shows "coordinator_of senv ctx text_of (delete_req (job_url ctx jid)) w = reply_of text_of (cancel_job jid w)"
proof -
  have "split_on (CHR ''/'') (''jobs/'' @ jid) = [''jobs'', jid]" using assms by (simp add: plain_text_def split_on_join split_on_one)
  then show ?thesis using assms coordinator_route [of "''jobs/'' @ jid" ctx]
    by (simp add: coordinator_peer_def delete_req_def job_url_def plain_text_def)
qed

text \<open>Cancelling a job that has ended changes nothing and is reported as a cancellation: the client looks at the status only.\<close>

lemma cancel_of_ended_job:
  assumes "plain_text jid" "wfaults (ci_peer s) = []" "job_of (wdb (ci_peer s)) jid = Some j" "is_terminal (j_state j)"
  shows "cli_cancel (coordinator_of senv ctx text_of) ctx jid s = (Inr (''Job '' @ jid @ '' cancelled''), s)"
  using assms by (simp add: cli_cancel_def send_or_def send_to_def cancel_reply prog_simps cancel_job_def reply_of_def is_success_def)

text \<open>A row as the list shows it.\<close>

definition job_listed :: "job_row \<Rightarrow> bool" where
  "job_listed r \<longleftrightarrow> j_state r \<noteq> None \<and> (\<exists>ram. j_min_ram_gb r = Some ram \<and> 0 \<le> ram \<and> ram < 4294967296) \<and> (\<exists>p. j_max_price r = Some (Fin p)) \<and>
     j_created_at r \<noteq> None"

definition job_shown :: "job_row \<Rightarrow> job_response" where
  "job_shown r = \<lparr>jo_id = j_job_id r, jo_state = unwrap_or [] (j_state r), jo_runtime = runtime_str (j_runtime r), jo_min_ram_gb = unwrap_or 0 (j_min_ram_gb r),
     jo_max_price_per_hour = unwrap_or (Fin 0) (j_max_price r), jo_created_at = j_opt JTime (j_created_at r), jo_provider_id = j_provider_id r,
     jo_started_at = map_option JTime (j_started_at r), jo_completed_at = map_option JTime (j_completed_at r), jo_exit_code = None\<rparr>"

lemma decode_summary: "job_listed r \<Longrightarrow> decode_job_response (job_summary r) = Some (job_shown r)"
  by (cases "j_provider_id r"; cases "j_started_at r"; cases "j_completed_at r")
    (auto simp: job_listed_def decode_job_response_def job_summary_def job_shown_def req_field_def opt_field_def j_field_def j_text_def)

lemma job_shown_cut: "job_listed r \<Longrightarrow> can_cut (job_shown r)"
  by (auto simp: job_listed_def can_cut_def job_shown_def)


lemma list_answer:
  assumes "cc_account_id ctx = Some acct" "plain_text acct" "case state of None \<Rightarrow> True | Some st \<Rightarrow> plain_text st" "0 \<le> limit" "limit < 4294967296"
    and "wfaults (ci_peer s) = []" "select_jobs \<lparr>jq_account_id = Some acct, jq_state = state, jq_limit = Some limit\<rparr> (wdb (ci_peer s)) = Inr rows"
    and "list_all job_listed rows"
  shows "cli_list_jobs (coordinator_of senv ctx text_of) ctx state limit s = (Inr (map job_shown rows, int (length rows)), s) \<and> int (length rows) \<le> limit"
proof -
  have "decode_all decode_job_response (map job_summary rows) = Some (map job_shown rows)"
    using assms(8) by (induction rows) (simp_all add: decode_summary)
  moreover have n: "int (length rows) \<le> limit" using assms(4,7) by (auto simp: select_jobs_def sql_limit_def split: if_splits)
  ultimately have "decode_job_list (JObj [(''jobs'', JArr (map job_summary rows)), (''total'', JInt (int (length rows)))]) = Some (map job_shown rows, int (length rows))"
    using assms(5) by (simp add: decode_job_list_def list_field_def req_field_def j_field_def)
  moreover have "list_all can_cut (map job_shown rows)" using assms(8) by (auto simp: list_all_iff intro: job_shown_cut)
  moreover have "list_jobs_rest \<lparr>jq_account_id = Some acct, jq_state = state, jq_limit = Some limit\<rparr> (ci_peer s) =
      (Inr (JObj [(''jobs'', JArr (map job_summary rows)), (''total'', JInt (int (length rows)))]), ci_peer s)"
    using assms(6,7) by (simp add: list_jobs_rest_def prog_simps)
  ultimately show ?thesis using assms(1) n list_reply [where ctx = ctx and w = "ci_peer s" and senv = senv and text_of = text_of, OF assms(2-5)]
    by (simp add: cli_list_jobs_def require_account_id_def prog_simps send_or_def send_to_def reply_of_def is_success_def json_or_def)
qed

lemma order_desc_newest:
  "mset (order_desc c t) = mset t" "sorted_wrt (\<lambda>a b. sort_col (c b) \<le> sort_col (c a)) (order_desc c t)"
proof -
  show "mset (order_desc c t) = mset t" by (simp add: order_desc_def)
  have "sorted_wrt (\<lambda>x y. sort_col (c x) \<le> sort_col (c y)) (sort_key (\<lambda>r. sort_col (c r)) (rev t))"
    using sorted_sort_key [of "\<lambda>r. sort_col (c r)" "rev t"] by (simp add: sorted_wrt_map)
  then show "sorted_wrt (\<lambda>a b. sort_col (c b) \<le> sort_col (c a)) (order_desc c t)" by (simp add: order_desc_def sorted_wrt_rev)
qed

text \<open>The selected rows: the account's, the newest ones, newest first.\<close>

lemma selected_jobs:
  assumes "select_jobs \<lparr>jq_account_id = Some acct, jq_state = state, jq_limit = Some limit\<rparr> d = Inr rows"
  obtains rest where "mset (rows @ rest) = mset (filter (\<lambda>r. j_consumer_id r = acct \<and> (state = None \<or> j_state r = state)) (jobs d))"
    "int (length rows) \<le> limit" "rest = [] \<or> int (length rows) = limit"
    "sorted_wrt (\<lambda>a b. sort_col (j_created_at b) \<le> sort_col (j_created_at a)) (rows @ rest)"
proof -
  let ?rows = "filter (\<lambda>r. j_consumer_id r = acct \<and> (state = None \<or> j_state r = state)) (jobs d)"
  have "(state = None \<or> null_eq x state) \<longleftrightarrow> (state = None \<or> x = state)" for x by (cases state) simp_all
  then have "filter (\<lambda>r. Some acct = Some (j_consumer_id r) \<and> (state = None \<or> null_eq (j_state r) state)) (jobs d) = ?rows"
    by (intro filter_cong) auto
  then have n: "0 \<le> limit" and rows: "rows = take (nat limit) (order_desc j_created_at ?rows)"
    using assms by (auto simp: select_jobs_def sql_limit_def split: if_splits)
  let ?rest = "drop (nat limit) (order_desc j_created_at ?rows)"
  have all: "rows @ ?rest = order_desc j_created_at ?rows" using rows by simp
  show thesis
  proof (rule that [of ?rest])
    show "mset (rows @ ?rest) = mset ?rows" unfolding all by (rule order_desc_newest)
    show "sorted_wrt (\<lambda>a b. sort_col (j_created_at b) \<le> sort_col (j_created_at a)) (rows @ ?rest)" unfolding all by (rule order_desc_newest)
    show "int (length rows) \<le> limit" using rows n by simp
    show "?rest = [] \<or> int (length rows) = limit" using rows n by (simp add: min_def)
  qed
qed

text \<open>C33: The list shows the account's jobs. For any account, state filter and limit, the jobs of the account in that state are split into those shown
  and the rest. When every column that the client needs is set in the rows shown, \<open>hatch job list\<close> shows them newest first and at most as many as
  the limit: each with its id, state, runtime, memory, price, provider and times, and never with an exit code. A job is left out only when as many
  as the limit are shown, all of them at least as new. The total is the number of jobs shown, so the note that there are more never appears.\<close>

theorem list_shows_jobs:
  assumes "cc_account_id ctx = Some acct" "plain_text acct" "case state of None \<Rightarrow> True | Some st \<Rightarrow> plain_text st" "0 \<le> limit" "limit < 4294967296"
    and "wfaults (ci_peer s) = []"
    and "list_all job_listed (take (nat limit) (order_desc j_created_at
       (filter (\<lambda>r. j_consumer_id r = acct \<and> (state = None \<or> j_state r = state)) (jobs (wdb (ci_peer s))))))"
  shows "\<exists>shown rest. cli_list_jobs (coordinator_of senv ctx text_of) ctx state limit s = (Inr (map job_shown shown, int (length shown)), s) \<and>
    mset (shown @ rest) = mset (filter (\<lambda>r. j_consumer_id r = acct \<and> (state = None \<or> j_state r = state)) (jobs (wdb (ci_peer s)))) \<and>
    int (length shown) \<le> limit \<and> (rest = [] \<or> int (length shown) = limit) \<and>
    sorted_wrt (\<lambda>a b. the (j_created_at b) \<le> the (j_created_at a)) shown \<and>
    (\<forall>a\<in>set shown. j_created_at a \<noteq> None \<and> (\<forall>b\<in>set rest. \<exists>t. j_created_at b = Some t \<and> t \<le> the (j_created_at a)))"
proof -
  let ?rows = "filter (\<lambda>r. j_consumer_id r = acct \<and> (state = None \<or> j_state r = state)) (jobs (wdb (ci_peer s)))"
  let ?q = "\<lparr>jq_account_id = Some acct, jq_state = state, jq_limit = Some limit\<rparr>"
  define rows where "rows = take (nat limit) (order_desc j_created_at ?rows)"
  have listed: "list_all job_listed rows" using assms(7) by (simp add: rows_def)
  have "(state = None \<or> null_eq x state) \<longleftrightarrow> (state = None \<or> x = state)" for x by (cases state) simp_all
  then have "filter (\<lambda>r. Some acct = Some (j_consumer_id r) \<and> (state = None \<or> null_eq (j_state r) state)) (jobs (wdb (ci_peer s))) = ?rows"
    by (intro filter_cong) auto
  then have sel: "select_jobs ?q (wdb (ci_peer s)) = Inr rows" using assms(4) by (simp add: select_jobs_def sql_limit_def rows_def)
  obtain rest where rest: "mset (rows @ rest) = mset ?rows" "int (length rows) \<le> limit" "rest = [] \<or> int (length rows) = limit"
      "sorted_wrt (\<lambda>a b. sort_col (j_created_at b) \<le> sort_col (j_created_at a)) (rows @ rest)"
    using selected_jobs [OF sel] by blast
  have newest: "j_created_at a \<noteq> None" "\<And>b. sort_col (j_created_at b) \<le> sort_col (j_created_at a) \<Longrightarrow> \<exists>t. j_created_at b = Some t \<and> t \<le> the (j_created_at a)"
    if "a \<in> set rows" for a
    using that listed by (auto simp: list_all_iff job_listed_def sort_col_def split: option.splits)
  have "sorted_wrt (\<lambda>a b. sort_col (j_created_at b) \<le> sort_col (j_created_at a)) rows" using rest(4) by (simp add: sorted_wrt_append)
  then have "sorted_wrt (\<lambda>a b. the (j_created_at b) \<le> the (j_created_at a)) rows"
    by (rule sorted_wrt_mono_rel [rotated]) (metis newest(2) option.sel)
  moreover have "\<forall>a\<in>set rows. j_created_at a \<noteq> None \<and> (\<forall>b\<in>set rest. \<exists>t. j_created_at b = Some t \<and> t \<le> the (j_created_at a))"
  proof -
    have "\<forall>a\<in>set rows. \<forall>b\<in>set rest. sort_col (j_created_at b) \<le> sort_col (j_created_at a)" using rest(4) by (simp add: sorted_wrt_append)
    with newest show ?thesis by blast
  qed
  ultimately show ?thesis using rest(1-3) list_answer [OF assms(1-6) sel listed] by blast
qed

definition demo_row :: "string \<Rightarrow> int \<Rightarrow> job_row" where
  "demo_row i n = (new_job_row i ''acct'' n)\<lparr>j_state := Some ''queued'', j_min_ram_gb := Some 16, j_max_price := Some (Fin 2)\<rparr>"

text \<open>Two jobs, limited to one.\<close>

lemma list_shows_jobs_witness:
  "fst (cli_list_jobs (coordinator_of demo_senv demo_submitter (\<lambda>_. [])) demo_submitter (Some ''queued'') 1
     \<lparr>ci_host = submit_host, ci_peer = world_at (demo_db\<lparr>jobs := [demo_row ''j1'' 100, demo_row ''j2'' 200]\<rparr>)\<rparr>) = Inr ([job_shown (demo_row ''j2'' 200)], 1)"
proof -
  let ?s = "\<lparr>ci_host = submit_host, ci_peer = world_at (demo_db\<lparr>jobs := [demo_row ''j1'' 100, demo_row ''j2'' 200]\<rparr>)\<rparr>"
  let ?rows = "filter (\<lambda>r. j_consumer_id r = ''acct'' \<and> (Some ''queued'' = None \<or> j_state r = Some ''queued'')) (jobs (wdb (ci_peer ?s)))"
  have row: "j_consumer_id (demo_row i n) = ''acct''" "j_state (demo_row i n) = Some ''queued''" "j_created_at (demo_row i n) = Some n"
    "job_listed (demo_row i n)" for i n
    by (simp_all add: demo_row_def new_job_row_def job_listed_def)
  have rows: "?rows = [demo_row ''j1'' 100, demo_row ''j2'' 200]" by (simp add: world_at_def row)
  have "list_all job_listed (take (nat 1) (order_desc j_created_at [demo_row ''j1'' 100, demo_row ''j2'' 200]))" by (simp add: list_all_iff row order_desc_def)
  with rows have listed: "list_all job_listed (take (nat 1) (order_desc j_created_at ?rows))" by simp
  have ctx: "cc_account_id demo_submitter = Some ''acct''" "plain_text ''acct''" "case Some ''queued'' of None \<Rightarrow> True | Some st \<Rightarrow> plain_text st"
    "(0 :: int) \<le> 1" "(1 :: int) < 4294967296" "wfaults (ci_peer ?s) = []"
    by (simp_all add: demo_submitter_def plain_text_def world_at_def)
  note claim = list_shows_jobs [OF ctx listed, where senv = demo_senv and text_of = "\<lambda>_. []"]
  obtain shown rest where shown: "cli_list_jobs (coordinator_of demo_senv demo_submitter (\<lambda>_. [])) demo_submitter (Some ''queued'') 1 ?s =
        (Inr (map job_shown shown, int (length shown)), ?s)"
      "mset (shown @ rest) = mset ?rows" "int (length shown) \<le> 1" "rest = [] \<or> int (length shown) = 1"
      "\<forall>a\<in>set shown. j_created_at a \<noteq> None \<and> (\<forall>b\<in>set rest. \<exists>t. j_created_at b = Some t \<and> t \<le> the (j_created_at a))"
    using claim by (elim exE conjE) (rule that)
  have two: "mset (shown @ rest) = {#demo_row ''j1'' 100, demo_row ''j2'' 200#}" using shown(2) unfolding rows by simp
  have "length shown + length rest = 2" using mset_eq_length [of "shown @ rest" "[demo_row ''j1'' 100, demo_row ''j2'' 200]"] two by simp
  then obtain a b where ab: "shown = [a]" "rest = [b]" using shown(3,4)
    by (cases shown; cases rest) (auto simp: length_Suc_conv)
  then have "{#a, b#} = {#demo_row ''j1'' 100, demo_row ''j2'' 200#}" using two by simp
  then have "a = demo_row ''j2'' 200" using shown(5) ab by (auto simp: add_eq_conv_ex row)
  with shown(1) ab show ?thesis by simp
qed

section \<open>Which waits end\<close>

text \<open>A poll tells the client of the end when the database answers, the row is in a terminal state, and every column that the client needs is set.\<close>

definition db_answers :: "coord_db world \<Rightarrow> bool" where
  "db_answers w \<longleftrightarrow> (case wfaults w of [] \<Rightarrow> True | f # fs \<Rightarrow> f = No_Fault)"

lemma decode_detail: "decode_job_response (job_detail r) = (if job_listed r then Some (job_shown r) else None)"
proof -
  have opt: "j_as_str (j_opt JStr x) = x" "j_text (j_opt JTime t) = map_option JTime t" for x t
    by (cases x; cases t; simp add: j_text_def)+
  have "req_field j_as_str ''state'' (job_detail r) = j_state r"
    by (simp add: job_detail_def req_field_def j_field_def opt)
  moreover have "req_field j_u32 ''min_ram_gb'' (job_detail r) = (case j_min_ram_gb r of Some n \<Rightarrow> if 0 \<le> n \<and> n < 4294967296 then Some n else None | None \<Rightarrow> None)"
    by (cases "j_min_ram_gb r") (simp_all add: job_detail_def req_field_def j_field_def)
  moreover have "req_field j_as_f64 ''max_price_per_hour'' (job_detail r) = (case j_max_price r of Some (Fin p) \<Rightarrow> Some (Fin p) | _ \<Rightarrow> None)"
    by (cases "j_max_price r"; cases "the (j_max_price r)") (simp_all add: job_detail_def req_field_def j_field_def)
  moreover have "req_field j_text ''created_at'' (job_detail r) = map_option JTime (j_created_at r)"
    by (simp add: job_detail_def req_field_def j_field_def opt)
  moreover have "req_field j_as_str ''id'' (job_detail r) = Some (j_job_id r)" "req_field j_as_str ''runtime'' (job_detail r) = Some (runtime_str (j_runtime r))"
    "opt_field json_i32 ''exit_code'' (job_detail r) = Some None"
    by (simp_all add: job_detail_def req_field_def opt_field_def j_field_def)
  moreover have "opt_field j_as_str ''provider_id'' (job_detail r) = Some (j_provider_id r)"
    by (cases "j_provider_id r") (simp_all add: job_detail_def opt_field_def j_field_def)
  moreover have "opt_field j_text ''started_at'' (job_detail r) = Some (map_option JTime (j_started_at r))"
    by (cases "j_started_at r") (simp_all add: job_detail_def opt_field_def j_field_def j_text_def)
  moreover have "opt_field j_text ''completed_at'' (job_detail r) = Some (map_option JTime (j_completed_at r))"
    by (cases "j_completed_at r") (simp_all add: job_detail_def opt_field_def j_field_def j_text_def)
  ultimately show ?thesis
    by (auto simp: decode_job_response_def job_listed_def job_shown_def split: option.splits f64.splits if_splits)
qed

lemma job_reply:
  assumes "plain_text jid"
  shows "coordinator_of senv ctx text_of (get_req (job_url ctx jid)) w = reply_of text_of (get_job jid w)"
proof -
  have "split_on (CHR ''/'') (''jobs/'' @ jid) = [''jobs'', jid]" using assms by (simp add: plain_text_def split_on_join split_on_one)
  then show ?thesis using assms coordinator_route [of "''jobs/'' @ jid" ctx]
    by (simp add: coordinator_peer_def coordinator_get_def get_req_def job_url_def plain_text_def)
qed

definition end_seen :: "string \<Rightarrow> coord_db world \<Rightarrow> job_response option" where
  "end_seen jid w = (if db_answers w
     then (case job_of (wdb w) jid of Some j \<Rightarrow> (if is_terminal (j_state j) \<and> job_listed j then Some (job_shown j) else None) | None \<Rightarrow> None)
     else None)"

lemma job_polled:
  assumes "plain_text jid"
  shows "job_seen (coordinator_of senv ctx text_of) (job_url ctx jid) w = end_seen jid w"
    "snd (coordinator_of senv ctx text_of (get_req (job_url ctx jid)) w) = next_fault w"
proof -
  have q: "get_job jid w = (if db_answers w then (case job_of (wdb w) jid of Some j \<Rightarrow> (Inr (job_detail j), next_fault w)
      | None \<Rightarrow> (Inl (Status NOT_FOUND), next_fault w)) else (Inl (Status INTERNAL_SERVER_ERROR), next_fault w))"
    by (cases "wfaults w"; cases "job_of (wdb w) jid"; cases "hd (wfaults w)")
      (auto simp: get_job_def db_answers_def next_fault_def db_query_def db_stmt_def run_stmt_def bindE_run map_errE_run someE_run retE_run)
  have st: "job_listed j \<Longrightarrow> jo_state (job_shown j) \<in> set terminal_states \<longleftrightarrow> is_terminal (j_state j)" for j
    by (auto simp: job_listed_def job_shown_def terminal_states_def is_terminal_def)
  show "job_seen (coordinator_of senv ctx text_of) (job_url ctx jid) w = end_seen jid w"
    using st by (auto simp: job_seen_def job_reply [OF assms] q reply_of_def finished_job_def decode_detail end_seen_def split: option.split)
  show "snd (coordinator_of senv ctx text_of (get_req (job_url ctx jid)) w) = next_fault w"
    by (auto simp: job_reply [OF assms] q reply_of_def split: option.split)
qed

lemma polled_worlds:
  assumes "\<And>w. snd (peer (get_req url) w) = g w" "\<And>i. W (Suc i) = meanwhile i (g (W i))"
  shows "polled peer meanwhile url n (W n) k = W (n + k)"
  by (induction k arbitrary: n) (simp_all add: assms flip: add_Suc_right assms(2))

text \<open>C39: Waiting for a job ends with the job, or never. Against the coordinator, whatever happens to the database between the polls: \<open>hatch job submit
  --wait\<close> comes back at the first poll at which the database answers, the row is in a terminal state and every column that the client needs is
  set, and it reports the job as that row is. An error of the database, an answer that the job is not there, and a row with an unset column are
  no end: if there is no such poll, as for a job whose row is gone, the command polls for ever.\<close>

theorem wait_ends_with_job:
  assumes "plain_text jid" "W 0 = ci_peer s" "\<And>i. W (Suc i) = meanwhile i (next_fault (W i))"
  shows "wait_for_completion (coordinator_of senv ctx text_of) meanwhile (job_url ctx jid) 0 s =
     (if \<exists>k. end_seen jid (W k) \<noteq> None
      then (let k = LEAST k. end_seen jid (W k) \<noteq> None
            in map_option (\<lambda>job. (job, s\<lparr>ci_peer := next_fault (W k)\<rparr>)) (end_seen jid (W k)))
      else None)"
proof -
  let ?peer = "coordinator_of senv ctx text_of" and ?url = "job_url ctx jid"
  have "polled ?peer meanwhile ?url 0 (W 0) k = W k" for k
    using polled_worlds [where peer = ?peer and url = ?url and W = W and n = 0 and g = next_fault and meanwhile = meanwhile, OF job_polled(2) [OF assms(1)] assms(3)] by simp
  then have W: "polled ?peer meanwhile ?url 0 (ci_peer s) k = W k" for k using assms(2) by simp
  show ?thesis
  proof (cases "\<exists>k. end_seen jid (W k) \<noteq> None")
    case True
    define k where "k = (LEAST k. end_seen jid (W k) \<noteq> None)"
    from LeastI_ex [OF True] obtain job where job: "end_seen jid (W k) = Some job" by (auto simp: k_def)
    have before: "end_seen jid (W i) = None" if "i < k" for i using not_less_Least [OF that [unfolded k_def]] by simp
    have "wait_for_completion ?peer meanwhile ?url 0 s = Some (job, s\<lparr>ci_peer := next_fault (W k)\<rparr>)"
      using wait_reaches [of ?peer ?url meanwhile 0 s k job] job before by (simp add: W job_polled [OF assms(1)])
    then show ?thesis using True job by (simp add: k_def)
  next
    case False
    then have "wait_for_completion ?peer meanwhile ?url 0 s = None"
    proof (cases "wait_for_completion ?peer meanwhile ?url 0 s")
      case (Some r)
      from wait_found [OF this] False show ?thesis by (simp add: W job_polled [OF assms(1)])
    qed
    then show ?thesis using False by simp
  qed
qed

text \<open>A queued job, a failing database, and the failed job; and a job that is gone.\<close>

lemma wait_ends_with_job_witness:
  "map_option (\<lambda>(job, s'). jo_state job) (wait_for_completion (coordinator_of demo_senv demo_submitter (\<lambda>_. [])) (\<lambda>n w. if n = 0
      then (world_at (demo_db\<lparr>jobs := [demo_row ''job'' 900]\<rparr>))\<lparr>wfaults := [Not_Applied]\<rparr>
      else world_at (demo_db\<lparr>jobs := [(demo_row ''job'' 900)\<lparr>j_state := Some ''failed''\<rparr>]\<rparr>)) (job_url demo_submitter ''job'') 0
      \<lparr>ci_host = submit_host, ci_peer = world_at (demo_db\<lparr>jobs := [demo_row ''job'' 900]\<rparr>)\<rparr>) = Some ''failed'' \<and>
   wait_for_completion (coordinator_of demo_senv demo_submitter (\<lambda>_. [])) (\<lambda>_ w. w) (job_url demo_submitter ''gone'') 0
      \<lparr>ci_host = submit_host, ci_peer = world_at (demo_db\<lparr>jobs := []\<rparr>)\<rparr> = None"
proof -
  let ?running = "world_at (demo_db\<lparr>jobs := [demo_row ''job'' 900]\<rparr>)" and ?failed = "world_at (demo_db\<lparr>jobs := [(demo_row ''job'' 900)\<lparr>j_state := Some ''failed''\<rparr>]\<rparr>)"
  let ?m = "\<lambda>n w. if n = (0 :: nat) then ?running\<lparr>wfaults := [Not_Applied]\<rparr> else ?failed"
  define W where "W i = (if i = 0 then ?running else if i = Suc 0 then ?running\<lparr>wfaults := [Not_Applied]\<rparr> else ?failed)" for i :: nat
  have row: "job_of (wdb ?running) ''job'' = Some (demo_row ''job'' 900)" "job_of (wdb ?failed) ''job'' = Some ((demo_row ''job'' 900)\<lparr>j_state := Some ''failed''\<rparr>)"
    "j_state (demo_row ''job'' 900) = Some ''queued''"
    by (simp_all add: world_at_def sql_first_def demo_row_def new_job_row_def)
  have "job_listed ((demo_row ''job'' 900)\<lparr>j_state := Some ''failed''\<rparr>)" by (simp add: job_listed_def demo_row_def new_job_row_def)
  then have seen: "end_seen ''job'' (W 0) = None" "end_seen ''job'' (W 1) = None" "end_seen ''job'' (W 2) = Some (job_shown ((demo_row ''job'' 900)\<lparr>j_state := Some ''failed''\<rparr>))"
    using row by (simp_all add: W_def end_seen_def db_answers_def is_terminal_def)
  have k: "(LEAST k. end_seen ''job'' (W k) \<noteq> None) = 2"
  proof (rule Least_equality)
    show "end_seen ''job'' (W 2) \<noteq> None" using seen(3) by simp
    fix k
    assume "end_seen ''job'' (W k) \<noteq> None"
    then have "k \<noteq> 0 \<and> k \<noteq> 1" using seen(1,2) by metis
    then show "2 \<le> k" by arith
  qed
  have W: "W (Suc i) = ?m i (next_fault (W i))" for i by (simp add: W_def)
  have "wait_for_completion (coordinator_of demo_senv demo_submitter (\<lambda>_. [])) ?m (job_url demo_submitter ''job'') 0 \<lparr>ci_host = submit_host, ci_peer = ?running\<rparr> =
      Some (job_shown ((demo_row ''job'' 900)\<lparr>j_state := Some ''failed''\<rparr>), \<lparr>ci_host = submit_host, ci_peer = next_fault (W 2)\<rparr>)"
    using wait_ends_with_job [where jid = "''job''" and W = W and meanwhile = ?m and s = "\<lparr>ci_host = submit_host, ci_peer = ?running\<rparr>" and senv = demo_senv
      and ctx = demo_submitter and text_of = "\<lambda>_. []", OF _ _ W] seen(3) unfolding k by (auto simp: plain_text_def W_def Let_def)
  moreover have "wait_for_completion (coordinator_of demo_senv demo_submitter (\<lambda>_. [])) (\<lambda>_ w. w) (job_url demo_submitter ''gone'') 0
      \<lparr>ci_host = submit_host, ci_peer = world_at (demo_db\<lparr>jobs := []\<rparr>)\<rparr> = None"
    using wait_ends_with_job [where jid = "''gone''" and W = "\<lambda>_. world_at (demo_db\<lparr>jobs := []\<rparr>)" and meanwhile = "\<lambda>_ w. w"
      and s = "\<lparr>ci_host = submit_host, ci_peer = world_at (demo_db\<lparr>jobs := []\<rparr>)\<rparr>" and senv = demo_senv and ctx = demo_submitter and text_of = "\<lambda>_. []"]
    by (simp add: plain_text_def next_fault_def end_seen_def sql_first_def world_at_def)
  ultimately show ?thesis by (simp add: job_shown_def)
qed

end
