(* ===== verification/Gpu_Detect.thy ===== *)
theory Gpu_Detect
  imports Job_Claims
begin

text \<open>
  What the agent finds out about its machine: the backends of \<open>crates/nm-gpu\<close>, the table of runtimes (\<open>runtime_map.rs\<close>), the chip detection
  and the GPU sampling of \<open>crates/nm-macos/src/gpu_detect.rs\<close>, and the runtimes of \<open>agent/src/runtime_check.rs\<close>.

  The host is a parameter: what each command prints, the files, and the JSON parser. Text is bytes; white space and letter case are those
  of ASCII.
\<close>

section \<open>Numbers\<close>

text \<open>\<open>s.parse::<f32>()\<close>: a sign, then \<open>inf\<close>, \<open>infinity\<close> or \<open>nan\<close> in any case, or digits with at most one point and at least one digit, and an
  optional exponent; the nearest single.\<close>

definition split_point :: "string \<Rightarrow> string \<times> string" where
  "split_point s = (let a = takeWhile (\<lambda>c. c \<noteq> CHR ''.'') s in (a, drop (length a + 1) s))"

definition parse_exponent :: "string \<Rightarrow> int option" where
  "parse_exponent e =
     (let (neg, ds) = (case e of c # cs \<Rightarrow> if c = CHR ''-'' then (True, cs) else if c = CHR ''+'' then (False, cs) else (False, e) | [] \<Rightarrow> (False, []))
      in if ds \<noteq> [] \<and> all_digits ds then Some (if neg then - digits_value ds else digits_value ds) else None)"

definition parse_decimal :: "string \<Rightarrow> rat option" where
  "parse_decimal s =
     (let m = takeWhile (\<lambda>c. c \<noteq> CHR ''e'' \<and> c \<noteq> CHR ''E'') s; e = drop (length m + 1) s; (a, b) = split_point m;
          mantissa = of_int (digits_value (a @ b)) / 10 ^ length b
      in if \<not> all_digits a \<or> \<not> all_digits b \<or> a @ b = [] then None
         else if m = s then Some mantissa
         else case parse_exponent e of None \<Rightarrow> None | Some k \<Rightarrow> Some (if 0 \<le> k then mantissa * 10 ^ nat k else mantissa / 10 ^ nat (- k)))"

definition parse_f32 :: "string \<Rightarrow> f64 option" where
  "parse_f32 s =
     (let (neg, t) = (case s of c # cs \<Rightarrow> if c = CHR ''-'' then (True, cs) else if c = CHR ''+'' then (False, cs) else (False, s) | [] \<Rightarrow> (False, []));
          signed = (\<lambda>x. if neg then f64_neg x else x)
      in if to_lowercase t \<in> {''inf'', ''infinity''} then Some (signed PInf)
         else if to_lowercase t = ''nan'' then Some NaN
         else map_option (\<lambda>q. signed (f64_as_f32 (Fin q))) (parse_decimal t))"

section \<open>GPU records\<close>

datatype gpu_vendor = Vendor_Apple | Vendor_Nvidia | Vendor_Amd | Vendor_Intel_Arc | Vendor_Unknown

definition vendor_as_str :: "gpu_vendor \<Rightarrow> string" where
  "vendor_as_str v = (case v of
     Vendor_Apple \<Rightarrow> ''apple'' | Vendor_Nvidia \<Rightarrow> ''nvidia'' | Vendor_Amd \<Rightarrow> ''amd'' | Vendor_Intel_Arc \<Rightarrow> ''intel_arc'' | Vendor_Unknown \<Rightarrow> ''unknown'')"

datatype gpu_capability = Inference_Small | Inference_Mid | Inference_Large | Training

text \<open>The derived order is the order of the constructors.\<close>

instantiation gpu_capability :: linorder
begin

definition tier :: "gpu_capability \<Rightarrow> nat" where
  "tier c = (case c of Inference_Small \<Rightarrow> 0 | Inference_Mid \<Rightarrow> 1 | Inference_Large \<Rightarrow> 2 | Training \<Rightarrow> 3)"

definition less_eq_gpu_capability :: "gpu_capability \<Rightarrow> gpu_capability \<Rightarrow> bool" where
  "less_eq_gpu_capability a b \<longleftrightarrow> tier a \<le> tier b"

definition less_gpu_capability :: "gpu_capability \<Rightarrow> gpu_capability \<Rightarrow> bool" where
  "less_gpu_capability a b \<longleftrightarrow> tier a < tier b"

instance
  by standard (auto simp: less_eq_gpu_capability_def less_gpu_capability_def tier_def split: gpu_capability.splits)

end

definition from_vram_gb :: "int \<Rightarrow> gpu_capability" where
  "from_vram_gb gb = (if gb \<le> 15 then Inference_Small else if gb \<le> 31 then Inference_Mid else if gb \<le> 79 then Inference_Large else Training)"

datatype compute_api = Api_Metal | Api_Cuda | Api_Rocm | Api_OneApi | Api_OpenCl

datatype platform = Macos | Linux | Windows

record gpu_info =
  gi_vendor :: gpu_vendor
  gi_model :: string
  gi_vram_gb :: int
  gi_compute_cores :: int
  gi_compute_api :: compute_api
  gi_capability :: gpu_capability
  gi_driver_version :: string
  gi_device_index :: int
  gi_device_id :: string
  gi_platform :: platform

section \<open>Runtimes\<close>

datatype supported_runtime =
    Rt_Mlx | Rt_TorchMps | Rt_OnnxCoreml | Rt_LlamaCpp | Rt_TorchCuda | Rt_OnnxCuda | Rt_TensorRt | Rt_LlamaCppCuda | Rt_VllmCuda
  | Rt_TorchRocm | Rt_OnnxRocm | Rt_LlamaCppHip | Rt_TorchXpu | Rt_OnnxOpenVino | Rt_LlamaCppSycl | Rt_OpenVinoGenAi | Rt_Shell

definition apple_runtimes :: "gpu_capability \<Rightarrow> supported_runtime list" where
  "apple_runtimes cap = [Rt_LlamaCpp, Rt_OnnxCoreml, Rt_Shell] @ [Rt_TorchMps] @ [Rt_Mlx]"

definition nvidia_runtimes :: "gpu_capability \<Rightarrow> supported_runtime list" where
  "nvidia_runtimes cap = [Rt_TorchCuda, Rt_OnnxCuda, Rt_LlamaCppCuda, Rt_Shell] @ (if Inference_Mid \<le> cap then [Rt_TensorRt, Rt_VllmCuda] else [])"

definition amd_runtimes :: "gpu_capability \<Rightarrow> supported_runtime list" where
  "amd_runtimes cap = [Rt_TorchRocm, Rt_OnnxRocm, Rt_LlamaCppHip, Rt_Shell]"

definition intel_arc_runtimes :: "gpu_capability \<Rightarrow> supported_runtime list" where
  "intel_arc_runtimes cap = [Rt_TorchXpu, Rt_OnnxOpenVino, Rt_OpenVinoGenAi, Rt_LlamaCppSycl, Rt_Shell]"

definition for_gpu :: "gpu_info \<Rightarrow> supported_runtime list" where
  "for_gpu gpu = (case gi_vendor gpu of
     Vendor_Apple \<Rightarrow> apple_runtimes (gi_capability gpu)
   | Vendor_Nvidia \<Rightarrow> nvidia_runtimes (gi_capability gpu)
   | Vendor_Amd \<Rightarrow> amd_runtimes (gi_capability gpu)
   | Vendor_Intel_Arc \<Rightarrow> intel_arc_runtimes (gi_capability gpu)
   | Vendor_Unknown \<Rightarrow> [Rt_Shell])"

definition gpu_supports :: "gpu_info \<Rightarrow> supported_runtime \<Rightarrow> bool" where
  "gpu_supports gpu rt \<longleftrightarrow> rt \<in> set (for_gpu gpu)"

definition middle_dot :: string where
  "middle_dot = [CHR 0xC2, CHR 0xB7]"

definition vendor_label :: "gpu_info \<Rightarrow> string" where
  "vendor_label gpu =
     (case gi_vendor gpu of
        Vendor_Apple \<Rightarrow> ''Apple Metal'' | Vendor_Nvidia \<Rightarrow> ''NVIDIA CUDA'' | Vendor_Amd \<Rightarrow> ''AMD ROCm''
      | Vendor_Intel_Arc \<Rightarrow> ''Intel Arc oneAPI'' | Vendor_Unknown \<Rightarrow> ''Unknown GPU'') @ '' '' @ middle_dot @ '' '' @ gi_model gpu"

section \<open>The host\<close>

text \<open>A command that is not spawned has no output; else its success and what it printed. The JSON parser keeps the order of the parser's map.\<close>

record gpu_host =
  gh_output :: "string \<Rightarrow> string list \<Rightarrow> (bool \<times> string) option"
  gh_read :: "string \<Rightarrow> string option"
  gh_dir :: "string \<Rightarrow> string list option"
  gh_exists :: "string \<Rightarrow> bool"
  gh_json :: "string \<Rightarrow> json option"
  gh_platform :: platform

definition succeeds :: "gpu_host \<Rightarrow> string \<Rightarrow> string list \<Rightarrow> bool" where
  "succeeds h cmd args \<longleftrightarrow> (case gh_output h cmd args of Some (ok, _) \<Rightarrow> ok | None \<Rightarrow> False)"

text \<open>The first entry of a table whose key occurs in the name.\<close>

fun lookup_sub :: "'a \<Rightarrow> (string \<times> 'a) list \<Rightarrow> string \<Rightarrow> 'a" where
  "lookup_sub d [] m = d"
| "lookup_sub d ((k, v) # t) m = (if contains_str k m then v else lookup_sub d t m)"

section \<open>NVIDIA\<close>

definition nvidia_core_table :: "(string \<times> int) list" where
  "nvidia_core_table =
     [(''5090'', 21760), (''5080'', 10752), (''5070 ti'', 8960), (''5070'', 6144),
      (''4090'', 16384), (''4080 super'', 10240), (''4080'', 9728), (''4070 ti super'', 8448), (''4070 ti'', 7680), (''4070 super'', 7168),
      (''4070'', 5888), (''4060 ti'', 4352), (''4060'', 3072),
      (''h100'', 16896), (''h200'', 16896), (''a100'', 6912), (''a10'', 9216),
      (''3090'', 10496), (''3080 ti'', 10240), (''3080'', 8704)]"

definition nvidia_cuda_cores :: "string \<Rightarrow> int" where
  "nvidia_cuda_cores model = lookup_sub 0 nvidia_core_table (to_lowercase model)"

definition nvidia_available :: "gpu_host \<Rightarrow> bool" where
  "nvidia_available h = succeeds h ''nvidia-smi'' [''--version'']"

definition nvidia_gpu :: "gpu_host \<Rightarrow> string \<Rightarrow> gpu_info option" where
  "nvidia_gpu h line =
     (let parts = map trim_str (split_on (CHR '','') line)
      in if length parts < 5 then None
         else
           let vram_gb = as_u32 (unwrap_or 0 (parse_u64 (parts ! 2)) div 1024)
           in Some \<lparr>gi_vendor = Vendor_Nvidia, gi_model = parts ! 1, gi_vram_gb = vram_gb, gi_compute_cores = nvidia_cuda_cores (parts ! 1),
                gi_compute_api = Api_Cuda, gi_capability = from_vram_gb vram_gb, gi_driver_version = parts ! 3,
                gi_device_index = unwrap_or 0 (parse_u32 (parts ! 0)), gi_device_id = parts ! 4, gi_platform = gh_platform h\<rparr>)"

definition nvidia_enumerate :: "gpu_host \<Rightarrow> gpu_info list option" where
  "nvidia_enumerate h =
     (case gh_output h ''nvidia-smi'' [''--query-gpu=index,name,memory.total,driver_version,pci.bus_id'', ''--format=csv,noheader,nounits''] of
        Some (True, stdout) \<Rightarrow> Some (List.map_filter (nvidia_gpu h) (lines_of stdout)) | _ \<Rightarrow> None)"

section \<open>AMD\<close>

definition rocm_version :: "gpu_host \<Rightarrow> string" where
  "rocm_version h = (case gh_output h ''rocm-smi'' [''--version''] of Some (_, s) \<Rightarrow> trim_str s | None \<Rightarrow> [])"

definition amd_available :: "gpu_host \<Rightarrow> bool" where
  "amd_available h \<longleftrightarrow> succeeds h ''rocm-smi'' [''--version''] \<or> gh_exists h ''/sys/class/drm''"

text \<open>\<open>trim_start_matches("card")\<close> takes the word away as often as it is there.\<close>

function trim_start_card :: "string \<Rightarrow> string" where
  "trim_start_card s = (if starts_with ''card'' s then trim_start_card (drop 4 s) else s)"
  by pat_completeness auto

termination
proof (relation "measure length")
  fix s :: string
  assume "starts_with ''card'' s"
  then have "s \<noteq> []" by (auto simp: starts_with_def)
  then show "(drop 4 s, s) \<in> measure length" by (cases s) auto
qed simp

definition rocm_gpu :: "gpu_host \<Rightarrow> string \<times> json \<Rightarrow> gpu_info option" where
  "rocm_gpu h = (\<lambda>(key, entry).
     if \<not> starts_with ''card'' key then None
     else
       let idx = unwrap_or 0 (parse_u32 (trim_start_card key));
           vram_gb = as_u32 (unwrap_or 0 (parse_u64 (unwrap_or ''0'' (j_as_str (j_get ''VRAM Total Memory (B)'' entry)))) div 1024 div 1024 div 1024)
       in Some \<lparr>gi_vendor = Vendor_Amd, gi_model = unwrap_or ''AMD GPU'' (j_as_str (j_get ''Card series'' entry)), gi_vram_gb = vram_gb,
            gi_compute_cores = 0, gi_compute_api = Api_Rocm, gi_capability = from_vram_gb vram_gb, gi_driver_version = rocm_version h,
            gi_device_index = idx, gi_device_id = ''card'' @ int_str idx, gi_platform = Linux\<rparr>)"

definition enumerate_via_rocm_smi :: "gpu_host \<Rightarrow> gpu_info list option" where
  "enumerate_via_rocm_smi h =
     (case gh_output h ''rocm-smi'' [''--showproductname'', ''--showmeminfo'', ''vram'', ''--json''] of
        Some (True, stdout) \<Rightarrow>
          (case gh_json h stdout of
             None \<Rightarrow> None
           | Some (JObj cards) \<Rightarrow> Some (List.map_filter (rocm_gpu h) cards)
           | Some _ \<Rightarrow> Some [])
      | _ \<Rightarrow> None)"

text \<open>The loop over \<open>/sys/class/drm\<close>, with the vendor it looks for and how it reads a card; the index counts the cards that are kept.\<close>

fun drm_cards :: "gpu_host \<Rightarrow> string \<Rightarrow> (string \<Rightarrow> int \<Rightarrow> gpu_info option) \<Rightarrow> int \<Rightarrow> string list \<Rightarrow> gpu_info list" where
  "drm_cards h vendor mk idx [] = []"
| "drm_cards h vendor mk idx (name # names) =
     (if \<not> starts_with ''card'' name \<or> CHR ''-'' \<in> set name then drm_cards h vendor mk idx names
      else case gh_read h (''/sys/class/drm/'' @ name @ ''/device/vendor'') of
             None \<Rightarrow> drm_cards h vendor mk idx names
           | Some v \<Rightarrow>
               if trim_str v \<noteq> vendor then drm_cards h vendor mk idx names
               else case mk name idx of
                      None \<Rightarrow> drm_cards h vendor mk idx names
                    | Some g \<Rightarrow> g # drm_cards h vendor mk (as_u32 (idx + 1)) names)"

definition drm_enumerate :: "gpu_host \<Rightarrow> string \<Rightarrow> (string \<Rightarrow> int \<Rightarrow> gpu_info option) \<Rightarrow> gpu_info list option" where
  "drm_enumerate h vendor mk =
     (if \<not> gh_exists h ''/sys/class/drm'' then Some [] else map_option (drm_cards h vendor mk 0) (gh_dir h ''/sys/class/drm''))"

definition device_text :: "gpu_host \<Rightarrow> string \<Rightarrow> string \<Rightarrow> string \<Rightarrow> string" where
  "device_text h name file dflt = trim_str (unwrap_or dflt (gh_read h (''/sys/class/drm/'' @ name @ ''/device/'' @ file)))"

definition device_gb :: "gpu_host \<Rightarrow> string \<Rightarrow> string \<Rightarrow> int" where
  "device_gb h name file =
     as_u32 (unwrap_or 0 (Option.bind (gh_read h (''/sys/class/drm/'' @ name @ ''/device/'' @ file)) (\<lambda>s. parse_u64 (trim_str s)))
       div 1024 div 1024 div 1024)"

definition amd_card :: "gpu_host \<Rightarrow> string \<Rightarrow> int \<Rightarrow> gpu_info option" where
  "amd_card h name idx =
     (let vram_gb = device_gb h name ''mem_info_vram_total''
      in Some \<lparr>gi_vendor = Vendor_Amd, gi_model = device_text h name ''product_name'' ''AMD GPU'', gi_vram_gb = vram_gb, gi_compute_cores = 0,
           gi_compute_api = Api_Rocm, gi_capability = from_vram_gb vram_gb, gi_driver_version = [], gi_device_index = idx, gi_device_id = name,
           gi_platform = Linux\<rparr>)"

definition amd_enumerate :: "gpu_host \<Rightarrow> gpu_info list option" where
  "amd_enumerate h = (case enumerate_via_rocm_smi h of
     Some (g # gs) \<Rightarrow> Some (g # gs) | _ \<Rightarrow> drm_enumerate h ''0x1002'' (amd_card h))"

section \<open>Intel Arc\<close>

definition intel_eu_table :: "(string \<times> int) list" where
  "intel_eu_table = [(''b580'', 20 * 16), (''b770'', 32 * 16), (''a770'', 512), (''a750'', 448), (''a580'', 256), (''a380'', 128), (''a310'', 64),
     (''flex 170'', 512), (''flex 140'', 128)]"

definition intel_eu_count :: "string \<Rightarrow> int" where
  "intel_eu_count model = lookup_sub 0 intel_eu_table (to_lowercase model)"

definition intel_present_in_sysfs :: "gpu_host \<Rightarrow> bool" where
  "intel_present_in_sysfs h \<longleftrightarrow> gh_exists h ''/sys/class/drm'' \<and>
     (case gh_dir h ''/sys/class/drm'' of
        None \<Rightarrow> False
      | Some names \<Rightarrow> list_ex (\<lambda>n. map_option trim_str (gh_read h (''/sys/class/drm/'' @ n @ ''/device/vendor'')) = Some ''0x8086'') names)"

definition intel_available :: "gpu_host \<Rightarrow> bool" where
  "intel_available h \<longleftrightarrow> succeeds h ''xpu-smi'' [''discovery''] \<or> intel_present_in_sysfs h"

definition xpu_gpu :: "nat \<times> json \<Rightarrow> gpu_info" where
  "xpu_gpu = (\<lambda>(idx, dev).
     let model = unwrap_or ''Intel Arc'' (j_as_str (j_get ''device_name'' dev));
         vram_gb = as_u32 (unwrap_or 0 (j_as_u64 (j_get ''memory_physical_size'' dev)) div 1024)
     in \<lparr>gi_vendor = Vendor_Intel_Arc, gi_model = model, gi_vram_gb = vram_gb, gi_compute_cores = intel_eu_count model, gi_compute_api = Api_OneApi,
         gi_capability = from_vram_gb vram_gb, gi_driver_version = unwrap_or [] (j_as_str (j_get ''driver_version'' dev)),
         gi_device_index = as_u32 (int idx), gi_device_id = unwrap_or [] (j_as_str (j_get ''pci_bdf_address'' dev)), gi_platform = Linux\<rparr>)"

definition enumerate_via_xpu_smi :: "gpu_host \<Rightarrow> gpu_info list option" where
  "enumerate_via_xpu_smi h =
     (case gh_output h ''xpu-smi'' [''discovery'', ''-j''] of
        Some (True, stdout) \<Rightarrow>
          (case gh_json h stdout of
             None \<Rightarrow> None
           | Some v \<Rightarrow> (case j_get ''device_list'' v of JArr devices \<Rightarrow> Some (map xpu_gpu (zip [0..<length devices] devices)) | _ \<Rightarrow> Some []))
      | _ \<Rightarrow> None)"

definition intel_card :: "gpu_host \<Rightarrow> string \<Rightarrow> int \<Rightarrow> gpu_info option" where
  "intel_card h name idx =
     (let vram_gb = device_gb h name ''tile0/gt/gt0/lmem_max''
      in if vram_gb = 0 then None
         else Some \<lparr>gi_vendor = Vendor_Intel_Arc, gi_model = device_text h name ''product_name'' ''Intel Arc'', gi_vram_gb = vram_gb,
           gi_compute_cores = 0, gi_compute_api = Api_OneApi, gi_capability = from_vram_gb vram_gb, gi_driver_version = [],
           gi_device_index = idx, gi_device_id = name, gi_platform = Linux\<rparr>)"

definition intel_enumerate :: "gpu_host \<Rightarrow> gpu_info list option" where
  "intel_enumerate h = (case enumerate_via_xpu_smi h of
     Some (g # gs) \<Rightarrow> Some (g # gs) | _ \<Rightarrow> drm_enumerate h ''0x8086'' (intel_card h))"

section \<open>Apple\<close>

fun j_first :: "json \<Rightarrow> json" where
  "j_first (JArr (x # xs)) = x"
| "j_first _ = JNull"

definition stdout_of :: "gpu_host \<Rightarrow> string \<Rightarrow> string list \<Rightarrow> string option" where
  "stdout_of h cmd args = map_option snd (gh_output h cmd args)"

definition detect_chip_model :: "gpu_host \<Rightarrow> string" where
  "detect_chip_model h =
     (let s = trim_str (unwrap_or [] (stdout_of h ''sysctl'' [''-n'', ''machdep.cpu.brand_string'']))
      in if s \<noteq> [] then s
         else unwrap_or ''Apple Silicon''
           (Option.bind (stdout_of h ''system_profiler'' [''SPHardwareDataType'', ''-json'']) (\<lambda>out.
            Option.bind (gh_json h out) (\<lambda>v. j_as_str (j_get ''chip_type'' (j_first (j_get ''SPHardwareDataType'' v)))))))"

definition detect_unified_memory_gb :: "gpu_host \<Rightarrow> int" where
  "detect_unified_memory_gb h =
     (case Option.bind (stdout_of h ''sysctl'' [''-n'', ''hw.memsize'']) (\<lambda>out. parse_u64 (trim_str out)) of
        Some bytes \<Rightarrow> as_u32 (bytes div 1024 div 1024 div 1024) | None \<Rightarrow> 0)"

definition apple_core_table :: "(string \<times> int) list" where
  "apple_core_table =
     [(''m4 ultra'', 80), (''m4 max'', 40), (''m4 pro'', 20), (''m4'', 10), (''m3 ultra'', 60), (''m3 max'', 40), (''m3 pro'', 18), (''m3'', 10),
      (''m2 ultra'', 60), (''m2 max'', 38), (''m2 pro'', 19), (''m2'', 10), (''m1 ultra'', 64), (''m1 max'', 32), (''m1 pro'', 16), (''m1'', 8)]"

definition apple_gpu_cores :: "string \<Rightarrow> int" where
  "apple_gpu_cores model = lookup_sub 0 apple_core_table (to_lowercase model)"

definition capability_for_apple :: "string \<Rightarrow> gpu_capability" where
  "capability_for_apple model =
     lookup_sub Inference_Small [(''ultra'', Training), (''max'', Inference_Large), (''pro'', Inference_Mid)] (to_lowercase model)"

definition macos_version :: "gpu_host \<Rightarrow> string" where
  "macos_version h = unwrap_or [] (map_option trim_str (stdout_of h ''sw_vers'' [''-productVersion'']))"

definition nth_opt :: "nat \<Rightarrow> 'a list \<Rightarrow> 'a option" where
  "nth_opt n xs = (if n < length xs then Some (xs ! n) else None)"

text \<open>The first line that mentions the key and has the part that is looked for.\<close>

fun first_value :: "string \<Rightarrow> (string \<Rightarrow> 'a option) \<Rightarrow> string list \<Rightarrow> 'a option" where
  "first_value key part [] = None"
| "first_value key part (l # ls) =
     (if contains_str key l then (case part l of Some v \<Rightarrow> Some v | None \<Rightarrow> first_value key part ls) else first_value key part ls)"

definition platform_uuid :: "gpu_host \<Rightarrow> string" where
  "platform_uuid h = unwrap_or ''unknown'' (Option.bind (stdout_of h ''ioreg'' [''-rd1'', ''-c'', ''IOPlatformExpertDevice''])
     (\<lambda>out. first_value ''IOPlatformUUID'' (\<lambda>l. nth_opt 3 (split_on (CHR 0x22) l)) (lines_of out)))"

definition apple_available :: "gpu_host \<Rightarrow> bool" where
  "apple_available h \<longleftrightarrow> gh_platform h = Macos"

definition apple_enumerate :: "gpu_host \<Rightarrow> gpu_info list option" where
  "apple_enumerate h =
     (if gh_platform h \<noteq> Macos then Some []
      else let model = detect_chip_model h
           in Some [\<lparr>gi_vendor = Vendor_Apple, gi_model = model, gi_vram_gb = detect_unified_memory_gb h, gi_compute_cores = apple_gpu_cores model,
                gi_compute_api = Api_Metal, gi_capability = capability_for_apple model, gi_driver_version = macos_version h, gi_device_index = 0,
                gi_device_id = platform_uuid h, gi_platform = Macos\<rparr>])"

section \<open>All backends\<close>

record gpu_backend =
  gb_name :: string
  gb_available :: "gpu_host \<Rightarrow> bool"
  gb_enumerate :: "gpu_host \<Rightarrow> gpu_info list option"

definition gpu_backends :: "gpu_backend list" where
  "gpu_backends =
     [\<lparr>gb_name = ''apple-metal'', gb_available = apple_available, gb_enumerate = apple_enumerate\<rparr>,
      \<lparr>gb_name = ''nvidia-cuda'', gb_available = nvidia_available, gb_enumerate = nvidia_enumerate\<rparr>,
      \<lparr>gb_name = ''amd-rocm'', gb_available = amd_available, gb_enumerate = amd_enumerate\<rparr>,
      \<lparr>gb_name = ''intel-arc-oneapi'', gb_available = intel_available, gb_enumerate = intel_enumerate\<rparr>]"

definition detect_gpus :: "gpu_host \<Rightarrow> gpu_info list" where
  "detect_gpus h = concat (map (\<lambda>b. if gb_available b h then unwrap_or [] (gb_enumerate b h) else []) gpu_backends)"

text \<open>\<open>sort_by\<close> with the arguments swapped: a stable sort, the highest capability first.\<close>

fun insert_desc :: "gpu_info \<Rightarrow> gpu_info list \<Rightarrow> gpu_info list" where
  "insert_desc g [] = [g]"
| "insert_desc g (x # xs) = (if gi_capability x \<le> gi_capability g then g # x # xs else x # insert_desc g xs)"

definition sort_desc :: "gpu_info list \<Rightarrow> gpu_info list" where
  "sort_desc gs = foldr insert_desc gs []"

definition detect_primary_gpu :: "gpu_host \<Rightarrow> gpu_info option" where
  "detect_primary_gpu h = (case sort_desc (detect_gpus h) of g # _ \<Rightarrow> Some g | [] \<Rightarrow> None)"

section \<open>The chip of the agent\<close>

definition sysctl_str :: "gpu_host \<Rightarrow> string \<Rightarrow> string option" where
  "sysctl_str h key = (case gh_output h ''sysctl'' [''-n'', key] of Some (True, out) \<Rightarrow> Some (trim_str out) | _ \<Rightarrow> None)"

definition sysctl_u64 :: "gpu_host \<Rightarrow> string \<Rightarrow> int option" where
  "sysctl_u64 h key = Option.bind (sysctl_str h key) (\<lambda>s. parse_u64 (trim_str s))"

definition ioreg_value :: "gpu_host \<Rightarrow> string \<Rightarrow> string option" where
  "ioreg_value h key = Option.bind (stdout_of h ''ioreg'' [''-rd1'', ''-c'', ''IOPlatformExpertDevice''])
     (\<lambda>out. map_option (\<lambda>v. trim_matches (CHR 0x22) (trim_str v)) (first_value key (\<lambda>l. nth_opt 1 (split_on (CHR ''='') l)) (lines_of out)))"

definition mac_core_table :: "(string \<times> int) list" where
  "mac_core_table =
     [(''m4 ultra'', 80), (''m3 ultra'', 80), (''m2 ultra'', 76), (''m1 ultra'', 64), (''m4 max'', 40), (''m3 max'', 40), (''m2 max'', 38),
      (''m1 max'', 32), (''m4 pro'', 20), (''m3 pro'', 18), (''m2 pro'', 19), (''m1 pro'', 16), (''m4'', 10), (''m3'', 10), (''m2'', 10), (''m1'', 8)]"

definition mac_gpu_cores :: "string \<Rightarrow> int" where
  "mac_gpu_cores chip_model = lookup_sub 10 mac_core_table (to_lowercase chip_model)"

definition normalize_chip_name :: "gpu_host \<Rightarrow> string \<Rightarrow> string" where
  "normalize_chip_name h raw =
     (if starts_with ''Apple M'' raw then raw
      else unwrap_or raw (Option.bind (stdout_of h ''system_profiler'' [''SPHardwareDataType'']) (\<lambda>out.
        map_option (\<lambda>l. trim_str (split_on (CHR '':'') l ! 1))
          (List.find (\<lambda>l. starts_with ''Chip:'' (dropWhile is_space l)) (lines_of out)))))"

definition detect_metal_version :: "gpu_host \<Rightarrow> string" where
  "detect_metal_version h = unwrap_or ''Metal (version unknown)'' (Option.bind (stdout_of h ''system_profiler'' [''SPDisplaysDataType'']) (\<lambda>out.
     map_option trim_str (List.find (\<lambda>l. contains_str ''Metal'' l \<and> contains_str ''GPUFamily'' l) (lines_of out))))"

definition detect_macos_version :: "gpu_host \<Rightarrow> string" where
  "detect_macos_version h = unwrap_or ''unknown'' (map_option trim_str (stdout_of h ''sw_vers'' [''-productVersion'']))"

definition detect_mac_chip :: "gpu_host \<Rightarrow> mac_chip_info option" where
  "detect_mac_chip h =
     (let raw = (case sysctl_str h ''machdep.cpu.brand_string'' of Some s \<Rightarrow> s | None \<Rightarrow> unwrap_or ''Apple Silicon'' (sysctl_str h ''hw.model''));
          chip_model = normalize_chip_name h raw
      in case sysctl_u64 h ''hw.memsize'' of
           None \<Rightarrow> None
         | Some memory_bytes \<Rightarrow> Some
             \<lparr>mc_chip_model = chip_model, mc_unified_memory_gb = as_u32 (memory_bytes div (1024 * 1024 * 1024)), mc_gpu_cores = mac_gpu_cores chip_model,
              mc_cpu_cores = as_u32 (unwrap_or 8 (sysctl_u64 h ''hw.logicalcpu'')), mc_metal_version = detect_metal_version h,
              mc_serial_number = unwrap_or ''UNKNOWN'' (ioreg_value h ''IOPlatformSerialNumber''),
              mc_platform_uuid = unwrap_or ''UNKNOWN'' (ioreg_value h ''IOPlatformUUID''), mc_macos_version = detect_macos_version h\<rparr>)"

section \<open>GPU utilization\<close>

record gpu_stats =
  gs_utilization_pct :: f64
  gs_memory_used_mb :: int
  gs_memory_total_mb :: int

text \<open>The first line that mentions the key and has an equals sign decides, whether its value parses or not.\<close>

definition after_equals :: "string \<Rightarrow> string option" where
  "after_equals l = (if CHR ''='' \<in> set l then Some (drop (length (takeWhile (\<lambda>c. c \<noteq> CHR ''='') l) + 1) l) else None)"

definition parse_ioreg_float :: "string \<Rightarrow> string \<Rightarrow> f64 option" where
  "parse_ioreg_float out key =
     Option.bind (first_value key after_equals (lines_of out)) (\<lambda>v. parse_f32 (trim_matches (CHR 0x22) (trim_str v)))"

definition parse_ioreg_u64 :: "string \<Rightarrow> string \<Rightarrow> int option" where
  "parse_ioreg_u64 out key =
     Option.bind (first_value key after_equals (lines_of out)) (\<lambda>v. parse_u64 (trim_matches (CHR 0x22) (trim_str v)))"

definition or_else :: "'a option \<Rightarrow> 'a option \<Rightarrow> 'a option" where
  "or_else a b = (case a of Some x \<Rightarrow> Some x | None \<Rightarrow> b)"

definition sample_gpu_utilization :: "gpu_host \<Rightarrow> gpu_stats option" where
  "sample_gpu_utilization h =
     map_option (\<lambda>out.
       \<lparr>gs_utilization_pct = unwrap_or (f64_of 0) (or_else (parse_ioreg_float out ''Device Utilization %'') (parse_ioreg_float out ''GPU Activity(%)'')),
        gs_memory_used_mb = unwrap_or 0 (parse_ioreg_u64 out ''IOGPUOutstandingBufferMB''),
        gs_memory_total_mb = unwrap_or 0 (sysctl_u64 h ''hw.memsize'') div (1024 * 1024)\<rparr>)
     (stdout_of h ''ioreg'' [''-r'', ''-d'', ''1'', ''-n'', ''AGXAccelerator''])"

section \<open>Installed runtimes\<close>

text \<open>These run on the machine of the job runner. \<open>.output()\<close> that cannot be spawned counts as a failure.\<close>

definition interpreters :: "string list" where
  "interpreters = [''python3.12'', ''python3.13'', ''python3.11'', ''python3'']"

fun try_interpreters :: "agent_env \<Rightarrow> string \<Rightarrow> string list \<Rightarrow> bool agent_prog" where
  "try_interpreters env package [] = retE False"
| "try_interpreters env package (i # is) =
     bindE (run_command env (command_of i [''-c'', ''import '' @ package])) (\<lambda>r.
       if r = Some (Some 0) then retE True else try_interpreters env package is)"

definition python_package_available :: "agent_env \<Rightarrow> string \<Rightarrow> bool agent_prog" where
  "python_package_available env package = try_interpreters env package interpreters"

definition is_runtime_installed :: "agent_env \<Rightarrow> string \<Rightarrow> bool agent_prog" where
  "is_runtime_installed env rt =
     (if rt = ''mlx'' then python_package_available env ''mlx''
      else if rt = ''torch-mps'' then python_package_available env ''torch''
      else if rt = ''onnx-coreml'' then python_package_available env ''onnxruntime''
      else if rt = ''llama-cpp'' then
        bindE (python_package_available env ''llama_cpp'') (\<lambda>ok.
          if ok then retE True
          else bindE (run_command env (command_of ''which'' [''llama-cli''])) (\<lambda>r. retE (r = Some (Some 0))))
      else retE (rt = ''shell''))"

fun detect_installed_runtimes :: "agent_env \<Rightarrow> string list \<Rightarrow> string list agent_prog" where
  "detect_installed_runtimes env [] = retE []"
| "detect_installed_runtimes env (rt # rts) =
     bindE (is_runtime_installed env rt) (\<lambda>ok.
     bindE (detect_installed_runtimes env rts) (\<lambda>installed. retE (if ok then rt # installed else installed)))"

definition install_llama_cpp :: "agent_env \<Rightarrow> unit agent_prog" where
  "install_llama_cpp env =
     check_status env ((command_of ''pip3'' [''install'', ''llama-cpp-python''])
         \<lparr>cm_env := [(''CMAKE_ARGS'', ''-DGGML_METAL=on''), (''FORCE_CMAKE'', ''1'')]\<rparr>) ''pip3''
       ''Failed to install llama-cpp-python with Metal support''"

definition install_runtime :: "agent_env \<Rightarrow> string \<Rightarrow> unit agent_prog" where
  "install_runtime env rt =
     (case runtime_from_str rt of
        None \<Rightarrow> failE (''Unknown runtime: '' @ rt)
      | Some r \<Rightarrow>
          if pip_packages r = [] then (if rt = ''llama-cpp'' then install_llama_cpp env else retE ())
          else check_status env (command_of ''pip3'' (''install'' # pip_packages r)) ''pip3'' (''pip3 install failed for runtime: '' @ rt))"

section \<open>The primary GPU\<close>

lemma sort_desc_set [simp]: "set (sort_desc gs) = set gs"
proof -
  have ins: "set (insert_desc g xs) = insert g (set xs)" for g xs
    by (induction xs) auto
  show ?thesis by (induction gs) (simp_all add: sort_desc_def ins)
qed

lemma insert_desc_hd:
  "hd (insert_desc g xs) = (if xs = [] \<or> gi_capability (hd xs) \<le> gi_capability g then g else hd xs)" "insert_desc g xs \<noteq> []"
  by (cases xs; simp)+

text \<open>The head of the sorted list is the first of the greatest.\<close>

lemma sort_desc_hd:
  "gs \<noteq> [] \<Longrightarrow> \<exists>pre post. gs = pre @ hd (sort_desc gs) # post \<and>
     (\<forall>g\<in>set pre. gi_capability g < gi_capability (hd (sort_desc gs))) \<and> (\<forall>g\<in>set post. gi_capability g \<le> gi_capability (hd (sort_desc gs)))"
proof (induction gs)
  case (Cons x gs)
  have step: "sort_desc (x # gs) = insert_desc x (sort_desc gs)" by (simp add: sort_desc_def)
  show ?case
  proof (cases "gs = []")
    case True
    then show ?thesis by (intro exI [of _ "[]"] exI [of _ "[]"]) (simp add: sort_desc_def)
  next
    case False
    then have ne: "sort_desc gs \<noteq> []" using sort_desc_set [of gs] by fastforce
    let ?h = "hd (sort_desc gs)"
    obtain pre post where gs: "gs = pre @ ?h # post" and pre: "\<forall>g\<in>set pre. gi_capability g < gi_capability ?h"
      and post: "\<forall>g\<in>set post. gi_capability g \<le> gi_capability ?h"
      using Cons.IH [OF False] by blast
    show ?thesis
    proof (cases "gi_capability ?h \<le> gi_capability x")
      case True
      then have "\<forall>g\<in>set gs. gi_capability g \<le> gi_capability x"
        using pre post by (subst gs) (auto intro: order_trans less_imp_le)
      moreover have "hd (sort_desc (x # gs)) = x" using True by (simp add: step insert_desc_hd ne)
      ultimately show ?thesis by (intro exI [of _ "[]"] exI [of _ gs]) simp
    next
      case False
      then have "hd (sort_desc (x # gs)) = ?h" by (simp add: step insert_desc_hd ne)
      then show ?thesis using pre post False gs by (intro exI [of _ "x # pre"] exI [of _ post]) auto
    qed
  qed
qed simp

text \<open>The primary GPU. \<open>detect_primary_gpu\<close> finds none only on a host without GPUs; else it is the first of those that no other exceeds:
  every GPU that the backends list before it has a lower capability, and every later one at most the same.\<close>

theorem primary_gpu_first_best:
  "(detect_primary_gpu h = None \<longleftrightarrow> detect_gpus h = []) \<and>
   (\<forall>g. detect_primary_gpu h = Some g \<longrightarrow>
     (\<exists>pre post. detect_gpus h = pre @ g # post \<and> (\<forall>x\<in>set pre. gi_capability x < gi_capability g) \<and>
       (\<forall>x\<in>set post. gi_capability x \<le> gi_capability g)))"
proof (cases "detect_gpus h = []")
  case True
  then show ?thesis by (simp add: detect_primary_gpu_def sort_desc_def)
next
  case False
  then have "sort_desc (detect_gpus h) \<noteq> []" using sort_desc_set [of "detect_gpus h"] by fastforce
  then obtain g gs where "sort_desc (detect_gpus h) = g # gs" by (cases "sort_desc (detect_gpus h)") auto
  with sort_desc_hd [OF False] False show ?thesis by (simp add: detect_primary_gpu_def)
qed

section \<open>The table of nvidia-smi\<close>

text \<open>A cell of the table: without a comma, a line feed, or space around it.\<close>

definition plain_cell :: "string \<Rightarrow> bool" where
  "plain_cell s \<longleftrightarrow> CHR '','' \<notin> set s \<and> CHR 0x0A \<notin> set s \<and> trim_str s = s"

lemma plain_number: "0 \<le> i \<Longrightarrow> plain_cell (int_str i)"
proof -
  assume i: "0 \<le> i"
  have "dropWhile is_space (int_digits n) = int_digits n" "dropWhile is_space (rev (int_digits n)) = rev (int_digits n)" for n
    using is_space_digit by (intro dropWhile_none, simp)+
  then have "trim_str (int_str i) = int_str i" by (simp add: trim_str_def int_str_of_nat i)
  moreover have "CHR '','' \<notin> set (int_digits n)" "CHR 0x0A \<notin> set (int_digits n)" for n
    using int_digits_chars by fastforce+
  ultimately show ?thesis by (simp add: plain_cell_def int_str_of_nat i)
qed

record smi_row =
  sr_index :: int
  sr_name :: string
  sr_memory_mib :: int
  sr_driver :: string
  sr_bus :: string

definition smi_row_ok :: "smi_row \<Rightarrow> bool" where
  "smi_row_ok r \<longleftrightarrow> 0 \<le> sr_index r \<and> sr_index r < 4294967296 \<and> 0 \<le> sr_memory_mib r \<and> sr_memory_mib r < 1024 * 4294967296 \<and>
     plain_cell (sr_name r) \<and> plain_cell (sr_driver r) \<and> plain_cell (sr_bus r)"

definition smi_line :: "smi_row \<Rightarrow> string" where
  "smi_line r = int_str (sr_index r) @ '', '' @ sr_name r @ '', '' @ int_str (sr_memory_mib r) @ '', '' @ sr_driver r @ '', '' @ sr_bus r"

definition smi_gpu :: "gpu_host \<Rightarrow> smi_row \<Rightarrow> gpu_info" where
  "smi_gpu h r = \<lparr>gi_vendor = Vendor_Nvidia, gi_model = sr_name r, gi_vram_gb = sr_memory_mib r div 1024,
     gi_compute_cores = nvidia_cuda_cores (sr_name r), gi_compute_api = Api_Cuda, gi_capability = from_vram_gb (sr_memory_mib r div 1024),
     gi_driver_version = sr_driver r, gi_device_index = sr_index r, gi_device_id = sr_bus r, gi_platform = gh_platform h\<rparr>"

lemma smi_line_cells:
  assumes "smi_row_ok r"
  shows "map trim_str (split_on (CHR '','') (smi_line r)) =
    [int_str (sr_index r), sr_name r, int_str (sr_memory_mib r), sr_driver r, sr_bus r]"
proof -
  have "plain_cell (int_str (sr_index r))" "plain_cell (int_str (sr_memory_mib r))" using assms by (auto simp: smi_row_ok_def intro: plain_number)
  then show ?thesis using assms
    by (simp add: smi_line_def smi_row_ok_def plain_cell_def split_on_join split_on_one split_on_join [of _ "_ # _", simplified] trim_str_lead)
qed

lemma smi_line_plain:
  assumes "smi_row_ok r"
  shows "CHR 0x0A \<notin> set (smi_line r) \<and> strip_cr (smi_line r) = smi_line r"
proof -
  have cells: "plain_cell (int_str (sr_index r))" "plain_cell (int_str (sr_memory_mib r))" "plain_cell (sr_bus r)"
    using assms by (auto simp: smi_row_ok_def intro: plain_number)
  have "last (smi_line r) \<noteq> CHR 0x0D"
  proof (cases "sr_bus r = []")
    case True
    then show ?thesis by (simp add: smi_line_def)
  next
    case False
    then have "\<not> is_space (last (sr_bus r))" using cells by (simp add: plain_cell_def trim_str_last)
    then show ?thesis using False by (auto simp: smi_line_def is_space_def)
  qed
  then show ?thesis using assms cells by (auto simp: strip_cr_def smi_line_def smi_row_ok_def plain_cell_def)
qed

lemma as_u32_gib: "0 \<le> m \<Longrightarrow> m < 1024 * 4294967296 \<Longrightarrow> as_u32 (m div 1024) = m div 1024"
  unfolding as_u32_def by (rule mod_pos_pos_trivial) (simp_all add: div_less_iff_less_mult)

lemma nvidia_gpu_line: "smi_row_ok r \<Longrightarrow> nvidia_gpu h (smi_line r) = Some (smi_gpu h r)"
  using as_u32_gib [of "sr_memory_mib r"]
  by (simp add: nvidia_gpu_def smi_line_cells Let_def smi_gpu_def smi_row_ok_def parse_int_str unwrap_or_def)

definition nvidia_query :: "string list" where
  "nvidia_query = [''--query-gpu=index,name,memory.total,driver_version,pci.bus_id'', ''--format=csv,noheader,nounits'']"

text \<open>C26: Every card that \<open>nvidia-smi\<close> prints is read back. For any table of cards whose text cells have no comma, line feed or surrounding space,
  \<open>enumerate\<close> gives one GPU per row, in order, with the row's index, name, driver and bus, its memory in whole GiB rounded down and the
  tier of that; and a card may run TensorRT and vLLM jobs exactly when the table says at least 16384 MiB.\<close>

theorem nvidia_table_roundtrip:
  assumes "gh_output h ''nvidia-smi'' nvidia_query = Some (True, join_lines (map smi_line rows))" "list_all smi_row_ok rows"
  shows "nvidia_enumerate h = Some (map (smi_gpu h) rows) \<and>
    list_all (\<lambda>r. (gpu_supports (smi_gpu h r) Rt_TensorRt \<longleftrightarrow> 16384 \<le> sr_memory_mib r) \<and>
      (gpu_supports (smi_gpu h r) Rt_VllmCuda \<longleftrightarrow> 16384 \<le> sr_memory_mib r)) rows"
proof
  have ok: "smi_row_ok r" if "r \<in> set rows" for r using assms(2) that by (simp add: list_all_iff)
  then have "lines_of (join_lines (map smi_line rows)) = map smi_line rows"
    unfolding join_lines_def by (intro lines_of_rows) (auto dest: smi_line_plain)
  moreover have "List.map_filter (nvidia_gpu h) (map smi_line rows) = map (smi_gpu h) rows"
    using ok by (induction rows) (simp_all add: map_filter_simps nvidia_gpu_line)
  ultimately show "nvidia_enumerate h = Some (map (smi_gpu h) rows)"
    using assms(1) by (simp add: nvidia_enumerate_def nvidia_query_def)
  have "Inference_Mid \<le> from_vram_gb (m div 1024) \<longleftrightarrow> 16384 \<le> m" for m :: int
    by (auto simp: from_vram_gb_def less_eq_gpu_capability_def tier_def)
  then show "list_all (\<lambda>r. (gpu_supports (smi_gpu h r) Rt_TensorRt \<longleftrightarrow> 16384 \<le> sr_memory_mib r) \<and>
      (gpu_supports (smi_gpu h r) Rt_VllmCuda \<longleftrightarrow> 16384 \<le> sr_memory_mib r)) rows"
    by (auto simp: list_all_iff gpu_supports_def for_gpu_def smi_gpu_def nvidia_runtimes_def)
qed

definition demo_gpu_host :: gpu_host where
  "demo_gpu_host = \<lparr>gh_output = (\<lambda>cmd args.
       if cmd = ''nvidia-smi'' then Some (True, join_lines (map smi_line
         [\<lparr>sr_index = 0, sr_name = ''NVIDIA A10G'', sr_memory_mib = 23028, sr_driver = ''550.54.15'', sr_bus = ''00000000:00:1E.0''\<rparr>,
          \<lparr>sr_index = 1, sr_name = ''NVIDIA GeForce RTX 4080'', sr_memory_mib = 16376, sr_driver = ''550.54.15'', sr_bus = ''00000000:00:1F.0''\<rparr>]))
       else None),
     gh_read = (\<lambda>p. None), gh_dir = (\<lambda>p. None), gh_exists = (\<lambda>p. False), gh_json = (\<lambda>s. None), gh_platform = Linux\<rparr>"

text \<open>A card that is sold with 16 GB and reports 16376 MiB is in the lowest tier.\<close>

lemma nvidia_table_roundtrip_witness:
  "nvidia_enumerate demo_gpu_host = Some (map (smi_gpu demo_gpu_host)
     [\<lparr>sr_index = 0, sr_name = ''NVIDIA A10G'', sr_memory_mib = 23028, sr_driver = ''550.54.15'', sr_bus = ''00000000:00:1E.0''\<rparr>,
      \<lparr>sr_index = 1, sr_name = ''NVIDIA GeForce RTX 4080'', sr_memory_mib = 16376, sr_driver = ''550.54.15'', sr_bus = ''00000000:00:1F.0''\<rparr>])"
  by (rule conjunct1 [OF nvidia_table_roundtrip])
     (simp_all add: demo_gpu_host_def smi_row_ok_def plain_cell_def trim_str_def is_space_def)

text \<open>The table takes an entry-level RTX A1000 for a data-centre A100.\<close>

lemma a1000_counts_as_a100: "nvidia_cuda_cores ''NVIDIA RTX A1000'' = nvidia_cuda_cores ''NVIDIA A100-SXM4-80GB''"
  by code_simp

text \<open>The two tables for Apple chips disagree.\<close>

lemma m3_ultra_cores: "apple_gpu_cores ''Apple M3 Ultra'' = 60 \<and> mac_gpu_cores ''Apple M3 Ultra'' = 80"
  by code_simp

section \<open>A busy GPU\<close>

lemma trim_str_brace: "trim_str ('' {'' @ b) = CHR ''{'' # rev (dropWhile is_space (rev b))"
  by (simp add: trim_str_def is_space_def dropWhile_append3)

lemma trim_matches_brace: "trim_matches (CHR 0x22) (CHR ''{'' # b) = CHR ''{'' # rev (dropWhile (\<lambda>x. x = CHR 0x22) (rev b))"
  by (simp add: trim_matches_def dropWhile_append3)

lemma parse_f32_brace: "parse_f32 (CHR ''{'' # b) = None"
proof -
  have "to_lowercase (CHR ''{'' # b) = CHR ''{'' # to_lowercase b" by (simp add: to_lowercase_def lower_char_def)
  moreover have "parse_decimal (CHR ''{'' # b) = None" by (simp add: parse_decimal_def split_point_def Let_def all_digits_def)
  ultimately show ?thesis by (simp add: parse_f32_def Let_def)
qed

text \<open>A line that mentions the key inside a dictionary on the right of its first equals sign.\<close>

definition dictionary_line :: "string \<Rightarrow> bool" where
  "dictionary_line l \<longleftrightarrow> (\<exists>a b. l = a @ ''= {'' @ b \<and> CHR ''='' \<notin> set a)"

lemma dictionary_value: "dictionary_line l \<Longrightarrow> \<exists>b. after_equals l = Some ('' {'' @ b)"
proof -
  assume "dictionary_line l"
  then obtain a b where l: "l = a @ ''= {'' @ b" "CHR ''='' \<notin> set a" by (auto simp: dictionary_line_def)
  then have "takeWhile (\<lambda>c. c \<noteq> CHR ''='') l = a" by (auto simp: takeWhile_append intro: takeWhile_eq_all_conv [THEN iffD2])
  then show ?thesis using l by (auto simp: after_equals_def)
qed

lemma dictionary_unparsed:
  assumes "list_all (\<lambda>l. contains_str key l \<longrightarrow> dictionary_line l) (lines_of out)"
  shows "parse_ioreg_float out key = None"
proof -
  have "first_value key after_equals ls = None \<or> (\<exists>b. first_value key after_equals ls = Some ('' {'' @ b))"
    if "list_all (\<lambda>l. contains_str key l \<longrightarrow> dictionary_line l) ls" for ls
    using that by (induction ls) (auto dest!: dictionary_value)
  with assms show ?thesis
    by (fastforce simp: parse_ioreg_float_def trim_str_brace [simplified] trim_matches_brace parse_f32_brace)
qed

text \<open>C27: A busy GPU counts as idle. Whatever the registry reports: when the utilization stands inside the dictionary of
  \<open>PerformanceStatistics\<close>, on the one line that the tool prints for it, the value after the line's first equals sign is the dictionary
  and never parses; the sample then has utilization 0, so that for every positive threshold the GPU counts as idle, and a detector that has
  cooled down for its time offers the machine although its GPU is at work.\<close>

theorem busy_gpu_offered:
  assumes "stdout_of h ''ioreg'' [''-r'', ''-d'', ''1'', ''-n'', ''AGXAccelerator''] = Some out"
    "list_all (\<lambda>l. contains_str ''Device Utilization %'' l \<or> contains_str ''GPU Activity(%)'' l \<longrightarrow> dictionary_line l) (lines_of out)"
    "f64_lt (f64_of 0) (id_threshold_pct d)" "id_state d = I_CoolingDown" "id_cool_down_since d = Some since" "id_cool_down d \<le> now - since"
  shows "poll \<lparr>pi_now = now, pi_sample = map_option gs_utilization_pct (sample_gpu_utilization h), pi_force = False\<rparr> d =
    (d\<lparr>id_state := I_Available, id_cool_down_since := None\<rparr>, Some I_Available)"
proof -
  have "parse_ioreg_float out ''Device Utilization %'' = None" "parse_ioreg_float out ''GPU Activity(%)'' = None"
    using assms(2) by (auto intro!: dictionary_unparsed simp: list_all_iff)
  then have "map_option gs_utilization_pct (sample_gpu_utilization h) = Some (f64_of 0)"
    by (simp add: sample_gpu_utilization_def assms(1) or_else_def unwrap_or_def)
  then have "user_idle d \<lparr>pi_now = now, pi_sample = map_option gs_utilization_pct (sample_gpu_utilization h), pi_force = False\<rparr>"
    using assms(3) by (simp only: user_idle_def is_gpu_idle_def poll_input.simps option.simps simp_thms)
  then show ?thesis using assms(4-6) by (simp add: poll_def poll_step_def)
qed

definition demo_ioreg :: string where
  "demo_ioreg = join_lines [''  | {'', ''  |   '' @ quoted ''PerformanceStatistics'' @ '' = {'' @ quoted ''Device Utilization %'' @ ''=97,'' @ quoted ''Tiler Utilization %'' @ ''=61}'', ''  | }'']"

definition demo_mac :: gpu_host where
  "demo_mac = demo_gpu_host\<lparr>gh_output := (\<lambda>cmd args. if cmd = ''ioreg'' then Some (True, demo_ioreg) else None), gh_platform := Macos\<rparr>"

text \<open>On a Mac.\<close>

lemma primary_gpu_first_best_witness:
  "\<exists>g pre post. detect_primary_gpu demo_mac = Some g \<and> detect_gpus demo_mac = pre @ g # post \<and>
     (\<forall>x\<in>set pre. gi_capability x < gi_capability g) \<and> (\<forall>x\<in>set post. gi_capability x \<le> gi_capability g)"
proof -
  have "detect_gpus demo_mac \<noteq> []" 
    by (simp add: detect_gpus_def gpu_backends_def apple_available_def apple_enumerate_def demo_mac_def Let_def unwrap_or_def)
  then obtain g where "detect_primary_gpu demo_mac = Some g"
    using primary_gpu_first_best [of demo_mac] by blast
  then show ?thesis using primary_gpu_first_best [of demo_mac] by blast
qed

lemma demo_ioreg_lines:
  "lines_of demo_ioreg = [''  | {'', ''  |   '' @ quoted ''PerformanceStatistics'' @ '' = {'' @ quoted ''Device Utilization %'' @ ''=97,'' @ quoted ''Tiler Utilization %'' @ ''=61}'', ''  | }'']"
  by code_simp

lemma busy_gpu_offered_witness:
  "snd (poll \<lparr>pi_now = 900, pi_sample = map_option gs_utilization_pct (sample_gpu_utilization demo_mac), pi_force = False\<rparr>
     \<lparr>id_threshold_pct = f64_of 5, id_cool_down = 600, id_state = I_CoolingDown, id_cool_down_since = Some 300\<rparr>) = Some I_Available"
proof -
  have "dictionary_line (''  |   '' @ quoted ''PerformanceStatistics'' @ '' = {'' @ quoted ''Device Utilization %'' @ ''=97,'' @ quoted ''Tiler Utilization %'' @ ''=61}'')"
    unfolding dictionary_line_def
    by (intro exI [of _ "''  |   '' @ quoted ''PerformanceStatistics'' @ '' ''"]
        exI [of _ "quoted ''Device Utilization %'' @ ''=97,'' @ quoted ''Tiler Utilization %'' @ ''=61}''"]) (simp add: quoted_def)
  moreover have "\<not> contains_str ''Device Utilization %'' ''  | {''" "\<not> contains_str ''GPU Activity(%)'' ''  | {''"
    "\<not> contains_str ''Device Utilization %'' ''  | }''" "\<not> contains_str ''GPU Activity(%)'' ''  | }''" by code_simp+
  ultimately have "list_all (\<lambda>l. contains_str ''Device Utilization %'' l \<or> contains_str ''GPU Activity(%)'' l \<longrightarrow> dictionary_line l) (lines_of demo_ioreg)"
    unfolding demo_ioreg_lines by (simp only: list.pred_inject) blast
  moreover have "stdout_of demo_mac ''ioreg'' [''-r'', ''-d'', ''1'', ''-n'', ''AGXAccelerator''] = Some demo_ioreg"
    by (simp add: stdout_of_def demo_mac_def)
  ultimately show ?thesis by (subst busy_gpu_offered [where out = demo_ioreg and since = 300]) simp_all
qed

end
