(* ===== verification/Cli_Account.thy ===== *)
theory Cli_Account
  imports Cli_Job_Polls Attestation Gpu_Detect
begin

text \<open>
  The client's configuration file (\<open>src/cli/src/config.rs\<close>, \<open>main.rs\<close>), the registration of the machine's account (\<open>ensure_account\<close> of
  \<open>commands/provider.rs\<close>) and the account commands (\<open>commands/account.rs\<close>).

  The TOML printer and parser, the directory of the user's configuration, the environment variables, the host name and the random seed are
  parameters (\<open>cli_env\<close>). The output of a command is its text.
\<close>

section \<open>The configuration file\<close>

record cli_config =
  cf_coordinator_url :: string
  cf_ledger_url :: string
  cf_account_id :: "string option"

record cli_env =
  cv_machine :: agent_env
  cv_crypto :: crypto
  cv_config_dir :: "string option"
  cv_var :: "string \<Rightarrow> string option"
  cv_hostname :: "string option"
  cv_seed :: string
  cv_toml :: "cli_config \<Rightarrow> string option"
  cv_of_toml :: "string \<Rightarrow> cli_config option"

definition default_cli_config :: cli_config where
  "default_cli_config =
     \<lparr>cf_coordinator_url = ''https://neuralmesh-coordinator-production-666f.up.railway.app'',
      cf_ledger_url = ''https://neuralmesh-ledger-production-9e83.up.railway.app'', cf_account_id = None\<rparr>"

text \<open>\<open>a.join(b)\<close> for a relative \<open>b\<close>.\<close>

definition dir_join :: "string \<Rightarrow> string \<Rightarrow> string" where
  "dir_join a b = (if a = [] \<or> last a = CHR ''/'' then a @ b else a @ ''/'' @ b)"

definition config_path :: "cli_env \<Rightarrow> string" where
  "config_path cv = dir_join (dir_join (unwrap_or ''~/.config'' (cv_config_dir cv)) ''hatch'') ''cli.toml''"

text \<open>A file that does not parse counts as the default; the overrides and the environment come last.\<close>

definition cli_config_load :: "cli_env \<Rightarrow> string option \<Rightarrow> string option \<Rightarrow> cli_config agent_prog" where
  "cli_config_load cv coordinator_override ledger_override =
     bindE (exists_path (config_path cv)) (\<lambda>e.
     bindE (if e then bindE (read_file (cv_machine cv) (config_path cv)) (\<lambda>content. retE (unwrap_or default_cli_config (cv_of_toml cv content)))
            else retE default_cli_config) (\<lambda>cfg.
     let cfg1 = (case coordinator_override of Some c \<Rightarrow> cfg\<lparr>cf_coordinator_url := c\<rparr> | None \<Rightarrow> cfg);
         cfg2 = (case ledger_override of Some l \<Rightarrow> cfg1\<lparr>cf_ledger_url := l\<rparr> | None \<Rightarrow> cfg1)
     in retE (case cv_var cv ''NM_ACCOUNT_ID'' of Some i \<Rightarrow> cfg2\<lparr>cf_account_id := Some i\<rparr> | None \<Rightarrow> cfg2)))"

definition write_config :: "cli_env \<Rightarrow> string \<Rightarrow> cli_config \<Rightarrow> unit agent_prog" where
  "write_config cv path cfg = bindE (someE ''toml'' (cv_toml cv cfg)) (\<lambda>text. write_file (cv_machine cv) path text)"

definition cli_config_save :: "cli_env \<Rightarrow> cli_config \<Rightarrow> unit agent_prog" where
  "cli_config_save cv cfg =
     seqE (case parent_of (config_path cv) of Some d \<Rightarrow> create_dir_all (cv_machine cv) d | None \<Rightarrow> retE ()) (write_config cv (config_path cv) cfg)"

definition context_of :: "cli_config \<Rightarrow> string \<Rightarrow> client_context" where
  "context_of cfg output = \<lparr>cc_coordinator_url = cf_coordinator_url cfg, cc_ledger_url = cf_ledger_url cfg,
     cc_output_json = (output = ''json''), cc_account_id = cf_account_id cfg\<rparr>"

section \<open>Registration\<close>

definition hatch_dir :: "cli_env \<Rightarrow> string" where
  "hatch_dir cv = dir_join (unwrap_or [] (cv_config_dir cv)) ''hatch''"

definition identity_path :: "cli_env \<Rightarrow> string" where
  "identity_path cv = dir_join (hatch_dir cv) ''identity.key''"

definition cli_toml_path :: "cli_env \<Rightarrow> string" where
  "cli_toml_path cv = dir_join (hatch_dir cv) ''cli.toml''"

text \<open>The output of a command: nothing when it could not be started.\<close>

definition command_output :: "agent_env \<Rightarrow> command \<Rightarrow> string option agent_prog" where
  "command_output env c = (\<lambda>s. case run_command env c s of
     (r, s') \<Rightarrow> (Inr (case r of Inr (Some _) \<Rightarrow> Some (ae_stdout env c (ho_files s)) | _ \<Rightarrow> None), s'))"

definition ioreg_command :: command where
  "ioreg_command = command_of ''ioreg'' [''-rd1'', ''-c'', ''IOPlatformExpertDevice'']"

definition brand_command :: command where
  "brand_command = command_of ''sysctl'' [''-n'', ''machdep.cpu.brand_string'']"

definition serial_in :: "string \<Rightarrow> string option" where
  "serial_in out = Option.bind (List.find (contains_str ''IOPlatformSerialNumber'') (lines_of out)) (\<lambda>l. nth_opt 3 (split_on (CHR 0x22) l))"

definition device_serial :: "cli_env \<Rightarrow> string option \<Rightarrow> string" where
  "device_serial cv out = unwrap_or (unwrap_or ''unknown'' (cv_hostname cv)) (Option.bind out serial_in)"

definition device_label :: "string option \<Rightarrow> string" where
  "device_label out = (case out of Some t \<Rightarrow> trim_str t | None \<Rightarrow> ''Apple Silicon'')"

definition load_identity :: "cli_env \<Rightarrow> nm_keypair agent_prog" where
  "load_identity cv =
     bindE (exists_path (identity_path cv)) (\<lambda>e.
     if e then map_errE (\<lambda>_. ''Loading keypair'') (keypair_load (cv_machine cv) (identity_path cv))
     else let kp = \<lparr>kp_seed = cv_seed cv\<rparr>
          in seqE (map_errE (\<lambda>_. ''Saving keypair'') (keypair_save (cv_machine cv) (identity_path cv) kp)) (retE kp))"

definition fingerprint_hash :: "cli_env \<Rightarrow> string \<Rightarrow> string \<Rightarrow> string" where
  "fingerprint_hash cv pubkey_hex serial = cr_hex (cv_crypto cv) (cr_sha256 (cv_crypto cv) (pubkey_hex @ ''||'' @ serial))"

definition registration_request :: "client_context \<Rightarrow> string \<Rightarrow> string \<Rightarrow> string \<Rightarrow> http_request" where
  "registration_request ctx pubkey_hex fingerprint label = post_req (at_coordinator ctx ''/api/v1/account/register'') (Json_Body (JObj
     [(''ecdsa_pubkey_hex'', JStr pubkey_hex), (''device_fingerprint_hash'', JStr fingerprint), (''device_label'', JStr label), (''platform'', JStr ''macos'')]))"

text \<open>The account in the answer, or why there is none.\<close>

definition registered_account :: "json \<Rightarrow> string + string" where
  "registered_account body =
     (if Option.bind (j_field ''ok'' body) j_bool \<noteq> Some True
      then Inl (unwrap_or ''registration failed'' (j_as_str (j_get ''message'' body)))
      else case j_as_str (j_get ''account_id'' body) of Some a \<Rightarrow> Inr a | None \<Rightarrow> Inl ''Missing account_id in response'')"

definition save_account_id :: "cli_env \<Rightarrow> string \<Rightarrow> unit agent_prog" where
  "save_account_id cv aid =
     bindE (exists_path (cli_toml_path cv)) (\<lambda>e.
     bindE (if e then bindE (okE (read_file (cv_machine cv) (cli_toml_path cv))) (\<lambda>raw.
              retE (unwrap_or default_cli_config (cv_of_toml cv (unwrap_or [] raw))))
            else retE default_cli_config) (\<lambda>cfg.
     write_config cv (cli_toml_path cv) (cfg\<lparr>cf_account_id := Some aid\<rparr>)))"

definition ensure_account :: "cli_env \<Rightarrow> 'w http_peer \<Rightarrow> client_context \<Rightarrow> ('w, string) cli" where
  "ensure_account cv peer ctx =
     seqE (on_host (map_errE (\<lambda>_. ''create config dir'') (create_dir_all (cv_machine cv) (hatch_dir cv))))
     (bindE (on_host (load_identity cv)) (\<lambda>keypair.
      bindE (on_host (command_output (cv_machine cv) ioreg_command)) (\<lambda>ioreg.
      bindE (on_host (command_output (cv_machine cv) brand_command)) (\<lambda>brand.
      let pubkey_hex = public_key_hex (cv_crypto cv) keypair
      in bindE (send_or peer (registration_request ctx pubkey_hex (fingerprint_hash cv pubkey_hex (device_serial cv ioreg)) (device_label brand))
                  ''Reaching coordinator for account registration'') (\<lambda>(code, body, j).
         if \<not> is_success code then failE (''Coordinator returned error: '' @ body)
         else bindE (someE ''Parsing registration response'' j) (\<lambda>v.
           case registered_account v of Inl e \<Rightarrow> failE e
           | Inr aid \<Rightarrow> seqE (on_host (save_account_id cv aid)) (retE aid)))))))"

section \<open>The account commands\<close>

definition account_setup :: "cli_env \<Rightarrow> 'w http_peer \<Rightarrow> client_context \<Rightarrow> ('w, string \<times> string) cli" where
  "account_setup cv peer ctx = bindE (ensure_account cv peer ctx) (\<lambda>aid. retE (aid, ''~/.config/neuralmesh/cli.toml''))"

text \<open>The account, and the two files, each when there is one.\<close>

definition account_info :: "cli_env \<Rightarrow> client_context \<Rightarrow> host \<Rightarrow> string option \<times> string option \<times> string option" where
  "account_info cv ctx s =
     (cc_account_id ctx, (if ho_files s (identity_path cv) \<noteq> None then Some (identity_path cv) else None),
      (if ho_files s (cli_toml_path cv) \<noteq> None then Some (cli_toml_path cv) else None))"

section \<open>Setting up twice\<close>

text \<open>
  What the set-up relies on: file operations succeed, the two commands change no file and always give the same output, the printed
  configuration parses back, hashes have 64 digits, and a seed has 32 bytes.
\<close>

definition setup_laws :: "cli_env \<Rightarrow> bool" where
  "setup_laws cv \<longleftrightarrow>
     (\<forall>op p fs. ae_io_error (cv_machine cv) op p fs = None) \<and>
     (\<forall>c\<in>{ioreg_command, brand_command}. \<forall>fs. snd (ae_exec (cv_machine cv) c fs) = fs \<and>
        (\<forall>fs'. fst (ae_exec (cv_machine cv) c fs') = fst (ae_exec (cv_machine cv) c fs) \<and> ae_stdout (cv_machine cv) c fs' = ae_stdout (cv_machine cv) c fs)) \<and>
     (\<forall>cfg. \<exists>t. cv_toml cv cfg = Some t \<and> cv_of_toml cv t = Some cfg) \<and>
     (\<forall>m. length (cr_hex (cv_crypto cv) (cr_sha256 (cv_crypto cv) m)) = 64) \<and> (\<forall>kp. public_key_hex (cv_crypto cv) kp \<noteq> []) \<and>
     length (cv_seed cv) = 32 \<and> cv_config_dir cv \<noteq> None"

lemma command_output_run:
  assumes "setup_laws cv" "c \<in> {ioreg_command, brand_command}"
  shows "\<exists>out. \<forall>s. \<exists>s'. command_output (cv_machine cv) c s = (Inr out, s') \<and> ho_files s' = ho_files s"
proof -
  let ?out = "case fst (ae_exec (cv_machine cv) c (\<lambda>_. None)) of Some _ \<Rightarrow> Some (ae_stdout (cv_machine cv) c (\<lambda>_. None)) | None \<Rightarrow> None"
  have "\<exists>s'. command_output (cv_machine cv) c s = (Inr ?out, s') \<and> ho_files s' = ho_files s" for s
  proof -
    have "snd (ae_exec (cv_machine cv) c (ho_files s)) = ho_files s" "fst (ae_exec (cv_machine cv) c (ho_files s)) = fst (ae_exec (cv_machine cv) c (\<lambda>_. None))"
      "ae_stdout (cv_machine cv) c (ho_files s) = ae_stdout (cv_machine cv) c (\<lambda>_. None)"
      using assms unfolding setup_laws_def by metis+
    then show ?thesis by (cases "ae_exec (cv_machine cv) c (ho_files s)") (auto simp: command_output_def run_command_def split: option.split)
  qed
  then show ?thesis by blast
qed

lemma paths_differ: "identity_path cv \<noteq> cli_toml_path cv" "identity_path cv \<noteq> hatch_dir cv" "cli_toml_path cv \<noteq> hatch_dir cv"
  by (auto simp: identity_path_def cli_toml_path_def dir_join_def dest: arg_cong [where f = length])

lemma config_path_eq: "cv_config_dir cv \<noteq> None \<Longrightarrow> config_path cv = cli_toml_path cv"
  by (auto simp: config_path_def cli_toml_path_def hatch_dir_def)


lemma load_identity_stored:
  assumes "setup_laws cv" "load_identity cv s = (Inr kp, s')"
  shows "ho_files s' (identity_path cv) = Some (E_File (kp_seed kp)) \<and> length (kp_seed kp) = 32"
proof (cases "ho_files s (identity_path cv)")
  case None
  have "\<And>op p fs. ae_io_error (cv_machine cv) op p fs = None" using assms(1) by (simp add: setup_laws_def)
  then show ?thesis using assms None
    by (auto simp: load_identity_def prog_simps exists_path_def keypair_save_def save_bytes_def io_error_def create_dir_all_def write_file_def set_mode_600_def
        file_op_def Let_def setup_laws_def split: option.splits)
next
  case (Some e)
  have "\<And>op p fs. ae_io_error (cv_machine cv) op p fs = None" using assms(1) by (simp add: setup_laws_def)
  then show ?thesis using assms(2) Some
    by (auto simp: load_identity_def prog_simps exists_path_def keypair_load_def io_error_def read_file_def split: file_entry.splits if_splits)
qed

lemma load_identity_again:
  assumes "setup_laws cv" "ho_files s (identity_path cv) = Some (E_File (kp_seed kp))" "length (kp_seed kp) = 32"
  shows "load_identity cv s = (Inr kp, s)"
proof -
  have "ae_io_error (cv_machine cv) ''read'' (identity_path cv) (ho_files s) = None" using assms(1) by (simp add: setup_laws_def)
  then show ?thesis using assms(2,3) by (simp add: load_identity_def prog_simps exists_path_def keypair_load_def io_error_def read_file_def)
qed

lemma load_identity_new:
  assumes "setup_laws cv" "ho_files s (identity_path cv) = None"
  shows "\<exists>s'. load_identity cv s = (Inr \<lparr>kp_seed = cv_seed cv\<rparr>, s')"
proof -
  have "\<And>op p fs. ae_io_error (cv_machine cv) op p fs = None" using assms(1) by (simp add: setup_laws_def)
  then show ?thesis using assms(2)
    by (simp add: load_identity_def prog_simps exists_path_def keypair_save_def save_bytes_def io_error_def create_dir_all_def write_file_def set_mode_600_def
        file_op_def Let_def split: option.split)
qed

lemma save_account_run:
  assumes "setup_laws cv"
  shows "\<exists>t cfg s'. save_account_id cv aid s = (Inr (), s') \<and> ho_files s' = (ho_files s)(cli_toml_path cv \<mapsto> E_File t) \<and> cv_of_toml cv t = Some cfg \<and>
     cf_account_id cfg = Some aid"
proof -
  have io: "\<And>op p fs. ae_io_error (cv_machine cv) op p fs = None" using assms by (simp add: setup_laws_def)
  have "\<exists>t s'. write_config cv (cli_toml_path cv) cfg s = (Inr (), s') \<and> ho_files s' = (ho_files s)(cli_toml_path cv \<mapsto> E_File t) \<and> cv_of_toml cv t = Some cfg" for cfg
  proof -
    obtain t where "cv_toml cv cfg = Some t" "cv_of_toml cv t = Some cfg" using assms unfolding setup_laws_def by blast
    then show ?thesis using io by (intro exI [of _ t]) (simp add: write_config_def prog_simps write_file_def file_op_def)
  qed
  note w = this
  have "\<exists>cfg. save_account_id cv aid s = write_config cv (cli_toml_path cv) (cfg\<lparr>cf_account_id := Some aid\<rparr>) s"
  proof (cases "ho_files s (cli_toml_path cv)")
    case (Some e)
    then show ?thesis by (cases e) (auto simp: save_account_id_def prog_simps exists_path_def read_file_def io)
  qed (auto simp: save_account_id_def prog_simps exists_path_def)
  then obtain cfg where "save_account_id cv aid s = write_config cv (cli_toml_path cv) (cfg\<lparr>cf_account_id := Some aid\<rparr>) s" by blast
  with w [of "cfg\<lparr>cf_account_id := Some aid\<rparr>"] show ?thesis by force
qed

lemma load_saved_config:
  assumes "setup_laws cv" "ho_files s (cli_toml_path cv) = Some (E_File t)" "cv_of_toml cv t = Some cfg"
  shows "cli_config_load cv None None s = (Inr (case cv_var cv ''NM_ACCOUNT_ID'' of Some i \<Rightarrow> cfg\<lparr>cf_account_id := Some i\<rparr> | None \<Rightarrow> cfg), s)"
proof -
  have "config_path cv = cli_toml_path cv" using assms(1) by (intro config_path_eq) (simp add: setup_laws_def)
  moreover have "ae_io_error (cv_machine cv) ''read'' (cli_toml_path cv) (ho_files s) = None" using assms(1) by (simp add: setup_laws_def)
  ultimately show ?thesis using assms(2,3) by (simp add: cli_config_load_def prog_simps exists_path_def read_file_def Let_def)
qed

text \<open>The coordinator's side: a registration that succeeds gives the derived account, and can be repeated.\<close>

lemma register_reply:
  "coordinator_of senv ctx text_of (registration_request ctx pk fp label) w = reply_of text_of
     (register_account (se_sha senv) (se_hex senv) \<lparr>ra_ecdsa_pubkey_hex = pk, ra_device_fingerprint_hash = fp, ra_device_label = Some label,
        ra_platform = Some ''macos'', ra_hardware_serial_hash = None\<rparr> w)"
proof -
  have "split_on (CHR ''/'') ''account/register'' = [''account'', ''register'']"
    using split_on_join [of "CHR ''/''" "''account''" "''register''"] by (simp add: split_on_one)
  then show ?thesis using coordinator_route [of "''account/register''" ctx]
    by (simp add: coordinator_peer_def registration_request_def post_req_def coordinator_post_def with_body_def register_body_of_def req_field_def opt_field_def
        j_field_def)
qed

lemma register_errors_bare: "register_account sha hex b w \<noteq> (Inl (Status_Json c j), w')"
  by (auto simp: register_account_def retE_def failE_def bindE_def seqE_def matchE_def okE_def someE_def Let_def
      split: sum.splits prod.splits if_splits option.splits)

lemma register_ok:
  assumes "wfaults w = []" "register_account sha hex b w = (Inr j, w')" "registered_account j = Inr aid"
  shows "aid = derive_account_id sha hex (ra_ecdsa_pubkey_hex b) (ra_device_fingerprint_hash b) \<and> wfaults w' = [] \<and>
     (\<exists>a. account_of (wdb w') aid = Some a) \<and> aid \<in> c_account_id ` set (credits (wdb w'))"
proof -
  let ?aid = "derive_account_id sha hex (ra_ecdsa_pubkey_hex b) (ra_device_fingerprint_hash b)"
  have no: "registered_account device_mismatch \<noteq> Inr aid"
    by (simp add: registered_account_def device_mismatch_def j_field_def j_bool_def)
  from assms(1,2) no assms(3) obtain a d' where st: "register_stmt b ?aid w = (Inr (Some a), w\<lparr>wdb := d'\<rparr>)" "account_of d' ?aid = Some a"
    and j: "j = JObj [(''ok'', JBool True), (''account_id'', JStr (a_account_id a)), (''created_at'', j_opt JTime (a_created_at a)), (''last_seen'', j_opt JTime (a_last_seen a))]"
    and w': "w' = w\<lparr>wdb := d'\<lparr>credits := sql_insert_ignore c_account_id (new_credit_row ?aid (wnow w)) (credits d')\<rparr>\<rparr>"
    by (auto simp: register_account_def prog_simps register_stmt_def ensure_credit_account_def on_credits_def Let_def map_sum_eq_Inr
        split: if_splits sum.splits option.splits prod.splits)
  have "a_account_id a = ?aid" using st(2) by (rule sql_first_key)
  moreover from this have "aid = a_account_id a" using assms(3) j by (simp add: registered_account_def j_field_def j_bool_def j_get_def)
  moreover have "?aid \<in> c_account_id ` set (sql_insert_ignore c_account_id (new_credit_row ?aid (wnow w)) (credits d'))"
    by (auto simp: sql_insert_ignore_def new_credit_row_def)
  ultimately show ?thesis using st(2) assms(1) w' by simp
qed

lemma register_again:
  assumes "wfaults w = []" "aid = derive_account_id sha hex (ra_ecdsa_pubkey_hex b) (ra_device_fingerprint_hash b)" "account_of (wdb w) aid = Some a"
    and "aid \<in> c_account_id ` set (credits (wdb w))" "ra_ecdsa_pubkey_hex b \<noteq> []" "length (ra_device_fingerprint_hash b) = 64" "db_inv (wdb w)"
  shows "\<exists>j w'. register_account sha hex b w = (Inr j, w') \<and> registered_account j = Inr aid \<and> credits (wdb w') = credits (wdb w) \<and>
     map a_account_id (accounts (wdb w')) = map a_account_id (accounts (wdb w))"
proof -
  have kd: "keys_distinct a_account_id (accounts (wdb w))" using assms(7) by (simp add: db_inv_def pk_inv_def)
  from accounts_tbl.modify_hit [OF kd assms(3), of "\<lambda>a. Inr (refresh_account_row b (wnow w) a)", OF refl]
  obtain t where t: "sql_update (\<lambda>r. a_account_id r = aid) (\<lambda>a. Inr (refresh_account_row b (wnow w) a)) (accounts (wdb w)) = Inr t"
    "sql_first (\<lambda>r. a_account_id r = aid) t = Some (refresh_account_row b (wnow w) a)"
    using sql_first_key [of a_account_id aid "accounts (wdb w)" a] assms(3) by (auto simp: refresh_account_row_def)
  have "map a_account_id t = map a_account_id (accounts (wdb w))"
    using t(1) by (auto simp: sql_update_def refresh_account_row_def traverse_Inr_map)
  moreover have "sql_upsert a_account_id (new_account_row b aid (wnow w)) (\<lambda>a. Inr (refresh_account_row b (wnow w) a)) (accounts (wdb w)) = Inr t"
    using t(1) assms(3) sql_upsert_hit [of a_account_id "new_account_row b aid (wnow w)" "accounts (wdb w)" a] by simp
  moreover have "a_account_id a = aid" using assms(3) by (rule sql_first_key)
  moreover have "sql_insert_ignore c_account_id (new_credit_row aid (wnow w)) (credits (wdb w)) = credits (wdb w)"
    using assms(4) by (simp add: sql_insert_ignore_def new_credit_row_def)
  ultimately show ?thesis using assms(1,5,6) t(2) assms(2,3)
    by (simp add: register_account_def prog_simps register_stmt_def ensure_credit_account_def on_table_defs registered_account_def j_field_def j_bool_def j_get_def
        refresh_account_row_def Let_def)
qed


text \<open>What is done with the answer.\<close>

definition account_answer :: "cli_env \<Rightarrow> http_reply \<Rightarrow> ('w, string) cli" where
  "account_answer cv r = (case r of
     Unreachable \<Rightarrow> failE ''Reaching coordinator for account registration''
   | Reply code body j \<Rightarrow>
       (if \<not> is_success code then failE (''Coordinator returned error: '' @ body)
        else bindE (someE ''Parsing registration response'' j) (\<lambda>v.
           case registered_account v of Inl e \<Rightarrow> failE e | Inr aid \<Rightarrow> seqE (on_host (save_account_id cv aid)) (retE aid))))"

text \<open>The machine once the directory of the configuration is there.\<close>

definition with_dir :: "cli_env \<Rightarrow> host \<Rightarrow> host" where
  "with_dir cv h = h\<lparr>ho_files := (if ho_files h (hatch_dir cv) = None then (ho_files h)(hatch_dir cv \<mapsto> E_Dir) else ho_files h)\<rparr>"

lemma with_dir_identity: "ho_files (with_dir cv h) (identity_path cv) = ho_files h (identity_path cv)"
  by (simp add: with_dir_def paths_differ)

text \<open>The request is the same from every state with the same key.\<close>

lemma ensure_account_request:
  assumes "setup_laws cv"
  shows "\<exists>fp label. \<forall>s kp h1. load_identity cv (with_dir cv (ci_host s)) = (Inr kp, h1) \<longrightarrow>
     length (fp (public_key_hex (cv_crypto cv) kp)) = 64 \<and>
     (\<exists>h. ho_files h = ho_files h1 \<and> ensure_account cv peer ctx s =
       (case peer (registration_request ctx (public_key_hex (cv_crypto cv) kp) (fp (public_key_hex (cv_crypto cv) kp)) label) (ci_peer s) of
          (r, w) \<Rightarrow> account_answer cv r (s\<lparr>ci_host := h, ci_peer := w\<rparr>)))"
proof -
  obtain o1 where o1: "\<And>s. \<exists>s'. command_output (cv_machine cv) ioreg_command s = (Inr o1, s') \<and> ho_files s' = ho_files s"
    using command_output_run [OF assms, of ioreg_command] by auto
  obtain o2 where o2: "\<And>s. \<exists>s'. command_output (cv_machine cv) brand_command s = (Inr o2, s') \<and> ho_files s' = ho_files s"
    using command_output_run [OF assms, of brand_command] by auto
  let ?fp = "\<lambda>pk. fingerprint_hash cv pk (device_serial cv o1)" and ?label = "device_label o2"
  have "length (?fp (public_key_hex (cv_crypto cv) kp)) = 64 \<and> (\<exists>h. ho_files h = ho_files h1 \<and> ensure_account cv peer ctx s =
       (case peer (registration_request ctx (public_key_hex (cv_crypto cv) kp) (?fp (public_key_hex (cv_crypto cv) kp)) ?label) (ci_peer s) of
          (r, w) \<Rightarrow> account_answer cv r (s\<lparr>ci_host := h, ci_peer := w\<rparr>)))"
    if "load_identity cv (with_dir cv (ci_host s)) = (Inr kp, h1)" for s kp h1
  proof
    show "length (?fp (public_key_hex (cv_crypto cv) kp)) = 64" using assms by (simp add: setup_laws_def fingerprint_hash_def)
    obtain h2 where h2: "command_output (cv_machine cv) ioreg_command h1 = (Inr o1, h2)" "ho_files h2 = ho_files h1" using o1 by blast
    obtain h3 where h3: "command_output (cv_machine cv) brand_command h2 = (Inr o2, h3)" "ho_files h3 = ho_files h2" using o2 by blast
    have io: "\<And>op p fs. ae_io_error (cv_machine cv) op p fs = None" using assms by (simp add: setup_laws_def)
    show "\<exists>h. ho_files h = ho_files h1 \<and> ensure_account cv peer ctx s =
       (case peer (registration_request ctx (public_key_hex (cv_crypto cv) kp) (?fp (public_key_hex (cv_crypto cv) kp)) ?label) (ci_peer s) of
          (r, w) \<Rightarrow> account_answer cv r (s\<lparr>ci_host := h, ci_peer := w\<rparr>))"
      using h2 h3 that
      by (intro exI [of _ h3])
        (simp add: ensure_account_def prog_simps on_host_def create_dir_all_def file_op_def io with_dir_def send_or_def send_to_def account_answer_def Let_def
          split: prod.split http_reply.split)
  qed
  then show ?thesis by (intro exI [of _ ?fp] exI [of _ ?label]) blast
qed

text \<open>A set-up taken apart: the key, the request, the coordinator's row and the file.\<close>

lemma account_setup_run:
  assumes "setup_laws cv" "wfaults (ci_peer s) = []" "ensure_account cv (coordinator_of senv ctx text_of) ctx s = (Inr aid, s')"
  obtains kp fp label w h2 t cfg where
    "\<And>s kp h1. load_identity cv (with_dir cv (ci_host s)) = (Inr kp, h1) \<Longrightarrow> \<exists>h. ho_files h = ho_files h1 \<and>
       ensure_account cv (coordinator_of senv ctx text_of) ctx s =
       (case coordinator_of senv ctx text_of (registration_request ctx (public_key_hex (cv_crypto cv) kp) (fp (public_key_hex (cv_crypto cv) kp)) label) (ci_peer s) of
          (r, w) \<Rightarrow> account_answer cv r (s\<lparr>ci_host := h, ci_peer := w\<rparr>))"
    "length (fp (public_key_hex (cv_crypto cv) kp)) = 64" "length (kp_seed kp) = 32"
    "aid = derive_account_id (se_sha senv) (se_hex senv) (public_key_hex (cv_crypto cv) kp) (fp (public_key_hex (cv_crypto cv) kp))"
    "w = snd (register_account (se_sha senv) (se_hex senv) \<lparr>ra_ecdsa_pubkey_hex = public_key_hex (cv_crypto cv) kp,
       ra_device_fingerprint_hash = fp (public_key_hex (cv_crypto cv) kp), ra_device_label = Some label, ra_platform = Some ''macos'', ra_hardware_serial_hash = None\<rparr> (ci_peer s))"
    "wfaults w = []" "account_of (wdb w) aid \<noteq> None" "aid \<in> c_account_id ` set (credits (wdb w))"
    "ho_files h2 (identity_path cv) = Some (E_File (kp_seed kp))" "ho_files h2 (cli_toml_path cv) = Some (E_File t)" "cv_of_toml cv t = Some cfg"
    "cf_account_id cfg = Some aid" "s' = s\<lparr>ci_host := h2, ci_peer := w\<rparr>"
proof -
  let ?peer = "coordinator_of senv ctx text_of"
  obtain fp label where req: "\<And>s kp h1. load_identity cv (with_dir cv (ci_host s)) = (Inr kp, h1) \<Longrightarrow>
     length (fp (public_key_hex (cv_crypto cv) kp)) = 64 \<and> (\<exists>h. ho_files h = ho_files h1 \<and> ensure_account cv ?peer ctx s =
       (case ?peer (registration_request ctx (public_key_hex (cv_crypto cv) kp) (fp (public_key_hex (cv_crypto cv) kp)) label) (ci_peer s) of
          (r, w) \<Rightarrow> account_answer cv r (s\<lparr>ci_host := h, ci_peer := w\<rparr>)))"
    using ensure_account_request [OF assms(1), of ?peer ctx] by metis
  have io: "\<And>op p fs. ae_io_error (cv_machine cv) op p fs = None" using assms(1) by (simp add: setup_laws_def)
  obtain kp h1 where kp: "load_identity cv (with_dir cv (ci_host s)) = (Inr kp, h1)"
  proof (cases "load_identity cv (with_dir cv (ci_host s))")
    case (Pair r h)
    then show ?thesis using assms(3) that
      by (cases r) (simp_all add: ensure_account_def prog_simps on_host_def create_dir_all_def file_op_def io with_dir_def)
  qed
  let ?pk = "public_key_hex (cv_crypto cv) kp"
  let ?b = "\<lparr>ra_ecdsa_pubkey_hex = ?pk, ra_device_fingerprint_hash = fp ?pk, ra_device_label = Some label, ra_platform = Some ''macos'', ra_hardware_serial_hash = None\<rparr>"
  note key = load_identity_stored [OF assms(1) kp]
  from req [OF kp] obtain h where h: "ho_files h = ho_files h1" and fp: "length (fp ?pk) = 64"
    and run: "ensure_account cv ?peer ctx s = (case reply_of text_of (register_account (se_sha senv) (se_hex senv) ?b (ci_peer s)) of
       (r, w) \<Rightarrow> account_answer cv r (s\<lparr>ci_host := h, ci_peer := w\<rparr>))"
    by (auto simp: register_reply)
  obtain r w where reg: "register_account (se_sha senv) (se_hex senv) ?b (ci_peer s) = (r, w)" by fastforce
  have ok: "\<exists>j. r = Inr j \<and> registered_account j = Inr aid \<and> seqE (on_host (save_account_id cv aid)) (retE aid) (s\<lparr>ci_host := h, ci_peer := w\<rparr>) = (Inr aid, s')"
    using run [unfolded assms(3)] reg register_errors_bare
    by (cases r) (auto simp: reply_of_def account_answer_def is_success_def status_code_def failE_run someE_run bindE_run retE_run seqE_run
        split: rest_error.splits status.splits sum.splits option.splits prod.splits)
  then obtain j where j: "r = Inr j" "registered_account j = Inr aid" by blast
  from register_ok [OF assms(2) reg [unfolded j(1)] j(2), unfolded register_account_body.simps] have reg_ok: "aid = derive_account_id (se_sha senv) (se_hex senv) ?pk (fp ?pk)" "wfaults w = []"
    "\<exists>a. account_of (wdb w) aid = Some a" "aid \<in> c_account_id ` set (credits (wdb w))" by blast+
  obtain t cfg h2 where sv: "save_account_id cv aid h = (Inr (), h2)" "ho_files h2 = (ho_files h)(cli_toml_path cv \<mapsto> E_File t)" "cv_of_toml cv t = Some cfg"
    "cf_account_id cfg = Some aid" using save_account_run [OF assms(1)] by blast
  have s': "s' = s\<lparr>ci_host := h2, ci_peer := w\<rparr>" using ok sv(1) by (auto simp: seqE_run on_host_def retE_run)
  have key': "ho_files h2 (identity_path cv) = Some (E_File (kp_seed kp))" using key sv(2) h paths_differ(1) by simp
  have toml: "ho_files h2 (cli_toml_path cv) = Some (E_File t)" using sv(2) by simp
  have req': "\<exists>h. ho_files h = ho_files h1 \<and> ensure_account cv ?peer ctx s =
       (case ?peer (registration_request ctx (public_key_hex (cv_crypto cv) kp) (fp (public_key_hex (cv_crypto cv) kp)) label) (ci_peer s) of
          (r, w) \<Rightarrow> account_answer cv r (s\<lparr>ci_host := h, ci_peer := w\<rparr>))"
    if "load_identity cv (with_dir cv (ci_host s)) = (Inr kp, h1)" for s kp h1 using req [OF that] by blast
  have w: "w = snd (register_account (se_sha senv) (se_hex senv) ?b (ci_peer s))" using reg by simp
  show thesis
    by (rule that [where fp = fp and label = label, OF req' fp conjunct2 [OF key] reg_ok(1) w reg_ok(2) _ reg_ok(4) key' toml sv(3,4) s']) (use reg_ok(3) in simp_all)
qed

text \<open>C30: Setting up the account lasts, and can be repeated. After a successful \<open>hatch account setup\<close>, on a machine without errors and with a
  coordinator whose database answers: the next command finds the account in the configuration file (unless the environment names another);
  the coordinator has the account and its credit row; and a second set-up gives the same account, with no new account and the balances
  untouched.\<close>

theorem account_setup_lasts:
  assumes "setup_laws cv" "wfaults (ci_peer s) = []" "db_inv (wdb (ci_peer s))"
    and "ensure_account cv (coordinator_of senv ctx text_of) ctx s = (Inr aid, s')"
  shows "\<exists>cfg. fst (cli_config_load cv None None (ci_host s')) = Inr cfg \<and> (cv_var cv ''NM_ACCOUNT_ID'' = None \<longrightarrow> cf_account_id cfg = Some aid) \<and>
     account_of (wdb (ci_peer s')) aid \<noteq> None \<and> credit_of (wdb (ci_peer s')) aid \<noteq> None \<and>
     (\<exists>s''. ensure_account cv (coordinator_of senv ctx text_of) ctx s' = (Inr aid, s'') \<and> credits (wdb (ci_peer s'')) = credits (wdb (ci_peer s')) \<and>
        map a_account_id (accounts (wdb (ci_peer s''))) = map a_account_id (accounts (wdb (ci_peer s'))))"
proof (rule account_setup_run [OF assms(1,2,4)], goal_cases)
  case (1 kp fp label w h2 t cfg)
  note req = 1(1) and fp = 1(2) and kp = 1(3) and aid = 1(4) and w = 1(5-8) and key' = 1(9) and toml = 1(10-12) and s' = 1(13)
  let ?peer = "coordinator_of senv ctx text_of"
  let ?pk = "public_key_hex (cv_crypto cv) kp"
  let ?b = "\<lparr>ra_ecdsa_pubkey_hex = ?pk, ra_device_fingerprint_hash = fp ?pk, ra_device_label = Some label, ra_platform = Some ''macos'', ra_hardware_serial_hash = None\<rparr>"
  have "load_identity cv (with_dir cv (ci_host s')) = (Inr kp, with_dir cv h2)"
    using load_identity_again [OF assms(1), of "with_dir cv h2" kp] key' kp s' by (simp add: with_dir_identity)
  from req [OF this] obtain h3 where run2: "ensure_account cv ?peer ctx s' = (case reply_of text_of (register_account (se_sha senv) (se_hex senv) ?b w) of
       (r, w) \<Rightarrow> account_answer cv r (s'\<lparr>ci_host := h3, ci_peer := w\<rparr>))"
    by (auto simp: register_reply s')
  have "db_inv (wdb w)" using keepsD [OF keeps_register_account assms(3)] w(1) by simp
  moreover obtain a where "account_of (wdb w) aid = Some a" using w(3) by blast
  moreover have "?pk \<noteq> []" using assms(1) by (simp add: setup_laws_def)
  ultimately obtain j2 w2 where w2: "register_account (se_sha senv) (se_hex senv) ?b w = (Inr j2, w2)" "registered_account j2 = Inr aid"
    "credits (wdb w2) = credits (wdb w)" "map a_account_id (accounts (wdb w2)) = map a_account_id (accounts (wdb w))"
    using register_again [of w aid "se_sha senv" "se_hex senv" ?b a] w aid fp by auto
  obtain h4 where "save_account_id cv aid h3 = (Inr (), h4)" using save_account_run [OF assms(1)] by blast
  then have "ensure_account cv ?peer ctx s' = (Inr aid, s'\<lparr>ci_host := h4, ci_peer := w2\<rparr>)"
    using run2 w2(1,2) by (simp add: reply_of_def account_answer_def is_success_def prog_simps on_host_def)
  moreover have "fst (cli_config_load cv None None (ci_host s')) = Inr (case cv_var cv ''NM_ACCOUNT_ID'' of Some i \<Rightarrow> cfg\<lparr>cf_account_id := Some i\<rparr> | None \<Rightarrow> cfg)"
    using load_saved_config [OF assms(1) toml(1,2)] s' by simp
  moreover have "credit_of (wdb w) aid \<noteq> None" using w(4) by (simp add: sql_first_None_iff)
  ultimately show ?thesis using w2(3,4) w(3) toml(3) s' by auto
qed


section \<open>A concrete machine\<close>

definition demo_toml :: "cli_config \<Rightarrow> string" where
  "demo_toml c = replicate (length (cf_coordinator_url c)) (CHR ''u'') @ CHR ''.'' # cf_coordinator_url c @
     replicate (length (cf_ledger_url c)) (CHR ''l'') @ CHR ''.'' # cf_ledger_url c @ (case cf_account_id c of Some i \<Rightarrow> CHR ''a'' # i | None \<Rightarrow> [])"

definition demo_field :: "string \<Rightarrow> string \<times> string" where
  "demo_field s = (let n = length (takeWhile (\<lambda>c. c \<noteq> CHR ''.'') s); r = drop (n + 1) s in (take n r, drop n r))"

definition demo_of_toml :: "string \<Rightarrow> cli_config option" where
  "demo_of_toml t = (case demo_field t of (u, r) \<Rightarrow> case demo_field r of (l, q) \<Rightarrow>
     Some \<lparr>cf_coordinator_url = u, cf_ledger_url = l, cf_account_id = (case q of [] \<Rightarrow> None | _ # i \<Rightarrow> Some i)\<rparr>)"

lemma demo_field_read: "c \<noteq> CHR ''.'' \<Longrightarrow> demo_field (replicate (length u) c @ CHR ''.'' # u @ r) = (u, r)"
  by (simp add: demo_field_def takeWhile_append Let_def)

lemma demo_toml_roundtrip: "demo_of_toml (demo_toml c) = Some c"
  using demo_field_read [of "CHR ''l''" "cf_ledger_url c" "[]"]
  by (cases "cf_account_id c") (simp_all add: demo_of_toml_def demo_toml_def demo_field_read)

definition demo_cli_env :: cli_env where
  "demo_cli_env = \<lparr>cv_machine = demo_agent_env, cv_crypto = demo_crypto\<lparr>cr_sha256 := pad 64\<rparr>, cv_config_dir = Some ''/u/.config'', cv_var = (\<lambda>_. None),
     cv_hostname = Some ''mac'', cv_seed = replicate 32 (CHR ''s''), cv_toml = (\<lambda>c. Some (demo_toml c)), cv_of_toml = demo_of_toml\<rparr>"

lemma demo_setup_laws: "setup_laws demo_cli_env"
proof -
  have "public_key_hex (cv_crypto demo_cli_env) kp \<noteq> []" for kp
    using length_pad [of 32 "kp_seed kp"] by (auto simp: demo_cli_env_def demo_crypto_def public_key_hex_def simp del: length_pad)
  moreover have "length (cr_hex (cv_crypto demo_cli_env) (cr_sha256 (cv_crypto demo_cli_env) m)) = 64" for m
    by (simp add: demo_cli_env_def demo_crypto_def)
  ultimately show ?thesis by (simp add: setup_laws_def) (simp add: demo_cli_env_def demo_agent_env_def demo_toml_roundtrip)
qed

definition empty_machine :: "coord_db world cli_world" where
  "empty_machine = \<lparr>ci_host = \<lparr>ho_files = (\<lambda>_. None), ho_commands = []\<rparr>, ci_peer = world_at empty_db\<rparr>"

text \<open>A machine without a key, at a coordinator that knows no account.\<close>

lemma first_setup_run:
  assumes "setup_laws cv" "ho_files (ci_host s) (identity_path cv) = None" "wfaults (ci_peer s) = []" "db_inv (wdb (ci_peer s))" "accounts (wdb (ci_peer s)) = []"
  shows "\<exists>aid s'. ensure_account cv (coordinator_of senv ctx text_of) ctx s = (Inr aid, s')"
proof -
  let ?peer = "coordinator_of senv ctx text_of"
  obtain h1 where kp: "load_identity cv (with_dir cv (ci_host s)) = (Inr \<lparr>kp_seed = cv_seed cv\<rparr>, h1)"
    using load_identity_new [OF assms(1), of "with_dir cv (ci_host s)"] assms(2) by (auto simp: with_dir_identity)
  let ?pk = "public_key_hex (cv_crypto cv) \<lparr>kp_seed = cv_seed cv\<rparr>"
  from ensure_account_request [OF assms(1), of ?peer ctx] kp obtain fp label h where fp: "length (fp ?pk) = 64"
    and run: "ensure_account cv ?peer ctx s = (case ?peer (registration_request ctx ?pk (fp ?pk) label) (ci_peer s) of
          (r, w) \<Rightarrow> account_answer cv r (s\<lparr>ci_host := h, ci_peer := w\<rparr>))" by blast
  let ?b = "\<lparr>ra_ecdsa_pubkey_hex = ?pk, ra_device_fingerprint_hash = fp ?pk, ra_device_label = Some label, ra_platform = Some ''macos'', ra_hardware_serial_hash = None\<rparr>"
  have "?pk \<noteq> []" using assms(1) by (simp add: setup_laws_def)
  then obtain j w aid where "register_account (se_sha senv) (se_hex senv) ?b (ci_peer s) = (Inr j, w)" "registered_account j = Inr aid"
    using register_account_run [of "ci_peer s" ?b, OF assms(3,4) _ _ refl] fp assms(5)
    by (simp add: registered_account_def j_field_def j_bool_def j_get_def)
  moreover obtain h4 where "save_account_id cv aid h = (Inr (), h4)" using save_account_run [OF assms(1)] by blast
  ultimately show ?thesis using run by (simp add: register_reply reply_of_def account_answer_def is_success_def prog_simps on_host_def)
qed

lemma account_setup_lasts_witness:
  "\<exists>aid s' cfg. ensure_account demo_cli_env (coordinator_of demo_senv demo_submitter (\<lambda>_. [])) demo_submitter empty_machine = (Inr aid, s') \<and>
     fst (cli_config_load demo_cli_env None None (ci_host s')) = Inr cfg \<and> cf_account_id cfg = Some aid"
proof -
  have e: "wfaults (ci_peer empty_machine) = []" "db_inv (wdb (ci_peer empty_machine))" "accounts (wdb (ci_peer empty_machine)) = []"
    "ho_files (ci_host empty_machine) p = None" for p
    using db_inv_empty by (simp_all add: empty_machine_def empty_db_def)
  obtain aid s' where s': "ensure_account demo_cli_env (coordinator_of demo_senv demo_submitter (\<lambda>_. [])) demo_submitter empty_machine = (Inr aid, s')"
    using first_setup_run [OF demo_setup_laws e(4,1,2,3)] by blast
  moreover have "cv_var demo_cli_env ''NM_ACCOUNT_ID'' = None" by (simp add: demo_cli_env_def)
  ultimately show ?thesis using account_setup_lasts [OF demo_setup_laws e(1,2) s'] by auto
qed

end
