(* ===== verification/Evm_Oracle.thy ===== *)
theory Evm_Oracle
  imports Sql Http "HOL-Library.Word"
begin

text \<open>
  The settlement oracle of the ledger service, \<open>ledger/src/on_chain/arbitrum.rs\<close>: the ABI encoding of the
  calls, the RLP encoding and signing of EIP-1559 transactions, and the JSON-RPC exchange that sends one and waits for
  its receipt. Keccak, the elliptic curve, the hexadecimal crate and the HTTP POST are parameters (\<open>evm_lib\<close>).
\<close>

type_synonym byte = "8 word"

section \<open>Integers as bytes\<close>

text \<open>\<open>to_be_bytes\<close> of an integer of \<open>n\<close> bytes.\<close>

fun be_bytes :: "nat \<Rightarrow> nat \<Rightarrow> byte list" where
  "be_bytes 0 v = []"
| "be_bytes (Suc n) v = be_bytes n (v div 256) @ [word_of_nat v]"

definition uint256_be :: "128 word \<Rightarrow> byte list" where
  "uint256_be v = replicate 16 0 @ be_bytes 16 (unat v)"

text \<open>\<open>&bytes[position(|b| b != 0).unwrap_or(d)..]\<close>\<close>

definition skip_zeros :: "nat \<Rightarrow> byte list \<Rightarrow> byte list" where
  "skip_zeros d bs = (let i = length (takeWhile (\<lambda>b. b = 0) bs) in drop (if i < length bs then i else d) bs)"

definition str_bytes :: "string \<Rightarrow> byte list" where
  "str_bytes s = map of_char s"

section \<open>ABI encoding\<close>

text \<open>The parameters of the model: code that the source calls and that is not part of it.\<close>

record ('w, 'k) evm_lib =
  ev_keccak :: "byte list \<Rightarrow> byte list"
  ev_hex_encode :: "byte list \<Rightarrow> string"
  ev_hex_decode :: "string \<Rightarrow> byte list option"
  ev_key_from_bytes :: "byte list \<Rightarrow> 'k option"
  ev_public_point :: "'k \<Rightarrow> byte list"
  ev_sign_prehash :: "'k \<Rightarrow> byte list \<Rightarrow> (byte list \<times> byte) option"
  ev_post_json :: "string \<Rightarrow> json \<Rightarrow> 'w \<Rightarrow> json option \<times> 'w"

definition selector :: "('w, 'k, 'z) evm_lib_scheme \<Rightarrow> string \<Rightarrow> byte list" where
  "selector lib sig = take 4 (ev_keccak lib (str_bytes sig))"

definition abi_padding :: "nat \<Rightarrow> byte list" where
  "abi_padding len = replicate ((32 - len mod 32) mod 32) 0"

definition abi_encode_string :: "string \<Rightarrow> byte list" where
  "abi_encode_string s =
     (let bytes = str_bytes s; len = length bytes
      in uint256_be 32 @ uint256_be (word_of_nat len) @ bytes @ abi_padding len)"

definition abi_encode_string_uint256 :: "string \<Rightarrow> 128 word \<Rightarrow> byte list" where
  "abi_encode_string_uint256 s v =
     (let bytes = str_bytes s; len = length bytes
      in uint256_be 64 @ uint256_be v @ uint256_be (word_of_nat len) @ bytes @ abi_padding len)"

section \<open>Amounts\<close>

text \<open>\<open>f64 as u128\<close> saturates; \<open>trunc\<close>, \<open>fract\<close> and \<open>round\<close> (half away from zero).\<close>

definition u128_max :: nat where
  "u128_max = 340282366920938463463374607431768211455"

fun f64_as_u128 :: "f64 \<Rightarrow> nat" where
  "f64_as_u128 (Fin q) = min (nat \<lfloor>q\<rfloor>) u128_max"
| "f64_as_u128 PInf = u128_max"
| "f64_as_u128 NInf = 0"
| "f64_as_u128 NaN = 0"

fun f64_trunc :: "f64 \<Rightarrow> f64" where
  "f64_trunc (Fin q) = Fin (of_int (if 0 \<le> q then \<lfloor>q\<rfloor> else \<lceil>q\<rceil>))"
| "f64_trunc x = x"

definition f64_fract :: "f64 \<Rightarrow> f64" where
  "f64_fract x = f64_sub x (f64_trunc x)"

fun f64_round :: "f64 \<Rightarrow> f64" where
  "f64_round (Fin q) = Fin (of_int (if 0 \<le> q then \<lfloor>q + 1 / 2\<rfloor> else \<lceil>q - 1 / 2\<rceil>))"
| "f64_round x = x"

datatype evm_error =
    Negative_Amount | Amount_Too_Large | Bad_Address | Bad_Key | Sign_Failed | Rpc_Failed | Rpc_Error json
  | Bad_Response | Receipt_Timeout | Reverted string

definition nmc_to_wei_u128 :: "f64 \<Rightarrow> evm_error + 128 word" where
  "nmc_to_wei_u128 nmc =
     (if f64_lt nmc (Fin 0) then Inl Negative_Amount
      else
        let whole = f64_as_u128 (f64_trunc nmc);
            frac = f64_as_u128 (f64_round (f64_mul (f64_fract nmc) (Fin (10 ^ 18))));
            wei = whole * 10 ^ 18 + frac
        in if wei \<le> u128_max then Inr (word_of_nat wei) else Inl Amount_Too_Large)"

section \<open>RLP and transactions\<close>

record eip1559_tx =
  etx_chain_id :: "64 word"
  etx_nonce :: "64 word"
  etx_max_priority_fee_per_gas :: "128 word"
  etx_max_fee_per_gas :: "128 word"
  etx_gas_limit :: "64 word"
  etx_to :: "byte list"
  etx_value :: "128 word"
  etx_data :: "byte list"
  etx_access_list :: "byte list"

definition rlp_uint_bytes :: "64 word \<Rightarrow> byte list" where
  "rlp_uint_bytes v = skip_zeros 7 (be_bytes 8 (unat v))"

definition rlp_length_encode :: "nat \<Rightarrow> byte list" where
  "rlp_length_encode len =
     (if len < 56 then [0x80 + word_of_nat len]
      else let len_bytes = rlp_uint_bytes (word_of_nat len) in (0xB7 + word_of_nat (length len_bytes)) # len_bytes)"

definition rlp_append_uint :: "byte list \<Rightarrow> 128 word \<Rightarrow> byte list" where
  "rlp_append_uint buf v =
     (if v = 0 then buf @ [0x80]
      else
        let bytes = skip_zeros 15 (be_bytes 16 (unat v))
        in if length bytes = 1 \<and> bytes ! 0 < 0x80 then buf @ [bytes ! 0]
           else buf @ rlp_length_encode (length bytes) @ bytes)"

definition rlp_append_bytes :: "byte list \<Rightarrow> byte list \<Rightarrow> byte list" where
  "rlp_append_bytes buf data =
     (if data = [] then buf @ [0x80] else buf @ rlp_length_encode (length data) @ data)"

definition rlp_encode_list :: "byte list \<Rightarrow> byte list" where
  "rlp_encode_list contents =
     (let len = length contents
      in (if len < 56 then [0xC0 + word_of_nat len]
          else let len_bytes = rlp_uint_bytes (word_of_nat len) in (0xF7 + word_of_nat (length len_bytes)) # len_bytes)
         @ contents)"

text \<open>The nine fields that both encodings start with.\<close>

definition tx_fields :: "eip1559_tx \<Rightarrow> byte list" where
  "tx_fields tx =
     (let rlp = rlp_append_uint [] (ucast (etx_chain_id tx));
          rlp = rlp_append_uint rlp (ucast (etx_nonce tx));
          rlp = rlp_append_uint rlp (etx_max_priority_fee_per_gas tx);
          rlp = rlp_append_uint rlp (etx_max_fee_per_gas tx);
          rlp = rlp_append_uint rlp (ucast (etx_gas_limit tx));
          rlp = rlp_append_bytes rlp (etx_to tx);
          rlp = rlp_append_uint rlp (etx_value tx);
          rlp = rlp_append_bytes rlp (etx_data tx)
      in rlp_append_bytes rlp (etx_access_list tx))"

definition signing_payload :: "eip1559_tx \<Rightarrow> byte list" where
  "signing_payload tx = 0x02 # rlp_encode_list (tx_fields tx)"

definition sign_and_encode :: "('w, 'k, 'z) evm_lib_scheme \<Rightarrow> 'k \<Rightarrow> eip1559_tx \<Rightarrow> evm_error + byte list" where
  "sign_and_encode lib key tx =
     (case ev_sign_prehash lib key (ev_keccak lib (signing_payload tx)) of
        None \<Rightarrow> Inl Sign_Failed
      | Some (sig_bytes, v) \<Rightarrow>
          let r = take 32 sig_bytes; s = drop 32 sig_bytes;
              rlp = rlp_append_uint (tx_fields tx) (ucast v);
              rlp = rlp_append_bytes rlp r;
              rlp = rlp_append_bytes rlp s
          in Inr (0x02 # rlp_encode_list rlp))"

section \<open>JSON-RPC\<close>

fun has_key :: "string \<Rightarrow> json \<Rightarrow> json option" where
  "has_key k (JObj fs) = map_of fs k"
| "has_key k _ = None"

definition rpc_call :: "('w, 'k, 'z) evm_lib_scheme \<Rightarrow> string \<Rightarrow> string \<Rightarrow> json \<Rightarrow> ('w, evm_error, json) prog" where
  "rpc_call lib url meth params = (\<lambda>w.
     case ev_post_json lib url (JObj [(''jsonrpc'', JStr ''2.0''), (''id'', JInt 1), (''method'', JStr meth), (''params'', params)]) w of
       (None, w') \<Rightarrow> (Inl Rpc_Failed, w')
     | (Some res, w') \<Rightarrow>
         (case has_key ''error'' res of Some err \<Rightarrow> (Inl (Rpc_Error err), w') | None \<Rightarrow> (Inr (j_get ''result'' res), w')))"

text \<open>\<open>trim_start_matches("0x")\<close> and \<open>from_str_radix(.., 16)\<close> of an unsigned type with the given maximum.\<close>

fun trim_0x :: "string \<Rightarrow> string" where
  "trim_0x (CHR ''0'' # CHR ''x'' # s) = trim_0x s"
| "trim_0x s = s"

definition hex_digit :: "char \<Rightarrow> nat option" where
  "hex_digit c = (let n = (of_char c :: nat) in
     if 48 \<le> n \<and> n \<le> 57 then Some (n - 48)
     else if 65 \<le> n \<and> n \<le> 70 then Some (n - 55)
     else if 97 \<le> n \<and> n \<le> 102 then Some (n - 87) else None)"

fun hex_value :: "nat \<Rightarrow> nat \<Rightarrow> string \<Rightarrow> nat option" where
  "hex_value mx acc [] = Some acc"
| "hex_value mx acc (c # cs) = (case hex_digit c of
     Some d \<Rightarrow> (if acc * 16 + d \<le> mx then hex_value mx (acc * 16 + d) cs else None)
   | None \<Rightarrow> None)"

definition from_str_radix16 :: "nat \<Rightarrow> string \<Rightarrow> nat option" where
  "from_str_radix16 mx s =
     (let digits = (case s of c # cs \<Rightarrow> if c = CHR ''+'' then cs else s | [] \<Rightarrow> [])
      in if digits = [] then None else hex_value mx 0 digits)"

definition hex_result :: "nat \<Rightarrow> json \<Rightarrow> ('w, evm_error, nat) prog" where
  "hex_result mx res = bindE (someE Bad_Response (j_as_str res)) (\<lambda>h. someE Bad_Response (from_str_radix16 mx (trim_0x h)))"

definition u64_max :: nat where
  "u64_max = 18446744073709551615"

definition get_nonce :: "('w, 'k, 'z) evm_lib_scheme \<Rightarrow> string \<Rightarrow> string \<Rightarrow> ('w, evm_error, 64 word) prog" where
  "get_nonce lib url address =
     bindE (rpc_call lib url ''eth_getTransactionCount'' (JArr [JStr address, JStr ''latest''])) (\<lambda>res.
     bindE (hex_result u64_max res) (\<lambda>n. retE (word_of_nat n)))"

definition gas_price :: "('w, 'k, 'z) evm_lib_scheme \<Rightarrow> string \<Rightarrow> ('w, evm_error, 128 word) prog" where
  "gas_price lib url =
     bindE (rpc_call lib url ''eth_gasPrice'' (JArr [])) (\<lambda>res. bindE (hex_result u128_max res) (\<lambda>n. retE (word_of_nat n)))"

definition chain_id :: "('w, 'k, 'z) evm_lib_scheme \<Rightarrow> string \<Rightarrow> ('w, evm_error, 64 word) prog" where
  "chain_id lib url =
     bindE (rpc_call lib url ''eth_chainId'' (JArr [])) (\<lambda>res. bindE (hex_result u64_max res) (\<lambda>n. retE (word_of_nat n)))"

definition send_raw_tx :: "('w, 'k, 'z) evm_lib_scheme \<Rightarrow> string \<Rightarrow> byte list \<Rightarrow> ('w, evm_error, string) prog" where
  "send_raw_tx lib url raw =
     bindE (rpc_call lib url ''eth_sendRawTransaction'' (JArr [JStr (''0x'' @ ev_hex_encode lib raw)])) (\<lambda>res.
     someE Bad_Response (j_as_str res))"

fun wait_for_receipt :: "('w, 'k, 'z) evm_lib_scheme \<Rightarrow> string \<Rightarrow> string \<Rightarrow> nat \<Rightarrow> ('w, evm_error, json) prog" where
  "wait_for_receipt lib url tx_hash 0 = failE Receipt_Timeout"
| "wait_for_receipt lib url tx_hash (Suc n) =
     bindE (rpc_call lib url ''eth_getTransactionReceipt'' (JArr [JStr tx_hash])) (\<lambda>res.
     if res \<noteq> JNull then retE res else wait_for_receipt lib url tx_hash n)"

definition parse_address :: "('w, 'k, 'z) evm_lib_scheme \<Rightarrow> string \<Rightarrow> evm_error + byte list" where
  "parse_address lib addr =
     (let h = trim_0x addr
      in if length h \<noteq> 40 then Inl Bad_Address
         else (case ev_hex_decode lib h of
                 Some bytes \<Rightarrow> if length bytes = 20 then Inr bytes else Inl Bad_Address
               | None \<Rightarrow> Inl Bad_Address))"

definition signing_key_to_address :: "('w, 'k, 'z) evm_lib_scheme \<Rightarrow> 'k \<Rightarrow> byte list" where
  "signing_key_to_address lib key = drop 12 (ev_keccak lib (drop 1 (ev_public_point lib key)))"

section \<open>The oracle\<close>

record arbitrum_oracle =
  ao_rpc_url :: string
  ao_oracle_pk_hex :: string
  ao_escrow_addr_hex :: string
  ao_enabled :: bool

definition arbitrum_disabled :: arbitrum_oracle where
  "arbitrum_disabled = \<lparr>ao_rpc_url = [], ao_oracle_pk_hex = [], ao_escrow_addr_hex = [], ao_enabled = False\<rparr>"

text \<open>The process environment is a function from variable names.\<close>

definition arbitrum_from_env :: "(string \<Rightarrow> string option) \<Rightarrow> arbitrum_oracle" where
  "arbitrum_from_env env =
     (let escrow_addr = unwrap_or [] (env ''NM_ESCROW_ADDRESS'')
      in if escrow_addr = [] then arbitrum_disabled
         else
           let rpc_url = unwrap_or ''https://sepolia-rollup.arbitrum.io/rpc'' (env ''NM_ARBITRUM_RPC'');
               oracle_pk = unwrap_or [] (env ''NM_ORACLE_PK'')
           in if length oracle_pk \<noteq> 64 then arbitrum_disabled
              else \<lparr>ao_rpc_url = rpc_url, ao_oracle_pk_hex = oracle_pk, ao_escrow_addr_hex = escrow_addr, ao_enabled = True\<rparr>)"

definition resultE :: "'e + 'a \<Rightarrow> ('w, 'e, 'a) prog" where
  "resultE r = (case r of Inl e \<Rightarrow> failE e | Inr x \<Rightarrow> retE x)"

definition signing_key :: "('w, 'k, 'z) evm_lib_scheme \<Rightarrow> arbitrum_oracle \<Rightarrow> evm_error + 'k" where
  "signing_key lib orc =
     (case ev_hex_decode lib (ao_oracle_pk_hex orc) of
        Some bytes \<Rightarrow> (case ev_key_from_bytes lib bytes of Some key \<Rightarrow> Inr key | None \<Rightarrow> Inl Bad_Key)
      | None \<Rightarrow> Inl Bad_Key)"

definition priority_fee :: "128 word" where
  "priority_fee = 100000000"

definition escrow_tx :: "64 word \<Rightarrow> 64 word \<Rightarrow> 128 word \<Rightarrow> byte list \<Rightarrow> byte list \<Rightarrow> eip1559_tx" where
  "escrow_tx chain nonce price to_addr calldata =
     \<lparr>etx_chain_id = chain, etx_nonce = nonce, etx_max_priority_fee_per_gas = priority_fee,
      etx_max_fee_per_gas = price * 3 div 2 + priority_fee, etx_gas_limit = 150000, etx_to = to_addr, etx_value = 0,
      etx_data = calldata, etx_access_list = []\<rparr>"

definition send_tx :: "('w, 'k, 'z) evm_lib_scheme \<Rightarrow> arbitrum_oracle \<Rightarrow> byte list \<Rightarrow> ('w, evm_error, string) prog" where
  "send_tx lib orc calldata =
     (let url = ao_rpc_url orc
      in bindE (resultE (signing_key lib orc)) (\<lambda>key.
         bindE (get_nonce lib url (''0x'' @ ev_hex_encode lib (signing_key_to_address lib key))) (\<lambda>nonce.
         bindE (gas_price lib url) (\<lambda>price.
         bindE (chain_id lib url) (\<lambda>chain.
         bindE (resultE (parse_address lib (ao_escrow_addr_hex orc))) (\<lambda>to_addr.
         bindE (resultE (sign_and_encode lib key (escrow_tx chain nonce price to_addr calldata))) (\<lambda>raw.
         bindE (send_raw_tx lib url raw) (\<lambda>tx_hash.
         bindE (wait_for_receipt lib url tx_hash 30) (\<lambda>receipt.
         if unwrap_or ''0x0'' (j_as_str (j_get ''status'' receipt)) \<noteq> ''0x1'' then failE (Reverted tx_hash)
         else retE tx_hash)))))))))"

definition release_calldata :: "('w, 'k, 'z) evm_lib_scheme \<Rightarrow> string \<Rightarrow> 128 word \<Rightarrow> byte list" where
  "release_calldata lib job_id cost_wei =
     selector lib ''releaseEscrow(string,uint256)'' @ abi_encode_string_uint256 job_id cost_wei"

definition arbitrum_release_escrow ::
  "('w, 'k, 'z) evm_lib_scheme \<Rightarrow> arbitrum_oracle \<Rightarrow> string \<Rightarrow> f64 \<Rightarrow> ('w, evm_error, string option) prog" where
  "arbitrum_release_escrow lib orc job_id actual_cost_nmc =
     (if \<not> ao_enabled orc then retE None
      else bindE (resultE (nmc_to_wei_u128 actual_cost_nmc)) (\<lambda>cost_wei.
           bindE (send_tx lib orc (release_calldata lib job_id cost_wei)) (\<lambda>tx_hash. retE (Some tx_hash))))"

definition arbitrum_cancel_escrow ::
  "('w, 'k, 'z) evm_lib_scheme \<Rightarrow> arbitrum_oracle \<Rightarrow> string \<Rightarrow> ('w, evm_error, string option) prog" where
  "arbitrum_cancel_escrow lib orc job_id =
     (if \<not> ao_enabled orc then retE None
      else bindE (send_tx lib orc (selector lib ''cancelEscrow(string)'' @ abi_encode_string job_id)) (\<lambda>tx_hash. retE (Some tx_hash)))"

end
