(* ===== verification/Cli_Provider.thy ===== *)
theory Cli_Provider
  imports Cli_Account Evm_Oracle
begin

text \<open>
  The provider and GPU commands of the client (\<open>src/cli/src/commands/provider.rs\<close>, \<open>gpu.rs\<close>), the agent's configuration (\<open>nm-common/src/config.rs\<close>,
  \<open>agent/src/config.rs\<close>) and its launchd service (\<open>agent/src/service/launchd.rs\<close>). A command returns what it shows; the layout of the text and the
  progress bar are not modelled. The error of a command that cannot be started is \<open>spawn_failed\<close>.
\<close>

text \<open>\<open>join\<close>\<close>

fun join_with :: "string \<Rightarrow> string list \<Rightarrow> string" where
  "join_with sep [] = []"
| "join_with sep [x] = x"
| "join_with sep (x # y # ys) = x @ sep @ join_with sep (y # ys)"

section \<open>The configuration of the agent\<close>

record agent_config =
  ag_provider_id :: "string option"
  ag_idle_threshold_pct :: f64
  ag_idle_duration_minutes :: int
  ag_floor_price :: f64
  ag_max_job_ram_gb :: "int option"
  ag_allowed_runtimes :: "string list"
  ag_coordinator_endpoints :: "string list"
  ag_region :: string
  ag_wireguard_listen_port :: int
  ag_ssh_job_port :: int
  ag_log_level :: string

definition detect_region :: "cli_env \<Rightarrow> string" where
  "detect_region cv = unwrap_or ''us-east-1'' (cv_var cv ''NM_REGION'')"

definition default_agent_config :: "cli_env \<Rightarrow> agent_config" where
  "default_agent_config cv =
     \<lparr>ag_provider_id = None, ag_idle_threshold_pct = Fin 5, ag_idle_duration_minutes = 10, ag_floor_price = f64_of (5 / 100), ag_max_job_ram_gb = None,
      ag_allowed_runtimes = [''mlx'', ''torch-mps'', ''onnx-coreml'', ''llama-cpp''],
      ag_coordinator_endpoints = [''https://coord1.neuralmesh.io:8080'', ''https://coord2.neuralmesh.io:8080'', ''https://coord3.neuralmesh.io:8080''],
      ag_region = detect_region cv, ag_wireguard_listen_port = 51820, ag_ssh_job_port = 2222, ag_log_level = ''info''\<rparr>"

text \<open>The TOML printer and parser for it.\<close>

record agent_toml =
  at_print :: "agent_config \<Rightarrow> string option"
  at_parse :: "string \<Rightarrow> agent_config option"

definition parse_error :: "string \<Rightarrow> string" where
  "parse_error path = ''Config parse error in '' @ path"

text \<open>The agent at its start: a file that does not parse is an error.\<close>

definition agent_load_or_create :: "cli_env \<Rightarrow> agent_toml \<Rightarrow> string \<Rightarrow> agent_config agent_prog" where
  "agent_load_or_create cv tm path =
     bindE (exists_path path) (\<lambda>e.
     if e then bindE (read_file (cv_machine cv) path) (\<lambda>content. someE (parse_error path) (at_parse tm content))
     else
       let cfg = default_agent_config cv
       in seqE (case parent_of path of Some d \<Rightarrow> create_dir_all (cv_machine cv) d | None \<Rightarrow> retE ())
          (bindE (someE ''toml'' (at_print tm cfg)) (\<lambda>text. seqE (write_file (cv_machine cv) path text) (retE cfg))))"

definition agent_config_path :: "cli_env \<Rightarrow> string" where
  "agent_config_path cv = dir_join (dir_join (unwrap_or ''~/.config'' (cv_config_dir cv)) ''hatch'') ''agent.toml''"

section \<open>Provider settings\<close>

record provider_options =
  po_idle_threshold :: "f64 option"
  po_idle_minutes :: "int option"
  po_floor_price :: "f64 option"
  po_max_job_ram :: "int option"

definition with_options :: "provider_options \<Rightarrow> agent_config \<Rightarrow> agent_config" where
  "with_options po cfg = cfg
     \<lparr>ag_idle_threshold_pct := unwrap_or (ag_idle_threshold_pct cfg) (po_idle_threshold po),
      ag_idle_duration_minutes := unwrap_or (ag_idle_duration_minutes cfg) (po_idle_minutes po),
      ag_floor_price := unwrap_or (ag_floor_price cfg) (po_floor_price po),
      ag_max_job_ram_gb := (case po_max_job_ram po of Some r \<Rightarrow> Some r | None \<Rightarrow> ag_max_job_ram_gb cfg)\<rparr>"

definition configure_path :: "cli_env \<Rightarrow> string" where
  "configure_path cv = dir_join (unwrap_or [] (cv_config_dir cv)) ''hatch/agent.toml''"

definition configure :: "cli_env \<Rightarrow> agent_toml \<Rightarrow> provider_options \<Rightarrow> unit agent_prog" where
  "configure cv tm po =
     (let path = configure_path cv in
      bindE (exists_path path) (\<lambda>e.
      bindE (if e then read_file (cv_machine cv) path else retE []) (\<lambda>content.
      let cfg = with_options po (if content = [] then default_agent_config cv else unwrap_or (default_agent_config cv) (at_parse tm content))
      in seqE (case parent_of path of Some d \<Rightarrow> create_dir_all (cv_machine cv) d | None \<Rightarrow> failE panicked)
         (bindE (someE ''toml'' (at_print tm cfg)) (\<lambda>text. write_file (cv_machine cv) path text)))))"

section \<open>Installation\<close>

definition spawn_failed :: string where
  "spawn_failed = ''spawn failed''"

text \<open>\<open>split_whitespace\<close>\<close>

definition split_whitespace :: "string \<Rightarrow> string list" where
  "split_whitespace s = filter (\<lambda>w. w \<noteq> []) (split_on (CHR '' '') (map (\<lambda>c. if is_space c then CHR '' '' else c) s))"

definition venv_pip :: "cli_env \<Rightarrow> string agent_prog" where
  "venv_pip cv = (\<lambda>s.
     let of_env = Option.bind (cv_var cv ''HATCH_VENV'') (\<lambda>v. let p = v @ ''/bin/pip'' in if ho_files s p \<noteq> None then Some p else None);
         default = unwrap_or [] (cv_var cv ''HOME'') @ ''/.hatch-venv/bin/pip''
     in (Inr (case of_env of Some p \<Rightarrow> p | None \<Rightarrow> if ho_files s default \<noteq> None then default else ''pip3''), s))"

definition install_pip_package :: "cli_env \<Rightarrow> string \<Rightarrow> unit agent_prog" where
  "install_pip_package cv packages =
     bindE (venv_pip cv) (\<lambda>pip.
     bindE (status_of (cv_machine cv) (command_of pip (''install'' # split_whitespace packages)) spawn_failed) (\<lambda>code.
     if code \<noteq> Some 0 then failE (pip @ '' install '' @ packages @ '' failed'') else retE ()))"

datatype install_note = Installed string | Install_Skipped string | Unknown_Runtime string

definition llama_command :: "string \<Rightarrow> command" where
  "llama_command pip = (command_of pip [''install'', ''llama-cpp-python''])\<lparr>cm_env := [(''CMAKE_ARGS'', ''-DGGML_METAL=on''), (''FORCE_CMAKE'', ''1'')]\<rparr>"

definition cli_install_runtime :: "cli_env \<Rightarrow> string \<Rightarrow> install_note agent_prog" where
  "cli_install_runtime cv rt =
     (if rt = ''mlx'' then seqE (install_pip_package cv ''mlx'') (seqE (install_pip_package cv ''mlx-lm'') (retE (Installed rt)))
      else if rt = ''torch-mps'' then seqE (install_pip_package cv ''torch torchvision torchaudio'') (retE (Installed rt))
      else if rt = ''onnx-coreml'' then seqE (install_pip_package cv ''onnxruntime'') (retE (Installed rt))
      else if rt = ''llama-cpp''
      then bindE (venv_pip cv) (\<lambda>pip. bindE (status_of (cv_machine cv) (llama_command pip) spawn_failed) (\<lambda>code.
             retE (if code = Some 0 then Installed rt else Install_Skipped rt)))
      else retE (Unknown_Runtime rt))"

fun install_runtimes :: "cli_env \<Rightarrow> string list \<Rightarrow> install_note list agent_prog" where
  "install_runtimes cv [] = retE []"
| "install_runtimes cv (rt # rts) =
     bindE (cli_install_runtime cv (trim_str rt)) (\<lambda>n. bindE (install_runtimes cv rts) (\<lambda>ns. retE (n # ns)))"

definition worker_user :: string where
  "worker_user = ''/Users/neuralmesh_worker''"

definition create_worker :: "cli_env \<Rightarrow> unit agent_prog" where
  "create_worker cv =
     bindE (status_of (cv_machine cv) (command_of ''id'' [''neuralmesh_worker'']) spawn_failed) (\<lambda>user_exists.
     if user_exists = Some 0 then retE ()
     else bindE (status_of (cv_machine cv) (command_of ''sudo'' [''dscl'', ''.'', ''-create'', worker_user]) spawn_failed) (\<lambda>code.
       if code = Some 0
       then bindE (status_of (cv_machine cv) (command_of ''sudo'' [''dscl'', ''.'', ''-create'', worker_user, ''UserShell'', ''/usr/bin/false'']) spawn_failed) (\<lambda>_. retE ())
       else retE ()))"

text \<open>The notes and the account, or why there is none: a failed registration does not stop the installation.\<close>

definition provider_install :: "cli_env \<Rightarrow> 'w http_peer \<Rightarrow> client_context \<Rightarrow> string \<Rightarrow> ('w, install_note list \<times> (string + string)) cli" where
  "provider_install cv peer ctx runtimes =
     bindE (on_host (command_output (cv_machine cv) brand_command)) (\<lambda>brand.
     bindE (someE spawn_failed brand) (\<lambda>chip.
     seqE (on_host (create_worker cv))
     (bindE (on_host (install_runtimes cv (split_on (CHR '','') runtimes))) (\<lambda>notes.
      seqE (on_host (create_dir_all (cv_machine cv) ''/tmp/neuralmesh''))
      (matchE (ensure_account cv peer ctx) (\<lambda>aid. retE (notes, Inr aid)) (\<lambda>e. retE (notes, Inl e)))))))"

section \<open>The daemon\<close>

definition hatch_plist :: string where
  "hatch_plist = ''/Library/LaunchDaemons/io.hatch.agent.plist''"

definition plist_missing :: string where
  "plist_missing = ''LaunchDaemon plist not found at /Library/LaunchDaemons/io.hatch.agent.plist.''"

definition start_command :: command where
  "start_command = command_of ''sudo'' [''launchctl'', ''load'', ''-w'', hatch_plist]"

definition start_daemon :: "cli_env \<Rightarrow> unit agent_prog" where
  "start_daemon cv =
     bindE (status_of (cv_machine cv) start_command spawn_failed) (\<lambda>code.
     if code = Some 0 then retE ()
     else bindE (exists_path hatch_plist) (\<lambda>e.
       failE (if e then ''Failed to start hatch-agent daemon (sudo launchctl load returned error)'' else plist_missing)))"

definition stop_daemon :: "cli_env \<Rightarrow> unit agent_prog" where
  "stop_daemon cv = bindE (status_of (cv_machine cv) (command_of ''sudo'' [''launchctl'', ''unload'', ''-w'', hatch_plist]) spawn_failed) (\<lambda>_. retE ())"

definition daemon_running :: "cli_env \<Rightarrow> bool agent_prog" where
  "daemon_running cv = bindE (run_command (cv_machine cv) (command_of ''launchctl'' [''list'', ''io.hatch.agent''])) (\<lambda>r. retE (r = Some (Some 0)))"

datatype network_line = Not_Asked | Network_Unreachable | Network_Unreadable | Network int int

definition stats_line :: "http_reply \<Rightarrow> network_line" where
  "stats_line r = (case r of
     Unreachable \<Rightarrow> Network_Unreachable
   | Reply _ _ None \<Rightarrow> Network_Unreadable
   | Reply _ _ (Some j) \<Rightarrow> Network (unwrap_or 0 (j_as_i64 (j_get ''available_providers'' j))) (unwrap_or 0 (j_as_i64 (j_get ''total_available_ram_gb'' j))))"

definition show_status :: "cli_env \<Rightarrow> 'w http_peer \<Rightarrow> client_context \<Rightarrow> ('w, bool \<times> network_line \<times> string option) cli" where
  "show_status cv peer ctx =
     bindE (on_host (daemon_running cv)) (\<lambda>running.
     bindE (if running then bindE (send_to peer (get_req (at_coordinator ctx ''/api/v1/stats''))) (\<lambda>r. retE (stats_line r)) else retE Not_Asked) (\<lambda>net.
     bindE (on_host (command_output (cv_machine cv) brand_command)) (\<lambda>chip.
     retE (running, net, map_option trim_str chip))))"

text \<open>The agent's binary: on the path, or beside the client's own (\<open>None\<close> where that is not known).\<close>

definition which_agent :: command where
  "which_agent = command_of ''which'' [''hatch-agent'']"

definition find_agent_binary :: "cli_env \<Rightarrow> string option \<Rightarrow> string agent_prog" where
  "find_agent_binary cv current_exe =
     bindE (\<lambda>s. (Inr (ae_stdout (cv_machine cv) which_agent (ho_files s)), s)) (\<lambda>out.
     bindE (run_command (cv_machine cv) which_agent) (\<lambda>r.
     if r = Some (Some 0) then retE (trim_str out)
     else
       bindE (someE ''current_exe'' current_exe) (\<lambda>cur.
       bindE (someE panicked (parent_of cur)) (\<lambda>d.
       bindE (exists_path (dir_join d ''hatch-agent'')) (\<lambda>e.
       if e then retE (dir_join d ''hatch-agent'') else failE ''hatch-agent binary not found. Reinstall Hatch.'')))))"

section \<open>The launchd service of the agent\<close>

definition service_label :: string where
  "service_label = ''io.neuralmesh.agent''"

definition plist_path :: string where
  "plist_path = ''/Library/LaunchDaemons/'' @ service_label @ ''.plist''"

text \<open>The content, line by line; the texts are not escaped.\<close>

definition plist_content :: "string \<Rightarrow> string \<Rightarrow> string list" where
  "plist_content binary config =
     [''<?xml version='' @ quoted ''1.0'' @ '' encoding='' @ quoted ''UTF-8'' @ ''?>'',
      ''<!DOCTYPE plist PUBLIC '' @ quoted ''-//Apple//DTD PLIST 1.0//EN'', ''  '' @ quoted ''http://www.apple.com/DTDs/PropertyList-1.0.dtd'' @ ''>'',
      ''<plist version='' @ quoted ''1.0'' @ ''>'', ''<dict>'', ''    <key>Label</key>'', ''    <string>'' @ service_label @ ''</string>'',
      ''    <key>ProgramArguments</key>'', ''    <array>'', ''        <string>'' @ binary @ ''</string>'', ''        <string>--config</string>'',
      ''        <string>'' @ config @ ''</string>'', ''    </array>'', ''    <key>RunAtLoad</key>'', ''    <true/>'', ''    <key>KeepAlive</key>'', ''    <true/>'',
      ''    <key>StandardOutPath</key>'', ''    <string>/var/log/neuralmesh/agent.log</string>'', ''    <key>StandardErrorPath</key>'',
      ''    <string>/var/log/neuralmesh/agent-error.log</string>'', ''    <key>UserName</key>'', ''    <string>root</string>'',
      ''    <key>ThrottleInterval</key>'', ''    <integer>30</integer>'', ''</dict>'', ''</plist>'']"

definition launchctl :: "string list \<Rightarrow> command" where
  "launchctl args = command_of ''launchctl'' args"

text \<open>How the command ends is not looked at, only that it could be started.\<close>

definition service_install :: "agent_env \<Rightarrow> string \<Rightarrow> string \<Rightarrow> unit agent_prog" where
  "service_install env binary config =
     seqE (create_dir_all env ''/var/log/neuralmesh'')
     (seqE (map_errE (\<lambda>_. ''Writing launchd plist'') (write_file env plist_path (join_with [CHR 0x0A] (plist_content binary config))))
     (bindE (status_of env (launchctl [''load'', ''-w'', plist_path]) ''launchctl load'') (\<lambda>_. retE ())))"

definition service_uninstall :: "agent_env \<Rightarrow> unit agent_prog" where
  "service_uninstall env =
     bindE (exists_path plist_path) (\<lambda>e.
     if e then bindE (status_of env (launchctl [''unload'', ''-w'', plist_path]) ''launchctl unload'') (\<lambda>_. remove_file env plist_path)
     else retE ())"

text \<open>Where the command cannot be started, the default exit status counts, which is success.\<close>

definition service_status :: "agent_env \<Rightarrow> string agent_prog" where
  "service_status env = bindE (run_command env (launchctl [''list'', service_label])) (\<lambda>r.
     retE (if r = None \<or> r = Some (Some 0) then ''running'' else ''stopped''))"


section \<open>The list of GPUs\<close>

record provider_info =
  pf_id :: string
  pf_chip_model :: string
  pf_unified_memory_gb :: int
  pf_gpu_cores :: int
  pf_installed_runtimes :: "string list"
  pf_floor_price :: f64
  pf_trust_score :: f64
  pf_region :: "string option"
  pf_bandwidth_mbps :: "int option"
  pf_max_job_ram_gb :: "int option"

definition decode_provider :: "json \<Rightarrow> provider_info option" where
  "decode_provider j =
     (case (req_field j_as_str ''id'' j, req_field j_as_str ''chip_model'' j, req_field j_u32 ''unified_memory_gb'' j, req_field j_u32 ''gpu_cores'' j,
            list_field j_as_str ''installed_runtimes'' j, req_field j_as_f64 ''floor_price_nmc_per_hour'' j, req_field j_as_f64 ''trust_score'' j) of
        (Some i, Some c, Some m, Some g, Some rts, Some p, Some t) \<Rightarrow>
          (case (opt_field j_as_str ''region'' j, opt_field j_u32 ''bandwidth_mbps'' j, opt_field j_u32 ''max_job_ram_gb'' j) of
             (Some reg, Some bw, Some ram) \<Rightarrow>
               Some \<lparr>pf_id = i, pf_chip_model = c, pf_unified_memory_gb = m, pf_gpu_cores = g, pf_installed_runtimes = rts, pf_floor_price = p,
                 pf_trust_score = t, pf_region = reg, pf_bandwidth_mbps = bw, pf_max_job_ram_gb = ram\<rparr>
           | _ \<Rightarrow> None)
      | _ \<Rightarrow> None)"

definition decode_provider_list :: "json \<Rightarrow> (provider_info list \<times> int) option" where
  "decode_provider_list j = (case (list_field decode_provider ''providers'' j, req_field j_u32 ''total'' j) of
     (Some ps, Some n) \<Rightarrow> Some (ps, n) | _ \<Rightarrow> None)"

text \<open>The printed price is a parameter.\<close>

definition gpu_params :: "(f64 \<Rightarrow> string) \<Rightarrow> int option \<Rightarrow> string option \<Rightarrow> f64 option \<Rightarrow> string \<Rightarrow> int \<Rightarrow> string list" where
  "gpu_params show_f64 min_ram rt max_price sorting limit =
     [''limit='' @ int_str limit, ''sort='' @ sorting]
     @ (case min_ram of Some r \<Rightarrow> [''min_ram_gb='' @ int_str r] | None \<Rightarrow> [])
     @ (case rt of Some r \<Rightarrow> [''runtime='' @ r] | None \<Rightarrow> [])
     @ (case max_price of Some p \<Rightarrow> [''max_price='' @ show_f64 p] | None \<Rightarrow> [])"

definition gpu_url :: "client_context \<Rightarrow> string list \<Rightarrow> string" where
  "gpu_url ctx params = at_coordinator ctx (''/api/v1/providers?'' @ join_with ''&'' params)"

text \<open>The table cuts the identifier after 36 bytes.\<close>

definition id_cut :: "provider_info \<Rightarrow> bool" where
  "id_cut p \<longleftrightarrow> slice_to (pf_id p) (min (length (pf_id p)) 36) \<noteq> None"

definition list_gpus ::
  "'w http_peer \<Rightarrow> (f64 \<Rightarrow> string) \<Rightarrow> client_context \<Rightarrow> int option \<Rightarrow> string option \<Rightarrow> f64 option \<Rightarrow> string \<Rightarrow> int \<Rightarrow> ('w, provider_info list \<times> int) cli" where
  "list_gpus peer show_f64 ctx min_ram rt max_price sorting limit =
     bindE (send_or peer (get_req (gpu_url ctx (gpu_params show_f64 min_ram rt max_price sorting limit))) ''Failed to fetch provider list'') (\<lambda>(code, body, j).
     if \<not> is_success code then failE (''Failed to list GPUs: '' @ body)
     else bindE (json_or decode_provider_list j ''Invalid provider list response'') (\<lambda>r.
       if \<not> cc_output_json ctx \<and> \<not> list_all id_cut (fst r) then failE panicked else retE r))"

text \<open>How many of the five stars are full: \<open>as usize\<close> saturates.\<close>

definition full_stars :: "f64 \<Rightarrow> nat" where
  "full_stars score = (case f64_round score of Fin q \<Rightarrow> min (nat \<lfloor>q\<rfloor>) 5 | PInf \<Rightarrow> 5 | _ \<Rightarrow> 0)"

definition trust_stars :: "f64 \<Rightarrow> bool list" where
  "trust_stars score = replicate (full_stars score) True @ replicate (5 - full_stars score) False"

definition runtime_short :: "string \<Rightarrow> string" where
  "runtime_short r = (if r = ''torch-mps'' then ''mps'' else if r = ''onnx-coreml'' then ''onnx'' else if r = ''llama-cpp'' then ''llama'' else r)"

section \<open>The local benchmark\<close>

datatype bench_result = Bench_Unknown | Bench_Available string "string option" | Bench_Missing string | Bench_Not_Run

definition python_check :: "string \<Rightarrow> string option" where
  "python_check rt =
     (if rt = ''mlx'' then Some ''import mlx.core as mx; print(mx.default_device())''
      else if rt = ''torch-mps'' then Some ''import torch; print(torch.backends.mps.is_available())''
      else if rt = ''onnx-coreml'' then Some ''import onnxruntime as ort; print(ort.get_available_providers())'' else None)"

text \<open>The scripts of the benchmark are a parameter; only two runtimes have one.\<close>

definition bench_script :: "(string \<Rightarrow> string) \<Rightarrow> string \<Rightarrow> string option" where
  "bench_script scripts rt = (if rt = ''mlx'' \<or> rt = ''torch-mps'' then Some (scripts rt) else None)"

definition python_command :: "string \<Rightarrow> command" where
  "python_command script = command_of ''python3'' [''-c'', script]"

definition output_texts :: "agent_env \<Rightarrow> command \<Rightarrow> (cmd_result \<times> string \<times> string) agent_prog" where
  "output_texts env c = (\<lambda>s. case run_command env c s of
     (r, s') \<Rightarrow> (map_sum id (\<lambda>x. (x, ae_stdout env c (ho_files s), ae_stderr env c (ho_files s))) r, s'))"

definition benchmark_runtime :: "agent_env \<Rightarrow> (string \<Rightarrow> string) \<Rightarrow> string \<Rightarrow> bench_result agent_prog" where
  "benchmark_runtime env scripts rt =
     (case python_check rt of
        None \<Rightarrow> retE Bench_Unknown
      | Some check \<Rightarrow>
          bindE (output_texts env (python_command check)) (\<lambda>(r, out, err).
          if r = Some (Some 0)
          then (case bench_script scripts rt of
                  None \<Rightarrow> retE (Bench_Available (trim_str out) None)
                | Some script \<Rightarrow>
                    bindE (output_texts env (python_command script)) (\<lambda>(r2, out2, err2).
                    retE (Bench_Available (trim_str out) (if r2 = Some (Some 0) then Some (trim_str out2) else None))))
          else if r = None then retE Bench_Not_Run
          else retE (Bench_Missing (if trim_str err = [] then ''runtime not installed'' else trim_str err))))"

fun benchmark_each :: "agent_env \<Rightarrow> (string \<Rightarrow> string) \<Rightarrow> string list \<Rightarrow> bench_result list agent_prog" where
  "benchmark_each env scripts [] = retE []"
| "benchmark_each env scripts (rt # rts) =
     bindE (benchmark_runtime env scripts rt) (\<lambda>b. bindE (benchmark_each env scripts rts) (\<lambda>bs. retE (b # bs)))"

definition memsize_command :: command where
  "memsize_command = command_of ''sysctl'' [''-n'', ''hw.memsize'']"

text \<open>The chip, the gigabytes of memory, and the results.\<close>

definition benchmark_local :: "agent_env \<Rightarrow> (string \<Rightarrow> string) \<Rightarrow> string \<Rightarrow> (string \<times> int \<times> bench_result list) agent_prog" where
  "benchmark_local env scripts rt =
     bindE (command_output env brand_command) (\<lambda>chip.
     bindE (command_output env memsize_command) (\<lambda>mem.
     bindE (benchmark_each env scripts (if rt = ''all'' then [''mlx'', ''torch-mps'', ''onnx-coreml''] else [rt])) (\<lambda>bs.
     retE (case chip of Some c \<Rightarrow> trim_str c | None \<Rightarrow> ''Unknown'',
       unwrap_or 0 (Option.bind mem (\<lambda>out. parse_u64 (trim_str out))) div 1073741824, bs))))"

end
