(* ===== verification/Cli_Provider_Runs.thy ===== *)
theory Cli_Provider_Runs
  imports Cli_Provider
begin

text \<open>
  The provider and GPU commands of the client against the coordinator and the agent: what the list of GPUs shows, where a setting goes, and
  what a failed installation leaves.
\<close>

section \<open>The list of GPUs\<close>

definition param_text :: "string \<times> string \<Rightarrow> string" where
  "param_text kv = fst kv @ CHR ''='' # snd kv"

lemma params_back:
  "kvs \<noteq> [] \<Longrightarrow> list_all (\<lambda>kv. plain_text (fst kv) \<and> plain_text (snd kv)) kvs \<Longrightarrow> query_params (join_with ''&'' (map param_text kvs)) = kvs"
proof (induction kvs rule: induct_list012)
  case (2 kv)
  then show ?case using query_one [of "fst kv" "snd kv"] by (simp add: param_text_def)
next
  case (3 kv kv' kvs)
  let ?rest = "join_with ''&'' (map param_text (kv' # kvs))"
  have "?rest \<noteq> []" by (cases kvs) (simp_all add: param_text_def)
  then have "query_params (fst kv @ CHR ''='' # snd kv @ CHR ''&'' # ?rest) = kv # query_params ?rest"
    using 3(4) query_more [of "fst kv" "snd kv" ?rest] by simp
  moreover have "query_params ?rest = kv' # kvs" using 3(2,4) by simp
  moreover have "join_with ''&'' (map param_text (kv # kv' # kvs)) = fst kv @ CHR ''='' # snd kv @ CHR ''&'' # ?rest" by (simp add: param_text_def)
  ultimately show ?case by simp
qed simp

definition gpu_pairs :: "(f64 \<Rightarrow> string) \<Rightarrow> int option \<Rightarrow> string option \<Rightarrow> f64 option \<Rightarrow> string \<Rightarrow> int \<Rightarrow> (string \<times> string) list" where
  "gpu_pairs print_price min_ram rt max_price sorting limit =
     [(''limit'', int_str limit), (''sort'', sorting)]
     @ (case min_ram of Some r \<Rightarrow> [(''min_ram_gb'', int_str r)] | None \<Rightarrow> []) @ (case rt of Some r \<Rightarrow> [(''runtime'', r)] | None \<Rightarrow> [])
     @ (case max_price of Some p \<Rightarrow> [(''max_price'', print_price p)] | None \<Rightarrow> [])"

lemma gpu_params_pairs: "gpu_params print_price min_ram rt max_price sorting limit = map param_text (gpu_pairs print_price min_ram rt max_price sorting limit)"
  by (simp add: gpu_params_def gpu_pairs_def param_text_def split: option.split)

lemma parse_signed_int_str: "0 \<le> i \<Longrightarrow> i < 9223372036854775808 \<Longrightarrow> parse_signed 9223372036854775808 (int_str i) = Some i"
proof -
  assume i: "0 \<le> i" "i < 9223372036854775808"
  obtain c ds where c: "int_str i = c # ds" using int_digits_ne [of "nat i"] i(1) by (cases "int_str i") (auto simp: int_str_of_nat)
  moreover have "c \<noteq> CHR ''-''" using c int_digits_chars [of c "nat i"] i(1) by (auto simp: int_str_of_nat)
  ultimately show ?thesis using parse_int_str [of i 9223372036854775808] i by (simp add: parse_signed_def)
qed

lemma gpu_reply:
  assumes "plain_text sorting" "case rt of None \<Rightarrow> True | Some r \<Rightarrow> plain_text r" "case min_ram of None \<Rightarrow> True | Some r \<Rightarrow> 0 \<le> r"
    and "\<And>p. plain_text (print_price p)" "0 \<le> limit" "limit < 4294967296"
  shows "coordinator_of senv ctx text_of (get_req (gpu_url ctx (gpu_params print_price min_ram rt max_price sorting limit))) w =
     reply_of text_of (list_providers \<lparr>pq_runtime = rt, pq_min_ram = None, pq_region = None, pq_limit = Some limit\<rparr> w)"
proof -
  let ?base = "trim_end_matches (CHR ''/'') (cc_coordinator_url ctx)" and ?kvs = "gpu_pairs print_price min_ram rt max_price sorting limit"
  have p: "plain_text ''limit''" "plain_text ''sort''" "plain_text ''min_ram_gb''" "plain_text ''runtime''" "plain_text ''max_price''"
    by (simp_all add: plain_text_def)
  have "query_params (join_with ''&'' (map param_text ?kvs)) = ?kvs"
    using assms int_str_plain p by (intro params_back) (auto simp: gpu_pairs_def split: option.split)
  moreover have "route_of ?base (?base @ ''/api/v1/'' @ ''providers'' @ ''?'' @ join_with ''&'' (map param_text ?kvs)) =
      Some (split_on (CHR ''/'') ''providers'', query_params (join_with ''&'' (map param_text ?kvs)))"
    by (intro route_query) simp
  ultimately have r: "route_of ?base (gpu_url ctx (gpu_params print_price min_ram rt max_price sorting limit)) = Some ([''providers''], ?kvs)"
    by (simp add: gpu_url_def gpu_params_pairs at_coordinator_def split_on_one)
  have "map_of ?kvs ''runtime'' = rt" "map_of ?kvs ''min_ram'' = None" "map_of ?kvs ''region'' = None" "map_of ?kvs ''limit'' = Some (int_str limit)"
    by (cases rt; cases min_ram; cases max_price; simp add: gpu_pairs_def)+
  then have "provider_query_of ?kvs = Some \<lparr>pq_runtime = rt, pq_min_ram = None, pq_region = None, pq_limit = Some limit\<rparr>"
    using parse_signed_int_str [of limit] assms(5,6) by (simp add: provider_query_of_def int_param_def)
  then show ?thesis using r by (simp add: coordinator_peer_def get_req_def coordinator_get_def)
qed

text \<open>A row that the client can read, and how it is shown.\<close>

definition u32_range :: "int \<Rightarrow> bool" where
  "u32_range n \<longleftrightarrow> 0 \<le> n \<and> n < 4294967296"

definition provider_readable :: "provider_row \<Rightarrow> bool" where
  "provider_readable r \<longleftrightarrow> p_chip_model r \<noteq> None \<and> (\<exists>m. p_unified_memory_gb r = Some m \<and> u32_range m) \<and> (\<exists>g. p_gpu_cores r = Some g \<and> u32_range g) \<and>
     (\<exists>q. p_floor_price r = Some (Fin q)) \<and> (\<exists>t. p_trust_score r = Some (Fin t)) \<and> (\<forall>m. p_max_job_ram_gb r = Some m \<longrightarrow> u32_range m) \<and>
     is_char_boundary (p_provider_id r) (min (length (p_provider_id r)) 36)"

definition provider_shown :: "provider_row \<Rightarrow> provider_info" where
  "provider_shown r = \<lparr>pf_id = p_provider_id r, pf_chip_model = unwrap_or [] (p_chip_model r), pf_unified_memory_gb = unwrap_or 0 (p_unified_memory_gb r),
     pf_gpu_cores = unwrap_or 0 (p_gpu_cores r), pf_installed_runtimes = unwrap_or [] (p_installed_runtimes r),
     pf_floor_price = unwrap_or (Fin 0) (p_floor_price r), pf_trust_score = unwrap_or (Fin 0) (p_trust_score r), pf_region = p_region r,
     pf_bandwidth_mbps = None, pf_max_job_ram_gb = p_max_job_ram_gb r\<rparr>"

lemma decode_all_strs: "decode_all j_as_str (map JStr xs) = Some xs"
  by (induction xs) auto

lemma decode_listing: "provider_readable r \<Longrightarrow> decode_provider (provider_listing r) = Some (provider_shown r)"
  by (cases "p_region r"; cases "p_max_job_ram_gb r")
    (auto simp: provider_readable_def decode_provider_def provider_listing_def provider_shown_def req_field_def opt_field_def list_field_def j_field_def
      j_strs_def decode_all_strs u32_range_def)

text \<open>C35: The list of GPUs ignores what it is asked for. Whatever memory, runtime, highest price and order the user gives to \<open>hatch gpu list\<close>, it shows the
  cheapest available providers, in the order of their price, as many as the limit, and all of them whatever their memory, their runtimes and their
  price. The coordinator filters by memory and region, under names that the client does not send; the runtime it accepts and does not
  read, the price and the order it does not know.\<close>

theorem gpu_list_ignores_filters:
  assumes "plain_text sorting" "case rt of None \<Rightarrow> True | Some r \<Rightarrow> plain_text r" "case min_ram of None \<Rightarrow> True | Some r \<Rightarrow> 0 \<le> r"
    and "\<And>p. plain_text (print_price p)" "0 \<le> limit" "limit < 4294967296" "wfaults (ci_peer s) = []"
    and "rows = take (nat limit) (order_asc p_floor_price (filter (\<lambda>r. p_state r = Some ''available'') (providers (wdb (ci_peer s)))))"
    and "list_all provider_readable rows"
  shows "list_gpus (coordinator_of senv ctx text_of) print_price ctx min_ram rt max_price sorting limit s = (Inr (map provider_shown rows, int (length rows)), s)"
proof -
  let ?q = "\<lparr>pq_runtime = rt, pq_min_ram = None, pq_region = None, pq_limit = Some limit\<rparr>"
  have m: "provider_matches ?q = (\<lambda>r. p_state r = Some ''available'')" by (rule ext) (simp add: provider_matches_def)
  have sel: "select_providers ?q (wdb (ci_peer s)) = Inr rows" using assms(5,8) by (simp add: select_providers_def sql_limit_def m)
  have "decode_all decode_provider (map provider_listing rows) = Some (map provider_shown rows)"
    using assms(9) by (induction rows) (simp_all add: decode_listing)
  moreover have n: "int (length rows) \<le> limit" using assms(5,8) by simp
  ultimately have "decode_provider_list (JObj [(''providers'', JArr (map provider_listing rows)), (''total'', JInt (int (length rows)))]) =
      Some (map provider_shown rows, int (length rows))"
    using assms(6) by (simp add: decode_provider_list_def list_field_def req_field_def j_field_def)
  moreover have "list_all id_cut (map provider_shown rows)"
    using assms(9) by (auto simp: list_all_iff id_cut_def provider_readable_def provider_shown_def slice_to_def)
  moreover have "list_providers ?q (ci_peer s) = (Inr (JObj [(''providers'', JArr (map provider_listing rows)), (''total'', JInt (int (length rows)))]), ci_peer s)"
    using assms(7) sel by (simp add: list_providers_def prog_simps)
  ultimately show ?thesis
    using gpu_reply [where ctx = ctx and w = "ci_peer s" and senv = senv and text_of = text_of and max_price = max_price, OF assms(1-6)]
    by (simp add: list_gpus_def prog_simps send_or_def send_to_def reply_of_def is_success_def json_or_def)
qed


definition demo_gpu :: "string \<Rightarrow> rat \<Rightarrow> provider_row" where
  "demo_gpu i price = (new_provider_row i 900)\<lparr>p_chip_model := Some ''M3'', p_unified_memory_gb := Some 16, p_gpu_cores := Some 10,
     p_floor_price := Some (Fin price), p_trust_score := Some (Fin 4), p_state := Some ''available'', p_max_job_ram_gb := Some 12\<rparr>"

text \<open>Asked for half a terabyte at no price, the client shows the cheapest Mac.\<close>

lemma gpu_list_ignores_filters_witness:
  "fst (list_gpus (coordinator_of demo_senv demo_submitter (\<lambda>_. [])) (\<lambda>_. ''0'') demo_submitter (Some 512) (Some ''llama-cpp'') (Some (Fin 0)) ''ram'' 1
     \<lparr>ci_host = submit_host, ci_peer = world_at (empty_db\<lparr>providers := [demo_gpu ''p2'' 2, demo_gpu ''p1'' 1]\<rparr>)\<rparr>) = Inr ([provider_shown (demo_gpu ''p1'' 1)], 1)"
proof -
  let ?s = "\<lparr>ci_host = submit_host, ci_peer = world_at (empty_db\<lparr>providers := [demo_gpu ''p2'' 2, demo_gpu ''p1'' 1]\<rparr>)\<rparr>"
  have "order_asc p_floor_price (filter (\<lambda>r. p_state r = Some ''available'') (providers (wdb (ci_peer ?s)))) = [demo_gpu ''p1'' 1, demo_gpu ''p2'' 2]"
    by (simp add: demo_gpu_def order_asc_def new_provider_row_def sort_col_def)
  moreover have "provider_readable (demo_gpu ''p1'' 1)"
    by (simp add: provider_readable_def demo_gpu_def new_provider_row_def u32_range_def is_char_boundary_def)
  ultimately show ?thesis
    using gpu_list_ignores_filters [where sorting = "''ram''" and rt = "Some ''llama-cpp''" and min_ram = "Some 512" and print_price = "\<lambda>_. ''0''" and limit = 1
      and s = ?s and rows = "[demo_gpu ''p1'' 1]" and senv = demo_senv and ctx = demo_submitter and text_of = "\<lambda>_. []" and max_price = "Some (Fin 0)"]
    by (simp add: plain_text_def)
qed

section \<open>Settings\<close>

lemma configure_path_eq: "cv_config_dir cv \<noteq> None \<Longrightarrow> configure_path cv = agent_config_path cv"
  by (auto simp: configure_path_def agent_config_path_def dir_join_def)

text \<open>What the client takes the settings to be before it changes them.\<close>

definition settings_before :: "cli_env \<Rightarrow> agent_toml \<Rightarrow> host \<Rightarrow> agent_config" where
  "settings_before cv tm s = (case ho_files s (agent_config_path cv) of
     Some (E_File t) \<Rightarrow> if t = [] then default_agent_config cv else unwrap_or (default_agent_config cv) (at_parse tm t) | _ \<Rightarrow> default_agent_config cv)"

text \<open>C32: A setting reaches the agent, and a damaged file loses the others. When the files can be read and written, \<open>hatch provider config\<close> succeeds
  and the agent that starts next reads the configuration as it was, with the options given; but where the file did not parse, which the agent
  refuses at its start, the client takes it for the default without a word, so that every other setting is lost.\<close>

theorem configure_reaches_agent:
  assumes "cv_config_dir cv \<noteq> None" "\<And>op p fs. ae_io_error (cv_machine cv) op p fs = None"
    and tx: "at_print tm (with_options po (settings_before cv tm s)) = Some tx" "at_parse tm tx = Some (with_options po (settings_before cv tm s))"
    and "ho_files s (agent_config_path cv) \<noteq> Some E_Dir"
  shows "\<exists>s'. configure cv tm po s = (Inr (), s') \<and>
     agent_load_or_create cv tm (agent_config_path cv) s' = (Inr (with_options po (settings_before cv tm s)), s') \<and>
     (\<forall>t. ho_files s (agent_config_path cv) = Some (E_File t) \<and> at_parse tm t = None \<longrightarrow>
        fst (agent_load_or_create cv tm (agent_config_path cv) s) = Inl (parse_error (agent_config_path cv)) \<and>
        settings_before cv tm s = default_agent_config cv)"
proof -
  let ?p = "agent_config_path cv"
  note path = configure_path_eq [OF assms(1)]
  have "\<exists>a. ?p = a @ ''agent.toml''" by (auto simp: agent_config_path_def dir_join_def)
  then have "length ?p > 1" by auto
  then obtain d where d: "parent_of ?p = Some d" by (cases ?p) (auto simp: parent_of_def Let_def)
  have "\<exists>s'. configure cv tm po s = (Inr (), s') \<and> ho_files s' ?p = Some (E_File tx)"
  proof (cases "ho_files s ?p")
    case None
    then show ?thesis using tx(1) d assms(2)
      by (simp add: configure_def path prog_simps exists_path_def settings_before_def create_dir_all_def file_op_def write_file_def Let_def)
  next
    case (Some e)
    then obtain t where "e = E_File t" using assms(5) by (cases e) auto
    then show ?thesis using tx(1) d assms(2) Some
      by (simp add: configure_def path prog_simps exists_path_def settings_before_def read_file_def create_dir_all_def file_op_def write_file_def Let_def)
  qed
  then obtain s' where s': "configure cv tm po s = (Inr (), s')" "ho_files s' ?p = Some (E_File tx)" by blast
  have "agent_load_or_create cv tm ?p s' = (Inr (with_options po (settings_before cv tm s)), s')"
    using s'(2) tx(2) assms(2) by (simp add: agent_load_or_create_def prog_simps exists_path_def read_file_def)
  with s'(1) assms(2) show ?thesis
    by (intro exI [of _ s']) (simp add: agent_load_or_create_def prog_simps exists_path_def read_file_def settings_before_def)
qed

definition demo_floor :: provider_options where
  "demo_floor = \<lparr>po_idle_threshold = None, po_idle_minutes = None, po_floor_price = Some (Fin 2), po_max_job_ram = None\<rparr>"

definition demo_agent_toml :: agent_toml where
  "demo_agent_toml = \<lparr>at_print = (\<lambda>_. Some ''ok''), at_parse = (\<lambda>t. if t = ''ok'' then Some (with_options demo_floor (default_agent_config demo_cli_env)) else None)\<rparr>"

definition damaged_machine :: host where
  "damaged_machine = \<lparr>ho_files = [''/u/.config/hatch/agent.toml'' \<mapsto> E_File ''bad''], ho_commands = []\<rparr>"

text \<open>A damaged file, and a floor price.\<close>

lemma configure_reaches_agent_witness:
  "fst (agent_load_or_create demo_cli_env demo_agent_toml (agent_config_path demo_cli_env) damaged_machine) = Inl (parse_error ''/u/.config/hatch/agent.toml'') \<and>
   (\<exists>s'. configure demo_cli_env demo_agent_toml demo_floor damaged_machine = (Inr (), s') \<and>
     fst (agent_load_or_create demo_cli_env demo_agent_toml (agent_config_path demo_cli_env) s') = Inr (with_options demo_floor (default_agent_config demo_cli_env)))"
proof -
  have p: "agent_config_path demo_cli_env = ''/u/.config/hatch/agent.toml''" by (simp add: agent_config_path_def dir_join_def demo_cli_env_def)
  have f: "ho_files damaged_machine (agent_config_path demo_cli_env) = Some (E_File ''bad'')" by (simp add: p damaged_machine_def)
  have d: "settings_before demo_cli_env demo_agent_toml damaged_machine = default_agent_config demo_cli_env"
    by (simp add: settings_before_def f demo_agent_toml_def)
  have io: "ae_io_error (cv_machine demo_cli_env) op q fs = None" for op q fs by (simp add: demo_cli_env_def demo_agent_env_def)
  have c: "cv_config_dir demo_cli_env \<noteq> None" by (simp add: demo_cli_env_def)
  have t: "at_print demo_agent_toml cfg = Some ''ok''" "at_parse demo_agent_toml ''ok'' = Some (with_options demo_floor (default_agent_config demo_cli_env))"
    "at_parse demo_agent_toml ''bad'' = None" for cfg by (simp_all add: demo_agent_toml_def)
  obtain s' where "configure demo_cli_env demo_agent_toml demo_floor damaged_machine = (Inr (), s')"
    "agent_load_or_create demo_cli_env demo_agent_toml (agent_config_path demo_cli_env) s' = (Inr (with_options demo_floor (default_agent_config demo_cli_env)), s')"
    "fst (agent_load_or_create demo_cli_env demo_agent_toml (agent_config_path demo_cli_env) damaged_machine) = Inl (parse_error (agent_config_path demo_cli_env))"
    using configure_reaches_agent [where cv = demo_cli_env and tm = demo_agent_toml and po = demo_floor and s = damaged_machine and tx = "''ok''", OF c io]
    by (auto simp: d f t)
  then show ?thesis using p by auto
qed

section \<open>Installation\<close>

definition known_runtimes :: "string list" where
  "known_runtimes = [''mlx'', ''torch-mps'', ''onnx-coreml'', ''llama-cpp'']"

definition note_ok :: "string \<Rightarrow> install_note \<Rightarrow> bool" where
  "note_ok rt n = (case n of
     Installed r \<Rightarrow> r = rt \<and> rt \<in> set known_runtimes | Install_Skipped r \<Rightarrow> r = rt \<and> rt = ''llama-cpp'' | Unknown_Runtime r \<Rightarrow> r = rt \<and> rt \<notin> set known_runtimes)"

lemma cli_install_runtime_note: "cli_install_runtime cv rt s = (Inr n, s') \<Longrightarrow> note_ok rt n"
  by (auto simp: cli_install_runtime_def note_ok_def known_runtimes_def seqE_ok bindE_ok retE_ok split: if_splits)

lemma install_runtimes_notes: "install_runtimes cv rts s = (Inr ns, s') \<Longrightarrow> list_all2 note_ok (map trim_str rts) ns"
  by (induction rts arbitrary: s ns s') (auto simp: bindE_ok retE_ok dest: cli_install_runtime_note)

text \<open>A failed installation registers nothing. Whatever runtimes are asked for and whatever the commands do: when \<open>hatch provider install\<close> fails, the
  coordinator has not been asked; when it succeeds, every runtime asked for has its note, installed if it is a known one (only the build of
  \<open>llama-cpp\<close> may fail and be skipped), and skipped as unknown if it is not. A failed registration does not fail the command.\<close>

theorem install_registers_last:
  "case provider_install cv peer ctx runtimes s of
     (Inl e, s') \<Rightarrow> ci_peer s' = ci_peer s
   | (Inr (notes, account), s') \<Rightarrow> list_all2 note_ok (map trim_str (split_on (CHR '','') runtimes)) notes"
proof -
  have host: "ci_peer t' = ci_peer t" if "on_host m t = (r, t')" for m :: "'b agent_prog" and t t' :: "'a cli_world" and r
    using that by (auto simp: on_host_def split: prod.splits)
  have some: "t' = t" if "someE e x t = (r, t')" for e :: string and x :: "'b option" and t t' :: "'a cli_world" and r
    using that by (auto simp: someE_run split: option.splits)
  have each: "list_all2 note_ok (map trim_str rts) ns" if "on_host (install_runtimes cv rts) t = (Inr ns, t')" for rts ns and t t' :: "'a cli_world"
    using that by (auto simp: on_host_ok dest: install_runtimes_notes)
  show ?thesis
    unfolding provider_install_def bindE_run seqE_run matchE_run retE_run
    by (auto split: prod.splits sum.splits intro: each) (metis host some)+
qed


end
