(* ===== verification/Agent_Startup.thy ===== *)
theory Agent_Startup
  imports Cli_Provider_Runs
begin

text \<open>
  The start of the provider agent: \<open>main\<close> and \<open>run_agent\<close> of \<open>agent/src/main.rs\<close>, the connection and the registration of
  \<open>agent/src/coordinator_client.rs\<close>, the heartbeat task of \<open>agent/src/heartbeat.rs\<close>, and the download of a checkpoint in
  \<open>agent/src/idle_monitor.rs\<close>. The agent runs on the machine of the client's commands, with the coordinator as its peer, so that what one of
  them leaves behind is what the other finds. The parser of TOML, the tools that describe the chip, the random seed of a new key and the
  network are parameters; logging is not modelled. An exit of the process is the failure with the message that it logs.
\<close>

section \<open>The coordinator client\<close>

text \<open>Whether a connection to an endpoint comes about, with TLS or without, and whether the coordinator's answers arrive.\<close>

record network =
  nw_dial :: "string \<Rightarrow> bool \<Rightarrow> bool"
  nw_answers :: bool

record coordinator_client =
  cn_provider_id :: string
  cn_endpoint :: string

definition try_connect :: "network \<Rightarrow> string \<Rightarrow> coordinator_client option" where
  "try_connect nw endpoint =
     (if nw_dial nw endpoint (starts_with ''https://'' endpoint) then Some \<lparr>cn_provider_id = [], cn_endpoint = endpoint\<rparr> else None)"

fun first_connection :: "network \<Rightarrow> string list \<Rightarrow> coordinator_client option" where
  "first_connection nw [] = None"
| "first_connection nw (e # es) = (case try_connect nw e of Some c \<Rightarrow> Some c | None \<Rightarrow> first_connection nw es)"

definition connect :: "network \<Rightarrow> string list \<Rightarrow> ('w, coordinator_client) cli" where
  "connect nw endpoints = someE ''No coordinator reachable from list'' (first_connection nw endpoints)"

text \<open>\<open>str::replace\<close>: every occurrence, from left to right.\<close>

function replace_all :: "string \<Rightarrow> string \<Rightarrow> string \<Rightarrow> string" where
  "replace_all p r [] = []"
| "replace_all p r (c # cs) =
     (if starts_with p (c # cs) then r @ replace_all p r (drop (length p - 1) cs) else c # replace_all p r cs)"
  by pat_completeness auto
termination by (relation "measure (\<lambda>(p, r, s). length s)") auto

definition rest_base :: "coordinator_client \<Rightarrow> string" where
  "rest_base c = replace_all '':9090'' '':8080'' (cn_endpoint c)"

definition with_provider_id :: "coordinator_client \<Rightarrow> string \<Rightarrow> coordinator_client" where
  "with_provider_id c i = c\<lparr>cn_provider_id := i\<rparr>"

subsection \<open>Registration\<close>

definition package_version :: string where
  "package_version = ''0.1.0''"

definition offered_capabilities :: "mac_chip_info \<Rightarrow> agent_config \<Rightarrow> string list \<Rightarrow> capabilities" where
  "offered_capabilities chip cfg runtimes =
     \<lparr>cap_chip = Some \<lparr>ci_chip_model = mc_chip_model chip, ci_unified_memory_gb = mc_unified_memory_gb chip, ci_gpu_cores = mc_gpu_cores chip,
        ci_metal_version = mc_metal_version chip, ci_serial_number = mc_serial_number chip\<rparr>,
      cap_installed_runtimes = runtimes, cap_max_job_ram_gb = unwrap_or (max 0 (mc_unified_memory_gb chip - 4)) (ag_max_job_ram_gb cfg),
      cap_bandwidth_mbps = 100, cap_region = ag_region cfg, cap_floor_price = ag_floor_price cfg\<rparr>"

text \<open>The request with the signature that the coordinator's handler does not read.\<close>

record signed_request = register_request +
  sr_attestation_signature :: string

definition signed_registration :: "cli_env \<Rightarrow> nm_keypair \<Rightarrow> mac_chip_info \<Rightarrow> agent_config \<Rightarrow> string list \<Rightarrow> signed_request" where
  "signed_registration cv kp chip cfg runtimes =
     \<lparr>rr_capabilities = Some (offered_capabilities chip cfg runtimes), rr_provider_id = public_key_hex (cv_crypto cv) kp,
      rr_nm_version = package_version,
      sr_attestation_signature = keypair_sign (cv_crypto cv) kp (ae_json_text (cv_machine cv) (JStr (mc_serial_number chip)))\<rparr>"

definition on_coordinator :: "('w, 'e, 'a) prog \<Rightarrow> ('w cli_world, 'e, 'a) prog" where
  "on_coordinator m = (\<lambda>s. case m (ci_peer s) of (r, w) \<Rightarrow> (r, s\<lparr>ci_peer := w\<rparr>))"

text \<open>The client once it has its provider id.\<close>

definition register ::
  "network \<Rightarrow> cli_env \<Rightarrow> coordinator_client \<Rightarrow> nm_keypair \<Rightarrow> mac_chip_info \<Rightarrow> agent_config \<Rightarrow> string list \<Rightarrow> (coord_db world, coordinator_client) cli" where
  "register nw cv c kp chip cfg runtimes =
     (if \<not> nw_answers nw then failE ''RegisterProvider RPC''
      else bindE (map_errE (\<lambda>_. ''RegisterProvider RPC'')
             (on_coordinator (register_provider (register_request.truncate (signed_registration cv kp chip cfg runtimes))))) (\<lambda>response.
        if rs_status response \<noteq> ''ok'' then failE (''Registration rejected: '' @ rs_message response)
        else retE (with_provider_id c (public_key_hex (cv_crypto cv) kp))))"

section \<open>The start of the agent\<close>

text \<open>The event loop of \<open>IdleMonitor\<close> starts from the monitor that this gives; \<open>now\<close> is the time of the monotonic clock.\<close>

definition run_agent ::
  "network \<Rightarrow> cli_env \<Rightarrow> agent_config \<Rightarrow> mac_chip_info \<Rightarrow> nm_keypair \<Rightarrow> string list \<Rightarrow> int \<Rightarrow> (coord_db world, agent_monitor) cli" where
  "run_agent nw cv cfg chip kp runtimes now =
     bindE (connect nw (ag_coordinator_endpoints cfg)) (\<lambda>c.
     bindE (register nw cv c kp chip cfg runtimes) (\<lambda>c'.
     retE (monitor_start (cn_provider_id c') (ag_idle_threshold_pct cfg) (ag_idle_duration_minutes cfg) now)))"

definition agent_identity :: "cli_env \<Rightarrow> string \<Rightarrow> nm_keypair agent_prog" where
  "agent_identity cv cfg_path =
     bindE (someE panicked (parent_of cfg_path)) (\<lambda>d.
     let key_path = dir_join d ''identity.key'' in
     bindE (exists_path key_path) (\<lambda>e.
     if e then map_errE (\<lambda>_. ''key'') (keypair_load (cv_machine cv) key_path)
     else let kp = \<lparr>kp_seed = cv_seed cv\<rparr>
          in seqE (map_errE (\<lambda>_. ''key'') (keypair_save (cv_machine cv) key_path kp)) (retE kp)))"

definition no_runtimes :: string where
  "no_runtimes = ''No ML runtimes installed! Run `nm provider install` first.''"

definition agent_main ::
  "network \<Rightarrow> cli_env \<Rightarrow> agent_toml \<Rightarrow> gpu_host \<Rightarrow> string option \<Rightarrow> int \<Rightarrow> (coord_db world, agent_monitor) cli" where
  "agent_main nw cv tm gh config_arg now =
     (let cfg_path = unwrap_or (agent_config_path cv) config_arg in
      bindE (on_host (agent_load_or_create cv tm cfg_path)) (\<lambda>cfg.
      bindE (someE ''sysctl hw.memsize'' (detect_mac_chip gh)) (\<lambda>chip.
      bindE (on_host (agent_identity cv cfg_path)) (\<lambda>kp.
      bindE (on_host (detect_installed_runtimes (cv_machine cv) (ag_allowed_runtimes cfg))) (\<lambda>runtimes.
      if runtimes = [] then failE no_runtimes
      else run_agent nw cv cfg chip kp runtimes now)))))"

section \<open>The heartbeat task\<close>

text \<open>One turn of \<open>run_heartbeat\<close>; a failure is logged.\<close>

definition heartbeat_turn :: "coordinator_client \<Rightarrow> string \<Rightarrow> gpu_stats option \<Rightarrow> (coord_db world, unit, unit) prog" where
  "heartbeat_turn c st stats =
     bindE (okE (client_heartbeat (cn_provider_id c) st (case stats of Some g \<Rightarrow> gs_utilization_pct g | None \<Rightarrow> Fin 0)
       (case stats of Some g \<Rightarrow> as_u32 (gs_memory_used_mb g div 1024) | None \<Rightarrow> 0) None)) (\<lambda>_. retE ())"

section \<open>The download of a checkpoint\<close>

fun fetch_files :: "agent_env \<Rightarrow> 'w http_peer \<Rightarrow> string \<Rightarrow> string \<Rightarrow> string list \<Rightarrow> ('w, unit) cli" where
  "fetch_files env peer url dir [] = retE ()"
| "fetch_files env peer url dir (f # fs) =
     bindE (send_or peer (get_req (trim_end_matches (CHR ''/'') url @ ''/'' @ f)) ''request'') (\<lambda>(code, body, j).
     seqE (if is_success code then on_host (write_file env (path_join dir f) body) else retE ()) (fetch_files env peer url dir fs))"

text \<open>The message leaves the reason phrase of the status out.\<close>

definition fetch_checkpoint :: "agent_env \<Rightarrow> 'w http_peer \<Rightarrow> string \<Rightarrow> string \<Rightarrow> ('w, unit) cli" where
  "fetch_checkpoint env peer job_id url =
     bindE (send_or peer (get_req (trim_end_matches (CHR ''/'') url @ ''/checkpoint.json'')) ''request'') (\<lambda>(code, body, j).
     if \<not> is_success code then failE (''Failed to fetch checkpoint metadata: HTTP '' @ int_str code)
     else bindE (json_or decode_meta j ''json'') (\<lambda>meta.
       let dir = path_join checkpoint_root job_id in
       seqE (on_host (create_dir_all env dir))
       (seqE (fetch_files env peer url dir (cx_dmtcp_files meta)) (on_host (meta_save env meta)))))"

text \<open>The poll with its download, which may fail.\<close>

definition agent_poll :: "(string \<Rightarrow> string option) \<Rightarrow> agent_env \<Rightarrow> coord_db world http_peer \<Rightarrow> string \<Rightarrow> (coord_db world, agent_job_spec option) cli" where
  "agent_poll parse_uuid env peer pid =
     bindE (okE (on_coordinator (get_assigned_job pid))) (\<lambda>body. case body of
       None \<Rightarrow> retE None
     | Some b \<Rightarrow>
         (let job = j_get ''job'' b in
          if job = JNull then retE None
          else let spec = decode_job parse_uuid job in
            seqE (case as_checkpoint_url spec of None \<Rightarrow> retE ()
                  | Some u \<Rightarrow> bindE (okE (fetch_checkpoint env peer (str_or_empty ''job_id'' job) u)) (\<lambda>_. retE ()))
            (retE (Some spec))))"

text \<open>The metadata on disk, read back by a parser of JSON.\<close>

definition meta_load :: "agent_env \<Rightarrow> (string \<Rightarrow> json option) \<Rightarrow> string \<Rightarrow> checkpoint_meta agent_prog" where
  "meta_load env parse job_id =
     bindE (map_errE (\<lambda>_. ''Reading checkpoint metadata for job '' @ job_id)
       (read_file env (path_join (path_join checkpoint_root job_id) ''checkpoint.json''))) (\<lambda>text.
     someE ''Parsing checkpoint metadata'' (Option.bind (parse text) decode_meta))"

section \<open>The report over gRPC\<close>

text \<open>The fields that the coordinator's handler does not read are left out.\<close>

definition client_report_completion ::
  "http_client \<Rightarrow> string option \<Rightarrow> bool \<Rightarrow> coordinator_client \<Rightarrow> string \<Rightarrow> int \<Rightarrow> string \<Rightarrow> int \<Rightarrow> (complete_ack \<times> chain_call list) grpc" where
  "client_report_completion http ledger_url_var oracle_enabled c job_id exit_code output_hash runtime_s =
     report_completion http ledger_url_var oracle_enabled \<lparr>jc_job_id = job_id, jc_provider_id = cn_provider_id c, jc_exit_code = exit_code,
       jc_output_hash = output_hash, jc_actual_runtime_s = runtime_s\<rparr>"

end
