(* ===== verification/Agent_Runs.thy ===== *)
theory Agent_Runs
  imports Agent_Startup
begin

text \<open>
  What the start of the agent does to the market, and the money that the agent earns: the theorems about \<open>Agent_Startup\<close>.
\<close>

section \<open>Registration\<close>

lemma on_coordinator_ok: "on_coordinator m s = (Inr x, s') \<longleftrightarrow> (\<exists>w. m (ci_peer s) = (Inr x, w) \<and> s' = s\<lparr>ci_peer := w\<rparr>)"
  by (auto simp: on_coordinator_def split: prod.split)

lemma someE_ok: "someE e x s = (Inr y, s') \<longleftrightarrow> x = Some y \<and> s' = s"
  by (auto simp: someE_run split: option.splits)

lemmas start_ok = bindE_ok seqE_ok retE_ok failE_ok map_errE_ok someE_ok on_host_ok on_coordinator_ok

lemma truncate_registration: "register_request.truncate (signed_registration cv kp chip cfg runtimes) =
    \<lparr>rr_capabilities = Some (offered_capabilities chip cfg runtimes), rr_provider_id = public_key_hex (cv_crypto cv) kp, rr_nm_version = package_version\<rparr>"
  by (simp add: signed_registration_def register_request.truncate_def)

definition registered :: "capabilities \<Rightarrow> chip_info \<Rightarrow> register_request \<Rightarrow> int \<Rightarrow> provider_row option \<Rightarrow> provider_row" where
  "registered caps chip req now old = (case old of None \<Rightarrow> registered_row req caps chip now | Some r \<Rightarrow> reregistered_row caps chip now r)"

lemma register_provider_ok:
  assumes "register_provider \<lparr>rr_capabilities = Some caps, rr_provider_id = pid, rr_nm_version = v\<rparr> w = (Inr x, w')" "cap_chip caps = Some chip"
    and "keys_distinct p_provider_id (providers (wdb w))"
  shows "provider_of (wdb w') pid =
      Some (registered caps chip \<lparr>rr_capabilities = Some caps, rr_provider_id = pid, rr_nm_version = v\<rparr> (wnow w) (provider_of (wdb w) pid)) \<and>
    (\<exists>t. wdb w' = wdb w\<lparr>providers := t\<rparr> \<and> keys_distinct p_provider_id t) \<and> rs_status x = ''ok''"
proof -
  let ?req = "\<lparr>rr_capabilities = Some caps, rr_provider_id = pid, rr_nm_version = v\<rparr>"
  let ?f = "\<lambda>r. Inr (reregistered_row caps chip (wnow w) r) :: db_error + provider_row"
  have k: "p_provider_id (registered_row ?req caps chip (wnow w)) = pid" by (simp add: registered_row_def new_provider_row_def)
  from assms(1,2) obtain u where u: "upsert_provider ?req caps chip w = (Inr u, w')" and x: "rs_status x = ''ok''"
    by (auto simp: register_provider_def start_ok)
  from db_exec_ok [OF u [unfolded upsert_provider_def]] obtain t
    where t: "sql_upsert p_provider_id (registered_row ?req caps chip (wnow w)) ?f (providers (wdb w)) = Inr t" "wdb w' = wdb w\<lparr>providers := t\<rparr>"
    by (auto simp: on_providers_def map_sum_eq_Inr)
  have kd: "keys_distinct p_provider_id t"
    using keys_distinct_upsert [OF t(1) _ assms(3)] by (auto simp: reregistered_row_def)
  have "sql_first (\<lambda>r. p_provider_id r = pid) t = Some (registered caps chip ?req (wnow w) (provider_of (wdb w) pid))"
  proof (cases "provider_of (wdb w) pid")
    case None
    then have "p_provider_id (registered_row ?req caps chip (wnow w)) \<notin> p_provider_id ` set (providers (wdb w))"
      using k by (auto simp: sql_first_None_iff)
    then have "t = providers (wdb w) @ [registered_row ?req caps chip (wnow w)]" using t(1) by (simp add: sql_upsert_def)
    then show ?thesis using None k by (simp add: sql_first_append registered_def)
  next
    case (Some r)
    then have "sql_update (\<lambda>r. p_provider_id r = pid) ?f (providers (wdb w)) = Inr t"
      using t(1) sql_upsert_hit [of p_provider_id "registered_row ?req caps chip (wnow w)" "providers (wdb w)" r] k by simp
    from sql_update_lookup [OF this, of pid] Some show ?thesis by (simp add: registered_def reregistered_row_def)
  qed
  then show ?thesis using t(2) kd x by auto
qed

section \<open>The start\<close>

lemma agent_main_ok:
  assumes "agent_main nw cv tm gh config_arg now s = (Inr m, s')" "db_inv (wdb (ci_peer s))"
  obtains cfg h chip kp h' runtimes h'' ci req t where
    "agent_load_or_create cv tm (unwrap_or (agent_config_path cv) config_arg) (ci_host s) = (Inr cfg, h)" "detect_mac_chip gh = Some chip"
    "agent_identity cv (unwrap_or (agent_config_path cv) config_arg) h = (Inr kp, h')"
    "detect_installed_runtimes (cv_machine cv) (ag_allowed_runtimes cfg) h' = (Inr runtimes, h'')" "runtimes \<noteq> []"
    "am_provider_id m = public_key_hex (cv_crypto cv) kp" "ci_unified_memory_gb ci = mc_unified_memory_gb chip"
    "provider_of (wdb (ci_peer s')) (am_provider_id m) =
       Some (registered (offered_capabilities chip cfg runtimes) ci req (wnow (ci_peer s)) (provider_of (wdb (ci_peer s)) (am_provider_id m)))"
    "wdb (ci_peer s') = wdb (ci_peer s)\<lparr>providers := t\<rparr>" "keys_distinct p_provider_id t"
proof -
  let ?path = "unwrap_or (agent_config_path cv) config_arg"
  from assms(1) obtain cfg h chip kp h' runtimes h'' c c' t where
    cfg: "agent_load_or_create cv tm ?path (ci_host s) = (Inr cfg, h)" "detect_mac_chip gh = Some chip" "agent_identity cv ?path h = (Inr kp, h')"
    and rts: "detect_installed_runtimes (cv_machine cv) (ag_allowed_runtimes cfg) h' = (Inr runtimes, h'')" "runtimes \<noteq> []"
    and reg: "register nw cv c kp chip cfg runtimes (s\<lparr>ci_host := h''\<rparr>) = (Inr c', s')"
    and m: "am_provider_id m = cn_provider_id c'"
    by (auto simp: agent_main_def Let_def run_agent_def connect_def start_ok monitor_start_def split: if_splits)
  let ?caps = "offered_capabilities chip cfg runtimes"
  let ?ci = "\<lparr>ci_chip_model = mc_chip_model chip, ci_unified_memory_gb = mc_unified_memory_gb chip, ci_gpu_cores = mc_gpu_cores chip,
        ci_metal_version = mc_metal_version chip, ci_serial_number = mc_serial_number chip\<rparr>"
  have ci: "cap_chip ?caps = Some ?ci" by (simp add: offered_capabilities_def)
  from reg obtain x w where w: "register_provider (register_request.truncate (signed_registration cv kp chip cfg runtimes)) (ci_peer s) = (Inr x, w)"
    "s' = s\<lparr>ci_host := h'', ci_peer := w\<rparr>" "cn_provider_id c' = public_key_hex (cv_crypto cv) kp"
    by (auto simp: register_def start_ok with_provider_id_def split: if_splits)
  have "keys_distinct p_provider_id (providers (wdb (ci_peer s)))" using assms(2) by (simp add: db_inv_def pk_inv_def)
  from register_provider_ok [OF w(1) [unfolded truncate_registration] ci this] obtain t where
    "provider_of (wdb w) (am_provider_id m) = Some (registered ?caps ?ci \<lparr>rr_capabilities = Some ?caps, rr_provider_id = am_provider_id m,
       rr_nm_version = package_version\<rparr> (wnow (ci_peer s)) (provider_of (wdb (ci_peer s)) (am_provider_id m)))"
    "wdb w = wdb (ci_peer s)\<lparr>providers := t\<rparr>" "keys_distinct p_provider_id t"
    using w(3) m by auto
  with that [OF cfg rts, of ?ci] w(2,3) m show thesis by simp
qed

text \<open>Every runtime in question was looked for, and only those that were found are kept.\<close>

lemma installed_found: "detect_installed_runtimes env rts s = (Inr installed, s') \<Longrightarrow>
    set installed \<subseteq> {rt \<in> set rts. \<exists>h h'. is_runtime_installed env rt h = (Inr True, h')} \<and>
    set rts - set installed \<subseteq> {rt. \<exists>h h'. is_runtime_installed env rt h = (Inr False, h')}"
proof (induction rts arbitrary: s installed)
  case (Cons rt rts)
  then obtain ok t rest where *: "is_runtime_installed env rt s = (Inr ok, t)" "detect_installed_runtimes env rts t = (Inr rest, s')"
    "installed = (if ok then rt # rest else rest)" by (auto simp: bindE_ok retE_ok)
  from Cons.IH [OF *(2)] *(1,3) show ?case by (cases ok) auto
qed (simp add: retE_ok)

text \<open>C36: The agent's start makes an offer of its settings, once. When the agent starts, its row at the coordinator, under its public key, is offline with
  the floor price of the configuration and exactly the runtimes that the detection returned: those of the allowed runtimes whose check on this
  machine succeeded, and at least one; the check of every other allowed runtime failed. Only the first start also stores the memory for jobs (the
  configured one, or 4 GB less than the machine has) and the region: a later start keeps those of the row, whatever the configuration says. A row
  that was leased is offline afterwards and keeps its job, which stays as it was, and the watcher of silent providers does not see it.\<close>

theorem start_registers_offer:
  assumes "agent_main nw cv tm gh config_arg now s = (Inr m, s')" "db_inv (wdb (ci_peer s))"
  shows "\<exists>cfg h1 chip kp h2 rts h3 r'. agent_load_or_create cv tm (unwrap_or (agent_config_path cv) config_arg) (ci_host s) = (Inr cfg, h1) \<and>
     detect_mac_chip gh = Some chip \<and>
     agent_identity cv (unwrap_or (agent_config_path cv) config_arg) h1 = (Inr kp, h2) \<and> am_provider_id m = public_key_hex (cv_crypto cv) kp \<and>
     detect_installed_runtimes (cv_machine cv) (ag_allowed_runtimes cfg) h2 = (Inr rts, h3) \<and> rts \<noteq> [] \<and>
     set rts \<subseteq> {rt \<in> set (ag_allowed_runtimes cfg). \<exists>h h'. is_runtime_installed (cv_machine cv) rt h = (Inr True, h')} \<and>
     set (ag_allowed_runtimes cfg) - set rts \<subseteq> {rt. \<exists>h h'. is_runtime_installed (cv_machine cv) rt h = (Inr False, h')} \<and>
     provider_of (wdb (ci_peer s')) (am_provider_id m) = Some r' \<and> p_state r' = Some ''offline'' \<and> p_floor_price r' = Some (ag_floor_price cfg) \<and>
     p_installed_runtimes r' = Some rts \<and>
     (case provider_of (wdb (ci_peer s)) (am_provider_id m) of
         None \<Rightarrow> p_max_job_ram_gb r' = Some (as_i32 (unwrap_or (max 0 (mc_unified_memory_gb chip - 4)) (ag_max_job_ram_gb cfg))) \<and>
           p_region r' = Some (ag_region cfg) \<and> p_active_job_id r' = None
       | Some r \<Rightarrow> p_max_job_ram_gb r' = p_max_job_ram_gb r \<and> p_region r' = p_region r \<and> p_active_job_id r' = p_active_job_id r) \<and>
     jobs (wdb (ci_peer s')) = jobs (wdb (ci_peer s)) \<and>
     (\<forall>time. am_provider_id m \<notin> p_provider_id ` set (select_stale time (wdb (ci_peer s'))))"
proof -
  from agent_main_ok [OF assms] obtain cfg h1 chip kp h2 rts h3 ci req t where
    start: "agent_load_or_create cv tm (unwrap_or (agent_config_path cv) config_arg) (ci_host s) = (Inr cfg, h1)" "detect_mac_chip gh = Some chip"
      "agent_identity cv (unwrap_or (agent_config_path cv) config_arg) h1 = (Inr kp, h2)" "am_provider_id m = public_key_hex (cv_crypto cv) kp"
      "detect_installed_runtimes (cv_machine cv) (ag_allowed_runtimes cfg) h2 = (Inr rts, h3)" "rts \<noteq> []"
    and row: "provider_of (wdb (ci_peer s')) (am_provider_id m) =
       Some (registered (offered_capabilities chip cfg rts) ci req (wnow (ci_peer s)) (provider_of (wdb (ci_peer s)) (am_provider_id m)))"
    and t: "wdb (ci_peer s') = wdb (ci_peer s)\<lparr>providers := t\<rparr>" "keys_distinct p_provider_id t" by metis
  let ?r = "registered (offered_capabilities chip cfg rts) ci req (wnow (ci_peer s)) (provider_of (wdb (ci_peer s)) (am_provider_id m))"
  note found = conjunct1 [OF installed_found [OF start(5)]] conjunct2 [OF installed_found [OF start(5)]]
  have r: "p_state ?r = Some ''offline''" "p_floor_price ?r = Some (ag_floor_price cfg)" "p_installed_runtimes ?r = Some rts"
    "case provider_of (wdb (ci_peer s)) (am_provider_id m) of
         None \<Rightarrow> p_max_job_ram_gb ?r = Some (as_i32 (unwrap_or (max 0 (mc_unified_memory_gb chip - 4)) (ag_max_job_ram_gb cfg))) \<and>
           p_region ?r = Some (ag_region cfg) \<and> p_active_job_id ?r = None
       | Some r \<Rightarrow> p_max_job_ram_gb ?r = p_max_job_ram_gb r \<and> p_region ?r = p_region r \<and> p_active_job_id ?r = p_active_job_id r"
    by (simp_all add: registered_def registered_row_def reregistered_row_def offered_capabilities_def new_provider_row_def split: option.split)
  have "p = ?r" if "p \<in> set t" "p_provider_id p = am_provider_id m" for p
  proof -
    have "?r \<in> set t" "p_provider_id ?r = am_provider_id m"
      using sql_first_in_set [OF row] t(1) by simp_all
    then show ?thesis using that t(2) by (simp add: keys_distinct_def distinct_map) (metis inj_onD)
  qed
  then have "am_provider_id m \<notin> p_provider_id ` set (select_stale time (wdb (ci_peer s')))" for time
    using r(1) t(1) by (force simp: select_stale_def)
  moreover have "jobs (wdb (ci_peer s')) = jobs (wdb (ci_peer s))" using t(1) by simp
  ultimately show ?thesis using start found row r by blast
qed

section \<open>Whose account the agent earns for\<close>

abbreviation keeps_account :: "string \<Rightarrow> credit_row option \<Rightarrow> (coord_db world, 'e, 'a) prog \<Rightarrow> bool" where
  "keeps_account k c \<equiv> keeps (\<lambda>w. credit_of (wdb w) k = c)"

lemma keeps_account_exec: "(\<And>now d d'. u now d = Inr d' \<Longrightarrow> credit_of d' k = credit_of d k) \<Longrightarrow> keeps_account k c (db_exec u)"
  by (rule keeps_db_exec [where I = "\<lambda>d. credit_of d k = c"]) simp

lemma keeps_account_uuid: "keeps_account k c new_uuid"
  by (simp add: keeps_def new_uuid_def)

lemma keeps_account_earn: "pid \<noteq> k \<Longrightarrow> keeps_account k c (credit_earnings pid x)"
  unfolding credit_earnings_def
  by (rule keeps_account_exec) (auto simp: on_credits_def map_sum_eq_Inr earning_account_def new_credit_row_def dest!: sql_upsert_other [where k = k] dest: earn_row_key)

lemma keeps_account_spend: "cid \<noteq> k \<Longrightarrow> keeps_account k c (spend_escrow cid x)"
  unfolding spend_escrow_def
  by (rule keeps_account_exec) (auto simp: on_credits_def map_sum_eq_Inr dest!: sql_update_lookup [where k' = k] dest: spend_row_key)

lemma keeps_account_others:
  "keeps_account k c (complete_mark b jid)" "keeps_account k c (finish_provider pid)" "keeps_account k c (insert_tx t a ty x bal ref descr)"
  "keeps_account k c (update_trust_score pid ok)"
  unfolding complete_mark_def finish_provider_def insert_tx_def update_trust_score_def
  by (intro keeps_intro keeps_account_exec; auto simp: on_table_defs map_sum_eq_Inr)+

text \<open>What follows a query keeps a property when it does for the query's result.\<close>

lemma after_query:
  assumes "\<And>x. q (wnow w) (wdb w) = Inr x \<Longrightarrow> keeps (\<lambda>w. I (wdb w)) (f x)" "I (wdb w)"
  shows "I (wdb (snd (bindE (map_errE g (db_query q)) f w)))"
proof -
  obtain r w1 where run: "db_query q w = (r, w1)" by fastforce
  then have "wdb w1 = wdb w" "\<And>x. r = Inr x \<Longrightarrow> q (wnow w) (wdb w) = Inr x"
    by (auto simp: db_query_def db_stmt_def run_stmt_def map_sum_eq_Inr split: list.splits fault.splits sum.splits)
  then show ?thesis using assms run by (cases r) (auto simp: prog_simps dest!: keepsD [where s = w1])
qed

lemma complete_job_frame:
  assumes "cj_provider_id b \<noteq> k" "job_of_provider jid (cj_provider_id b) (wdb w) = Some j" "j_consumer_id j \<noteq> k"
  shows "credit_of (wdb (snd (complete_job oe jid b w))) k = credit_of (wdb w) k"
  unfolding complete_job_def
proof (rule after_query [where I = "\<lambda>d. credit_of d k = credit_of (wdb w) k"], goal_cases)
  case (1 x)
  then have "x = Some j" using assms(2) by simp
  then show ?case
    by (simp add: someE_def Let_def split del: if_split)
      (intro keeps_intro keeps_account_earn keeps_account_spend keeps_account_others keeps_account_uuid assms(1,3))
qed simp

text \<open>The agent's key is the key of the account, when both use the configuration directory.\<close>

lemma agent_key_path: "cv_config_dir cv \<noteq> None \<Longrightarrow> \<exists>d. parent_of (agent_config_path cv) = Some d \<and> dir_join d ''identity.key'' = identity_path cv"
  by (auto simp: agent_config_path_def identity_path_def hatch_dir_def dir_join_def parent_of_def)

lemma last_dir_join: "b \<noteq> [] \<Longrightarrow> last (dir_join a b) = last b"
  by (simp add: dir_join_def last_append)

lemma load_keeps_key:
  assumes "agent_load_or_create cv tm (agent_config_path cv) h = (Inr cfg, h')" "\<And>op p fs. ae_io_error (cv_machine cv) op p fs = None"
  shows "ho_files h (identity_path cv) = Some f \<Longrightarrow> ho_files h' (identity_path cv) = Some f"
proof -
  have "agent_config_path cv \<noteq> identity_path cv"
    by (rule notI, drule arg_cong [where f = last]) (simp add: agent_config_path_def identity_path_def last_dir_join)
  moreover assume "ho_files h (identity_path cv) = Some f"
  ultimately show ?thesis using assms
    by (auto simp: agent_load_or_create_def start_ok exists_path_def read_file_def create_dir_all_def write_file_def file_op_def Let_def
        split: if_splits option.splits file_entry.splits)
qed

lemma same_identity:
  assumes "agent_identity cv (agent_config_path cv) h = (Inr kp', h')" "cv_config_dir cv \<noteq> None" "\<And>op p fs. ae_io_error (cv_machine cv) op p fs = None"
    and "ho_files h (identity_path cv) = Some (E_File (kp_seed kp))" "length (kp_seed kp) = 32"
  shows "kp' = kp"
  using assms(1) agent_key_path [OF assms(2)] assms(3-5)
  by (auto simp: agent_identity_def start_ok exists_path_def keypair_load_def io_error_def read_file_def Let_def split: if_splits)

definition distinct_sizes :: "cli_env \<Rightarrow> sys_env \<Rightarrow> bool" where
  "distinct_sizes cv senv \<longleftrightarrow> (\<forall>m. length (se_hex senv (take 12 (se_sha senv m))) \<le> 24) \<and> (\<forall>kp. 24 < length (public_key_hex (cv_crypto cv) kp))"

lemma credit_earnings_paid:
  assumes "credit_earnings pid x w = (Inr u, w')"
  shows "\<exists>r'. credit_of (wdb w') pid = Some r' \<and> (case credit_of (wdb w) pid of
      None \<Rightarrow> c_available r' = Some x \<and> c_earned r' = Some x
    | Some r \<Rightarrow> sql_add (c_available r) (Some x) = Inr (c_available r') \<and> sql_add (c_earned r) (Some x) = Inr (c_earned r'))"
proof -
  let ?row = "earning_account pid x (wnow w)" and ?f = "earn_row x (wnow w)"
  have k: "c_account_id ?row = pid" by (simp add: earning_account_def new_credit_row_def)
  from db_exec_ok [OF assms [unfolded credit_earnings_def]] obtain t
    where t: "sql_upsert c_account_id ?row ?f (credits (wdb w)) = Inr t" "wdb w' = wdb w\<lparr>credits := t\<rparr>"
    by (auto simp: on_credits_def map_sum_eq_Inr)
  show ?thesis
  proof (cases "credit_of (wdb w) pid")
    case None
    then have "t = credits (wdb w) @ [?row]" using t(1) k by (auto simp: sql_upsert_def sql_first_None_iff)
    then show ?thesis using None t(2) k by (simp add: sql_first_append) (simp add: earning_account_def)
  next
    case (Some r)
    then have u: "sql_update (\<lambda>r. c_account_id r = pid) ?f (credits (wdb w)) = Inr t"
      using t(1) sql_upsert_hit [of c_account_id ?row "credits (wdb w)" r] k by simp
    from sql_update_hit_ok [OF u Some] obtain r' where r': "?f r = Inr r'" by blast
    have "credit_of (wdb w') pid = Some r'" using sql_update_lookup [OF u earn_row_key, where k' = pid] Some r' t(2) by simp
    then show ?thesis using Some r' by (auto simp: earn_row_def and_then_eq_Inr)
  qed
qed

lemma complete_job_pays:
  assumes "complete_job oe jid b w = (Inr x, w')" "job_of_provider jid (cj_provider_id b) (wdb w) = Some j" "j_consumer_id j \<noteq> cj_provider_id b"
  shows "\<exists>r'. credit_of (wdb w') (cj_provider_id b) = Some r' \<and> (case credit_of (wdb w) (cj_provider_id b) of
      None \<Rightarrow> c_available r' = Some (provider_share (gross_cost (j_price j) (cj_actual_runtime_s b))) \<and>
        c_earned r' = Some (provider_share (gross_cost (j_price j) (cj_actual_runtime_s b)))
    | Some r \<Rightarrow> sql_add (c_available r) (Some (provider_share (gross_cost (j_price j) (cj_actual_runtime_s b)))) = Inr (c_available r') \<and>
        sql_add (c_earned r) (Some (provider_share (gross_cost (j_price j) (cj_actual_runtime_s b)))) = Inr (c_earned r'))"
proof -
  let ?pid = "cj_provider_id b" and ?gross = "gross_cost (j_price j) (cj_actual_runtime_s b)"
  obtain row w1 where q: "db_query (\<lambda>_ d. Inr (job_of_provider jid ?pid d)) w = (Inr row, w1)"
    using assms(1) by (auto simp: complete_job_def bindE_ok map_errE_ok)
  have w1: "row = Some j" "wdb w1 = wdb w" using q assms(2)
    by (auto simp: db_query_def db_stmt_def run_stmt_def split: list.splits fault.splits)
  obtain u2 w2 u3 w3 u4 w4 u5 w5 w6 u7 w7 u8 txid where
    steps: "complete_mark b jid w1 = (Inr u2, w2)" "credit_earnings ?pid (provider_share ?gross) w2 = (Inr u3, w3)"
      "spend_escrow (j_consumer_id j) ?gross w3 = (Inr u4, w4)" "finish_provider ?pid w4 = (Inr u5, w5)" "new_uuid w5 = (Inr txid :: rest_error + string, w6)"
      "insert_tx txid ?pid ''earn'' (provider_share ?gross) False (Some jid) ''Job completion credit'' w6 = (Inr u7, w7)"
      "update_trust_score ?pid True w7 = (Inr u8, w')"
    using assms(1) q w1(1) by (auto simp: complete_job_def Let_def start_ok)
  have kept: "credit_of (wdb v') ?pid = credit_of (wdb v) ?pid"
    if "\<And>c. keeps (\<lambda>w. credit_of (wdb w) ?pid = c) p" "p v = (r, v')" for p :: "coord_db world \<Rightarrow> ('e + 'a) \<times> coord_db world" and v r v'
    using keepsD [OF that(1) refl, of v] that(2) by simp
  have "credit_of (wdb w2) ?pid = credit_of (wdb w) ?pid" using kept [OF keeps_account_others(1) steps(1)] w1(2) by simp
  moreover have "credit_of (wdb w') ?pid = credit_of (wdb w3) ?pid"
    using kept [OF keeps_account_spend [OF assms(3)] steps(3)] kept [OF keeps_account_others(2) steps(4)] kept [OF keeps_account_uuid steps(5)]
      kept [OF keeps_account_others(3) steps(6)] kept [OF keeps_account_others(4) steps(7)] by simp
  ultimately show ?thesis using credit_earnings_paid [OF steps(2)] by simp
qed

text \<open>C37: The earnings of a machine are not its owner's. After \<open>hatch account setup\<close>, the client's configuration names the account, unless
  \<open>NM_ACCOUNT_ID\<close> overrides it. When the agent then starts on the same machine with the same key, it registers under the public key, while the account
  is the digest of that key and the device: two different names. So whatever jobs the agent completes, for other consumers, the balance of the
  account that the configuration names stays as it was; and the provider's share of every job that the coordinator settles is added to the
  available and the earned credits of the account of the public key, which is made for it when it is not there.\<close>

theorem earnings_miss_account:
  assumes "setup_laws cv" "distinct_sizes cv senv" "wfaults (ci_peer s) = []"
    and "ensure_account cv (coordinator_of senv ctx text_of) ctx s = (Inr aid, s1)"
    and "ho_files (ci_host s2) (identity_path cv) = ho_files (ci_host s1) (identity_path cv)" "db_inv (wdb (ci_peer s2))"
    and "agent_main nw cv tm gh None now s2 = (Inr m, s3)"
  shows "(\<exists>fingerprint. aid = derive_account_id (se_sha senv) (se_hex senv) (am_provider_id m) fingerprint) \<and> aid \<noteq> am_provider_id m \<and>
     (cv_var cv ''NM_ACCOUNT_ID'' = None \<longrightarrow> (\<exists>cfg. cli_config_load cv None None (ci_host s1) = (Inr cfg, ci_host s1) \<and> cf_account_id cfg = Some aid)) \<and>
     (\<forall>oe jid b w j. cj_provider_id b = am_provider_id m \<longrightarrow> job_of_provider jid (am_provider_id m) (wdb w) = Some j \<longrightarrow> j_consumer_id j \<noteq> aid \<longrightarrow>
        credit_of (wdb (snd (complete_job oe jid b w))) aid = credit_of (wdb w) aid) \<and>
     (\<forall>oe jid b w j x w'. cj_provider_id b = am_provider_id m \<longrightarrow> job_of_provider jid (am_provider_id m) (wdb w) = Some j \<longrightarrow>
        j_consumer_id j \<noteq> am_provider_id m \<longrightarrow> complete_job oe jid b w = (Inr x, w') \<longrightarrow>
        (let share = provider_share (gross_cost (j_price j) (cj_actual_runtime_s b)) in
         \<exists>r'. credit_of (wdb w') (am_provider_id m) = Some r' \<and> (case credit_of (wdb w) (am_provider_id m) of
           None \<Rightarrow> c_available r' = Some share \<and> c_earned r' = Some share
         | Some r \<Rightarrow> sql_add (c_available r) (Some share) = Inr (c_available r') \<and> sql_add (c_earned r) (Some share) = Inr (c_earned r'))))"
proof (rule account_setup_run [OF assms(1,3,4)], goal_cases)
  case (1 kp fp label w h2 t cfg)
  have io: "\<And>op p fs. ae_io_error (cv_machine cv) op p fs = None" and dir: "cv_config_dir cv \<noteq> None" using assms(1) by (simp_all add: setup_laws_def)
  have none: "unwrap_or p None = p" for p :: string by (simp add: unwrap_or_def)
  from agent_main_ok [OF assms(7,6), unfolded none] obtain cfg' h kp' h' where
    main: "agent_load_or_create cv tm (agent_config_path cv) (ci_host s2) = (Inr cfg', h)" "agent_identity cv (agent_config_path cv) h = (Inr kp', h')"
      "am_provider_id m = public_key_hex (cv_crypto cv) kp'" by metis
  have "ho_files (ci_host s2) (identity_path cv) = Some (E_File (kp_seed kp))" using assms(5) 1(9,13) by simp
  then have "kp' = kp" using same_identity [OF main(2) dir io load_keeps_key [OF main(1) io]] 1(3) by blast
  then have id: "am_provider_id m = public_key_hex (cv_crypto cv) kp" using main(3) by simp
  have ne: "aid \<noteq> am_provider_id m"
    using assms(2) 1(4) id by (auto simp: distinct_sizes_def derive_account_id_def) (metis linorder_not_less)
  have config: "\<exists>cfg. cli_config_load cv None None (ci_host s1) = (Inr cfg, ci_host s1) \<and> cf_account_id cfg = Some aid"
    if "cv_var cv ''NM_ACCOUNT_ID'' = None"
    using load_saved_config [OF assms(1) 1(10,11)] 1(12,13) that by simp
  have name: "\<exists>fingerprint. aid = derive_account_id (se_sha senv) (se_hex senv) (am_provider_id m) fingerprint" using 1(4) id by auto
  have frame: "credit_of (wdb (snd (complete_job oe jid b w))) aid = credit_of (wdb w) aid"
    if "cj_provider_id b = am_provider_id m" "job_of_provider jid (am_provider_id m) (wdb w) = Some j" "j_consumer_id j \<noteq> aid" for oe jid b w j
    using complete_job_frame [of b aid jid w j oe] that ne by simp
  have pays: "\<exists>r'. credit_of (wdb w') (am_provider_id m) = Some r' \<and> (case credit_of (wdb w) (am_provider_id m) of
      None \<Rightarrow> c_available r' = Some (provider_share (gross_cost (j_price j) (cj_actual_runtime_s b))) \<and>
        c_earned r' = Some (provider_share (gross_cost (j_price j) (cj_actual_runtime_s b)))
    | Some r \<Rightarrow> sql_add (c_available r) (Some (provider_share (gross_cost (j_price j) (cj_actual_runtime_s b)))) = Inr (c_available r') \<and>
        sql_add (c_earned r) (Some (provider_share (gross_cost (j_price j) (cj_actual_runtime_s b)))) = Inr (c_earned r'))"
    if "cj_provider_id b = am_provider_id m" "job_of_provider jid (am_provider_id m) (wdb w) = Some j" "j_consumer_id j \<noteq> am_provider_id m"
      "complete_job oe jid b w = (Inr x, w')" for oe jid b w j x w'
    using complete_job_pays [OF that(4), of j] that(1-3) by simp
  show ?case
  proof (intro conjI impI allI, goal_cases)
    case (5 oe jid b w j x w')
    then show ?case unfolding Let_def by (intro pays)
  qed (use name ne config frame in blast)+
qed

section \<open>A machine that starts\<close>

definition demo_mac :: gpu_host where
  "demo_mac = \<lparr>gh_output = (\<lambda>c args. if args = [''-n'', ''hw.memsize''] then Some (True, ''17179869184'') else None), gh_read = (\<lambda>_. None),
     gh_dir = (\<lambda>_. None), gh_exists = (\<lambda>_. False), gh_json = (\<lambda>_. None), gh_platform = Macos\<rparr>"

definition demo_network :: network where
  "demo_network = \<lparr>nw_dial = (\<lambda>e tls. e = ''https://coord2.neuralmesh.io:8080'' \<and> tls), nw_answers = True\<rparr>"

definition key_on :: "string \<Rightarrow> coord_db world cli_world" where
  "key_on seed = \<lparr>ci_host = \<lparr>ho_files = [identity_path demo_cli_env \<mapsto> E_File seed, agent_config_path demo_cli_env \<mapsto> E_File ''ok''], ho_commands = []\<rparr>,
     ci_peer = world_at empty_db\<rparr>"

lemma demo_memsize: "\<exists>chip. detect_mac_chip demo_mac = Some chip"
proof -
  have "sysctl_u64 demo_mac ''hw.memsize'' = Some 17179869184" by code_simp
  then show ?thesis by (simp add: detect_mac_chip_def Let_def)
qed

lemma demo_runtimes: "\<exists>h'. detect_installed_runtimes demo_agent_env [''mlx'', ''torch-mps'', ''onnx-coreml'', ''llama-cpp''] h =
    (Inr [''mlx'', ''torch-mps'', ''onnx-coreml'', ''llama-cpp''], h')"
  by (simp add: prog_simps is_runtime_installed_def python_package_available_def interpreters_def run_command_def demo_agent_env_def)

lemma demo_load: "agent_load_or_create demo_cli_env demo_agent_toml (agent_config_path demo_cli_env) (ci_host (key_on seed)) =
    (Inr (with_options demo_floor (default_agent_config demo_cli_env)), ci_host (key_on seed))"
proof -
  have "ae_io_error (cv_machine demo_cli_env) op q fs = None" for op q fs by (simp add: demo_cli_env_def demo_agent_env_def)
  then show ?thesis by (simp add: agent_load_or_create_def prog_simps exists_path_def read_file_def key_on_def demo_agent_toml_def)
qed

lemma demo_start:
  assumes "length seed = 32"
  shows "\<exists>m s3. agent_main demo_network demo_cli_env demo_agent_toml demo_mac None 0 (key_on seed) = (Inr m, s3)"
proof -
  let ?cv = demo_cli_env and ?h = "ci_host (key_on seed)" and ?cfg = "with_options demo_floor (default_agent_config demo_cli_env)"
  have path: "agent_config_path ?cv = ''/u/.config/hatch/agent.toml''" "identity_path ?cv = ''/u/.config/hatch/identity.key''"
    by (simp_all add: agent_config_path_def identity_path_def hatch_dir_def dir_join_def demo_cli_env_def)
  have io: "ae_io_error (cv_machine ?cv) op q fs = None" for op q fs by (simp add: demo_cli_env_def demo_agent_env_def)
  note cfg = demo_load [of seed]
  obtain d where d: "parent_of (agent_config_path ?cv) = Some d" "dir_join d ''identity.key'' = identity_path ?cv"
    using agent_key_path [of ?cv] by (auto simp: demo_cli_env_def)
  have key: "agent_identity ?cv (agent_config_path ?cv) ?h = (Inr \<lparr>kp_seed = seed\<rparr>, ?h)"
    using assms d by (simp add: agent_identity_def prog_simps exists_path_def keypair_load_def io_error_def read_file_def io Let_def)
      (simp add: key_on_def path prog_simps)
  have rts: "ag_allowed_runtimes ?cfg = [''mlx'', ''torch-mps'', ''onnx-coreml'', ''llama-cpp'']"
    "ag_coordinator_endpoints ?cfg = [''https://coord1.neuralmesh.io:8080'', ''https://coord2.neuralmesh.io:8080'', ''https://coord3.neuralmesh.io:8080'']"
    by (simp_all add: with_options_def default_agent_config_def)
  obtain chip where chip: "detect_mac_chip demo_mac = Some chip" using demo_memsize by blast
  obtain h' where h': "detect_installed_runtimes (cv_machine ?cv) (ag_allowed_runtimes ?cfg) ?h = (Inr (ag_allowed_runtimes ?cfg), h')"
  proof -
    have "cv_machine ?cv = demo_agent_env" by (simp add: demo_cli_env_def)
    with that demo_runtimes [of ?h] show thesis unfolding rts(1) by metis
  qed
  have c: "first_connection demo_network (ag_coordinator_endpoints ?cfg) = Some \<lparr>cn_provider_id = [], cn_endpoint = ''https://coord2.neuralmesh.io:8080''\<rparr>"
    by (simp add: rts try_connect_def demo_network_def starts_with_def)
  have reg: "\<exists>c' s'. register demo_network ?cv c kp chip cfg rts (key_on seed\<lparr>ci_host := h'\<rparr>) = (Inr c', s')" for c kp cfg rts
    by (simp add: register_def demo_network_def prog_simps on_coordinator_def truncate_registration register_provider_def upsert_provider_def
        offered_capabilities_def key_on_def world_at_def empty_db_def on_providers_def sql_upsert_def)
  obtain c' s' where "register demo_network ?cv \<lparr>cn_provider_id = [], cn_endpoint = ''https://coord2.neuralmesh.io:8080''\<rparr> \<lparr>kp_seed = seed\<rparr> chip ?cfg
      (ag_allowed_runtimes ?cfg) (key_on seed\<lparr>ci_host := h'\<rparr>) = (Inr c', s')" using reg by blast
  then show ?thesis
    by (simp add: agent_main_def Let_def prog_simps on_host_def cfg chip key h' run_agent_def connect_def c) (simp add: rts)
qed

text \<open>A first start and a later one.\<close>

lemma start_registers_offer_witness:
  "\<exists>m s' r'. agent_main demo_network demo_cli_env demo_agent_toml demo_mac None 0 (key_on (cv_seed demo_cli_env)) = (Inr m, s') \<and>
     provider_of (wdb (ci_peer s')) (am_provider_id m) = Some r' \<and> p_state r' = Some ''offline'' \<and> p_floor_price r' = Some (Fin 2) \<and>
     p_installed_runtimes r' = Some [''mlx'', ''torch-mps'', ''onnx-coreml'', ''llama-cpp'']"
proof -
  let ?s = "key_on (cv_seed demo_cli_env)"
  have "length (cv_seed demo_cli_env) = 32" by (simp add: demo_cli_env_def)
  from demo_start [OF this] obtain m s' where run: "agent_main demo_network demo_cli_env demo_agent_toml demo_mac None 0 ?s = (Inr m, s')" by blast
  have "db_inv (wdb (ci_peer ?s))" using db_inv_empty by (simp add: key_on_def)
  moreover have "ag_floor_price (with_options demo_floor cfg) = Fin 2" for cfg by (simp add: with_options_def demo_floor_def)
  moreover have "rts = [''mlx'', ''torch-mps'', ''onnx-coreml'', ''llama-cpp'']"
    if "detect_installed_runtimes (cv_machine demo_cli_env) (ag_allowed_runtimes (with_options demo_floor (default_agent_config demo_cli_env))) h = (Inr rts, h')"
    for h rts h'
  proof -
    have "ag_allowed_runtimes (with_options demo_floor (default_agent_config demo_cli_env)) = [''mlx'', ''torch-mps'', ''onnx-coreml'', ''llama-cpp'']"
      "cv_machine demo_cli_env = demo_agent_env" by (simp_all add: with_options_def default_agent_config_def demo_cli_env_def)
    then show ?thesis using that demo_runtimes [of h] by auto
  qed
  ultimately show ?thesis using start_registers_offer [OF run] run demo_load [of "cv_seed demo_cli_env"] by (fastforce simp: unwrap_or_def)
qed

text \<open>The account is set up, the agent starts with its key.\<close>

lemma earnings_miss_account_witness:
  "\<exists>aid s1 seed m s3. ensure_account demo_cli_env (coordinator_of demo_senv demo_submitter (\<lambda>_. [])) demo_submitter empty_machine = (Inr aid, s1) \<and>
     agent_main demo_network demo_cli_env demo_agent_toml demo_mac None 0 (key_on seed) = (Inr m, s3) \<and> aid \<noteq> am_provider_id m"
proof -
  have e: "wfaults (ci_peer empty_machine) = []" "db_inv (wdb (ci_peer empty_machine))" "accounts (wdb (ci_peer empty_machine)) = []"
    "ho_files (ci_host empty_machine) p = None" for p
    using db_inv_empty by (simp_all add: empty_machine_def empty_db_def)
  obtain aid s1 where s1: "ensure_account demo_cli_env (coordinator_of demo_senv demo_submitter (\<lambda>_. [])) demo_submitter empty_machine = (Inr aid, s1)"
    using first_setup_run [OF demo_setup_laws e(4,1,2,3)] by blast
  obtain seed where kp: "ho_files (ci_host s1) (identity_path demo_cli_env) = Some (E_File seed)" "length seed = 32"
  proof (rule account_setup_run [OF demo_setup_laws e(1) s1], goal_cases)
    case (1 kp)
    then show ?case using 1(1) [of "kp_seed kp"] by simp
  qed
  from demo_start [OF kp(2)] obtain m s3
    where m: "agent_main demo_network demo_cli_env demo_agent_toml demo_mac None 0 (key_on seed) = (Inr m, s3)" by blast
  have sizes: "distinct_sizes demo_cli_env demo_senv"
    by (simp add: distinct_sizes_def demo_senv_def demo_cli_env_def demo_crypto_def public_key_hex_def min_le_iff_disj)
  have "agent_config_path demo_cli_env \<noteq> identity_path demo_cli_env"
    by (simp add: agent_config_path_def identity_path_def hatch_dir_def dir_join_def demo_cli_env_def)
  then have "ho_files (ci_host (key_on seed)) (identity_path demo_cli_env) = ho_files (ci_host s1) (identity_path demo_cli_env)"
    using kp(1) by (simp add: key_on_def)
  moreover have "db_inv (wdb (ci_peer (key_on seed)))" using db_inv_empty by (simp add: key_on_def)
  ultimately show ?thesis using earnings_miss_account [OF demo_setup_laws sizes e(1) s1 _ _ m] s1 m by blast
qed


section \<open>The poll and its download\<close>

text \<open>The coordinator never names a checkpoint in an assignment, so that the poll with its download is the poll of the event loop: no file is
  fetched for a job that is to be restored.\<close>

lemma assigned_has_no_checkpoint: "as_checkpoint_url (decode_job parse_uuid (assigned_json j)) = None"
  by (simp add: decode_job_def assigned_json_def j_get_def)

lemma get_assigned_job_body: "get_assigned_job pid w = (Inr b, w') \<Longrightarrow> j_get ''job'' b = JNull \<or> (\<exists>j. j_get ''job'' b = assigned_json j)"
  by (auto simp: get_assigned_job_def start_ok j_get_def split: option.splits) blast

lemma agent_poll_is_poll: "agent_poll parse_uuid env peer pid s =
    (case poll_for_job parse_uuid pid (ci_peer s) of (Inr x, w) \<Rightarrow> (Inr x, s\<lparr>ci_peer := w\<rparr>) | (Inl _, w) \<Rightarrow> (Inr None, s\<lparr>ci_peer := w\<rparr>))"
proof (cases "get_assigned_job pid (ci_peer s)")
  case (Pair r w)
  then show ?thesis
  proof (cases r)
    case (Inr b)
    with Pair get_assigned_job_body [of pid "ci_peer s" b w] assigned_has_no_checkpoint show ?thesis
      by (auto simp: agent_poll_def poll_for_job_def prog_simps on_coordinator_def Let_def)
  qed (simp add: agent_poll_def poll_for_job_def prog_simps on_coordinator_def)
qed

text \<open>What a download writes.\<close>

lemma fetch_files_writes:
  assumes "fetch_files env (\<lambda>req w. (answer req, w)) url dir fs s = (Inr (), s')"
  shows "ho_files (ci_host s') p = ho_files (ci_host s) p \<or>
     (\<exists>f\<in>set fs. p = path_join dir f \<and> (\<exists>code body j. answer (get_req (trim_end_matches (CHR ''/'') url @ ''/'' @ f)) = Reply code body j \<and> is_success code \<and>
        ho_files (ci_host s') p = Some (E_File body)))"
  using assms
proof (induction fs arbitrary: s)
  case (Cons f fs)
  from Cons.prems obtain code body j where a: "answer (get_req (trim_end_matches (CHR ''/'') url @ ''/'' @ f)) = Reply code body j"
    and rest: "seqE (if is_success code then on_host (write_file env (path_join dir f) body) else retE ()) (fetch_files env (\<lambda>req w. (answer req, w)) url dir fs) s = (Inr (), s')"
    by (auto simp: bindE_ok send_or_ok)
  obtain t where t: "fetch_files env (\<lambda>req w. (answer req, w)) url dir fs t = (Inr (), s')"
      "ho_files (ci_host t) = (if is_success code then (ho_files (ci_host s))(path_join dir f \<mapsto> E_File body) else ho_files (ci_host s))"
  proof (cases "is_success code")
    case True
    with rest show thesis by (auto simp: start_ok write_file_def file_op_def split: option.splits intro: that)
  next
    case False
    with rest show thesis by (auto simp: start_ok intro: that)
  qed
  from Cons.IH [OF t(1)] show ?case
  proof
    assume "ho_files (ci_host s') p = ho_files (ci_host t) p"
    then show ?thesis using a t(2) by (cases "is_success code"; cases "p = path_join dir f") auto
  qed auto
qed (simp add: retE_ok)

section \<open>What is detected fits its type\<close>

lemma lookup_sub_in: "lookup_sub d t m \<in> insert d (snd ` set t)"
  by (induction d t m rule: lookup_sub.induct) auto

lemma as_u32_typed: "u32_ok (as_u32 x)"
  by (simp add: u32_ok_def as_u32_def)

text \<open>C40: What the agent reports of its machine fits the types it travels in. Whatever the tools print: when the chip is detected, its numbers are
  unsigned 32-bit integers, the GPU has 8 to 80 cores, and the record comes back from its JSON form as it was; the memory offered without a
  configured limit is such an integer too, and never more than the machine has.\<close>

theorem detected_chip_typed:
  assumes "detect_mac_chip gh = Some chip"
  shows "chip_ok chip \<and> mc_gpu_cores chip \<in> {8..80} \<and> decode_chip (chip_json chip) = Some chip \<and>
     (\<forall>cfg rts. ag_max_job_ram_gb cfg = None \<longrightarrow> u32_ok (cap_max_job_ram_gb (offered_capabilities chip cfg rts)) \<and>
        cap_max_job_ram_gb (offered_capabilities chip cfg rts) \<le> mc_unified_memory_gb chip)"
proof -
  have "insert 10 (snd ` set mac_core_table) \<subseteq> {8..80}" by (simp add: mac_core_table_def)
  then have "mac_gpu_cores m \<in> {8..80}" for m using lookup_sub_in [of 10 mac_core_table] unfolding mac_gpu_cores_def by blast
  then have "mc_gpu_cores chip \<in> {8..80}" using assms by (auto simp: detect_mac_chip_def Let_def simp del: atLeastAtMost_iff split: option.splits)
  moreover have "u32_ok (mc_unified_memory_gb chip)" "u32_ok (mc_cpu_cores chip)"
    using assms as_u32_typed by (auto simp: detect_mac_chip_def Let_def split: option.splits)
  ultimately show ?thesis using decode_chip_json [of chip] by (auto simp: chip_ok_def u32_ok_def offered_capabilities_def)
qed

lemma detected_chip_typed_witness:
  "\<exists>chip. detect_mac_chip demo_mac = Some chip \<and> chip_ok chip \<and> decode_chip (chip_json chip) = Some chip"
  using demo_memsize detected_chip_typed [of demo_mac] by blast

section \<open>Metadata that is saved\<close>

text \<open>Saved metadata is what is loaded, for numbers within their types.\<close>

lemma saved_metadata_loads:
  assumes "meta_save env m s = (Inr (), s')" "parse (ae_json_text env (meta_json m)) = Some (meta_json m)"
    and "ae_io_error env ''read'' (path_join (path_join checkpoint_root (cx_job_id m)) ''checkpoint.json'') (ho_files s') = None"
    and "cx_iteration m \<in> {0..4294967295}" "cx_elapsed_secs m \<in> {0..18446744073709551615}" "cx_coord_port m \<in> {0..65535}"
  shows "meta_load env parse (cx_job_id m) s' = (Inr m, s')"
proof -
  from assms(1) have "ho_files s' (path_join (path_join checkpoint_root (cx_job_id m)) ''checkpoint.json'') = Some (E_File (ae_json_text env (meta_json m)))"
    by (auto simp: meta_save_def start_ok write_file_def file_op_def Let_def split: option.splits)
  moreover have "decode_meta (meta_json m) = Some m"
    using assms(4-6) by (simp add: decode_meta_def meta_json_def j_get_def j_strs_def)
  ultimately show ?thesis using assms(2,3) by (simp add: meta_load_def prog_simps read_file_def)
qed

end
