(* ===== verification/Agent_Jobs.thy ===== *)
theory Agent_Jobs
  imports Agent_Runs Job_Claims Coordinator_System
begin

text \<open>
  A job on the agent from its acceptance to its report (\<open>agent/src/idle_monitor.rs\<close>, with the report of a checkpoint of \<open>agent/src/checkpoint.rs\<close>):
  the runner on the agent's machine, the coordinator as its peer, and the client that reads the log afterwards. The coordinator can be
  reached. The heartbeats of a running job are steps of their own; the checkpoint ticker is run from its start, over a list of ticks, and its
  checkpoints are followed to the provider that restores the job.
\<close>

section \<open>The Python of the machine\<close>

definition imports_mlx :: "agent_env \<Rightarrow> string \<Rightarrow> bool agent_prog" where
  "imports_mlx env py = bindE (run_command env (command_of py [''-c'', ''import mlx''])) (\<lambda>r. retE (r = Some (Some 0)))"

fun first_python_prefix :: "agent_env \<Rightarrow> string list \<Rightarrow> (string option) agent_prog" where
  "first_python_prefix env [] = retE None"
| "first_python_prefix env (py # pys) =
     bindE (imports_mlx env py) (\<lambda>ok.
     if \<not> ok then first_python_prefix env pys
     else bindE (command_output env (command_of py [''-c'', ''import sys; print(sys.prefix)''])) (\<lambda>out.
       case out of Some t \<Rightarrow> retE (Some (trim_str t)) | None \<Rightarrow> first_python_prefix env pys))"

text \<open>\<open>hatch_venv\<close> is the environment variable \<open>HATCH_VENV\<close>.\<close>

definition best_python_prefix :: "agent_env \<Rightarrow> string option \<Rightarrow> string agent_prog" where
  "best_python_prefix env hatch_venv =
     bindE (first_python_prefix env ((case hatch_venv of Some v \<Rightarrow> [v @ ''/bin/python''] | None \<Rightarrow> []) @
         [''python3.12'', ''python3.13'', ''python3.11'', ''python3'']))
       (\<lambda>p. retE (unwrap_or ''/opt/homebrew'' p))"

section \<open>While a job runs\<close>

text \<open>A body that the coordinator's types do not hold is refused, which nobody notices.\<close>

definition job_beat :: "string \<Rightarrow> string \<Rightarrow> int \<Rightarrow> gpu_stats option \<Rightarrow> (coord_db world, unit, unit) prog" where
  "job_beat pid jid elapsed gpu =
     (let ram = (case gpu of Some g \<Rightarrow> gs_memory_used_mb g div 1024 | None \<Rightarrow> 0)
      in case (case gpu of Some g \<Rightarrow> gs_utilization_pct g | None \<Rightarrow> Fin 0) of
           Fin q \<Rightarrow>
             (if i64_range elapsed \<and> ram < 4294967296
              then bindE (okE (job_heartbeat jid \<lparr>jh_provider_id = pid, jh_elapsed_secs = elapsed, jh_gpu_util_pct = q, jh_ram_used_gb = ram\<rparr>))
                (\<lambda>_. retE ())
              else retE ())
         | _ \<Rightarrow> retE ())"

text \<open>The status of the answer is not looked at.\<close>

definition report_checkpoint_to_coordinator :: "string \<Rightarrow> checkpoint_body \<Rightarrow> (coord_db world, 'e, unit) prog" where
  "report_checkpoint_to_coordinator jid b = bindE (okE (save_checkpoint jid b)) (\<lambda>_. retE ())"

definition ticker_turn ::
  "agent_env \<Rightarrow> string \<Rightarrow> int \<Rightarrow> string \<Rightarrow> string \<Rightarrow> int \<Rightarrow> int \<Rightarrow> (coord_db world, int \<times> checkpoint_body option) cli" where
  "ticker_turn env jid port ckpt_dir pid elapsed iteration =
     bindE (on_host (ticker_step env jid port ckpt_dir pid elapsed iteration)) (\<lambda>(iteration', report).
     seqE (case report of Some b \<Rightarrow> on_coordinator (report_checkpoint_to_coordinator jid b) | None \<Rightarrow> retE ()) (retE (iteration', report)))"

text \<open>
  A running ticker, up to its last tick before the job ends; it counts from zero, whatever was counted before. The list has, for each tick, the
  seconds since the start and what happens before it on the machine and at the coordinator. The result is the reports the ticker has sent.
\<close>

fun ticker_turns ::
  "agent_env \<Rightarrow> string \<Rightarrow> int \<Rightarrow> string \<Rightarrow> string \<Rightarrow> int \<Rightarrow> (int \<times> (coord_db world cli_world \<Rightarrow> coord_db world cli_world)) list \<Rightarrow>
     (coord_db world, checkpoint_body list) cli" where
  "ticker_turns env jid port ckpt_dir pid iteration [] = retE []"
| "ticker_turns env jid port ckpt_dir pid iteration ((elapsed, meanwhile) # ticks) = (\<lambda>s.
     bindE (ticker_turn env jid port ckpt_dir pid elapsed iteration) (\<lambda>(iteration', report).
     bindE (ticker_turns env jid port ckpt_dir pid iteration' ticks) (\<lambda>reports.
     retE (case report of Some b \<Rightarrow> b # reports | None \<Rightarrow> reports))) (meanwhile s))"

definition checkpoint_ticker ::
  "agent_env \<Rightarrow> string \<Rightarrow> int \<Rightarrow> string \<Rightarrow> string \<Rightarrow> (int \<times> (coord_db world cli_world \<Rightarrow> coord_db world cli_world)) list \<Rightarrow>
     (coord_db world, checkpoint_body list) cli" where
  "checkpoint_ticker env jid port ckpt_dir pid ticks = ticker_turns env jid port ckpt_dir pid 0 ticks"

section \<open>From acceptance to report\<close>

definition send_reports :: "bool \<Rightarrow> string \<Rightarrow> string \<Rightarrow> string option \<Rightarrow> job_report \<Rightarrow> (coord_db world, unit, unit) prog" where
  "send_reports oracle_enabled pid jid final_log report =
     bindE (okE (push_final_log (case report of Report_Completion r \<Rightarrow> jx_job_id r | Report_Failure _ _ \<Rightarrow> jid) final_log)) (\<lambda>_.
     case report of
       Report_Completion r \<Rightarrow> bindE (okE (agent_report_completion oracle_enabled pid r)) (\<lambda>_. retE ())
     | Report_Failure reason slash \<Rightarrow> bindE (okE (agent_report_failure oracle_enabled pid jid reason slash)) (\<lambda>_. retE ()))"

definition accept_job :: "agent_env \<Rightarrow> bool \<Rightarrow> string \<Rightarrow> string option \<Rightarrow> json option \<Rightarrow> agent_job_spec \<Rightarrow> (coord_db world, job_report) cli" where
  "accept_job env oracle_enabled pid hatch_venv answer spec =
     bindE (on_host (best_python_prefix env hatch_venv)) (\<lambda>python_prefix.
     bindE (on_host (\<lambda>h. map_prod Inr id (job_task env spec python_prefix answer h))) (\<lambda>(final_log, report).
     seqE (on_coordinator (map_errE (\<lambda>_. panicked) (send_reports oracle_enabled pid (as_job_id spec) final_log report))) (retE report)))"

section \<open>A paid job whose log is empty\<close>

lemma keeps_command_output: "commands_keep_logs env j \<Longrightarrow> keeps (log_ok j) (command_output env c)"
  using keeps_run_command [of env j c] by (auto simp: keeps_def command_output_def split: prod.split)

lemma keeps_first_python_prefix: "commands_keep_logs env j \<Longrightarrow> keeps (log_ok j) (first_python_prefix env pys)"
proof (induction pys)
  case (Cons py pys)
  show ?case unfolding first_python_prefix.simps imports_mlx_def
    by (intro keeps_bindE keeps_run_command keeps_retE keeps_if keeps_command_output keeps_case_option Cons Cons.IH)
qed (simp add: keeps_retE)

lemma keeps_best_python_prefix: "commands_keep_logs env j \<Longrightarrow> keeps (log_ok j) (best_python_prefix env v)"
  unfolding best_python_prefix_def by (intro keeps_bindE keeps_first_python_prefix keeps_retE)

text \<open>An accepted job is the run of its task and its reports.\<close>

lemma accept_job_run:
  assumes "accept_job env oe pid v answer spec s = (Inr (Report_Completion r), s')"
  shows "\<exists>prefix h1 l h2 e. best_python_prefix env v (ci_host s) = (Inr prefix, h1) \<and>
     job_task env spec prefix answer h1 = ((l, Report_Completion r), h2) \<and>
     s' = \<lparr>ci_host = h2, ci_peer = snd (send_reports oe pid (as_job_id spec) l (Report_Completion r) (ci_peer s))\<rparr>"
proof -
  obtain prefix u where u: "on_host (best_python_prefix env v) s = (Inr prefix, u)"
      "bindE (on_host (\<lambda>h. map_prod Inr id (job_task env spec prefix answer h))) (\<lambda>(final_log, report).
        seqE (on_coordinator (map_errE (\<lambda>_. panicked) (send_reports oe pid (as_job_id spec) final_log report))) (retE report)) u =
       (Inr (Report_Completion r), s')"
    using assms unfolding accept_job_def bindE_ok by blast
  then obtain h1 where h1: "best_python_prefix env v (ci_host s) = (Inr prefix, h1)" "u = s\<lparr>ci_host := h1\<rparr>" by (auto simp: on_host_ok)
  obtain l rep h2 where "job_task env spec prefix answer h1 = ((l, rep), h2)" by (metis prod.exhaust)
  then show ?thesis using h1 u(2)
    by (cases s) (auto simp: bindE_ok seqE_ok retE_ok on_host_ok on_coordinator_ok map_errE_ok)
qed

text \<open>What \<open>hatch job logs\<close> shows.\<close>

lemma show_log_reply:
  assumes "plain_text jid" "wfaults (ci_peer s) = []" "job_of (wdb (ci_peer s)) jid = Some j"
  shows "cli_show_log (coordinator_of senv ctx text_of) ctx jid s = (Inr (unwrap_or [] (j_output_log j)), s)"
proof -
  have "split_on (CHR ''/'') (''jobs/'' @ jid @ ''/logs'') = [''jobs'', jid, ''logs'']"
    using assms(1) by (simp add: plain_text_def split_on_join split_on_one)
  then have "coordinator_of senv ctx text_of (get_req (logs_url ctx jid)) w = reply_of text_of (get_job_logs jid None w)" for w
    using assms(1) coordinator_route [of "''jobs/'' @ jid @ ''/logs''" ctx]
    by (simp add: coordinator_peer_def get_req_def coordinator_get_def logs_url_def plain_text_def int_param_def)
  then show ?thesis using assms
    by (auto simp: cli_show_log_def send_or_def send_to_def prog_simps get_job_logs_def reply_of_def is_success_def slice_from_def Let_def
      is_char_boundary_def json_or_def decode_logs_def req_field_def default_field_def j_field_def j_bool_def)
qed

definition completion_body :: "string \<Rightarrow> job_result \<Rightarrow> complete_job_body" where
  "completion_body pid r = \<lparr>cj_provider_id = pid, cj_exit_code = jx_exit_code r, cj_output_hash = jx_output_hash r,
     cj_actual_runtime_s = jx_actual_runtime_s r, cj_avg_gpu_util_pct = jx_avg_gpu_util_pct r, cj_peak_ram_gb = jx_peak_ram_gb r\<rparr>"

text \<open>C20: The consumer pays for a job whose output nobody can read. When the agent accepts a job that starts from a bundle, the run succeeds and
  the completion is reported, the provider earns its share, the consumer's escrow pays the cost and the job is complete with the hash of
  its output; and \<open>hatch job logs\<close> then shows the log as it was before: nothing of what the job printed, since the runner has removed
  the directory of the log before the agent reads it. It holds whatever the commands of the job do, as long as they leave no log outside
  its directory and removing a directory works.\<close>

theorem paid_job_without_log:
  assumes "filesystem_laws env jid" "\<forall>p fs. ae_io_error env ''rmdir'' p fs = None" "log_in_dir jid (ho_files (ci_host s))"
    and "as_job_id spec = jid" "as_checkpoint_url spec = None" "plain_text jid"
    and "accept_job env oe pid hatch_venv answer spec s = (Inr (Report_Completion r), s')"
    and "w = ci_peer s" "wfaults w = []" "db_inv (wdb w)" "job_of_provider jid pid (wdb w) = Some j"
    and "gross_cost (j_price j) (jx_actual_runtime_s r) = Fin g" "provider_share (Fin g) = Fin share"
    and "credit_of (wdb w) pid = Some cp" "c_available cp = Some (Fin a)" "c_earned cp = Some (Fin n)"
    and "credit_of (wdb w) (j_consumer_id j) = Some cc" "c_escrowed cc = Some (Fin e)" "c_spent cc = Some (Fin t)" "pid \<noteq> j_consumer_id j"
    and "f64_of (a + share) = Fin a'" "f64_of (n + share) = Fin n'" "f64_of (e - g) = Fin e'" "f64_of (t + g) = Fin t'"
    and "provider_of (wdb w) pid = Some p" "p_jobs_completed p = Some cnt" "i32_range (cnt + 1)"
    and "sql_first (\<lambda>x. t_tx_id x = wids w (widn w)) (txs (wdb w)) = None"
  shows "credit_of (wdb (ci_peer s')) pid = Some (cp\<lparr>c_available := Some (Fin a'), c_earned := Some (Fin n'), c_updated_at := Some (wnow w)\<rparr>) \<and>
    credit_of (wdb (ci_peer s')) (j_consumer_id j) =
      Some (cc\<lparr>c_escrowed := Some (max (Fin 0) (Fin e')), c_spent := Some (Fin t'), c_updated_at := Some (wnow w)\<rparr>) \<and>
    job_of (wdb (ci_peer s')) jid = Some (j\<lparr>j_state := Some ''complete'', j_output_hash := Some (jx_output_hash r),
      j_actual_runtime_s := Some (jx_actual_runtime_s r), j_completed_at := Some (wnow w)\<rparr>) \<and>
    cli_show_log (coordinator_of senv ctx text_of) ctx jid s' = (Inr (unwrap_or [] (j_output_log j)), s')"
proof -
  obtain prefix h1 l h2 where run: "best_python_prefix env hatch_venv (ci_host s) = (Inr prefix, h1)"
      "job_task env spec prefix answer h1 = ((l, Report_Completion r), h2)"
      "s' = \<lparr>ci_host = h2, ci_peer = snd (send_reports oe pid jid l (Report_Completion r) w)\<rparr>"
    using accept_job_run [OF assms(7)] assms(4,8) by auto
  have "log_in_dir jid (ho_files h1)"
    using keeps_stepD [OF keeps_best_python_prefix [OF laws_commands [OF assms(1)]] run(1)] assms(3) .
  then have l: "l = None" "jx_job_id r = jid" using final_log_lost [OF _ assms(2,5) _ run(2)] assms(1,4) by auto
  let ?b = "completion_body pid r"
  have b: "cj_provider_id ?b = pid" "cj_actual_runtime_s ?b = jx_actual_runtime_s r" "cj_output_hash ?b = jx_output_hash r"
    by (simp_all add: completion_body_def)
  obtain w' body where w': "complete_job oe jid ?b w = (Inr body, w')" "wfaults w' = []"
      "credit_of (wdb w') pid = Some (cp\<lparr>c_available := Some (Fin a'), c_earned := Some (Fin n'), c_updated_at := Some (wnow w)\<rparr>)"
      "credit_of (wdb w') (j_consumer_id j) =
        Some (cc\<lparr>c_escrowed := Some (max (Fin 0) (Fin e')), c_spent := Some (Fin t'), c_updated_at := Some (wnow w)\<rparr>)"
      "job_of (wdb w') jid = Some (j\<lparr>j_state := Some ''complete'', j_output_hash := Some (jx_output_hash r),
        j_actual_runtime_s := Some (jx_actual_runtime_s r), j_completed_at := Some (wnow w)\<rparr>)"
    using complete_job_run [where b = ?b, unfolded b, OF assms(9-28), of oe] by auto
  have "send_reports oe pid jid None (Report_Completion r) w = (Inr (), w')"
    using w'(1) by (simp add: send_reports_def push_final_log_def agent_report_completion_def l(2) completion_body_def [symmetric] prog_simps)
  then have s': "s' = \<lparr>ci_host = h2, ci_peer = w'\<rparr>" using run(3) l(1) by simp
  show ?thesis using w' show_log_reply [OF assms(6), where senv = senv and text_of = text_of and ctx = ctx and s = s'] by (simp add: s')
qed

section \<open>A concrete machine\<close>

definition demo_hour :: agent_env where
  "demo_hour = (demo_machine ''job'')\<lparr>ae_elapsed := 3600\<rparr>"

definition demo_acceptance :: "coord_db world cli_world" where
  "demo_acceptance = \<lparr>ci_host = demo_host, ci_peer = world_at lease_db\<rparr>"

lemma demo_hour_laws: "filesystem_laws demo_hour ''job''" "ae_io_error demo_hour ''rmdir'' p fs = None"
  using demo_machine_laws by (simp_all add: demo_hour_def filesystem_laws_def commands_keep_logs_def demo_machine_def)

lemma demo_hour_run: "case best_python_prefix demo_hour None demo_host of
    (Inr p, h) \<Rightarrow> (case job_task demo_hour demo_agent_job p None h of ((l, Report_Completion r), h') \<Rightarrow> jx_actual_runtime_s r = 3600 | _ \<Rightarrow> False)
  | _ \<Rightarrow> False"
  by code_simp

lemma send_reports_total: "fst (send_reports oe pid jid l report w) = Inr ()"
  by (auto simp: send_reports_def prog_simps split: job_report.split prod.split sum.split)

lemma demo_acceptance_run:
  "\<exists>r s'. accept_job demo_hour False ''prov'' None None demo_agent_job demo_acceptance = (Inr (Report_Completion r), s') \<and> jx_actual_runtime_s r = 3600"
proof -
  obtain p h where ph: "best_python_prefix demo_hour None demo_host = (Inr p, h)"
    using demo_hour_run by (auto split: prod.splits sum.splits)
  obtain l rep h' where task: "job_task demo_hour demo_agent_job p None h = ((l, rep), h')" by (metis prod.exhaust)
  obtain r where r: "rep = Report_Completion r" "jx_actual_runtime_s r = 3600"
    using demo_hour_run ph task by (simp split: job_report.splits)
  obtain w where "send_reports False ''prov'' (as_job_id demo_agent_job) l rep (world_at lease_db) = (Inr (), w)"
    using send_reports_total by (metis prod.collapse)
  then have "accept_job demo_hour False ''prov'' None None demo_agent_job demo_acceptance = (Inr rep, \<lparr>ci_host = h', ci_peer = w\<rparr>)"
    using ph task by (simp add: accept_job_def bindE_ok seqE_ok retE_ok on_host_ok on_coordinator_ok map_errE_ok demo_acceptance_def)
  with r show ?thesis by blast
qed

text \<open>The consumer pays for an hour and is shown nothing.\<close>

theorem paid_job_without_log_witness:
  "\<exists>r s' c. accept_job demo_hour False ''prov'' None None demo_agent_job demo_acceptance = (Inr (Report_Completion r), s') \<and>
     credit_of (wdb (ci_peer s')) ''cons'' = Some c \<and> c_spent c = Some (Fin 2) \<and>
     cli_show_log (coordinator_of demo_senv demo_submitter (\<lambda>_. [])) demo_submitter ''job'' s' = (Inr [], s')"
proof -
  obtain r s' where run: "accept_job demo_hour False ''prov'' None None demo_agent_job demo_acceptance = (Inr (Report_Completion r), s')"
      "jx_actual_runtime_s r = 3600" using demo_acceptance_run by blast
  have j: "j_consumer_id demo_job = ''cons''" "j_output_log demo_job = None" by (simp_all add: demo_lease_defs)
  have start: "\<forall>p fs. ae_io_error demo_hour ''rmdir'' p fs = None" "log_in_dir ''job'' (ho_files (ci_host demo_acceptance))"
      "as_job_id demo_agent_job = ''job''" "as_checkpoint_url demo_agent_job = None" "plain_text ''job''" "world_at lease_db = ci_peer demo_acceptance"
    by (simp_all add: demo_hour_laws(2) log_in_dir_def demo_host_def demo_acceptance_def demo_agent_job_def plain_text_def)
  have g: "gross_cost (j_price demo_job) (jx_actual_runtime_s r) = Fin 2" by (simp add: run(2))
  have "credit_of (wdb (ci_peer s')) (j_consumer_id demo_job) =
      Some (demo_consumer\<lparr>c_escrowed := Some (max (Fin 0) (Fin 2)), c_spent := Some (Fin 2), c_updated_at := Some (wnow (world_at lease_db))\<rparr>)"
    "cli_show_log (coordinator_of demo_senv demo_submitter (\<lambda>_. [])) demo_submitter ''job'' s' = (Inr (unwrap_or [] (j_output_log demo_job)), s')"
    using paid_job_without_log [OF demo_hour_laws(1) start(1-5) run(1) start(6) _ _ _ g demo_share, where
        cp = "new_credit_row ''prov'' 900" and a = 0 and n = 0
        and cc = demo_consumer and e = 4 and t = 0 and a' = "8286623314361713 / 4503599627370496"
        and n' = "8286623314361713 / 4503599627370496" and e' = 2 and t' = 2 and p = demo_provider and cnt = 0
        and senv = demo_senv and ctx = demo_submitter and text_of = "\<lambda>_. []"]
    by (simp_all add: i32_range_def j(1))
  then show ?thesis using run(1) j by auto
qed

section \<open>Heartbeats and checkpoints move no money\<close>

abbreviation keeps_money :: "coord_db \<Rightarrow> (coord_db world, 'e, 'a) prog \<Rightarrow> bool" where
  "keeps_money d \<equiv> keeps (\<lambda>w. credits (wdb w) = credits d \<and> escrows (wdb w) = escrows d \<and> txs (wdb w) = txs d)"

lemma keeps_money_stmts:
  "keeps_money d (touch_job jid pid)" "keeps_money d (touch_provider hb)" "keeps_money d (insert_checkpoint b i jid)"
  "keeps_money d (set_checkpoint url n jid)" "keeps_money d new_uuid"
  unfolding touch_job_def touch_provider_def insert_checkpoint_def set_checkpoint_def
  by (rule keeps_db_exec [where I = "\<lambda>x. credits x = credits d \<and> escrows x = escrows d \<and> txs x = txs d"];
      auto simp: on_table_defs map_sum_eq_Inr split: if_splits)+
    (simp add: keeps_def new_uuid_def)

lemma running_job_keeps_money:
  "keeps_money d (job_beat pid jid elapsed gpu)" "keeps_money d (report_checkpoint_to_coordinator jid b)"
  unfolding job_beat_def report_checkpoint_to_coordinator_def job_heartbeat_def save_checkpoint_def Let_def
  by (auto split: f64.split intro!: keeps_intro keeps_money_stmts)

section \<open>Checkpoints across providers\<close>

lemma report_checkpoint_run:
  "report_checkpoint_to_coordinator jid b w = (Inr () :: 'e + unit, snd (save_checkpoint jid b w))"
  by (cases "save_checkpoint jid b w"; cases "fst (save_checkpoint jid b w)") (auto simp: report_checkpoint_to_coordinator_def bindE_run okE_run retE_run)

lemma ticker_turn_step:
  assumes "ticker_step env jid port dir pid elapsed it (ci_host s) = (Inr (n, report), h)"
  shows "ticker_turn env jid port dir pid elapsed it s =
    (Inr (n, report), \<lparr>ci_host = h, ci_peer = (case report of Some b \<Rightarrow> snd (save_checkpoint jid b (ci_peer s)) | None \<Rightarrow> ci_peer s)\<rparr>)"
proof -
  have "t\<lparr>ci_host := h\<rparr> = \<lparr>ci_host = h, ci_peer = ci_peer t\<rparr>" for t :: "coord_db world cli_world" by (cases t) simp
  then show ?thesis
    by (cases report) (simp_all add: ticker_turn_def bindE_run seqE_run retE_run on_host_def on_coordinator_def assms report_checkpoint_run)
qed

text \<open>One turn: it always succeeds, counts one further, and what it sends carries the new count.\<close>

lemma ticker_turn_run:
  obtains h report where "ticker_turn env jid port dir pid elapsed it s =
      (Inr (as_u32 (it + 1), report), \<lparr>ci_host = h, ci_peer = (case report of Some b \<Rightarrow> snd (save_checkpoint jid b (ci_peer s)) | None \<Rightarrow> ci_peer s)\<rparr>)"
    "\<And>b. report = Some b \<Longrightarrow> cp_iteration b = as_u32 (it + 1) \<and> cp_elapsed_secs b = elapsed \<and> cp_provider_id b = pid \<and> cp_checkpoint_dir b = dir"
proof -
  obtain report h where step: "ticker_step env jid port dir pid elapsed it (ci_host s) = (Inr (as_u32 (it + 1), report), h)"
    "\<And>b. report = Some b \<Longrightarrow> cp_iteration b = as_u32 (it + 1) \<and> cp_elapsed_secs b = elapsed \<and> cp_provider_id b = pid \<and> cp_checkpoint_dir b = dir"
    by (cases "ticker_step env jid port dir pid elapsed it (ci_host s)")
      (auto simp: ticker_step_def run_command_def bindE_run matchE_run retE_run Let_def report_body_def split: prod.splits sum.splits if_splits)
  then show thesis using that [OF ticker_turn_step [OF step(1)]] by blast
qed

lemma ticker_turns_return: "\<exists>reports s'. ticker_turns env jid port dir pid it ticks s = (Inr reports, s')"
proof (induction ticks arbitrary: it s)
  case (Cons tick ticks)
  obtain e f where tick: "tick = (e, f)" by fastforce
  obtain h report where t: "ticker_turn env jid port dir pid e it (f s) = (Inr (as_u32 (it + 1), report),
        \<lparr>ci_host = h, ci_peer = (case report of Some b \<Rightarrow> snd (save_checkpoint jid b (ci_peer (f s))) | None \<Rightarrow> ci_peer (f s))\<rparr>)"
    using ticker_turn_run by blast
  obtain rs s' where "ticker_turns env jid port dir pid (as_u32 (it + 1)) ticks
      \<lparr>ci_host = h, ci_peer = (case report of Some b \<Rightarrow> snd (save_checkpoint jid b (ci_peer (f s))) | None \<Rightarrow> ci_peer (f s))\<rparr> = (Inr rs, s')"
    using Cons.IH by blast
  with t show ?case by (simp add: tick bindE_run retE_run)
qed (simp add: retE_run)

lemma as_u32_next: "0 \<le> it \<Longrightarrow> it + 1 < 2 ^ 31 \<Longrightarrow> as_u32 (it + 1) = it + 1"
  by (simp add: as_u32_def)

text \<open>The counts of the reports.\<close>

lemma ticker_turns_reports:
  assumes "0 \<le> it" "it + int (length ticks) < 2 ^ 31" "ticker_turns env jid port dir pid it ticks s = (Inr reports, s')"
  shows "sorted_wrt (\<lambda>a b. cp_iteration a < cp_iteration b) reports \<and>
    (\<forall>b\<in>set reports. it < cp_iteration b \<and> cp_iteration b \<le> it + int (length ticks) \<and> cp_elapsed_secs b \<in> fst ` set ticks \<and>
       cp_provider_id b = pid \<and> cp_checkpoint_dir b = dir)"
  using assms
proof (induction ticks arbitrary: it s reports)
  case (Cons tick ticks)
  obtain e f where tick: "tick = (e, f)" by fastforce
  obtain h report where t: "ticker_turn env jid port dir pid e it (f s) = (Inr (as_u32 (it + 1), report),
        \<lparr>ci_host = h, ci_peer = (case report of Some b \<Rightarrow> snd (save_checkpoint jid b (ci_peer (f s))) | None \<Rightarrow> ci_peer (f s))\<rparr>)"
      "\<And>b. report = Some b \<Longrightarrow> cp_iteration b = as_u32 (it + 1) \<and> cp_elapsed_secs b = e \<and> cp_provider_id b = pid \<and> cp_checkpoint_dir b = dir"
    using ticker_turn_run by blast
  have it: "as_u32 (it + 1) = it + 1" using Cons.prems(1,2) by (intro as_u32_next) simp_all
  obtain rs where rs: "ticker_turns env jid port dir pid (it + 1) ticks
        \<lparr>ci_host = h, ci_peer = (case report of Some b \<Rightarrow> snd (save_checkpoint jid b (ci_peer (f s))) | None \<Rightarrow> ci_peer (f s))\<rparr> = (Inr rs, s')"
      "reports = (case report of Some b \<Rightarrow> b # rs | None \<Rightarrow> rs)"
    using Cons.prems(3) t(1) by (auto simp: tick bindE_ok retE_ok it)
  have "0 \<le> it + 1" "it + 1 + int (length ticks) < 2 ^ 31" using Cons.prems(1,2) by simp_all
  from Cons.IH [OF this rs(1)] have IH: "sorted_wrt (\<lambda>a b. cp_iteration a < cp_iteration b) rs"
      "\<forall>b\<in>set rs. it + 1 < cp_iteration b \<and> cp_iteration b \<le> it + 1 + int (length ticks) \<and> cp_elapsed_secs b \<in> fst ` set ticks \<and>
         cp_provider_id b = pid \<and> cp_checkpoint_dir b = dir" by blast+
  show ?case
  proof (cases report)
    case None
    with IH rs(2) show ?thesis by (auto simp: tick)
  next
    case (Some b)
    with t(2) it have "cp_iteration b = it + 1" "cp_elapsed_secs b = e" "cp_provider_id b = pid" "cp_checkpoint_dir b = dir" by simp_all
    with IH rs(2) Some show ?thesis by (auto simp: tick)
  qed
qed (simp add: retE_ok)

section \<open>Progress lost after a restore\<close>

definition checkpoints_of :: "string \<Rightarrow> coord_db \<Rightarrow> checkpoint_row list" where
  "checkpoints_of jid d = filter (\<lambda>c. ck_job_id c = Some jid) (checkpoints d)"

lemma latest_cong: "checkpoints_of jid d = checkpoints_of jid d' \<Longrightarrow> latest_checkpoint jid d = latest_checkpoint jid d'"
  by (simp add: latest_checkpoint_def checkpoints_of_def)

lemma save_checkpoint_lower:
  assumes "latest_checkpoint jid (wdb w) = Some c0" "cp_iteration b < ck_iteration c0"
  shows "latest_checkpoint jid (wdb (snd (save_checkpoint jid b w))) = Some c0"
proof -
  have row: "latest_checkpoint jid (d\<lparr>checkpoints := checkpoints d @ [checkpoint_row_of b cid jid]\<rparr>) = Some c0"
    if "latest_checkpoint jid d = Some c0" for d cid
    using that assms(2) by (intro latest_checkpoint_lower) (simp_all add: checkpoint_row_of_def)
  have "keeps (\<lambda>w. latest_checkpoint jid (wdb w) = Some c0) (insert_checkpoint b cid jid)" for cid
    unfolding insert_checkpoint_def
    by (rule keeps_db_exec [where I = "\<lambda>d. latest_checkpoint jid d = Some c0"])
      (auto simp: on_checkpoints_def map_sum_eq_Inr sql_insert_def row split: if_splits)
  moreover have "keeps (\<lambda>w. latest_checkpoint jid (wdb w) = Some c0) (set_checkpoint url n jid)" for url n
    unfolding set_checkpoint_def
    by (rule keeps_db_exec [where I = "\<lambda>d. latest_checkpoint jid d = Some c0"]) (auto simp: on_jobs_def map_sum_eq_Inr latest_checkpoint_def)
  moreover have "keeps (\<lambda>w. latest_checkpoint jid (wdb w) = Some c0) new_uuid" by (simp add: keeps_def new_uuid_def)
  ultimately have "keeps (\<lambda>w. latest_checkpoint jid (wdb w) = Some c0) (save_checkpoint jid b)"
    unfolding save_checkpoint_def Let_def by (intro keeps_intro)
  then show ?thesis using assms(1) by (rule keepsD)
qed

lemma ticker_turns_keep_latest:
  assumes "0 \<le> it" "it + int (length ticks) < ck_iteration c0" "ck_iteration c0 < 2 ^ 31"
    and "\<forall>(e, f)\<in>set ticks. \<forall>s. checkpoints_of jid (wdb (ci_peer (f s))) = checkpoints_of jid (wdb (ci_peer s))"
    and "latest_checkpoint jid (wdb (ci_peer s)) = Some c0" "ticker_turns env jid port dir pid it ticks s = (Inr reports, s')"
  shows "latest_checkpoint jid (wdb (ci_peer s')) = Some c0"
  using assms
proof (induction ticks arbitrary: it s reports)
  case (Cons tick ticks)
  obtain e f where tick: "tick = (e, f)" by fastforce
  obtain h report where t: "ticker_turn env jid port dir pid e it (f s) = (Inr (as_u32 (it + 1), report),
        \<lparr>ci_host = h, ci_peer = (case report of Some b \<Rightarrow> snd (save_checkpoint jid b (ci_peer (f s))) | None \<Rightarrow> ci_peer (f s))\<rparr>)"
      "\<And>b. report = Some b \<Longrightarrow> cp_iteration b = as_u32 (it + 1) \<and> cp_elapsed_secs b = e \<and> cp_provider_id b = pid \<and> cp_checkpoint_dir b = dir"
    using ticker_turn_run by blast
  let ?t = "\<lparr>ci_host = h, ci_peer = (case report of Some b \<Rightarrow> snd (save_checkpoint jid b (ci_peer (f s))) | None \<Rightarrow> ci_peer (f s))\<rparr>"
  have it: "as_u32 (it + 1) = it + 1" using Cons.prems(1-3) by (intro as_u32_next) simp_all
  have f: "latest_checkpoint jid (wdb (ci_peer (f s))) = Some c0" using Cons.prems(4,5) latest_cong [of jid "wdb (ci_peer (f s))" "wdb (ci_peer s)"] by (simp add: tick)
  have "latest_checkpoint jid (wdb (ci_peer ?t)) = Some c0"
    using f t(2) it Cons.prems(2) save_checkpoint_lower [OF f] by (auto split: option.split)
  moreover obtain rs where "ticker_turns env jid port dir pid (it + 1) ticks ?t = (Inr rs, s')"
    using Cons.prems(6) t(1) by (auto simp: tick bindE_ok retE_ok it)
  ultimately show ?case using Cons.IH [of "it + 1" ?t rs] Cons.prems(1-4) by auto
qed (simp add: retE_ok)

text \<open>A coordinator that answers, with fresh identifiers and the job in its table.\<close>

definition healthy :: "string \<Rightarrow> coord_db world \<Rightarrow> bool" where
  "healthy jid w \<longleftrightarrow> wfaults w = [] \<and> job_of (wdb w) jid \<noteq> None \<and> inj (wids w) \<and>
     (\<forall>n\<ge>widn w. \<forall>x\<in>set (checkpoints (wdb w)). ck_checkpoint_id x \<noteq> wids w n)"

text \<open>What happens between two ticks: no other checkpoint of the job is stored, and a healthy coordinator stays so.\<close>

definition no_checkpoints :: "string \<Rightarrow> (coord_db world cli_world \<Rightarrow> coord_db world cli_world) \<Rightarrow> bool" where
  "no_checkpoints jid f \<longleftrightarrow> (\<forall>s. checkpoints_of jid (wdb (ci_peer (f s))) = checkpoints_of jid (wdb (ci_peer s)) \<and>
     (healthy jid (ci_peer s) \<longrightarrow> healthy jid (ci_peer (f s))))"

lemma healthy_save:
  assumes "healthy jid w"
  shows "healthy jid (snd (save_checkpoint jid b w)) \<and>
    checkpoints_of jid (wdb (snd (save_checkpoint jid b w))) = checkpoints_of jid (wdb w) @ [checkpoint_row_of b (wids w (widn w)) jid]"
proof -
  let ?c = "checkpoint_row_of b (wids w (widn w)) jid"
  have id: "ck_checkpoint_id ?c = wids w (widn w)" "ck_job_id ?c = Some jid" by (simp_all add: checkpoint_row_of_def)
  obtain j where j: "job_of (wdb w) jid = Some j" using assms by (auto simp: healthy_def)
  then have "jid \<in> j_job_id ` set (jobs (wdb w))" using sql_first_in_set [OF j] by force
  moreover have "sql_first (\<lambda>x. ck_checkpoint_id x = ck_checkpoint_id ?c) (checkpoints (wdb w)) = None"
    using assms by (force simp: healthy_def id sql_first_None_iff)
  moreover have "wids w (widn w) \<noteq> wids w n" if "Suc (widn w) \<le> n" for n
    using assms that by (auto simp: healthy_def dest: injD)
  moreover have "sql_first (\<lambda>r. j_job_id r = jid) (map (\<lambda>r. if j_job_id r = jid then r\<lparr>j_checkpoint_url := u, j_checkpoint_iter := n, j_last_heartbeat := h\<rparr>
      else r) (jobs (wdb w))) \<noteq> None" for u n h
    using job_update_lookup [of "\<lambda>r. r\<lparr>j_checkpoint_url := u, j_checkpoint_iter := n, j_last_heartbeat := h\<rparr>" jid "jobs (wdb w)"] j by simp
  ultimately show ?thesis using assms
    by (auto simp: save_checkpoint_def insert_checkpoint_def set_checkpoint_def prog_simps on_table_defs sql_insert_new Let_def healthy_def id checkpoints_of_def)
qed

lemma ticker_turns_stored:
  assumes "healthy jid (ci_peer s)" "\<forall>(e, f)\<in>set ticks. no_checkpoints jid f" "ticker_turns env jid port dir pid it ticks s = (Inr reports, s')"
  shows "healthy jid (ci_peer s') \<and> (\<exists>rows. checkpoints_of jid (wdb (ci_peer s')) = checkpoints_of jid (wdb (ci_peer s)) @ rows \<and>
     list_all2 (\<lambda>b r. \<exists>i. r = checkpoint_row_of b i jid) reports rows)"
  using assms
proof (induction ticks arbitrary: it s reports)
  case (Cons tick ticks)
  obtain e f where tick: "tick = (e, f)" by fastforce
  obtain h report where t: "ticker_turn env jid port dir pid e it (f s) = (Inr (as_u32 (it + 1), report),
        \<lparr>ci_host = h, ci_peer = (case report of Some b \<Rightarrow> snd (save_checkpoint jid b (ci_peer (f s))) | None \<Rightarrow> ci_peer (f s))\<rparr>)"
    using ticker_turn_run by blast
  let ?t = "\<lparr>ci_host = h, ci_peer = (case report of Some b \<Rightarrow> snd (save_checkpoint jid b (ci_peer (f s))) | None \<Rightarrow> ci_peer (f s))\<rparr>"
  have f: "healthy jid (ci_peer (f s))" "checkpoints_of jid (wdb (ci_peer (f s))) = checkpoints_of jid (wdb (ci_peer s))"
    using Cons.prems(1,2) by (simp_all add: tick no_checkpoints_def)
  obtain rs where rs: "ticker_turns env jid port dir pid (as_u32 (it + 1)) ticks ?t = (Inr rs, s')"
      "reports = (case report of Some b \<Rightarrow> b # rs | None \<Rightarrow> rs)"
    using Cons.prems(3) t(1) by (auto simp: tick bindE_ok retE_ok)
  have "healthy jid (ci_peer ?t)" using f(1) healthy_save by (simp split: option.split)
  from Cons.IH [OF this _ rs(1)] obtain rows where rows: "healthy jid (ci_peer s')" "checkpoints_of jid (wdb (ci_peer s')) = checkpoints_of jid (wdb (ci_peer ?t)) @ rows"
      "list_all2 (\<lambda>b r. \<exists>i. r = checkpoint_row_of b i jid) rs rows" using Cons.prems(2) by auto
  show ?case
  proof (cases report)
    case None
    then show ?thesis using rows rs(2) f(2) by auto
  next
    case (Some b)
    then show ?thesis using rows rs(2) f(2) healthy_save [OF f(1), of b]
      by (intro conjI exI [of _ "checkpoint_row_of b (wids (ci_peer (f s)) (widn (ci_peer (f s)))) jid # rows"]) auto
  qed
qed (simp add: retE_ok)

text \<open>C22: A restored job loses its new progress. The ticker of a restored run counts its checkpoints from one again, while the coordinator serves
  the checkpoint with the greatest iteration. After any number of ticks smaller than that iteration, whatever the machine does, whichever statements
  at the coordinator fail, and whatever happens between the ticks, as long as nobody else stores checkpoints of the job: the coordinator still
  serves the old checkpoint and its files, so that the next restore goes back to the old snapshot. Every report carries a smaller iteration; when
  nothing fails, each of them is stored beside the old one, and none is served.\<close>

theorem restored_progress_lost:
  assumes "latest_checkpoint jid (wdb (ci_peer s)) = Some c0" "int (length ticks) < ck_iteration c0" "ck_iteration c0 < 2 ^ 31"
    and "\<forall>(elapsed, meanwhile)\<in>set ticks. \<forall>s. checkpoints_of jid (wdb (ci_peer (meanwhile s))) = checkpoints_of jid (wdb (ci_peer s))"
    and "checkpoint_ticker env jid port dir pid ticks s = (Inr reports, s')"
  shows "(\<forall>w. wdb w = wdb (ci_peer s') \<longrightarrow> wfaults w = [] \<longrightarrow> (\<exists>answer. get_checkpoint jid w = (Inr answer, w) \<and>
       j_get ''iteration'' answer = JInt (ck_iteration c0) \<and> j_get ''dmtcp_files'' answer = j_opt j_strs (ck_dmtcp_files c0))) \<and>
    (\<forall>b\<in>set reports. 1 \<le> cp_iteration b \<and> cp_iteration b < ck_iteration c0) \<and>
    (healthy jid (ci_peer s) \<and> (\<forall>(elapsed, meanwhile)\<in>set ticks. no_checkpoints jid meanwhile) \<longrightarrow>
       (\<exists>rows. checkpoints_of jid (wdb (ci_peer s')) = checkpoints_of jid (wdb (ci_peer s)) @ rows \<and>
          list_all2 (\<lambda>b r. \<exists>i. r = checkpoint_row_of b i jid) reports rows))"
proof -
  have run: "ticker_turns env jid port dir pid 0 ticks s = (Inr reports, s')" using assms(5) by (simp add: checkpoint_ticker_def)
  have latest: "latest_checkpoint jid (wdb (ci_peer s')) = Some c0"
    using ticker_turns_keep_latest [OF _ _ assms(3,4,1) run] assms(2) by simp
  have "\<exists>answer. get_checkpoint jid w = (Inr answer, w) \<and> j_get ''iteration'' answer = JInt (ck_iteration c0) \<and>
      j_get ''dmtcp_files'' answer = j_opt j_strs (ck_dmtcp_files c0)" if "wdb w = wdb (ci_peer s')" "wfaults w = []" for w
    using that latest by (simp add: get_checkpoint_def prog_simps j_get_def)
  moreover have "\<forall>b\<in>set reports. 1 \<le> cp_iteration b \<and> cp_iteration b < ck_iteration c0"
    using ticker_turns_reports [OF _ _ run] assms(2,3) by force
  moreover have "\<exists>rows. checkpoints_of jid (wdb (ci_peer s')) = checkpoints_of jid (wdb (ci_peer s)) @ rows \<and>
      list_all2 (\<lambda>b r. \<exists>i. r = checkpoint_row_of b i jid) reports rows"
    if "healthy jid (ci_peer s)" "\<forall>(elapsed, meanwhile)\<in>set ticks. no_checkpoints jid meanwhile"
    using ticker_turns_stored [OF that run] by blast
  ultimately show ?thesis by blast
qed

section \<open>A checkpoint handed over\<close>

text \<open>C21: A checkpoint is handed over intact. In the first run of a job, one with no checkpoint stored yet, of fewer than \<open>2 ^ 31\<close> ticks, when the
  coordinator answers, with fresh identifiers and the job in its table, and nobody else stores checkpoints of the job: whatever the machine does
  and however many ticks fail, after the run the coordinator serves the last checkpoint that the ticker reported. The provider that restores the job decodes it to the same directory, files, iteration and elapsed time; the port, which the
  coordinator does not keep, is derived from the job again, and is the port the first provider launched with.\<close>

theorem checkpoint_handover:
  assumes "healthy jid (ci_peer s)" "checkpoints_of jid (wdb (ci_peer s)) = []"
    and "\<forall>(elapsed, meanwhile)\<in>set ticks. no_checkpoints jid meanwhile \<and> 0 \<le> elapsed \<and> elapsed < 2 ^ 63" "int (length ticks) < 2 ^ 31"
    and "dmtcp_launch env jid cmd args dir vars logp h = (Inr (ds, code), h')"
    and "checkpoint_ticker env jid (ds_coord_port ds) (ds_checkpoint_dir ds) pid ticks s = (Inr reports, s')" "reports \<noteq> []"
  shows "\<exists>answer m. get_checkpoint jid (ci_peer s') = (Inr answer, ci_peer s') \<and> decode_meta answer = Some m \<and>
     report_body pid m = last reports \<and> cx_job_id m = jid \<and> cx_checkpoint_dir m = ds_checkpoint_dir ds \<and> restore_port m = ds_coord_port ds"
proof -
  have run: "ticker_turns env jid (ds_coord_port ds) (ds_checkpoint_dir ds) pid 0 ticks s = (Inr reports, s')"
    using assms(6) by (simp add: checkpoint_ticker_def)
  obtain rows where rows: "healthy jid (ci_peer s')" "checkpoints_of jid (wdb (ci_peer s')) = rows"
      "list_all2 (\<lambda>b r. \<exists>i. r = checkpoint_row_of b i jid) reports rows"
    using ticker_turns_stored [OF assms(1) _ run] assms(2,3) by auto
  have reps: "sorted_wrt (\<lambda>a b. cp_iteration a < cp_iteration b) reports" "\<forall>b\<in>set reports. 0 < cp_iteration b \<and> cp_iteration b < 2 ^ 31 \<and>
      0 \<le> cp_elapsed_secs b \<and> cp_elapsed_secs b < 2 ^ 63 \<and> cp_provider_id b = pid \<and> cp_checkpoint_dir b = ds_checkpoint_dir ds"
    using ticker_turns_reports [OF _ _ run] assms(3,4) by force+
  obtain bs b where bs: "reports = bs @ [b]" using assms(7) by (metis rev_exhaust)
  with rows(3) obtain rs i where rs: "rows = rs @ [checkpoint_row_of b i jid]" "list_all2 (\<lambda>b r. \<exists>i. r = checkpoint_row_of b i jid) bs rs"
    by (auto simp: list_all2_append1 list_all2_Cons1)
  have "ck_iteration x < cp_iteration b" if x: "x \<in> set rs" for x
  proof -
    from rs(2) x obtain a j where "a \<in> set bs" "x = checkpoint_row_of a j jid"
      by (fastforce simp: list_all2_conv_all_nth in_set_conv_nth)
    then show ?thesis using reps(1) bs by (simp add: sorted_wrt_append checkpoint_row_of_def)
  qed
  then have "latest_checkpoint jid (wdb (ci_peer s')\<lparr>checkpoints := rs @ [checkpoint_row_of b i jid]\<rparr>) = Some (checkpoint_row_of b i jid)"
    by (intro latest_checkpoint_append) (auto simp: checkpoint_row_of_def)
  moreover have "latest_checkpoint jid (wdb (ci_peer s')) = latest_checkpoint jid (wdb (ci_peer s')\<lparr>checkpoints := rows\<rparr>)"
    using rows(2) by (intro latest_cong) (auto simp: checkpoints_of_def)
  ultimately have latest: "latest_checkpoint jid (wdb (ci_peer s')) = Some (checkpoint_row_of b i jid)" using rs(1) by simp
  have port: "ds_coord_port ds = derive_port jid" using assms(5)
    by (auto simp: dmtcp_launch_def prog_simps Let_def split: prod.splits sum.splits)
  have "wfaults (ci_peer s') = []" using rows(1) by (simp add: healthy_def)
  then show ?thesis using latest reps(2) bs port
    by (simp add: get_checkpoint_def prog_simps checkpoint_row_of_def decode_meta_def j_get_def restore_port_def report_body_def j_strs_def)
qed

text \<open>The first provider reached iteration 4; the second one restores, and makes two checkpoints.\<close>

theorem restored_progress_lost_witness:
  "\<exists>reports s'. checkpoint_ticker (demo_machine ''job'') ''job'' 7895 ''/var/neuralmesh/checkpoints/job'' ''prov2'' [(300, id), (600, id)]
       \<lparr>ci_host = demo_host, ci_peer = world_at (lease_db\<lparr>checkpoints := [checkpoint_row_of (report_body ''prov'' demo_meta) ''c0'' ''job'']\<rparr>)\<rparr> =
       (Inr reports, s') \<and> length (checkpoints_of ''job'' (wdb (ci_peer s'))) = 1 + length reports \<and>
     (\<exists>answer. get_checkpoint ''job'' (ci_peer s') = (Inr answer, ci_peer s') \<and> j_get ''iteration'' answer = JInt 4)"
proof -
  let ?c = "checkpoint_row_of (report_body ''prov'' demo_meta) ''c0'' ''job''"
  let ?w = "world_at (lease_db\<lparr>checkpoints := [?c]\<rparr>)"
  let ?s = "\<lparr>ci_host = demo_host, ci_peer = ?w\<rparr>"
  let ?ticks = "[(300, id), (600, id)] :: (int \<times> (coord_db world cli_world \<Rightarrow> coord_db world cli_world)) list"
  obtain reports s' where run: "checkpoint_ticker (demo_machine ''job'') ''job'' 7895 ''/var/neuralmesh/checkpoints/job'' ''prov2'' ?ticks ?s = (Inr reports, s')"
    using ticker_turns_return unfolding checkpoint_ticker_def by blast
  have latest: "latest_checkpoint ''job'' (wdb (ci_peer ?s)) = Some ?c"
    by (simp add: latest_checkpoint_def order_desc_def checkpoint_row_of_def world_at_def)
  have it: "ck_iteration ?c = 4" by (simp add: checkpoint_row_of_def report_body_def demo_meta_def)
  have healthy: "healthy ''job'' (ci_peer ?s)"
    by (simp add: healthy_def demo_lease_defs world_at_def checkpoint_row_of_def inj_def)
  have quiet: "\<forall>(elapsed, meanwhile)\<in>set ?ticks. no_checkpoints ''job'' meanwhile" by (simp add: no_checkpoints_def)
  have ticks: "\<forall>(elapsed, meanwhile)\<in>set ?ticks. \<forall>s. checkpoints_of ''job'' (wdb (ci_peer (meanwhile s))) = checkpoints_of ''job'' (wdb (ci_peer s))" by simp
  have few: "int (length ?ticks) < ck_iteration ?c" "ck_iteration ?c < 2 ^ 31" by (simp_all add: it)
  note claim = restored_progress_lost [OF latest few ticks run]
  have "length (checkpoints_of ''job'' (wdb ?w)) = 1" by (simp add: world_at_def checkpoints_of_def checkpoint_row_of_def)
  then have len: "length (checkpoints_of ''job'' (wdb (ci_peer s'))) = 1 + length reports"
    using claim healthy quiet by (auto dest: list_all2_lengthD)
  have "wfaults (ci_peer s') = []"
    using ticker_turns_stored [OF healthy quiet run [unfolded checkpoint_ticker_def]] by (simp add: healthy_def)
  then show ?thesis using claim len run it by auto
qed

theorem checkpoint_handover_witness:
  "\<exists>reports s' answer m. checkpoint_ticker (demo_machine ''job'') ''job'' 7895 ''/var/neuralmesh/checkpoints/job'' ''prov'' [(300, id)]
       \<lparr>ci_host = demo_host, ci_peer = world_at lease_db\<rparr> = (Inr reports, s') \<and> length reports = 1 \<and>
     get_checkpoint ''job'' (ci_peer s') = (Inr answer, ci_peer s') \<and> decode_meta answer = Some m \<and> cx_iteration m = 1"
proof -
  let ?s = "\<lparr>ci_host = demo_host, ci_peer = world_at lease_db\<rparr>"
  let ?ticks = "[(300, id)] :: (int \<times> (coord_db world cli_world \<Rightarrow> coord_db world cli_world)) list"
  have port: "derive_port ''job'' = 7895" by code_simp
  obtain ds code h' where launch: "dmtcp_launch (demo_machine ''job'') ''job'' ''sandbox-exec'' [] ''/tmp/neuralmesh/job'' [] None demo_host =
      (Inr (ds, code), h')" "ds_coord_port ds = 7895" "ds_checkpoint_dir ds = ''/var/neuralmesh/checkpoints/job''"
    by (simp add: dmtcp_launch_def prog_simps run_command_def demo_machine_def demo_exec_def command_of_def dmtcp_which_def status_of_def
      create_dir_all_def open_log_stdio_def file_op_def Let_def port checkpoint_root_def path_join_def starts_with_def)
  let ?b = "report_body ''prov'' (demo_meta\<lparr>cx_iteration := 1, cx_elapsed_secs := 300, cx_dmtcp_files := []\<rparr>)"
  obtain h where "ticker_step (demo_machine ''job'') ''job'' 7895 ''/var/neuralmesh/checkpoints/job'' ''prov'' 300 0 demo_host = (Inr (1, Some ?b), h)"
    by (simp add: ticker_step_def prog_simps run_command_def demo_machine_def demo_exec_def command_of_def dmtcp_which_def meta_save_def
      create_dir_all_def write_file_def file_op_def Let_def collect_dmtcp_files_def demo_meta_def log_of_def work_dir_of_def checkpoint_root_def
      path_join_def starts_with_def report_body_def as_u32_def)
  then obtain s' where run: "checkpoint_ticker (demo_machine ''job'') ''job'' 7895 ''/var/neuralmesh/checkpoints/job'' ''prov'' ?ticks ?s = (Inr [?b], s')"
    using ticker_turn_step [of "demo_machine ''job''" "''job''" 7895 "''/var/neuralmesh/checkpoints/job''" "''prov''" 300 0 ?s 1 "Some ?b" h]
    by (simp add: checkpoint_ticker_def bindE_run retE_run)
  have healthy: "healthy ''job'' (ci_peer ?s)"
    by (simp add: healthy_def demo_lease_defs world_at_def inj_def)
  have quiet: "\<forall>(elapsed, meanwhile)\<in>set ?ticks. no_checkpoints ''job'' meanwhile \<and> 0 \<le> elapsed \<and> elapsed < 2 ^ 63"
    by (simp add: no_checkpoints_def)
  have none: "checkpoints_of ''job'' (wdb (ci_peer ?s)) = []" by (simp add: demo_lease_defs world_at_def checkpoints_of_def)
  have few: "int (length ?ticks) < 2 ^ 31" by simp
  from checkpoint_handover [OF healthy none quiet few launch(1) run [folded launch(2,3)]] obtain answer m where
    "get_checkpoint ''job'' (ci_peer s') = (Inr answer, ci_peer s')" "decode_meta answer = Some m"
    "report_body ''prov'' m = report_body ''prov'' (demo_meta\<lparr>cx_iteration := 1, cx_elapsed_secs := 300, cx_dmtcp_files := []\<rparr>)" by auto
  then show ?thesis using run by (fastforce simp: report_body_def)
qed

end
