(* ===== verification/Wireguard.thy ===== *)
theory Wireguard
  imports Job_Claims "HOL-Library.Word"
begin

text \<open>
  Tunnels: the NAT traversal of \<open>crates/nm-wireguard/src/nat.rs\<close>, the keys and the tunnel of \<open>keys.rs\<close> and \<open>tunnel.rs\<close>, and the tunnel of a job
  in \<open>agent/src/network/wireguard.rs\<close>.

  A packet is a list of bytes. An index past the end of a slice is a panic. The loop over the attributes of a STUN response is a
  \<open>partial_function\<close>, so that its termination is a theorem. The tunnel runs commands on the machine of the job runner; X25519
  and Base64 are parameters.
\<close>

unbundle bit_operations_syntax

section \<open>STUN\<close>

datatype stun_result = Stun_Addr "32 word" "16 word" | Stun_Error string | Stun_Panic

definition stun_servers :: "string list" where
  "stun_servers = [''stun.l.google.com:19302'', ''stun1.l.google.com:19302'', ''stun.cloudflare.com:3478'']"

definition be16 :: "8 word \<Rightarrow> 8 word \<Rightarrow> 16 word" where
  "be16 a b = word_of_nat (unat a * 256 + unat b)"

definition be32 :: "8 word \<Rightarrow> 8 word \<Rightarrow> 8 word \<Rightarrow> 8 word \<Rightarrow> 32 word" where
  "be32 a b c d = word_of_nat (((unat a * 256 + unat b) * 256 + unat c) * 256 + unat d)"

text \<open>The twelve bytes of the transaction identifier are random.\<close>

definition build_stun_request :: "8 word list \<Rightarrow> 8 word list" where
  "build_stun_request transaction_id = [0x00, 0x01, 0x00, 0x00, 0x21, 0x12, 0xA4, 0x42] @ transaction_id"

text \<open>\<open>(n + 3) & !3\<close>\<close>

definition round_up4 :: "nat \<Rightarrow> nat" where
  "round_up4 n = (n + 3) div 4 * 4"

partial_function (option) stun_scan :: "8 word list \<Rightarrow> nat \<Rightarrow> stun_result option" where
  "stun_scan buf pos =
     (if pos + 4 \<le> length buf then
        let attr_type = be16 (buf ! pos) (buf ! (pos + 1)); attr_len = unat (be16 (buf ! (pos + 2)) (buf ! (pos + 3))); p = pos + 4
        in if attr_type = 0x0020 \<and> 8 \<le> attr_len then
             (if p + 7 < length buf
              then Some (Stun_Addr (be32 (buf ! (p + 4)) (buf ! (p + 5)) (buf ! (p + 6)) (buf ! (p + 7)) XOR 0x2112A442)
                (be16 (buf ! (p + 2)) (buf ! (p + 3)) XOR 0x2112))
              else Some Stun_Panic)
           else if attr_type = 0x0001 \<and> 8 \<le> attr_len then
             (if p + 7 < length buf
              then Some (Stun_Addr (be32 (buf ! (p + 4)) (buf ! (p + 5)) (buf ! (p + 6)) (buf ! (p + 7))) (be16 (buf ! (p + 2)) (buf ! (p + 3))))
              else Some Stun_Panic)
           else stun_scan buf (p + round_up4 attr_len)
      else Some (Stun_Error ''No mapped address found in STUN response''))"

definition parse_stun_response :: "8 word list \<Rightarrow> stun_result option" where
  "parse_stun_response buf = (if length buf < 20 then Some (Stun_Error ''STUN response too short'') else stun_scan buf 20)"

text \<open>What a server answers: an error (resolution, sending, the timeout), or the bytes of the next packet, of which 512 are read.\<close>

definition try_stun :: "(string \<Rightarrow> string + 8 word list) \<Rightarrow> string \<Rightarrow> stun_result option" where
  "try_stun net server = (case net server of Inl e \<Rightarrow> Some (Stun_Error e) | Inr packet \<Rightarrow> parse_stun_response (take 512 packet))"

fun try_servers :: "(string \<Rightarrow> string + 8 word list) \<Rightarrow> string list \<Rightarrow> stun_result option" where
  "try_servers net [] = Some (Stun_Error (''All STUN servers failed '' @ [CHR 0xE2, CHR 0x80, CHR 0x94] @ '' provider may be behind symmetric NAT''))"
| "try_servers net (server # servers) =
     (case try_stun net server of None \<Rightarrow> None | Some (Stun_Error e) \<Rightarrow> try_servers net servers | Some r \<Rightarrow> Some r)"

definition discover_public_endpoint :: "string option \<Rightarrow> (string \<Rightarrow> string + 8 word list) \<Rightarrow> stun_result option" where
  "discover_public_endpoint bind_error net = (case bind_error of Some e \<Rightarrow> Some (Stun_Error e) | None \<Rightarrow> try_servers net stun_servers)"

text \<open>The loop ends: every round moves the position ahead.\<close>

lemma stun_scan_ends: "\<exists>r. stun_scan buf pos = Some r"
proof (induction "length buf - pos" arbitrary: pos rule: less_induct)
  case less
  have "\<exists>r. stun_scan buf (pos + 4 + k) = Some r" if "pos + 4 \<le> length buf" for k
    using that by (intro less.hyps) simp
  then show ?case by (subst stun_scan.simps) (auto simp: Let_def)
qed

section \<open>Well-formed responses\<close>

definition bytes16 :: "16 word \<Rightarrow> 8 word list" where
  "bytes16 w = [word_of_nat (unat w div 256), word_of_nat (unat w mod 256)]"

definition bytes32 :: "32 word \<Rightarrow> 8 word list" where
  "bytes32 w = [word_of_nat (unat w div 256 ^ 3), word_of_nat (unat w div 256 ^ 2 mod 256), word_of_nat (unat w div 256 mod 256),
     word_of_nat (unat w mod 256)]"

lemma bytes16_length [simp]: "length (bytes16 w) = 2"
  by (simp add: bytes16_def)

lemma bytes32_length [simp]: "length (bytes32 w) = 4"
  by (simp add: bytes32_def)

lemma unat_octet: "n < 256 \<Longrightarrow> unat (word_of_nat n :: 8 word) = n"
  by (simp add: unat_of_nat take_bit_eq_mod)

lemma be16_bytes: "be16 (bytes16 w ! 0) (bytes16 w ! 1) = w"
proof -
  have "unat w div 256 < 256" using unsigned_less [of w, where ?'a = nat] by (simp add: less_mult_imp_div_less)
  then show ?thesis by (simp add: be16_def bytes16_def unat_octet)
qed

lemma be32_bytes: "be32 (bytes32 w ! 0) (bytes32 w ! 1) (bytes32 w ! 2) (bytes32 w ! 3) = w"
proof -
  have "unat w div 256 ^ 3 < 256" using unsigned_less [of w, where ?'a = nat] by (simp add: less_mult_imp_div_less)
  moreover have "((a div 256 ^ 3 * 256 + a div 256 ^ 2 mod 256) * 256 + a div 256 mod 256) * 256 + a mod 256 = a" for a :: nat
  proof -
    have "a div 256 ^ 2 = a div 256 div 256" "a div 256 ^ 3 = a div 256 div 256 div 256"
      by (simp_all add: power2_eq_square power3_eq_cube div_mult2_eq)
    moreover have "a div 256 div 256 div 256 * 256 + a div 256 div 256 mod 256 = a div 256 div 256"
      "a div 256 div 256 * 256 + a div 256 mod 256 = a div 256" "a div 256 * 256 + a mod 256 = a" by (rule div_mult_mod_eq)+
    ultimately show ?thesis by (simp only:)
  qed
  ultimately show ?thesis by (simp add: be32_def bytes32_def unat_octet)
qed

text \<open>An attribute of a response: its type and value, padded to a multiple of four bytes. An address attribute carries a reserved byte, the
  family, the port and the address, here in front of whatever else its value has.\<close>

definition stun_attribute :: "16 word \<times> 8 word list \<Rightarrow> 8 word list" where
  "stun_attribute a = (case a of (t, v) \<Rightarrow>
     bytes16 t @ bytes16 (word_of_nat (length v)) @ v @ replicate (round_up4 (length v) - length v) 0)"

definition mapped_value :: "8 word \<Rightarrow> 16 word \<Rightarrow> 32 word \<Rightarrow> 8 word list \<Rightarrow> 8 word list" where
  "mapped_value family port ip extra = [0, family] @ bytes16 port @ bytes32 ip @ extra"

definition no_address :: "16 word \<times> 8 word list \<Rightarrow> bool" where
  "no_address a \<longleftrightarrow> length (snd a) < 2 ^ 16 \<and> (fst a \<notin> {0x0020, 0x0001} \<or> length (snd a) < 8)"

lemma round_up4_ge: "n \<le> round_up4 n"
  unfolding round_up4_def by presburger

lemma stun_attribute_length: "length (stun_attribute a) = 4 + round_up4 (length (snd a))"
  using round_up4_ge [of "length (snd a)"] by (cases a) (simp add: stun_attribute_def)

text \<open>What the scan reads at a position where an attribute starts.\<close>

lemma header_at:
  assumes "buf = pre @ bytes16 t @ bytes16 (word_of_nat n) @ rest" "n < 2 ^ 16"
  shows "be16 (buf ! length pre) (buf ! (length pre + 1)) = t"
    "unat (be16 (buf ! (length pre + 2)) (buf ! (length pre + 3))) = n"
proof -
  have "buf ! length pre = bytes16 t ! 0" "buf ! (length pre + 1) = bytes16 t ! 1"
    "buf ! (length pre + 2) = bytes16 (word_of_nat n) ! 0" "buf ! (length pre + 3) = bytes16 (word_of_nat n) ! 1"
    unfolding assms(1) by (simp_all add: nth_append)
  then show "be16 (buf ! length pre) (buf ! (length pre + 1)) = t" "unat (be16 (buf ! (length pre + 2)) (buf ! (length pre + 3))) = n"
    using assms(2) by (simp_all only: be16_bytes) (simp add: unat_of_nat take_bit_eq_mod)
qed

lemma scan_skips:
  assumes "buf = pre @ stun_attribute a @ rest" "no_address a"
  shows "stun_scan buf (length pre) = stun_scan buf (length pre + length (stun_attribute a))"
proof -
  obtain t v where a: "a = (t, v)" by fastforce
  have buf: "buf = pre @ bytes16 t @ bytes16 (word_of_nat (length v)) @ (v @ replicate (round_up4 (length v) - length v) 0 @ rest)"
    using assms(1) by (simp add: a stun_attribute_def)
  have "length v < 2 ^ 16" using assms(2) by (simp add: a no_address_def)
  note hd = header_at [OF buf this]
  have "length pre + 4 \<le> length buf" unfolding buf by simp
  moreover have "length pre + length (stun_attribute a) = length pre + 4 + round_up4 (length v)"
    using stun_attribute_length [of a] by (simp add: a)
  ultimately show ?thesis using assms(2) hd
    by (subst stun_scan.simps) (auto simp: Let_def a no_address_def add.assoc)
qed

lemma scan_skips_all:
  "buf = pre @ concat (map stun_attribute as) @ rest \<Longrightarrow> list_all no_address as \<Longrightarrow>
     stun_scan buf (length pre) = stun_scan buf (length pre + length (concat (map stun_attribute as)))"
proof (induction as arbitrary: pre)
  case (Cons a as)
  from scan_skips [of buf pre a "concat (map stun_attribute as) @ rest"] Cons.prems
  have "stun_scan buf (length pre) = stun_scan buf (length (pre @ stun_attribute a))" by simp
  also have "\<dots> = stun_scan buf (length (pre @ stun_attribute a) + length (concat (map stun_attribute as)))"
    using Cons.prems by (intro Cons.IH) auto
  finally show ?case by (simp add: add.assoc)
qed simp

lemma scan_mapped:
  assumes "buf = pre @ stun_attribute (0x0020, mapped_value f port ip extra) @ rest" "length extra < 65528"
  shows "stun_scan buf (length pre) = Some (Stun_Addr (ip XOR 0x2112A442) (port XOR 0x2112))"
proof -
  let ?v = "mapped_value f port ip extra"
  have buf: "buf = pre @ bytes16 0x0020 @ bytes16 (word_of_nat (length ?v)) @ (?v @ replicate (round_up4 (length ?v) - length ?v) 0 @ rest)"
    using assms(1) by (simp add: stun_attribute_def)
  have len: "length ?v = 8 + length extra" by (simp add: mapped_value_def)
  then have "length ?v < 2 ^ 16" using assms(2) by simp
  note hd = header_at [OF buf this]
  have "length pre + 4 + 7 < length buf" unfolding buf using len by simp
  moreover have "buf ! (length pre + 4 + 2) = bytes16 port ! 0" "buf ! (length pre + 4 + 3) = bytes16 port ! 1"
    "buf ! (length pre + 4 + 4) = bytes32 ip ! 0" "buf ! (length pre + 4 + 5) = bytes32 ip ! 1"
    "buf ! (length pre + 4 + 6) = bytes32 ip ! 2" "buf ! (length pre + 4 + 7) = bytes32 ip ! 3"
    unfolding buf by (simp_all add: nth_append mapped_value_def)
  ultimately show ?thesis using hd len
    by (subst stun_scan.simps) (simp add: Let_def be16_bytes [simplified] be32_bytes [simplified])
qed

lemma scan_truncated:
  assumes "buf = pre @ bytes16 t @ bytes16 (word_of_nat n) @ chopped" "t = 0x0020 \<or> t = 0x0001" "8 \<le> n" "n < 2 ^ 16" "length chopped < 8"
  shows "stun_scan buf (length pre) = Some Stun_Panic"
proof -
  note hd = header_at [OF assms(1,4)]
  have "length pre + 4 \<le> length buf" "\<not> length pre + 4 + 7 < length buf" using assms(5) unfolding assms(1) by simp_all
  then show ?thesis using hd assms(2,3) by (subst stun_scan.simps) (auto simp: Let_def)
qed

section \<open>Keys and tunnels\<close>

record wg_lib =
  wl_b64 :: "string \<Rightarrow> string"
  wl_unb64 :: "string \<Rightarrow> string option"
  wl_public :: "string \<Rightarrow> string"

record wg_keypair =
  wk_secret :: string
  wk_public :: string

definition wg_generate :: "wg_lib \<Rightarrow> string \<Rightarrow> wg_keypair" where
  "wg_generate lib random = \<lparr>wk_secret = random, wk_public = wl_public lib random\<rparr>"

definition public_key_b64 :: "wg_lib \<Rightarrow> wg_keypair \<Rightarrow> string" where
  "public_key_b64 lib kp = wl_b64 lib (wk_public kp)"

definition private_key_b64 :: "wg_lib \<Rightarrow> wg_keypair \<Rightarrow> string" where
  "private_key_b64 lib kp = wl_b64 lib (wk_secret kp)"

definition parse_wg_pubkey :: "wg_lib \<Rightarrow> string \<Rightarrow> string + string" where
  "parse_wg_pubkey lib b64 = (case wl_unb64 lib b64 of
     None \<Rightarrow> Inl ''Invalid base64'' | Some b \<Rightarrow> if length b \<noteq> 32 then Inl ''WireGuard public key must be 32 bytes'' else Inr b)"

record tunnel_config =
  tc_iface :: string
  tc_local_ip :: string
  tc_peer_ip :: string
  tc_listen_port :: int
  tc_local_keypair :: wg_keypair
  tc_peer_pubkey_b64 :: string
  tc_peer_endpoint :: "string option"

definition newline :: string where
  "newline = [CHR 0x0A]"

definition wg_conf :: "wg_lib \<Rightarrow> tunnel_config \<Rightarrow> string" where
  "wg_conf lib cfg =
     ''[Interface]'' @ newline @ ''PrivateKey = '' @ private_key_b64 lib (tc_local_keypair cfg) @ newline @
     ''ListenPort = '' @ int_str (tc_listen_port cfg) @ newline @ newline @
     ''[Peer]'' @ newline @ ''PublicKey = '' @ tc_peer_pubkey_b64 cfg @ newline @ ''AllowedIPs = '' @ tc_peer_ip cfg @ ''/32'' @ newline @
     (case tc_peer_endpoint cfg of Some ep \<Rightarrow> ''Endpoint = '' @ ep | None \<Rightarrow> []) @ newline"

definition conf_path_of :: "tunnel_config \<Rightarrow> string" where
  "conf_path_of cfg = ''/tmp/neuralmesh/wg-'' @ tc_iface cfg @ ''.conf''"

text \<open>The exit codes of the fallback's commands are not looked at.\<close>

definition manual_setup :: "agent_env \<Rightarrow> tunnel_config \<Rightarrow> string \<Rightarrow> unit agent_prog" where
  "manual_setup env cfg conf_path =
     seqE (status_of env (command_of ''sudo'' [''wireguard-go'', tc_iface cfg]) ''wireguard-go'')
     (seqE (status_of env (command_of ''sudo'' [''wg'', ''setconf'', tc_iface cfg, conf_path]) ''wg setconf'')
     (seqE (status_of env (command_of ''sudo'' [''ifconfig'', tc_iface cfg, ''inet'', tc_local_ip cfg @ ''/30'', tc_peer_ip cfg, ''up'']) ''ifconfig'')
     (retE ())))"

text \<open>A tunnel is its interface.\<close>

definition bring_up :: "wg_lib \<Rightarrow> agent_env \<Rightarrow> tunnel_config \<Rightarrow> string agent_prog" where
  "bring_up lib env cfg =
     seqE (map_errE (\<lambda>_. ''Writing WireGuard config'') (write_file env (conf_path_of cfg) (wg_conf lib cfg)))
     (bindE (run_command env (command_of ''wg-quick'' [''up'', conf_path_of cfg])) (\<lambda>r.
      seqE (if r = Some (Some 0) then retE () else manual_setup env cfg (conf_path_of cfg))
      (bindE (okE (remove_file env (conf_path_of cfg))) (\<lambda>_. retE (tc_iface cfg)))))"

definition tear_down :: "agent_env \<Rightarrow> string \<Rightarrow> unit agent_prog" where
  "tear_down env iface =
     bindE (run_command env (command_of ''wg-quick'' [''down'', iface])) (\<lambda>_.
     bindE (run_command env (command_of ''sudo'' [''kill'', ''$(cat /var/run/wireguard/'' @ iface @ ''.name)''])) (\<lambda>_. retE ()))"

definition allocate_tunnel_ips :: "8 word \<Rightarrow> string \<times> string" where
  "allocate_tunnel_ips slot = (''10.77.'' @ int_str (uint slot) @ ''.1'', ''10.77.'' @ int_str (uint slot) @ ''.2'')"

text \<open>\<open>s.chars().take(n)\<close> on the bytes of a text: a character is a byte and the continuation bytes after it.\<close>

fun take_chars :: "nat \<Rightarrow> string \<Rightarrow> string" where
  "take_chars (Suc n) (c # cs) = c # takeWhile is_cont_byte cs @ take_chars n (dropWhile is_cont_byte cs)"
| "take_chars _ _ = []"

definition iface_name :: "string \<Rightarrow> string" where
  "iface_name job_id = ''nm-'' @ take_chars 8 job_id"

section \<open>The tunnel of a job\<close>

record job_tunnel =
  jt_tunnel :: string
  jt_local_ip :: string
  jt_peer_ip :: string
  jt_public_endpoint :: "string option"
  jt_our_pubkey_b64 :: string

datatype tunnel_error = Tunnel_Error string | Tunnel_Panic

definition dotted :: "32 word \<Rightarrow> string" where
  "dotted ip = (let b = (\<lambda>k. int_str (uint ip div 256 ^ k mod 256)) in b 3 @ ''.'' @ b 2 @ ''.'' @ b 1 @ ''.'' @ b 0)"

definition socket_addr :: "32 word \<Rightarrow> 16 word \<Rightarrow> string" where
  "socket_addr ip port = dotted ip @ '':'' @ int_str (uint port)"

definition public_endpoint :: "stun_result option \<Rightarrow> (host, tunnel_error, string option) prog" where
  "public_endpoint r = (case r of
     Some (Stun_Addr ip port) \<Rightarrow> retE (Some (socket_addr ip port)) | Some (Stun_Error e) \<Rightarrow> retE None | _ \<Rightarrow> failE Tunnel_Panic)"

definition job_tunnel_setup ::
  "wg_lib \<Rightarrow> agent_env \<Rightarrow> string option \<Rightarrow> (string \<Rightarrow> string + 8 word list) \<Rightarrow> string \<Rightarrow> string \<Rightarrow> 8 word \<Rightarrow> int \<Rightarrow> string \<Rightarrow> string option \<Rightarrow>
     (host, tunnel_error, job_tunnel) prog" where
  "job_tunnel_setup lib env bind_error net random job_id slot listen_port consumer_key consumer_endpoint =
     (let kp = wg_generate lib random; (local_ip, peer_ip) = allocate_tunnel_ips slot; iface = iface_name job_id
      in bindE (public_endpoint (discover_public_endpoint bind_error net)) (\<lambda>ep.
         bindE (map_errE Tunnel_Error (bring_up lib env \<lparr>tc_iface = iface, tc_local_ip = local_ip, tc_peer_ip = peer_ip,
             tc_listen_port = listen_port, tc_local_keypair = kp, tc_peer_pubkey_b64 = consumer_key, tc_peer_endpoint = consumer_endpoint\<rparr>)) (\<lambda>tunnel.
         retE \<lparr>jt_tunnel = tunnel, jt_local_ip = local_ip, jt_peer_ip = peer_ip, jt_public_endpoint = ep,
           jt_our_pubkey_b64 = public_key_b64 lib kp\<rparr>)))"

definition endpoint_for_consumer :: "job_tunnel \<Rightarrow> int \<Rightarrow> string" where
  "endpoint_for_consumer t port = (case jt_public_endpoint t of Some ep \<Rightarrow> ep | None \<Rightarrow> jt_local_ip t @ '':'' @ int_str port)"

text \<open>Commands that leave a path as it is.\<close>

definition leaves :: "agent_env \<Rightarrow> string \<Rightarrow> bool" where
  "leaves env p \<longleftrightarrow> (\<forall>c fs. snd (ae_exec env c fs) p = fs p)"

lemma leaves_status:
  "leaves env p \<Longrightarrow> ho_files (snd (run_command env c s)) p = ho_files s p"
  "leaves env p \<Longrightarrow> ho_files (snd (status_of env c m s)) p = ho_files s p"
proof -
  assume l: "leaves env p"
  show run: "ho_files (snd (run_command env c s)) p = ho_files s p"
    using l by (simp add: run_command_def leaves_def split: prod.split) (metis snd_conv)
  then show "ho_files (snd (status_of env c m s)) p = ho_files s p"
    by (auto simp: status_of_def prog_simps run_command_def split: prod.splits option.splits)
qed

lemma leaves_manual: "leaves env p \<Longrightarrow> keeps (\<lambda>s. ho_files s p = v) (manual_setup env cfg q)"
  unfolding manual_setup_def by (intro keeps_seqE keeps_retE; simp add: keeps_def leaves_status)

lemma status_of_spawned:
  assumes "\<forall>c fs. fst (ae_exec env c fs) \<noteq> None"
  shows "\<exists>k t. status_of env c msg s = (Inr k, t)"
proof -
  obtain k fs where "ae_exec env c (ho_files s) = (Some k, fs)" using assms by (metis not_None_eq prod.collapse)
  then show ?thesis by (simp add: status_of_def prog_simps run_command_def)
qed

lemma manual_setup_spawned:
  assumes "\<forall>c fs. fst (ae_exec env c fs) \<noteq> None"
  shows "\<exists>t. manual_setup env cfg p s = (Inr (), t)"
proof -
  note ok = status_of_spawned [OF assms]
  obtain k1 t1 where 1: "status_of env (command_of ''sudo'' [''wireguard-go'', tc_iface cfg]) ''wireguard-go'' s = (Inr k1, t1)"
    using ok by blast
  obtain k2 t2 where 2: "status_of env (command_of ''sudo'' [''wg'', ''setconf'', tc_iface cfg, p]) ''wg setconf'' t1 = (Inr k2, t2)"
    using ok by blast
  obtain k3 t3 where "status_of env (command_of ''sudo'' [''ifconfig'', tc_iface cfg, ''inet'', tc_local_ip cfg @ ''/30'', tc_peer_ip cfg, ''up''])
      ''ifconfig'' t2 = (Inr k3, t3)" using ok by blast
  with 1 2 have "manual_setup env cfg p s = (Inr (), t3)" by (simp add: manual_setup_def seqE_run retE_run)
  then show ?thesis by blast
qed

section \<open>Properties\<close>

text \<open>C24: A response is read back. Whatever twenty bytes it starts with and whatever other attributes come first, the parser gives the address
  and port that the server put, masked with the magic cookie, into the mapped-address attribute. The family byte and what
  follows in the value are ignored, so the first four bytes of an IPv6 address are taken for an IPv4 address.\<close>

theorem stun_roundtrip:
  assumes "length header = 20" "list_all no_address as" "length extra < 65528"
  shows "parse_stun_response (header @ concat (map stun_attribute as) @
      stun_attribute (0x0020, mapped_value family (port XOR 0x2112) (ip XOR 0x2112A442) extra) @ rest) = Some (Stun_Addr ip port)"
proof -
  let ?m = "stun_attribute (0x0020, mapped_value family (port XOR 0x2112) (ip XOR 0x2112A442) extra)"
  let ?buf = "header @ concat (map stun_attribute as) @ ?m @ rest"
  have "stun_scan ?buf (length header) = stun_scan ?buf (length (header @ concat (map stun_attribute as)))"
    using scan_skips_all [OF refl assms(2), of header "?m @ rest"] by simp
  also have "\<dots> = Some (Stun_Addr ip port)"
    using scan_mapped [of ?buf "header @ concat (map stun_attribute as)" family "port XOR 0x2112" "ip XOR 0x2112A442" extra rest] assms(3)
    by (simp add: xor.assoc)
  finally show ?thesis using assms(1) by (simp add: parse_stun_response_def)
qed

text \<open>C25: The parser always ends, and a truncated response makes it panic. The scan of any packet of any length gives an answer; but when an
  address attribute announces its eight bytes and the packet ends before them, the bytes are indexed past the end.\<close>

theorem stun_scan_total:
  "(\<exists>r. parse_stun_response buf = Some r) \<and>
   (\<forall>header as t n chopped. length header = 20 \<and> list_all no_address as \<and> t \<in> {0x0020, 0x0001} \<and> 8 \<le> n \<and> n < 2 ^ 16 \<and> length chopped < 8 \<longrightarrow>
      parse_stun_response (header @ concat (map stun_attribute as) @ bytes16 t @ bytes16 (word_of_nat n) @ chopped) = Some Stun_Panic)"
proof (intro conjI allI impI, goal_cases)
  case 1
  show ?case using stun_scan_ends [of buf 20] by (auto simp: parse_stun_response_def)
next
  case (2 header as t n chopped)
  let ?tail = "bytes16 t @ bytes16 (word_of_nat n) @ chopped"
  let ?buf = "header @ concat (map stun_attribute as) @ ?tail"
  have "stun_scan ?buf (length header) = stun_scan ?buf (length (header @ concat (map stun_attribute as)))"
    using scan_skips_all [OF refl, of as header ?tail] 2 by simp
  also have "\<dots> = Some Stun_Panic"
    using scan_truncated [of ?buf "header @ concat (map stun_attribute as)" t n chopped] 2 by auto
  finally show ?case using 2 by (simp add: parse_stun_response_def)
qed

text \<open>The private key is left on disk when the tunnel fails. After the tunnel is up its configuration file is gone; but when the commands of
  the fallback cannot be started, the error leaves the function before the file is removed, and the file with the private key stays.
  The exit codes of the fallback play no part: as soon as its commands can be started, the tunnel is reported up.\<close>

theorem tunnel_key_file:
  assumes "\<forall>op fs. ae_io_error env op (conf_path_of cfg) fs = None" "leaves env (conf_path_of cfg)"
    and "bring_up lib env cfg s = (r, s')"
  shows "ho_files s' (conf_path_of cfg) = (case r of Inr _ \<Rightarrow> None | Inl _ \<Rightarrow> Some (E_File (wg_conf lib cfg))) \<and>
    ((\<forall>c fs. fst (ae_exec env c fs) \<noteq> None) \<longrightarrow> r = Inr (tc_iface cfg))"
proof -
  let ?p = "conf_path_of cfg" and ?up = "command_of ''wg-quick'' [''up'', conf_path_of cfg]"
  let ?s1 = "s\<lparr>ho_files := (ho_files s)(?p \<mapsto> E_File (wg_conf lib cfg))\<rparr>"
  obtain rr s2 where run0: "run_command env ?up ?s1 = (rr, s2)" by fastforce
  then obtain q where "rr = Inr q" by (auto simp: run_command_def split: prod.splits)
  with run0 have run: "run_command env ?up ?s1 = (Inr q, s2)" by simp
  obtain m s3 where fb: "(if q = Some (Some 0) then retE () else manual_setup env cfg ?p) s2 = (m, s3)" by fastforce
  have "ho_files s2 ?p = Some (E_File (wg_conf lib cfg))" using leaves_status(1) [OF assms(2), of ?up ?s1] run by simp
  moreover have "keeps (\<lambda>s. ho_files s ?p = v) (if q = Some (Some 0) then retE () else manual_setup env cfg ?p)" for v
    by (intro keeps_if keeps_retE leaves_manual assms(2))
  ultimately have s3: "ho_files s3 ?p = Some (E_File (wg_conf lib cfg))" using fb unfolding keeps_def by (metis snd_conv)
  have res: "bring_up lib env cfg s = (case m of Inl e \<Rightarrow> (Inl e, s3) | Inr u \<Rightarrow> (Inr (tc_iface cfg), s3\<lparr>ho_files := (ho_files s3)(?p := None)\<rparr>))"
    using assms(1) run fb
    by (simp add: bring_up_def prog_simps write_file_def remove_file_def file_op_def split: sum.split)
  have "\<exists>u. m = Inr u" if "\<forall>c fs. fst (ae_exec env c fs) \<noteq> None"
    using manual_setup_spawned [OF that, of cfg ?p s2] fb by (cases "q = Some (Some 0)") (auto simp: retE_def)
  then show ?thesis using assms(3) s3 res by (cases m) auto
qed

theorem tunnel_key_file_witness:
  "let env = (demo_machine ''job'')\<lparr>ae_exec := (\<lambda>c fs. (if cm_program c = ''sudo'' then None else Some (Some 1), fs))\<rparr>;
       cfg = \<lparr>tc_iface = ''nm-0'', tc_local_ip = ''10.77.0.1'', tc_peer_ip = ''10.77.0.2'', tc_listen_port = 51820,
         tc_local_keypair = \<lparr>wk_secret = ''sec'', wk_public = ''pub''\<rparr>, tc_peer_pubkey_b64 = ''peer'', tc_peer_endpoint = None\<rparr>;
       lib = \<lparr>wl_b64 = (\<lambda>b. b), wl_unb64 = Some, wl_public = (\<lambda>b. b)\<rparr>
   in ho_files (snd (bring_up lib env cfg demo_host)) (conf_path_of cfg) = Some (E_File (wg_conf lib cfg))"
proof -
  let ?env = "(demo_machine ''job'')\<lparr>ae_exec := (\<lambda>c fs. (if cm_program c = ''sudo'' then None else Some (Some 1), fs))\<rparr>"
  let ?cfg = "\<lparr>tc_iface = ''nm-0'', tc_local_ip = ''10.77.0.1'', tc_peer_ip = ''10.77.0.2'', tc_listen_port = 51820,
     tc_local_keypair = \<lparr>wk_secret = ''sec'', wk_public = ''pub''\<rparr>, tc_peer_pubkey_b64 = ''peer'', tc_peer_endpoint = None\<rparr>"
  let ?lib = "\<lparr>wl_b64 = (\<lambda>b. b), wl_unb64 = Some, wl_public = (\<lambda>b. b)\<rparr>"
  have conf: "conf_path_of ?cfg = ''/tmp/neuralmesh/wg-nm-0.conf''" by (simp add: conf_path_of_def)
  have "\<forall>op fs. ae_io_error ?env op (conf_path_of ?cfg) fs = None" unfolding conf
    by (simp add: demo_machine_def log_of_def work_dir_of_def path_join_def starts_with_def)
  moreover have "leaves ?env (conf_path_of ?cfg)" by (simp add: leaves_def)
  moreover obtain e s' where "bring_up ?lib ?env ?cfg demo_host = (Inl e, s')"
    unfolding bring_up_def conf
    by (simp add: prog_simps write_file_def file_op_def run_command_def command_of_def manual_setup_def status_of_def
      demo_machine_def log_of_def work_dir_of_def path_join_def starts_with_def)
  ultimately show ?thesis using tunnel_key_file [of ?env ?cfg ?lib demo_host] by (simp add: Let_def)
qed

theorem stun_roundtrip_witness:
  "parse_stun_response (replicate 20 0 @ stun_attribute (0x8022, [1, 2, 3]) @
     stun_attribute (0x0020, mapped_value 1 (51820 XOR 0x2112) (0xC0A80001 XOR 0x2112A442) [])) = Some (Stun_Addr 0xC0A80001 51820)"
  using stun_roundtrip [where header = "replicate 20 0" and as = "[(0x8022, [1, 2, 3])]" and extra = "[]" and family = 1 and port = 51820
      and ip = "0xC0A80001" and rest = "[]"] by (simp add: no_address_def)

theorem stun_scan_total_witness:
  "parse_stun_response (replicate 20 0 @ [0, 0x20, 0, 8, 0, 1]) = Some Stun_Panic"
proof -
  have "bytes16 0x0020 = [0, 0x20]" "bytes16 (word_of_nat 8) = [0, 8]" by (simp_all add: bytes16_def)
  then show ?thesis
    using stun_scan_total [THEN conjunct2, rule_format, where header = "replicate 20 0" and as = "[]" and t = "0x0020" and n = 8
        and chopped = "[0, 1]"] by simp
qed

end
