(* ===== verification/Solana_Program.thy ===== *)
theory Solana_Program
  imports NM_Prelude "HOL-Library.Word"
begin

text \<open>
  The Solana program of \<open>contracts/solana/programs/neuralmesh/src\<close>: its accounts (\<open>state.rs\<close>), its errors
  (\<open>errors.rs\<close>) and its instructions (\<open>lib.rs\<close>), each with the account constraints that Anchor checks before
  the handler. Integers keep their width; an instruction that fails changes nothing.

  The runtime, the token program and the metadata program are parameters (\<open>sol_env\<close>). Where several
  constraints fail, the error the model reports may be another of them than Anchor's; rent, account sizes
  and compute limits are not modelled.
\<close>

section \<open>Accounts of the program\<close>

text \<open>A public key, a seed and a byte array are byte strings.\<close>

type_synonym pubkey = string

datatype nm_error =
    Unauthorized | SoulBound | MintLimitExceeded | InsufficientBalance | AlreadyRegistered | InvalidCommitment
  | ProviderRevoked | VendorTooLong | ModelTooLong | EscrowNotOpen | EscrowNotLocked | DeadlineNotReached
  | CostExceedsLocked | FeeTooHigh | JobIdTooLong

record program_config =
  cfg_authority :: pubkey
  cfg_nmc_mint :: pubkey
  cfg_platform_fee_bps :: "16 word"
  cfg_fee_collector :: pubkey
  cfg_bridge_mint_limit :: "64 word"
  cfg_total_minted :: "64 word"
  cfg_total_burned :: "64 word"
  cfg_bump :: "8 word"

record provider_record =
  pr_provider :: pubkey
  pr_nft_mint :: pubkey
  pr_gpu_vendor :: string
  pr_gpu_model :: string
  pr_memory_gb :: "16 word"
  pr_gpu_cores :: "32 word"
  pr_attestation_commitment :: string
  pr_ed25519_pubkey :: string
  pr_dil3_pubkey_hash :: string
  pr_jobs_completed :: "64 word"
  pr_nmc_earned :: "64 word"
  pr_trust_score_milli :: "16 word"
  pr_registered_at :: "64 word"
  pr_revoked :: bool
  pr_bump :: "8 word"

datatype escrow_state = Es_Open | Es_Locked | Es_Settled | Es_Cancelled

record job_escrow =
  je_job_id :: string
  je_job_id_len :: "8 word"
  je_consumer :: pubkey
  je_provider :: pubkey
  je_locked_nmc :: "64 word"
  je_price_per_hour :: "64 word"
  je_max_duration_secs :: "32 word"
  je_deadline :: "64 word"
  je_state :: escrow_state
  je_actual_cost :: "64 word"
  je_consumer_token_account :: pubkey
  je_provider_token_account :: pubkey
  je_vault :: pubkey
  je_fee_collected :: "64 word"
  je_created_at :: "64 word"
  je_settled_at :: "64 word"
  je_bump :: "8 word"

record bridge_nonce =
  bn_authority :: pubkey
  bn_next_nonce :: "64 word"
  bn_bump :: "8 word"

text \<open>An account of the program, with the discriminator that tells its type.\<close>

datatype program_account =
    A_Config program_config
  | A_Provider provider_record
  | A_Escrow job_escrow
  | A_Nonce bridge_nonce

text \<open>The fresh contents of an account that Anchor creates: all bytes zero.\<close>

definition zeros :: "nat \<Rightarrow> string" where
  "zeros n = replicate n (CHR 0x00)"

definition new_config :: program_config where
  "new_config = \<lparr>cfg_authority = zeros 32, cfg_nmc_mint = zeros 32, cfg_platform_fee_bps = 0, cfg_fee_collector = zeros 32,
     cfg_bridge_mint_limit = 0, cfg_total_minted = 0, cfg_total_burned = 0, cfg_bump = 0\<rparr>"

definition new_provider_record :: provider_record where
  "new_provider_record = \<lparr>pr_provider = zeros 32, pr_nft_mint = zeros 32, pr_gpu_vendor = zeros 32, pr_gpu_model = zeros 64,
     pr_memory_gb = 0, pr_gpu_cores = 0, pr_attestation_commitment = zeros 32, pr_ed25519_pubkey = zeros 64,
     pr_dil3_pubkey_hash = zeros 32, pr_jobs_completed = 0, pr_nmc_earned = 0, pr_trust_score_milli = 0, pr_registered_at = 0,
     pr_revoked = False, pr_bump = 0\<rparr>"

definition new_escrow :: job_escrow where
  "new_escrow = \<lparr>je_job_id = zeros 64, je_job_id_len = 0, je_consumer = zeros 32, je_provider = zeros 32, je_locked_nmc = 0,
     je_price_per_hour = 0, je_max_duration_secs = 0, je_deadline = 0, je_state = Es_Open, je_actual_cost = 0,
     je_consumer_token_account = zeros 32, je_provider_token_account = zeros 32, je_vault = zeros 32, je_fee_collected = 0,
     je_created_at = 0, je_settled_at = 0, je_bump = 0\<rparr>"

section \<open>The chain and the programs the contract calls\<close>

text \<open>What the SPL token accounts and mints show to a program that reads them.\<close>

record token_account =
  ta_mint :: pubkey
  ta_owner :: pubkey
  ta_amount :: "64 word"
  ta_delegate :: "pubkey option"
  ta_frozen :: bool

record token_bank =
  tb_accounts :: "pubkey \<Rightarrow> token_account option"
  tb_mints :: "pubkey \<Rightarrow> bool"

record sol_chain =
  sc_accounts :: "pubkey \<Rightarrow> program_account option"
  sc_bank :: token_bank

text \<open>The runtime and the programs called are parameters: the derivation of program addresses, the
  instructions of the token program (from, to, authority, amount), the creation of token accounts and the
  calls to the metadata program.\<close>

record sol_env =
  find_pda :: "string list \<Rightarrow> (pubkey \<times> 8 word) option"
  create_pda :: "string list \<Rightarrow> 8 word \<Rightarrow> pubkey option"
  ata_address :: "pubkey \<Rightarrow> pubkey \<Rightarrow> pubkey"
  tok_init :: "pubkey \<Rightarrow> pubkey \<Rightarrow> pubkey \<Rightarrow> token_bank \<Rightarrow> token_bank option"
  tok_transfer :: "pubkey \<Rightarrow> pubkey \<Rightarrow> pubkey \<Rightarrow> 64 word \<Rightarrow> token_bank \<Rightarrow> token_bank option"
  tok_mint_to :: "pubkey \<Rightarrow> pubkey \<Rightarrow> pubkey \<Rightarrow> 64 word \<Rightarrow> token_bank \<Rightarrow> token_bank option"
  tok_burn :: "pubkey \<Rightarrow> pubkey \<Rightarrow> pubkey \<Rightarrow> 64 word \<Rightarrow> token_bank \<Rightarrow> token_bank option"
  meta_create :: "pubkey \<Rightarrow> pubkey \<Rightarrow> string \<Rightarrow> string \<Rightarrow> token_bank \<Rightarrow> token_bank option"
  meta_edition :: "pubkey \<Rightarrow> pubkey \<Rightarrow> token_bank \<Rightarrow> token_bank option"
  meta_freeze :: "pubkey \<Rightarrow> pubkey \<Rightarrow> pubkey \<Rightarrow> token_bank \<Rightarrow> token_bank option"

text \<open>Who signed the transaction, and the clock of the cluster.\<close>

record sol_tx =
  tx_signers :: "pubkey list"
  tx_now :: "64 word"

datatype sol_error =
    Nm nm_error
  | Account_Missing | Account_In_Use | Seeds_Invalid | Address_Mismatch | Token_Mismatch | Signer_Missing
  | Cpi_Failed | Panicked

datatype sol_event =
    BridgeMintEvent pubkey "64 word" "64 word"
  | BridgeBurnEvent pubkey "64 word"
  | ProviderRegisteredEvent pubkey pubkey string string string
  | ProviderRevokedEvent pubkey pubkey
  | EscrowCreatedEvent string pubkey pubkey "64 word"
  | EscrowSettledEvent pubkey pubkey "64 word" "64 word" "64 word"

type_synonym 'a sol_prog = "(sol_chain, sol_error, 'a) prog"

section \<open>Account constraints\<close>

text \<open>What Anchor checks before the handler runs; each check that fails rejects the instruction.\<close>

definition require :: "bool \<Rightarrow> sol_error \<Rightarrow> unit sol_prog" where
  "require b e = (if b then retE () else failE e)"

definition signed :: "sol_tx \<Rightarrow> pubkey \<Rightarrow> unit sol_prog" where
  "signed tx k = require (k \<in> set (tx_signers tx)) Signer_Missing"

definition config_seeds :: "string list" where
  "config_seeds = [''config'']"

definition escrow_seeds :: "job_escrow \<Rightarrow> string list" where
  "escrow_seeds esc = [''escrow'', take (unat (je_job_id_len esc)) (je_job_id esc)]"

definition at_pda :: "sol_env \<Rightarrow> string list \<Rightarrow> 8 word \<Rightarrow> pubkey \<Rightarrow> unit sol_prog" where
  "at_pda env seeds bump k = require (create_pda env seeds bump = Some k) Seeds_Invalid"

definition load_config :: "sol_env \<Rightarrow> pubkey \<Rightarrow> program_config sol_prog" where
  "load_config env k = (\<lambda>s. case sc_accounts s k of
     Some (A_Config c) \<Rightarrow> seqE (at_pda env config_seeds (cfg_bump c) k) (retE c) s | _ \<Rightarrow> failE Account_Missing s)"

definition load_escrow :: "sol_env \<Rightarrow> pubkey \<Rightarrow> job_escrow sol_prog" where
  "load_escrow env k = (\<lambda>s. case sc_accounts s k of
     Some (A_Escrow e) \<Rightarrow> seqE (at_pda env (escrow_seeds e) (je_bump e) k) (retE e) s | _ \<Rightarrow> failE Account_Missing s)"

definition load_provider :: "pubkey \<Rightarrow> provider_record sol_prog" where
  "load_provider k = (\<lambda>s. case sc_accounts s k of Some (A_Provider r) \<Rightarrow> retE r s | _ \<Rightarrow> failE Account_Missing s)"

definition load_nonce :: "sol_env \<Rightarrow> pubkey \<Rightarrow> pubkey \<Rightarrow> bridge_nonce sol_prog" where
  "load_nonce env authority k = (\<lambda>s. case sc_accounts s k of
     Some (A_Nonce n) \<Rightarrow>
       seqE (at_pda env [''bridge_nonce'', authority] (bn_bump n) k)
       (seqE (require (bn_authority n = authority) (Nm Unauthorized)) (retE n)) s
   | _ \<Rightarrow> failE Account_Missing s)"

definition load_token :: "pubkey \<Rightarrow> token_account sol_prog" where
  "load_token k = (\<lambda>s. case tb_accounts (sc_bank s) k of Some t \<Rightarrow> retE t s | None \<Rightarrow> failE Account_Missing s)"

definition load_mint :: "pubkey \<Rightarrow> unit sol_prog" where
  "load_mint k = (\<lambda>s. require (tb_mints (sc_bank s) k) Account_Missing s)"

text \<open>\<open>init\<close>: the address must be the derived one and unused; the bump found is returned.\<close>

definition init_pda :: "sol_env \<Rightarrow> string list \<Rightarrow> pubkey \<Rightarrow> program_account \<Rightarrow> (8 word) sol_prog" where
  "init_pda env seeds k fresh = (\<lambda>s. case find_pda env seeds of
     Some (k', bump) \<Rightarrow>
       (if k' \<noteq> k then failE Seeds_Invalid s
        else if sc_accounts s k \<noteq> None then failE Account_In_Use s
        else (Inr bump, s\<lparr>sc_accounts := (sc_accounts s)(k \<mapsto> fresh)\<rparr>))
   | None \<Rightarrow> failE Seeds_Invalid s)"

definition put_account :: "pubkey \<Rightarrow> program_account \<Rightarrow> unit sol_prog" where
  "put_account k a = (\<lambda>s. (Inr (), s\<lparr>sc_accounts := (sc_accounts s)(k \<mapsto> a)\<rparr>))"

text \<open>A call to another program; and one that an address of this program signs with its seeds.\<close>

definition cpi :: "(token_bank \<Rightarrow> token_bank option) \<Rightarrow> unit sol_prog" where
  "cpi f = (\<lambda>s. case f (sc_bank s) of Some b \<Rightarrow> (Inr (), s\<lparr>sc_bank := b\<rparr>) | None \<Rightarrow> failE Cpi_Failed s)"

definition cpi_signed ::
  "sol_env \<Rightarrow> string list \<Rightarrow> 8 word \<Rightarrow> pubkey \<Rightarrow> (token_bank \<Rightarrow> token_bank option) \<Rightarrow> unit sol_prog" where
  "cpi_signed env seeds bump authority f = seqE (at_pda env seeds bump authority) (cpi f)"

definition checked_add64 :: "64 word \<Rightarrow> 64 word \<Rightarrow> (64 word) sol_prog" where
  "checked_add64 a b = (if unat a + unat b < 2 ^ 64 then retE (a + b) else failE Panicked)"

definition checked_sub64 :: "64 word \<Rightarrow> 64 word \<Rightarrow> (64 word) sol_prog" where
  "checked_sub64 a b = (if b \<le> a then retE (a - b) else failE Panicked)"

definition checked_mul64 :: "64 word \<Rightarrow> 64 word \<Rightarrow> (64 word) sol_prog" where
  "checked_mul64 a b = (if unat a * unat b < 2 ^ 64 then retE (a * b) else failE Panicked)"

text \<open>\<open>copy_from_slice\<close> into a zeroed array.\<close>

definition byte_array :: "nat \<Rightarrow> string \<Rightarrow> string" where
  "byte_array n s = s @ zeros (n - length s)"


section \<open>Instructions\<close>

definition max_fee_bps :: "16 word" where
  "max_fee_bps = 1000"

text \<open>Each instruction names the accounts it is given, in the order of its accounts struct.\<close>

record initialize_accounts =
  ia_config :: pubkey
  ia_authority :: pubkey
  ia_nmc_mint :: pubkey
  ia_fee_collector :: pubkey

definition sol_initialize :: "sol_env \<Rightarrow> sol_tx \<Rightarrow> initialize_accounts \<Rightarrow> 16 word \<Rightarrow> 64 word \<Rightarrow> (sol_event list) sol_prog" where
  "sol_initialize env tx a platform_fee_bps bridge_mint_limit =
     bindE (init_pda env config_seeds (ia_config a) (A_Config new_config)) (\<lambda>bump.
     seqE (signed tx (ia_authority a))
     (seqE (load_mint (ia_nmc_mint a))
     (seqE (require (platform_fee_bps \<le> max_fee_bps) (Nm FeeTooHigh))
     (seqE (put_account (ia_config a) (A_Config (new_config\<lparr>
        cfg_authority := ia_authority a, cfg_nmc_mint := ia_nmc_mint a, cfg_platform_fee_bps := platform_fee_bps,
        cfg_fee_collector := ia_fee_collector a, cfg_bridge_mint_limit := bridge_mint_limit, cfg_bump := bump\<rparr>)))
     (retE [])))))"

record bridge_mint_accounts =
  bm_config :: pubkey
  bm_nmc_mint :: pubkey
  bm_recipient_token_account :: pubkey
  bm_recipient :: pubkey
  bm_bridge_nonce :: pubkey
  bm_authority :: pubkey

definition bridge_mint :: "sol_env \<Rightarrow> sol_tx \<Rightarrow> bridge_mint_accounts \<Rightarrow> 64 word \<Rightarrow> 64 word \<Rightarrow> (sol_event list) sol_prog" where
  "bridge_mint env tx a amount nonce =
     bindE (load_config env (bm_config a)) (\<lambda>cfg.
     seqE (require (cfg_authority cfg = bm_authority a) (Nm Unauthorized))
     (seqE (load_mint (bm_nmc_mint a))
     (seqE (require (bm_nmc_mint a = cfg_nmc_mint cfg) Address_Mismatch)
     (bindE (load_token (bm_recipient_token_account a)) (\<lambda>_.
      bindE (load_nonce env (bm_authority a) (bm_bridge_nonce a)) (\<lambda>nonce_acc.
      seqE (signed tx (bm_authority a))
      (seqE (require (amount \<le> cfg_bridge_mint_limit cfg) (Nm MintLimitExceeded))
      (seqE (require (nonce = bn_next_nonce nonce_acc) (Nm Unauthorized))
      (bindE (checked_add64 nonce 1) (\<lambda>next.
       seqE (cpi_signed env config_seeds (cfg_bump cfg) (bm_config a)
          (tok_mint_to env (bm_nmc_mint a) (bm_recipient_token_account a) (bm_config a) amount))
       (bindE (checked_add64 (cfg_total_minted cfg) amount) (\<lambda>total.
        seqE (put_account (bm_config a) (A_Config (cfg\<lparr>cfg_total_minted := total\<rparr>)))
        (seqE (put_account (bm_bridge_nonce a) (A_Nonce (nonce_acc\<lparr>bn_next_nonce := next\<rparr>)))
        (retE [BridgeMintEvent (bm_recipient a) amount nonce]))))))))))))))"

record bridge_burn_accounts =
  bb_config :: pubkey
  bb_nmc_mint :: pubkey
  bb_user_token_account :: pubkey
  bb_user :: pubkey

definition bridge_burn :: "sol_env \<Rightarrow> sol_tx \<Rightarrow> bridge_burn_accounts \<Rightarrow> 64 word \<Rightarrow> (sol_event list) sol_prog" where
  "bridge_burn env tx a amount =
     bindE (load_config env (bb_config a)) (\<lambda>cfg.
     seqE (load_mint (bb_nmc_mint a))
     (seqE (require (bb_nmc_mint a = cfg_nmc_mint cfg) Address_Mismatch)
     (bindE (load_token (bb_user_token_account a)) (\<lambda>t.
      seqE (require (ta_mint t = bb_nmc_mint a \<and> ta_owner t = bb_user a) Token_Mismatch)
      (seqE (signed tx (bb_user a))
      (seqE (cpi (tok_burn env (bb_nmc_mint a) (bb_user_token_account a) (bb_user a) amount))
      (bindE (checked_add64 (cfg_total_burned cfg) amount) (\<lambda>total.
       seqE (put_account (bb_config a) (A_Config (cfg\<lparr>cfg_total_burned := total\<rparr>)))
       (retE [BridgeBurnEvent (bb_user a) amount])))))))))"

record register_provider_accounts =
  ra_config :: pubkey
  ra_provider_record :: pubkey
  ra_provider :: pubkey
  ra_nft_mint :: pubkey
  ra_provider_nft_account :: pubkey

record provider_args =
  pa_gpu_vendor :: string
  pa_gpu_model :: string
  pa_memory_gb :: "16 word"
  pa_gpu_cores :: "32 word"
  pa_attestation_commitment :: string
  pa_ed25519_pubkey :: string
  pa_dil3_pubkey_hash :: string
  pa_metadata_uri :: string

text \<open>\<open>init_if_needed\<close> of an associated token account.\<close>

definition init_ata :: "sol_env \<Rightarrow> pubkey \<Rightarrow> pubkey \<Rightarrow> pubkey \<Rightarrow> unit sol_prog" where
  "init_ata env k mint owner = seqE (require (k = ata_address env owner mint) Seeds_Invalid)
     (\<lambda>s. case tb_accounts (sc_bank s) k of
        None \<Rightarrow> cpi (tok_init env k mint owner) s
      | Some t \<Rightarrow> require (ta_mint t = mint \<and> ta_owner t = owner) Token_Mismatch s)"

definition filled_provider_record ::
  "register_provider_accounts \<Rightarrow> provider_args \<Rightarrow> 64 word \<Rightarrow> 8 word \<Rightarrow> provider_record" where
  "filled_provider_record a p now bump = new_provider_record\<lparr>
     pr_provider := ra_provider a, pr_nft_mint := ra_nft_mint a, pr_memory_gb := pa_memory_gb p, pr_gpu_cores := pa_gpu_cores p,
     pr_attestation_commitment := pa_attestation_commitment p, pr_ed25519_pubkey := pa_ed25519_pubkey p,
     pr_dil3_pubkey_hash := pa_dil3_pubkey_hash p, pr_registered_at := now, pr_trust_score_milli := 2500, pr_bump := bump,
     pr_gpu_vendor := byte_array 32 (pa_gpu_vendor p), pr_gpu_model := byte_array 64 (pa_gpu_model p)\<rparr>"

definition sol_register_provider ::
  "sol_env \<Rightarrow> sol_tx \<Rightarrow> register_provider_accounts \<Rightarrow> provider_args \<Rightarrow> (sol_event list) sol_prog" where
  "sol_register_provider env tx a p =
     bindE (load_config env (ra_config a)) (\<lambda>cfg.
     bindE (init_pda env [''provider'', ra_provider a] (ra_provider_record a) (A_Provider new_provider_record)) (\<lambda>bump.
     seqE (signed tx (ra_provider a))
     (seqE (load_mint (ra_nft_mint a))
     (seqE (init_ata env (ra_provider_nft_account a) (ra_nft_mint a) (ra_provider a))
     (seqE (require (length (pa_gpu_vendor p) \<le> 32) (Nm VendorTooLong))
     (seqE (require (length (pa_gpu_model p) \<le> 64) (Nm ModelTooLong))
     (bindE (load_provider (ra_provider_record a)) (\<lambda>rec0.
      seqE (require (\<not> pr_revoked rec0) (Nm ProviderRevoked))
      (seqE (cpi_signed env config_seeds (cfg_bump cfg) (ra_config a)
         (tok_mint_to env (ra_nft_mint a) (ra_provider_nft_account a) (ra_config a) 1))
      (seqE (cpi_signed env config_seeds (cfg_bump cfg) (ra_config a)
         (meta_create env (ra_nft_mint a) (ra_config a) (''NM-GPU '' @ pa_gpu_model p) (pa_metadata_uri p)))
      (seqE (cpi_signed env config_seeds (cfg_bump cfg) (ra_config a) (meta_edition env (ra_nft_mint a) (ra_config a)))
      (seqE (cpi_signed env config_seeds (cfg_bump cfg) (ra_config a)
         (meta_freeze env (ra_config a) (ra_provider_nft_account a) (ra_nft_mint a)))
      (seqE (put_account (ra_provider_record a) (A_Provider (filled_provider_record a p (tx_now tx) bump)))
      (retE [ProviderRegisteredEvent (ra_provider a) (ra_nft_mint a) (pa_gpu_vendor p) (pa_gpu_model p)
         (pa_attestation_commitment p)]))))))))))))))"

record revoke_accounts =
  rv_config :: pubkey
  rv_provider_record :: pubkey
  rv_authority :: pubkey

definition revoke_provider :: "sol_env \<Rightarrow> sol_tx \<Rightarrow> revoke_accounts \<Rightarrow> (sol_event list) sol_prog" where
  "revoke_provider env tx a =
     bindE (load_config env (rv_config a)) (\<lambda>cfg.
     seqE (require (cfg_authority cfg = rv_authority a) (Nm Unauthorized))
     (bindE (load_provider (rv_provider_record a)) (\<lambda>r.
      seqE (signed tx (rv_authority a))
      (seqE (put_account (rv_provider_record a) (A_Provider (r\<lparr>pr_revoked := True\<rparr>)))
      (retE [ProviderRevokedEvent (pr_provider r) (pr_nft_mint r)])))))"

record create_escrow_accounts =
  ce_config :: pubkey
  ce_escrow :: pubkey
  ce_consumer :: pubkey
  ce_provider :: pubkey
  ce_consumer_token_account :: pubkey
  ce_provider_token_account :: pubkey
  ce_vault :: pubkey
  ce_nmc_mint :: pubkey

text \<open>The vault: a new token account at its derived address, owned by the escrow.\<close>

definition init_vault :: "sol_env \<Rightarrow> string \<Rightarrow> pubkey \<Rightarrow> pubkey \<Rightarrow> pubkey \<Rightarrow> unit sol_prog" where
  "init_vault env job_id vault mint escrow =
     (case find_pda env [''vault'', job_id] of
        Some (k, bump) \<Rightarrow> seqE (require (k = vault) Seeds_Invalid) (cpi (tok_init env vault mint escrow))
      | None \<Rightarrow> failE Seeds_Invalid)"

definition created_escrow ::
  "create_escrow_accounts \<Rightarrow> string \<Rightarrow> 64 word \<Rightarrow> 64 word \<Rightarrow> 32 word \<Rightarrow> 64 word \<Rightarrow> 8 word \<Rightarrow> job_escrow" where
  "created_escrow a job_id locked_nmc price_per_hour max_duration_secs now bump = new_escrow\<lparr>
     je_job_id := byte_array 64 job_id, je_job_id_len := word_of_nat (length job_id),
     je_consumer := ce_consumer a, je_provider := ce_provider a, je_locked_nmc := locked_nmc, je_price_per_hour := price_per_hour,
     je_max_duration_secs := max_duration_secs, je_state := Es_Open,
     je_consumer_token_account := ce_consumer_token_account a, je_provider_token_account := ce_provider_token_account a,
     je_vault := ce_vault a, je_created_at := now, je_bump := bump\<rparr>"

definition sol_create_escrow ::
  "sol_env \<Rightarrow> sol_tx \<Rightarrow> create_escrow_accounts \<Rightarrow> string \<Rightarrow> 64 word \<Rightarrow> 64 word \<Rightarrow> 32 word \<Rightarrow> (sol_event list) sol_prog" where
  "sol_create_escrow env tx a job_id locked_nmc price_per_hour max_duration_secs =
     bindE (load_config env (ce_config a)) (\<lambda>cfg.
     bindE (init_pda env [''escrow'', job_id] (ce_escrow a) (A_Escrow new_escrow)) (\<lambda>bump.
     seqE (signed tx (ce_consumer a))
     (bindE (load_token (ce_consumer_token_account a)) (\<lambda>t.
      seqE (require (ta_mint t = cfg_nmc_mint cfg \<and> ta_owner t = ce_consumer a) Token_Mismatch)
      (seqE (init_vault env job_id (ce_vault a) (ce_nmc_mint a) (ce_escrow a))
      (seqE (load_mint (ce_nmc_mint a))
      (seqE (require (ce_nmc_mint a = cfg_nmc_mint cfg) Address_Mismatch)
      (seqE (require (length job_id \<le> 64) (Nm JobIdTooLong))
      (seqE (cpi (tok_transfer env (ce_consumer_token_account a) (ce_vault a) (ce_consumer a) locked_nmc))
      (seqE (put_account (ce_escrow a)
         (A_Escrow (created_escrow a job_id locked_nmc price_per_hour max_duration_secs (tx_now tx) bump)))
      (retE [EscrowCreatedEvent job_id (ce_consumer a) (ce_provider a) locked_nmc])))))))))))"

record lock_accounts =
  la_escrow :: pubkey
  la_provider :: pubkey

definition sol_lock_escrow :: "sol_env \<Rightarrow> sol_tx \<Rightarrow> lock_accounts \<Rightarrow> (sol_event list) sol_prog" where
  "sol_lock_escrow env tx a =
     bindE (load_escrow env (la_escrow a)) (\<lambda>esc.
     seqE (require (je_provider esc = la_provider a) (Nm Unauthorized))
     (seqE (signed tx (la_provider a))
     (seqE (require (je_state esc = Es_Open) (Nm EscrowNotOpen))
     (seqE (put_account (la_escrow a)
        (A_Escrow (esc\<lparr>je_state := Es_Locked, je_deadline := tx_now tx + ucast (je_max_duration_secs esc)\<rparr>)))
     (retE [])))))"

record release_accounts =
  re_config :: pubkey
  re_escrow :: pubkey
  re_vault :: pubkey
  re_provider_token_account :: pubkey
  re_consumer_token_account :: pubkey
  re_fee_collector :: pubkey
  re_authority :: pubkey

definition pay_from_vault :: "sol_env \<Rightarrow> job_escrow \<Rightarrow> pubkey \<Rightarrow> pubkey \<Rightarrow> pubkey \<Rightarrow> 64 word \<Rightarrow> unit sol_prog" where
  "pay_from_vault env esc escrow vault to amount =
     cpi_signed env (escrow_seeds esc) (je_bump esc) escrow (tok_transfer env vault to escrow amount)"

definition sol_release_escrow :: "sol_env \<Rightarrow> sol_tx \<Rightarrow> release_accounts \<Rightarrow> 64 word \<Rightarrow> (sol_event list) sol_prog" where
  "sol_release_escrow env tx a actual_cost =
     bindE (load_config env (re_config a)) (\<lambda>cfg.
     seqE (require (cfg_authority cfg = re_authority a) (Nm Unauthorized))
     (bindE (load_escrow env (re_escrow a)) (\<lambda>esc.
      bindE (load_token (re_vault a)) (\<lambda>_.
      bindE (load_token (re_provider_token_account a)) (\<lambda>_.
      bindE (load_token (re_consumer_token_account a)) (\<lambda>_.
      bindE (load_token (re_fee_collector a)) (\<lambda>_.
      seqE (require (re_fee_collector a = cfg_fee_collector cfg) Address_Mismatch)
      (seqE (signed tx (re_authority a))
      (seqE (require (je_state esc = Es_Locked) (Nm EscrowNotLocked))
      (seqE (require (actual_cost \<le> je_locked_nmc esc) (Nm CostExceedsLocked))
      (bindE (checked_mul64 actual_cost (ucast (cfg_platform_fee_bps cfg))) (\<lambda>product.
       let fee = product div 10000 in
       bindE (checked_sub64 actual_cost fee) (\<lambda>provider_amount.
       bindE (checked_sub64 (je_locked_nmc esc) actual_cost) (\<lambda>consumer_refund.
       seqE (if 0 < provider_amount
             then pay_from_vault env esc (re_escrow a) (re_vault a) (re_provider_token_account a) provider_amount else retE ())
       (seqE (if 0 < fee then pay_from_vault env esc (re_escrow a) (re_vault a) (re_fee_collector a) fee else retE ())
       (seqE (if 0 < consumer_refund
              then pay_from_vault env esc (re_escrow a) (re_vault a) (re_consumer_token_account a) consumer_refund else retE ())
       (seqE (put_account (re_escrow a) (A_Escrow (esc\<lparr>
          je_actual_cost := actual_cost, je_fee_collected := fee, je_state := Es_Settled, je_settled_at := tx_now tx\<rparr>)))
       (retE [EscrowSettledEvent (je_provider esc) (je_consumer esc) actual_cost fee consumer_refund]))))))))))))))))))"

record cancel_accounts =
  ca_config :: pubkey
  ca_escrow :: pubkey
  ca_vault :: pubkey
  ca_consumer_token_account :: pubkey
  ca_signer :: pubkey

definition sol_cancel_escrow :: "sol_env \<Rightarrow> sol_tx \<Rightarrow> cancel_accounts \<Rightarrow> (sol_event list) sol_prog" where
  "sol_cancel_escrow env tx a =
     bindE (load_config env (ca_config a)) (\<lambda>cfg.
     bindE (load_escrow env (ca_escrow a)) (\<lambda>esc.
     bindE (load_token (ca_vault a)) (\<lambda>_.
     bindE (load_token (ca_consumer_token_account a)) (\<lambda>_.
     seqE (signed tx (ca_signer a))
     (seqE (require (je_state esc = Es_Open \<or> je_state esc = Es_Locked) (Nm EscrowNotOpen))
     (seqE (pay_from_vault env esc (ca_escrow a) (ca_vault a) (ca_consumer_token_account a) (je_locked_nmc esc))
     (seqE (put_account (ca_escrow a) (A_Escrow (esc\<lparr>je_state := Es_Cancelled\<rparr>)))
     (retE []))))))))"

record update_accounts =
  ua_config :: pubkey
  ua_authority :: pubkey

definition sol_update_config ::
  "sol_env \<Rightarrow> sol_tx \<Rightarrow> update_accounts \<Rightarrow> (16 word) option \<Rightarrow> (64 word) option \<Rightarrow> (sol_event list) sol_prog" where
  "sol_update_config env tx a platform_fee_bps bridge_mint_limit =
     bindE (load_config env (ua_config a)) (\<lambda>cfg.
     seqE (require (cfg_authority cfg = ua_authority a) (Nm Unauthorized))
     (seqE (signed tx (ua_authority a))
     (bindE (case platform_fee_bps of
               Some fee \<Rightarrow> seqE (require (fee \<le> max_fee_bps) (Nm FeeTooHigh)) (retE (cfg\<lparr>cfg_platform_fee_bps := fee\<rparr>))
             | None \<Rightarrow> retE cfg) (\<lambda>cfg'.
      seqE (put_account (ua_config a) (A_Config (case bridge_mint_limit of
               Some limit \<Rightarrow> cfg'\<lparr>cfg_bridge_mint_limit := limit\<rparr> | None \<Rightarrow> cfg')))
      (retE [])))))"

text \<open>All instructions of the program, and a transaction: an instruction that fails leaves the chain as it was.\<close>

datatype sol_instr =
    Initialize initialize_accounts "16 word" "64 word"
  | Bridge_Mint bridge_mint_accounts "64 word" "64 word"
  | Bridge_Burn bridge_burn_accounts "64 word"
  | Register_Provider register_provider_accounts provider_args
  | Revoke_Provider revoke_accounts
  | Create_Escrow create_escrow_accounts string "64 word" "64 word" "32 word"
  | Lock_Escrow lock_accounts
  | Release_Escrow release_accounts "64 word"
  | Cancel_Escrow cancel_accounts
  | Update_Config update_accounts "(16 word) option" "(64 word) option"

fun sol_run :: "sol_env \<Rightarrow> sol_tx \<Rightarrow> sol_instr \<Rightarrow> (sol_event list) sol_prog" where
  "sol_run env tx (Initialize a fee limit) = sol_initialize env tx a fee limit"
| "sol_run env tx (Bridge_Mint a amount nonce) = bridge_mint env tx a amount nonce"
| "sol_run env tx (Bridge_Burn a amount) = bridge_burn env tx a amount"
| "sol_run env tx (Register_Provider a p) = sol_register_provider env tx a p"
| "sol_run env tx (Revoke_Provider a) = revoke_provider env tx a"
| "sol_run env tx (Create_Escrow a jid n price dur) = sol_create_escrow env tx a jid n price dur"
| "sol_run env tx (Lock_Escrow a) = sol_lock_escrow env tx a"
| "sol_run env tx (Release_Escrow a cost) = sol_release_escrow env tx a cost"
| "sol_run env tx (Cancel_Escrow a) = sol_cancel_escrow env tx a"
| "sol_run env tx (Update_Config a fee limit) = sol_update_config env tx a fee limit"

definition sol_exec :: "sol_env \<Rightarrow> sol_tx \<Rightarrow> sol_instr \<Rightarrow> sol_chain \<Rightarrow> sol_chain" where
  "sol_exec env tx i s = (case sol_run env tx i s of (Inr _, s') \<Rightarrow> s' | (Inl _, _) \<Rightarrow> s)"

end
