(* ===== verification/Solana_Runs.thy ===== *)
theory Solana_Runs
  imports Solana_Program
begin

text \<open>
  What a run of an instruction of the Solana program that succeeds has checked and done: first for each
  constraint, load and call, then for each instruction as one statement about its accounts and the token bank.
\<close>

section \<open>Successful runs\<close>

named_theorems sol_ok \<open>what a step of an instruction that succeeded did\<close>

declare bindE_ok [sol_ok] seqE_ok [sol_ok] retE_ok [sol_ok] failE_ok [sol_ok] if_ok [sol_ok]

lemma require_ok [sol_ok]: "require b e s = (Inr y, s') \<longleftrightarrow> b \<and> s = s'"
  by (simp add: require_def retE_ok failE_ok)

lemma signed_ok [sol_ok]: "signed tx k s = (Inr y, s') \<longleftrightarrow> k \<in> set (tx_signers tx) \<and> s = s'"
  by (simp add: signed_def require_ok)

lemma at_pda_ok [sol_ok]: "at_pda env seeds b k s = (Inr y, s') \<longleftrightarrow> create_pda env seeds b = Some k \<and> s = s'"
  by (simp add: at_pda_def require_ok)

lemma load_config_ok [sol_ok]: "load_config env k s = (Inr c, s') \<longleftrightarrow>
    sc_accounts s k = Some (A_Config c) \<and> create_pda env config_seeds (cfg_bump c) = Some k \<and> s = s'"
  by (auto simp: load_config_def sol_ok split: option.splits program_account.splits)

lemma load_escrow_ok [sol_ok]: "load_escrow env k s = (Inr e, s') \<longleftrightarrow>
    sc_accounts s k = Some (A_Escrow e) \<and> create_pda env (escrow_seeds e) (je_bump e) = Some k \<and> s = s'"
  by (auto simp: load_escrow_def sol_ok split: option.splits program_account.splits)

lemma load_provider_ok [sol_ok]: "load_provider k s = (Inr r, s') \<longleftrightarrow> sc_accounts s k = Some (A_Provider r) \<and> s = s'"
  by (auto simp: load_provider_def sol_ok split: option.splits program_account.splits)

lemma load_nonce_ok [sol_ok]: "load_nonce env auth k s = (Inr n, s') \<longleftrightarrow> sc_accounts s k = Some (A_Nonce n) \<and>
    create_pda env [''bridge_nonce'', auth] (bn_bump n) = Some k \<and> bn_authority n = auth \<and> s = s'"
  by (auto simp: load_nonce_def sol_ok split: option.splits program_account.splits)

lemma load_token_ok [sol_ok]: "load_token k s = (Inr t, s') \<longleftrightarrow> tb_accounts (sc_bank s) k = Some t \<and> s = s'"
  by (auto simp: load_token_def sol_ok split: option.splits)

lemma load_mint_ok [sol_ok]: "load_mint k s = (Inr y, s') \<longleftrightarrow> tb_mints (sc_bank s) k \<and> s = s'"
  by (simp add: load_mint_def sol_ok)

lemma init_pda_ok [sol_ok]: "init_pda env seeds k fresh s = (Inr bump, s') \<longleftrightarrow> find_pda env seeds = Some (k, bump) \<and>
    sc_accounts s k = None \<and> s' = s\<lparr>sc_accounts := (sc_accounts s)(k \<mapsto> fresh)\<rparr>"
  by (auto simp: init_pda_def sol_ok split: option.splits)

lemma put_account_ok [sol_ok]: "put_account k a s = (Inr y, s') \<longleftrightarrow> s' = s\<lparr>sc_accounts := (sc_accounts s)(k \<mapsto> a)\<rparr>"
  by (auto simp: put_account_def)

lemma cpi_ok [sol_ok]: "cpi f s = (Inr y, s') \<longleftrightarrow> (\<exists>b. f (sc_bank s) = Some b \<and> s' = s\<lparr>sc_bank := b\<rparr>)"
  by (auto simp: cpi_def sol_ok split: option.splits)

lemma cpi_signed_ok [sol_ok]: "cpi_signed env seeds bump auth f s = (Inr y, s') \<longleftrightarrow>
    create_pda env seeds bump = Some auth \<and> (\<exists>b. f (sc_bank s) = Some b \<and> s' = s\<lparr>sc_bank := b\<rparr>)"
  by (auto simp: cpi_signed_def sol_ok)

lemma pay_from_vault_ok [sol_ok]: "pay_from_vault env esc k vault to n s = (Inr y, s') \<longleftrightarrow>
    create_pda env (escrow_seeds esc) (je_bump esc) = Some k \<and>
    (\<exists>b. tok_transfer env vault to k n (sc_bank s) = Some b \<and> s' = s\<lparr>sc_bank := b\<rparr>)"
  by (simp add: pay_from_vault_def cpi_signed_ok)

lemma checked_add64_ok [sol_ok]: "checked_add64 a b s = (Inr y, s') \<longleftrightarrow> unat a + unat b < 2 ^ 64 \<and> y = a + b \<and> s = s'"
  by (auto simp: checked_add64_def sol_ok)

lemma checked_sub64_ok [sol_ok]: "checked_sub64 a b s = (Inr y, s') \<longleftrightarrow> b \<le> a \<and> y = a - b \<and> s = s'"
  by (auto simp: checked_sub64_def sol_ok)

lemma checked_mul64_ok [sol_ok]: "checked_mul64 a b s = (Inr y, s') \<longleftrightarrow> unat a * unat b < 2 ^ 64 \<and> y = a * b \<and> s = s'"
  by (auto simp: checked_mul64_def sol_ok)

lemma init_vault_ok [sol_ok]: "init_vault env jid v mint k s = (Inr y, s') \<longleftrightarrow>
    (\<exists>bump. find_pda env [''vault'', jid] = Some (v, bump)) \<and>
    (\<exists>b. tok_init env v mint k (sc_bank s) = Some b \<and> s' = s\<lparr>sc_bank := b\<rparr>)"
  by (auto simp: init_vault_def sol_ok split: option.splits)

definition ata_made :: "sol_env \<Rightarrow> pubkey \<Rightarrow> pubkey \<Rightarrow> pubkey \<Rightarrow> token_bank \<Rightarrow> token_bank \<Rightarrow> bool" where
  "ata_made env k mint owner b b' \<longleftrightarrow> k = ata_address env owner mint \<and>
     (case tb_accounts b k of
        None \<Rightarrow> tok_init env k mint owner b = Some b'
      | Some t \<Rightarrow> ta_mint t = mint \<and> ta_owner t = owner \<and> b' = b)"

lemma init_ata_ok [sol_ok]: "init_ata env k mint owner s = (Inr y, s') \<longleftrightarrow>
    (\<exists>b. ata_made env k mint owner (sc_bank s) b \<and> s' = s\<lparr>sc_bank := b\<rparr>)"
  by (auto simp: init_ata_def ata_made_def sol_ok split: option.splits)

lemma unat_ucast_bps [simp]: "unat (ucast (b :: 16 word) :: 64 word) = unat b"
proof -
  have "unat b < 2 ^ 16" using unsigned_less [of b, where 'a = nat] by simp
  then show ?thesis by (simp add: unsigned_ucast_eq take_bit_nat_eq_self)
qed

lemma mul64_fee: "unat c * unat b < 2 ^ 64 \<Longrightarrow> unat ((c * b) div 10000 :: 64 word) = unat c * unat b div 10000"
  by (simp add: unat_div unat_word_ariths)


text \<open>What an instruction that succeeds does to the accounts and to the token bank.\<close>

lemma sol_initialize_ok: "sol_initialize env tx a fee limit s = (Inr ev, s') \<Longrightarrow>
   sc_accounts s (ia_config a) = None \<and> fee \<le> max_fee_bps \<and>
   (\<exists>bump. find_pda env config_seeds = Some (ia_config a, bump) \<and>
      s' = s\<lparr>sc_accounts := (sc_accounts s)(ia_config a \<mapsto> A_Config (new_config\<lparr>
        cfg_authority := ia_authority a, cfg_nmc_mint := ia_nmc_mint a, cfg_platform_fee_bps := fee,
        cfg_fee_collector := ia_fee_collector a, cfg_bridge_mint_limit := limit, cfg_bump := bump\<rparr>))\<rparr>)"
  by (auto simp: sol_initialize_def sol_ok)

lemma bridge_burn_ok: "bridge_burn env tx a n s = (Inr ev, s') \<Longrightarrow>
   (\<exists>cfg b total. sc_accounts s (bb_config a) = Some (A_Config cfg) \<and> bb_user a \<in> set (tx_signers tx) \<and>
      tok_burn env (bb_nmc_mint a) (bb_user_token_account a) (bb_user a) n (sc_bank s) = Some b \<and>
      s' = s\<lparr>sc_accounts := (sc_accounts s)(bb_config a \<mapsto> A_Config (cfg\<lparr>cfg_total_burned := total\<rparr>)), sc_bank := b\<rparr>)"
proof -
  assume "bridge_burn env tx a n s = (Inr ev, s')"
  then obtain cfg b where "sc_accounts s (bb_config a) = Some (A_Config cfg)" "bb_user a \<in> set (tx_signers tx)"
    "tok_burn env (bb_nmc_mint a) (bb_user_token_account a) (bb_user a) n (sc_bank s) = Some b"
    "s' = s\<lparr>sc_bank := b, sc_accounts := (sc_accounts s)(bb_config a \<mapsto> A_Config (cfg\<lparr>cfg_total_burned := cfg_total_burned cfg + n\<rparr>))\<rparr>"
    by (auto simp: bridge_burn_def sol_ok)
  then show ?thesis
    by (intro exI [of _ cfg] exI [of _ b] exI [of _ "cfg_total_burned cfg + n"]) simp
qed

lemma revoke_provider_ok: "revoke_provider env tx a s = (Inr ev, s') \<Longrightarrow>
   (\<exists>r. sc_accounts s (rv_provider_record a) = Some (A_Provider r) \<and>
      s' = s\<lparr>sc_accounts := (sc_accounts s)(rv_provider_record a \<mapsto> A_Provider (r\<lparr>pr_revoked := True\<rparr>))\<rparr>)"
  by (auto simp: revoke_provider_def sol_ok)

lemma sol_create_escrow_ok: "sol_create_escrow env tx a jid n price dur s = (Inr ev, s') \<Longrightarrow>
   sc_accounts s (ce_escrow a) = None \<and> ce_consumer a \<in> set (tx_signers tx) \<and> length jid \<le> 64 \<and>
   (\<exists>bump b1 b2. find_pda env [''escrow'', jid] = Some (ce_escrow a, bump) \<and>
      tok_init env (ce_vault a) (ce_nmc_mint a) (ce_escrow a) (sc_bank s) = Some b1 \<and>
      tok_transfer env (ce_consumer_token_account a) (ce_vault a) (ce_consumer a) n b1 = Some b2 \<and>
      s' = s\<lparr>sc_accounts := (sc_accounts s)(ce_escrow a \<mapsto> A_Escrow (created_escrow a jid n price dur (tx_now tx) bump)), sc_bank := b2\<rparr>)"
  by (auto simp: sol_create_escrow_def sol_ok)

lemma sol_lock_escrow_ok: "sol_lock_escrow env tx a s = (Inr ev, s') \<Longrightarrow>
   (\<exists>e dl. sc_accounts s (la_escrow a) = Some (A_Escrow e) \<and> je_state e = Es_Open \<and> je_provider e \<in> set (tx_signers tx) \<and>
      s' = s\<lparr>sc_accounts := (sc_accounts s)(la_escrow a \<mapsto> A_Escrow (e\<lparr>je_state := Es_Locked, je_deadline := dl\<rparr>))\<rparr>)"
  by (auto simp: sol_lock_escrow_def sol_ok)

text \<open>A payment out of a vault, skipped when there is nothing to pay.\<close>

definition paid :: "sol_env \<Rightarrow> pubkey \<Rightarrow> pubkey \<Rightarrow> pubkey \<Rightarrow> 64 word \<Rightarrow> token_bank \<Rightarrow> token_bank \<Rightarrow> bool" where
  "paid env vault to k n b b' \<longleftrightarrow> (if 0 < n then tok_transfer env vault to k n b = Some b' else b' = b)"

lemma pay_if_ok: "(if 0 < n then pay_from_vault env esc k vault to n else retE ()) s = (Inr y, s') \<longleftrightarrow>
   (if 0 < n then create_pda env (escrow_seeds esc) (je_bump esc) = Some k else True) \<and>
   (\<exists>b. paid env vault to k n (sc_bank s) b \<and> s' = s\<lparr>sc_bank := b\<rparr>)"
  by (auto simp: sol_ok paid_def)

lemmas release_ok = bindE_ok seqE_ok require_ok signed_ok load_config_ok load_escrow_ok load_token_ok checked_mul64_ok
  checked_sub64_ok pay_if_ok put_account_ok retE_ok unat_ucast_bps

lemma sol_release_escrow_ok: "sol_release_escrow env tx a cost s = (Inr ev, s') \<Longrightarrow>
   (\<exists>cfg e fee b1 b2 b3. sc_accounts s (re_config a) = Some (A_Config cfg) \<and> cfg_authority cfg \<in> set (tx_signers tx) \<and>
      sc_accounts s (re_escrow a) = Some (A_Escrow e) \<and> je_state e = Es_Locked \<and> cost \<le> je_locked_nmc e \<and>
      unat fee = unat cost * unat (cfg_platform_fee_bps cfg) div 10000 \<and> fee \<le> cost \<and>
      paid env (re_vault a) (re_provider_token_account a) (re_escrow a) (cost - fee) (sc_bank s) b1 \<and>
      paid env (re_vault a) (re_fee_collector a) (re_escrow a) fee b1 b2 \<and>
      paid env (re_vault a) (re_consumer_token_account a) (re_escrow a) (je_locked_nmc e - cost) b2 b3 \<and>
      s' = s\<lparr>sc_accounts := (sc_accounts s)(re_escrow a \<mapsto> A_Escrow (e\<lparr>je_actual_cost := cost, je_fee_collected := fee,
         je_state := Es_Settled, je_settled_at := tx_now tx\<rparr>)), sc_bank := b3\<rparr> \<and>
      ev = [EscrowSettledEvent (je_provider e) (je_consumer e) cost fee (je_locked_nmc e - cost)])"
proof -
  assume run: "sol_release_escrow env tx a cost s = (Inr ev, s')"
  obtain cfg e b1 b2 b3 where cfg: "sc_accounts s (re_config a) = Some (A_Config cfg)" "cfg_authority cfg \<in> set (tx_signers tx)"
    and esc: "sc_accounts s (re_escrow a) = Some (A_Escrow e)" "je_state e = Es_Locked" "cost \<le> je_locked_nmc e"
    and fee: "unat cost * unat (cfg_platform_fee_bps cfg) < 2 ^ 64" "cost * ucast (cfg_platform_fee_bps cfg) div 10000 \<le> cost"
    and pay: "paid env (re_vault a) (re_provider_token_account a) (re_escrow a)
        (cost - cost * ucast (cfg_platform_fee_bps cfg) div 10000) (sc_bank s) b1"
      "paid env (re_vault a) (re_fee_collector a) (re_escrow a) (cost * ucast (cfg_platform_fee_bps cfg) div 10000) b1 b2"
      "paid env (re_vault a) (re_consumer_token_account a) (re_escrow a) (je_locked_nmc e - cost) b2 b3"
    and res: "s' = s\<lparr>sc_bank := b3, sc_accounts := (sc_accounts s)(re_escrow a \<mapsto> A_Escrow (e\<lparr>je_actual_cost := cost,
        je_fee_collected := cost * ucast (cfg_platform_fee_bps cfg) div 10000, je_state := Es_Settled,
        je_settled_at := tx_now tx\<rparr>))\<rparr>"
      "ev = [EscrowSettledEvent (je_provider e) (je_consumer e) cost (cost * ucast (cfg_platform_fee_bps cfg) div 10000)
        (je_locked_nmc e - cost)]"
    using run unfolding sol_release_escrow_def Let_def by (auto simp: release_ok simp del: word_gt_0)
  let ?fee = "cost * ucast (cfg_platform_fee_bps cfg) div 10000 :: 64 word"
  have "unat ?fee = unat cost * unat (cfg_platform_fee_bps cfg) div 10000" using fee(1) by (subst mul64_fee) simp_all
  then show ?thesis using cfg esc fee pay res
    by (intro exI [of _ cfg] exI [of _ e] exI [of _ ?fee] exI [of _ b1] exI [of _ b2] exI [of _ b3]) simp
qed

lemma sol_cancel_escrow_ok: "sol_cancel_escrow env tx a s = (Inr ev, s') \<Longrightarrow>
   (\<exists>e b. sc_accounts s (ca_escrow a) = Some (A_Escrow e) \<and> (je_state e = Es_Open \<or> je_state e = Es_Locked) \<and>
      tok_transfer env (ca_vault a) (ca_consumer_token_account a) (ca_escrow a) (je_locked_nmc e) (sc_bank s) = Some b \<and>
      s' = s\<lparr>sc_accounts := (sc_accounts s)(ca_escrow a \<mapsto> A_Escrow (e\<lparr>je_state := Es_Cancelled\<rparr>)), sc_bank := b\<rparr>)"
  by (auto simp: sol_cancel_escrow_def sol_ok)

lemma sol_update_config_ok: "sol_update_config env tx a fee limit s = (Inr ev, s') \<Longrightarrow>
   (\<exists>cfg. sc_accounts s (ua_config a) = Some (A_Config cfg) \<and> cfg_authority cfg \<in> set (tx_signers tx) \<and>
      (\<forall>f. fee = Some f \<longrightarrow> f \<le> max_fee_bps) \<and>
      s' = s\<lparr>sc_accounts := (sc_accounts s)(ua_config a \<mapsto> A_Config (cfg\<lparr>
        cfg_platform_fee_bps := (case fee of Some f \<Rightarrow> f | None \<Rightarrow> cfg_platform_fee_bps cfg),
        cfg_bridge_mint_limit := (case limit of Some l \<Rightarrow> l | None \<Rightarrow> cfg_bridge_mint_limit cfg)\<rparr>))\<rparr>)"
  by (auto simp: sol_update_config_def sol_ok split: option.splits)


lemma sol_register_provider_ok: "sol_register_provider env tx a p s = (Inr ev, s') \<Longrightarrow>
   sc_accounts s (ra_provider_record a) = None \<and>
   (\<exists>bump b0 b1 b2 b3 b4. ata_made env (ra_provider_nft_account a) (ra_nft_mint a) (ra_provider a) (sc_bank s) b0 \<and>
      tok_mint_to env (ra_nft_mint a) (ra_provider_nft_account a) (ra_config a) 1 b0 = Some b1 \<and>
      meta_create env (ra_nft_mint a) (ra_config a) (''NM-GPU '' @ pa_gpu_model p) (pa_metadata_uri p) b1 = Some b2 \<and>
      meta_edition env (ra_nft_mint a) (ra_config a) b2 = Some b3 \<and>
      meta_freeze env (ra_config a) (ra_provider_nft_account a) (ra_nft_mint a) b3 = Some b4 \<and>
      s' = s\<lparr>sc_accounts := (sc_accounts s)(ra_provider_record a \<mapsto> A_Provider (filled_provider_record a p (tx_now tx) bump)),
         sc_bank := b4\<rparr>)"
proof -
  assume run: "sol_register_provider env tx a p s = (Inr ev, s')"
  obtain bump b0 b1 b2 b3 b4 where "sc_accounts s (ra_provider_record a) = None"
    and "ata_made env (ra_provider_nft_account a) (ra_nft_mint a) (ra_provider a) (sc_bank s) b0"
    and "tok_mint_to env (ra_nft_mint a) (ra_provider_nft_account a) (ra_config a) 1 b0 = Some b1"
    and "meta_create env (ra_nft_mint a) (ra_config a) (''NM-GPU '' @ pa_gpu_model p) (pa_metadata_uri p) b1 = Some b2"
    and "meta_edition env (ra_nft_mint a) (ra_config a) b2 = Some b3"
    and "meta_freeze env (ra_config a) (ra_provider_nft_account a) (ra_nft_mint a) b3 = Some b4"
    and "s' = s\<lparr>sc_bank := b4,
      sc_accounts := (sc_accounts s)(ra_provider_record a \<mapsto> A_Provider (filled_provider_record a p (tx_now tx) bump))\<rparr>"
    using run unfolding sol_register_provider_def by (auto simp: sol_ok split: option.splits)
  then show ?thesis by (intro conjI exI [of _ bump] exI [of _ b0] exI [of _ b1] exI [of _ b2] exI [of _ b3] exI [of _ b4]) simp_all
qed

lemmas instr_ok = sol_initialize_ok bridge_burn_ok sol_register_provider_ok revoke_provider_ok sol_create_escrow_ok sol_lock_escrow_ok
  sol_release_escrow_ok sol_cancel_escrow_ok sol_update_config_ok

end
