(* ===== verification/Solana_Escrow.thy ===== *)
theory Solana_Escrow
  imports Solana_Runs
begin

text \<open>
  The escrows of the Solana program: the abstract life of an escrow and the refinement by the instructions, the
  chains that users can bring about and their invariants, settlement and cancellation, and a concrete platform
  on which the properties are shown to apply.
\<close>

section \<open>The life of an escrow\<close>

datatype escrow_view =
    V_None
  | V_Open "64 word"
  | V_Locked "64 word"
  | V_Settled "64 word" "64 word" "64 word"
  | V_Cancelled "64 word"

fun view_of_escrow :: "job_escrow \<Rightarrow> escrow_view" where
  "view_of_escrow e = (case je_state e of
     Es_Open \<Rightarrow> V_Open (je_locked_nmc e)
   | Es_Locked \<Rightarrow> V_Locked (je_locked_nmc e)
   | Es_Settled \<Rightarrow> V_Settled (je_locked_nmc e) (je_actual_cost e) (je_fee_collected e)
   | Es_Cancelled \<Rightarrow> V_Cancelled (je_locked_nmc e))"

definition escrow_view :: "sol_chain \<Rightarrow> pubkey \<Rightarrow> escrow_view" where
  "escrow_view s k = (case sc_accounts s k of Some (A_Escrow e) \<Rightarrow> view_of_escrow e | _ \<Rightarrow> V_None)"

text \<open>The abstract machine: an escrow is opened, accepted, and ends settled or cancelled.\<close>

inductive escrow_moves :: "escrow_view \<Rightarrow> escrow_view \<Rightarrow> bool" where
  open_it: "escrow_moves V_None (V_Open n)"
| accept_it: "escrow_moves (V_Open n) (V_Locked n)"
| settle_it: "unat cost \<le> unat n \<Longrightarrow> unat fee = unat cost * bps div 10000 \<Longrightarrow> bps \<le> 1000 \<Longrightarrow> escrow_moves (V_Locked n) (V_Settled n cost fee)"
| cancel_open: "escrow_moves (V_Open n) (V_Cancelled n)"
| cancel_locked: "escrow_moves (V_Locked n) (V_Cancelled n)"

inductive_simps escrow_moves_from [simp]:
  "escrow_moves (V_Settled n c f) v" "escrow_moves (V_Cancelled n) v" "escrow_moves v V_None"

lemma escrow_view_simps [simp]:
  "escrow_view (s\<lparr>sc_bank := b\<rparr>) k = escrow_view s k"
  "escrow_view (s\<lparr>sc_accounts := (sc_accounts s)(k' \<mapsto> A_Escrow e)\<rparr>) k = (if k = k' then view_of_escrow e else escrow_view s k)"
  by (simp_all add: escrow_view_def)

text \<open>Writing an account that is not an escrow leaves every escrow alone.\<close>

lemma escrow_view_other [simp]:
  assumes "\<And>e. sc_accounts s k' \<noteq> Some (A_Escrow e)" "\<And>e. a \<noteq> A_Escrow e"
  shows "escrow_view (s\<lparr>sc_accounts := (sc_accounts s)(k' \<mapsto> a)\<rparr>) k = escrow_view s k"
  using assms by (auto simp: escrow_view_def split: option.split program_account.split)

section \<open>What every reachable chain satisfies\<close>

definition fee_inv :: "sol_chain \<Rightarrow> bool" where
  "fee_inv s \<longleftrightarrow> (\<forall>k c. sc_accounts s k = Some (A_Config c) \<longrightarrow> cfg_platform_fee_bps c \<le> max_fee_bps \<and> cfg_total_minted c = 0) \<and>
     (\<forall>k n. sc_accounts s k \<noteq> Some (A_Nonce n))"

lemma fee_inv_bank [simp]: "fee_inv (s\<lparr>sc_bank := b\<rparr>) = fee_inv s"
  by (simp add: fee_inv_def)

lemma fee_inv_put [simp]: "fee_inv s \<Longrightarrow> fee_inv (s\<lparr>sc_accounts := (sc_accounts s)(k \<mapsto> a)\<rparr>) \<longleftrightarrow>
    (case a of A_Config c \<Rightarrow> cfg_platform_fee_bps c \<le> max_fee_bps \<and> cfg_total_minted c = 0 | A_Nonce n \<Rightarrow> False | _ \<Rightarrow> True)"
  by (auto simp: fee_inv_def split: program_account.split)

lemma fee_invD:
  "fee_inv s \<Longrightarrow> sc_accounts s k = Some (A_Config c) \<Longrightarrow> cfg_platform_fee_bps c \<le> max_fee_bps \<and> cfg_total_minted c = 0"
  by (auto simp: fee_inv_def)

lemma bridge_mint_fails: "fee_inv s \<Longrightarrow> bridge_mint env tx a n x s \<noteq> (Inr ev, s')"
  by (auto simp: bridge_mint_def sol_ok fee_inv_def)

lemma fee_inv_run: "fee_inv s \<Longrightarrow> sol_run env tx i s = (Inr ev, s') \<Longrightarrow> fee_inv s'"
proof (cases i)
  case (Update_Config a f l)
  assume "fee_inv s" "sol_run env tx i s = (Inr ev, s')"
  then show ?thesis using Update_Config
    by (auto dest!: sol_update_config_ok simp: fee_invD split: option.splits)
qed (auto dest!: instr_ok dest: fee_invD simp: bridge_mint_fails new_config_def)

text \<open>One instruction moves every escrow by at most one step of the abstract machine.\<close>

lemma run_escrow_moves:
  assumes "fee_inv s" "sol_run env tx i s = (Inr ev, s')"
  shows "escrow_view s' k = escrow_view s k \<or> escrow_moves (escrow_view s k) (escrow_view s' k)"
proof (cases i)
  case (Create_Escrow a jid n price dur)
  then have *: "sol_create_escrow env tx a jid n price dur s = (Inr ev, s')" using assms by simp
  show ?thesis
    using sol_create_escrow_ok [OF *]
    by (auto simp: created_escrow_def escrow_view_def escrow_moves.open_it)
next
  case (Lock_Escrow a)
  then have *: "sol_lock_escrow env tx a s = (Inr ev, s')" using assms by simp
  show ?thesis
    using sol_lock_escrow_ok [OF *] by (auto simp: escrow_view_def escrow_moves.accept_it escrow_moves.cancel_open escrow_moves.cancel_locked)
next
  case (Release_Escrow a cost)
  then have *: "sol_release_escrow env tx a cost s = (Inr ev, s')" using assms by simp
  from sol_release_escrow_ok [OF *] obtain cfg e fee b3 where
    "sc_accounts s (re_config a) = Some (A_Config cfg)" "sc_accounts s (re_escrow a) = Some (A_Escrow e)"
    "je_state e = Es_Locked" "cost \<le> je_locked_nmc e" "unat fee = unat cost * unat (cfg_platform_fee_bps cfg) div 10000"
    "s' = s\<lparr>sc_accounts := (sc_accounts s)(re_escrow a \<mapsto> A_Escrow (e\<lparr>je_actual_cost := cost, je_fee_collected := fee,
         je_state := Es_Settled, je_settled_at := tx_now tx\<rparr>)), sc_bank := b3\<rparr>" by blast
  moreover from this assms have "unat (cfg_platform_fee_bps cfg) \<le> 1000"
    using fee_invD [of s "re_config a" cfg] by (simp add: max_fee_bps_def word_le_nat_alt)
  ultimately show ?thesis
    by (auto simp: escrow_view_def word_le_nat_alt intro!: escrow_moves.settle_it)
next
  case (Cancel_Escrow a)
  then have *: "sol_cancel_escrow env tx a s = (Inr ev, s')" using assms by simp
  show ?thesis
    using sol_cancel_escrow_ok [OF *] by (auto simp: escrow_view_def escrow_moves.accept_it escrow_moves.cancel_open escrow_moves.cancel_locked)
next
  case (Register_Provider a p)
  then show ?thesis using assms by (auto dest!: sol_register_provider_ok simp: escrow_view_def)
qed (use assms in \<open>auto dest!: instr_ok simp: bridge_mint_fails escrow_view_def\<close>)


section \<open>What the token program and the runtime promise\<close>

text \<open>An account that grows keeps its mint, owner and delegate and loses nothing.\<close>

definition grows :: "token_account \<Rightarrow> token_account option \<Rightarrow> bool" where
  "grows t t' \<longleftrightarrow> (\<exists>u. t' = Some u \<and> ta_mint u = ta_mint t \<and> ta_owner u = ta_owner t \<and> ta_delegate u = ta_delegate t \<and>
     ta_amount t \<le> ta_amount u)"

definition bank_grows :: "token_bank \<Rightarrow> token_bank \<Rightarrow> bool" where
  "bank_grows b b' \<longleftrightarrow> (\<forall>k t. tb_accounts b k = Some t \<longrightarrow> grows t (tb_accounts b' k))"

text \<open>May \<open>auth\<close> take tokens out of an account?\<close>

definition may_debit :: "token_account \<Rightarrow> pubkey \<Rightarrow> bool" where
  "may_debit t auth \<longleftrightarrow> ta_owner t = auth \<or> ta_delegate t = Some auth"

text \<open>The documented behaviour relied on: only an account whose owner or delegate signs loses tokens; a new account
  is empty and has no delegate; a transfer moves the amount and goes through when the owner signs, both accounts
  have the same mint and are not frozen, and the amounts fit; addresses are found with their bump; a seed has at most
  32 bytes.\<close>

definition init_law :: "sol_env \<Rightarrow> bool" where
  "init_law env \<longleftrightarrow> (\<forall>k mint owner b b'. tok_init env k mint owner b = Some b' \<longrightarrow> tb_accounts b k = None \<and>
     tb_accounts b' = (tb_accounts b)(k \<mapsto> \<lparr>ta_mint = mint, ta_owner = owner, ta_amount = 0, ta_delegate = None, ta_frozen = False\<rparr>))"

definition transfer_law :: "sol_env \<Rightarrow> bool" where
  "transfer_law env \<longleftrightarrow> (\<forall>src dst auth n b b'. tok_transfer env src dst auth n b = Some b' \<longrightarrow>
     (\<exists>t u. tb_accounts b src = Some t \<and> tb_accounts b dst = Some u \<and> may_debit t auth \<and> n \<le> ta_amount t \<and>
        (if src = dst then tb_accounts b' = tb_accounts b
         else unat (ta_amount u) + unat n < 2 ^ 64 \<and>
           tb_accounts b' = (tb_accounts b)(src \<mapsto> t\<lparr>ta_amount := ta_amount t - n\<rparr>, dst \<mapsto> u\<lparr>ta_amount := ta_amount u + n\<rparr>))))"

definition transfer_succeeds_law :: "sol_env \<Rightarrow> bool" where
  "transfer_succeeds_law env \<longleftrightarrow> (\<forall>src dst auth n b t u. tb_accounts b src = Some t \<longrightarrow> tb_accounts b dst = Some u \<longrightarrow>
     ta_owner t = auth \<longrightarrow> ta_mint t = ta_mint u \<longrightarrow> \<not> ta_frozen t \<longrightarrow> \<not> ta_frozen u \<longrightarrow> n \<le> ta_amount t \<longrightarrow>
     unat (ta_amount u) + unat n < 2 ^ 64 \<longrightarrow> tok_transfer env src dst auth n b \<noteq> None)"

definition burn_law :: "sol_env \<Rightarrow> bool" where
  "burn_law env \<longleftrightarrow> (\<forall>mint src auth n b b'. tok_burn env mint src auth n b = Some b' \<longrightarrow>
     (\<exists>t. tb_accounts b src = Some t \<and> may_debit t auth) \<and>
     (\<forall>k v. tb_accounts b k = Some v \<longrightarrow> k \<noteq> src \<longrightarrow> grows v (tb_accounts b' k)))"

definition growth_law :: "sol_env \<Rightarrow> bool" where
  "growth_law env \<longleftrightarrow>
     (\<forall>mint to auth n b b'. tok_mint_to env mint to auth n b = Some b' \<longrightarrow> bank_grows b b') \<and>
     (\<forall>mint auth name uri b b'. meta_create env mint auth name uri b = Some b' \<longrightarrow> bank_grows b b') \<and>
     (\<forall>mint auth b b'. meta_edition env mint auth b = Some b' \<longrightarrow> bank_grows b b') \<and>
     (\<forall>delegate k mint b b'. meta_freeze env delegate k mint b = Some b' \<longrightarrow> bank_grows b b')"

definition token_laws :: "sol_env \<Rightarrow> bool" where
  "token_laws env \<longleftrightarrow> init_law env \<and> transfer_law env \<and> transfer_succeeds_law env \<and> burn_law env \<and> growth_law env"

definition pda_laws :: "sol_env \<Rightarrow> bool" where
  "pda_laws env \<longleftrightarrow> (\<forall>seeds k bump. find_pda env seeds = Some (k, bump) \<longrightarrow>
     create_pda env seeds bump = Some k \<and> (\<forall>x\<in>set seeds. length x \<le> 32))"

definition is_pda :: "sol_env \<Rightarrow> pubkey \<Rightarrow> bool" where
  "is_pda env k \<longleftrightarrow> (\<exists>seeds bump. create_pda env seeds bump = Some k)"

text \<open>A transaction of users: nobody holds the key of a derived address. Outside the program, token accounts owned
  by a derived address can only grow.\<close>

definition user_tx :: "sol_env \<Rightarrow> sol_tx \<Rightarrow> bool" where
  "user_tx env tx \<longleftrightarrow> (\<forall>k\<in>set (tx_signers tx). \<not> is_pda env k)"

definition outside_step :: "sol_env \<Rightarrow> token_bank \<Rightarrow> token_bank \<Rightarrow> bool" where
  "outside_step env b b' \<longleftrightarrow> (\<forall>k t. tb_accounts b k = Some t \<longrightarrow> is_pda env (ta_owner t) \<longrightarrow> grows t (tb_accounts b' k))"

text \<open>The chains that transactions of users and the outside world lead to from a chain without the program's accounts.\<close>

inductive sol_reach :: "sol_env \<Rightarrow> sol_chain \<Rightarrow> bool" for env where
  deployed: "sc_accounts s = (\<lambda>_. None) \<Longrightarrow> sol_reach env s"
| transaction: "sol_reach env s \<Longrightarrow> user_tx env tx \<Longrightarrow> sol_reach env (sol_exec env tx i s)"
| outside: "sol_reach env s \<Longrightarrow> outside_step env (sc_bank s) b \<Longrightarrow> sol_reach env (s\<lparr>sc_bank := b\<rparr>)"

lemma fee_inv_exec: "fee_inv s \<Longrightarrow> fee_inv (sol_exec env tx i s)"
  by (auto simp: sol_exec_def intro: fee_inv_run split: prod.split sum.split)

lemma fee_inv_reach: "sol_reach env s \<Longrightarrow> fee_inv s"
  by (induction rule: sol_reach.induct) (simp_all add: fee_inv_exec, simp add: fee_inv_def)

text \<open>C6: Every transaction is a step of the abstract escrow. On any chain the program can reach, an instruction leaves each
  escrow as it was or moves it along open, locked, settled or open or locked, cancelled; the amount locked never changes, a
  settlement charges at most that amount, and its fee is the floor of at most a tenth of the charge. A settled or cancelled
  escrow never moves again.\<close>

theorem escrow_refines_lifecycle:
  assumes "sol_reach env s"
  shows "escrow_view (sol_exec env tx i s) k = escrow_view s k \<or>
    escrow_moves (escrow_view s k) (escrow_view (sol_exec env tx i s) k)"
  using run_escrow_moves [OF fee_inv_reach [OF assms]] by (auto simp: sol_exec_def split: prod.split sum.split)

text \<open>The bridge can never mint. No instruction creates the nonce account that \<open>bridge_mint\<close> requires, so on every chain
  the program can reach it fails, whoever signs, and the total minted stays zero.\<close>

theorem bridge_mint_never_succeeds:
  assumes "sol_reach env s"
  shows "(\<exists>e s'. bridge_mint env tx a amount nonce s = (Inl e, s')) \<and>
    (\<forall>k c. sc_accounts s k = Some (A_Config c) \<longrightarrow> cfg_total_minted c = 0)"
  using bridge_mint_fails [OF fee_inv_reach [OF assms]] fee_invD [OF fee_inv_reach [OF assms]]
  by (metis old.prod.exhaust sum.exhaust)

section \<open>Every live escrow is backed by its vault\<close>

definition vault_ok :: "token_bank \<Rightarrow> pubkey \<Rightarrow> job_escrow \<Rightarrow> bool" where
  "vault_ok b k e \<longleftrightarrow> (\<exists>v. tb_accounts b (je_vault e) = Some v \<and> ta_owner v = k \<and> ta_delegate v = None \<and> je_locked_nmc e \<le> ta_amount v)"

definition live :: "job_escrow \<Rightarrow> bool" where
  "live e \<longleftrightarrow> je_state e = Es_Open \<or> je_state e = Es_Locked"

definition vault_inv :: "sol_env \<Rightarrow> sol_chain \<Rightarrow> bool" where
  "vault_inv env s \<longleftrightarrow> (\<forall>k e. sc_accounts s k = Some (A_Escrow e) \<longrightarrow>
     create_pda env (escrow_seeds e) (je_bump e) = Some k \<and> (live e \<longrightarrow> vault_ok (sc_bank s) k e))"

lemma vault_invD: "vault_inv env s \<Longrightarrow> sc_accounts s k = Some (A_Escrow e) \<Longrightarrow>
    create_pda env (escrow_seeds e) (je_bump e) = Some k \<and> is_pda env k \<and> (live e \<longrightarrow> vault_ok (sc_bank s) k e)"
  by (auto simp: vault_inv_def is_pda_def)

lemma vault_ok_grows: "vault_ok b k e \<Longrightarrow> (\<And>t. tb_accounts b (je_vault e) = Some t \<Longrightarrow> grows t (tb_accounts b' (je_vault e))) \<Longrightarrow>
    vault_ok b' k e"
  unfolding vault_ok_def grows_def by (metis order_trans)

lemma vault_ok_bank_grows: "bank_grows b b' \<Longrightarrow> vault_ok b k e \<Longrightarrow> vault_ok b' k e"
  by (erule vault_ok_grows) (simp add: bank_grows_def)

lemma tok_init_grows: "init_law env \<Longrightarrow> tok_init env k mint owner b = Some b' \<Longrightarrow> bank_grows b b'"
  unfolding init_law_def bank_grows_def grows_def by fastforce

lemma bank_grows_refl [simp]: "bank_grows b b"
  by (simp add: bank_grows_def grows_def)

lemma grows_trans: "grows t (Some u) \<Longrightarrow> grows u w \<Longrightarrow> grows t w"
  by (auto simp: grows_def)

lemma bank_grows_trans: "bank_grows a b \<Longrightarrow> bank_grows b c \<Longrightarrow> bank_grows a c"
  unfolding bank_grows_def
proof (intro allI impI)
  fix k t
  assume *: "\<forall>k t. tb_accounts a k = Some t \<longrightarrow> grows t (tb_accounts b k)"
    "\<forall>k t. tb_accounts b k = Some t \<longrightarrow> grows t (tb_accounts c k)" "tb_accounts a k = Some t"
  then obtain u where u: "tb_accounts b k = Some u" unfolding grows_def by blast
  with * have "grows t (Some u)" "grows u (tb_accounts c k)" by metis+
  then show "grows t (tb_accounts c k)" by (rule grows_trans)
qed

lemma ata_made_grows: "init_law env \<Longrightarrow> ata_made env k mint owner b b' \<Longrightarrow> bank_grows b b'"
  by (auto simp: ata_made_def dest: tok_init_grows split: option.splits)

text \<open>A transfer or a burn that somebody else signs cannot touch a vault.\<close>

lemma amount_grows: "unat a + unat n < 2 ^ 64 \<Longrightarrow> a \<le> a + (n :: 64 word)"
  by (simp add: word_le_nat_alt unat_word_ariths)

lemma transfer_vault_ok:
  assumes "transfer_law env" "tok_transfer env src dst auth n b = Some b'" "auth \<noteq> k" "vault_ok b k e"
  shows "vault_ok b' k e"
proof -
  from assms(1,2) obtain t u where t: "tb_accounts b src = Some t" "tb_accounts b dst = Some u" "may_debit t auth"
    and b': "if src = dst then tb_accounts b' = tb_accounts b
      else unat (ta_amount u) + unat n < 2 ^ 64 \<and>
        tb_accounts b' = (tb_accounts b)(src \<mapsto> t\<lparr>ta_amount := ta_amount t - n\<rparr>, dst \<mapsto> u\<lparr>ta_amount := ta_amount u + n\<rparr>)"
    unfolding transfer_law_def by blast
  from assms(3,4) t have "je_vault e \<noteq> src" by (auto simp: vault_ok_def may_debit_def)
  then show ?thesis using assms(4) b' t amount_grows [of "ta_amount u" n]
    by (auto simp: vault_ok_def split: if_splits)
qed

lemma burn_vault_ok:
  assumes "burn_law env" "tok_burn env mint src auth n b = Some b'" "auth \<noteq> k" "vault_ok b k e"
  shows "vault_ok b' k e"
proof -
  from assms obtain t where t: "tb_accounts b src = Some t" "may_debit t auth"
    and other: "\<And>k v. tb_accounts b k = Some v \<Longrightarrow> k \<noteq> src \<Longrightarrow> grows v (tb_accounts b' k)"
    unfolding burn_law_def by blast
  from assms(3,4) t have "je_vault e \<noteq> src" by (auto simp: vault_ok_def may_debit_def)
  then show ?thesis using assms(4) other by (blast intro: vault_ok_grows)
qed

lemma paid_vault_ok: "transfer_law env \<Longrightarrow> paid env src dst auth n b b' \<Longrightarrow> auth \<noteq> k \<Longrightarrow> vault_ok b k e \<Longrightarrow> vault_ok b' k e"
  by (auto simp: paid_def transfer_vault_ok split: if_splits)

lemma take_job_id: "length jid \<le> 64 \<Longrightarrow> take (unat (word_of_nat (length jid) :: 8 word)) (byte_array 64 jid) = jid"
  by (simp add: byte_array_def unsigned_of_nat take_bit_nat_eq_self)

lemma vault_inv_update:
  assumes "vault_inv env s" "sc_accounts s k0 = Some (A_Escrow e)" "escrow_seeds e' = escrow_seeds e" "je_bump e' = je_bump e"
    "live e' \<Longrightarrow> vault_ok b k0 e'" "\<And>k x. k \<noteq> k0 \<Longrightarrow> is_pda env k \<Longrightarrow> vault_ok (sc_bank s) k x \<Longrightarrow> vault_ok b k x"
  shows "vault_inv env (s\<lparr>sc_accounts := (sc_accounts s)(k0 \<mapsto> A_Escrow e'), sc_bank := b\<rparr>)"
  using assms vault_invD [OF assms(1)] by (auto simp: vault_inv_def)

lemma vault_inv_other:
  assumes "vault_inv env s" "\<And>e. a \<noteq> A_Escrow e" "\<And>k x. is_pda env k \<Longrightarrow> vault_ok (sc_bank s) k x \<Longrightarrow> vault_ok b k x"
  shows "vault_inv env (s\<lparr>sc_accounts := (sc_accounts s)(k0 \<mapsto> a), sc_bank := b\<rparr>)"
  using assms vault_invD [OF assms(1)] by (auto simp: vault_inv_def)


lemma vault_inv_put:
  "vault_inv env s \<Longrightarrow> (\<And>e. a \<noteq> A_Escrow e) \<Longrightarrow> vault_inv env (s\<lparr>sc_accounts := (sc_accounts s)(k0 \<mapsto> a)\<rparr>)"
  by (simp add: vault_inv_def)

lemma growth_lawD:
  assumes "growth_law env"
  shows "tok_mint_to env mint to auth n b = Some b' \<Longrightarrow> bank_grows b b'"
    and "meta_create env mint auth name uri b = Some b' \<Longrightarrow> bank_grows b b'"
    and "meta_edition env mint auth b = Some b' \<Longrightarrow> bank_grows b b'"
    and "meta_freeze env delegate k mint b = Some b' \<Longrightarrow> bank_grows b b'"
  using assms unfolding growth_law_def by metis+

lemma register_bank_grows:
  assumes "token_laws env" "sol_register_provider env tx a p s = (Inr ev, s')"
  shows "bank_grows (sc_bank s) (sc_bank s')"
proof -
  from sol_register_provider_ok [OF assms(2)] obtain b0 b1 b2 b3 b4 where
    "ata_made env (ra_provider_nft_account a) (ra_nft_mint a) (ra_provider a) (sc_bank s) b0"
    "tok_mint_to env (ra_nft_mint a) (ra_provider_nft_account a) (ra_config a) 1 b0 = Some b1"
    "meta_create env (ra_nft_mint a) (ra_config a) (''NM-GPU '' @ pa_gpu_model p) (pa_metadata_uri p) b1 = Some b2"
    "meta_edition env (ra_nft_mint a) (ra_config a) b2 = Some b3"
    "meta_freeze env (ra_config a) (ra_provider_nft_account a) (ra_nft_mint a) b3 = Some b4" and s': "sc_bank s' = b4" by auto
  moreover have "init_law env" "growth_law env" using assms(1) by (simp_all add: token_laws_def)
  ultimately have "bank_grows (sc_bank s) b0" "bank_grows b0 b1" "bank_grows b1 b2" "bank_grows b2 b3" "bank_grows b3 b4"
    by (auto intro: ata_made_grows growth_lawD)
  then show ?thesis unfolding s' by (blast intro: bank_grows_trans)
qed

lemma vault_inv_create:
  assumes "token_laws env" "pda_laws env" "user_tx env tx" "vault_inv env s"
    and run: "sol_create_escrow env tx a jid n price dur s = (Inr ev, s')"
  shows "vault_inv env s'"
proof -
  from sol_create_escrow_ok [OF run] obtain bump b1 b2 where new: "sc_accounts s (ce_escrow a) = None"
    and signer: "ce_consumer a \<in> set (tx_signers tx)" and len: "length jid \<le> 64"
    and pda: "find_pda env [''escrow'', jid] = Some (ce_escrow a, bump)"
    and init: "tok_init env (ce_vault a) (ce_nmc_mint a) (ce_escrow a) (sc_bank s) = Some b1"
    and pay: "tok_transfer env (ce_consumer_token_account a) (ce_vault a) (ce_consumer a) n b1 = Some b2"
    and s': "s' = s\<lparr>sc_accounts := (sc_accounts s)(ce_escrow a \<mapsto> A_Escrow (created_escrow a jid n price dur (tx_now tx) bump)), sc_bank := b2\<rparr>"
    by auto
  have laws: "init_law env" "transfer_law env" using assms(1) by (simp_all add: token_laws_def)
  have at: "create_pda env [''escrow'', jid] bump = Some (ce_escrow a)" using assms(2) pda unfolding pda_laws_def by blast
  then have isp: "is_pda env (ce_escrow a)" by (auto simp: is_pda_def)
  have nosign: "ce_consumer a \<noteq> k" if "is_pda env k" for k using assms(3) signer that by (auto simp: user_tx_def)
  have old: "vault_ok b2 k x" if "is_pda env k" "vault_ok (sc_bank s) k x" for k x
    using tok_init_grows [OF laws(1) init] that pay nosign transfer_vault_ok [OF laws(2) pay] vault_ok_bank_grows by blast
  have v: "tb_accounts b1 (ce_vault a) = Some \<lparr>ta_mint = ce_nmc_mint a, ta_owner = ce_escrow a, ta_amount = 0, ta_delegate = None, ta_frozen = False\<rparr>"
    using laws(1) [unfolded init_law_def, rule_format, OF init] by simp
  from laws(2) pay obtain t u where t: "tb_accounts b1 (ce_consumer_token_account a) = Some t"
    "tb_accounts b1 (ce_vault a) = Some u" "may_debit t (ce_consumer a)"
    "ce_consumer_token_account a \<noteq> ce_vault a \<longrightarrow> tb_accounts b2 (ce_vault a) = Some (u\<lparr>ta_amount := ta_amount u + n\<rparr>)"
    unfolding transfer_law_def by (metis fun_upd_same)
  have u: "u = \<lparr>ta_mint = ce_nmc_mint a, ta_owner = ce_escrow a, ta_amount = 0, ta_delegate = None, ta_frozen = False\<rparr>"
    using t(2) v by simp
  have "ce_consumer_token_account a \<noteq> ce_vault a" using t v nosign [OF isp] by (auto simp: may_debit_def)
  then have "vault_ok b2 (ce_escrow a) (created_escrow a jid n price dur (tx_now tx) bump)"
    using t(4) unfolding vault_ok_def by (auto simp: created_escrow_def u)
  moreover have "escrow_seeds (created_escrow a jid n price dur (tx_now tx) bump) = [''escrow'', jid]"
    using len by (simp add: escrow_seeds_def created_escrow_def take_job_id)
  moreover have "je_bump (created_escrow a jid n price dur (tx_now tx) bump) = bump" by (simp add: created_escrow_def)
  ultimately show ?thesis using at old vault_invD [OF assms(4)] unfolding s' by (auto simp: vault_inv_def)
qed

lemma vault_inv_run:
  assumes laws: "token_laws env" "pda_laws env" and tx: "user_tx env tx" and inv: "vault_inv env s" "fee_inv s"
    and run: "sol_run env tx i s = (Inr ev, s')"
  shows "vault_inv env s'"
proof (cases i)
  case (Bridge_Burn a n)
  then have *: "bridge_burn env tx a n s = (Inr ev, s')" using run by simp
  from bridge_burn_ok [OF *] obtain cfg b total where signer: "bb_user a \<in> set (tx_signers tx)"
    and burn: "tok_burn env (bb_nmc_mint a) (bb_user_token_account a) (bb_user a) n (sc_bank s) = Some b"
    and s': "s' = s\<lparr>sc_accounts := (sc_accounts s)(bb_config a \<mapsto> A_Config (cfg\<lparr>cfg_total_burned := total\<rparr>)), sc_bank := b\<rparr>" by blast
  have "vault_ok b k x" if "is_pda env k" "vault_ok (sc_bank s) k x" for k x
    using that signer tx burn laws(1) burn_vault_ok unfolding token_laws_def user_tx_def by metis
  then show ?thesis unfolding s' using inv(1) by (intro vault_inv_other) auto
next
  case (Register_Provider a p)
  then have *: "sol_register_provider env tx a p s = (Inr ev, s')" using run by simp
  from sol_register_provider_ok [OF *] register_bank_grows [OF laws(1) *] show ?thesis using inv
    by (auto intro!: vault_inv_other intro: vault_ok_bank_grows)
next
  case (Create_Escrow a jid n price dur)
  then show ?thesis using vault_inv_create [OF laws tx inv(1)] run by simp
next
  case (Lock_Escrow a)
  then have *: "sol_lock_escrow env tx a s = (Inr ev, s')" using run by simp
  from sol_lock_escrow_ok [OF *] obtain e dl where e: "sc_accounts s (la_escrow a) = Some (A_Escrow e)" "je_state e = Es_Open"
    and s': "s' = s\<lparr>sc_accounts := (sc_accounts s)(la_escrow a \<mapsto> A_Escrow (e\<lparr>je_state := Es_Locked, je_deadline := dl\<rparr>)), sc_bank := sc_bank s\<rparr>"
    by auto
  show ?thesis unfolding s' using inv e vault_invD [OF inv(1) e(1)]
    by (intro vault_inv_update) (auto simp: escrow_seeds_def live_def vault_ok_def)
next
  case (Release_Escrow a cost)
  then have *: "sol_release_escrow env tx a cost s = (Inr ev, s')" using run by simp
  from sol_release_escrow_ok [OF *] obtain e fee b1 b2 b3 where e: "sc_accounts s (re_escrow a) = Some (A_Escrow e)"
    and pay: "paid env (re_vault a) (re_provider_token_account a) (re_escrow a) (cost - fee) (sc_bank s) b1"
      "paid env (re_vault a) (re_fee_collector a) (re_escrow a) fee b1 b2"
      "paid env (re_vault a) (re_consumer_token_account a) (re_escrow a) (je_locked_nmc e - cost) b2 b3"
    and s': "s' = s\<lparr>sc_accounts := (sc_accounts s)(re_escrow a \<mapsto> A_Escrow (e\<lparr>je_actual_cost := cost, je_fee_collected := fee,
         je_state := Es_Settled, je_settled_at := tx_now tx\<rparr>)), sc_bank := b3\<rparr>" by blast
  have "vault_ok b3 k x" if "k \<noteq> re_escrow a" "vault_ok (sc_bank s) k x" for k x
    using that pay laws(1) paid_vault_ok unfolding token_laws_def by metis
  then show ?thesis unfolding s' using inv e by (intro vault_inv_update) (auto simp: escrow_seeds_def live_def)
next
  case (Cancel_Escrow a)
  then have *: "sol_cancel_escrow env tx a s = (Inr ev, s')" using run by simp
  from sol_cancel_escrow_ok [OF *] obtain e b where e: "sc_accounts s (ca_escrow a) = Some (A_Escrow e)"
    and pay: "tok_transfer env (ca_vault a) (ca_consumer_token_account a) (ca_escrow a) (je_locked_nmc e) (sc_bank s) = Some b"
    and s': "s' = s\<lparr>sc_accounts := (sc_accounts s)(ca_escrow a \<mapsto> A_Escrow (e\<lparr>je_state := Es_Cancelled\<rparr>)), sc_bank := b\<rparr>" by blast
  have "vault_ok b k x" if "k \<noteq> ca_escrow a" "vault_ok (sc_bank s) k x" for k x
    using that pay laws(1) transfer_vault_ok unfolding token_laws_def by metis
  then show ?thesis unfolding s' using inv e by (intro vault_inv_update) (auto simp: escrow_seeds_def live_def)
next
  case (Initialize a f l)
  then show ?thesis using run inv(1) by (auto dest!: sol_initialize_ok intro!: vault_inv_put)
next
  case (Revoke_Provider a)
  then show ?thesis using run inv(1) by (auto dest!: revoke_provider_ok intro!: vault_inv_put)
next
  case (Update_Config a f l)
  then show ?thesis using run inv(1) by (auto dest!: sol_update_config_ok intro!: vault_inv_put)
next
  case (Bridge_Mint a n x)
  then show ?thesis using run bridge_mint_fails [OF inv(2)] by simp
qed

lemma vault_ok_outside: "outside_step env b b' \<Longrightarrow> is_pda env k \<Longrightarrow> vault_ok b k e \<Longrightarrow> vault_ok b' k e"
  by (rule vault_ok_grows) (auto simp: outside_step_def vault_ok_def)

lemma vault_inv_outside: "vault_inv env s \<Longrightarrow> outside_step env (sc_bank s) b \<Longrightarrow> vault_inv env (s\<lparr>sc_bank := b\<rparr>)"
proof -
  assume *: "vault_inv env s" "outside_step env (sc_bank s) b"
  show ?thesis unfolding vault_inv_def
  proof (intro allI impI)
    fix k e
    assume "sc_accounts (s\<lparr>sc_bank := b\<rparr>) k = Some (A_Escrow e)"
    then have "sc_accounts s k = Some (A_Escrow e)" by simp
    from vault_invD [OF *(1) this] vault_ok_outside [OF *(2)]
    show "create_pda env (escrow_seeds e) (je_bump e) = Some k \<and> (live e \<longrightarrow> vault_ok (sc_bank (s\<lparr>sc_bank := b\<rparr>)) k e)"
      by auto
  qed
qed

lemma vault_inv_reach:
  assumes "token_laws env" "pda_laws env"
  shows "sol_reach env s \<Longrightarrow> vault_inv env s"
proof (induction rule: sol_reach.induct)
  case (deployed s)
  then show ?case by (simp add: vault_inv_def)
next
  case (transaction s tx i)
  then show ?case using vault_inv_run [OF assms] fee_inv_reach by (auto simp: sol_exec_def split: prod.split sum.split)
next
  case (outside s b)
  then show ?case by (simp add: vault_inv_outside)
qed


text \<open>C7: A live escrow can always be paid. On every chain that users can bring about, the vault of an escrow that is open or
  locked belongs to the escrow, nobody is delegated to spend it, and it holds at least the amount locked.\<close>

theorem escrow_vault_backed:
  assumes "token_laws env" "pda_laws env" "sol_reach env s"
    and "sc_accounts s k = Some (A_Escrow e)" "je_state e = Es_Open \<or> je_state e = Es_Locked"
  shows "\<exists>v. tb_accounts (sc_bank s) (je_vault e) = Some v \<and> ta_owner v = k \<and> ta_delegate v = None \<and> je_locked_nmc e \<le> ta_amount v"
  using vault_invD [OF vault_inv_reach [OF assms(1-3)] assms(4)] assms(5) by (simp add: vault_ok_def live_def)


section \<open>Settlement\<close>

definition config_inv :: "sol_env \<Rightarrow> sol_chain \<Rightarrow> bool" where
  "config_inv env s \<longleftrightarrow> (\<forall>k c. sc_accounts s k = Some (A_Config c) \<longrightarrow> create_pda env config_seeds (cfg_bump c) = Some k)"

lemma config_inv_put [simp]: "config_inv env s \<Longrightarrow> config_inv env (s\<lparr>sc_accounts := (sc_accounts s)(k \<mapsto> a)\<rparr>) \<longleftrightarrow>
    (case a of A_Config c \<Rightarrow> create_pda env config_seeds (cfg_bump c) = Some k | _ \<Rightarrow> True)"
  by (auto simp: config_inv_def split: program_account.split)

lemma config_inv_bank [simp]: "config_inv env (s\<lparr>sc_bank := b\<rparr>) = config_inv env s"
  by (simp add: config_inv_def)

lemma config_invD: "config_inv env s \<Longrightarrow> sc_accounts s k = Some (A_Config c) \<Longrightarrow> create_pda env config_seeds (cfg_bump c) = Some k"
  by (simp add: config_inv_def)

lemma config_inv_run:
  assumes "pda_laws env" "fee_inv s" "config_inv env s" "sol_run env tx i s = (Inr ev, s')"
  shows "config_inv env s'"
proof (cases i)
  case (Initialize a f l)
  then show ?thesis using assms by (auto dest!: sol_initialize_ok simp: pda_laws_def)
next
  case (Update_Config a f l)
  then show ?thesis using assms by (auto dest!: sol_update_config_ok dest: config_invD)
qed (use assms in \<open>auto dest!: instr_ok dest: config_invD simp: bridge_mint_fails\<close>)

lemma config_inv_reach:
  assumes "pda_laws env"
  shows "sol_reach env s \<Longrightarrow> config_inv env s"
proof (induction rule: sol_reach.induct)
  case (transaction s tx i)
  then show ?case by (auto simp: sol_exec_def intro: config_inv_run [OF assms] fee_inv_reach split: prod.split sum.split)
qed (simp_all add: config_inv_def)

text \<open>The tokens an account holds.\<close>

definition held :: "token_bank \<Rightarrow> pubkey \<Rightarrow> nat" where
  "held b k = (case tb_accounts b k of Some t \<Rightarrow> unat (ta_amount t) | None \<Rightarrow> 0)"

text \<open>An account that can receive \<open>n\<close> tokens of a mint.\<close>

definition receives :: "token_bank \<Rightarrow> pubkey \<Rightarrow> pubkey \<Rightarrow> nat \<Rightarrow> bool" where
  "receives b mint k n \<longleftrightarrow> (\<exists>u. tb_accounts b k = Some u \<and> ta_mint u = mint \<and> \<not> ta_frozen u \<and> unat (ta_amount u) + n < 2 ^ 64)"

text \<open>An account whose owner can send \<open>n\<close> tokens.\<close>

definition sends :: "token_bank \<Rightarrow> pubkey \<Rightarrow> pubkey \<Rightarrow> pubkey \<Rightarrow> nat \<Rightarrow> bool" where
  "sends b mint k owner n \<longleftrightarrow> (\<exists>t. tb_accounts b k = Some t \<and> ta_mint t = mint \<and> ta_owner t = owner \<and> \<not> ta_frozen t \<and> n \<le> unat (ta_amount t))"

lemma transfer_step:
  assumes laws: "transfer_law env" "transfer_succeeds_law env" and "src \<noteq> dst"
    and "sends b mint src auth (unat n)" "receives b mint dst (unat n)"
  obtains b' where "tok_transfer env src dst auth n b = Some b'" "held b' src = held b src - unat n" "held b' dst = held b dst + unat n"
    "\<And>k. k \<noteq> src \<Longrightarrow> k \<noteq> dst \<Longrightarrow> tb_accounts b' k = tb_accounts b k" "\<And>m. sends b mint src auth (unat n + m) \<Longrightarrow> sends b' mint src auth m"
proof -
  from assms(4,5) obtain t u where t: "tb_accounts b src = Some t" "ta_mint t = mint" "ta_owner t = auth" "\<not> ta_frozen t" "n \<le> ta_amount t"
    and u: "tb_accounts b dst = Some u" "ta_mint u = mint" "\<not> ta_frozen u" "unat (ta_amount u) + unat n < 2 ^ 64"
    by (auto simp: sends_def receives_def word_le_nat_alt)
  have "tok_transfer env src dst auth n b \<noteq> None"
    by (rule laws(2) [unfolded transfer_succeeds_law_def, rule_format, OF t(1) u(1) t(3) _ t(4) u(3) t(5) u(4)])
      (simp add: t(2) u(2))
  then obtain b' where b': "tok_transfer env src dst auth n b = Some b'" by blast
  obtain t' u' where "tb_accounts b src = Some t'" "tb_accounts b dst = Some u'"
    "if src = dst then tb_accounts b' = tb_accounts b
     else unat (ta_amount u') + unat n < 2 ^ 64 \<and>
       tb_accounts b' = (tb_accounts b)(src \<mapsto> t'\<lparr>ta_amount := ta_amount t' - n\<rparr>, dst \<mapsto> u'\<lparr>ta_amount := ta_amount u' + n\<rparr>)"
    using laws(1) [unfolded transfer_law_def, rule_format, OF b'] by blast
  then have acc: "tb_accounts b' = (tb_accounts b)(src \<mapsto> t\<lparr>ta_amount := ta_amount t - n\<rparr>, dst \<mapsto> u\<lparr>ta_amount := ta_amount u + n\<rparr>)"
    using t(1) u(1) \<open>src \<noteq> dst\<close> by simp
  have n: "unat (ta_amount t - n) = unat (ta_amount t) - unat n" "unat (ta_amount u + n) = unat (ta_amount u) + unat n"
    using t(5) u(4) by (simp_all add: unat_sub unat_word_ariths)
  show ?thesis
    by (rule that [OF b']) (use acc n t u \<open>src \<noteq> dst\<close> in \<open>auto simp: held_def sends_def\<close>)
qed


text \<open>The payment of a share out of a vault; an empty share moves nothing.\<close>

lemma paid_step:
  assumes laws: "transfer_law env" "transfer_succeeds_law env" and "src \<noteq> dst"
    and "sends b mint src auth (unat n)" "receives b mint dst (unat n)"
  obtains b' where "paid env src dst auth n b b'" "held b' src = held b src - unat n" "held b' dst = held b dst + unat n"
    "\<And>k. k \<noteq> src \<Longrightarrow> k \<noteq> dst \<Longrightarrow> tb_accounts b' k = tb_accounts b k" "\<And>m. sends b mint src auth (unat n + m) \<Longrightarrow> sends b' mint src auth m"
proof (cases "0 < n")
  case True
  obtain b' where "tok_transfer env src dst auth n b = Some b'" "held b' src = held b src - unat n" "held b' dst = held b dst + unat n"
    "\<And>k. k \<noteq> src \<Longrightarrow> k \<noteq> dst \<Longrightarrow> tb_accounts b' k = tb_accounts b k" "\<And>m. sends b mint src auth (unat n + m) \<Longrightarrow> sends b' mint src auth m"
    using transfer_step [OF assms] by blast
  with True show ?thesis using that [of b'] by (simp add: paid_def)
next
  case False
  then have "n = 0" using word_gt_0 by blast
  then show ?thesis using that [of b] by (simp add: paid_def)
qed

lemma held_cong: "tb_accounts b' k = tb_accounts b k \<Longrightarrow> held b' k = held b k"
  by (simp add: held_def)

lemma receives_cong: "tb_accounts b' k = tb_accounts b k \<Longrightarrow> receives b' mint k n = receives b mint k n"
  by (simp add: receives_def)

lemma sends_less: "sends b mint k owner n \<Longrightarrow> m \<le> n \<Longrightarrow> sends b mint k owner m"
  by (auto simp: sends_def)

text \<open>Three payments out of one vault.\<close>

lemma pay_three:
  assumes laws: "transfer_law env" "transfer_succeeds_law env" and distinct: "distinct [v, p, f, c]"
    and vault: "sends b mint v k (unat n + unat m + unat r)"
    and to: "receives b mint p (unat n)" "receives b mint f (unat m)" "receives b mint c (unat r)"
  shows "\<exists>b1 b2 b3. paid env v p k n b b1 \<and> paid env v f k m b1 b2 \<and> paid env v c k r b2 b3 \<and>
    held b3 p = held b p + unat n \<and> held b3 f = held b f + unat m \<and> held b3 c = held b c + unat r \<and>
    held b3 v = held b v - (unat n + unat m + unat r)"
proof -
  have d: "v \<noteq> p" "v \<noteq> f" "v \<noteq> c" "p \<noteq> f" "p \<noteq> c" "f \<noteq> c" using distinct by auto
  have v0: "sends b mint v k (unat n + (unat m + unat r))" using vault by (simp add: add.assoc)
  obtain b1 where b1: "paid env v p k n b b1" "held b1 v = held b v - unat n" "held b1 p = held b p + unat n"
    "\<And>x. x \<noteq> v \<Longrightarrow> x \<noteq> p \<Longrightarrow> tb_accounts b1 x = tb_accounts b x"
    "\<And>m. sends b mint v k (unat n + m) \<Longrightarrow> sends b1 mint v k m"
    using paid_step [OF laws d(1) sends_less [OF v0] to(1)] by auto
  have v1: "sends b1 mint v k (unat m + unat r)" by (rule b1(5) [OF v0])
  have r1: "receives b1 mint f (unat m)" "receives b1 mint c (unat r)" using to d b1(4) by (simp_all add: receives_def)
  obtain b2 where b2: "paid env v f k m b1 b2" "held b2 v = held b1 v - unat m" "held b2 f = held b1 f + unat m"
    "\<And>x. x \<noteq> v \<Longrightarrow> x \<noteq> f \<Longrightarrow> tb_accounts b2 x = tb_accounts b1 x"
    "\<And>r. sends b1 mint v k (unat m + r) \<Longrightarrow> sends b2 mint v k r"
    using paid_step [OF laws d(2) sends_less [OF v1] r1(1)] by auto
  have r2: "receives b2 mint c (unat r)" using r1 d b2(4) by (simp add: receives_def)
  obtain b3 where b3: "paid env v c k r b2 b3" "held b3 v = held b2 v - unat r" "held b3 c = held b2 c + unat r"
    "\<And>x. x \<noteq> v \<Longrightarrow> x \<noteq> c \<Longrightarrow> tb_accounts b3 x = tb_accounts b2 x"
    "\<And>q. sends b2 mint v k (unat r + q) \<Longrightarrow> sends b3 mint v k q"
    using paid_step [OF laws d(3) b2(5) [OF v1] r2] by auto
  have "held b3 p = held b p + unat n" "held b3 f = held b f + unat m" "held b3 c = held b c + unat r"
    using b3 b2 b1 d by (simp_all add: held_def)
  moreover have "held b3 v = held b v - (unat n + unat m + unat r)" using b3(2) b2(2) b1(2) by simp
  ultimately show ?thesis using b1(1) b2(1) b3(1) by blast
qed

lemma bank_exists: "(\<exists>t. (\<exists>b. P b \<and> t = s\<lparr>sc_bank := b\<rparr>) \<and> Q t) \<longleftrightarrow> (\<exists>b. P b \<and> Q (s\<lparr>sc_bank := b\<rparr>))"
  by blast

text \<open>The settlement of a locked escrow. When the authority releases an escrow for a cost within the lock, and the three receivers are
  distinct accounts of the vault's mint that can take the amounts, the run succeeds: the fee is the cost times the platform fee
  over ten thousand, rounded down, the provider gets the cost less the fee, the consumer the rest of the lock, and the vault
  pays exactly the lock. (A cost whose product with the fee does not fit in 64 bits panics instead.)\<close>

theorem release_escrow_splits:
  assumes "token_laws env" "pda_laws env" "sol_reach env s"
    and cfg: "sc_accounts s ck = Some (A_Config cfg)" "cfg_authority cfg \<in> set (tx_signers tx)"
    and esc: "sc_accounts s k = Some (A_Escrow e)" "je_state e = Es_Locked" "cost \<le> je_locked_nmc e"
    and fee: "unat cost * unat (cfg_platform_fee_bps cfg) < 2 ^ 64" "fee = unat cost * unat (cfg_platform_fee_bps cfg) div 10000"
    and vault: "sends (sc_bank s) mint (je_vault e) k (unat (je_locked_nmc e))"
    and to: "receives (sc_bank s) mint p (unat cost)" "receives (sc_bank s) mint (cfg_fee_collector cfg) (unat cost)"
      "receives (sc_bank s) mint c (unat (je_locked_nmc e))"
    and distinct: "distinct [je_vault e, p, cfg_fee_collector cfg, c]"
  shows "\<exists>s' ev. sol_release_escrow env tx \<lparr>re_config = ck, re_escrow = k, re_vault = je_vault e, re_provider_token_account = p,
         re_consumer_token_account = c, re_fee_collector = cfg_fee_collector cfg, re_authority = cfg_authority cfg\<rparr> cost s = (Inr ev, s') \<and>
       escrow_view s' k = V_Settled (je_locked_nmc e) cost (word_of_nat fee) \<and>
       held (sc_bank s') p = held (sc_bank s) p + (unat cost - fee) \<and>
       held (sc_bank s') (cfg_fee_collector cfg) = held (sc_bank s) (cfg_fee_collector cfg) + fee \<and>
       held (sc_bank s') c = held (sc_bank s) c + (unat (je_locked_nmc e) - unat cost) \<and>
       held (sc_bank s') (je_vault e) = held (sc_bank s) (je_vault e) - unat (je_locked_nmc e)"
proof -
  let ?b = "sc_bank s" and ?f = "cost * ucast (cfg_platform_fee_bps cfg) div 10000 :: 64 word" and ?n = "je_locked_nmc e"
  have laws: "transfer_law env" "transfer_succeeds_law env" using assms(1) by (simp_all add: token_laws_def)
  have pda: "create_pda env config_seeds (cfg_bump cfg) = Some ck" "create_pda env (escrow_seeds e) (je_bump e) = Some k"
    using config_invD [OF config_inv_reach cfg(1)] vault_invD [OF vault_inv_reach esc(1)] assms(1-3) by blast+
  have uf: "unat ?f = fee" using fee by (subst mul64_fee) simp_all
  have bps: "unat (cfg_platform_fee_bps cfg) \<le> 1000"
    using fee_invD [OF fee_inv_reach [OF assms(3)] cfg(1)] by (simp add: max_fee_bps_def word_le_nat_alt)
  have "fee \<le> unat cost * 1000 div 10000" unfolding fee(2) by (rule div_le_mono, rule mult_le_mono2, rule bps)
  then have le: "?f \<le> cost" using uf by (simp add: word_le_nat_alt)
  then have us: "unat (cost - ?f) = unat cost - fee" "unat (?n - cost) = unat ?n - unat cost" "fee \<le> unat cost" "unat cost \<le> unat ?n"
    using esc(3) uf by (simp_all add: unat_sub word_le_nat_alt)
  have v: "sends ?b mint (je_vault e) k (unat (cost - ?f) + unat ?f + unat (?n - cost))"
    using vault us uf by (auto elim: sends_less)
  have r: "receives ?b mint p (unat (cost - ?f))" "receives ?b mint (cfg_fee_collector cfg) (unat ?f)" "receives ?b mint c (unat (?n - cost))"
    using to us uf by (auto simp: receives_def)
  obtain b1 b2 b3 where b: "paid env (je_vault e) p k (cost - ?f) ?b b1" "paid env (je_vault e) (cfg_fee_collector cfg) k ?f b1 b2"
      "paid env (je_vault e) c k (?n - cost) b2 b3"
    and held: "held b3 p = held ?b p + (unat cost - fee)" "held b3 (cfg_fee_collector cfg) = held ?b (cfg_fee_collector cfg) + fee"
      "held b3 c = held ?b c + (unat ?n - unat cost)" "held b3 (je_vault e) = held ?b (je_vault e) - (unat cost - fee + fee + (unat ?n - unat cost))"
    using pay_three [OF laws distinct v r, unfolded us(1) us(2) uf] by blast
  let ?s' = "s\<lparr>sc_bank := b3, sc_accounts := (sc_accounts s)(k \<mapsto> A_Escrow (e\<lparr>je_actual_cost := cost,
        je_fee_collected := ?f, je_state := Es_Settled, je_settled_at := tx_now tx\<rparr>))\<rparr>"
  let ?a = "\<lparr>re_config = ck, re_escrow = k, re_vault = je_vault e, re_provider_token_account = p,
         re_consumer_token_account = c, re_fee_collector = cfg_fee_collector cfg, re_authority = cfg_authority cfg\<rparr>"
  have tokens: "\<exists>t. tb_accounts ?b (je_vault e) = Some t" "\<exists>t. tb_accounts ?b p = Some t"
    "\<exists>t. tb_accounts ?b (cfg_fee_collector cfg) = Some t" "\<exists>t. tb_accounts ?b c = Some t"
    using vault to by (auto simp: sends_def receives_def)
  have "sol_release_escrow env tx ?a cost s = (Inr [EscrowSettledEvent (je_provider e) (je_consumer e) cost ?f (?n - cost)], ?s')"
    using cfg esc fee(1) le pda tokens b
    by (auto simp: sol_release_escrow_def Let_def release_ok bank_exists simp del: word_gt_0)
  moreover have "escrow_view ?s' k = V_Settled ?n cost (word_of_nat fee)"
    using uf by (auto simp: escrow_view_def)
  ultimately show ?thesis using held us by (intro exI [of _ ?s'] exI conjI) simp_all
qed


section \<open>Cancellation\<close>

text \<open>C8: Anybody can steal a live escrow. \<open>cancel_escrow\<close> checks neither its signer nor the account it refunds to: on every reachable
  chain, any signer can cancel an open or locked escrow and have the whole lock paid into any account of the vault's mint,
  although the accounts struct says that the consumer or the authority cancels.\<close>

theorem cancel_escrow_theft:
  assumes "token_laws env" "pda_laws env" "sol_reach env s"
    and cfg: "sc_accounts s ck = Some (A_Config cfg)"
    and esc: "sc_accounts s k = Some (A_Escrow e)" "je_state e = Es_Open \<or> je_state e = Es_Locked"
    and vault: "tb_accounts (sc_bank s) (je_vault e) = Some v" "\<not> ta_frozen v"
    and purse: "receives (sc_bank s) (ta_mint v) purse (unat (je_locked_nmc e))" "purse \<noteq> je_vault e"
    and thief: "thief \<in> set (tx_signers tx)"
  shows "\<exists>s'. sol_cancel_escrow env tx
        \<lparr>ca_config = ck, ca_escrow = k, ca_vault = je_vault e, ca_consumer_token_account = purse, ca_signer = thief\<rparr> s = (Inr [], s') \<and>
      escrow_view s' k = V_Cancelled (je_locked_nmc e) \<and>
      held (sc_bank s') purse = held (sc_bank s) purse + unat (je_locked_nmc e)"
proof -
  have laws: "transfer_law env" "transfer_succeeds_law env" using assms(1) by (simp_all add: token_laws_def)
  have inv: "create_pda env (escrow_seeds e) (je_bump e) = Some k" "vault_ok (sc_bank s) k e" "create_pda env config_seeds (cfg_bump cfg) = Some ck"
    using vault_invD [OF vault_inv_reach [OF assms(1-3)] esc(1)] esc(2) config_invD [OF config_inv_reach [OF assms(2,3)] cfg]
    by (simp_all add: live_def)
  then have "sends (sc_bank s) (ta_mint v) (je_vault e) k (unat (je_locked_nmc e))"
    using vault by (auto simp: vault_ok_def sends_def word_le_nat_alt)
  from transfer_step [OF laws purse(2) [symmetric] this purse(1)] obtain b where
    b: "tok_transfer env (je_vault e) purse k (je_locked_nmc e) (sc_bank s) = Some b"
      "held b purse = held (sc_bank s) purse + unat (je_locked_nmc e)" by metis
  let ?s' = "s\<lparr>sc_bank := b, sc_accounts := (sc_accounts s)(k \<mapsto> A_Escrow (e\<lparr>je_state := Es_Cancelled\<rparr>))\<rparr>"
  have "\<exists>t. tb_accounts (sc_bank s) purse = Some t" using purse(1) by (auto simp: receives_def)
  then have "sol_cancel_escrow env tx
      \<lparr>ca_config = ck, ca_escrow = k, ca_vault = je_vault e, ca_consumer_token_account = purse, ca_signer = thief\<rparr> s = (Inr [], ?s')"
    using cfg esc vault(1) thief inv b(1) by (auto simp: sol_cancel_escrow_def sol_ok)
  then show ?thesis using b(2) by (intro exI [of _ ?s']) (simp add: escrow_view_def)
qed

text \<open>No escrow for a UUID. A seed of a derived address has at most 32 bytes, but the job identifier is one and the coordinator's
  identifiers are UUIDs of 36 characters: \<open>create_escrow\<close> fails for every one of them, although its own check allows 64.\<close>

theorem create_escrow_rejects_uuid:
  assumes "pda_laws env" "32 < length job_id"
  shows "\<exists>e s'. sol_create_escrow env tx a job_id n price dur s = (Inl e, s')"
proof -
  have "sol_create_escrow env tx a job_id n price dur s \<noteq> (Inr ev, s')" for ev s'
    using sol_create_escrow_ok [of env tx a job_id n price dur s ev s'] assms unfolding pda_laws_def by fastforce
  then show ?thesis by (metis old.prod.exhaust sum.exhaust)
qed

section \<open>A concrete platform and chain\<close>

definition demo_address :: "string list \<Rightarrow> pubkey" where
  "demo_address seeds = CHR ''#'' # concat seeds"

definition demo_transfer :: "pubkey \<Rightarrow> pubkey \<Rightarrow> pubkey \<Rightarrow> 64 word \<Rightarrow> token_bank \<Rightarrow> token_bank option" where
  "demo_transfer src dst auth n b =
     (case (tb_accounts b src, tb_accounts b dst) of
        (Some t, Some u) \<Rightarrow>
          (if may_debit t auth \<and> ta_mint t = ta_mint u \<and> \<not> ta_frozen t \<and> \<not> ta_frozen u \<and> n \<le> ta_amount t \<and>
              unat (ta_amount u) + unat n < 2 ^ 64
           then Some (if src = dst then b else b\<lparr>tb_accounts :=
             (tb_accounts b)(src \<mapsto> t\<lparr>ta_amount := ta_amount t - n\<rparr>, dst \<mapsto> u\<lparr>ta_amount := ta_amount u + n\<rparr>)\<rparr>)
           else None)
      | _ \<Rightarrow> None)"

definition demo_init :: "pubkey \<Rightarrow> pubkey \<Rightarrow> pubkey \<Rightarrow> token_bank \<Rightarrow> token_bank option" where
  "demo_init k mint owner b = (if tb_accounts b k = None
     then Some (b\<lparr>tb_accounts := (tb_accounts b)(k \<mapsto>
        \<lparr>ta_mint = mint, ta_owner = owner, ta_amount = 0, ta_delegate = None, ta_frozen = False\<rparr>)\<rparr>) else None)"

definition demo_mint :: "pubkey \<Rightarrow> pubkey \<Rightarrow> pubkey \<Rightarrow> 64 word \<Rightarrow> token_bank \<Rightarrow> token_bank option" where
  "demo_mint mint dst auth n b = (case tb_accounts b dst of
     Some u \<Rightarrow> (if unat (ta_amount u) + unat n < 2 ^ 64
       then Some (b\<lparr>tb_accounts := (tb_accounts b)(dst \<mapsto> u\<lparr>ta_amount := ta_amount u + n\<rparr>)\<rparr>) else None)
   | None \<Rightarrow> None)"

definition demo_burn :: "pubkey \<Rightarrow> pubkey \<Rightarrow> pubkey \<Rightarrow> 64 word \<Rightarrow> token_bank \<Rightarrow> token_bank option" where
  "demo_burn mint src auth n b = (case tb_accounts b src of
     Some t \<Rightarrow> (if may_debit t auth \<and> n \<le> ta_amount t
       then Some (b\<lparr>tb_accounts := (tb_accounts b)(src \<mapsto> t\<lparr>ta_amount := ta_amount t - n\<rparr>)\<rparr>) else None)
   | None \<Rightarrow> None)"

definition demo_env :: sol_env where
  "demo_env = \<lparr>find_pda = (\<lambda>seeds. if list_all (\<lambda>x. length x \<le> 32) seeds then Some (demo_address seeds, 255) else None),
     create_pda = (\<lambda>seeds bump. if bump = 255 then Some (demo_address seeds) else None),
     ata_address = (\<lambda>owner mint. CHR ''@'' # owner @ mint),
     tok_init = demo_init, tok_transfer = demo_transfer, tok_mint_to = demo_mint, tok_burn = demo_burn,
     meta_create = (\<lambda>_ _ _ _ b. Some b), meta_edition = (\<lambda>_ _ b. Some b), meta_freeze = (\<lambda>_ _ _ b. Some b)\<rparr>"

lemma demo_pda_laws: "pda_laws demo_env"
  by (auto simp: pda_laws_def demo_env_def list_all_iff split: if_splits)

lemma demo_token_laws: "token_laws demo_env"
proof -
  have "init_law demo_env" by (auto simp: init_law_def demo_env_def demo_init_def split: if_splits)
  moreover have "transfer_law demo_env"
    unfolding transfer_law_def by (auto simp: demo_env_def demo_transfer_def split: option.splits if_splits)
  moreover have "transfer_succeeds_law demo_env"
    unfolding transfer_succeeds_law_def by (auto simp: demo_env_def demo_transfer_def may_debit_def split: option.splits)
  moreover have "burn_law demo_env"
    unfolding burn_law_def by (auto simp: demo_env_def demo_burn_def grows_def split: option.splits if_splits)
  moreover have "growth_law demo_env"
    unfolding growth_law_def
    by (auto simp: demo_env_def demo_mint_def bank_grows_def grows_def amount_grows split: option.splits if_splits)
  ultimately show ?thesis by (simp add: token_laws_def)
qed

definition demo_purse :: "pubkey \<Rightarrow> 64 word \<Rightarrow> token_account" where
  "demo_purse owner n = \<lparr>ta_mint = ''NMC'', ta_owner = owner, ta_amount = n, ta_delegate = None, ta_frozen = False\<rparr>"

definition demo_deployed :: sol_chain where
  "demo_deployed = \<lparr>sc_accounts = Map.empty, sc_bank = \<lparr>tb_accounts = [''alice'' \<mapsto> demo_purse ''alice'' 100, ''thief'' \<mapsto> demo_purse ''thief'' 0,
     ''prov'' \<mapsto> demo_purse ''prov'' 0, ''fees'' \<mapsto> demo_purse ''boss'' 0], tb_mints = (\<lambda>m. m = ''NMC'')\<rparr>\<rparr>"

definition demo_signed :: "pubkey \<Rightarrow> sol_tx" where
  "demo_signed k = \<lparr>tx_signers = [k], tx_now = 1000\<rparr>"

definition demo_config :: program_config where
  "demo_config = new_config\<lparr>cfg_authority := ''boss'', cfg_nmc_mint := ''NMC'', cfg_platform_fee_bps := 500, cfg_fee_collector := ''fees'', cfg_bump := 255\<rparr>"

definition demo_create :: create_escrow_accounts where
  "demo_create = \<lparr>ce_config = ''#config'', ce_escrow = ''#escrowj1'', ce_consumer = ''alice'', ce_provider = ''prov'',
     ce_consumer_token_account = ''alice'', ce_provider_token_account = ''prov'', ce_vault = ''#vaultj1'', ce_nmc_mint = ''NMC''\<rparr>"

definition demo_chain :: sol_chain where
  "demo_chain = sol_exec demo_env (demo_signed ''alice'') (Create_Escrow demo_create ''j1'' 100 0 60)
     (sol_exec demo_env (demo_signed ''boss'') (Initialize \<lparr>ia_config = ''#config'', ia_authority = ''boss'', ia_nmc_mint = ''NMC'', ia_fee_collector = ''fees''\<rparr> 500 0)
        demo_deployed)"

lemma demo_user: "k \<in> {''alice'', ''boss'', ''prov'', ''thief''} \<Longrightarrow> user_tx demo_env (demo_signed k)"
  by (auto simp: user_tx_def is_pda_def demo_signed_def demo_env_def demo_address_def split: if_splits)

lemma demo_reach: "sol_reach demo_env demo_chain"
  unfolding demo_chain_def
  by (intro sol_reach.transaction sol_reach.deployed demo_user) (simp_all add: demo_deployed_def)


definition demo_escrow :: job_escrow where
  "demo_escrow = created_escrow demo_create ''j1'' 100 0 60 1000 255"

lemma demo_chain_run:
  "demo_chain = demo_deployed\<lparr>
     sc_accounts := [''#config'' \<mapsto> A_Config demo_config, ''#escrowj1'' \<mapsto> A_Escrow demo_escrow],
     sc_bank := (sc_bank demo_deployed)\<lparr>tb_accounts := (tb_accounts (sc_bank demo_deployed))
       (''alice'' \<mapsto> demo_purse ''alice'' 0, ''#vaultj1'' \<mapsto> demo_purse ''#escrowj1'' 100)\<rparr>\<rparr>"
  unfolding demo_chain_def
  by (simp add: sol_exec_def sol_initialize_def sol_create_escrow_def prog_simps init_pda_def signed_def require_def load_mint_def
      put_account_def load_config_def at_pda_def load_token_def init_vault_def cpi_def demo_env_def demo_address_def config_seeds_def
      demo_deployed_def demo_signed_def demo_config_def demo_create_def demo_escrow_def demo_init_def demo_transfer_def demo_purse_def
      may_debit_def max_fee_bps_def new_config_def fun_eq_iff)


lemma demo_escrow_facts [simp]: "je_state demo_escrow = Es_Open" "je_vault demo_escrow = ''#vaultj1''" "je_locked_nmc demo_escrow = 100"
    "je_provider demo_escrow = ''prov''" "je_bump demo_escrow = 255" "escrow_seeds demo_escrow = [''escrow'', ''j1'']"
  by (simp_all add: demo_escrow_def created_escrow_def demo_create_def escrow_seeds_def byte_array_def)

lemma demo_chain_facts [simp]:
  "sc_accounts demo_chain ''#config'' = Some (A_Config demo_config)"
  "sc_accounts demo_chain ''#escrowj1'' = Some (A_Escrow demo_escrow)"
  "tb_accounts (sc_bank demo_chain) ''#vaultj1'' = Some (demo_purse ''#escrowj1'' 100)"
  "tb_accounts (sc_bank demo_chain) ''alice'' = Some (demo_purse ''alice'' 0)"
  "tb_accounts (sc_bank demo_chain) ''prov'' = Some (demo_purse ''prov'' 0)"
  "tb_accounts (sc_bank demo_chain) ''fees'' = Some (demo_purse ''boss'' 0)"
  "tb_accounts (sc_bank demo_chain) ''thief'' = Some (demo_purse ''thief'' 0)"
  by (simp_all add: demo_chain_run demo_deployed_def)

definition demo_locked :: sol_chain where
  "demo_locked = sol_exec demo_env (demo_signed ''prov'') (Lock_Escrow \<lparr>la_escrow = ''#escrowj1'', la_provider = ''prov''\<rparr>) demo_chain"

lemma demo_locked_run: "demo_locked = demo_chain\<lparr>sc_accounts := (sc_accounts demo_chain)(''#escrowj1'' \<mapsto>
    A_Escrow (demo_escrow\<lparr>je_state := Es_Locked, je_deadline := 1060\<rparr>))\<rparr>"
  by (simp add: demo_locked_def sol_exec_def sol_lock_escrow_def prog_simps load_escrow_def at_pda_def require_def signed_def
      put_account_def demo_env_def demo_address_def demo_signed_def, simp add: demo_escrow_def created_escrow_def)

lemma demo_locked_reach: "sol_reach demo_env demo_locked"
  unfolding demo_locked_def by (intro sol_reach.transaction demo_reach demo_user) simp

lemma escrow_refines_lifecycle_witness:
  "escrow_view (sol_exec demo_env (demo_signed ''prov'') (Lock_Escrow \<lparr>la_escrow = ''#escrowj1'', la_provider = ''prov''\<rparr>) demo_chain) ''#escrowj1''
     = V_Open 100 \<or>
   escrow_moves (V_Open 100)
    (escrow_view (sol_exec demo_env (demo_signed ''prov'') (Lock_Escrow \<lparr>la_escrow = ''#escrowj1'', la_provider = ''prov''\<rparr>) demo_chain) ''#escrowj1'')"
  using escrow_refines_lifecycle [OF demo_reach, of "demo_signed ''prov''" "Lock_Escrow \<lparr>la_escrow = ''#escrowj1'', la_provider = ''prov''\<rparr>"
    "''#escrowj1''"] by (simp add: escrow_view_def [of demo_chain])

lemma bridge_mint_never_succeeds_witness:
  "\<exists>e s'. bridge_mint demo_env (demo_signed ''boss'') \<lparr>bm_config = ''#config'', bm_nmc_mint = ''NMC'', bm_recipient_token_account = ''alice'',
     bm_recipient = ''alice'', bm_bridge_nonce = ''#bridge_nonceboss'', bm_authority = ''boss''\<rparr> 0 0 demo_chain = (Inl e, s')"
  using bridge_mint_never_succeeds [OF demo_reach] by blast

lemma escrow_vault_backed_witness:
  "\<exists>v. tb_accounts (sc_bank demo_chain) ''#vaultj1'' = Some v \<and> ta_owner v = ''#escrowj1'' \<and> ta_delegate v = None \<and> 100 \<le> ta_amount v"
  using escrow_vault_backed [OF demo_token_laws demo_pda_laws demo_reach, of "''#escrowj1''" demo_escrow] by simp

lemma demo_locked_facts [simp]:
  "sc_bank demo_locked = sc_bank demo_chain"
  "sc_accounts demo_locked ''#config'' = Some (A_Config demo_config)"
  "sc_accounts demo_locked ''#escrowj1'' = Some (A_Escrow (demo_escrow\<lparr>je_state := Es_Locked, je_deadline := 1060\<rparr>))"
  by (simp_all add: demo_locked_run)

lemma demo_purse_moves [simp]:
  "sends (sc_bank demo_chain) ''NMC'' ''#vaultj1'' ''#escrowj1'' 100"
  "receives (sc_bank demo_chain) ''NMC'' ''prov'' 70" "receives (sc_bank demo_chain) ''NMC'' ''fees'' 70"
  "receives (sc_bank demo_chain) ''NMC'' ''alice'' 100" "receives (sc_bank demo_chain) ''NMC'' ''thief'' 100"
  by (simp_all add: sends_def receives_def, simp_all add: demo_purse_def)

lemma demo_held [simp]: "held (sc_bank demo_chain) ''prov'' = 0" "held (sc_bank demo_chain) ''fees'' = 0"
  "held (sc_bank demo_chain) ''alice'' = 0" "held (sc_bank demo_chain) ''thief'' = 0" "held (sc_bank demo_chain) ''#vaultj1'' = 100"
  by (simp_all add: held_def, simp_all add: demo_purse_def)

lemma demo_config_facts [simp]: "cfg_authority demo_config = ''boss''" "cfg_platform_fee_bps demo_config = 500"
  "cfg_fee_collector demo_config = ''fees''"
  by (simp_all add: demo_config_def new_config_def)

lemma release_escrow_splits_witness:
  "\<exists>s' ev. sol_release_escrow demo_env (demo_signed ''boss'') \<lparr>re_config = ''#config'', re_escrow = ''#escrowj1'', re_vault = ''#vaultj1'',
       re_provider_token_account = ''prov'', re_consumer_token_account = ''alice'', re_fee_collector = ''fees'', re_authority = ''boss''\<rparr> 70 demo_locked
       = (Inr ev, s') \<and> escrow_view s' ''#escrowj1'' = V_Settled 100 70 3 \<and>
     held (sc_bank s') ''prov'' = 67 \<and> held (sc_bank s') ''fees'' = 3 \<and> held (sc_bank s') ''alice'' = 30 \<and> held (sc_bank s') ''#vaultj1'' = 0"
proof -
  let ?e = "demo_escrow\<lparr>je_state := Es_Locked, je_deadline := 1060\<rparr>"
  have e: "sc_accounts demo_locked ''#escrowj1'' = Some (A_Escrow ?e)" "je_state ?e = Es_Locked" "70 \<le> je_locked_nmc ?e"
    and c: "sc_accounts demo_locked ''#config'' = Some (A_Config demo_config)" "cfg_authority demo_config \<in> set (tx_signers (demo_signed ''boss''))"
    and f: "unat (70 :: 64 word) * unat (cfg_platform_fee_bps demo_config) < 2 ^ 64" "3 = unat (70 :: 64 word) * unat (cfg_platform_fee_bps demo_config) div 10000"
    and v: "sends (sc_bank demo_locked) ''NMC'' (je_vault ?e) ''#escrowj1'' (unat (je_locked_nmc ?e))"
    and r: "receives (sc_bank demo_locked) ''NMC'' ''prov'' (unat (70 :: 64 word))"
      "receives (sc_bank demo_locked) ''NMC'' (cfg_fee_collector demo_config) (unat (70 :: 64 word))"
      "receives (sc_bank demo_locked) ''NMC'' ''alice'' (unat (je_locked_nmc ?e))"
    and d: "distinct [je_vault ?e, ''prov'', cfg_fee_collector demo_config, ''alice'']"
    by (simp_all add: demo_signed_def)
  show ?thesis
    using release_escrow_splits [OF demo_token_laws demo_pda_laws demo_locked_reach c e f v r d] by simp
qed

lemma cancel_escrow_theft_witness:
  "\<exists>s'. sol_cancel_escrow demo_env (demo_signed ''thief'')
        \<lparr>ca_config = ''#config'', ca_escrow = ''#escrowj1'', ca_vault = ''#vaultj1'', ca_consumer_token_account = ''thief'', ca_signer = ''thief''\<rparr> demo_chain
      = (Inr [], s') \<and> held (sc_bank s') ''thief'' = 100"
  using cancel_escrow_theft [OF demo_token_laws demo_pda_laws demo_reach, where ck = "''#config''" and cfg = demo_config and
    tx = "demo_signed ''thief''" and k = "''#escrowj1''" and e = demo_escrow and v = "demo_purse ''#escrowj1'' 100" and purse = "''thief''"
    and thief = "''thief''"]
  by (auto simp: demo_signed_def demo_purse_def)

lemma create_escrow_rejects_uuid_witness:
  "\<exists>e s'. sol_create_escrow demo_env (demo_signed ''alice'') demo_create ''123e4567-e89b-12d3-a456-426614174000'' 1 0 60 demo_chain = (Inl e, s')"
  by (rule create_escrow_rejects_uuid [OF demo_pda_laws]) simp

end
