(* ===== verification/Evm_Encoding.thy ===== *)
theory Evm_Encoding
  imports Evm_Oracle
begin

text \<open>
  The encodings of the settlement oracle against their specifications: RLP as the Yellow Paper defines it, and the
  ABI's decoding of a string and of a word.
\<close>

section \<open>Reference encodings\<close>

definition from_be :: "byte list \<Rightarrow> nat" where
  "from_be bs = foldl (\<lambda>a b. a * 256 + unat b) 0 bs"

lemma from_be_simps [simp]: "from_be [] = 0" "from_be (bs @ [b]) = from_be bs * 256 + unat b"
  by (simp_all add: from_be_def)

lemma length_be_bytes [simp]: "length (be_bytes n v) = n"
  by (induction n arbitrary: v) auto

lemma unat_byte [simp]: "unat (word_of_nat v :: byte) = v mod 256"
  by (simp add: unsigned_of_nat take_bit_eq_mod)

lemma from_be_bytes: "from_be (be_bytes n v) = v mod 256 ^ n"
proof (induction n arbitrary: v)
  case (Suc n)
  have "(v div 256 mod 256 ^ n) * 256 + v mod 256 = v mod (256 * 256 ^ n)"
    using mod_mult2_eq [of v 256 "256 ^ n"] by (simp add: mult.commute)
  with Suc show ?case by simp
qed simp

lemma from_be_zeros [simp]: "from_be (replicate n 0 @ bs) = from_be bs"
  by (induction n) (simp_all add: from_be_def)

lemma from_uint256 [simp]: "length (uint256_be v) = 32" "from_be (uint256_be v) = unat v"
proof -
  have "unat v < 2 ^ 128" using unsigned_less [of v, where 'a = nat] by simp
  then show "from_be (uint256_be v) = unat v" by (simp add: uint256_be_def from_be_bytes)
qed (simp add: uint256_be_def)

text \<open>The shortest big-endian bytes of a number, as RLP has them.\<close>

function spec_be :: "nat \<Rightarrow> byte list" where
  "spec_be v = (if v = 0 then [] else spec_be (v div 256) @ [word_of_nat v])"
  by auto
termination by (relation "measure id") auto

declare spec_be.simps [simp del]

lemma spec_be_0 [simp]: "spec_be 0 = []"
  by (simp add: spec_be.simps)

lemma spec_be_pos: "0 < v \<Longrightarrow> spec_be v = spec_be (v div 256) @ [word_of_nat v]"
  by (subst spec_be.simps) simp

lemma spec_be_empty [simp]: "spec_be v = [] \<longleftrightarrow> v = 0"
  by (cases "v = 0") (simp_all add: spec_be_pos)

lemma dropWhile_be_bytes: "v < 256 ^ n \<Longrightarrow> dropWhile (\<lambda>b. b = 0) (be_bytes n v) = spec_be v"
proof (induction n arbitrary: v)
  case (Suc n)
  then have le: "v div 256 < 256 ^ n" by (simp add: less_mult_imp_div_less mult.commute)
  note IH = Suc.IH [OF le]
  show ?case
  proof (cases "v div 256 = 0")
    case True
    then have "v < 256" by (simp add: div_eq_0_iff)
    have zeros: "be_bytes n 0 = replicate n 0" by (induction n) (auto simp: replicate_append_same)
    have drop: "dropWhile (\<lambda>b. b = 0) (replicate n 0 @ ys) = dropWhile (\<lambda>b. b = 0) ys" for ys :: "byte list"
      by (rule dropWhile_append2) simp
    have "(word_of_nat v :: byte) \<noteq> 0" if "v \<noteq> 0"
      using that \<open>v < 256\<close> unat_byte [of v] by (metis mod_less unsigned_0)
    with True \<open>v < 256\<close> zeros show ?thesis
      by (cases "v = 0") (simp_all add: spec_be_pos drop)
  next
    case False
    then have "\<exists>b\<in>set (be_bytes n (v div 256)). b \<noteq> 0"
      using IH by (metis (mono_tags) dropWhile_eq_Nil_conv spec_be_empty)
    then have "dropWhile (\<lambda>b. b = 0) (be_bytes n (v div 256) @ [word_of_nat v])
        = dropWhile (\<lambda>b. b = 0) (be_bytes n (v div 256)) @ [word_of_nat v]"
      by (auto intro: dropWhile_append1)
    with IH False show ?thesis by (simp add: spec_be_pos [of v] div_eq_0_iff)
  qed
qed simp

lemma skip_zeros_be: "0 < v \<Longrightarrow> v < 256 ^ n \<Longrightarrow> skip_zeros d (be_bytes n v) = spec_be v"
proof -
  assume v: "0 < v" "v < 256 ^ n"
  let ?bs = "be_bytes n v"
  have "dropWhile (\<lambda>b. b = 0) ?bs \<noteq> []" using v by (simp add: dropWhile_be_bytes)
  then have "length (takeWhile (\<lambda>b. b = 0) ?bs) < length ?bs"
    by (metis dropWhile_eq_drop drop_all not_le_imp_less)
  then show ?thesis using v by (simp add: skip_zeros_def dropWhile_eq_drop [symmetric] dropWhile_be_bytes)
qed

text \<open>RLP as the Yellow Paper defines it.\<close>

datatype rlp_item = R_Bytes "byte list" | R_List "rlp_item list"

definition rlp_head :: "byte \<Rightarrow> nat \<Rightarrow> byte list" where
  "rlp_head base len = (if len < 56 then [base + word_of_nat len]
     else (base + 55 + word_of_nat (length (spec_be len))) # spec_be len)"

fun rlp_spec :: "rlp_item \<Rightarrow> byte list" where
  "rlp_spec (R_Bytes bs) = (if length bs = 1 \<and> hd bs < 0x80 then bs else rlp_head 0x80 (length bs) @ bs)"
| "rlp_spec (R_List xs) = rlp_head 0xC0 (length (concat (map rlp_spec xs))) @ concat (map rlp_spec xs)"

lemma rlp_uint_bytes_spec: "0 < n \<Longrightarrow> n < 2 ^ 64 \<Longrightarrow> rlp_uint_bytes (word_of_nat n) = spec_be n"
  unfolding rlp_uint_bytes_def by (subst skip_zeros_be) (simp_all add: unsigned_of_nat take_bit_nat_eq_self)

lemma rlp_length_encode_spec: "n < 2 ^ 64 \<Longrightarrow> rlp_length_encode n = rlp_head 0x80 n"
  by (simp add: rlp_length_encode_def rlp_head_def rlp_uint_bytes_spec Let_def)

lemma rlp_encode_list_spec: "length c < 2 ^ 64 \<Longrightarrow> rlp_encode_list c = rlp_head 0xC0 (length c) @ c"
  using rlp_uint_bytes_spec [of "length c"] by (cases "c = []") (simp_all add: rlp_encode_list_def rlp_head_def Let_def)

lemma rlp_append_bytes_spec:
  "length d < 2 ^ 64 \<Longrightarrow> \<not> (length d = 1 \<and> hd d < 0x80) \<Longrightarrow> rlp_append_bytes buf d = buf @ rlp_spec (R_Bytes d)"
  by (auto simp: rlp_append_bytes_def rlp_length_encode_spec rlp_head_def)

lemma length_spec_be: "v < 256 ^ n \<Longrightarrow> length (spec_be v) \<le> n"
  by (metis dropWhile_be_bytes length_be_bytes length_dropWhile_le)

lemma rlp_append_uint_spec: "rlp_append_uint buf v = buf @ rlp_spec (R_Bytes (spec_be (unat v)))"
proof (cases "v = 0")
  case True
  then show ?thesis by (simp add: rlp_append_uint_def rlp_head_def)
next
  case False
  have "unat v < 2 ^ 128" using unsigned_less [of v, where 'a = nat] by simp
  then have lt: "unat v < 256 ^ 16" by simp
  moreover have "0 < unat v" using False by (simp add: unat_gt_0)
  ultimately have *: "skip_zeros 15 (be_bytes 16 (unat v)) = spec_be (unat v)" by (intro skip_zeros_be)
  have "length (spec_be (unat v)) < 2 ^ 64" using length_spec_be [OF lt] by simp
  then show ?thesis using False * rlp_length_encode_spec [of "length (spec_be (unat v))"]
    by (cases "spec_be (unat v)") (auto simp: rlp_append_uint_def Let_def hd_conv_nth)
qed


section \<open>Transactions\<close>

definition tx_items :: "eip1559_tx \<Rightarrow> rlp_item list" where
  "tx_items tx = map R_Bytes [spec_be (unat (etx_chain_id tx)), spec_be (unat (etx_nonce tx)),
     spec_be (unat (etx_max_priority_fee_per_gas tx)), spec_be (unat (etx_max_fee_per_gas tx)), spec_be (unat (etx_gas_limit tx)),
     etx_to tx, spec_be (unat (etx_value tx)), etx_data tx]"

lemma unat_ucast_u64 [simp]: "unat (ucast (b :: 64 word) :: 128 word) = unat b"
proof -
  have "unat b < 2 ^ 64" using unsigned_less [of b, where 'a = nat] by simp
  then show ?thesis by (simp add: unsigned_ucast_eq take_bit_nat_eq_self)
qed

definition small_byte :: "byte list \<Rightarrow> bool" where
  "small_byte d \<longleftrightarrow> length d = 1 \<and> hd d < 0x80"

lemma tx_fields_spec:
  assumes "length (etx_to tx) = 20" "\<not> small_byte (etx_data tx)" "length (etx_data tx) < 2 ^ 64"
    and "\<not> small_byte (etx_access_list tx)" "length (etx_access_list tx) < 2 ^ 64"
  shows "tx_fields tx = concat (map rlp_spec (tx_items tx @ [R_Bytes (etx_access_list tx)]))"
  using assms by (simp add: tx_fields_def tx_items_def rlp_append_uint_spec rlp_append_bytes_spec small_byte_def Let_def del: rlp_spec.simps)

lemma length_rlp_head: "n < 2 ^ 64 \<Longrightarrow> length (rlp_head base n) \<le> 9"
  using length_spec_be [of n 8] by (simp add: rlp_head_def)

lemma length_rlp_bytes: "length d < 2 ^ 64 \<Longrightarrow> length (rlp_spec (R_Bytes d)) \<le> length d + 9"
  using length_rlp_head [of "length d" "0x80"] by simp

lemma length_rlp_word: "length (rlp_spec (R_Bytes (spec_be (unat (v :: 128 word))))) \<le> 25"
proof -
  have "unat v < 256 ^ 16" using unsigned_less [of v, where 'a = nat] by simp
  from length_spec_be [OF this] length_rlp_bytes [of "spec_be (unat v)"] show ?thesis by simp
qed

lemma tx_fields_bound:
  assumes "length (etx_to tx) = 20" "\<not> small_byte (etx_data tx)" "length (etx_data tx) < 2 ^ 63"
    and "\<not> small_byte (etx_access_list tx)" "length (etx_access_list tx) < 2 ^ 62"
  shows "length (tx_fields tx) < 2 ^ 64"
proof -
  note w = length_rlp_word [of "ucast (etx_chain_id tx)"] length_rlp_word [of "ucast (etx_nonce tx)"]
    length_rlp_word [of "etx_max_priority_fee_per_gas tx"] length_rlp_word [of "etx_max_fee_per_gas tx"]
    length_rlp_word [of "ucast (etx_gas_limit tx)"] length_rlp_word [of "etx_value tx"]
  have "length (rlp_spec (R_Bytes (etx_to tx))) \<le> 29" "length (rlp_spec (R_Bytes (etx_data tx))) \<le> 2 ^ 63 + 9"
    "length (rlp_spec (R_Bytes (etx_access_list tx))) \<le> 2 ^ 62 + 9"
    using length_rlp_bytes [of "etx_to tx"] length_rlp_bytes [of "etx_data tx"] length_rlp_bytes [of "etx_access_list tx"] assms by simp_all
  then have "length (concat (map rlp_spec (tx_items tx @ [R_Bytes (etx_access_list tx)]))) \<le> 150 + 29 + (2 ^ 63 + 9) + (2 ^ 62 + 9)"
    using w by (simp add: tx_items_def del: rlp_spec.simps)
  then show ?thesis using assms by (subst tx_fields_spec) (simp_all del: rlp_spec.simps)
qed

lemma signing_payload_spec:
  assumes "length (etx_to tx) = 20" "\<not> small_byte (etx_data tx)" "length (etx_data tx) < 2 ^ 63"
    and "\<not> small_byte (etx_access_list tx)" "length (etx_access_list tx) < 2 ^ 62"
  shows "signing_payload tx = 0x02 # rlp_spec (R_List (tx_items tx @ [R_Bytes (etx_access_list tx)]))"
proof -
  let ?items = "tx_items tx @ [R_Bytes (etx_access_list tx)]"
  have "tx_fields tx = concat (map rlp_spec ?items)" using assms by (intro tx_fields_spec) simp_all
  then show ?thesis using rlp_encode_list_spec [OF tx_fields_bound [OF assms]]
    by (simp only: signing_payload_def rlp_spec.simps(2) append_Cons append_Nil)
qed

lemma rlp_list_nonempty [simp]: "rlp_spec (R_List xs) \<noteq> []"
  by (simp add: rlp_head_def)

lemma rlp_spec_last: "last (rlp_spec (R_List (xs @ [R_Bytes []]))) = 0x80" "last (rlp_spec (R_List (xs @ [R_List []]))) = 0xC0"
  by (simp_all add: rlp_head_def)

text \<open>C9: The transaction encoder is RLP, except for the access list. For every transaction to a 20-byte address whose call data and access list
  are not one small byte and are shorter than \<open>2 ^ 63\<close> and \<open>2 ^ 62\<close> bytes, the payload that is signed is the type byte 2 followed by the Yellow Paper's RLP
  of nine items: six integers with their shortest bytes (none for zero), the address, the call data, and as the ninth item
  the bytes of the access list, encoded as a byte string. EIP-1559 and the code's own comment have a list in that place: when the access
  list is empty, as the oracle always leaves it, the payload ends in 0x80 and is the encoding of no list of items whose last one
  is an empty list (0xC0).\<close>

theorem signing_payload_is_rlp:
  assumes "length (etx_to tx) = 20" "\<not> small_byte (etx_data tx)" "length (etx_data tx) < 2 ^ 63"
    and "\<not> small_byte (etx_access_list tx)" "length (etx_access_list tx) < 2 ^ 62"
  shows "signing_payload tx = 0x02 # rlp_spec (R_List (tx_items tx @ [R_Bytes (etx_access_list tx)])) \<and>
    (etx_access_list tx = [] \<longrightarrow> last (signing_payload tx) = 0x80 \<and>
       (\<forall>items. signing_payload tx \<noteq> 0x02 # rlp_spec (R_List (items @ [R_List []]))))"
proof -
  have spec: "signing_payload tx = 0x02 # rlp_spec (R_List (tx_items tx @ [R_Bytes (etx_access_list tx)]))"
    using assms by (rule signing_payload_spec)
  have "last (signing_payload tx) = 0x80" if "etx_access_list tx = []"
    using that by (simp add: spec rlp_spec_last del: rlp_spec.simps)
  moreover have "last (0x02 # rlp_spec (R_List (items @ [R_List []]))) = 0xC0" for items
    by (simp add: rlp_spec_last del: rlp_spec.simps)
  moreover have "(0x80 :: byte) \<noteq> 0xC0" by simp
  ultimately show ?thesis using spec by metis
qed

section \<open>ABI\<close>

definition abi_word :: "byte list \<Rightarrow> nat \<Rightarrow> nat" where
  "abi_word bs i = from_be (take 32 (drop i bs))"

text \<open>The string whose head word is at \<open>i\<close>.\<close>

definition abi_string :: "byte list \<Rightarrow> nat \<Rightarrow> byte list" where
  "abi_string bs i = (let off = abi_word bs i in take (abi_word bs off) (drop (off + 32) bs))"

lemma length_str_bytes [simp]: "length (str_bytes s) = length s"
  by (simp add: str_bytes_def)

lemma padding_aligns: "(n + length (abi_padding n)) mod 32 = 0"
proof -
  have "n + (32 - n mod 32) = 32 * (n div 32 + 1)"
    by presburger
  then show ?thesis by (simp add: abi_padding_def mod_add_right_eq)
qed

text \<open>C10: The call data decode to the arguments. Read as the ABI prescribes, the arguments of \<open>releaseEscrow\<close> give back the
  job and the amount, those of \<open>cancelEscrow\<close> the job, for every job identifier (below 2^128 bytes) and amount, and both take
  whole 32-byte words.\<close>

theorem abi_roundtrip:
  assumes "length job_id < 2 ^ 128"
  shows "abi_string (abi_encode_string_uint256 job_id cost) 0 = str_bytes job_id \<and>
    abi_word (abi_encode_string_uint256 job_id cost) 32 = unat cost \<and>
    abi_string (abi_encode_string job_id) 0 = str_bytes job_id \<and>
    length (abi_encode_string_uint256 job_id cost) mod 32 = 0 \<and> length (abi_encode_string job_id) mod 32 = 0"
proof -
  have len: "unat (word_of_nat (length job_id) :: 128 word) = length job_id"
    using assms by (simp add: unsigned_of_nat take_bit_nat_eq_self)
  have w64: "unat (64 :: 128 word) = 64" "unat (32 :: 128 word) = 32" by simp_all
  have "abi_string (abi_encode_string_uint256 job_id cost) 0 = str_bytes job_id"
    "abi_word (abi_encode_string_uint256 job_id cost) 32 = unat cost"
    "abi_string (abi_encode_string job_id) 0 = str_bytes job_id"
    by (simp_all add: abi_string_def abi_word_def abi_encode_string_uint256_def abi_encode_string_def Let_def len del: unat_numeral add: w64)
  moreover have "length (abi_encode_string_uint256 job_id cost) mod 32 = 0" "length (abi_encode_string job_id) mod 32 = 0"
    using padding_aligns [of "length job_id"] by (simp_all add: abi_encode_string_uint256_def abi_encode_string_def Let_def) presburger+
  ultimately show ?thesis by simp
qed


definition demo_tx :: eip1559_tx where
  "demo_tx = escrow_tx 421614 7 100000000 (replicate 20 1) [1, 2, 3, 4, 5]"

lemma signing_payload_is_rlp_witness:
  "signing_payload demo_tx = 0x02 # rlp_spec (R_List (tx_items demo_tx @ [R_Bytes []])) \<and> last (signing_payload demo_tx) = 0x80"
proof -
  have "length (etx_to demo_tx) = 20" "\<not> small_byte (etx_data demo_tx)" "length (etx_data demo_tx) < 2 ^ 63" "etx_access_list demo_tx = []"
    by (simp_all add: demo_tx_def escrow_tx_def small_byte_def)
  then show ?thesis using signing_payload_is_rlp [of demo_tx] by (simp add: small_byte_def rlp_spec_last del: rlp_spec.simps)
qed

lemma abi_roundtrip_witness: "abi_string (abi_encode_string_uint256 ''job'' 5) 0 = str_bytes ''job''"
  using abi_roundtrip [of "''job''" 5] by simp

end
