(* ===== verification/Cli_Wallet.thy ===== *)
theory Cli_Wallet
  imports Cli_Http
begin

text \<open>
  The wallet commands of the client, \<open>src/cli/src/commands/wallet.rs\<close>, and their runs against the wallet routes of the ledger. A command
  returns what it shows; the layout of the text is not modelled.
\<close>

section \<open>The commands\<close>

datatype 'a shown = Notice string | Shown_Json 'a | Shown_Text 'a

definition show_as :: "client_context \<Rightarrow> 'a \<Rightarrow> 'a shown" where
  "show_as ctx x = (if cc_output_json ctx then Shown_Json x else Shown_Text x)"

record balance_response =
  br_account_id :: string
  br_available_nmc :: f64
  br_escrowed_nmc :: f64
  br_total_earned_nmc :: f64
  br_total_spent_nmc :: f64

definition decode_balance :: "json \<Rightarrow> balance_response option" where
  "decode_balance j =
     (case (req_field j_as_str ''account_id'' j, req_field j_as_f64 ''available_nmc'' j, req_field j_as_f64 ''escrowed_nmc'' j,
            req_field j_as_f64 ''total_earned_nmc'' j, req_field j_as_f64 ''total_spent_nmc'' j) of
        (Some i, Some a, Some e, Some t, Some s) \<Rightarrow>
          Some \<lparr>br_account_id = i, br_available_nmc = a, br_escrowed_nmc = e, br_total_earned_nmc = t, br_total_spent_nmc = s\<rparr>
      | _ \<Rightarrow> None)"

definition wallet_path :: "string \<Rightarrow> string \<Rightarrow> string" where
  "wallet_path acct op = ''/api/v1/wallet/'' @ acct @ ''/'' @ op"

definition show_balance :: "'w http_peer \<Rightarrow> client_context \<Rightarrow> ('w, balance_response shown) cli" where
  "show_balance peer ctx =
     bindE (require_account_id ctx) (\<lambda>acct.
     bindE (send_or peer (get_req (at_ledger ctx (wallet_path acct ''balance''))) ''Failed to fetch balance'') (\<lambda>(code, txt, j).
     if code = 404 then retE (Notice ''Account not found'')
     else if \<not> is_success code then failE (''Failed to fetch balance: '' @ txt)
     else bindE (json_or decode_balance j ''Invalid balance response'') (\<lambda>bal. retE (show_as ctx bal))))"

record deposit_response =
  dr_payment_url :: "string option"
  dr_deposit_address :: "string option"
  dr_amount_nmc :: f64
  dr_reference_id :: string

definition decode_deposit :: "json \<Rightarrow> deposit_response option" where
  "decode_deposit j =
     (case (opt_field j_as_str ''payment_url'' j, opt_field j_as_str ''deposit_address'' j, req_field j_as_f64 ''amount_nmc'' j,
            default_field [] j_as_str ''reference_id'' j) of
        (Some u, Some a, Some m, Some r) \<Rightarrow> Some \<lparr>dr_payment_url = u, dr_deposit_address = a, dr_amount_nmc = m, dr_reference_id = r\<rparr>
      | _ \<Rightarrow> None)"

text \<open>What is shown after the amount: where to pay, that the credits were added, where to send them, or the method.\<close>

datatype deposit_notice = Pay_At string | Credits_Added | Send_To string string | Nothing_More | Other_Method string string

definition deposit_request :: "client_context \<Rightarrow> string \<Rightarrow> f64 \<Rightarrow> string \<Rightarrow> http_request" where
  "deposit_request ctx acct amount payment =
     post_req (at_ledger ctx (wallet_path acct ''deposit'')) (Json_Body (JObj [(''amount_nmc'', j_f64 amount), (''reference'', JStr payment)]))"

definition cli_deposit :: "'w http_peer \<Rightarrow> client_context \<Rightarrow> f64 \<Rightarrow> string \<Rightarrow> ('w, f64 \<times> deposit_notice) cli" where
  "cli_deposit peer ctx amount payment =
     bindE (require_account_id ctx) (\<lambda>acct.
     if f64_le amount (Fin 0) then failE ''Deposit amount must be greater than 0''
     else
       bindE (send_or peer (deposit_request ctx acct amount payment) ''Failed to initiate deposit'') (\<lambda>(code, txt, j).
       if \<not> is_success code then failE (''Deposit failed: '' @ txt)
       else bindE (json_or decode_deposit j ''Invalid deposit response'') (\<lambda>dep.
         retE (dr_amount_nmc dep,
           if payment = ''stripe'' then (case dr_payment_url dep of Some url \<Rightarrow> Pay_At url | None \<Rightarrow> Credits_Added)
           else if payment = ''crypto'' then (case dr_deposit_address dep of Some a \<Rightarrow> Send_To a (dr_reference_id dep) | None \<Rightarrow> Nothing_More)
           else Other_Method payment (dr_reference_id dep)))))"

record withdraw_response =
  wr_tx_id :: string
  wr_amount_nmc :: f64
  wr_destination :: string
  wr_status :: string

definition decode_withdraw :: "json \<Rightarrow> withdraw_response option" where
  "decode_withdraw j =
     (case (req_field j_as_str ''tx_id'' j, req_field j_as_f64 ''amount_nmc'' j, req_field j_as_str ''destination'' j, req_field j_as_str ''status'' j) of
        (Some t, Some m, Some d, Some s) \<Rightarrow> Some \<lparr>wr_tx_id = t, wr_amount_nmc = m, wr_destination = d, wr_status = s\<rparr>
      | _ \<Rightarrow> None)"

definition withdraw_request :: "client_context \<Rightarrow> string \<Rightarrow> string \<Rightarrow> f64 \<Rightarrow> http_request" where
  "withdraw_request ctx acct address amount =
     post_req (at_ledger ctx (wallet_path acct ''withdraw'')) (Json_Body (JObj [(''dest_address'', JStr address), (''amount_nmc'', j_f64 amount)]))"

definition eth_address :: "string \<Rightarrow> bool" where
  "eth_address a \<longleftrightarrow> starts_with ''0x'' a \<and> length a = 42"

definition cli_withdraw :: "'w http_peer \<Rightarrow> client_context \<Rightarrow> string \<Rightarrow> f64 \<Rightarrow> ('w, withdraw_response) cli" where
  "cli_withdraw peer ctx address amount =
     bindE (require_account_id ctx) (\<lambda>acct.
     if f64_le amount (Fin 0) then failE ''Withdrawal amount must be greater than 0''
     else if \<not> eth_address address then failE ''Invalid Ethereum address. Expected 0x... (42 chars)''
     else
       bindE (send_or peer (withdraw_request ctx acct address amount) ''Failed to initiate withdrawal'') (\<lambda>(code, txt, j).
       if code = 400 then failE (''Withdrawal failed: '' @ txt)
       else if \<not> is_success code then failE (''Withdrawal failed: '' @ txt)
       else json_or decode_withdraw j ''Invalid withdrawal response''))"

record wallet_transaction =
  wt_tx_id :: string
  wt_kind :: string
  wt_amount_nmc :: f64
  wt_balance_after :: f64
  wt_description :: json
  wt_created_at :: json

definition decode_tx :: "json \<Rightarrow> wallet_transaction option" where
  "decode_tx j =
     (case (req_field j_as_str ''tx_id'' j, req_field j_as_str ''tx_type'' j, req_field j_as_f64 ''amount_nmc'' j,
            default_field (Fin 0) j_as_f64 ''balance_after'' j, req_field j_text ''description'' j, req_field j_text ''created_at'' j) of
        (Some t, Some k, Some m, Some b, Some d, Some c) \<Rightarrow>
          Some \<lparr>wt_tx_id = t, wt_kind = k, wt_amount_nmc = m, wt_balance_after = b, wt_description = d, wt_created_at = c\<rparr>
      | _ \<Rightarrow> None)"

definition decode_tx_list :: "json \<Rightarrow> (wallet_transaction list \<times> int) option" where
  "decode_tx_list j = (case (list_field decode_tx ''transactions'' j, default_field 0 j_u32 ''total'' j) of
     (Some ts, Some n) \<Rightarrow> Some (ts, n) | _ \<Rightarrow> None)"

definition history_url :: "client_context \<Rightarrow> string \<Rightarrow> int \<Rightarrow> string option \<Rightarrow> string" where
  "history_url ctx acct limit kind =
     at_ledger ctx (wallet_path acct ''transactions'' @ ''?account_id='' @ acct @ ''&limit='' @ int_str limit @
       (case kind of Some k \<Rightarrow> ''&kind='' @ k | None \<Rightarrow> []))"

definition show_history :: "'w http_peer \<Rightarrow> client_context \<Rightarrow> int \<Rightarrow> string option \<Rightarrow> ('w, (wallet_transaction list \<times> int) shown) cli" where
  "show_history peer ctx limit kind =
     bindE (require_account_id ctx) (\<lambda>acct.
     bindE (send_or peer (get_req (history_url ctx acct limit kind)) ''Failed to fetch transaction history'') (\<lambda>(code, txt, j).
     if \<not> is_success code then failE (''Failed to fetch history: '' @ txt)
     else bindE (json_or decode_tx_list j ''Invalid transaction response'') (\<lambda>r.
       retE (if fst r = [] then Notice ''No transactions found.'' else show_as ctx r))))"

section \<open>Against the ledger\<close>

abbreviation ledger_of :: "client_context \<Rightarrow> (json \<Rightarrow> string) \<Rightarrow> coord_db world http_peer" where
  "ledger_of ctx text_of \<equiv> ledger_peer text_of (trim_end_matches (CHR ''/'') (cc_ledger_url ctx))"

lemma wallet_ops_plain: "plain_text ''balance''" "plain_text ''deposit''" "plain_text ''withdraw''" "plain_text ''transactions''"
  by (simp_all add: plain_text_def)

lemma wallet_path_route:
  "plain_text acct \<Longrightarrow> plain_text op \<Longrightarrow>
     route_of (trim_end_matches (CHR ''/'') (cc_ledger_url ctx)) (at_ledger ctx (wallet_path acct op)) = Some ([''wallet'', acct, op], [])"
  unfolding wallet_path_def by (rule wallet_route)

lemma deposit_reply:
  assumes "plain_text acct" "m = Fin q"
  shows "ledger_of ctx text_of (deposit_request ctx acct m payment) w = reply_of text_of (deposit acct \<lparr>db_amount_nmc = m, db_reference = Some payment\<rparr> w)"
  using assms wallet_path_route [OF assms(1) wallet_ops_plain(2), of ctx]
  by (simp add: ledger_peer_def deposit_request_def post_req_def with_body_def deposit_body_of_def req_field_def opt_field_def j_field_def)

lemma withdraw_reply:
  assumes "plain_text acct" "m = Fin q"
  shows "ledger_of ctx text_of (withdraw_request ctx acct address m) w =
     reply_of text_of (ledger_withdraw acct \<lparr>lw_amount_nmc = m, lw_dest_address = address\<rparr> w)"
  using assms wallet_path_route [OF assms(1) wallet_ops_plain(3), of ctx]
  by (simp add: ledger_peer_def withdraw_request_def post_req_def with_body_def ledger_withdraw_body_of_def req_field_def j_field_def)

lemma deposit_answer_unreadable: "deposit acct b w = (Inr j, w') \<Longrightarrow> decode_withdraw j = None"
  by (auto simp: deposit_def decode_withdraw_def req_field_def j_field_def bindE_ok seqE_ok map_errE_ok retE_ok failE_ok split: if_splits)

text \<open>No answer of the withdrawal handler has the fields that the client expects.\<close>

lemma withdraw_answer_unreadable: "ledger_withdraw acct b w = (Inr j, w') \<Longrightarrow> decode_withdraw j = None"
  by (auto simp: ledger_withdraw_def decode_withdraw_def req_field_def j_field_def bindE_ok seqE_ok map_errE_ok retE_ok failE_ok
      split: if_splits)

lemma wallet_errors_bare:
  "deposit acct b w \<noteq> (Inl (Status_Json c j), w')" "ledger_withdraw acct b' w \<noteq> (Inl (Status_Json c j), w')"
  by (auto simp: deposit_def ledger_withdraw_def new_uuid_def retE_def failE_def bindE_def seqE_def map_errE_def
      split: sum.splits prod.splits if_splits)

lemma cli_withdraw_never:
  "\<exists>msg. fst (cli_withdraw (ledger_of ctx text_of) ctx address amount s) = Inl msg"
proof -
  define req where "req acct = withdraw_request ctx acct address amount" for acct
  have "code \<noteq> 400 \<Longrightarrow> is_success code \<Longrightarrow> Option.bind j decode_withdraw = None"
    if "ledger_of ctx text_of (req acct) w = (Reply code body j, w')" for acct w code body j w'
    using that unfolding ledger_peer_def req_def withdraw_request_def post_req_def
    by (auto simp: reply_of_def plain_reply_def with_body_def is_success_def status_code_def
        split: option.splits list.splits if_splits prod.splits sum.splits rest_error.splits status.splits request_body.splits
        simp: wallet_errors_bare dest: withdraw_answer_unreadable deposit_answer_unreadable)
  then show ?thesis
    by (auto simp: cli_withdraw_def require_account_id_def prog_simps send_or_def send_to_def json_or_def req_def
        split: option.split prod.split http_reply.split)
qed

text \<open>C31: \<open>hatch wallet withdraw\<close> never reports success. Whatever the account, the address, the amount and the state of the ledger, the command
  ends with an error; yet for a configured account, a well-formed address and a positive amount the ledger's handler has run with all its
  effects: when it debited the account, the client says that the response is invalid, and whoever tries again pays again.\<close>

theorem withdraw_reported_failed:
  "(\<exists>msg. fst (cli_withdraw (ledger_of ctx text_of) ctx address amount s) = Inl msg) \<and>
   (cc_account_id ctx = Some acct \<and> plain_text acct \<and> eth_address address \<and> amount = Fin q \<and> 0 < q \<longrightarrow>
     (let r = ledger_withdraw acct \<lparr>lw_amount_nmc = amount, lw_dest_address = address\<rparr> (ci_peer s)
      in ci_peer (snd (cli_withdraw (ledger_of ctx text_of) ctx address amount s)) = snd r \<and>
         (\<forall>j. fst r = Inr j \<longrightarrow> fst (cli_withdraw (ledger_of ctx text_of) ctx address amount s) = Inl ''Invalid withdrawal response'')))"
proof (intro conjI impI)
  show "\<exists>msg. fst (cli_withdraw (ledger_of ctx text_of) ctx address amount s) = Inl msg"
    by (cases "cc_account_id ctx") (simp_all add: cli_withdraw_never)
next
  assume *: "cc_account_id ctx = Some acct \<and> plain_text acct \<and> eth_address address \<and> amount = Fin q \<and> 0 < q"
  obtain r w' where r: "ledger_withdraw acct \<lparr>lw_amount_nmc = amount, lw_dest_address = address\<rparr> (ci_peer s) = (r, w')" by fastforce
  have "ledger_of ctx text_of (withdraw_request ctx acct address amount) (ci_peer s) = reply_of text_of (r, w')"
    using * withdraw_reply [of acct amount q] r by simp
  then show "let r = ledger_withdraw acct \<lparr>lw_amount_nmc = amount, lw_dest_address = address\<rparr> (ci_peer s)
      in ci_peer (snd (cli_withdraw (ledger_of ctx text_of) ctx address amount s)) = snd r \<and>
         (\<forall>j. fst r = Inr j \<longrightarrow> fst (cli_withdraw (ledger_of ctx text_of) ctx address amount s) = Inl ''Invalid withdrawal response'')"
    using * withdraw_answer_unreadable [of acct "\<lparr>lw_amount_nmc = amount, lw_dest_address = address\<rparr>" "ci_peer s"] r
    by (cases r) (auto simp: cli_withdraw_def require_account_id_def prog_simps send_or_def send_to_def reply_of_def is_success_def json_or_def
        status_code_def split: rest_error.split status.split option.split)
qed

definition demo_client :: client_context where
  "demo_client = \<lparr>cc_coordinator_url = ''http://coord'', cc_ledger_url = ''http://ledger/'', cc_output_json = False, cc_account_id = Some ''acct''\<rparr>"

definition demo_cli :: "coord_db \<Rightarrow> coord_db world cli_world" where
  "demo_cli d = \<lparr>ci_host = \<lparr>ho_files = (\<lambda>_. None), ho_commands = []\<rparr>, ci_peer = world_at d\<rparr>"

definition demo_wallet :: string where
  "demo_wallet = ''0x52908400098527886E0F7030069857D2E4169EE7''"

text \<open>The ledger's two operations, run without database errors.\<close>

lemma insert_tx_new:
  assumes "wfaults w = []" "sql_first (\<lambda>t. t_tx_id t = tid) (txs (wdb w)) = None"
  shows "\<exists>t. insert_tx tid acct ty m bal ref descr w = (Inr (), w\<lparr>wdb := (wdb w)\<lparr>txs := t\<rparr>\<rparr>)"
proof -
  have "t_tx_id ((new_tx_row tid acct ty m now)\<lparr>t_balance_after := x, t_reference := y, t_description := z\<rparr>) = tid" for now x y z
    by (simp add: new_tx_row_def)
  then show ?thesis using assms by (auto simp: insert_tx_def prog_simps on_txs_def sql_insert_new)
qed

lemma ledger_withdraw_run:
  assumes "wfaults w = []" "pk_inv (wdb w)" "sql_first (\<lambda>t. t_tx_id t = wids w (widn w)) (txs (wdb w)) = None" "0 < m"
    and "credit_of (wdb w) acct = Some c" "c_available c = Some (Fin a)" "c_spent c = Some (Fin p)" "m \<le> a"
    and "f64_of (a - m) = Fin a'" "f64_of (p + m) = Fin p'"
  shows "\<exists>j w'. ledger_withdraw acct \<lparr>lw_amount_nmc = Fin m, lw_dest_address = d\<rparr> w = (Inr j, w') \<and>
     credit_of (wdb w') acct = Some (c\<lparr>c_available := Some (Fin a'), c_spent := Some (Fin p'), c_updated_at := Some (wnow w)\<rparr>)"
proof -
  let ?w = "w\<lparr>widn := Suc (widn w)\<rparr>"
  let ?c = "c\<lparr>c_available := Some (Fin a'), c_spent := Some (Fin p'), c_updated_at := Some (wnow w)\<rparr>"
  have "withdraw_row (Fin m) (wnow ?w) c = Inr ?c" using assms(6,7,9,10) by (simp add: withdraw_row_def)
  from guarded_debit_run [of ?w acct c "Fin m" "withdraw_row (Fin m)", OF _ _ _ _ this] assms(1,2,5,6,8)
  obtain n t where t: "guarded_debit acct (Fin m) (withdraw_row (Fin m)) ?w = (Inr n, ?w\<lparr>wdb := (wdb w)\<lparr>credits := t\<rparr>\<rparr>)" "n \<noteq> 0"
    "sql_first (\<lambda>r. c_account_id r = acct) t = Some ?c" by auto
  moreover obtain u where "insert_tx (wids w (widn w)) acct ''withdraw'' (f64_neg (Fin m)) True (Some d) ''Withdrawal request'' (?w\<lparr>wdb := (wdb w)\<lparr>credits := t\<rparr>\<rparr>) =
      (Inr (), ?w\<lparr>wdb := (wdb w)\<lparr>credits := t, txs := u\<rparr>\<rparr>)"
    using insert_tx_new [of "?w\<lparr>wdb := (wdb w)\<lparr>credits := t\<rparr>\<rparr>" "wids w (widn w)" acct "''withdraw''" "f64_neg (Fin m)" True "Some d" "''Withdrawal request''"] assms(1,3)
    by auto
  ultimately show ?thesis using assms(4) by (simp add: ledger_withdraw_def prog_simps f64_le_def del: f64_neg.simps)
qed

lemma ledger_deposit_run:
  assumes "wfaults w = []" "pk_inv (wdb w)" "sql_first (\<lambda>t. t_tx_id t = wids w (widn w)) (txs (wdb w)) = None" "0 < m"
    and "credit_of (wdb w) acct = Some c" "c_available c = Some (Fin a)" "f64_of (a + m) = Fin a'"
  shows "\<exists>w'. deposit acct \<lparr>db_amount_nmc = Fin m, db_reference = r\<rparr> w =
       (Inr (JObj [(''ok'', JBool True), (''transaction_id'', JStr (wids w (widn w))), (''amount_nmc'', JNum m)]), w') \<and>
     wfaults w' = [] \<and> credit_of (wdb w') acct = Some (c\<lparr>c_available := Some (Fin a'), c_updated_at := Some (wnow w)\<rparr>)"
proof -
  let ?w = "w\<lparr>widn := Suc (widn w)\<rparr>"
  let ?c = "c\<lparr>c_available := Some (Fin a'), c_updated_at := Some (wnow w)\<rparr>"
  have kd: "keys_distinct c_account_id (credits (wdb w))" using assms(2) by (simp add: pk_inv_def)
  have "deposit_row_of c (Fin m) (wnow w) = Inr ?c" using assms(6,7) by (simp add: deposit_row_of_def)
  then obtain t where t: "sql_update (\<lambda>r. c_account_id r = acct) (\<lambda>r. deposit_row_of r (Fin m) (wnow w)) (credits (wdb w)) = Inr t"
    "sql_first (\<lambda>r. c_account_id r = acct) t = Some ?c"
    using credits_tbl.modify_hit [where f = "\<lambda>r. deposit_row_of r (Fin m) (wnow w)", OF kd assms(5)] by auto
  have "sql_upsert c_account_id ((new_credit_row acct (wnow w))\<lparr>c_available := Some (Fin m)\<rparr>)
      (\<lambda>r. deposit_row_of r (Fin m) (wnow w)) (credits (wdb w)) = Inr t"
    using sql_upsert_hit [of c_account_id "(new_credit_row acct (wnow w))\<lparr>c_available := Some (Fin m)\<rparr>"] assms(5) t(1)
    by (simp add: new_credit_row_def)
  then have "credit_deposit acct (Fin m) ?w = (Inr (), ?w\<lparr>wdb := (wdb w)\<lparr>credits := t\<rparr>\<rparr>)"
    using assms(1) by (simp add: credit_deposit_def prog_simps on_credits_def)
  moreover obtain u where "insert_tx (wids w (widn w)) acct ''deposit'' (Fin m) True r ''Manual deposit'' (?w\<lparr>wdb := (wdb w)\<lparr>credits := t\<rparr>\<rparr>) =
      (Inr (), ?w\<lparr>wdb := (wdb w)\<lparr>credits := t, txs := u\<rparr>\<rparr>)"
    using insert_tx_new [of "?w\<lparr>wdb := (wdb w)\<lparr>credits := t\<rparr>\<rparr>" "wids w (widn w)" acct "''deposit''" "Fin m" True r "''Manual deposit''"] assms(1,3)
    by auto
  ultimately show ?thesis using assms(1,4) t(2) by (simp add: deposit_def prog_simps f64_le_def)
qed

text \<open>Four of ten credits are withdrawn; the client reports a failure.\<close>

lemma withdraw_reported_failed_witness:
  "fst (cli_withdraw (ledger_of demo_client (\<lambda>_. [])) demo_client demo_wallet (Fin 4) (demo_cli demo_db)) = Inl ''Invalid withdrawal response'' \<and>
   map_option c_available (credit_of (wdb (ci_peer (snd (cli_withdraw (ledger_of demo_client (\<lambda>_. [])) demo_client demo_wallet (Fin 4) (demo_cli demo_db))))) ''acct'')
     = Some (Some (Fin 6))"
proof -
  have "pk_inv demo_db" using demo_db_facts(1) by (simp add: db_inv_def)
  moreover have "c_spent demo_credit = Some (Fin 0)" "txs demo_db = []" by (simp_all add: demo_credit_def new_credit_row_def demo_db_def empty_db_def)
  ultimately obtain j w' where "ledger_withdraw ''acct'' \<lparr>lw_amount_nmc = Fin 4, lw_dest_address = demo_wallet\<rparr> (world_at demo_db) = (Inr j, w')"
    and "map_option c_available (credit_of (wdb w') ''acct'') = Some (Some (Fin 6))"
    using ledger_withdraw_run [of "world_at demo_db" 4 "''acct''" demo_credit 10 0 6 4 demo_wallet] by auto
  moreover have "eth_address demo_wallet" by (simp add: eth_address_def demo_wallet_def starts_with_def)
  ultimately show ?thesis
    using withdraw_reported_failed [where ctx = demo_client and text_of = "\<lambda>_. []" and address = demo_wallet and amount = "Fin 4" and s = "demo_cli demo_db"
      and acct = "''acct''" and q = 4]
    by (simp add: demo_client_def plain_text_def demo_cli_def Let_def)
qed

section \<open>A deposit and the balance\<close>

lemma cli_deposit_run:
  assumes "cc_account_id ctx = Some acct" "plain_text acct" "wfaults (ci_peer s) = []" "pk_inv (wdb (ci_peer s))" "0 < m"
    and "sql_first (\<lambda>t. t_tx_id t = wids (ci_peer s) (widn (ci_peer s))) (txs (wdb (ci_peer s))) = None"
    and "credit_of (wdb (ci_peer s)) acct = Some c" "c_available c = Some (Fin a)" "f64_of (a + m) = Fin a'"
  shows "\<exists>w'. cli_deposit (ledger_of ctx text_of) ctx (Fin m) ''stripe'' s = (Inr (Fin m, Credits_Added), s\<lparr>ci_peer := w'\<rparr>) \<and>
     wfaults w' = [] \<and> credit_of (wdb w') acct = Some (c\<lparr>c_available := Some (Fin a'), c_updated_at := Some (wnow (ci_peer s))\<rparr>)"
proof -
  from ledger_deposit_run [OF assms(3,4,6,5,7,8,9), of "Some ''stripe''"] obtain w' where w':
    "deposit acct \<lparr>db_amount_nmc = Fin m, db_reference = Some ''stripe''\<rparr> (ci_peer s) =
       (Inr (JObj [(''ok'', JBool True), (''transaction_id'', JStr (wids (ci_peer s) (widn (ci_peer s)))), (''amount_nmc'', JNum m)]), w')"
    "wfaults w' = []" "credit_of (wdb w') acct = Some (c\<lparr>c_available := Some (Fin a'), c_updated_at := Some (wnow (ci_peer s))\<rparr>)" by blast
  then have "ledger_of ctx text_of (deposit_request ctx acct (Fin m) ''stripe'') (ci_peer s) = reply_of text_of
      (Inr (JObj [(''ok'', JBool True), (''transaction_id'', JStr (wids (ci_peer s) (widn (ci_peer s)))), (''amount_nmc'', JNum m)]), w')"
    using deposit_reply [where acct = acct and m = "Fin m" and q = m and ctx = ctx and text_of = text_of and payment = "''stripe''" and w = "ci_peer s"] assms(2) by simp
  then show ?thesis using assms(1,5) w'(2,3)
    by (intro exI [of _ w']) (simp add: cli_deposit_def require_account_id_def prog_simps send_or_def send_to_def reply_of_def is_success_def json_or_def decode_deposit_def
        req_field_def opt_field_def default_field_def j_field_def f64_le_def)
qed

lemma show_balance_run:
  assumes "cc_account_id ctx = Some acct" "plain_text acct" "wfaults (ci_peer s) = []"
    and "credit_of (wdb (ci_peer s)) acct = Some c" "c_available c = Some (Fin a)" "c_escrowed c = Some (Fin e)" "c_earned c = Some (Fin t)"
      "c_spent c = Some (Fin p)"
  shows "fst (show_balance (ledger_of ctx text_of) ctx s) = Inr (show_as ctx
     \<lparr>br_account_id = acct, br_available_nmc = Fin a, br_escrowed_nmc = Fin e, br_total_earned_nmc = Fin t, br_total_spent_nmc = Fin p\<rparr>)"
proof -
  let ?w = "ci_peer s"
  have "acct \<in> c_account_id ` set (credits (wdb ?w))" using assms(4) by (auto simp: sql_first_def find_Some_iff)
  then have "ensure_credit_account acct ?w = (Inr (), ?w)" using assms(3)
    by (simp add: ensure_credit_account_def prog_simps on_credits_def sql_insert_ignore_def new_credit_row_def)
  then obtain x where "ledger_get_balance acct ?w = (Inr (JObj [(''account_id'', JStr acct), (''available_nmc'', JNum a), (''escrowed_nmc'', JNum e),
      (''total_nmc'', x), (''total_earned_nmc'', JNum t), (''total_spent_nmc'', JNum p)]), ?w)"
    using assms(3-8) by (simp add: ledger_get_balance_def prog_simps)
  then have "ledger_of ctx text_of (get_req (at_ledger ctx (wallet_path acct ''balance''))) ?w =
     (Reply 200 (text_of (JObj [(''account_id'', JStr acct), (''available_nmc'', JNum a), (''escrowed_nmc'', JNum e),
      (''total_nmc'', x), (''total_earned_nmc'', JNum t), (''total_spent_nmc'', JNum p)])) (Some (JObj [(''account_id'', JStr acct), (''available_nmc'', JNum a),
      (''escrowed_nmc'', JNum e), (''total_nmc'', x), (''total_earned_nmc'', JNum t), (''total_spent_nmc'', JNum p)])), ?w)"
    using wallet_path_route [OF assms(2) wallet_ops_plain(1), of ctx] by (simp add: ledger_peer_def get_req_def reply_of_def)
  then show ?thesis using assms(1)
    by (simp add: show_balance_def require_account_id_def prog_simps send_or_def send_to_def is_success_def json_or_def decode_balance_def req_field_def j_field_def)
qed

text \<open>Credits for nothing. \<open>hatch wallet deposit\<close> with the card payment, for any positive amount and any account the ledger knows, answers that
  the credits were added, with no address to pay at; a following \<open>hatch wallet balance\<close> shows the available balance greater by the amount,
  everything else as before.\<close>

theorem deposit_shown_unpaid:
  assumes "cc_account_id ctx = Some acct" "plain_text acct" "wfaults (ci_peer s) = []" "pk_inv (wdb (ci_peer s))" "0 < m"
    and "sql_first (\<lambda>t. t_tx_id t = wids (ci_peer s) (widn (ci_peer s))) (txs (wdb (ci_peer s))) = None"
    and "credit_of (wdb (ci_peer s)) acct = Some c" "c_available c = Some (Fin a)" "c_escrowed c = Some (Fin e)" "c_earned c = Some (Fin t)"
      "c_spent c = Some (Fin p)" "f64_of (a + m) = Fin a'"
  shows "\<exists>s'. cli_deposit (ledger_of ctx text_of) ctx (Fin m) ''stripe'' s = (Inr (Fin m, Credits_Added), s') \<and>
     fst (show_balance (ledger_of ctx text_of) ctx s') = Inr (show_as ctx
       \<lparr>br_account_id = acct, br_available_nmc = Fin a', br_escrowed_nmc = Fin e, br_total_earned_nmc = Fin t, br_total_spent_nmc = Fin p\<rparr>)"
proof -
  from cli_deposit_run [OF assms(1-5) assms(6,7,8,12), of text_of] obtain w' where
    "cli_deposit (ledger_of ctx text_of) ctx (Fin m) ''stripe'' s = (Inr (Fin m, Credits_Added), s\<lparr>ci_peer := w'\<rparr>)" "wfaults w' = []"
    "credit_of (wdb w') acct = Some (c\<lparr>c_available := Some (Fin a'), c_updated_at := Some (wnow (ci_peer s))\<rparr>)" by blast
  with show_balance_run [of ctx acct "s\<lparr>ci_peer := w'\<rparr>" "c\<lparr>c_available := Some (Fin a'), c_updated_at := Some (wnow (ci_peer s))\<rparr>" a' e t p text_of] assms(1,2,9-11)
  show ?thesis by simp
qed

lemma deposit_shown_unpaid_witness:
  "\<exists>s'. cli_deposit (ledger_of demo_client (\<lambda>_. [])) demo_client (Fin 500) ''stripe'' (demo_cli demo_db) = (Inr (Fin 500, Credits_Added), s') \<and>
     fst (show_balance (ledger_of demo_client (\<lambda>_. [])) demo_client s') = Inr (Shown_Text
       \<lparr>br_account_id = ''acct'', br_available_nmc = Fin 510, br_escrowed_nmc = Fin 0, br_total_earned_nmc = Fin 0, br_total_spent_nmc = Fin 0\<rparr>)"
proof -
  have "pk_inv demo_db" using demo_db_facts(1) by (simp add: db_inv_def)
  moreover have "c_spent demo_credit = Some (Fin 0)" "c_earned demo_credit = Some (Fin 0)" "txs demo_db = []"
    by (simp_all add: demo_credit_def new_credit_row_def demo_db_def empty_db_def)
  ultimately show ?thesis
    using deposit_shown_unpaid [of demo_client "''acct''" "demo_cli demo_db" 500 demo_credit 10 0 0 0 510 "\<lambda>_. []"]
    by (simp add: demo_client_def plain_text_def demo_cli_def show_as_def)
qed

section \<open>The history\<close>

lemma history_reply:
  assumes "plain_text acct"
  shows "ledger_of ctx text_of (get_req (history_url ctx acct limit kind)) w = reply_of text_of (ledger_list_transactions acct w)"
proof -
  let ?base = "trim_end_matches (CHR ''/'') (cc_ledger_url ctx)"
  have "CHR ''?'' \<notin> set (''wallet/'' @ acct @ ''/transactions'')" using assms by (simp add: plain_text_def)
  from route_query [OF this, of ?base] have "\<exists>ps. route_of ?base (history_url ctx acct limit kind) = Some (split_on (CHR ''/'') (''wallet/'' @ acct @ ''/transactions''), ps)"
    by (simp add: history_url_def at_ledger_def wallet_path_def)
  moreover have "split_on (CHR ''/'') (''wallet/'' @ acct @ ''/transactions'') = [''wallet'', acct, ''transactions'']"
    using assms by (simp add: plain_text_def split_on_join split_on_one)
  ultimately show ?thesis by (auto simp: ledger_peer_def get_req_def)
qed

text \<open>The limit and the kind that the client asks for are ignored.\<close>

lemma history_ignores_filters:
  assumes "cc_account_id ctx = Some acct" "plain_text acct"
  shows "show_history (ledger_of ctx text_of) ctx limit kind = show_history (ledger_of ctx text_of) ctx limit' kind'"
  by (rule ext) (simp add: show_history_def require_account_id_def prog_simps send_or_def send_to_def assms history_reply [OF assms(2)])

text \<open>A transaction as the client reads it.\<close>

definition tx_shown :: "tx_row \<Rightarrow> wallet_transaction" where
  "tx_shown t = \<lparr>wt_tx_id = t_tx_id t, wt_kind = t_tx_type t, wt_amount_nmc = t_amount t, wt_balance_after = unwrap_or (Fin 0) (t_balance_after t),
     wt_description = j_opt JStr (t_description t), wt_created_at = j_opt JTime (t_created_at t)\<rparr>"

definition is_finite :: "f64 \<Rightarrow> bool" where
  "is_finite x = (case x of Fin _ \<Rightarrow> True | _ \<Rightarrow> False)"

definition tx_printable :: "tx_row \<Rightarrow> bool" where
  "tx_printable t \<longleftrightarrow> is_finite (t_amount t) \<and> is_finite (unwrap_or (Fin 0) (t_balance_after t)) \<and> t_description t \<noteq> None \<and> t_created_at t \<noteq> None"

lemma decode_ledger_tx: "tx_printable t \<Longrightarrow> decode_tx (ledger_tx_json t) = Some (tx_shown t)"
  by (auto simp: tx_printable_def is_finite_def decode_tx_def ledger_tx_json_def tx_shown_def req_field_def default_field_def j_field_def j_text_def
      split: f64.splits)

lemma decode_all_map: "(\<And>x. x \<in> set xs \<Longrightarrow> decode (f x) = Some (g x)) \<Longrightarrow> decode_all decode (map f xs) = Some (map g xs)"
  by (induction xs) auto

text \<open>The history shows the account's latest transactions. Whatever limit and kind are asked for, \<open>hatch wallet history\<close> shows up to a hundred
  of the account's transactions, the newest first, each as the ledger recorded it; the total that it compares with the limit is always 0.\<close>

theorem history_shows_recent:
  assumes "cc_account_id ctx = Some acct" "plain_text acct" "wfaults (ci_peer s) = []"
    and "list_all tx_printable (ledger_select_txs acct (wdb (ci_peer s)))" "ledger_select_txs acct (wdb (ci_peer s)) \<noteq> []"
  shows "show_history (ledger_of ctx text_of) ctx limit kind s =
     (Inr (show_as ctx (map tx_shown (ledger_select_txs acct (wdb (ci_peer s))), 0)), s)"
proof -
  let ?ts = "ledger_select_txs acct (wdb (ci_peer s))"
  have "decode_all decode_tx (map ledger_tx_json ?ts) = Some (map tx_shown ?ts)"
    using assms(4) by (intro decode_all_map decode_ledger_tx) (simp add: list_all_iff)
  then have "decode_tx_list (JObj [(''transactions'', JArr (map ledger_tx_json ?ts))]) = Some (map tx_shown ?ts, 0)"
    by (simp add: decode_tx_list_def list_field_def default_field_def j_field_def)
  moreover have "ledger_list_transactions acct (ci_peer s) = (Inr (JObj [(''transactions'', JArr (map ledger_tx_json ?ts))]), ci_peer s)"
    using assms(3) by (simp add: ledger_list_transactions_def prog_simps)
  ultimately show ?thesis using assms(1,5) history_reply [where ctx = ctx and text_of = text_of and limit = limit and kind = kind and w = "ci_peer s", OF assms(2)]
    by (simp add: show_history_def require_account_id_def prog_simps send_or_def send_to_def reply_of_def is_success_def json_or_def)
qed

definition demo_tx_row :: "string \<Rightarrow> int \<Rightarrow> tx_row" where
  "demo_tx_row i n = (new_tx_row i ''acct'' ''deposit'' (Fin 5) n)\<lparr>t_balance_after := Some (Fin 10), t_description := Some ''Manual deposit''\<rparr>"

text \<open>Limited to one, two are shown.\<close>

lemma history_shows_recent_witness:
  "fst (show_history (ledger_of demo_client (\<lambda>_. [])) demo_client 1 (Some ''withdraw'') (demo_cli (demo_db\<lparr>txs := [demo_tx_row ''t1'' 100, demo_tx_row ''t2'' 200]\<rparr>)))
     = Inr (Shown_Text ([tx_shown (demo_tx_row ''t2'' 200), tx_shown (demo_tx_row ''t1'' 100)], 0))"
proof -
  let ?s = "demo_cli (demo_db\<lparr>txs := [demo_tx_row ''t1'' 100, demo_tx_row ''t2'' 200]\<rparr>)"
  have "ledger_select_txs ''acct'' (wdb (ci_peer ?s)) = [demo_tx_row ''t2'' 200, demo_tx_row ''t1'' 100]"
    by (simp add: ledger_select_txs_def demo_cli_def order_desc_def demo_tx_row_def new_tx_row_def sort_col_def)
  moreover have "tx_printable (demo_tx_row i n)" for i n by (simp add: tx_printable_def is_finite_def demo_tx_row_def new_tx_row_def)
  ultimately show ?thesis
    using history_shows_recent [where ctx = demo_client and acct = "''acct''" and s = ?s and text_of = "\<lambda>_. []" and limit = 1 and kind = "Some ''withdraw''"]
    by (simp add: demo_client_def plain_text_def demo_cli_def show_as_def)
qed

end
