(* ===== verification/Cli_Main.thy ===== *)
theory Cli_Main
  imports Agent_Runs Cli_Wallet
begin

text \<open>
  The client as a program: the commands of \<open>src/cli/src/commands\<close> as clap delivers them, their dispatch, and \<open>main\<close>, which loads the
  configuration, builds the context and runs one command. A command that never returns has no outcome. The defaults and the parsing of the
  command line are clap's; the environment's overrides of the two addresses are among the arguments. What answers at an address is a
  parameter, and so is what happens between two polls.
\<close>

section \<open>Commands\<close>

datatype account_cmd = Account_Setup | Account_Info

datatype wallet_cmd =
  Wallet_Balance
| Wallet_Deposit f64 string
| Wallet_Withdraw string f64
| Wallet_History int "string option"

text \<open>The script, the runtime, the memory, the hours, the price, the files to include, and whether to wait.\<close>

datatype job_cmd =
  Job_Submit string string int f64 f64 "string option" bool
| Job_List "string option" int
| Job_Logs string bool
| Job_Cancel string

text \<open>The least memory, the runtime, the highest price, the order and the limit.\<close>

datatype gpu_cmd =
  Gpu_List "int option" "string option" "f64 option" string int
| Gpu_Benchmark string

datatype provider_cmd = Provider_Install string | Provider_Start | Provider_Stop | Provider_Status | Provider_Config provider_options

datatype hatch_command =
  Account_Cmd account_cmd
| Provider_Cmd provider_cmd
| Job_Cmd job_cmd
| Gpu_Cmd gpu_cmd
| Wallet_Cmd wallet_cmd

record hatch_args =
  ha_coordinator :: "string option"
  ha_ledger :: "string option"
  ha_output :: string
  ha_command :: hatch_command

section \<open>What a command shows\<close>

datatype outcome =
  Shown_Balance "balance_response shown"
| Shown_Deposit f64 deposit_notice
| Shown_Withdrawal withdraw_response
| Shown_History "(wallet_transaction list \<times> int) shown"
| Shown_Submission job_submit_response "job_response option"
| Shown_Jobs "job_response list" int
| Shown_Log string
| Shown_Cancelled string
| Shown_Gpus "provider_info list" int
| Shown_Benchmark string int "bench_result list"
| Shown_Install "install_note list" "string + string"
| Shown_Started
| Shown_Stopped
| Shown_Status bool network_line "string option"
| Shown_Configured
| Shown_Account string string
| Shown_Info "string option" "string option" "string option"

record 'w hatch_env =
  he_cli :: cli_env
  he_agent_toml :: agent_toml
  he_price_text :: "f64 \<Rightarrow> string"
  he_scripts :: "string \<Rightarrow> string"
  he_coordinator_at :: "string \<Rightarrow> 'w http_peer"
  he_ledger_at :: "string \<Rightarrow> 'w http_peer"
  he_meanwhile :: "nat \<Rightarrow> 'w \<Rightarrow> 'w"

text \<open>A command that may not return.\<close>

type_synonym 'w hatch_prog = "'w cli_world \<Rightarrow> ((string + outcome) \<times> 'w cli_world) option"

definition showing :: "('a \<Rightarrow> outcome) \<Rightarrow> ('w, 'a) cli \<Rightarrow> 'w hatch_prog" where
  "showing f m = (\<lambda>s. case m s of (r, s') \<Rightarrow> Some (map_sum id f r, s'))"

definition coordinator_for :: "'w hatch_env \<Rightarrow> client_context \<Rightarrow> 'w http_peer" where
  "coordinator_for he ctx = he_coordinator_at he (trim_end_matches (CHR ''/'') (cc_coordinator_url ctx))"

definition ledger_for :: "'w hatch_env \<Rightarrow> client_context \<Rightarrow> 'w http_peer" where
  "ledger_for he ctx = he_ledger_at he (trim_end_matches (CHR ''/'') (cc_ledger_url ctx))"

section \<open>Dispatch\<close>

definition run_account :: "'w hatch_env \<Rightarrow> client_context \<Rightarrow> account_cmd \<Rightarrow> 'w hatch_prog" where
  "run_account he ctx cmd = (case cmd of
     Account_Setup \<Rightarrow> showing (\<lambda>(aid, path). Shown_Account aid path) (account_setup (he_cli he) (coordinator_for he ctx) ctx)
   | Account_Info \<Rightarrow> showing (\<lambda>(aid, key, path). Shown_Info aid key path) (\<lambda>s. (Inr (account_info (he_cli he) ctx (ci_host s)), s)))"

definition run_wallet :: "'w hatch_env \<Rightarrow> client_context \<Rightarrow> wallet_cmd \<Rightarrow> 'w hatch_prog" where
  "run_wallet he ctx cmd = (case cmd of
     Wallet_Balance \<Rightarrow> showing Shown_Balance (show_balance (ledger_for he ctx) ctx)
   | Wallet_Deposit amount payment \<Rightarrow> showing (\<lambda>(m, n). Shown_Deposit m n) (cli_deposit (ledger_for he ctx) ctx amount payment)
   | Wallet_Withdraw address amount \<Rightarrow> showing Shown_Withdrawal (cli_withdraw (ledger_for he ctx) ctx address amount)
   | Wallet_History limit kind \<Rightarrow> showing Shown_History (show_history (ledger_for he ctx) ctx limit kind))"

text \<open>After a submission the client may wait, until the job has ended.\<close>

definition submit_and_wait :: "'w hatch_env \<Rightarrow> client_context \<Rightarrow> bool \<Rightarrow> ('w, job_submit_response) cli \<Rightarrow> 'w hatch_prog" where
  "submit_and_wait he ctx wait m = (\<lambda>s. case m s of
     (Inl e, s') \<Rightarrow> Some (Inl e, s')
   | (Inr r, s') \<Rightarrow>
       (if \<not> wait then Some (Inr (Shown_Submission r None), s')
        else map_option (\<lambda>(job, s''). (Inr (Shown_Submission r (Some job)), s''))
               (wait_for_completion (coordinator_for he ctx) (he_meanwhile he) (job_url ctx (js_job_id r)) 0 s')))"

definition run_job :: "'w hatch_env \<Rightarrow> client_context \<Rightarrow> job_cmd \<Rightarrow> 'w hatch_prog" where
  "run_job he ctx cmd = (case cmd of
     Job_Submit script rt ram hours max_price includes wait \<Rightarrow>
       submit_and_wait he ctx wait (cli_submit (cv_machine (he_cli he)) (coordinator_for he ctx) ctx script rt ram hours max_price includes)
   | Job_List state limit \<Rightarrow> showing (\<lambda>(js, n). Shown_Jobs js n) (cli_list_jobs (coordinator_for he ctx) ctx state limit)
   | Job_Logs jid follow \<Rightarrow>
       (if follow
        then (\<lambda>s. map_option (\<lambda>((r, printed), s'). (map_sum id (\<lambda>_. Shown_Log printed) r, s'))
               (follow_logs (coordinator_for he ctx) (he_meanwhile he) (logs_url ctx jid) jid 0 0 [] s))
        else showing Shown_Log (cli_show_log (coordinator_for he ctx) ctx jid))
   | Job_Cancel jid \<Rightarrow> showing Shown_Cancelled (cli_cancel (coordinator_for he ctx) ctx jid))"

definition run_gpu :: "'w hatch_env \<Rightarrow> client_context \<Rightarrow> gpu_cmd \<Rightarrow> 'w hatch_prog" where
  "run_gpu he ctx cmd = (case cmd of
     Gpu_List min_ram rt max_price sorting limit \<Rightarrow>
       showing (\<lambda>(ps, n). Shown_Gpus ps n) (list_gpus (coordinator_for he ctx) (he_price_text he) ctx min_ram rt max_price sorting limit)
   | Gpu_Benchmark rt \<Rightarrow> showing (\<lambda>(chip, gb, rs). Shown_Benchmark chip gb rs) (on_host (benchmark_local (cv_machine (he_cli he)) (he_scripts he) rt)))"

definition run_provider :: "'w hatch_env \<Rightarrow> client_context \<Rightarrow> provider_cmd \<Rightarrow> 'w hatch_prog" where
  "run_provider he ctx cmd = (case cmd of
     Provider_Install runtimes \<Rightarrow> showing (\<lambda>(notes, acct). Shown_Install notes acct) (provider_install (he_cli he) (coordinator_for he ctx) ctx runtimes)
   | Provider_Start \<Rightarrow> showing (\<lambda>_. Shown_Started) (on_host (start_daemon (he_cli he)))
   | Provider_Stop \<Rightarrow> showing (\<lambda>_. Shown_Stopped) (on_host (stop_daemon (he_cli he)))
   | Provider_Status \<Rightarrow> showing (\<lambda>(up, net, chip). Shown_Status up net chip) (show_status (he_cli he) (coordinator_for he ctx) ctx)
   | Provider_Config po \<Rightarrow> showing (\<lambda>_. Shown_Configured) (on_host (configure (he_cli he) (he_agent_toml he) po)))"

definition run_command_of :: "'w hatch_env \<Rightarrow> client_context \<Rightarrow> hatch_command \<Rightarrow> 'w hatch_prog" where
  "run_command_of he ctx cmd = (case cmd of
     Account_Cmd c \<Rightarrow> run_account he ctx c | Provider_Cmd c \<Rightarrow> run_provider he ctx c | Job_Cmd c \<Rightarrow> run_job he ctx c
   | Gpu_Cmd c \<Rightarrow> run_gpu he ctx c | Wallet_Cmd c \<Rightarrow> run_wallet he ctx c)"

definition hatch_main :: "'w hatch_env \<Rightarrow> hatch_args \<Rightarrow> 'w hatch_prog" where
  "hatch_main he args = (\<lambda>s. case on_host (cli_config_load (he_cli he) (ha_coordinator args) (ha_ledger args)) s of
     (Inl e, s') \<Rightarrow> Some (Inl e, s')
   | (Inr cfg, s') \<Rightarrow> run_command_of he (context_of cfg (ha_output args)) (ha_command args) s')"

end
