(* ===== verification/Cli_Sessions.thy ===== *)
theory Cli_Sessions
  imports Cli_Main
begin

text \<open>
  What a sequence of runs of the client does: each run is a process of its own, which finds the files and the services as the last one left
  them.
\<close>

fun hatch_session :: "'w hatch_env \<Rightarrow> hatch_args list \<Rightarrow> 'w cli_world \<Rightarrow> ((string + outcome) list \<times> 'w cli_world) option" where
  "hatch_session he [] s = Some ([], s)"
| "hatch_session he (a # as) s =
     (case hatch_main he a s of None \<Rightarrow> None
      | Some (r, s') \<Rightarrow> map_option (\<lambda>(rs, s''). (r # rs, s'')) (hatch_session he as s'))"

definition plain_args :: "hatch_command \<Rightarrow> hatch_args" where
  "plain_args cmd = \<lparr>ha_coordinator = None, ha_ledger = None, ha_output = ''text'', ha_command = cmd\<rparr>"

text \<open>The services at their addresses, over one database.\<close>

definition served_by :: "sys_env \<Rightarrow> (json \<Rightarrow> string) \<Rightarrow> coord_db world hatch_env \<Rightarrow> bool" where
  "served_by senv text_of he \<longleftrightarrow> he_coordinator_at he = coordinator_peer senv text_of \<and> he_ledger_at he = ledger_peer text_of"

lemma served_for: "served_by senv text_of he \<Longrightarrow> coordinator_for he ctx = coordinator_of senv ctx text_of"
    "served_by senv text_of he \<Longrightarrow> ledger_for he ctx = ledger_of ctx text_of"
  by (simp_all add: served_by_def coordinator_for_def ledger_for_def)

section \<open>What a registration leaves alone\<close>

definition untouched :: "credit_row \<Rightarrow> bool" where
  "untouched r \<longleftrightarrow> c_available r = Some (Fin 0) \<and> c_escrowed r = Some (Fin 0) \<and> c_earned r = Some (Fin 0) \<and> c_spent r = Some (Fin 0)"

lemma register_untouched:
  "keeps (\<lambda>w. (\<forall>r\<in>set (credits (wdb w)). untouched r) \<and> txs (wdb w) = []) (register_account sha hex b)"
proof -
  have stmt: "keeps (\<lambda>w. (\<forall>r\<in>set (credits (wdb w)). untouched r) \<and> txs (wdb w) = []) (register_stmt b aid)" for aid
    unfolding register_stmt_def
    by (rule keeps_db_stmt [where I = "\<lambda>d. (\<forall>r\<in>set (credits d). untouched r) \<and> txs d = []"]) (auto simp: on_accounts_def map_sum_eq_Inr split: if_splits)
  have credit: "keeps (\<lambda>w. (\<forall>r\<in>set (credits (wdb w)). untouched r) \<and> txs (wdb w) = []) (ensure_credit_account aid)" for aid
    unfolding ensure_credit_account_def
    by (rule keeps_db_exec [where I = "\<lambda>d. (\<forall>r\<in>set (credits d). untouched r) \<and> txs d = []"])
      (auto simp: on_credits_def sql_insert_ignore_def new_credit_row_def untouched_def split: if_splits)
  show ?thesis unfolding register_account_def by (intro keeps_intro stmt credit)
qed

text \<open>The wallet commands change nothing on the machine.\<close>

lemma keeps_host_send: "keeps (\<lambda>s. ci_host s = h) (send_or peer req msg)"
  by (rule keepsI) (simp add: send_or_def send_to_def prog_simps split: prod.split http_reply.split)

lemma keeps_host_deposit: "keeps (\<lambda>s. ci_host s = h) (cli_deposit peer ctx m payment)"
  unfolding cli_deposit_def require_account_id_def json_or_def by (intro keeps_intro keeps_host_send)


section \<open>The first session\<close>

lemma hatch_main_with:
  assumes "cli_config_load (he_cli he) None None (ci_host s) = (Inr cfg, ci_host s)"
  shows "hatch_main he (plain_args cmd) s = run_command_of he (context_of cfg ''text'') cmd s"
  using assms by (simp add: hatch_main_def plain_args_def on_host_def)

lemma load_first_config:
  assumes "setup_laws cv" "cv_var cv ''NM_ACCOUNT_ID'' = None" "ho_files h (cli_toml_path cv) = None"
  shows "cli_config_load cv None None h = (Inr default_cli_config, h)"
proof -
  have "config_path cv = cli_toml_path cv" using assms(1) by (intro config_path_eq) (simp add: setup_laws_def)
  then show ?thesis using assms(2,3) by (simp add: cli_config_load_def prog_simps exists_path_def Let_def)
qed

text \<open>C38: A first session gives credits for nothing. On a machine without key and configuration, at a coordinator without accounts: \<open>hatch account
  setup\<close> makes an account; a second process, \<open>hatch wallet deposit\<close> by card, finds that account in the configuration file and reports the credits
  as added, without a payment; and a third, \<open>hatch wallet balance\<close>, shows them as the account's whole balance.\<close>

theorem first_session:
  assumes "served_by senv text_of he" "setup_laws (he_cli he)" "cv_var (he_cli he) ''NM_ACCOUNT_ID'' = None" "\<And>x. plain_text (se_hex senv x)"
    and "ho_files (ci_host s) (identity_path (he_cli he)) = None" "ho_files (ci_host s) (cli_toml_path (he_cli he)) = None"
    and "wfaults (ci_peer s) = []" "db_inv (wdb (ci_peer s))" "accounts (wdb (ci_peer s)) = []" "credits (wdb (ci_peer s)) = []" "txs (wdb (ci_peer s)) = []"
    and "0 < m" "f64_of m = Fin m'"
  shows "\<exists>aid s'. hatch_session he [plain_args (Account_Cmd Account_Setup), plain_args (Wallet_Cmd (Wallet_Deposit (Fin m) ''stripe'')),
       plain_args (Wallet_Cmd Wallet_Balance)] s =
     Some ([Inr (Shown_Account aid ''~/.config/neuralmesh/cli.toml''), Inr (Shown_Deposit (Fin m) Credits_Added),
       Inr (Shown_Balance (Shown_Text \<lparr>br_account_id = aid, br_available_nmc = Fin m', br_escrowed_nmc = Fin 0, br_total_earned_nmc = Fin 0,
          br_total_spent_nmc = Fin 0\<rparr>))], s')"
proof -
  let ?cv = "he_cli he" and ?ctx0 = "context_of default_cli_config ''text''"
  obtain aid s1 where s1: "ensure_account ?cv (coordinator_of senv ?ctx0 text_of) ?ctx0 s = (Inr aid, s1)"
    using first_setup_run [OF assms(2,5,7-9)] by blast
  show ?thesis
  proof (rule account_setup_run [OF assms(2,7) s1], goal_cases)
    case (1 kp fp label w h2 t cfg)
    let ?ctx = "context_of cfg ''text''"
    note w = 1(5,6)
    have aid: "cc_account_id ?ctx = Some aid" "plain_text aid" using 1(4,12) assms(4) by (simp_all add: context_of_def derive_account_id_def)
    have load: "cli_config_load ?cv None None h2 = (Inr cfg, h2)" using load_saved_config [OF assms(2) 1(10,11)] assms(3) by simp
    have inv: "db_inv (wdb w)" using keepsD [OF keeps_register_account assms(8)] w(1) by simp
    have new: "(\<forall>r\<in>set (credits (wdb w)). untouched r) \<and> txs (wdb w) = []"
      using keepsD [OF register_untouched, of "ci_peer s"] assms(10,11) w(1) by simp
    obtain c where c: "credit_of (wdb w) aid = Some c" using 1(8) by (fastforce simp: sql_first_def find_None_iff image_iff dest: not_None_eq [THEN iffD1])
    then have row: "c_available c = Some (Fin 0)" "c_escrowed c = Some (Fin 0)" "c_earned c = Some (Fin 0)" "c_spent c = Some (Fin 0)"
      using new sql_first_in_set [OF c] by (auto simp: untouched_def)
    have "sql_first (\<lambda>t. t_tx_id t = wids (ci_peer s1) (widn (ci_peer s1))) (txs (wdb (ci_peer s1))) = None"
      using new 1(13) by (simp add: sql_first_def)
    moreover have "pk_inv (wdb (ci_peer s1))" using inv 1(13) by (simp add: db_inv_def)
    ultimately obtain w' where d: "cli_deposit (ledger_of ?ctx text_of) ?ctx (Fin m) ''stripe'' s1 = (Inr (Fin m, Credits_Added), s1\<lparr>ci_peer := w'\<rparr>)" "wfaults w' = []"
      "credit_of (wdb w') aid = Some (c\<lparr>c_available := Some (Fin m'), c_updated_at := Some (wnow (ci_peer s1))\<rparr>)"
      using cli_deposit_run [OF aid, of s1 m c 0 m' text_of] 1(6,13) c row assms(12,13) by auto
    have b: "fst (show_balance (ledger_of ?ctx text_of) ?ctx (s1\<lparr>ci_peer := w'\<rparr>)) = Inr (Shown_Text \<lparr>br_account_id = aid, br_available_nmc = Fin m',
        br_escrowed_nmc = Fin 0, br_total_earned_nmc = Fin 0, br_total_spent_nmc = Fin 0\<rparr>)"
      using show_balance_run [OF aid, of "s1\<lparr>ci_peer := w'\<rparr>"] d(2,3) row by (simp add: show_as_def context_of_def)
    then obtain s3 where b: "show_balance (ledger_of ?ctx text_of) ?ctx (s1\<lparr>ci_peer := w'\<rparr>) = (Inr (Shown_Text \<lparr>br_account_id = aid, br_available_nmc = Fin m',
        br_escrowed_nmc = Fin 0, br_total_earned_nmc = Fin 0, br_total_spent_nmc = Fin 0\<rparr>), s3)" by (metis prod.collapse)
    have "hatch_main he (plain_args (Account_Cmd Account_Setup)) s = Some (Inr (Shown_Account aid ''~/.config/neuralmesh/cli.toml''), s1)"
      using hatch_main_with [OF load_first_config [OF assms(2,3,6)]] s1 assms(1)
      by (simp add: run_command_of_def run_account_def showing_def account_setup_def prog_simps served_for)
    moreover have "hatch_main he (plain_args (Wallet_Cmd (Wallet_Deposit (Fin m) ''stripe''))) s1 = Some (Inr (Shown_Deposit (Fin m) Credits_Added), s1\<lparr>ci_peer := w'\<rparr>)"
      using hatch_main_with [of he s1 cfg] load d(1) 1(13) assms(1) by (simp add: run_command_of_def run_wallet_def showing_def served_for)
    moreover have "hatch_main he (plain_args (Wallet_Cmd Wallet_Balance)) (s1\<lparr>ci_peer := w'\<rparr>) = Some (Inr (Shown_Balance (Shown_Text \<lparr>br_account_id = aid,
        br_available_nmc = Fin m', br_escrowed_nmc = Fin 0, br_total_earned_nmc = Fin 0, br_total_spent_nmc = Fin 0\<rparr>)), s3)"
      using hatch_main_with [of he "s1\<lparr>ci_peer := w'\<rparr>" cfg] load b 1(13) assms(1) by (simp add: run_command_of_def run_wallet_def showing_def served_for)
    ultimately show ?case by simp
  qed
qed

definition demo_hatch :: "coord_db world hatch_env" where
  "demo_hatch = \<lparr>he_cli = demo_cli_env, he_agent_toml = demo_agent_toml, he_price_text = (\<lambda>_. ''0''), he_scripts = (\<lambda>_. []),
     he_coordinator_at = coordinator_peer (demo_senv\<lparr>se_hex := (\<lambda>_. ''0a'')\<rparr>) (\<lambda>_. []), he_ledger_at = ledger_peer (\<lambda>_. []), he_meanwhile = (\<lambda>_ w. w)\<rparr>"

lemma first_session_witness:
  "\<exists>aid s'. hatch_session demo_hatch [plain_args (Account_Cmd Account_Setup), plain_args (Wallet_Cmd (Wallet_Deposit (Fin 25) ''stripe'')),
       plain_args (Wallet_Cmd Wallet_Balance)] empty_machine =
     Some ([Inr (Shown_Account aid ''~/.config/neuralmesh/cli.toml''), Inr (Shown_Deposit (Fin 25) Credits_Added),
       Inr (Shown_Balance (Shown_Text \<lparr>br_account_id = aid, br_available_nmc = Fin 25, br_escrowed_nmc = Fin 0, br_total_earned_nmc = Fin 0,
          br_total_spent_nmc = Fin 0\<rparr>))], s')"
proof -
  let ?senv = "demo_senv\<lparr>se_hex := (\<lambda>_. ''0a'')\<rparr>"
  have "served_by ?senv (\<lambda>_. []) demo_hatch" by (simp add: served_by_def demo_hatch_def)
  moreover have "he_cli demo_hatch = demo_cli_env" "cv_var demo_cli_env ''NM_ACCOUNT_ID'' = None" by (simp_all add: demo_hatch_def demo_cli_env_def)
  moreover have "plain_text (se_hex ?senv x)" for x by (simp add: plain_text_def)
  moreover have "wfaults (ci_peer empty_machine) = []" "db_inv (wdb (ci_peer empty_machine))" "ho_files (ci_host empty_machine) p = None"
    "accounts (wdb (ci_peer empty_machine)) = []" "credits (wdb (ci_peer empty_machine)) = []" "txs (wdb (ci_peer empty_machine)) = []" for p
    using db_inv_empty by (simp_all add: empty_machine_def empty_db_def)
  ultimately show ?thesis using first_session [of ?senv "\<lambda>_. []" demo_hatch empty_machine 25 25] demo_setup_laws by simp
qed

end
