(* ===== verification/Macos_Services.thy ===== *)
theory Macos_Services
  imports Cli_Provider_Runs
begin

text \<open>
  Two services of macOS that the agent's crates wrap: the keychain (\<open>crates/nm-macos/src/keychain.rs\<close>), as commands on the machine, and the
  assertion that keeps the machine awake during a job (\<open>crates/nm-macos/src/sleep.rs\<close>), as a child process that is killed when the job ends.
\<close>

section \<open>The keychain\<close>

definition keychain_service :: string where
  "keychain_service = ''io.neuralmesh.agent''"

definition security_failed :: string where
  "security_failed = ''Failed to run `security` command''"

definition delete_command :: "string \<Rightarrow> command" where
  "delete_command key = command_of ''security'' [''delete-generic-password'', ''-s'', keychain_service, ''-a'', key]"

definition add_command :: "string \<Rightarrow> string \<Rightarrow> command" where
  "add_command key value = command_of ''security'' [''add-generic-password'', ''-s'', keychain_service, ''-a'', key, ''-w'', value, ''-U'']"

definition find_command :: "string \<Rightarrow> command" where
  "find_command key = command_of ''security'' [''find-generic-password'', ''-s'', keychain_service, ''-a'', key, ''-w'']"

definition keychain_set :: "agent_env \<Rightarrow> string \<Rightarrow> string \<Rightarrow> unit agent_prog" where
  "keychain_set env key value =
     bindE (run_command env (delete_command key)) (\<lambda>_.
     check_status env (add_command key value) security_failed (''Failed to store key '' @ key @ '' in Keychain''))"

definition keychain_get :: "agent_env \<Rightarrow> string \<Rightarrow> string agent_prog" where
  "keychain_get env key =
     bindE (output_texts env (find_command key)) (\<lambda>(r, out, err).
     bindE (someE security_failed r) (\<lambda>code.
     if code \<noteq> Some 0 then failE (''Key '' @ key @ '' not found in Keychain'') else retE (trim_str out)))"

definition keychain_delete :: "agent_env \<Rightarrow> string \<Rightarrow> unit agent_prog" where
  "keychain_delete env key = bindE (status_of env (delete_command key) security_failed) (\<lambda>_. retE ())"

text \<open>The documented behaviour of the tool, for the secrets that it finds in the files.\<close>

definition keychain_laws :: "agent_env \<Rightarrow> (files \<Rightarrow> string \<Rightarrow> string option) \<Rightarrow> bool" where
  "keychain_laws env secret \<longleftrightarrow>
     (\<forall>k fs. \<exists>code fs'. ae_exec env (delete_command k) fs = (Some code, fs') \<and> secret fs' = (secret fs)(k := None)) \<and>
     (\<forall>k v fs. \<exists>fs'. ae_exec env (add_command k v) fs = (Some (Some 0), fs') \<and> secret fs' = (secret fs)(k \<mapsto> v)) \<and>
     (\<forall>k fs. case secret fs k of
        Some v \<Rightarrow> ae_exec env (find_command k) fs = (Some (Some 0), fs) \<and> ae_stdout env (find_command k) fs = v @ [CHR 0x0A]
      | None \<Rightarrow> ae_exec env (find_command k) fs = (Some (Some 44), fs))"

lemma keychain_get_run:
  assumes "keychain_laws env secret"
  shows "fst (keychain_get env k s) = (case secret (ho_files s) k of Some v \<Rightarrow> Inr (trim_str (v @ [CHR 0x0A])) | None \<Rightarrow> Inl (''Key '' @ k @ '' not found in Keychain''))"
proof -
  have law: "case secret (ho_files s) k of
        Some v \<Rightarrow> ae_exec env (find_command k) (ho_files s) = (Some (Some 0), ho_files s) \<and> ae_stdout env (find_command k) (ho_files s) = v @ [CHR 0x0A]
      | None \<Rightarrow> ae_exec env (find_command k) (ho_files s) = (Some (Some 44), ho_files s)"
    using assms unfolding keychain_laws_def by blast
  show ?thesis
    using law by (cases "secret (ho_files s) k") (simp_all add: keychain_get_def output_texts_def run_command_def prog_simps)
qed

text \<open>A secret is found as it was stored, without the white space around it; storing and deleting leave the other secrets.\<close>

lemma keychain_roundtrip:
  assumes "keychain_laws env secret"
  shows "\<exists>s'. keychain_set env k v s = (Inr (), s') \<and> fst (keychain_get env k s') = Inr (trim_str (v @ [CHR 0x0A])) \<and>
     (\<forall>k'. k' \<noteq> k \<longrightarrow> fst (keychain_get env k' s') = fst (keychain_get env k' s)) \<and>
     (\<exists>s''. keychain_delete env k s' = (Inr (), s'') \<and> fst (keychain_get env k s'') = Inl (''Key '' @ k @ '' not found in Keychain''))"
proof -
  obtain code fs1 where d: "ae_exec env (delete_command k) (ho_files s) = (Some code, fs1)" "secret fs1 = (secret (ho_files s))(k := None)"
    using assms unfolding keychain_laws_def by blast
  obtain fs2 where a: "ae_exec env (add_command k v) fs1 = (Some (Some 0), fs2)" "secret fs2 = (secret fs1)(k \<mapsto> v)"
    using assms unfolding keychain_laws_def by blast
  obtain code' fs3 where x: "ae_exec env (delete_command k) fs2 = (Some code', fs3)" "secret fs3 = (secret fs2)(k := None)"
    using assms unfolding keychain_laws_def by blast
  obtain s' where s': "keychain_set env k v s = (Inr (), s')" "ho_files s' = fs2"
    using d(1) a(1) by (simp add: keychain_set_def check_status_def status_of_def run_command_def prog_simps)
  obtain s'' where s'': "keychain_delete env k s' = (Inr (), s'')" "ho_files s'' = fs3"
    using s'(2) x(1) by (simp add: keychain_delete_def status_of_def run_command_def prog_simps)
  show ?thesis using s' s'' d(2) a(2) x(2) by (auto simp: keychain_get_run [OF assms])
qed

section \<open>Staying awake\<close>

text \<open>The children that are alive, and the next process number.\<close>

record processes =
  pr_live :: "nat set"
  pr_next :: nat

record sleep_assertion =
  sl_child :: "nat option"
  sl_job_id :: string

definition sleep_noop :: sleep_assertion where
  "sleep_noop = \<lparr>sl_child = None, sl_job_id = []\<rparr>"

definition sleep_acquire :: "string option \<Rightarrow> string \<Rightarrow> (processes, string, sleep_assertion) prog" where
  "sleep_acquire spawn_error job_id = (\<lambda>ps. case spawn_error of
     Some e \<Rightarrow> (Inl e, ps)
   | None \<Rightarrow> (Inr \<lparr>sl_child = Some (pr_next ps), sl_job_id = job_id\<rparr>, ps\<lparr>pr_live := insert (pr_next ps) (pr_live ps), pr_next := Suc (pr_next ps)\<rparr>))"

text \<open>A child that cannot be killed is given up.\<close>

definition sleep_release :: "bool \<Rightarrow> sleep_assertion \<Rightarrow> processes \<Rightarrow> sleep_assertion \<times> processes" where
  "sleep_release killed a ps = (case sl_child a of
     None \<Rightarrow> (a, ps) | Some c \<Rightarrow> (a\<lparr>sl_child := None\<rparr>, if killed then ps\<lparr>pr_live := pr_live ps - {c}\<rparr> else ps))"

text \<open>A job under its assertion, as the runner holds it: without one when \<open>caffeinate\<close> cannot be started, and dropped however the job ends.\<close>

definition kept_awake :: "string option \<Rightarrow> bool \<Rightarrow> string \<Rightarrow> (processes \<Rightarrow> 'a \<times> processes) \<Rightarrow> processes \<Rightarrow> 'a \<times> processes" where
  "kept_awake spawn_error killed job_id job ps =
     (case sleep_acquire spawn_error job_id ps of (r, ps1) \<Rightarrow>
        let guard = (case r of Inr a \<Rightarrow> a | Inl _ \<Rightarrow> sleep_noop) in
        (case job ps1 of (x, ps2) \<Rightarrow> (x, snd (sleep_release killed guard ps2))))"

text \<open>While the job runs, an assertion that was started lives; afterwards only what the job itself left behind, and releasing twice is
  releasing once.\<close>

lemma awake_only_during_job:
  assumes "\<And>ps. pr_live (snd (job ps)) = pr_live ps" "pr_next ps \<notin> pr_live ps"
  shows "pr_live (snd (kept_awake spawn_error True job_id job ps)) = pr_live ps"
proof (cases spawn_error)
  case None
  let ?ps1 = "ps\<lparr>pr_live := insert (pr_next ps) (pr_live ps), pr_next := Suc (pr_next ps)\<rparr>"
  obtain x ps2 where job: "job ?ps1 = (x, ps2)" by fastforce
  with assms(1) [of ?ps1] have "pr_live ps2 = insert (pr_next ps) (pr_live ps)" by simp
  with assms(2) job None show ?thesis by (simp add: kept_awake_def sleep_acquire_def sleep_release_def)
next
  case (Some e)
  with assms(1) [of ps] show ?thesis
    by (simp add: kept_awake_def sleep_acquire_def sleep_release_def sleep_noop_def split: prod.split)
qed

lemma release_twice: "sleep_release k2 (fst (sleep_release k1 a ps)) ps' = (fst (sleep_release k1 a ps), ps')"
  by (simp add: sleep_release_def split: option.split)

end
