(* ===== verification/Spec2Isabelle.thy ===== *)
theory Spec2Isabelle
  imports Coordinator_System Agent_Jobs Attestation Wireguard Gpu_Detect Solana_Escrow Evm_Encoding Cli_Sessions Macos_Services
begin

text \<open>
  Verification of the NeuralMesh services.

  \<^bold>\<open>The program.\<close> NeuralMesh is a market for the idle GPUs of Macs. Consumers submit jobs with the command-line client
  \<^verbatim>\<open>hatch\<close> (\<^verbatim>\<open>src/cli\<close>). The coordinator (\<^verbatim>\<open>src/coordinator\<close>) keeps the market: a REST and a gRPC interface, a matching engine that
  books providers every few seconds, a watcher that gives up on providers whose heartbeats stop, and the eviction of silent providers, all
  over one PostgreSQL database. The ledger service (\<^verbatim>\<open>src/ledger\<close>) keeps the credits and the escrows in the same database and settles them on
  Arbitrum through an oracle; the Solana program (\<^verbatim>\<open>src/contracts/solana\<close>) is the settlement on the other chain. The provider agent
  (\<^verbatim>\<open>src/agent\<close>, on the crates \<^verbatim>\<open>nm-macos\<close>, \<^verbatim>\<open>nm-gpu\<close>, \<^verbatim>\<open>nm-crypto\<close> and \<^verbatim>\<open>nm-wireguard\<close>) watches its machine, offers it while it is
  idle, fetches the job it was given, verifies and runs it in a sandbox, takes checkpoints, and reports the result.
  A job's money moves from the consumer's balance into an escrow (submission), and from there back (cancellation, failure, loss of the
  provider) or to the provider (completion). No handler opens a transaction: every SQL statement takes effect by itself, and a handler that
  fails half way keeps what it has done. The model has this too.

  \<^bold>\<open>The method.\<close> Every function of the source is one definition of the same name (with a prefix where two have the same name), in the
  order of its statements, with its errors as values. A handler, a command or a task is a program of the monad \<open>prog\<close> of \<open>NM_Prelude\<close>: it
  takes a state to an error or a value and a state. The services' state is \<open>coord_db world\<close>: the tables, the clock, the supply of fresh
  UUIDs, and the list of faults that the next statements meet (\<open>No_Fault\<close>, the statement is lost, or it is applied and its answer is lost).
  So a theorem over every \<open>world\<close> covers every pattern of failing statements. An agent or a client has as its state a machine (its files and
  the commands that it ran) beside the state of the peer that it talks to.

  \<^bold>\<open>The theories.\<close>

  \<^item> \<open>NM_Prelude\<close>: the monad, \<open>keeps\<close> (a property that a program preserves) with the collection of rules from which every preservation proof is
    made, \<open>bindE_ok\<close> and the like (what a successful run has done), and lemmas on lists, options and casts. \<open>Rust_Text\<close>: splitting, trimming
    and number parsing of the standard library.
  \<^item> \<open>F64\<close>: binary floating point with exact rounding, over the locale \<open>rounding\<close>, interpreted for \<open>f64\<close> and \<open>f32\<close>. \<open>Sql\<close>: what is used of
    PostgreSQL and sqlx, with the locale \<open>keyed_store\<close> of a table with a primary key. \<open>Http\<close>: JSON values, status codes, and the three
    ways a handler ends.
  \<^item> \<open>Coord_Db\<close>: the schema of \<^verbatim>\<open>coordinator/src/db/migrations\<close>, one record per row; \<open>keyed_store\<close> is interpreted on the tables of jobs,
    credits, providers and accounts; \<open>db_inv\<close> is the invariant of the schema. \<open>Common_Types\<close>: \<^verbatim>\<open>nm-common/src/types.rs\<close>.
  \<^item> \<open>Rest_Jobs\<close>, \<open>Rest_Lifecycle\<close>, \<open>Rest_Accounts\<close>, \<open>Rest_Ledger\<close>: the handlers of \<^verbatim>\<open>coordinator/src/api/rest.rs\<close>. \<open>Grpc_Api\<close>:
    \<^verbatim>\<open>api/grpc.rs\<close>. \<open>Matching\<close>: \<^verbatim>\<open>matching/mod.rs\<close> and \<^verbatim>\<open>reputation/mod.rs\<close>, a pass of each task. \<open>Ledger_Service\<close>:
    \<^verbatim>\<open>ledger/src/off_chain/handlers.rs\<close>, the settlement endpoints of \<^verbatim>\<open>ledger/src/main.rs\<close>, and their client \<^verbatim>\<open>coordinator/src/on_chain.rs\<close>.
    \<open>Coordinator_System\<close>: the routes of the services and the tasks as one step relation, \<open>sys_step\<close>.
  \<^item> \<open>Evm_Oracle\<close>, \<open>Evm_Encoding\<close>: \<^verbatim>\<open>ledger/src/on_chain/arbitrum.rs\<close>, and its encodings against the specifications of RLP and the ABI.
  \<^item> \<open>Solana_Program\<close>, \<open>Solana_Runs\<close>, \<open>Solana_Escrow\<close>: the Solana program; what its instructions do when they succeed; the abstract life of an
    escrow, the refinement by the instructions, and the chains that users can bring about.
  \<^item> \<open>Agent_Monitor\<close>: \<^verbatim>\<open>nm-macos/src/idle.rs\<close> and the event loop of \<^verbatim>\<open>agent/src/idle_monitor.rs\<close>. \<open>Job_Runner\<close>, \<open>Job_Claims\<close>:
    \<^verbatim>\<open>job_runner.rs\<close>, \<^verbatim>\<open>checkpoint.rs\<close>, \<^verbatim>\<open>sandbox.rs\<close>, \<^verbatim>\<open>virt.rs\<close>. \<open>Agent_Startup\<close>, \<open>Agent_Runs\<close>: \<^verbatim>\<open>agent/src/main.rs\<close>,
    \<^verbatim>\<open>coordinator_client.rs\<close>, \<^verbatim>\<open>heartbeat.rs\<close> and the download of a checkpoint. \<open>Agent_Jobs\<close>: a job from its acceptance to its
    report, the agent, the coordinator and the client together, and the checkpoint ticker with the restore elsewhere. \<open>Macos_Services\<close>:
    \<^verbatim>\<open>keychain.rs\<close>, \<^verbatim>\<open>sleep.rs\<close>.
  \<^item> \<open>Attestation\<close>: \<^verbatim>\<open>nm-crypto\<close>. \<open>Wireguard\<close>: \<^verbatim>\<open>nm-wireguard\<close> and the agent's tunnel of a job. \<open>Gpu_Detect\<close>: \<^verbatim>\<open>nm-gpu\<close>, the chip
    detection of \<^verbatim>\<open>nm-macos\<close> and the agent's \<^verbatim>\<open>runtime_check.rs\<close>.
  \<^item> \<open>Cli_Http\<close>, \<open>Cli_Wallet\<close>, \<open>Cli_Jobs\<close>, \<open>Cli_Account\<close>, \<open>Cli_Provider\<close>, \<open>Cli_Main\<close>: the client, with the configuration files that it
    shares with the agent and the agent's launchd service. \<open>Cli_Job_Runs\<close>, \<open>Cli_Job_Polls\<close>, \<open>Cli_Provider_Runs\<close>, \<open>Cli_Sessions\<close>: what its
    commands do against the services of the model.
\<close>

text \<open>
  \<^bold>\<open>What the theorems show.\<close> The properties carry the labels C1 to C40.

  \<^item> \<^emph>\<open>Invariants.\<close> In every run of the services with every pattern of failures the tables stay well formed and no escrow is lost or reopened
    (\<open>system_invariant\<close>, by the locale \<open>escrow_history\<close> interpreted on \<open>recorded\<close>); the off-chain ledger never goes below zero
    (\<open>ledger_solvent\<close>); the auction never books a provider twice (\<open>auction_cycle_leases\<close>); the vault of a live Solana escrow covers it
    (\<open>escrow_vault_backed\<close>).
  \<^item> \<^emph>\<open>Money.\<close> What a submission, a cancellation, a completion, a loss and a settlement do to the balances, to the last rounding; that a
    cancelled job can still be paid for, and that the Solana escrow can be stolen, because a check is missing in the source.
  \<^item> \<^emph>\<open>Refinement and equivalence.\<close> Solana instructions against the life of an escrow; the transaction encoder against RLP, from which its
    access list deviates; the matching engine against the best admissible offer; the bundle hash against a canonical form.
  \<^item> \<^emph>\<open>Round trips.\<close> Registration and verification, checkpoints, STUN, ABI data, the table of \<^verbatim>\<open>nvidia-smi\<close>, the account and the settings of
    a machine.
  \<^item> \<^emph>\<open>The agent.\<close> No bundle runs unless it hashes to the expected value; what becomes of logs and of restored progress, to a consumer who pays for
    a job and is shown nothing (\<open>paid_job_without_log\<close>); what its start registers.
  \<^item> \<^emph>\<open>The client and the services together.\<close> What a command sends, what the handlers of the model answer and what the user is shown, with
    the places where the two sides disagree (a bundle that the agent cannot verify, a withdrawal reported as failed, filters that nobody reads).

  \<^bold>\<open>Termination and bounds.\<close> Nearly all recursion is structural, on the list that the source iterates over; the others end by the length of
  the text or the size of the number. The wait for a receipt polls at most 30 times, as the source does. Three loops may go on forever or
  take a proof to end, and are partial functions, where no value means not returning: the scan of a STUN packet (it always ends,
  \<open>stun_scan_total\<close>), \<open>follow_logs\<close> (it ends when the job does, \<open>follow_logs_complete\<close>, by the locale \<open>log_source\<close> interpreted on the
  coordinator) and \<open>wait_for_completion\<close> (it ends at the first poll that finds the job ended, and if there is none it never does,
  \<open>wait_ends_with_job\<close>). The services, the commands of the machine and the HTTP peers are total functions, so that a call of theirs that hangs
  is not in the model, and the other commands of the client return by definition. The checkpoint ticker is run over a list of its
  ticks. No fuel is used. Integers whose overflow can be observed are words (the Solana program, hashes, packets); elsewhere an integer is kept
  with its range and the casts are written out.

  \<^bold>\<open>Parameters.\<close> Code that is not in the repository is an argument: SHA-256, Keccak, the curves and post-quantum schemes, hexadecimal and Base64,
  the JSON and TOML printers and parsers, \<^verbatim>\<open>tar\<close>, the programs that the agent runs and what they print, the Solana runtime and token program, the
  HTTP POST to the chain, clocks, random seeds, host name and environment. What a theorem needs of them is a named hypothesis (\<open>crypto_laws\<close>,
  a parser that reads what its printer wrote, a token program that moves what it is asked to), and its witness gives an instance.

  \<^bold>\<open>Not modelled.\<close> The generated code of \<^verbatim>\<open>nm-proto\<close> (its messages are records); the start of the two services (environment, pools, sockets,
  migrations, CORS); logging, colours, tables and progress bars of printed output, and the digits of numbers in it; the timers around the tasks,
  which are steps that may happen at any time; interleaving within a handler, as handlers run one after the other; the parsing of command
  lines by clap; rent, account sizes and compute limits on Solana; characters outside ASCII in text that is split or trimmed. The
  dashboard, the scripts and the Solidity contracts are not Rust.
\<close>

section \<open>The whole system\<close>

text \<open>C1: The tables stay well formed and no escrow is lost. In every run of the coordinator, the ledger service and the background tasks,
  whatever requests arrive in whatever order, whichever statements fail and however the clock moves: every table keeps its primary key
  unique and the trust scores stay between 0 and 5; and every escrow of the start is still there with its job, its owner and its amount,
  released if it was released, so that no handler opens a released escrow again.\<close>

theorem system_invariant:
  assumes "(sys_step env)\<^sup>*\<^sup>* w w'" "db_inv (wdb w)" "e \<in> set (escrows (wdb w))"
  shows "db_inv (wdb w') \<and> (\<exists>!r. r \<in> set (escrows (wdb w')) \<and> e_escrow_id r = e_escrow_id e) \<and>
    (\<exists>r\<in>set (escrows (wdb w')). e_escrow_id r = e_escrow_id e \<and> e_job_id r = e_job_id e \<and> e_consumer_id r = e_consumer_id e \<and>
       e_locked_nmc r = e_locked_nmc e \<and> (e_state e = Some ''released'' \<longrightarrow> e_state r = Some ''released''))"
proof -
  have inv: "db_inv (wdb w')" using assms(1,2) by (induction rule: rtranclp_induct) (auto intro: sys_step_keeps_db)
  have "recorded e (escrows (wdb w))" using assms(3) by (auto simp: recorded_def)
  then have "recorded e (escrows (wdb w'))" by (rule recorded.run_keeps_esc [OF assms(1)])
  then obtain r where r: "r \<in> set (escrows (wdb w'))" "e_escrow_id r = e_escrow_id e" "e_job_id r = e_job_id e" "e_consumer_id r = e_consumer_id e"
      "e_locked_nmc r = e_locked_nmc e" "e_state e = Some ''released'' \<longrightarrow> e_state r = Some ''released''"
    unfolding recorded_def by blast
  moreover have "x = y" if "x \<in> set (escrows (wdb w'))" "y \<in> set (escrows (wdb w'))" "e_escrow_id x = e_escrow_id y" for x y
    using inv that by (auto simp: db_inv_def pk_inv_def keys_distinct_def distinct_map inj_on_def)
  ultimately show ?thesis using inv by metis
qed

definition demo_system :: sys_env where
  "demo_system = \<lparr>se_sha = (\<lambda>s. s), se_hex = (\<lambda>s. s), se_tar = (\<lambda>_ _. Setup_Failed), se_public_url = ''http://c'', se_secret = None,
     se_oracle = False, se_nats = False, se_ledger_url = Some ''http://l'', se_ledger_base = ''http://l''\<rparr>"

text \<open>A job is cancelled, its provider completes it nevertheless, and the auction runs with a failing database.\<close>

theorem system_invariant_witness:
  "let w1 = rest_router demo_system (Delete_Job ''job'') (world_at lease_db);
       w2 = rest_router demo_system (Post_Complete ''job'' demo_complete) w1;
       w3 = snd (run_auction_cycle False (w2\<lparr>wnow := 5000, wfaults := [No_Fault, Applied_Lost]\<rparr>))
   in db_inv (wdb w3) \<and> (\<exists>r\<in>set (escrows (wdb w3)). e_escrow_id r = ''e1'' \<and> e_locked_nmc r = Fin 4)"
proof -
  let ?w1 = "rest_router demo_system (Delete_Job ''job'') (world_at lease_db)"
  let ?w2 = "rest_router demo_system (Post_Complete ''job'' demo_complete) ?w1"
  let ?v = "?w2\<lparr>wnow := 5000, wfaults := [No_Fault, Applied_Lost]\<rparr>"
  have steps: "sys_step demo_system (world_at lease_db) ?w1" "sys_step demo_system ?w1 ?w2" "sys_step demo_system ?w2 ?v"
    by (rule step_rest step_environment)+
  have auction: "sys_step demo_system ?v (snd (run_auction_cycle False ?v))"
    using step_auction [of demo_system ?v] by (simp add: demo_system_def)
  have run: "(sys_step demo_system)\<^sup>*\<^sup>* (world_at lease_db) (snd (run_auction_cycle False ?v))"
    using steps auction by (meson rtranclp.rtrancl_into_rtrancl rtranclp.rtrancl_refl)
  have "new_escrow_row ''e1'' (Some ''job'') ''cons'' (Fin 4) \<in> set (escrows (wdb (world_at lease_db)))" by (simp add: lease_db_def)
  from system_invariant [OF run _ this] show ?thesis by (auto simp: Let_def new_escrow_row_def)
qed

end
